(* ===== verification/Shaka_Prelude.thy ===== *)
theory Shaka_Prelude
  imports Main "HOL-Library.Word" "HOL-Library.List_Lexorder" "HOL-Library.Char_ord"
begin

text \<open>
  Shared vocabulary of the development: Rust's \<open>Result\<close> as a sum with the \<open>?\<close> operator as
  \<open>and_then\<close>, loops over a slice that stop at the first error, the standard-library string
  predicates the crates use (on UTF-8 bytes), \<open>BTreeMap\<close> as a sorted association list, and the
  reading of the SQL statements the store issues as functions on lists of rows.
\<close>

named_theorems result_simps \<open>how a chain of fallible calls succeeds or fails\<close>
named_theorems table_simps \<open>queries and updates on tables\<close>

subsection \<open>Results\<close>

text \<open>\<open>Result<T, E>\<close> is \<open>'e + 'a\<close>: \<open>Inl\<close> an error, \<open>Inr\<close> a value. \<open>r?\<close> followed by the rest
  of the body is \<open>and_then r (\<lambda>x. rest)\<close>.\<close>

definition and_then :: "'e + 'a \<Rightarrow> ('a \<Rightarrow> 'e + 'b) \<Rightarrow> 'e + 'b" where
  "and_then r f = (case r of Inl e \<Rightarrow> Inl e | Inr x \<Rightarrow> f x)"

definition map_err :: "('e \<Rightarrow> 'd) \<Rightarrow> 'e + 'a \<Rightarrow> 'd + 'a" where
  "map_err h r = (case r of Inl e \<Rightarrow> Inl (h e) | Inr x \<Rightarrow> Inr x)"

definition is_ok :: "'e + 'a \<Rightarrow> bool" where
  "is_ok r = (case r of Inl _ \<Rightarrow> False | Inr _ \<Rightarrow> True)"

definition ok_or :: "'e \<Rightarrow> 'a option \<Rightarrow> 'e + 'a" where
  "ok_or e x = (case x of None \<Rightarrow> Inl e | Some y \<Rightarrow> Inr y)"

definition ensure :: "bool \<Rightarrow> 'e \<Rightarrow> 'e + unit" where
  "ensure b e = (if b then Inr () else Inl e)"

lemma and_then_simps [simp]:
  "and_then (Inl e) f = Inl e" "and_then (Inr x) f = f x"
  by (simp_all add: and_then_def)

lemma and_then_Inr_iff [result_simps]:
  "and_then r f = Inr y \<longleftrightarrow> (\<exists>x. r = Inr x \<and> f x = Inr y)"
  by (cases r) auto

lemma and_then_Inl_iff [result_simps]:
  "and_then r f = Inl e \<longleftrightarrow> r = Inl e \<or> (\<exists>x. r = Inr x \<and> f x = Inl e)"
  by (cases r) auto

lemma and_then_assoc: "and_then (and_then r f) g = and_then r (\<lambda>x. and_then (f x) g)"
  by (cases r) auto

lemma and_then_cong [fundef_cong]:
  "r = r' \<Longrightarrow> (\<And>x. r' = Inr x \<Longrightarrow> f x = g x) \<Longrightarrow> and_then r f = and_then r' g"
  by (cases r') auto

lemma map_err_simps [simp]:
  "map_err h (Inl e) = Inl (h e)" "map_err h (Inr x) = Inr x"
  by (simp_all add: map_err_def)

lemma map_err_Inr_iff [result_simps]: "map_err h r = Inr x \<longleftrightarrow> r = Inr x"
  by (cases r) auto

lemma is_ok_simps [simp]: "is_ok (Inl e) = False" "is_ok (Inr x) = True"
  by (simp_all add: is_ok_def)

lemma is_ok_iff: "is_ok r \<longleftrightarrow> (\<exists>x. r = Inr x)"
  by (cases r) auto

lemma is_ok_map_err [simp]: "is_ok (map_err h r) = is_ok r"
  by (cases r) auto

lemma is_ok_and_then [simp]:
  "is_ok (and_then r f) \<longleftrightarrow> (\<exists>x. r = Inr x \<and> is_ok (f x))"
  by (cases r) auto

lemma ok_or_Inr_iff [result_simps]: "ok_or e x = Inr y \<longleftrightarrow> x = Some y"
  by (cases x) (auto simp: ok_or_def)

lemma ok_or_simps [simp]: "ok_or e None = Inl e" "ok_or e (Some y) = Inr y"
  by (simp_all add: ok_or_def)

lemma ensure_Inr_iff [result_simps]: "ensure b e = Inr u \<longleftrightarrow> b"
  by (simp add: ensure_def)

lemma ensure_Inl_iff [result_simps]: "ensure b e = Inl d \<longleftrightarrow> \<not> b \<and> d = e"
  by (auto simp: ensure_def)

lemma ensure_simps [simp]: "ensure True e = Inr ()" "ensure False e = Inl e"
  by (simp_all add: ensure_def)

lemma is_ok_ensure [simp]: "is_ok (ensure b e) = b"
  by (simp add: ensure_def)

text \<open>A \<open>for\<close> loop whose body may return early with \<open>?\<close>: each iteration takes the state left by
  the one before.\<close>

fun fold_result :: "('s \<Rightarrow> 'a \<Rightarrow> 'e + 's) \<Rightarrow> 'a list \<Rightarrow> 's \<Rightarrow> 'e + 's" where
  "fold_result f [] s = Inr s"
| "fold_result f (x # xs) s = and_then (f s x) (fold_result f xs)"

lemma fold_result_append:
  "fold_result f (xs @ ys) s = and_then (fold_result f xs s) (fold_result f ys)"
proof (induction xs arbitrary: s)
  case (Cons x xs)
  then show ?case by (cases "f s x") auto
qed simp

lemma fold_result_invariant:
  assumes "fold_result f xs s = Inr t" and "P s"
    and "\<And>x s t. x \<in> set xs \<Longrightarrow> P s \<Longrightarrow> f s x = Inr t \<Longrightarrow> P t"
  shows "P t"
  using assms by (induction xs arbitrary: s) (auto simp: result_simps)

text \<open>A loop that only checks (\<open>for x in xs { check(x)?; }\<close>).\<close>

fun check_all :: "('a \<Rightarrow> 'e + unit) \<Rightarrow> 'a list \<Rightarrow> 'e + unit" where
  "check_all f [] = Inr ()"
| "check_all f (x # xs) = and_then (f x) (\<lambda>_. check_all f xs)"

lemma check_all_Inr_iff [result_simps]:
  "check_all f xs = Inr u \<longleftrightarrow> (\<forall>x \<in> set xs. f x = Inr ())"
  by (induction xs) (auto simp: result_simps)

text \<open>\<open>iter.map(f).collect::<Result<Vec<_>, _>>()\<close>.\<close>

fun collect_results :: "('a \<Rightarrow> 'e + 'b) \<Rightarrow> 'a list \<Rightarrow> 'e + 'b list" where
  "collect_results f [] = Inr []"
| "collect_results f (x # xs) =
     and_then (f x) (\<lambda>y. and_then (collect_results f xs) (\<lambda>ys. Inr (y # ys)))"

lemma collect_results_total:
  "(\<And>x. x \<in> set xs \<Longrightarrow> f x = Inr (g x)) \<Longrightarrow> collect_results f xs = Inr (map g xs)"
  by (induction xs) auto

lemma collect_results_length: "collect_results f xs = Inr ys \<Longrightarrow> length ys = length xs"
  by (induction xs arbitrary: ys) (auto simp: result_simps)

lemma collect_results_list_all2:
  "collect_results f xs = Inr ys \<longleftrightarrow> list_all2 (\<lambda>x y. f x = Inr y) xs ys"
  by (induction xs arbitrary: ys) (auto simp: result_simps list_all2_Cons1)

subsection \<open>Strings\<close>

text \<open>A Rust \<open>String\<close> is a list of UTF-8 bytes: \<open>len()\<close> counts bytes, as \<open>length\<close> does here.
  \<open>trim().is_empty()\<close> asks whether every character has the Unicode property White\_Space; the
  sequences below are the UTF-8 encodings of exactly those characters.\<close>

definition ascii_white :: "char \<Rightarrow> bool" where
  "ascii_white c \<longleftrightarrow> c = CHR '' '' \<or> (9 \<le> (of_char c :: nat) \<and> (of_char c :: nat) \<le> 13)"

definition wide_white :: "char \<Rightarrow> char \<Rightarrow> char \<Rightarrow> bool" where
  "wide_white a b c \<longleftrightarrow>
     (let x = (of_char c :: nat) in
      (a = CHR 0xE1 \<and> b = CHR 0x9A \<and> x = 0x80)
      \<or> (a = CHR 0xE2 \<and> b = CHR 0x80 \<and> (0x80 \<le> x \<and> x \<le> 0x8A \<or> x = 0xA8 \<or> x = 0xA9 \<or> x = 0xAF))
      \<or> (a = CHR 0xE2 \<and> b = CHR 0x81 \<and> x = 0x9F)
      \<or> (a = CHR 0xE3 \<and> b = CHR 0x80 \<and> x = 0x80))"

fun trim_is_empty :: "string \<Rightarrow> bool" where
  "trim_is_empty [] = True"
| "trim_is_empty (a # s) =
     (if ascii_white a then trim_is_empty s
      else (case s of
          [] \<Rightarrow> False
        | b # s' \<Rightarrow>
            if a = CHR 0xC2 \<and> (b = CHR 0x85 \<or> b = CHR 0xA0) then trim_is_empty s'
            else (case s' of
                [] \<Rightarrow> False
              | c # s'' \<Rightarrow> wide_white a b c \<and> trim_is_empty s'')))"

definition ascii_alphanumeric :: "char \<Rightarrow> bool" where
  "ascii_alphanumeric c \<longleftrightarrow>
     (let x = (of_char c :: nat) in
      (0x30 \<le> x \<and> x \<le> 0x39) \<or> (0x41 \<le> x \<and> x \<le> 0x5A) \<or> (0x61 \<le> x \<and> x \<le> 0x7A))"

definition ascii_hexdigit :: "char \<Rightarrow> bool" where
  "ascii_hexdigit c \<longleftrightarrow>
     (let x = (of_char c :: nat) in
      (0x30 \<le> x \<and> x \<le> 0x39) \<or> (0x41 \<le> x \<and> x \<le> 0x46) \<or> (0x61 \<le> x \<and> x \<le> 0x66))"

lemma hexdigit_alphanumeric: "ascii_hexdigit c \<Longrightarrow> ascii_alphanumeric c"
  by (auto simp: ascii_hexdigit_def ascii_alphanumeric_def Let_def)

text \<open>\<open>to_ascii_lowercase\<close> and \<open>eq_ignore_ascii_case\<close> on a character.\<close>

definition ascii_lower :: "char \<Rightarrow> char" where
  "ascii_lower c = (let x = (of_char c :: nat) in if 0x41 \<le> x \<and> x \<le> 0x5A then char_of (x + 32) else c)"

text \<open>\<open>s.chars().take(n)\<close>: a character is a leading byte with its continuation bytes.\<close>

definition continuation_byte :: "char \<Rightarrow> bool" where
  "continuation_byte c \<longleftrightarrow> (let x = (of_char c :: nat) in 0x80 \<le> x \<and> x < 0xC0)"

fun take_chars :: "nat \<Rightarrow> string \<Rightarrow> string" where
  "take_chars n [] = []"
| "take_chars n (c # s) =
     (if continuation_byte c then c # take_chars n s
      else (case n of 0 \<Rightarrow> [] | Suc m \<Rightarrow> c # take_chars m s))"

text \<open>\<open>chars().count()\<close>.\<close>

definition char_count :: "string \<Rightarrow> nat" where
  "char_count s = length (filter (\<lambda>c. \<not> continuation_byte c) s)"

lemma char_count_take: "char_count (take_chars n s) \<le> n"
  by (induction n s rule: take_chars.induct) (auto simp: char_count_def split: nat.split)

text \<open>Decimal rendering of an unsigned integer (\<open>format!("{n}")\<close>).\<close>

definition digit :: "nat \<Rightarrow> char" where
  "digit d = char_of (48 + d)"

fun show_nat :: "nat \<Rightarrow> string" where
  "show_nat n = (if n < 10 then [digit n] else show_nat (n div 10) @ [digit (n mod 10)])"

declare show_nat.simps [simp del]

lemma digit_inject: "d < 10 \<Longrightarrow> e < 10 \<Longrightarrow> digit d = digit e \<longleftrightarrow> d = e"
  by (auto simp: digit_def char_of_eq_iff take_bit_eq_mod dest: arg_cong [where f = of_char])

lemma show_nat_nonempty: "show_nat n \<noteq> []"
  by (subst show_nat.simps) simp

lemma show_nat_inject: "show_nat m = show_nat n \<longleftrightarrow> m = n"
proof (induction m arbitrary: n rule: show_nat.induct)
  case (1 m)
  show ?case
  proof (cases "m < 10 \<or> n < 10")
    case True
    then show ?thesis
      by (subst (1 2) show_nat.simps)
        (auto simp: digit_inject append_eq_Cons_conv Cons_eq_append_conv show_nat_nonempty)
  next
    case False
    then have "show_nat m = show_nat n \<longleftrightarrow>
        show_nat (m div 10) = show_nat (n div 10) \<and> digit (m mod 10) = digit (n mod 10)"
      by (subst (1 2) show_nat.simps) simp
    also have "\<dots> \<longleftrightarrow> m div 10 = n div 10 \<and> m mod 10 = n mod 10"
      using "1.IH" False by (simp add: digit_inject)
    also have "\<dots> \<longleftrightarrow> m = n"
      by (metis div_mult_mod_eq)
    finally show ?thesis .
  qed
qed

lemma digit_not_colon: "d < 10 \<Longrightarrow> digit d \<noteq> CHR '':''"
  by (auto simp: digit_def char_of_eq_iff take_bit_eq_mod dest: arg_cong [where f = of_char])

lemma show_nat_no_colon: "CHR '':'' \<notin> set (show_nat n)"
proof (induction n rule: show_nat.induct)
  case (1 n)
  then show ?case
    by (subst show_nat.simps) (auto simp: digit_not_colon [symmetric])
qed

subsection \<open>Machine integers\<close>

definition saturating_add :: "'w::len word \<Rightarrow> 'w word \<Rightarrow> 'w word" where
  "saturating_add a b = (if unat a + unat b < 2 ^ LENGTH('w) then a + b else - 1)"

lemma saturating_add_unat:
  "unat (saturating_add (a :: 'w::len word) b) = min (unat a + unat b) (2 ^ LENGTH('w) - 1)"
proof (cases "unat a + unat b < 2 ^ LENGTH('w)")
  case True
  then show ?thesis by (simp add: saturating_add_def unat_word_ariths)
next
  case False
  then show ?thesis by (simp add: saturating_add_def unsigned_minus_1_eq_mask mask_eq_exp_minus_1)
qed

subsection \<open>Ordered maps\<close>

text \<open>\<open>BTreeMap<K, V>\<close> is an association list kept sorted by key, so that equality of maps is
  equality of lists and iteration is in key order; \<open>get\<close> is \<open>map_of\<close>.\<close>

type_synonym ('k, 'v) btree = "('k \<times> 'v) list"

abbreviation btree_ok :: "('k::linorder \<times> 'v) list \<Rightarrow> bool" where
  "btree_ok m \<equiv> sorted_wrt (<) (map fst m)"

fun bt_insert :: "'k::linorder \<Rightarrow> 'v \<Rightarrow> ('k, 'v) btree \<Rightarrow> ('k, 'v) btree" where
  "bt_insert k v [] = [(k, v)]"
| "bt_insert k v ((k', v') # m) =
     (if k < k' then (k, v) # (k', v') # m
      else if k = k' then (k, v) # m
      else (k', v') # bt_insert k v m)"

definition bt_collect :: "('k::linorder \<times> 'v) list \<Rightarrow> ('k, 'v) btree" where
  "bt_collect ps = fold (\<lambda>(k, v) m. bt_insert k v m) ps []"

lemma keys_bt_insert [simp]: "fst ` set (bt_insert k v m) = insert k (fst ` set m)"
  by (induction k v m rule: bt_insert.induct) (simp_all add: insert_commute)

lemma btree_ok_insert [intro]: "btree_ok m \<Longrightarrow> btree_ok (bt_insert k v m)"
proof (induction m)
  case (Cons p m)
  obtain k' v' where p: "p = (k', v')" by (cases p)
  have "\<forall>x \<in> fst ` set (bt_insert k v m). k' < x" if "k' < k"
    using Cons.prems that p by auto
  then show ?case
    using Cons p by auto
qed simp

lemma map_of_bt_insert [simp]: "map_of (bt_insert k v m) = (map_of m)(k \<mapsto> v)"
  by (induction m) (auto simp: fun_eq_iff)

lemma btree_ok_fold: "btree_ok m \<Longrightarrow> btree_ok (fold (\<lambda>(k, v) m. bt_insert k v m) ps m)"
  by (induction ps arbitrary: m) (auto split: prod.splits)

lemma btree_ok_collect [simp]: "btree_ok (bt_collect ps)"
  by (simp add: bt_collect_def btree_ok_fold)

lemma map_of_fold_insert:
  "map_of (fold (\<lambda>(k, v) m. bt_insert k v m) ps m) = map_of m ++ map_of (rev ps)"
  by (induction ps arbitrary: m) (auto simp: map_add_assoc fun_eq_iff map_add_def split: option.splits)

lemma map_of_collect: "distinct (map fst ps) \<Longrightarrow> map_of (bt_collect ps) = map_of ps"
  proof -
  assume "distinct (map fst ps)"
  then have "map_of (rev ps) = map_of ps"
    by (subst map_of_inject_set) (simp_all add: rev_map [symmetric])
  then show ?thesis by (simp add: bt_collect_def map_of_fold_insert)
qed

lemma btree_ok_distinct: "btree_ok m \<Longrightarrow> distinct (map fst m)"
  by (simp add: strict_sorted_iff)

lemma btree_eqI:
  assumes "btree_ok m" "btree_ok n" "map_of m = map_of n"
  shows "m = n"
proof -
  from assms have "set m = set n"
    by (metis btree_ok_distinct map_of_eq_Some_iff subrelI subset_antisym)
  moreover have "sorted_wrt (\<lambda>p q. fst p < fst q) m" "sorted_wrt (\<lambda>p q. fst p < fst q) n"
    using assms by (simp_all add: sorted_wrt_map)
  ultimately show ?thesis
  proof (induction m arbitrary: n)
    case (Cons p m)
    then obtain q n' where n: "n = q # n'" by (cases n) auto
    have "p = q"
      using Cons.prems n by (auto dest: bspec intro: ccontr)
        (metis (no_types, lifting) insertE insertI1 order_less_asym prod.sel(1))
    moreover have "p \<notin> set m" "q \<notin> set n'"
      using Cons.prems n by auto
    ultimately show ?case using Cons n by (metis insert_ident list.simps(15) sorted_wrt.simps(2))
  qed simp
qed

subsection \<open>Tables\<close>

text \<open>A table is the list of its rows in insertion order. \<open>SELECT ... WHERE P\<close> on a primary key
  is \<open>find P\<close>; \<open>UPDATE ... SET f WHERE P\<close> is \<open>update_where P f\<close>, with
  \<open>count_where P\<close> the number of changed rows; \<open>INSERT\<close> appends after the uniqueness checks
  of the table. The second key of an \<open>ORDER BY\<close> with ties is the row order.\<close>

definition update_where :: "('r \<Rightarrow> bool) \<Rightarrow> ('r \<Rightarrow> 'r) \<Rightarrow> 'r list \<Rightarrow> 'r list" where
  "update_where P f rs = map (\<lambda>r. if P r then f r else r) rs"

definition count_where :: "('r \<Rightarrow> bool) \<Rightarrow> 'r list \<Rightarrow> nat" where
  "count_where P rs = length (filter P rs)"

lemma length_update_where [table_simps, simp]: "length (update_where P f rs) = length rs"
  by (simp add: update_where_def)

lemma update_where_append [table_simps, simp]:
  "update_where P f (rs @ ss) = update_where P f rs @ update_where P f ss"
  by (simp add: update_where_def)

lemma update_where_Nil [table_simps, simp]: "update_where P f [] = []"
  by (simp add: update_where_def)

lemma update_where_Cons [table_simps, simp]:
  "update_where P f (r # rs) = (if P r then f r else r) # update_where P f rs"
  by (simp add: update_where_def)

lemma map_update_where_same [table_simps]:
  "(\<And>r. P r \<Longrightarrow> g (f r) = g r) \<Longrightarrow> map g (update_where P f rs) = map g rs"
  by (simp add: update_where_def)

lemma set_update_where: "set (update_where P f rs) = (\<lambda>r. if P r then f r else r) ` set rs"
  by (simp add: update_where_def)

lemma filter_update_where_other [table_simps]:
  "(\<And>r. P r \<Longrightarrow> \<not> Q r \<and> \<not> Q (f r)) \<Longrightarrow> filter Q (update_where P f rs) = filter Q rs"
  by (induction rs) auto

lemma filter_update_where_stable [table_simps]:
  "(\<And>r. P r \<Longrightarrow> Q (f r) = Q r) \<Longrightarrow>
   filter Q (update_where P f rs) = update_where P f (filter Q rs)"
  by (induction rs) auto

lemma find_update_where_other [table_simps]:
  "(\<And>r. P r \<Longrightarrow> \<not> Q r \<and> \<not> Q (f r)) \<Longrightarrow> find Q (update_where P f rs) = find Q rs"
  by (induction rs) auto

lemma find_update_where_stable [table_simps]:
  "(\<And>r. P r \<Longrightarrow> Q (f r) = Q r) \<Longrightarrow>
   find Q (update_where P f rs) = map_option (\<lambda>r. if P r then f r else r) (find Q rs)"
  by (induction rs) auto

lemma find_update_where_self [table_simps]:
  "(\<And>r. P (f r) = P r) \<Longrightarrow> find P (update_where P f rs) = map_option f (find P rs)"
  by (induction rs) auto

lemma find_append:
  "find P (xs @ ys) = (case find P xs of None \<Rightarrow> find P ys | Some x \<Rightarrow> Some x)"
  by (induction xs) auto

lemma find_SomeD: "find P xs = Some x \<Longrightarrow> x \<in> set xs \<and> P x"
  by (induction xs) (auto split: if_splits)

lemma find_distinct_key:
  assumes "distinct (map key rs)" "r \<in> set rs" "\<And>s. P s \<longleftrightarrow> key s = key r"
  shows "find P rs = Some r"
  using assms by (induction rs) (auto simp: image_iff)

text \<open>\<open>Iterator::max\<close>: \<open>None\<close> on an empty iterator.\<close>

fun iter_max :: "'a::linorder list \<Rightarrow> 'a option" where
  "iter_max [] = None"
| "iter_max (x # xs) = Some (fold max xs x)"

definition unwrap_or :: "'a option \<Rightarrow> 'a \<Rightarrow> 'a" where
  "unwrap_or x d = (case x of None \<Rightarrow> d | Some y \<Rightarrow> y)"

lemma unwrap_or_simps [simp]: "unwrap_or None d = d" "unwrap_or (Some y) d = y"
  by (simp_all add: unwrap_or_def)

lemma fold_max_le: "fold max xs a \<le> b \<longleftrightarrow> a \<le> b \<and> (\<forall>x \<in> set xs. x \<le> b)"
  for b :: "'a::linorder"
  by (induction xs arbitrary: a) auto

lemma iter_max_le:
  "xs \<noteq> [] \<Longrightarrow> unwrap_or (iter_max xs) d \<le> b \<longleftrightarrow> (\<forall>x \<in> set xs. x \<le> b)"
  for b :: "'a::linorder"
  by (cases xs) (auto simp: fold_max_le)

subsection \<open>Text codecs\<close>

text \<open>Enumerations are stored in text columns: one function renders, another parses and refuses
  every other text. The same contract holds for the seven enumerations of the queue crate.\<close>

locale text_codec =
  fixes render :: "'a \<Rightarrow> string"
    and parse :: "string \<Rightarrow> 'e + 'a"
  assumes parse_render: "parse (render x) = Inr x"
    and parse_sound: "parse s = Inr x \<Longrightarrow> s = render x"
begin

lemma render_inject: "render x = render y \<longleftrightarrow> x = y"
  by (metis parse_render sum.inject(2))

lemma parse_iff: "parse s = Inr x \<longleftrightarrow> s = render x"
  using parse_render parse_sound by blast

lemma parse_error_iff: "(\<exists>e. parse s = Inl e) \<longleftrightarrow> s \<notin> range render"
proof
  assume "\<exists>e. parse s = Inl e"
  then show "s \<notin> range render" by (auto simp: parse_render)
next
  assume "s \<notin> range render"
  then show "\<exists>e. parse s = Inl e" by (cases "parse s") (auto dest: parse_sound)
qed

end

end
