(* ===== verification/Core_Identity.thy ===== *)
theory Core_Identity
  imports Shaka_Prelude
begin

text \<open>
  \<^verbatim>\<open>crates/shaka-core/src/lib.rs\<close>, first part: tenants, operators, roles and the authorization
  matrix, capabilities, the effective execution context, execution budgets, task envelopes and the
  error type of the crate. A UUID is a number that is only ever compared; time is the number of
  nanoseconds since the epoch. Messages are transliterated to ASCII, one character for one.
\<close>

type_synonym uuid = nat
type_synonym instant = int
type_synonym u32 = "32 word"
type_synonym u64 = "64 word"

text \<open>\<open>JsonValue\<close>: a number is kept as its text, an object as its members in key order.\<close>

datatype json =
    JNull | JBool bool | JNumber string | JString string
  | JArray "json list" | JObject "(string \<times> json) list"

datatype task_id = TaskId uuid
datatype tenant_id = TenantId (tenant_str: string)
datatype operator_id = OperatorId (operator_str: string)

datatype role = Operator | Reviewer | Administrator

datatype action =
    RunReadOnly | RunExternal | CreateSkill | ApproveSkill | RevokeSkill | Backup | Restore
  | VerifyAudit | PurgeMemory | ManageIam | ApprovePlan | ResumePlan | ResolvePlanUnknown

datatype capability =
    Network | FilesystemRead | FilesystemWrite | CodeExecution | ExternalMessaging | MemoryWrite

datatype core_error =
    InvalidIdentifier string
  | InvalidInput string
  | SchemaViolation string string
  | CapabilityDenied capability
  | ApprovalRequired
  | BudgetExceeded string
  | Unauthorized action
  | PlanInvalid string
  | PlanApprovalInvalid string

subsection \<open>Identifiers\<close>

definition tenant_id_new :: "string \<Rightarrow> core_error + tenant_id" where
  "tenant_id_new value =
     (if trim_is_empty value \<or> length value > 128 then Inl (InvalidIdentifier ''tenant_id'')
      else Inr (TenantId value))"

definition operator_id_new :: "string \<Rightarrow> core_error + operator_id" where
  "operator_id_new value =
     (if trim_is_empty value \<or> length value > 128 then Inl (InvalidIdentifier ''operator_id'')
      else Inr (OperatorId value))"

subsection \<open>Principals and the authorization matrix\<close>

record principal =
  pr_operator :: operator_id
  pr_tenant :: tenant_id
  pr_role :: role

definition allows :: "principal \<Rightarrow> action \<Rightarrow> bool" where
  "allows p a =
     (case pr_role p of
        Administrator \<Rightarrow> True
      | Reviewer \<Rightarrow> a \<in> {RunReadOnly, ApproveSkill, VerifyAudit, Backup, ApprovePlan}
      | Operator \<Rightarrow> a \<in> {RunReadOnly, CreateSkill})"

type_synonym capability_set = "capability list"

definition for_role :: "role \<Rightarrow> capability_set" where
  "for_role r =
     (case r of
        Administrator \<Rightarrow> [Network, FilesystemRead, FilesystemWrite, CodeExecution,
                          ExternalMessaging, MemoryWrite]
      | _ \<Rightarrow> [])"

definition capabilities_allow :: "capability_set \<Rightarrow> capability list \<Rightarrow> bool" where
  "capabilities_allow granted required \<longleftrightarrow> (\<forall>c \<in> set required. c \<in> set granted)"

record request_provenance =
  request_id :: "string option"
  admission_approval_id :: "uuid option"

record execution_context =
  ctx_role :: role
  ctx_capabilities :: capability_set
  ctx_provenance :: request_provenance

definition default_provenance :: request_provenance where
  "default_provenance = \<lparr>request_id = None, admission_approval_id = None\<rparr>"

definition default_context :: execution_context where
  "default_context =
     \<lparr>ctx_role = Operator, ctx_capabilities = [], ctx_provenance = default_provenance\<rparr>"

definition from_principal :: "principal \<Rightarrow> execution_context" where
  "from_principal p =
     \<lparr>ctx_role = pr_role p, ctx_capabilities = for_role (pr_role p),
      ctx_provenance = default_provenance\<rparr>"

definition with_provenance ::
    "execution_context \<Rightarrow> string option \<Rightarrow> uuid option \<Rightarrow> execution_context" where
  "with_provenance c r a =
     c\<lparr>ctx_provenance := \<lparr>request_id = r, admission_approval_id = a\<rparr>\<rparr>"

subsection \<open>Execution budgets\<close>

definition MAX_EXECUTION_STEPS :: u32 where "MAX_EXECUTION_STEPS = 256"
definition MAX_TOOL_CALLS :: u32 where "MAX_TOOL_CALLS = 512"
definition MAX_EXECUTION_ELAPSED_MS :: u64 where "MAX_EXECUTION_ELAPSED_MS = 300000"
definition MAX_EXECUTION_COST_MICROUNITS :: u64 where "MAX_EXECUTION_COST_MICROUNITS = 10000000"

lemmas budget_limits =
  MAX_EXECUTION_STEPS_def MAX_TOOL_CALLS_def MAX_EXECUTION_ELAPSED_MS_def
  MAX_EXECUTION_COST_MICROUNITS_def

record execution_budget =
  max_steps :: u32
  max_tool_calls :: u32
  max_elapsed_ms :: u64
  max_cost_microunits :: u64

definition validate_budget :: "execution_budget \<Rightarrow> core_error + unit" where
  "validate_budget b =
     (if max_steps b = 0 \<or> max_steps b > MAX_EXECUTION_STEPS then
        Inl (InvalidInput ''budget.max_steps deve estar entre 1 e 256'')
      else if max_tool_calls b > MAX_TOOL_CALLS then
        Inl (InvalidInput ''budget.max_tool_calls nao pode exceder 512'')
      else if max_elapsed_ms b = 0 \<or> max_elapsed_ms b > MAX_EXECUTION_ELAPSED_MS then
        Inl (InvalidInput ''budget.max_elapsed_ms deve estar entre 1 e 300000'')
      else if max_cost_microunits b > MAX_EXECUTION_COST_MICROUNITS then
        Inl (InvalidInput ''budget.max_cost_microunits nao pode exceder 10000000'')
      else Inr ())"

definition default_budget :: execution_budget where
  "default_budget = \<lparr>max_steps = 32, max_tool_calls = 16, max_elapsed_ms = 30000,
     max_cost_microunits = 1000000\<rparr>"

lemma default_budget_valid: "validate_budget default_budget = Inr ()"
  by (simp add: validate_budget_def default_budget_def budget_limits)

subsection \<open>Task envelopes\<close>

record task_envelope =
  te_task_id :: task_id
  te_tenant :: tenant_id
  te_operator :: operator_id
  te_objective :: string
  te_budget :: execution_budget
  te_dry_run :: bool
  te_context :: execution_context
  te_created_at :: instant

text \<open>\<open>TaskEnvelope::new\<close>; the fresh identifier and the clock are arguments.\<close>

definition task_envelope_new ::
    "uuid \<Rightarrow> instant \<Rightarrow> tenant_id \<Rightarrow> operator_id \<Rightarrow> string \<Rightarrow> core_error + task_envelope" where
  "task_envelope_new fresh now tenant operator objective =
     (if trim_is_empty objective \<or> length objective > 32000 then
        Inl (InvalidInput ''objective'')
      else Inr \<lparr>te_task_id = TaskId fresh, te_tenant = tenant, te_operator = operator,
        te_objective = objective, te_budget = default_budget, te_dry_run = True,
        te_context = default_context, te_created_at = now\<rparr>)"

lemma for_role_least_privilege:
  "capabilities_allow (for_role r) cs \<longleftrightarrow> r = Administrator \<or> cs = []"
proof (cases r)
  case Administrator
  have "c \<in> set (for_role Administrator)" for c
    by (cases c) (simp_all add: for_role_def)
  then show ?thesis using Administrator by (simp add: capabilities_allow_def)
qed (auto simp: for_role_def capabilities_allow_def neq_Nil_conv)

text \<open>A budget passes validation exactly when every field is within the host's limits, the two
  limits that must not be zero included.\<close>

theorem validate_budget_iff:
  "validate_budget b = Inr () \<longleftrightarrow>
     1 \<le> unat (max_steps b) \<and> unat (max_steps b) \<le> 256 \<and>
     unat (max_tool_calls b) \<le> 512 \<and>
     1 \<le> unat (max_elapsed_ms b) \<and> unat (max_elapsed_ms b) \<le> 300000 \<and>
     unat (max_cost_microunits b) \<le> 10000000"
proof -
  have nonzero: "w = 0 \<longleftrightarrow> unat w = 0" for w :: "'w::len word"
    by (simp add: unat_eq_zero)
  show ?thesis
    by (auto simp: validate_budget_def budget_limits word_less_nat_alt word_le_nat_alt nonzero)
qed

end
