(* ===== verification/Core_Plan.thy ===== *)
theory Core_Plan
  imports Core_Identity
begin

text \<open>
  \<^verbatim>\<open>crates/shaka-core/src/lib.rs\<close>, the governed plan: risk and approval levels with their
  order, the two state machines (plan and step), conditions, actions, steps, the plan
  specification with its structural validation, the cycle check, the digest, and human approvals.
  SHA-256 over the canonical JSON is an argument of the definitions that use it.
\<close>

datatype plan_id = PlanId uuid

datatype plan_step_id = PlanStepId (step_str: string)

text \<open>\<open>PlanStepId\<close> derives \<open>Ord\<close>: the order of the byte strings.\<close>

instantiation plan_step_id :: linorder
begin

definition less_eq_plan_step_id :: "plan_step_id \<Rightarrow> plan_step_id \<Rightarrow> bool" where
  "less_eq_plan_step_id a b \<longleftrightarrow> step_str a \<le> step_str b"

definition less_plan_step_id :: "plan_step_id \<Rightarrow> plan_step_id \<Rightarrow> bool" where
  "less_plan_step_id a b \<longleftrightarrow> step_str a < step_str b"

instance
  by intro_classes
    (auto simp: less_eq_plan_step_id_def less_plan_step_id_def plan_step_id.expand)

end

definition validate_plan_key :: "string \<Rightarrow> string \<Rightarrow> core_error + unit" where
  "validate_plan_key value field =
     (if value = [] \<or> length value > 128 \<or>
         \<not> list_all (\<lambda>c. ascii_alphanumeric c \<or> c \<in> {CHR ''.'', CHR ''_'', CHR ''-''}) value
      then Inl (InvalidIdentifier field) else Inr ())"

definition validate_sha256 :: "string \<Rightarrow> string \<Rightarrow> core_error + unit" where
  "validate_sha256 value field =
     (if length value \<noteq> 64 \<or> \<not> list_all ascii_hexdigit value
      then Inl (InvalidIdentifier field) else Inr ())"

definition plan_step_id_new :: "string \<Rightarrow> core_error + plan_step_id" where
  "plan_step_id_new value =
     and_then (validate_plan_key value ''step_id'') (\<lambda>_. Inr (PlanStepId value))"

lemma plan_step_id_new_Inr_iff [result_simps]:
  "plan_step_id_new s = Inr i \<longleftrightarrow> validate_plan_key s ''step_id'' = Inr () \<and> i = PlanStepId s"
  by (auto simp: plan_step_id_new_def result_simps)

lemma validate_plan_key_field: "validate_plan_key s f = Inr () \<longleftrightarrow> validate_plan_key s g = Inr ()"
  by (simp add: validate_plan_key_def)

subsection \<open>Risk and approval levels\<close>

datatype plan_mode = DryRun | Live

datatype plan_risk = ReadOnly | Mutation | ExternalEffect | Irreversible

datatype plan_approval_requirement = NoApproval | ReviewerApproval | AdministratorApproval

fun risk_rank :: "plan_risk \<Rightarrow> nat" where
  "risk_rank ReadOnly = 0" | "risk_rank Mutation = 1"
| "risk_rank ExternalEffect = 2" | "risk_rank Irreversible = 3"

fun approval_rank :: "plan_approval_requirement \<Rightarrow> nat" where
  "approval_rank NoApproval = 0" | "approval_rank ReviewerApproval = 1"
| "approval_rank AdministratorApproval = 2"

text \<open>Both enumerations derive \<open>Ord\<close>: the order of declaration.\<close>

instantiation plan_risk :: linorder
begin

definition less_eq_plan_risk :: "plan_risk \<Rightarrow> plan_risk \<Rightarrow> bool" where
  "less_eq_plan_risk a b \<longleftrightarrow> risk_rank a \<le> risk_rank b"

definition less_plan_risk :: "plan_risk \<Rightarrow> plan_risk \<Rightarrow> bool" where
  "less_plan_risk a b \<longleftrightarrow> risk_rank a < risk_rank b"

instance
proof
  fix a b :: plan_risk
  show "a \<le> b \<Longrightarrow> b \<le> a \<Longrightarrow> a = b"
    by (cases a; cases b) (simp_all add: less_eq_plan_risk_def)
qed (auto simp: less_eq_plan_risk_def less_plan_risk_def)

end

instantiation plan_approval_requirement :: linorder
begin

definition less_eq_plan_approval_requirement ::
    "plan_approval_requirement \<Rightarrow> plan_approval_requirement \<Rightarrow> bool" where
  "less_eq_plan_approval_requirement a b \<longleftrightarrow> approval_rank a \<le> approval_rank b"

definition less_plan_approval_requirement ::
    "plan_approval_requirement \<Rightarrow> plan_approval_requirement \<Rightarrow> bool" where
  "less_plan_approval_requirement a b \<longleftrightarrow> approval_rank a < approval_rank b"

instance
proof
  fix a b :: plan_approval_requirement
  show "a \<le> b \<Longrightarrow> b \<le> a \<Longrightarrow> a = b"
    by (cases a; cases b) (simp_all add: less_eq_plan_approval_requirement_def)
qed (auto simp: less_eq_plan_approval_requirement_def less_plan_approval_requirement_def)

end

lemmas level_orders =
  less_eq_plan_risk_def less_plan_risk_def
  less_eq_plan_approval_requirement_def less_plan_approval_requirement_def

lemma no_approval_least [simp]: "NoApproval \<le> a"
  by (simp add: level_orders)

lemma read_only_least [simp]: "ReadOnly \<le> r"
  by (simp add: level_orders)

lemma le_no_approval [simp]: "a \<le> NoApproval \<longleftrightarrow> a = NoApproval"
  by (cases a) (simp_all add: level_orders)

definition requires_approval :: "plan_risk \<Rightarrow> bool" where
  "requires_approval r \<longleftrightarrow> r \<noteq> ReadOnly"

fun minimum_approval :: "plan_risk \<Rightarrow> plan_approval_requirement" where
  "minimum_approval ReadOnly = NoApproval"
| "minimum_approval Mutation = ReviewerApproval"
| "minimum_approval ExternalEffect = AdministratorApproval"
| "minimum_approval Irreversible = AdministratorApproval"

definition allows_role :: "plan_approval_requirement \<Rightarrow> role \<Rightarrow> bool" where
  "allows_role a r =
     (case a of
        NoApproval \<Rightarrow> True
      | ReviewerApproval \<Rightarrow> r \<in> {Reviewer, Administrator}
      | AdministratorApproval \<Rightarrow> r = Administrator)"

lemma minimum_approval_mono: "r \<le> s \<Longrightarrow> minimum_approval r \<le> minimum_approval s"
  by (cases r; cases s) (simp_all add: level_orders)

lemma allows_role_antimono: "a \<le> b \<Longrightarrow> allows_role b r \<Longrightarrow> allows_role a r"
  by (cases a; cases b) (auto simp: level_orders allows_role_def)

lemma requires_approval_iff: "requires_approval r \<longleftrightarrow> minimum_approval r \<noteq> NoApproval"
  by (cases r) (simp_all add: requires_approval_def)

subsection \<open>The plan state machine\<close>

datatype plan_state =
    Draft | Proposed | Validated | AwaitingApproval | Approved | Running | Paused | Succeeded
  | Failed | CancelRequested | Cancelled | Compensating | Compensated | Unknown | Rejected

text \<open>The derived \<open>Debug\<close> text, used in the error message.\<close>

fun plan_state_debug :: "plan_state \<Rightarrow> string" where
  "plan_state_debug Draft = ''Draft''"
| "plan_state_debug Proposed = ''Proposed''"
| "plan_state_debug Validated = ''Validated''"
| "plan_state_debug AwaitingApproval = ''AwaitingApproval''"
| "plan_state_debug Approved = ''Approved''"
| "plan_state_debug Running = ''Running''"
| "plan_state_debug Paused = ''Paused''"
| "plan_state_debug Succeeded = ''Succeeded''"
| "plan_state_debug Failed = ''Failed''"
| "plan_state_debug CancelRequested = ''CancelRequested''"
| "plan_state_debug Cancelled = ''Cancelled''"
| "plan_state_debug Compensating = ''Compensating''"
| "plan_state_debug Compensated = ''Compensated''"
| "plan_state_debug Unknown = ''Unknown''"
| "plan_state_debug Rejected = ''Rejected''"

definition plan_is_terminal :: "plan_state \<Rightarrow> bool" where
  "plan_is_terminal s \<longleftrightarrow> s \<in> {Succeeded, Failed, Cancelled, Compensated, Rejected}"

definition plan_valid_next :: "plan_state \<Rightarrow> plan_state \<Rightarrow> bool" where
  "plan_valid_next s next =
     (case s of
        Draft \<Rightarrow> next \<in> {Proposed, Rejected}
      | Proposed \<Rightarrow> next \<in> {Validated, Rejected}
      | Validated \<Rightarrow> next \<in> {AwaitingApproval, Approved, Rejected}
      | AwaitingApproval \<Rightarrow> next \<in> {Approved, Rejected}
      | Approved \<Rightarrow> next \<in> {Running, Rejected, CancelRequested}
      | Running \<Rightarrow> next \<in> {Paused, Succeeded, Failed, CancelRequested, Compensating, Unknown}
      | Paused \<Rightarrow> next \<in> {Running, CancelRequested, Failed}
      | CancelRequested \<Rightarrow> next \<in> {Cancelled, Unknown, Compensating}
      | Compensating \<Rightarrow> next \<in> {Compensated, Failed, Unknown}
      | Unknown \<Rightarrow> next \<in> {Running, Failed, Compensating, Cancelled}
      | Succeeded \<Rightarrow> False
      | Failed \<Rightarrow> False
      | Cancelled \<Rightarrow> False
      | Compensated \<Rightarrow> False
      | Rejected \<Rightarrow> False)"

definition plan_validate_transition :: "plan_state \<Rightarrow> plan_state \<Rightarrow> core_error + unit" where
  "plan_validate_transition s next =
     (if plan_valid_next s next then Inr ()
      else Inl (PlanInvalid (''transicao de plano invalida: '' @ plan_state_debug s @ '' -> '' @
             plan_state_debug next)))"

lemma plan_validate_transition_iff [result_simps]:
  "plan_validate_transition s n = Inr u \<longleftrightarrow> plan_valid_next s n"
  by (simp add: plan_validate_transition_def)

subsection \<open>The step state machine\<close>

datatype plan_step_state =
    StepPending | StepReady | StepRunning | StepSucceeded | StepFailed | StepBlocked
  | StepAwaitingApproval | StepCancelRequested | StepCancelled | StepCompensating
  | StepCompensated | StepUnknown

fun step_state_debug :: "plan_step_state \<Rightarrow> string" where
  "step_state_debug StepPending = ''Pending''"
| "step_state_debug StepReady = ''Ready''"
| "step_state_debug StepRunning = ''Running''"
| "step_state_debug StepSucceeded = ''Succeeded''"
| "step_state_debug StepFailed = ''Failed''"
| "step_state_debug StepBlocked = ''Blocked''"
| "step_state_debug StepAwaitingApproval = ''AwaitingApproval''"
| "step_state_debug StepCancelRequested = ''CancelRequested''"
| "step_state_debug StepCancelled = ''Cancelled''"
| "step_state_debug StepCompensating = ''Compensating''"
| "step_state_debug StepCompensated = ''Compensated''"
| "step_state_debug StepUnknown = ''Unknown''"

definition step_valid_next :: "plan_step_state \<Rightarrow> plan_step_state \<Rightarrow> bool" where
  "step_valid_next s next =
     (case s of
        StepPending \<Rightarrow> next \<in> {StepReady, StepBlocked, StepCancelled}
      | StepReady \<Rightarrow> next \<in> {StepRunning, StepAwaitingApproval, StepBlocked, StepCancelled}
      | StepAwaitingApproval \<Rightarrow> next \<in> {StepReady, StepBlocked, StepCancelled}
      | StepRunning \<Rightarrow>
          next \<in> {StepSucceeded, StepFailed, StepCancelRequested, StepUnknown, StepCompensating}
      | StepFailed \<Rightarrow> next \<in> {StepReady, StepCompensating, StepUnknown}
      | StepCancelRequested \<Rightarrow> next \<in> {StepCancelled, StepUnknown}
      | StepCompensating \<Rightarrow> next \<in> {StepCompensated, StepFailed, StepUnknown}
      | StepUnknown \<Rightarrow> next \<in> {StepReady, StepFailed, StepCompensating, StepCancelled}
      | StepSucceeded \<Rightarrow> next = StepCompensating
      | StepBlocked \<Rightarrow> False
      | StepCancelled \<Rightarrow> False
      | StepCompensated \<Rightarrow> False)"

definition step_validate_transition ::
    "plan_step_state \<Rightarrow> plan_step_state \<Rightarrow> core_error + unit" where
  "step_validate_transition s next =
     (if step_valid_next s next then Inr ()
      else Inl (PlanInvalid (''transicao de etapa invalida: '' @ step_state_debug s @ '' -> '' @
             step_state_debug next)))"

lemma step_validate_transition_iff [result_simps]:
  "step_validate_transition s n = Inr u \<longleftrightarrow> step_valid_next s n"
  by (simp add: step_validate_transition_def)

subsection \<open>State machines with absorbing states\<close>

text \<open>What both machines promise their clients: a state from which nothing is permitted is never
  left, along any sequence of permitted moves.\<close>

locale state_machine =
  fixes valid_next :: "'s \<Rightarrow> 's \<Rightarrow> bool"
    and terminal :: "'s \<Rightarrow> bool"
  assumes terminal_iff: "terminal s \<longleftrightarrow> (\<forall>n. \<not> valid_next s n)"
    and no_self_loop: "\<not> valid_next s s"
begin

fun run :: "'s \<Rightarrow> 's list \<Rightarrow> bool" where
  "run s [] = True"
| "run s (n # ns) = (valid_next s n \<and> run n ns)"

lemma run_terminal: "terminal s \<Longrightarrow> run s ns \<Longrightarrow> ns = []"
  by (cases ns) (auto simp: terminal_iff)

lemma run_append: "run s (ns @ ms) \<longleftrightarrow> run s ns \<and> run (last (s # ns)) ms"
  by (induction ns arbitrary: s) auto

lemma terminal_only_last:
  "run s ns \<Longrightarrow> i < length ns \<Longrightarrow> terminal (ns ! i) \<Longrightarrow> Suc i = length ns"
proof (induction ns arbitrary: s i)
  case (Cons n ns)
  show ?case
  proof (cases i)
    case 0
    with Cons.prems have "ns = []" using run_terminal [of n ns] by simp
    with 0 show ?thesis by simp
  next
    case (Suc j)
    with Cons show ?thesis by auto
  qed
qed simp

lemma reachable_from_terminal: "terminal s \<Longrightarrow> valid_next\<^sup>*\<^sup>* s t \<Longrightarrow> t = s"
  by (erule converse_rtranclpE) (auto simp: terminal_iff)

end

interpretation plan_machine: state_machine plan_valid_next plan_is_terminal
proof unfold_locales
  show "plan_is_terminal s \<longleftrightarrow> (\<forall>n. \<not> plan_valid_next s n)" for s
    by (cases s) (auto simp: plan_is_terminal_def plan_valid_next_def)
  show "\<not> plan_valid_next s s" for s
    by (cases s) (simp_all add: plan_valid_next_def)
qed

definition step_is_final :: "plan_step_state \<Rightarrow> bool" where
  "step_is_final s \<longleftrightarrow> s \<in> {StepBlocked, StepCancelled, StepCompensated}"

interpretation step_machine: state_machine step_valid_next step_is_final
proof unfold_locales
  show "step_is_final s \<longleftrightarrow> (\<forall>n. \<not> step_valid_next s n)" for s
    by (cases s) (auto simp: step_is_final_def step_valid_next_def)
  show "\<not> step_valid_next s s" for s
    by (cases s) (simp_all add: step_valid_next_def)
qed

end
