(* ===== verification/Sample_Plan.thy ===== *)
theory Sample_Plan
  imports Core_Plan_Spec
begin

text \<open>
  A concrete plan, used wherever a theorem is applied to data: two steps, the second a mutation that
  depends on the first and declares a compensation, proposed by one operator and approved by an
  administrator. SHA-256 is instantiated by a concrete function with 64-digit hexadecimal results.
\<close>

definition sample_tenant :: tenant_id where "sample_tenant = TenantId ''acme''"
definition sample_proposer :: operator_id where "sample_proposer = OperatorId ''ana''"
definition sample_admin :: operator_id where "sample_admin = OperatorId ''bruno''"

text \<open>A checksum on 64 digits: the number of steps, then zeroes.\<close>

definition sample_sha :: "plan_spec \<Rightarrow> string" where
  "sample_sha p = digit (length (ps_steps p) mod 10) # replicate 63 (CHR ''0'')"

definition step_read :: plan_step where
  "step_read = \<lparr>st_id = PlanStepId ''a'', st_depends_on = [], st_action = ReadOnlyAction ''list'',
     st_preconditions = [CapabilityGranted MemoryWrite], st_postconditions = [],
     st_risk = ReadOnly, st_approval = NoApproval, st_max_attempts = 2, st_compensation = None\<rparr>"

definition step_write :: plan_step where
  "step_write = \<lparr>st_id = PlanStepId ''b'', st_depends_on = [PlanStepId ''a''],
     st_action = MutationAction ''store'',
     st_preconditions = [StepSucceededCond (PlanStepId ''a'')], st_postconditions = [],
     st_risk = Mutation, st_approval = ReviewerApproval, st_max_attempts = 1,
     st_compensation = Some (PlanStepId ''a'')\<rparr>"

definition sample_draft :: plan_spec where
  "sample_draft = \<lparr>ps_plan_id = PlanId 7, ps_task_id = TaskId 1, ps_tenant = sample_tenant,
     ps_operator = sample_proposer, ps_revision = 1, ps_mode = DryRun, ps_risk = Mutation,
     ps_approval = ReviewerApproval, ps_budget = default_budget,
     ps_steps = [step_write, step_read], ps_digest = ''2'' @ replicate 63 (CHR ''0''),
     ps_state = Draft, ps_created_at = 5\<rparr>"

definition sample_approval :: plan_approval where
  "sample_approval = \<lparr>ap_id = 90, ap_plan_id = PlanId 7,
     ap_plan_digest = ''2'' @ replicate 63 (CHR ''0''), ap_revision = 1, ap_tenant = sample_tenant,
     ap_approver = sample_admin, ap_approver_role = Administrator, ap_step_id = None,
     ap_required = AdministratorApproval, ap_decision = DecisionApproved, ap_expires_at = 1000,
     ap_revoked = False\<rparr>"

lemmas sample_defs =
  sample_tenant_def sample_proposer_def sample_admin_def step_read_def step_write_def
  sample_draft_def sample_approval_def

lemma sample_structure: "validate_structure sample_draft = Inr ()"
  by code_simp

lemma sample_acyclic: "ensure_acyclic [step_write, step_read] = Inr ()"
  by code_simp

lemma sample_digest: "verify_digest sample_sha sample_draft = Inr ()"
  by code_simp

lemma sample_validate_for: "validate_for sample_approval sample_draft None 10 = Inr ()"
  by code_simp

end
