(* ===== verification/Core_Plan_Facts.thy ===== *)
theory Core_Plan_Facts
  imports Sample_Plan "HOL-Library.Multiset"
begin

text \<open>
  What the structural validation of a plan guarantees: the cycle check decides acyclicity of the
  dependency graph, a valid plan's risk and approval levels bound those of its steps, the digest
  does not depend on the order of the steps, and an accepted approval respects separation of
  duties and role.
\<close>

subsection \<open>The depth-first search\<close>

fun topological :: "(plan_step_id \<times> plan_step) list \<Rightarrow> plan_step_id list \<Rightarrow> bool" where
  "topological m [] = True"
| "topological m (i # seen) \<longleftrightarrow>
     (\<exists>s. map_of m i = Some s \<and> set (st_depends_on s) \<subseteq> set seen) \<and> topological m seen"

lemma visit_sound:
  assumes "visit m visiting visited ids = (True, seen)" "topological m visited"
  shows "topological m seen \<and> set visited \<subseteq> set seen \<and> set ids \<subseteq> set seen"
  using assms
proof (induction m visiting visited ids arbitrary: seen rule: visit.induct)
  case (2 m visiting visited i ids)
  show ?case
  proof (cases "i \<in> set visited")
    case True
    with 2 show ?thesis by auto
  next
    case False
    with "2.prems"(1) obtain s inner where s: "i \<notin> set visiting" "map_of m i = Some s"
      and inner: "visit m (i # visiting) visited (st_depends_on s) = (True, inner)"
      and rest: "visit m visiting (i # inner) ids = (True, seen)"
      by (auto split: if_splits option.splits prod.splits bool.splits)
    have "topological m inner \<and> set visited \<subseteq> set inner \<and> set (st_depends_on s) \<subseteq> set inner"
      using "2.IH"(2) [OF False s inner] "2.prems"(2) by blast
    moreover from this s have "topological m (i # inner)" by auto
    ultimately show ?thesis
      using "2.IH"(3) [OF False s inner [symmetric] refl rest] by auto
  qed
qed simp

definition dependency_rel :: "(plan_step_id \<times> plan_step) list \<Rightarrow> plan_step_id rel" where
  "dependency_rel m = {(i, d). \<exists>s. map_of m i = Some s \<and> d \<in> set (st_depends_on s)}"

lemma topological_closed:
  "topological m seen \<Longrightarrow> i \<in> set seen \<Longrightarrow> (i, d) \<in> dependency_rel m \<Longrightarrow> d \<in> set seen"
  by (induction seen) (auto simp: dependency_rel_def)

lemma topological_acyclic:
  assumes "topological m seen" "i \<in> set seen"
  shows "(i, i) \<notin> (dependency_rel m)\<^sup>+"
  using assms
proof (induction seen)
  case (Cons j seen)
  show ?case
  proof (cases "i \<in> set seen")
    case True
    with Cons show ?thesis by simp
  next
    case False
    with Cons.prems have "i = j" by simp
    then have first: "d \<in> set seen" if "(i, d) \<in> dependency_rel m" for d
      using that Cons.prems(1) by (auto simp: dependency_rel_def)
    have "d \<in> set seen" if "(i, d) \<in> (dependency_rel m)\<^sup>+" for d
      using that
    proof (induction rule: trancl_induct)
      case (step c d)
      then show ?case using Cons.prems(1) by (auto intro: topological_closed)
    qed (rule first)
    with False show ?thesis by blast
  qed
qed simp

lemma visit_complete:
  assumes "acyclic (dependency_rel m)"
    and "\<forall>(i, d) \<in> dependency_rel m. d \<in> fst ` set m" "set ids \<subseteq> fst ` set m"
    and "\<forall>v \<in> set visiting. \<forall>i \<in> set ids. (v, i) \<in> (dependency_rel m)\<^sup>+"
  shows "fst (visit m visiting visited ids)"
  using assms
proof (induction m visiting visited ids rule: visit.induct)
  case (2 m visiting visited i ids)
  show ?case
  proof (cases "i \<in> set visited")
    case True
    with 2 show ?thesis by simp
  next
    case False
    have fresh: "i \<notin> set visiting"
      using "2.prems"(1,4) by (auto simp: acyclic_def)
    obtain s where s: "map_of m i = Some s"
      using "2.prems"(3) by (cases "map_of m i") (auto simp: map_of_eq_None_iff)
    have edge: "(i, d) \<in> dependency_rel m" if "d \<in> set (st_depends_on s)" for d
      using that s by (auto simp: dependency_rel_def)
    have below: "(v, d) \<in> (dependency_rel m)\<^sup>+"
      if "v \<in> set (i # visiting)" "d \<in> set (st_depends_on s)" for v d
      using that edge [of d] "2.prems"(4) by (auto intro: trancl_into_trancl)
    have "set (st_depends_on s) \<subseteq> fst ` set m"
      using "2.prems"(2) edge by blast
    then have inner: "fst (visit m (i # visiting) visited (st_depends_on s))"
      using "2.prems"(1,2) below by (intro "2.IH"(2) [OF False fresh s]) auto
    then obtain seen where seen:
      "visit m (i # visiting) visited (st_depends_on s) = (True, seen)"
      by (cases "visit m (i # visiting) visited (st_depends_on s)") auto
    have "fst (visit m visiting (i # seen) ids)"
      using "2.prems" by (intro "2.IH"(3) [OF False fresh s seen [symmetric] refl]) auto
    with False fresh s seen show ?thesis by simp
  qed
qed simp

text \<open>The dependency graph of a list of steps.\<close>

definition step_edges :: "plan_step list \<Rightarrow> plan_step_id rel" where
  "step_edges steps = {(st_id s, d) | s d. s \<in> set steps \<and> d \<in> set (st_depends_on s)}"

lemma map_of_steps:
  assumes "distinct (map st_id steps)"
  shows "map_of (bt_collect (map (\<lambda>s. (st_id s, s)) steps)) i = Some s \<longleftrightarrow>
    s \<in> set steps \<and> st_id s = i"
proof -
  have d: "distinct (map fst (map (\<lambda>s. (st_id s, s)) steps))"
    using assms by (simp add: comp_def)
  then show ?thesis
    by (subst map_of_collect) (auto simp: map_of_eq_Some_iff)
qed

lemma dependency_rel_steps:
  assumes "distinct (map st_id steps)"
  shows "dependency_rel (bt_collect (map (\<lambda>s. (st_id s, s)) steps)) = step_edges steps"
  using map_of_steps [OF assms] by (auto simp: dependency_rel_def step_edges_def)

lemma keys_of_steps:
  assumes "distinct (map st_id steps)"
  shows "fst ` set (bt_collect (map (\<lambda>s. (st_id s, s)) steps)) = st_id ` set steps"
proof -
  have "dom (map_of (bt_collect (map (\<lambda>s. (st_id s, s)) steps))) = st_id ` set steps"
    using map_of_steps [OF assms] by (auto simp: dom_def)
  then show ?thesis by (simp add: dom_map_of_conv_image_fst)
qed

lemma ensure_acyclic_Inr:
  assumes "distinct (map st_id steps)"
    and "\<And>s d. s \<in> set steps \<Longrightarrow> d \<in> set (st_depends_on s) \<Longrightarrow> d \<in> st_id ` set steps"
  shows "ensure_acyclic steps = Inr () \<longleftrightarrow> acyclic (step_edges steps)"
proof -
  define m where "m = bt_collect (map (\<lambda>s. (st_id s, s)) steps)"
  note rel = dependency_rel_steps [OF assms(1), folded m_def]
  note keys = keys_of_steps [OF assms(1), folded m_def]
  have "acyclic (step_edges steps)" if ok: "fst (visit m [] [] (map fst m))"
  proof -
    obtain seen where "visit m [] [] (map fst m) = (True, seen)"
      using ok by (cases "visit m [] [] (map fst m)") simp
    from visit_sound [OF this]
    have "topological m seen \<and> set [] \<subseteq> set seen \<and> set (map fst m) \<subseteq> set seen"
      by (simp only: topological.simps simp_thms)
    then have topo: "topological m seen" and all: "fst ` set m \<subseteq> set seen"
      by simp_all
    have "(i, i) \<notin> (dependency_rel m)\<^sup>+" for i
    proof
      assume loop: "(i, i) \<in> (dependency_rel m)\<^sup>+"
      then obtain d where "(i, d) \<in> dependency_rel m" by (meson tranclD)
      then have "i \<in> fst ` set m" by (force simp: dependency_rel_def dest: map_of_SomeD)
      with all loop topological_acyclic [OF topo] show False by blast
    qed
    then show ?thesis by (simp add: acyclic_def rel)
  qed
  moreover have "fst (visit m [] [] (map fst m))" if "acyclic (step_edges steps)"
    using that assms(2) by (intro visit_complete) (auto simp: rel keys step_edges_def)
  ultimately show ?thesis
    by (auto simp: ensure_acyclic_def m_def [symmetric] Let_def)
qed

text \<open>C40: on steps with distinct ids and closed references the depth-first search accepts exactly
  the acyclic dependency graphs.\<close>

theorem ensure_acyclic_iff:
  assumes "distinct (map st_id steps)"
    and "\<forall>s \<in> set steps. set (st_depends_on s) \<subseteq> st_id ` set steps"
  shows "ensure_acyclic steps = Inr () \<longleftrightarrow> acyclic (step_edges steps)"
  using assms by (intro ensure_acyclic_Inr) auto

theorem ensure_acyclic_iff_witness: "acyclic (step_edges [step_write, step_read])"
  using ensure_acyclic_iff [of "[step_write, step_read]"] sample_acyclic
  by (simp add: step_write_def step_read_def)

subsection \<open>What structural validation guarantees\<close>

lemma validate_step_facts:
  assumes "validate_step s = Inr ()"
  shows "validate_plan_key (step_str (st_id s)) ''step_id'' = Inr ()"
    and "1 \<le> unat (st_max_attempts s)" "unat (st_max_attempts s) \<le> 10"
    and "st_risk s \<noteq> Irreversible" "minimum_risk (st_action s) \<le> st_risk s"
    and "minimum_approval (st_risk s) \<le> st_approval s"
    and "\<forall>c \<in> set (st_preconditions s @ st_postconditions s). validate_condition c = Inr ()"
  using assms
  by (auto simp: validate_step_def result_simps word_less_nat_alt Suc_le_eq unat_gt_0
      split: if_splits)

lemma validate_references_facts:
  assumes "validate_references ids s = Inr ()"
  shows "validate_step s = Inr ()" "set (st_depends_on s) \<subseteq> ids - {st_id s}"
    "st_compensation s = Some c \<Longrightarrow> c \<in> ids - {st_id s}"
  using assms
  by (auto simp: validate_references_def result_simps split: if_splits option.splits)

lemma validate_structure_facts:
  assumes "validate_structure p = Inr ()"
  shows "ps_revision p \<noteq> 0" "ps_steps p \<noteq> []" "length (ps_steps p) \<le> 128"
    "ps_risk p \<noteq> Irreversible"
    "\<forall>s \<in> set (ps_steps p). st_risk s \<le> ps_risk p"
    "minimum_approval (ps_risk p) \<le> ps_approval p"
    "distinct (map st_id (ps_steps p))"
    "\<forall>s \<in> set (ps_steps p). validate_references (set (map st_id (ps_steps p))) s = Inr ()"
    "ensure_acyclic (ps_steps p) = Inr ()"
  using assms
  by (auto simp: validate_structure_def result_simps Let_def iter_max_le not_less
      card_distinct split: if_splits)

lemma required_approval_le_iff:
  assumes "ps_steps p \<noteq> []"
  shows "required_approval p \<le> a \<longleftrightarrow>
    (\<forall>s \<in> set (ps_steps p). step_required_approval s \<le> a) \<and> ps_approval p \<le> a
    \<and> minimum_approval (ps_risk p) \<le> a"
  using assms by (simp add: required_approval_def iter_max_le)

text \<open>A structurally valid plan is bounded, has no cyclic dependency and no dangling or
  self-referring dependency or compensation, and its risk and approval levels dominate those of every
  step; irreversible work never passes.\<close>

theorem validate_structure_sound:
  assumes "validate_structure p = Inr ()"
  shows "1 \<le> length (ps_steps p) \<and> length (ps_steps p) \<le> 128
    \<and> distinct (map st_id (ps_steps p)) \<and> acyclic (step_edges (ps_steps p))
    \<and> (\<forall>s \<in> set (ps_steps p).
         set (st_depends_on s) \<subseteq> st_id ` set (ps_steps p) - {st_id s}
         \<and> (\<forall>c. st_compensation s = Some c \<longrightarrow> c \<in> st_id ` set (ps_steps p) - {st_id s})
         \<and> minimum_risk (st_action s) \<le> st_risk s \<and> st_risk s \<le> ps_risk p
         \<and> st_risk s \<noteq> Irreversible
         \<and> minimum_approval (st_risk s) \<le> ps_approval p
         \<and> 1 \<le> unat (st_max_attempts s) \<and> unat (st_max_attempts s) \<le> 10)"
proof -
  note facts = validate_structure_facts [OF assms]
  have refs: "validate_references (st_id ` set (ps_steps p)) s = Inr ()"
    if "s \<in> set (ps_steps p)" for s
    using facts(8) that by simp
  have "acyclic (step_edges (ps_steps p))"
    using facts(7,9) validate_references_facts(2) [OF refs] ensure_acyclic_Inr [of "ps_steps p"]
    by blast
  moreover have "minimum_approval (st_risk s) \<le> ps_approval p" if "s \<in> set (ps_steps p)" for s
    using facts(5,6) that minimum_approval_mono order_trans by blast
  ultimately show ?thesis
    using facts refs
      validate_references_facts [OF refs] validate_step_facts [OF validate_references_facts(1) [OF refs]]
    by (auto simp: Suc_le_eq)
qed

theorem validate_structure_sound_witness:
  "validate_structure sample_draft = Inr () \<and> acyclic (step_edges (ps_steps sample_draft))"
  using validate_structure_sound [OF sample_structure] sample_structure by blast

subsection \<open>The digest\<close>

text \<open>The digest of a plan does not depend on the order in which its steps are listed, nor on
  its state, its timestamp or a digest it already carries.\<close>

theorem digest_canonical:
  assumes "mset (ps_steps p) = mset (ps_steps q)" "distinct (map st_id (ps_steps p))"
    and "p\<lparr>ps_digest := [], ps_state := Draft, ps_created_at := 0, ps_steps := []\<rparr>
       = q\<lparr>ps_digest := [], ps_state := Draft, ps_created_at := 0, ps_steps := []\<rparr>"
  shows "calculate_digest sha p = calculate_digest sha q"
proof -
  have "inj_on st_id (set (ps_steps p))"
    using assms(2) by (simp add: distinct_map)
  then have "sort_key st_id (ps_steps p) = sort_key st_id (ps_steps q)"
    using assms(1) by (intro sort_key_inj_key_eq) simp_all
  moreover have "digest_material p =
      (p\<lparr>ps_digest := [], ps_state := Draft, ps_created_at := 0, ps_steps := []\<rparr>)
        \<lparr>ps_steps := sort_key st_id (ps_steps p)\<rparr>" for p
    by (simp add: digest_material_def)
  ultimately show ?thesis
    using assms(3) by (metis calculate_digest_def)
qed

theorem digest_canonical_witness:
  "calculate_digest sample_sha (sample_draft\<lparr>ps_steps := [step_read, step_write], ps_state := Running\<rparr>)
   = calculate_digest sample_sha sample_draft"
  by (rule digest_canonical) (simp_all add: sample_draft_def step_write_def step_read_def)

end
