(* ===== verification/Plan_Verifier.thy ===== *)
theory Plan_Verifier
  imports Core_Plan_Facts
begin

text \<open>
  \<^verbatim>\<open>crates/shaka-core/src/plan_verifier.rs\<close>: the deterministic plan verifier with its bounded
  report. \<open>verify\<close> is composed as the code composes it: every check pushes into the report, which
  keeps at most \<open>max_violations\<close> entries.
\<close>

datatype verification_phase = Preflight | StepReadyPhase | PostStep

record verification_context =
  vc_phase :: verification_phase
  vc_target_step :: "plan_step_id option"
  vc_task_state :: "plan_task_state option"
  vc_succeeded_steps :: "plan_step_id set"
  vc_granted_capabilities :: "capability list"
  vc_circuit_closed :: bool
  vc_remaining_budget :: execution_budget
  vc_artifacts :: "(string \<times> string) list"
  vc_used_idempotency_keys :: "string set"
  vc_state_digest :: "string option"
  vc_approvals :: "plan_approval list"
  vc_now :: instant

definition new_context :: "instant \<Rightarrow> verification_phase \<Rightarrow> verification_context" where
  "new_context now phase =
     \<lparr>vc_phase = phase, vc_target_step = None, vc_task_state = None, vc_succeeded_steps = {},
      vc_granted_capabilities = [], vc_circuit_closed = False,
      vc_remaining_budget = default_budget, vc_artifacts = [], vc_used_idempotency_keys = {},
      vc_state_digest = None, vc_approvals = [], vc_now = now\<rparr>"

definition for_step :: "plan_step_id \<Rightarrow> verification_context \<Rightarrow> verification_context" where
  "for_step i c = c\<lparr>vc_target_step := Some i\<rparr>"

datatype verification_status = Valid | RequiresApproval | Invalid

datatype violation_code =
    StructureInvalid | DigestInvalid | PlanStateInvalid | LimitExceeded | MissingReference
  | DependencyNotSatisfied | ConditionContextMissing | ConditionUnsatisfied
  | ApprovalRequiredCode | ApprovalInvalidCode

record plan_violation =
  vi_code :: violation_code
  vi_step_id :: "plan_step_id option"
  vi_condition_index :: "nat option"
  vi_detail :: string

record verification_report =
  vr_plan_id :: plan_id
  vr_plan_digest :: string
  vr_phase :: verification_phase
  vr_status :: verification_status
  vr_violations :: "plan_violation list"

definition is_executable :: "verification_report \<Rightarrow> bool" where
  "is_executable r \<longleftrightarrow> vr_status r = Valid"

definition is_valid :: "verification_report \<Rightarrow> bool" where
  "is_valid r \<longleftrightarrow> vr_status r \<noteq> Invalid"

record plan_verifier =
  pv_max_steps :: nat
  pv_max_dependencies_per_step :: nat
  pv_max_conditions_per_step :: nat
  pv_max_violations :: nat

definition default_verifier :: plan_verifier where
  "default_verifier = \<lparr>pv_max_steps = 128, pv_max_dependencies_per_step = 32,
     pv_max_conditions_per_step = 64, pv_max_violations = 64\<rparr>"

subsection \<open>The report\<close>

definition push :: "nat \<Rightarrow> plan_violation \<Rightarrow> verification_report \<Rightarrow> verification_report" where
  "push max_violations v r =
     (let retention_limit = max max_violations 1 in
      if length (vr_violations r) < retention_limit
      then r\<lparr>vr_violations := vr_violations r @ [v]\<rparr> else r)"

definition has_blocking_violation :: "verification_report \<Rightarrow> bool" where
  "has_blocking_violation r \<longleftrightarrow>
     list_ex (\<lambda>v. vi_code v \<noteq> ApprovalRequiredCode) (vr_violations r)"

definition safe_error_detail :: "core_error \<Rightarrow> string" where
  "safe_error_detail e =
     (case e of
        PlanInvalid detail \<Rightarrow> take_chars 160 detail
      | PlanApprovalInvalid detail \<Rightarrow> take_chars 160 detail
      | _ \<Rightarrow> ''falha de validacao do contrato do plano'')"

abbreviation violation ::
    "violation_code \<Rightarrow> plan_step_id option \<Rightarrow> nat option \<Rightarrow> string \<Rightarrow> plan_violation" where
  "violation c s i d \<equiv> \<lparr>vi_code = c, vi_step_id = s, vi_condition_index = i, vi_detail = d\<rparr>"

subsection \<open>Conditions\<close>

datatype condition_result = Satisfied | NeedsApproval | MissingContext | Unsatisfied

definition budget_at_least :: "execution_budget \<Rightarrow> execution_budget \<Rightarrow> bool" where
  "budget_at_least available required \<longleftrightarrow>
     max_steps available \<ge> max_steps required
     \<and> max_tool_calls available \<ge> max_tool_calls required
     \<and> max_elapsed_ms available \<ge> max_elapsed_ms required
     \<and> max_cost_microunits available \<ge> max_cost_microunits required"

definition has_valid_approval ::
    "plan_spec \<Rightarrow> plan_step_id option \<Rightarrow> verification_context \<Rightarrow> bool" where
  "has_valid_approval p step_id c \<longleftrightarrow>
     list_ex (\<lambda>a. is_ok (validate_for a p step_id (vc_now c))) (vc_approvals c)"

definition satisfied_if :: "bool \<Rightarrow> condition_result" where
  "satisfied_if b = (if b then Satisfied else Unsatisfied)"

fun evaluate_condition ::
    "plan_spec \<Rightarrow> plan_condition \<Rightarrow> verification_context \<Rightarrow> condition_result" where
  "evaluate_condition p (TaskStateIs s) c =
     (case vc_task_state c of None \<Rightarrow> MissingContext | Some actual \<Rightarrow> satisfied_if (actual = s))"
| "evaluate_condition p (StepSucceededCond i) c = satisfied_if (i \<in> vc_succeeded_steps c)"
| "evaluate_condition p (ApprovalExists i) c =
     (if has_valid_approval p i c then Satisfied else NeedsApproval)"
| "evaluate_condition p (CapabilityGranted k) c =
     satisfied_if (k \<in> set (vc_granted_capabilities c))"
| "evaluate_condition p CircuitClosed c = satisfied_if (vc_circuit_closed c)"
| "evaluate_condition p (BudgetRemainingAtLeast b) c =
     satisfied_if (budget_at_least (vc_remaining_budget c) b)"
| "evaluate_condition p (ArtifactDigestMatches artifact sha256) c =
     (case map_of (vc_artifacts c) artifact of
        None \<Rightarrow> MissingContext
      | Some actual \<Rightarrow> satisfied_if (actual = sha256))"
| "evaluate_condition p (IdempotencyKeyUnused k) c =
     (if k \<in> vc_used_idempotency_keys c then Unsatisfied else Satisfied)"
| "evaluate_condition p (StateDigestMatches sha256) c =
     (case vc_state_digest c of None \<Rightarrow> MissingContext | Some actual \<Rightarrow> satisfied_if (actual = sha256))"

subsection \<open>The checks\<close>

definition referenced_step :: "plan_condition \<Rightarrow> plan_step_id option" where
  "referenced_step c =
     (case c of
        StepSucceededCond i \<Rightarrow> Some i
      | ApprovalExists i \<Rightarrow> i
      | _ \<Rightarrow> None)"

definition verify_step_shape ::
    "plan_verifier \<Rightarrow> plan_spec \<Rightarrow> plan_step \<Rightarrow> verification_report \<Rightarrow> verification_report" where
  "verify_step_shape v p s r =
     (let n = pv_max_violations v;
          r1 = (if length (st_depends_on s) > pv_max_dependencies_per_step v then
                  push n (violation LimitExceeded (Some (st_id s)) None
                    ''quantidade de dependencias excede o limite'') r
                else r);
          r2 = (if length (st_preconditions s) > pv_max_conditions_per_step v
                  \<or> length (st_postconditions s) > pv_max_conditions_per_step v then
                  push n (violation LimitExceeded (Some (st_id s)) None
                    ''quantidade de condicoes excede o limite'') r1
                else r1)
      in fold (\<lambda>(index, condition) r.
           case referenced_step condition of
             None \<Rightarrow> r
           | Some i \<Rightarrow>
               if list_ex (\<lambda>candidate. st_id candidate = i) (ps_steps p) then r
               else push n (violation MissingReference (Some (st_id s)) (Some index)
                      ''condicao referencia etapa inexistente'') r)
         (enumerate 0 (st_preconditions s @ st_postconditions s)) r2)"

definition verify_preflight_approval ::
    "plan_verifier \<Rightarrow> plan_spec \<Rightarrow> verification_context \<Rightarrow> verification_report \<Rightarrow>
     verification_report" where
  "verify_preflight_approval v p c r =
     (if required_approval p = NoApproval then r
      else if \<not> has_valid_approval p None c then
        push (pv_max_violations v) (violation ApprovalRequiredCode None None
          ''aprovacao humana global ainda nao foi comprovada'') r
      else r)"

definition verify_dependencies ::
    "plan_verifier \<Rightarrow> plan_step \<Rightarrow> verification_context \<Rightarrow> verification_report \<Rightarrow>
     verification_report" where
  "verify_dependencies v s c r =
     fold (\<lambda>d r. if d \<notin> vc_succeeded_steps c then
         push (pv_max_violations v) (violation DependencyNotSatisfied (Some (st_id s)) None
           ''dependencia ainda nao foi comprovada como concluida'') r
       else r) (st_depends_on s) r"

definition verify_conditions ::
    "plan_verifier \<Rightarrow> plan_spec \<Rightarrow> plan_step \<Rightarrow> plan_condition list \<Rightarrow> verification_context \<Rightarrow>
     verification_report \<Rightarrow> verification_report" where
  "verify_conditions v p s conditions c r =
     fold (\<lambda>(index, condition) r.
         case evaluate_condition p condition c of
           Satisfied \<Rightarrow> r
         | NeedsApproval \<Rightarrow>
             push (pv_max_violations v) (violation ApprovalRequiredCode (Some (st_id s))
               (Some index) ''condicao de aprovacao ainda nao foi satisfeita'') r
         | MissingContext \<Rightarrow>
             push (pv_max_violations v) (violation ConditionContextMissing (Some (st_id s))
               (Some index) ''fato necessario nao foi fornecido pelo host'') r
         | Unsatisfied \<Rightarrow>
             push (pv_max_violations v) (violation ConditionUnsatisfied (Some (st_id s))
               (Some index) ''condicao nao satisfeita'') r)
       (enumerate 0 conditions) r"

definition verify_step_approval ::
    "plan_verifier \<Rightarrow> plan_spec \<Rightarrow> plan_step \<Rightarrow> verification_context \<Rightarrow> verification_report \<Rightarrow>
     verification_report" where
  "verify_step_approval v p s c r =
     (let required = step_required_approval s in
      if required = NoApproval then r
      else if \<not> has_valid_approval p (Some (st_id s)) c \<and> \<not> has_valid_approval p None c then
        push (pv_max_violations v) (violation ApprovalRequiredCode (Some (st_id s)) None
          ''aprovacao humana da etapa ainda nao foi comprovada'') r
      else r)"

subsection \<open>\<open>PlanVerifier::verify\<close>\<close>

text \<open>Everything before the phase: digest, number of steps, shape of each step, plan state.\<close>

definition verify_structure_phase ::
    "(plan_spec \<Rightarrow> string) \<Rightarrow> plan_verifier \<Rightarrow> plan_spec \<Rightarrow> verification_report \<Rightarrow>
     verification_report" where
  "verify_structure_phase sha v p r =
     (let n = pv_max_violations v;
          r1 = (case verify_digest sha p of
                  Inl e \<Rightarrow> push n (violation DigestInvalid None None (safe_error_detail e)) r
                | Inr _ \<Rightarrow> r);
          r2 = (if length (ps_steps p) > pv_max_steps v then
                  push n (violation LimitExceeded None None
                    ''quantidade de etapas excede o limite do verificador'') r1
                else r1);
          r3 = fold (verify_step_shape v p) (ps_steps p) r2
      in if ps_state p \<in> {Succeeded, Failed, Cancelled, Compensated, Rejected} then
           push n (violation PlanStateInvalid None None ''plano esta em estado terminal'') r3
         else r3)"

text \<open>The checks of the context's phase; \<open>None\<close> is the early return on a missing target.\<close>

definition verify_target ::
    "plan_verifier \<Rightarrow> string \<Rightarrow> plan_spec \<Rightarrow> verification_context \<Rightarrow> verification_report \<Rightarrow>
     verification_report + plan_step" where
  "verify_target v missing p c r =
     (case vc_target_step c of
        None \<Rightarrow>
          Inl ((push (pv_max_violations v) (violation MissingReference None None missing) r)
            \<lparr>vr_status := Invalid\<rparr>)
      | Some i \<Rightarrow>
          (case find_step p i of
             None \<Rightarrow> Inl ((push (pv_max_violations v) (violation MissingReference (Some i) None
                 ''etapa alvo nao existe no plano'') r)\<lparr>vr_status := Invalid\<rparr>)
           | Some s \<Rightarrow> Inr s))"

definition verify_phase ::
    "plan_verifier \<Rightarrow> plan_spec \<Rightarrow> verification_context \<Rightarrow> verification_report \<Rightarrow>
     verification_report + verification_report" where
  "verify_phase v p c r =
     (case vc_phase c of
        Preflight \<Rightarrow> Inr (verify_preflight_approval v p c r)
      | StepReadyPhase \<Rightarrow>
          and_then (verify_target v ''step-ready exige uma etapa alvo'' p c r) (\<lambda>s.
          Inr (verify_step_approval v p s c
                (verify_conditions v p s (st_preconditions s) c
                  (verify_dependencies v s c r))))
      | PostStep \<Rightarrow>
          and_then (verify_target v ''post-step exige uma etapa alvo'' p c r) (\<lambda>s.
          Inr (verify_conditions v p s (st_postconditions s) c r)))"

definition final_status :: "verification_report \<Rightarrow> verification_report" where
  "final_status r =
     (if has_blocking_violation r then r\<lparr>vr_status := Invalid\<rparr>
      else if list_ex (\<lambda>x. vi_code x = ApprovalRequiredCode) (vr_violations r)
      then r\<lparr>vr_status := RequiresApproval\<rparr> else r)"

definition verify ::
    "(plan_spec \<Rightarrow> string) \<Rightarrow> plan_verifier \<Rightarrow> plan_spec \<Rightarrow> verification_context \<Rightarrow>
     verification_report" where
  "verify sha v p c =
     (let report = \<lparr>vr_plan_id = ps_plan_id p, vr_plan_digest = ps_digest p,
            vr_phase = vc_phase c, vr_status = Valid, vr_violations = []\<rparr>
      in case validate_structure p of
           Inl e \<Rightarrow>
             (push (pv_max_violations v) (violation StructureInvalid None None
               (safe_error_detail e)) report)\<lparr>vr_status := Invalid\<rparr>
         | Inr _ \<Rightarrow>
             (let r = verify_structure_phase sha v p report in
              if has_blocking_violation r then r\<lparr>vr_status := Invalid\<rparr>
              else (case verify_phase v p c r of
                      Inl early \<Rightarrow> early
                    | Inr r' \<Rightarrow> final_status r')))"

end
