(* ===== verification/Plan_Verifier_Facts.thy ===== *)
theory Plan_Verifier_Facts
  imports Plan_Verifier
begin

text \<open>
  What the verdict of the verifier means. The bounded report is a prefix of the list of all
  violations; with it the verdict \<open>Valid\<close> is characterised for every verifier, and for the default
  limits the bound on the report is shown never to change the verdict.
\<close>

subsection \<open>The report as a prefix\<close>

definition add_violations ::
    "nat \<Rightarrow> plan_violation list \<Rightarrow> verification_report \<Rightarrow> verification_report" where
  "add_violations n vs r = fold (push n) vs r"

lemma add_violations_simps [simp]:
  "add_violations n [] r = r"
  "add_violations n (v # vs) r = add_violations n vs (push n v r)"
  by (simp_all add: add_violations_def)

lemma add_violations_append [simp]:
  "add_violations n (vs @ ws) r = add_violations n ws (add_violations n vs r)"
  by (simp add: add_violations_def)

lemma push_eq: "push n v r = add_violations n [v] r"
  by simp

lemma fold_add_violations:
  assumes "\<And>x r. x \<in> set xs \<Longrightarrow> f x r = add_violations n (g x) r"
  shows "fold f xs r = add_violations n (concat (map g xs)) r"
  using assms by (induction xs arbitrary: r) simp_all

lemma add_violations_status [simp]:
  "vr_status (add_violations n vs r) = vr_status r"
  "vr_phase (add_violations n vs r) = vr_phase r"
  by (induction vs arbitrary: r) (simp_all add: push_def Let_def)

lemma add_violations_violations:
  assumes "length (vr_violations r) \<le> max n 1"
  shows "vr_violations (add_violations n vs r) = take (max n 1) (vr_violations r @ vs)"
  using assms
proof (induction vs arbitrary: r)
  case (Cons v vs)
  show ?case
  proof (cases "length (vr_violations r) < max n 1")
    case True
    then show ?thesis using Cons.IH [of "push n v r"] by (simp add: push_def)
  next
    case False
    with Cons.prems have full: "length (vr_violations r) = max n 1" by simp
    then have "push n v r = r" by (auto simp: push_def Let_def max_def split: if_splits)
    with Cons.IH [OF Cons.prems] full show ?thesis by simp
  qed
qed simp

subsection \<open>Each check as a list of violations\<close>

definition shape_violations :: "plan_verifier \<Rightarrow> plan_spec \<Rightarrow> plan_step \<Rightarrow> plan_violation list" where
  "shape_violations v p s =
     (if length (st_depends_on s) > pv_max_dependencies_per_step v then
        [violation LimitExceeded (Some (st_id s)) None
          ''quantidade de dependencias excede o limite''] else [])
     @ (if length (st_preconditions s) > pv_max_conditions_per_step v
          \<or> length (st_postconditions s) > pv_max_conditions_per_step v then
          [violation LimitExceeded (Some (st_id s)) None
            ''quantidade de condicoes excede o limite''] else [])
     @ concat (map (\<lambda>(index, condition).
         case referenced_step condition of
           None \<Rightarrow> []
         | Some i \<Rightarrow>
             if list_ex (\<lambda>candidate. st_id candidate = i) (ps_steps p) then []
             else [violation MissingReference (Some (st_id s)) (Some index)
                    ''condicao referencia etapa inexistente''])
       (enumerate 0 (st_preconditions s @ st_postconditions s)))"

definition structure_violations ::
    "(plan_spec \<Rightarrow> string) \<Rightarrow> plan_verifier \<Rightarrow> plan_spec \<Rightarrow> plan_violation list" where
  "structure_violations sha v p =
     (case verify_digest sha p of
        Inl e \<Rightarrow> [violation DigestInvalid None None (safe_error_detail e)] | Inr _ \<Rightarrow> [])
     @ (if length (ps_steps p) > pv_max_steps v then
          [violation LimitExceeded None None
            ''quantidade de etapas excede o limite do verificador''] else [])
     @ concat (map (shape_violations v p) (ps_steps p))
     @ (if plan_is_terminal (ps_state p) then
          [violation PlanStateInvalid None None ''plano esta em estado terminal''] else [])"

definition dependency_violations ::
    "plan_step \<Rightarrow> verification_context \<Rightarrow> plan_violation list" where
  "dependency_violations s c =
     concat (map (\<lambda>d. if d \<notin> vc_succeeded_steps c then
         [violation DependencyNotSatisfied (Some (st_id s)) None
           ''dependencia ainda nao foi comprovada como concluida''] else []) (st_depends_on s))"

definition condition_violations ::
    "plan_spec \<Rightarrow> plan_step \<Rightarrow> plan_condition list \<Rightarrow> verification_context \<Rightarrow> plan_violation list"
  where
  "condition_violations p s conditions c =
     concat (map (\<lambda>(index, condition).
         case evaluate_condition p condition c of
           Satisfied \<Rightarrow> []
         | NeedsApproval \<Rightarrow> [violation ApprovalRequiredCode (Some (st_id s))
               (Some index) ''condicao de aprovacao ainda nao foi satisfeita'']
         | MissingContext \<Rightarrow> [violation ConditionContextMissing (Some (st_id s))
               (Some index) ''fato necessario nao foi fornecido pelo host'']
         | Unsatisfied \<Rightarrow> [violation ConditionUnsatisfied (Some (st_id s))
               (Some index) ''condicao nao satisfeita'']) (enumerate 0 conditions))"

definition step_approval_violations ::
    "plan_spec \<Rightarrow> plan_step \<Rightarrow> verification_context \<Rightarrow> plan_violation list" where
  "step_approval_violations p s c =
     (if step_required_approval s \<noteq> NoApproval \<and> \<not> has_valid_approval p (Some (st_id s)) c
         \<and> \<not> has_valid_approval p None c
      then [violation ApprovalRequiredCode (Some (st_id s)) None
        ''aprovacao humana da etapa ainda nao foi comprovada''] else [])"

definition preflight_violations :: "plan_spec \<Rightarrow> verification_context \<Rightarrow> plan_violation list" where
  "preflight_violations p c =
     (if required_approval p \<noteq> NoApproval \<and> \<not> has_valid_approval p None c
      then [violation ApprovalRequiredCode None None
        ''aprovacao humana global ainda nao foi comprovada''] else [])"

named_theorems check_lists \<open>each check of the verifier as the list of its violations\<close>

lemma verify_step_shape_list [check_lists]:
  "verify_step_shape v p s r = add_violations (pv_max_violations v) (shape_violations v p s) r"
  unfolding verify_step_shape_def shape_violations_def Let_def
  by (subst fold_add_violations [OF _, where n = "pv_max_violations v"])
    (auto split: option.splits)

lemma verify_dependencies_list [check_lists]:
  "verify_dependencies v s c r = add_violations (pv_max_violations v) (dependency_violations s c) r"
  unfolding verify_dependencies_def dependency_violations_def
  by (subst fold_add_violations [OF _, where n = "pv_max_violations v"]) auto

lemma verify_conditions_list [check_lists]:
  "verify_conditions v p s cs c r =
     add_violations (pv_max_violations v) (condition_violations p s cs c) r"
  unfolding verify_conditions_def condition_violations_def
  by (subst fold_add_violations [OF _, where n = "pv_max_violations v"])
    (auto split: condition_result.splits)

lemma verify_step_approval_list [check_lists]:
  "verify_step_approval v p s c r =
     add_violations (pv_max_violations v) (step_approval_violations p s c) r"
  by (auto simp: verify_step_approval_def step_approval_violations_def Let_def)

lemma verify_preflight_approval_list [check_lists]:
  "verify_preflight_approval v p c r =
     add_violations (pv_max_violations v) (preflight_violations p c) r"
  by (auto simp: verify_preflight_approval_def preflight_violations_def)

lemma verify_structure_phase_list [check_lists]:
  "verify_structure_phase sha v p r =
     add_violations (pv_max_violations v) (structure_violations sha v p) r"
proof -
  have shapes: "fold (verify_step_shape v p) (ps_steps p) r =
      add_violations (pv_max_violations v) (concat (map (shape_violations v p) (ps_steps p))) r" for r
    by (rule fold_add_violations) (simp add: check_lists)
  show ?thesis
    by (auto simp: verify_structure_phase_def structure_violations_def Let_def shapes
        plan_is_terminal_def split: sum.splits)
qed

subsection \<open>The verdict\<close>

text \<open>All violations of a run, without the bound, up to the point where the run stops.\<close>

definition phase_violations ::
    "plan_spec \<Rightarrow> verification_context \<Rightarrow> plan_violation list option" where
  "phase_violations p c =
     (case vc_phase c of
        Preflight \<Rightarrow> Some (preflight_violations p c)
      | StepReadyPhase \<Rightarrow>
          map_option (\<lambda>s. dependency_violations s c
            @ condition_violations p s (st_preconditions s) c @ step_approval_violations p s c)
            (Option.bind (vc_target_step c) (find_step p))
      | PostStep \<Rightarrow>
          map_option (\<lambda>s. condition_violations p s (st_postconditions s) c)
            (Option.bind (vc_target_step c) (find_step p)))"

definition blocking :: "plan_violation list \<Rightarrow> bool" where
  "blocking vs \<longleftrightarrow> (\<exists>v \<in> set vs. vi_code v \<noteq> ApprovalRequiredCode)"

definition status_of :: "plan_violation list \<Rightarrow> verification_status" where
  "status_of vs =
     (if blocking vs then Invalid else if vs \<noteq> [] then RequiresApproval else Valid)"

lemma structure_violations_blocking:
  "v \<in> set (structure_violations sha ver p) \<Longrightarrow> vi_code v \<noteq> ApprovalRequiredCode"
  by (auto simp: structure_violations_def shape_violations_def
      split: sum.splits if_splits option.splits)

lemma blocking_structure:
  "blocking (take (max n 1) (structure_violations sha v p)) \<longleftrightarrow> structure_violations sha v p \<noteq> []"
proof (cases "structure_violations sha v p")
  case (Cons x xs)
  then have "vi_code x \<noteq> ApprovalRequiredCode" "x \<in> set (take (max n 1) (x # xs))"
    using structure_violations_blocking [of x sha v p] by (auto simp: max_def take_Cons')
  then show ?thesis using Cons unfolding blocking_def by (metis list.distinct(1))
qed (simp add: blocking_def)

lemma has_blocking_iff: "has_blocking_violation r \<longleftrightarrow> blocking (vr_violations r)"
  by (auto simp: has_blocking_violation_def blocking_def list_ex_iff)

lemma final_status_eq:
  "vr_status r = Valid \<Longrightarrow> vr_status (final_status r) = status_of (vr_violations r)"
  by (cases "vr_violations r")
    (auto simp: final_status_def status_of_def has_blocking_iff blocking_def list_ex_iff)

lemma verify_phase_list:
  assumes "vr_violations r = []" "vr_status r = Valid"
  shows "(case verify_phase v p c r of Inl e \<Rightarrow> vr_status e | Inr r' \<Rightarrow> vr_status (final_status r')) =
    (case phase_violations p c of
       None \<Rightarrow> Invalid
     | Some vs \<Rightarrow> status_of (take (max (pv_max_violations v) 1) vs))"
proof -
  have stop: "vr_status (final_status (add_violations (pv_max_violations v) vs r)) =
      status_of (take (max (pv_max_violations v) 1) vs)" for vs
    using assms by (simp add: final_status_eq add_violations_violations)
  show ?thesis
    by (cases "vc_phase c"; cases "vc_target_step c")
      (auto simp: verify_phase_def phase_violations_def verify_target_def check_lists stop
        add_violations_append [symmetric] simp del: add_violations_append
        split: option.splits)
qed

text \<open>The status of a report, for any limits: a plan that fails structural validation, its
  digest, the shape limits or is terminal is invalid; otherwise the first \<open>max_violations\<close> (at least
  one) violations of the phase decide.\<close>

lemma verify_status_lemma:
  "vr_status (verify sha v p c) =
     (if validate_structure p \<noteq> Inr () \<or> structure_violations sha v p \<noteq> [] then Invalid
      else case phase_violations p c of
          None \<Rightarrow> Invalid
        | Some vs \<Rightarrow> status_of (take (max (pv_max_violations v) 1) vs))"
proof -
  define r0 where "r0 = \<lparr>vr_plan_id = ps_plan_id p, vr_plan_digest = ps_digest p,
     vr_phase = vc_phase c, vr_status = Valid, vr_violations = []\<rparr>"
  have blk: "has_blocking_violation (verify_structure_phase sha v p r0) \<longleftrightarrow>
      structure_violations sha v p \<noteq> []"
    using blocking_structure [of "pv_max_violations v" sha v p]
    by (simp add: has_blocking_iff check_lists add_violations_violations r0_def)
  have clear: "\<not> has_blocking_violation r0"
    by (simp add: has_blocking_violation_def r0_def)
  have same: "structure_violations sha v p = [] \<Longrightarrow> verify_structure_phase sha v p r0 = r0"
    by (simp add: check_lists)
  have phase: "(case verify_phase v p c r0 of Inl e \<Rightarrow> vr_status e
      | Inr r' \<Rightarrow> vr_status (final_status r')) =
      (case phase_violations p c of None \<Rightarrow> Invalid
       | Some vs \<Rightarrow> status_of (take (max (pv_max_violations v) 1) vs))"
    by (rule verify_phase_list) (simp_all add: r0_def)
  have verify: "verify sha v p c = (case validate_structure p of
      Inl e \<Rightarrow> (push (pv_max_violations v) (violation StructureInvalid None None
         (safe_error_detail e)) r0)\<lparr>vr_status := Invalid\<rparr>
    | Inr _ \<Rightarrow> if structure_violations sha v p \<noteq> []
        then (verify_structure_phase sha v p r0)\<lparr>vr_status := Invalid\<rparr>
        else (case verify_phase v p c r0 of Inl e \<Rightarrow> e | Inr r' \<Rightarrow> final_status r'))"
    using blk same clear by (simp add: verify_def r0_def [symmetric] Let_def split: sum.split)
  show ?thesis
    using phase by (cases "validate_structure p"; cases "verify_phase v p c r0") (auto simp: verify)
qed

lemma status_of_valid [simp]: "status_of vs = Valid \<longleftrightarrow> vs = []"
  by (auto simp: status_of_def blocking_def)

lemma take_retained_empty [simp]: "take (max n (Suc 0)) vs = [] \<longleftrightarrow> vs = []"
  by (auto simp: max_def split: if_splits)

definition step_shape_ok :: "plan_verifier \<Rightarrow> plan_spec \<Rightarrow> plan_step \<Rightarrow> bool" where
  "step_shape_ok v p s \<longleftrightarrow>
     length (st_depends_on s) \<le> pv_max_dependencies_per_step v
     \<and> length (st_preconditions s) \<le> pv_max_conditions_per_step v
     \<and> length (st_postconditions s) \<le> pv_max_conditions_per_step v
     \<and> (\<forall>k \<in> set (st_preconditions s @ st_postconditions s). \<forall>i.
          referenced_step k = Some i \<longrightarrow> i \<in> st_id ` set (ps_steps p))"

definition conditions_hold ::
    "plan_spec \<Rightarrow> plan_condition list \<Rightarrow> verification_context \<Rightarrow> bool" where
  "conditions_hold p conditions c \<longleftrightarrow>
     (\<forall>k \<in> set conditions. evaluate_condition p k c = Satisfied)"

definition phase_ok :: "plan_spec \<Rightarrow> verification_context \<Rightarrow> bool" where
  "phase_ok p c \<longleftrightarrow>
     (case vc_phase c of
        Preflight \<Rightarrow> required_approval p = NoApproval \<or> has_valid_approval p None c
      | StepReadyPhase \<Rightarrow>
          (\<exists>i s. vc_target_step c = Some i \<and> find_step p i = Some s
            \<and> set (st_depends_on s) \<subseteq> vc_succeeded_steps c
            \<and> conditions_hold p (st_preconditions s) c
            \<and> (step_required_approval s = NoApproval \<or> has_valid_approval p (Some i) c
                \<or> has_valid_approval p None c))
      | PostStep \<Rightarrow>
          (\<exists>i s. vc_target_step c = Some i \<and> find_step p i = Some s
            \<and> conditions_hold p (st_postconditions s) c))"

lemma concat_enumerate_Nil:
  assumes "\<And>i k. f i k = [] \<longleftrightarrow> P k"
  shows "concat (map (\<lambda>(i, k). f i k) (enumerate n xs)) = [] \<longleftrightarrow> (\<forall>k \<in> set xs. P k)"
  using assms by (induction xs arbitrary: n) auto

lemma shape_violations_Nil: "shape_violations v p s = [] \<longleftrightarrow> step_shape_ok v p s"
proof -
  have refs: "(concat (map (\<lambda>(index, condition).
         case referenced_step condition of
           None \<Rightarrow> []
         | Some i \<Rightarrow>
             if list_ex (\<lambda>candidate. st_id candidate = i) (ps_steps p) then []
             else [violation MissingReference (Some (st_id s)) (Some index)
                    ''condicao referencia etapa inexistente'']) (enumerate 0 cs)) = []) \<longleftrightarrow>
      (\<forall>k \<in> set cs. \<forall>i. referenced_step k = Some i \<longrightarrow> i \<in> st_id ` set (ps_steps p))" for cs
    by (rule concat_enumerate_Nil) (auto simp: list_ex_iff split: option.splits if_splits)
  show ?thesis
    unfolding shape_violations_def step_shape_ok_def append_is_Nil_conv refs by auto
qed

lemma condition_violations_Nil:
  "condition_violations p s cs c = [] \<longleftrightarrow> conditions_hold p cs c"
  unfolding condition_violations_def conditions_hold_def
  by (rule concat_enumerate_Nil) (simp split: condition_result.split)

lemma dependency_violations_Nil:
  "dependency_violations s c = [] \<longleftrightarrow> set (st_depends_on s) \<subseteq> vc_succeeded_steps c"
  by (auto simp: dependency_violations_def split: if_splits)

lemma find_step_id: "find_step p i = Some s \<Longrightarrow> st_id s = i"
  by (auto simp: find_step_def dest: find_SomeD)

lemma phase_violations_Nil: "phase_violations p c = Some [] \<longleftrightarrow> phase_ok p c"
proof (cases "vc_phase c")
  case StepReadyPhase
  show ?thesis
  proof (cases "Option.bind (vc_target_step c) (find_step p)")
    case (Some s)
    then obtain i where i: "vc_target_step c = Some i" "find_step p i = Some s" "st_id s = i"
      by (auto simp: bind_eq_Some_conv find_step_id)
    then show ?thesis using StepReadyPhase
      by (auto simp: phase_violations_def phase_ok_def condition_violations_Nil
          dependency_violations_Nil step_approval_violations_def)
  qed (use StepReadyPhase in \<open>cases "vc_target_step c"\<close>,
      auto simp: phase_violations_def phase_ok_def)
qed (auto simp: phase_violations_def phase_ok_def preflight_violations_def condition_violations_Nil
    bind_eq_Some_conv)

lemma structure_violations_Nil:
  "structure_violations sha v p = [] \<longleftrightarrow>
     verify_digest sha p = Inr () \<and> length (ps_steps p) \<le> pv_max_steps v
     \<and> (\<forall>s \<in> set (ps_steps p). step_shape_ok v p s) \<and> \<not> plan_is_terminal (ps_state p)"
  by (auto simp: structure_violations_def shape_violations_Nil not_less split: sum.splits)

text \<open>Whatever the limits, the verifier lets a plan or a step through exactly when the structure
  validates, the digest matches, the limits hold, the plan is not terminal and the phase's own facts
  hold: the required approval for a preflight; dependencies, preconditions and approval for a step
  about to run; postconditions afterwards.\<close>

lemma verify_executable_lemma:
  "is_executable (verify sha v p c) \<longleftrightarrow>
     validate_structure p = Inr () \<and> verify_digest sha p = Inr ()
     \<and> length (ps_steps p) \<le> pv_max_steps v \<and> (\<forall>s \<in> set (ps_steps p). step_shape_ok v p s)
     \<and> \<not> plan_is_terminal (ps_state p) \<and> phase_ok p c"
proof -
  have "vr_status (verify sha v p c) = Valid \<longleftrightarrow>
      validate_structure p = Inr () \<and> structure_violations sha v p = []
      \<and> phase_violations p c = Some []"
    by (auto simp: verify_status_lemma split: option.splits)
  then show ?thesis
    by (auto simp: is_executable_def structure_violations_Nil phase_violations_Nil)
qed

subsection \<open>The bound on the report\<close>

lemma condition_violations_length: "length (condition_violations p s cs c) \<le> length cs"
proof -
  have short: "length (concat (map (\<lambda>(i, k). f i k) (enumerate n xs))) \<le> length xs"
    if "\<And>i k. length (f i k) \<le> 1" for f :: "nat \<Rightarrow> plan_condition \<Rightarrow> plan_violation list" and n xs
  proof (induction xs arbitrary: n)
    case (Cons x xs)
    show ?case using Cons [of "Suc n"] that [of n x] by simp
  qed simp
  show ?thesis
    unfolding condition_violations_def by (rule short) (simp split: condition_result.split)
qed

lemma status_of_take_dependencies:
  assumes "\<And>v. v \<in> set ds \<Longrightarrow> vi_code v \<noteq> ApprovalRequiredCode"
    and "\<And>v. v \<in> set as \<Longrightarrow> vi_code v = ApprovalRequiredCode"
    and "length cs \<le> n" "0 < n"
  shows "status_of (take n (ds @ cs @ as)) = status_of (ds @ cs @ as)"
proof (cases ds)
  case Nil
  then have "blocking (take n (cs @ as)) \<longleftrightarrow> blocking (cs @ as)"
    using assms(2,3) by (auto simp: blocking_def dest: in_set_takeD)
  with Nil \<open>0 < n\<close> show ?thesis by (simp add: status_of_def)
next
  case (Cons d ds')
  then have "d \<in> set (take n (ds @ cs @ as))" "vi_code d \<noteq> ApprovalRequiredCode"
    using assms(1,4) by (auto simp: take_Cons')
  then have "blocking (take n (ds @ cs @ as))" "blocking (ds @ cs @ as)"
    unfolding blocking_def by (blast dest: in_set_takeD)+
  then show ?thesis by (simp add: status_of_def)
qed

lemma phase_status_take:
  assumes "phase_violations p c = Some vs"
    and "\<forall>s \<in> set (ps_steps p). length (st_preconditions s) \<le> n \<and> length (st_postconditions s) \<le> n"
    and "0 < n"
  shows "status_of (take n vs) = status_of vs"
proof (cases "vc_phase c")
  case Preflight
  then show ?thesis
    using assms by (auto simp: phase_violations_def preflight_violations_def Suc_le_eq)
next
  case StepReadyPhase
  then obtain s where s: "s \<in> set (ps_steps p)"
    and vs: "vs = dependency_violations s c
      @ condition_violations p s (st_preconditions s) c @ step_approval_violations p s c"
    using assms(1)
    by (auto simp: phase_violations_def bind_eq_Some_conv find_step_def dest: find_SomeD)
  show ?thesis
    unfolding vs
    using s assms(2,3) condition_violations_length [of p s "st_preconditions s" c]
    by (intro status_of_take_dependencies)
      (auto simp: dependency_violations_def step_approval_violations_def split: if_splits)
next
  case PostStep
  then obtain s where s: "s \<in> set (ps_steps p)"
    and vs: "vs = condition_violations p s (st_postconditions s) c"
    using assms(1)
    by (auto simp: phase_violations_def bind_eq_Some_conv find_step_def dest: find_SomeD)
  have "length vs \<le> n"
    unfolding vs using s assms(2) condition_violations_length order_trans by blast
  then show ?thesis by simp
qed

text \<open>With the default limits the report's bound never hides a blocking violation: any verifier
  that keeps at least 64 violations, with the other limits unchanged, gives the same status.\<close>

theorem default_retention_exact:
  assumes "64 \<le> n"
  shows "vr_status (verify sha (default_verifier\<lparr>pv_max_violations := n\<rparr>) p c)
    = vr_status (verify sha default_verifier p c)"
proof -
  have same_shape: "structure_violations sha (default_verifier\<lparr>pv_max_violations := n\<rparr>) p = []
      \<longleftrightarrow> structure_violations sha default_verifier p = []"
    by (simp add: structure_violations_Nil step_shape_ok_def default_verifier_def)
  have "status_of (take (max n 1) vs) = status_of (take 64 vs)"
    if "phase_violations p c = Some vs" "structure_violations sha default_verifier p = []" for vs
  proof -
    have small: "\<forall>s \<in> set (ps_steps p). length (st_preconditions s) \<le> 64
        \<and> length (st_postconditions s) \<le> 64"
      using that(2) by (simp add: structure_violations_Nil step_shape_ok_def default_verifier_def)
    then have "\<forall>s \<in> set (ps_steps p). length (st_preconditions s) \<le> max n 1
        \<and> length (st_postconditions s) \<le> max n 1"
      using assms by fastforce
    from phase_status_take [OF that(1) this] phase_status_take [OF that(1) small]
    show ?thesis by simp
  qed
  then show ?thesis
    using same_shape by (auto simp: verify_status_lemma default_verifier_def split: option.splits)
qed

definition sample_context :: verification_context where
  "sample_context = for_step (PlanStepId ''b'') (new_context 10 StepReadyPhase)
     \<lparr>vc_succeeded_steps := {PlanStepId ''a''}, vc_approvals := [sample_approval]\<rparr>"

lemma sample_executable: "is_executable (verify sample_sha default_verifier sample_draft sample_context)"
  by code_simp

theorem default_retention_exact_witness:
  "vr_status (verify sample_sha (default_verifier\<lparr>pv_max_violations := 100\<rparr>) sample_draft sample_context)
   = vr_status (verify sample_sha default_verifier sample_draft sample_context)"
  by (rule default_retention_exact) simp

text \<open>The verdict for every verifier: the status is the one the complete list of violations has,
  cut at the report's limit (at least one entry is always kept).\<close>

theorem verify_status:
  "vr_status (verify sha v p c) =
     (if validate_structure p = Inr () \<and> structure_violations sha v p = []
      then (case phase_violations p c of
              None \<Rightarrow> Invalid
            | Some vs \<Rightarrow> status_of (take (max (pv_max_violations v) 1) vs))
      else Invalid)"
  by (auto simp: verify_status_lemma)

text \<open>C1: whatever the limits, the verifier lets a plan or a step through exactly when the structure
  validates, the digest matches, the limits hold, the plan is not terminal and the phase's own facts
  hold.\<close>

theorem verify_executable_iff:
  "is_executable (verify sha v p c) \<longleftrightarrow>
     validate_structure p = Inr () \<and> verify_digest sha p = Inr ()
     \<and> length (ps_steps p) \<le> pv_max_steps v \<and> (\<forall>s \<in> set (ps_steps p). step_shape_ok v p s)
     \<and> \<not> plan_is_terminal (ps_state p) \<and> phase_ok p c"
  by (rule verify_executable_lemma)

theorem verify_executable_iff_witness:
  "phase_ok sample_draft sample_context \<and> step_shape_ok default_verifier sample_draft step_write"
  using verify_executable_iff [of sample_sha default_verifier sample_draft sample_context]
    sample_executable by (simp add: sample_draft_def)

subsection \<open>Approvals\<close>

definition scope_approval ::
    "plan_spec \<Rightarrow> plan_step_id option \<Rightarrow> plan_approval_requirement option" where
  "scope_approval p step_id =
     (case step_id of
        None \<Rightarrow> Some (required_approval p)
      | Some i \<Rightarrow> map_option step_required_approval (find_step p i))"

text \<open>An approval is accepted for a scope exactly when it is a live approval by somebody other
  than the proposer, bound to this plan, digest, revision, tenant and scope, at a level that covers
  the scope and that the approver's role may grant.\<close>

theorem validate_for_iff:
  "validate_for a p step_id now = Inr () \<longleftrightarrow>
     ap_decision a = DecisionApproved \<and> \<not> ap_revoked a \<and> now < ap_expires_at a
     \<and> ap_approver a \<noteq> ps_operator p
     \<and> ap_plan_id a = ps_plan_id p \<and> ap_plan_digest a = ps_digest p
     \<and> ap_revision a = ps_revision p \<and> ap_tenant a = ps_tenant p \<and> ap_step_id a = step_id
     \<and> (\<exists>level. scope_approval p step_id = Some level \<and> level \<le> ap_required a
          \<and> allows_role (ap_required a) (ap_approver_role a))"
  by (cases step_id)
    (auto simp: validate_for_def scope_approval_def result_simps not_less not_le split: if_splits)

lemma validate_for_live:
  assumes "validate_for a p step_id now = Inr ()"
  shows "ap_approver a \<noteq> ps_operator p" "now < ap_expires_at a" "\<not> ap_revoked a"
    "ap_plan_digest a = ps_digest p"
    "\<exists>level. scope_approval p step_id = Some level \<and> level \<le> ap_required a
       \<and> allows_role level (ap_approver_role a)"
  using assms
  by (cases step_id; auto simp: validate_for_def scope_approval_def result_simps not_less not_le
      split: if_splits intro: allows_role_antimono)+

lemma find_step_mem: "find_step p i = Some s \<Longrightarrow> s \<in> set (ps_steps p) \<and> st_id s = i"
  by (auto simp: find_step_def dest: find_SomeD)

lemma scope_covers_step:
  assumes "find_step p i = Some s" "scope_approval p k = Some level" "k = None \<or> k = Some i"
  shows "minimum_approval (st_risk s) \<le> level"
proof -
  have "minimum_approval (st_risk s) \<le> step_required_approval s"
    by (simp add: step_required_approval_def)
  also have "\<dots> \<le> level"
  proof (cases k)
    case None
    have "ps_steps p \<noteq> []" "s \<in> set (ps_steps p)"
      using find_step_mem [OF assms(1)] by auto
    then show ?thesis
      using None assms(2) required_approval_le_iff [of p "required_approval p"]
      by (auto simp: scope_approval_def)
  next
    case (Some j)
    then show ?thesis using assms by (auto simp: scope_approval_def)
  qed
  finally show ?thesis .
qed

lemma executable_risky_step:
  assumes "is_executable (verify sha v p c)" "vc_phase c = StepReadyPhase"
    and "vc_target_step c = Some i" "find_step p i = Some s" "st_risk s \<noteq> ReadOnly"
  shows "\<exists>a \<in> set (vc_approvals c).
      ap_approver a \<noteq> ps_operator p \<and> allows_role (minimum_approval (st_risk s)) (ap_approver_role a)
      \<and> vc_now c < ap_expires_at a \<and> \<not> ap_revoked a \<and> ap_plan_digest a = ps_digest p"
proof -
  have "validate_structure p = Inr ()" and phase: "phase_ok p c"
    using assms(1) by (simp_all add: verify_executable_lemma)
  have "minimum_approval (st_risk s) \<noteq> NoApproval"
    using assms(5) by (cases "st_risk s") simp_all
  then have "step_required_approval s \<noteq> NoApproval"
    by (cases "st_risk s"; cases "st_approval s")
      (simp_all add: step_required_approval_def max_def level_orders)
  then obtain a k where a: "a \<in> set (vc_approvals c)" "k = None \<or> k = Some i"
    and ok: "validate_for a p k (vc_now c) = Inr ()"
    using phase assms(2-4)
    by (auto simp: phase_ok_def has_valid_approval_def list_ex_iff is_ok_iff)
  from validate_for_live(5) [OF ok] obtain level
    where "scope_approval p k = Some level" "allows_role level (ap_approver_role a)" by auto
  then have "allows_role (minimum_approval (st_risk s)) (ap_approver_role a)"
    using scope_covers_step [OF assms(4) _ a(2)] allows_role_antimono by blast
  with a(1) validate_for_live(1-4) [OF ok] show ?thesis by blast
qed

text \<open>C2: separation of duties at the point of execution: a step with any risk above read-only is let
  through only with a live approval, bound to the plan's digest, by an operator other than the
  proposer whose role covers the step's risk.\<close>

theorem risky_step_needs_independent_approval:
  assumes "is_executable (verify sha v p c)" "vc_phase c = StepReadyPhase"
    and "vc_target_step c = Some i" "find_step p i = Some s" "st_risk s \<noteq> ReadOnly"
  shows "\<exists>a \<in> set (vc_approvals c).
      ap_approver a \<noteq> ps_operator p \<and> allows_role (minimum_approval (st_risk s)) (ap_approver_role a)
      \<and> vc_now c < ap_expires_at a \<and> \<not> ap_revoked a \<and> ap_plan_digest a = ps_digest p"
  using executable_risky_step assms by blast

theorem risky_step_needs_independent_approval_witness:
  "\<exists>a \<in> set (vc_approvals sample_context). ap_approver a \<noteq> ps_operator sample_draft
      \<and> allows_role (minimum_approval (st_risk step_write)) (ap_approver_role a)"
  using risky_step_needs_independent_approval
    [OF sample_executable, of "PlanStepId ''b''" step_write]
  by (auto simp: sample_context_def for_step_def new_context_def find_step_def sample_draft_def
      step_write_def)

end
