(* ===== verification/Store_Types.thy ===== *)
theory Store_Types
  imports Plan_Verifier_Facts
begin

text \<open>
  The data of \<^verbatim>\<open>crates/shaka-queue\<close>: the error type, the enumerations with the text stored in
  their columns, transitions and checkpoints of the plan reducer, and the SQLite schema as a record
  of tables. Columns that hold a UUID, a timestamp or a JSON document are typed (their encodings
  are those of the uuid, chrono and serde crates); columns whose encoding this crate defines (states,
  phases, statuses) are text.
\<close>

datatype sqlite_error = QueryReturnedNoRows | ConstraintViolation | ConversionFailure

datatype queue_error =
    Sqlite sqlite_error
  | DatabaseFull
  | Serialization
  | Core core_error
  | QInvalidIdentifier string
  | QInvalidInput string
  | NotFound string
  | IdempotencyConflict
  | QUnauthorized
  | Forbidden
  | QuotaExceeded string
  | InvalidDatabaseQuota u64 u64
  | RateLimited nat
  | LeaseLost

abbreviation core :: "core_error + 'a \<Rightarrow> queue_error + 'a" where
  "core r \<equiv> map_err Core r"

subsection \<open>Enumerations and their stored text\<close>

datatype checkpoint_phase =
    PhasePreflight | PhaseApproval | PhaseResolution | BeforeStep | AfterStep
  | PhaseCompensation | PhaseRecovery

datatype checkpoint_status =
    CheckpointPending | CheckpointSucceeded | CheckpointFailed | CheckpointUnknown

datatype task_status =
    Queued | TaskIsRunning | TaskIsSucceeded | TaskIsFailed | TaskCancelRequested | TaskIsCancelled

datatype circuit_state = Closed | Open | HalfOpen

fun plan_state_str :: "plan_state \<Rightarrow> string" where
  "plan_state_str Draft = ''draft''"
| "plan_state_str Proposed = ''proposed''"
| "plan_state_str Validated = ''validated''"
| "plan_state_str AwaitingApproval = ''awaiting_approval''"
| "plan_state_str Approved = ''approved''"
| "plan_state_str Running = ''running''"
| "plan_state_str Paused = ''paused''"
| "plan_state_str Succeeded = ''succeeded''"
| "plan_state_str Failed = ''failed''"
| "plan_state_str CancelRequested = ''cancel_requested''"
| "plan_state_str Cancelled = ''cancelled''"
| "plan_state_str Compensating = ''compensating''"
| "plan_state_str Compensated = ''compensated''"
| "plan_state_str Unknown = ''unknown''"
| "plan_state_str Rejected = ''rejected''"

definition parse_plan_state :: "string \<Rightarrow> queue_error + plan_state" where
  "parse_plan_state value =
     (if value = ''draft'' then Inr Draft
      else if value = ''proposed'' then Inr Proposed
      else if value = ''validated'' then Inr Validated
      else if value = ''awaiting_approval'' then Inr AwaitingApproval
      else if value = ''approved'' then Inr Approved
      else if value = ''running'' then Inr Running
      else if value = ''paused'' then Inr Paused
      else if value = ''succeeded'' then Inr Succeeded
      else if value = ''failed'' then Inr Failed
      else if value = ''cancel_requested'' then Inr CancelRequested
      else if value = ''cancelled'' then Inr Cancelled
      else if value = ''compensating'' then Inr Compensating
      else if value = ''compensated'' then Inr Compensated
      else if value = ''unknown'' then Inr Unknown
      else if value = ''rejected'' then Inr Rejected
      else Inl (QInvalidInput (''estado de plano desconhecido: '' @ value)))"

interpretation plan_state_text: text_codec plan_state_str parse_plan_state
proof unfold_locales
  show "parse_plan_state (plan_state_str x) = Inr x" for x
    by (cases x) (simp_all add: parse_plan_state_def)
  show "parse_plan_state s = Inr x \<Longrightarrow> s = plan_state_str x" for s x
    by (auto simp: parse_plan_state_def split: if_splits)
qed

fun step_state_str :: "plan_step_state \<Rightarrow> string" where
  "step_state_str StepPending = ''pending''"
| "step_state_str StepReady = ''ready''"
| "step_state_str StepRunning = ''running''"
| "step_state_str StepSucceeded = ''succeeded''"
| "step_state_str StepFailed = ''failed''"
| "step_state_str StepBlocked = ''blocked''"
| "step_state_str StepAwaitingApproval = ''awaiting_approval''"
| "step_state_str StepCancelRequested = ''cancel_requested''"
| "step_state_str StepCancelled = ''cancelled''"
| "step_state_str StepCompensating = ''compensating''"
| "step_state_str StepCompensated = ''compensated''"
| "step_state_str StepUnknown = ''unknown''"

definition parse_step_state :: "string \<Rightarrow> queue_error + plan_step_state" where
  "parse_step_state value =
     (if value = ''pending'' then Inr StepPending
      else if value = ''ready'' then Inr StepReady
      else if value = ''running'' then Inr StepRunning
      else if value = ''succeeded'' then Inr StepSucceeded
      else if value = ''failed'' then Inr StepFailed
      else if value = ''blocked'' then Inr StepBlocked
      else if value = ''awaiting_approval'' then Inr StepAwaitingApproval
      else if value = ''cancel_requested'' then Inr StepCancelRequested
      else if value = ''cancelled'' then Inr StepCancelled
      else if value = ''compensating'' then Inr StepCompensating
      else if value = ''compensated'' then Inr StepCompensated
      else if value = ''unknown'' then Inr StepUnknown
      else Inl (QInvalidInput (''estado de etapa desconhecido: '' @ value)))"

interpretation step_state_text: text_codec step_state_str parse_step_state
proof unfold_locales
  show "parse_step_state (step_state_str x) = Inr x" for x
    by (cases x) (simp_all add: parse_step_state_def)
  show "parse_step_state s = Inr x \<Longrightarrow> s = step_state_str x" for s x
    by (auto simp: parse_step_state_def split: if_splits)
qed

fun phase_as_str :: "checkpoint_phase \<Rightarrow> string" where
  "phase_as_str PhasePreflight = ''preflight''"
| "phase_as_str PhaseApproval = ''approval''"
| "phase_as_str PhaseResolution = ''resolution''"
| "phase_as_str BeforeStep = ''before_step''"
| "phase_as_str AfterStep = ''after_step''"
| "phase_as_str PhaseCompensation = ''compensation''"
| "phase_as_str PhaseRecovery = ''recovery''"

definition parse_phase :: "string \<Rightarrow> queue_error + checkpoint_phase" where
  "parse_phase value =
     (if value = ''preflight'' then Inr PhasePreflight
      else if value = ''approval'' then Inr PhaseApproval
      else if value = ''resolution'' then Inr PhaseResolution
      else if value = ''before_step'' then Inr BeforeStep
      else if value = ''after_step'' then Inr AfterStep
      else if value = ''compensation'' then Inr PhaseCompensation
      else if value = ''recovery'' then Inr PhaseRecovery
      else Inl (QInvalidInput (''fase de checkpoint desconhecida: '' @ value)))"

interpretation phase_text: text_codec phase_as_str parse_phase
proof unfold_locales
  show "parse_phase (phase_as_str x) = Inr x" for x
    by (cases x) (simp_all add: parse_phase_def)
  show "parse_phase s = Inr x \<Longrightarrow> s = phase_as_str x" for s x
    by (auto simp: parse_phase_def split: if_splits)
qed

fun checkpoint_status_as_str :: "checkpoint_status \<Rightarrow> string" where
  "checkpoint_status_as_str CheckpointPending = ''pending''"
| "checkpoint_status_as_str CheckpointSucceeded = ''succeeded''"
| "checkpoint_status_as_str CheckpointFailed = ''failed''"
| "checkpoint_status_as_str CheckpointUnknown = ''unknown''"

definition parse_checkpoint_status :: "string \<Rightarrow> queue_error + checkpoint_status" where
  "parse_checkpoint_status value =
     (if value = ''pending'' then Inr CheckpointPending
      else if value = ''succeeded'' then Inr CheckpointSucceeded
      else if value = ''failed'' then Inr CheckpointFailed
      else if value = ''unknown'' then Inr CheckpointUnknown
      else Inl (QInvalidInput (''status de checkpoint desconhecido: '' @ value)))"

interpretation checkpoint_status_text: text_codec checkpoint_status_as_str parse_checkpoint_status
proof unfold_locales
  show "parse_checkpoint_status (checkpoint_status_as_str x) = Inr x" for x
    by (cases x) (simp_all add: parse_checkpoint_status_def)
  show "parse_checkpoint_status s = Inr x \<Longrightarrow> s = checkpoint_status_as_str x" for s x
    by (auto simp: parse_checkpoint_status_def split: if_splits)
qed

fun task_status_as_str :: "task_status \<Rightarrow> string" where
  "task_status_as_str Queued = ''queued''"
| "task_status_as_str TaskIsRunning = ''running''"
| "task_status_as_str TaskIsSucceeded = ''succeeded''"
| "task_status_as_str TaskIsFailed = ''failed''"
| "task_status_as_str TaskCancelRequested = ''cancel_requested''"
| "task_status_as_str TaskIsCancelled = ''cancelled''"

definition parse_task_status :: "string \<Rightarrow> queue_error + task_status" where
  "parse_task_status value =
     (if value = ''queued'' then Inr Queued
      else if value = ''running'' then Inr TaskIsRunning
      else if value = ''succeeded'' then Inr TaskIsSucceeded
      else if value = ''failed'' then Inr TaskIsFailed
      else if value = ''cancel_requested'' then Inr TaskCancelRequested
      else if value = ''cancelled'' then Inr TaskIsCancelled
      else Inl (QInvalidInput (''status desconhecido: '' @ value)))"

interpretation task_status_text: text_codec task_status_as_str parse_task_status
proof unfold_locales
  show "parse_task_status (task_status_as_str x) = Inr x" for x
    by (cases x) (simp_all add: parse_task_status_def)
  show "parse_task_status s = Inr x \<Longrightarrow> s = task_status_as_str x" for s x
    by (auto simp: parse_task_status_def split: if_splits)
qed

fun circuit_as_str :: "circuit_state \<Rightarrow> string" where
  "circuit_as_str Closed = ''closed''"
| "circuit_as_str Open = ''open''"
| "circuit_as_str HalfOpen = ''half_open''"

definition parse_circuit :: "string \<Rightarrow> queue_error + circuit_state" where
  "parse_circuit value =
     (if value = ''closed'' then Inr Closed
      else if value = ''open'' then Inr Open
      else if value = ''half_open'' then Inr HalfOpen
      else Inl (QInvalidInput (''circuit state desconhecido: '' @ value)))"

interpretation circuit_text: text_codec circuit_as_str parse_circuit
proof unfold_locales
  show "parse_circuit (circuit_as_str x) = Inr x" for x
    by (cases x) (simp_all add: parse_circuit_def)
  show "parse_circuit s = Inr x \<Longrightarrow> s = circuit_as_str x" for s x
    by (auto simp: parse_circuit_def split: if_splits)
qed

lemmas text_parse_render [simp] =
  plan_state_text.parse_render step_state_text.parse_render phase_text.parse_render
  checkpoint_status_text.parse_render task_status_text.parse_render circuit_text.parse_render

lemmas text_parse_iff [result_simps] =
  plan_state_text.parse_iff step_state_text.parse_iff phase_text.parse_iff
  checkpoint_status_text.parse_iff task_status_text.parse_iff circuit_text.parse_iff

lemmas text_inject [simp] =
  plan_state_text.render_inject step_state_text.render_inject phase_text.render_inject
  checkpoint_status_text.render_inject task_status_text.render_inject circuit_text.render_inject

definition task_is_terminal :: "task_status \<Rightarrow> bool" where
  "task_is_terminal s \<longleftrightarrow> s \<in> {TaskIsSucceeded, TaskIsFailed, TaskIsCancelled}"

subsection \<open>Checks on text\<close>

definition validate_key :: "string \<Rightarrow> string \<Rightarrow> nat \<Rightarrow> queue_error + unit" where
  "validate_key value field max_len =
     (if trim_is_empty value \<or> length value > max_len then
        Inl (QInvalidInput (field @ '' vazio ou maior que '' @ show_nat max_len @ '' caracteres''))
      else Inr ())"

definition store_validate_sha256 :: "string \<Rightarrow> string \<Rightarrow> queue_error + unit" where
  "store_validate_sha256 value field =
     (if length value \<noteq> 64 \<or> \<not> list_all ascii_hexdigit value then
        Inl (QInvalidInput (field @ '' deve ser SHA-256 hexadecimal''))
      else Inr ())"

subsection \<open>Transitions\<close>

datatype transition_entity = EntityPlan | EntityStep

fun entity_as_str :: "transition_entity \<Rightarrow> string" where
  "entity_as_str EntityPlan = ''plan''"
| "entity_as_str EntityStep = ''step''"

datatype transition_state = PlanSt plan_state | StepSt plan_step_state

text \<open>\<open>TransitionHashMaterial\<close>, and the transition as its extension by the hash.\<close>

record transition_material =
  tr_transition_id :: uuid
  tr_plan_id :: plan_id
  tr_revision :: u32
  tr_sequence :: nat
  tr_entity :: transition_entity
  tr_entity_id :: "plan_step_id option"
  tr_from_state :: transition_state
  tr_to_state :: transition_state
  tr_idempotency_key :: string
  tr_previous_hash :: "string option"
  tr_created_at :: instant

record plan_store_transition = transition_material +
  tr_event_hash :: string

text \<open>What the crate takes from its libraries: SHA-256 over the canonical JSON of a plan and of a
  transition, and the text of timestamps and UUIDs.\<close>

record env =
  sha_plan :: "plan_spec \<Rightarrow> string"
  sha_transition :: "transition_material \<Rightarrow> string"
  rfc3339 :: "instant \<Rightarrow> string"
  uuid_text :: "uuid \<Rightarrow> string"

definition calculate_hash :: "env \<Rightarrow> plan_store_transition \<Rightarrow> string" where
  "calculate_hash E t = sha_transition E (transition_material.truncate t)"

definition verify_hash :: "env \<Rightarrow> plan_store_transition \<Rightarrow> queue_error + unit" where
  "verify_hash E t =
     (if tr_event_hash t = calculate_hash E t then Inr ()
      else Inl (QInvalidInput ''hash de transicao nao corresponde ao conteudo''))"

definition validate_transition_shape ::
    "transition_entity \<Rightarrow> plan_step_id option \<Rightarrow> transition_state \<Rightarrow> transition_state \<Rightarrow>
     queue_error + unit" where
  "validate_transition_shape entity entity_id from_state to_state =
     (case (entity, entity_id, from_state, to_state) of
        (EntityPlan, None, PlanSt _, PlanSt _) \<Rightarrow> Inr ()
      | (EntityStep, Some _, StepSt _, StepSt _) \<Rightarrow> Inr ()
      | _ \<Rightarrow> Inl (QInvalidInput ''entidade, identificador e estados incompativeis''))"

text \<open>\<open>PlanStoreTransition::new\<close>; the random identifier is an argument.\<close>

definition transition_new ::
    "env \<Rightarrow> uuid \<Rightarrow> plan_id \<Rightarrow> u32 \<Rightarrow> nat \<Rightarrow> transition_entity \<Rightarrow> plan_step_id option \<Rightarrow>
     transition_state \<Rightarrow> transition_state \<Rightarrow> string \<Rightarrow> string option \<Rightarrow> instant \<Rightarrow>
     queue_error + plan_store_transition" where
  "transition_new E fresh plan_id revision sequence entity entity_id from_state to_state
     idempotency_key previous_hash created_at =
     and_then (validate_key idempotency_key ''idempotency_key'' 256) (\<lambda>_.
     if sequence = 0 \<or> revision = 0 then
       Inl (QInvalidInput ''sequence e revision devem ser maiores que zero'')
     else
       and_then (validate_transition_shape entity entity_id from_state to_state) (\<lambda>_.
       let t = \<lparr>tr_transition_id = fresh, tr_plan_id = plan_id, tr_revision = revision,
         tr_sequence = sequence, tr_entity = entity, tr_entity_id = entity_id,
         tr_from_state = from_state, tr_to_state = to_state,
         tr_idempotency_key = idempotency_key, tr_previous_hash = previous_hash,
         tr_created_at = created_at, tr_event_hash = []\<rparr>
       in Inr (t\<lparr>tr_event_hash := calculate_hash E t\<rparr>)))"

subsection \<open>Other records of the store\<close>

record plan_task_reference =
  rf_plan_id :: plan_id
  rf_revision :: u32
  rf_digest :: string

definition plan_task_reference_new ::
    "plan_id \<Rightarrow> u32 \<Rightarrow> string \<Rightarrow> queue_error + plan_task_reference" where
  "plan_task_reference_new plan_id revision digest =
     (if revision = 0 then Inl (QInvalidInput ''revisao do plano deve ser maior que zero'')
      else and_then (store_validate_sha256 digest ''plan_digest'') (\<lambda>_.
        Inr \<lparr>rf_plan_id = plan_id, rf_revision = revision, rf_digest = digest\<rparr>))"

record plan_claim_context =
  cc_circuit_closed :: bool
  cc_granted_capabilities :: "capability list"
  cc_remaining_budget :: "execution_budget option"
  cc_state_digest :: "string option"

record plan_checkpoint =
  ck_plan_id :: plan_id
  ck_revision :: u32
  ck_sequence :: nat
  ck_step_id :: "plan_step_id option"
  ck_phase :: checkpoint_phase
  ck_status :: checkpoint_status
  ck_state_digest :: "string option"
  ck_created_at :: instant

datatype inspection_status = InspectionStable | InspectionInconsistent

datatype inspection_issue =
    TransitionChainInvalid | ReducerDiverged | CheckpointSequenceInvalid

datatype resume_status = Stable | RecoveredUnknown | Inconsistent

datatype approval_outcome = OutcomeApproved | OutcomeRejected | ApprovalExisting

datatype resolution_decision = Resume | Compensate | Cancel

datatype resolution_outcome = Resumed | OutcomeCompensating | OutcomeCancelled | ResolutionExisting

datatype finish_outcome =
    FinishSucceeded
  | PlanStepSucceeded instant
  | FinishCompensated
  | Requeued instant
  | FinishFailed
  | FinishCancelled

subsection \<open>The tables\<close>

record plan_row =
  pl_plan_id :: plan_id
  pl_tenant :: tenant_id
  pl_task_id :: task_id
  pl_revision :: u32
  pl_plan_json :: plan_spec
  pl_state :: string
  pl_mode :: plan_mode
  pl_risk :: plan_risk
  pl_digest :: string
  pl_created_at :: instant
  pl_updated_at :: instant

record step_row =
  sr_plan_id :: plan_id
  sr_revision :: u32
  sr_step_id :: string
  sr_depends_json :: "plan_step_id list"
  sr_action_json :: plan_action
  sr_preconditions_json :: "plan_condition list"
  sr_postconditions_json :: "plan_condition list"
  sr_state :: string
  sr_attempts :: nat
  sr_max_attempts :: nat
  sr_compensation_step_id :: "string option"

record checkpoint_row =
  cp_plan_id :: plan_id
  cp_revision :: u32
  cp_sequence :: nat
  cp_step_id :: "string option"
  cp_phase :: string
  cp_status :: string
  cp_state_digest :: "string option"
  cp_created_at :: instant

record approval_row =
  ar_approval_id :: uuid
  ar_plan_id :: plan_id
  ar_revision :: u32
  ar_tenant :: tenant_id
  ar_step_id :: "string option"
  ar_approval_json :: plan_approval
  ar_revoked :: bool
  ar_expires_at :: instant
  ar_created_at :: instant
  ar_idempotency_key :: "string option"

record compensation_row =
  co_plan_id :: plan_id
  co_revision :: u32
  co_step_id :: string
  co_compensation_step_id :: string

record task_row =
  tk_task_id :: task_id
  tk_session_id :: uuid
  tk_tenant :: tenant_id
  tk_idempotency_key :: string
  tk_request_fingerprint :: string
  tk_envelope_json :: task_envelope
  tk_status :: string
  tk_priority :: int
  tk_attempts :: nat
  tk_max_attempts :: nat
  tk_next_attempt_at :: instant
  tk_cancel_requested :: bool
  tk_lease_until :: "instant option"
  tk_lease_token :: "uuid option"
  tk_result_json :: "json option"
  tk_last_error :: "string option"
  tk_created_at :: instant
  tk_updated_at :: instant
  tk_completed_at :: "instant option"
  tk_plan_id :: "plan_id option"
  tk_plan_revision :: "u32 option"
  tk_plan_digest :: "string option"
  tk_plan_step_id :: "string option"

text \<open>The part of the schema the plan engine and the task queue use, and the supply of random
  identifiers: \<open>Uuid::new_v4\<close> returns a value not returned before.\<close>

record db =
  db_plans :: "plan_row list"
  db_steps :: "step_row list"
  db_checkpoints :: "checkpoint_row list"
  db_approvals :: "approval_row list"
  db_transitions :: "plan_store_transition list"
  db_compensations :: "compensation_row list"
  db_tasks :: "task_row list"
  db_uuid_seed :: uuid

definition empty_db :: db where
  "empty_db = \<lparr>db_plans = [], db_steps = [], db_checkpoints = [], db_approvals = [],
     db_transitions = [], db_compensations = [], db_tasks = [], db_uuid_seed = 1000\<rparr>"

text \<open>The task as the queue hands it to the plan engine.\<close>

record task_record =
  ta_task_id :: task_id
  ta_session_id :: uuid
  ta_tenant :: tenant_id
  ta_idempotency_key :: string
  ta_request_fingerprint :: string
  ta_envelope :: task_envelope
  ta_status :: task_status
  ta_priority :: int
  ta_attempts :: u32
  ta_max_attempts :: u32
  ta_next_attempt_at :: instant
  ta_cancel_requested :: bool
  ta_lease_until :: "instant option"
  ta_lease_token :: "uuid option"
  ta_plan_execution_scope :: "plan_execution_scope option"
  ta_result :: "json option"
  ta_last_error :: "string option"
  ta_created_at :: instant
  ta_updated_at :: instant
  ta_completed_at :: "instant option"
  ta_plan_id :: "plan_id option"
  ta_plan_revision :: "u32 option"
  ta_plan_digest :: "string option"
  ta_plan_step_id :: "plan_step_id option"

end
