(* ===== verification/Plan_Reducer.thy ===== *)
theory Plan_Reducer
  imports Store_Types
begin

text \<open>
  \<^verbatim>\<open>crates/shaka-queue/src/plan_store.rs\<close>: the persisted plan reducer. A plan is a row with its
  state, its steps are rows with theirs, and every change of either is an entry of a hash-chained
  log. Here are the statements the crate issues on these tables, the operations that append to the
  log, and the replay that inspection and recovery compare with the tables.

  A function whose name ends in \<open>tx\<close> runs inside a transaction: \<open>Inl\<close> rolls back, so the
  database it was given is the one that stays. \<open>now\<close> is the clock: the readings of one operation
  are taken as one instant. Sequence numbers are naturals (the columns are 64-bit).
\<close>

record persisted_plan =
  pp_plan :: plan_spec
  pp_updated_at :: instant

subsection \<open>Keys and constraints of the tables\<close>

definition same_plan :: "plan_id \<Rightarrow> u32 \<Rightarrow> tenant_id \<Rightarrow> plan_row \<Rightarrow> bool" where
  "same_plan pid revision tenant r \<longleftrightarrow> pl_plan_id r = pid \<and> pl_revision r = revision \<and> pl_tenant r = tenant"

definition same_step :: "plan_id \<Rightarrow> u32 \<Rightarrow> string \<Rightarrow> step_row \<Rightarrow> bool" where
  "same_step pid revision sid r \<longleftrightarrow> sr_plan_id r = pid \<and> sr_revision r = revision \<and> sr_step_id r = sid"

definition plan_exists :: "db \<Rightarrow> plan_id \<Rightarrow> u32 \<Rightarrow> bool" where
  "plan_exists db pid revision \<longleftrightarrow>
     list_ex (\<lambda>r. pl_plan_id r = pid \<and> pl_revision r = revision) (db_plans db)"

definition constraint :: "bool \<Rightarrow> queue_error + unit" where
  "constraint b = ensure b (Sqlite ConstraintViolation)"

definition insert_plan_row :: "plan_row \<Rightarrow> db \<Rightarrow> queue_error + db" where
  "insert_plan_row r db =
     and_then (constraint (\<not> plan_exists db (pl_plan_id r) (pl_revision r))) (\<lambda>_.
     Inr (db\<lparr>db_plans := db_plans db @ [r]\<rparr>))"

definition insert_step_row :: "step_row \<Rightarrow> db \<Rightarrow> queue_error + db" where
  "insert_step_row r db =
     and_then (constraint (plan_exists db (sr_plan_id r) (sr_revision r)
       \<and> \<not> list_ex (same_step (sr_plan_id r) (sr_revision r) (sr_step_id r)) (db_steps db))) (\<lambda>_.
     Inr (db\<lparr>db_steps := db_steps db @ [r]\<rparr>))"

definition insert_compensation_row :: "compensation_row \<Rightarrow> db \<Rightarrow> queue_error + db" where
  "insert_compensation_row r db =
     and_then (constraint (plan_exists db (co_plan_id r) (co_revision r)
       \<and> \<not> list_ex (\<lambda>c. co_plan_id c = co_plan_id r \<and> co_revision c = co_revision r
              \<and> co_step_id c = co_step_id r) (db_compensations db))) (\<lambda>_.
     Inr (db\<lparr>db_compensations := db_compensations db @ [r]\<rparr>))"

definition insert_checkpoint_row :: "checkpoint_row \<Rightarrow> db \<Rightarrow> queue_error + db" where
  "insert_checkpoint_row r db =
     and_then (constraint (plan_exists db (cp_plan_id r) (cp_revision r)
       \<and> \<not> list_ex (\<lambda>c. cp_plan_id c = cp_plan_id r \<and> cp_revision c = cp_revision r
              \<and> cp_sequence c = cp_sequence r) (db_checkpoints db))) (\<lambda>_.
     Inr (db\<lparr>db_checkpoints := db_checkpoints db @ [r]\<rparr>))"

lemma constraint_Inr_iff [result_simps]: "constraint b = Inr u \<longleftrightarrow> b"
  by (simp add: constraint_def result_simps)

subsection \<open>Queries\<close>

definition of_plan :: "plan_id \<Rightarrow> u32 \<Rightarrow> plan_store_transition \<Rightarrow> bool" where
  "of_plan pid revision t \<longleftrightarrow> tr_plan_id t = pid \<and> tr_revision t = revision"

text \<open>\<open>SELECT ... FROM plan_transitions WHERE plan_id AND revision ORDER BY sequence\<close>.\<close>

definition plan_log :: "db \<Rightarrow> plan_id \<Rightarrow> u32 \<Rightarrow> plan_store_transition list" where
  "plan_log db pid revision = sort_key tr_sequence (filter (of_plan pid revision) (db_transitions db))"

definition last_transition_tx :: "db \<Rightarrow> plan_id \<Rightarrow> u32 \<Rightarrow> (nat \<times> string) option" where
  "last_transition_tx db pid revision =
     (let log = plan_log db pid revision in
      if log = [] then None else Some (tr_sequence (last log), tr_event_hash (last log)))"

text \<open>The sequence number that continues the chain.\<close>

definition chain_next :: "(nat \<times> string) option \<Rightarrow> nat" where
  "chain_next lst = (case lst of None \<Rightarrow> 1 | Some (n, _) \<Rightarrow> n + 1)"

definition plan_steps_of :: "db \<Rightarrow> plan_id \<Rightarrow> u32 \<Rightarrow> step_row list" where
  "plan_steps_of db pid revision =
     sort_key sr_step_id (filter (\<lambda>r. sr_plan_id r = pid \<and> sr_revision r = revision) (db_steps db))"

definition plan_checkpoints_of :: "db \<Rightarrow> plan_id \<Rightarrow> u32 \<Rightarrow> checkpoint_row list" where
  "plan_checkpoints_of db pid revision =
     sort_key cp_sequence (filter (\<lambda>r. cp_plan_id r = pid \<and> cp_revision r = revision) (db_checkpoints db))"

definition last_checkpoint_sequence :: "db \<Rightarrow> plan_id \<Rightarrow> u32 \<Rightarrow> nat option" where
  "last_checkpoint_sequence db pid revision =
     (let rows = plan_checkpoints_of db pid revision in
      if rows = [] then None else Some (cp_sequence (last rows)))"

definition next_checkpoint_sequence_tx :: "db \<Rightarrow> plan_id \<Rightarrow> u32 \<Rightarrow> nat" where
  "next_checkpoint_sequence_tx db pid revision =
     (case last_checkpoint_sequence db pid revision of None \<Rightarrow> 1 | Some sequence \<Rightarrow> sequence + 1)"

definition select_plan_state :: "db \<Rightarrow> plan_id \<Rightarrow> u32 \<Rightarrow> tenant_id \<Rightarrow> queue_error + string" where
  "select_plan_state db pid revision tenant =
     ok_or (Sqlite QueryReturnedNoRows)
       (map_option pl_state (find (same_plan pid revision tenant) (db_plans db)))"

definition select_step_state :: "db \<Rightarrow> plan_id \<Rightarrow> u32 \<Rightarrow> plan_step_id \<Rightarrow> queue_error + string" where
  "select_step_state db pid revision sid =
     ok_or (Sqlite QueryReturnedNoRows)
       (map_option sr_state (find (same_step pid revision (step_str sid)) (db_steps db)))"

definition update_plan_state ::
    "instant \<Rightarrow> plan_id \<Rightarrow> u32 \<Rightarrow> tenant_id \<Rightarrow> string \<Rightarrow> db \<Rightarrow> db" where
  "update_plan_state now pid revision tenant state db =
     db\<lparr>db_plans := update_where (same_plan pid revision tenant)
       (\<lambda>r. r\<lparr>pl_state := state, pl_updated_at := now\<rparr>) (db_plans db)\<rparr>"

definition update_step_state :: "plan_id \<Rightarrow> u32 \<Rightarrow> plan_step_id \<Rightarrow> string \<Rightarrow> db \<Rightarrow> db" where
  "update_step_state pid revision sid state db =
     db\<lparr>db_steps := update_where (same_step pid revision (step_str sid))
       (\<lambda>r. r\<lparr>sr_state := state\<rparr>) (db_steps db)\<rparr>"

text \<open>\<open>PlanStepId::new(step_id)?\<close> and \<open>parse_step_state(&state)?\<close> for one row.\<close>

definition step_entry :: "step_row \<Rightarrow> queue_error + (plan_step_id \<times> plan_step_state)" where
  "step_entry r =
     and_then (core (plan_step_id_new (sr_step_id r))) (\<lambda>i.
     and_then (parse_step_state (sr_state r)) (\<lambda>s. Inr (i, s)))"

definition load_step_states_tx ::
    "db \<Rightarrow> plan_id \<Rightarrow> u32 \<Rightarrow> queue_error + (plan_step_id, plan_step_state) btree" where
  "load_step_states_tx db pid revision =
     and_then (collect_results step_entry (plan_steps_of db pid revision)) (\<lambda>ps. Inr (bt_collect ps))"

definition load_approvals_tx :: "db \<Rightarrow> plan_spec \<Rightarrow> plan_approval list" where
  "load_approvals_tx db plan =
     map ar_approval_json (sort_key ar_created_at (filter (\<lambda>a. ar_plan_id a = ps_plan_id plan
       \<and> ar_revision a = ps_revision plan \<and> ar_tenant a = ps_tenant plan \<and> \<not> ar_revoked a)
       (db_approvals db)))"

subsection \<open>Loading and saving a plan\<close>

text \<open>\<open>WHERE plan_id AND tenant_id ORDER BY revision DESC LIMIT 1\<close>.\<close>

definition latest_plan_row :: "db \<Rightarrow> plan_id \<Rightarrow> tenant_id \<Rightarrow> plan_row option" where
  "latest_plan_row db pid tenant =
     (let rows = sort_key pl_revision
        (filter (\<lambda>r. pl_plan_id r = pid \<and> pl_tenant r = tenant) (db_plans db))
      in if rows = [] then None else Some (last rows))"

definition plan_not_found :: "env \<Rightarrow> plan_id \<Rightarrow> queue_error" where
  "plan_not_found E pid = (case pid of PlanId u \<Rightarrow> NotFound (''plan '' @ uuid_text E u))"

definition load_plan :: "env \<Rightarrow> plan_id \<Rightarrow> tenant_id \<Rightarrow> db \<Rightarrow> queue_error + persisted_plan" where
  "load_plan E pid tenant db =
     and_then (ok_or (plan_not_found E pid) (latest_plan_row db pid tenant)) (\<lambda>row.
     let plan = pl_plan_json row in
     if ps_plan_id plan \<noteq> pid \<or> ps_tenant plan \<noteq> tenant \<or> ps_revision plan \<noteq> pl_revision row
        \<or> ps_digest plan \<noteq> pl_digest row then
       Inl (QInvalidInput ''snapshot do plano nao corresponde as colunas persistidas'')
     else
       and_then (parse_plan_state (pl_state row)) (\<lambda>state.
       let plan = plan\<lparr>ps_state := state\<rparr> in
       and_then (core (validate_structure plan)) (\<lambda>_.
       and_then (core (verify_digest (sha_plan E) plan)) (\<lambda>_.
       Inr \<lparr>pp_plan = plan, pp_updated_at = pl_updated_at row\<rparr>))))"

definition load_plan_tx ::
    "env \<Rightarrow> tenant_id \<Rightarrow> plan_task_reference \<Rightarrow> db \<Rightarrow> queue_error + plan_spec" where
  "load_plan_tx E tenant reference db =
     and_then (ok_or (plan_not_found E (rf_plan_id reference))
       (find (same_plan (rf_plan_id reference) (rf_revision reference) tenant) (db_plans db))) (\<lambda>row.
     if pl_digest row \<noteq> rf_digest reference then
       Inl (QInvalidInput ''digest da task nao corresponde ao plano persistido'')
     else
       and_then (parse_plan_state (pl_state row)) (\<lambda>state.
       let plan = (pl_plan_json row)\<lparr>ps_state := state\<rparr> in
       if ps_plan_id plan \<noteq> rf_plan_id reference \<or> ps_revision plan \<noteq> rf_revision reference
          \<or> ps_tenant plan \<noteq> tenant \<or> ps_digest plan \<noteq> rf_digest reference then
         Inl (QInvalidInput ''referencia da task nao corresponde ao snapshot do plano'')
       else
         and_then (core (validate_structure plan)) (\<lambda>_.
         and_then (core (verify_digest (sha_plan E) plan)) (\<lambda>_. Inr plan))))"

definition plan_row_of :: "instant \<Rightarrow> plan_spec \<Rightarrow> plan_row" where
  "plan_row_of now plan =
     \<lparr>pl_plan_id = ps_plan_id plan, pl_tenant = ps_tenant plan, pl_task_id = ps_task_id plan,
      pl_revision = ps_revision plan, pl_plan_json = plan, pl_state = plan_state_str (ps_state plan),
      pl_mode = ps_mode plan, pl_risk = ps_risk plan, pl_digest = ps_digest plan,
      pl_created_at = ps_created_at plan, pl_updated_at = now\<rparr>"

definition step_row_of :: "plan_spec \<Rightarrow> plan_step \<Rightarrow> step_row" where
  "step_row_of plan s =
     \<lparr>sr_plan_id = ps_plan_id plan, sr_revision = ps_revision plan, sr_step_id = step_str (st_id s),
      sr_depends_json = st_depends_on s, sr_action_json = st_action s,
      sr_preconditions_json = st_preconditions s, sr_postconditions_json = st_postconditions s,
      sr_state = ''pending'', sr_attempts = 0, sr_max_attempts = unat (st_max_attempts s),
      sr_compensation_step_id = map_option step_str (st_compensation s)\<rparr>"

definition insert_step :: "plan_spec \<Rightarrow> db \<Rightarrow> plan_step \<Rightarrow> queue_error + db" where
  "insert_step plan db s =
     and_then (insert_step_row (step_row_of plan s) db) (\<lambda>db.
     case st_compensation s of
       None \<Rightarrow> Inr db
     | Some c \<Rightarrow> insert_compensation_row
         \<lparr>co_plan_id = ps_plan_id plan, co_revision = ps_revision plan,
          co_step_id = step_str (st_id s), co_compensation_step_id = step_str c\<rparr> db)"

definition save_plan ::
    "env \<Rightarrow> instant \<Rightarrow> plan_spec \<Rightarrow> db \<Rightarrow> queue_error + (persisted_plan \<times> db)" where
  "save_plan E now plan db =
     and_then (core (validate_structure plan)) (\<lambda>_.
     and_then (core (verify_digest (sha_plan E) plan)) (\<lambda>_.
     case find (same_plan (ps_plan_id plan) (ps_revision plan) (ps_tenant plan)) (db_plans db) of
       Some row \<Rightarrow>
         if pl_digest row \<noteq> ps_digest plan then
           Inl (QInvalidInput ''revisao de plano existente e append-only'')
         else
           and_then (parse_plan_state (pl_state row)) (\<lambda>state.
           Inr (\<lparr>pp_plan = plan\<lparr>ps_state := state\<rparr>, pp_updated_at = pl_updated_at row\<rparr>, db))
     | None \<Rightarrow>
         and_then (insert_plan_row (plan_row_of now plan) db) (\<lambda>db.
         and_then (fold_result (insert_step plan) (ps_steps plan) db) (\<lambda>db.
         Inr (\<lparr>pp_plan = plan, pp_updated_at = now\<rparr>, db)))))"

subsection \<open>Checkpoints\<close>

definition insert_checkpoint_tx ::
    "plan_id \<Rightarrow> u32 \<Rightarrow> plan_step_id option \<Rightarrow> checkpoint_phase \<Rightarrow> checkpoint_status \<Rightarrow>
     string option \<Rightarrow> instant \<Rightarrow> db \<Rightarrow> queue_error + db" where
  "insert_checkpoint_tx pid revision step_id phase status state_digest now db =
     and_then (case state_digest of
         None \<Rightarrow> Inr ()
       | Some digest \<Rightarrow> store_validate_sha256 digest ''state_digest'') (\<lambda>_.
     insert_checkpoint_row
       \<lparr>cp_plan_id = pid, cp_revision = revision, cp_sequence = next_checkpoint_sequence_tx db pid revision,
        cp_step_id = map_option step_str step_id, cp_phase = phase_as_str phase,
        cp_status = checkpoint_status_as_str status, cp_state_digest = state_digest,
        cp_created_at = now\<rparr> db)"

definition checkpoint_row_of :: "plan_checkpoint \<Rightarrow> checkpoint_row" where
  "checkpoint_row_of c =
     \<lparr>cp_plan_id = ck_plan_id c, cp_revision = ck_revision c, cp_sequence = ck_sequence c,
      cp_step_id = map_option step_str (ck_step_id c), cp_phase = phase_as_str (ck_phase c),
      cp_status = checkpoint_status_as_str (ck_status c), cp_state_digest = ck_state_digest c,
      cp_created_at = ck_created_at c\<rparr>"

text \<open>The checks of \<open>append_plan_checkpoint\<close> before its transaction.\<close>

definition checkpoint_admissible :: "plan_spec \<Rightarrow> plan_checkpoint \<Rightarrow> queue_error + unit" where
  "checkpoint_admissible plan c =
     (if ck_revision c \<noteq> ps_revision plan \<or> ck_sequence c = 0 then
        Inl (QInvalidInput ''checkpoint nao corresponde a revisao do plano'')
      else
        and_then (case ck_step_id c of
            None \<Rightarrow> Inr ()
          | Some i \<Rightarrow>
              ensure (list_ex (\<lambda>s. st_id s = i) (ps_steps plan)) (NotFound (''step '' @ step_str i)))
          (\<lambda>_.
        case ck_state_digest c of
          None \<Rightarrow> Inr ()
        | Some digest \<Rightarrow> store_validate_sha256 digest ''state_digest''))"

definition append_plan_checkpoint ::
    "env \<Rightarrow> tenant_id \<Rightarrow> plan_checkpoint \<Rightarrow> db \<Rightarrow> queue_error + db" where
  "append_plan_checkpoint E tenant c db =
     and_then (load_plan E (ck_plan_id c) tenant db) (\<lambda>persisted.
     and_then (checkpoint_admissible (pp_plan persisted) c) (\<lambda>_.
     let pid = ck_plan_id c; revision = ck_revision c;
         previous = last_checkpoint_sequence db pid revision in
     if (case previous of None \<Rightarrow> False | Some sequence \<Rightarrow> ck_sequence c \<le> sequence) then
       (case find (\<lambda>r. cp_plan_id r = pid \<and> cp_revision r = revision \<and> cp_sequence r = ck_sequence c)
              (db_checkpoints db) of
          None \<Rightarrow> Inl IdempotencyConflict
        | Some r \<Rightarrow>
            if cp_phase r = phase_as_str (ck_phase c)
               \<and> cp_status r = checkpoint_status_as_str (ck_status c)
               \<and> cp_step_id r = map_option step_str (ck_step_id c)
               \<and> cp_state_digest r = ck_state_digest c \<and> cp_created_at r = ck_created_at c
            then Inr db else Inl IdempotencyConflict)
     else if (case previous of None \<Rightarrow> False | Some sequence \<Rightarrow> ck_sequence c \<noteq> sequence + 1) then
       Inl (QInvalidInput ''sequencia de checkpoint nao e contigua'')
     else insert_checkpoint_row (checkpoint_row_of c) db))"

text \<open>Rows of a \<open>SELECT\<close> converted to checkpoints: a value that does not parse is rusqlite's
  conversion failure.\<close>

definition conversion :: "'e + 'a \<Rightarrow> queue_error + 'a" where
  "conversion r = map_err (\<lambda>_. Sqlite ConversionFailure) r"

definition checkpoint_of_row :: "checkpoint_row \<Rightarrow> queue_error + plan_checkpoint" where
  "checkpoint_of_row r =
     and_then (case cp_step_id r of
         None \<Rightarrow> Inr None
       | Some s \<Rightarrow> and_then (conversion (plan_step_id_new s)) (\<lambda>i. Inr (Some i))) (\<lambda>step_id.
     and_then (conversion (parse_phase (cp_phase r))) (\<lambda>phase.
     and_then (conversion (parse_checkpoint_status (cp_status r))) (\<lambda>status.
     Inr \<lparr>ck_plan_id = cp_plan_id r, ck_revision = cp_revision r, ck_sequence = cp_sequence r,
       ck_step_id = step_id, ck_phase = phase, ck_status = status,
       ck_state_digest = cp_state_digest r, ck_created_at = cp_created_at r\<rparr>)))"

definition check_checkpoint_sequence :: "plan_checkpoint list \<Rightarrow> bool" where
  "check_checkpoint_sequence checkpoints \<longleftrightarrow>
     list_all (\<lambda>(index, c). ck_sequence c = index + 1) (enumerate 0 checkpoints)"

subsection \<open>Appending to the log\<close>

definition apply_plan_transition ::
    "instant \<Rightarrow> tenant_id \<Rightarrow> plan_store_transition \<Rightarrow> plan_state \<Rightarrow> plan_state \<Rightarrow> db \<Rightarrow>
     queue_error + db" where
  "apply_plan_transition now tenant t from_state to_state db =
     and_then (select_plan_state db (tr_plan_id t) (tr_revision t) tenant) (\<lambda>text.
     and_then (parse_plan_state text) (\<lambda>current.
     if current \<noteq> from_state then
       Inl (QInvalidInput ''estado atual do plano nao corresponde a transicao'')
     else
       and_then (core (plan_validate_transition from_state to_state)) (\<lambda>_.
       Inr (update_plan_state now (tr_plan_id t) (tr_revision t) tenant
         (plan_state_str to_state) db))))"

definition apply_step_transition ::
    "plan_store_transition \<Rightarrow> plan_step_state \<Rightarrow> plan_step_state \<Rightarrow> db \<Rightarrow> queue_error + db" where
  "apply_step_transition t from_state to_state db =
     and_then (ok_or (QInvalidInput ''transicao de etapa sem step_id'') (tr_entity_id t)) (\<lambda>sid.
     and_then (select_step_state db (tr_plan_id t) (tr_revision t) sid) (\<lambda>text.
     and_then (parse_step_state text) (\<lambda>current.
     if current \<noteq> from_state then
       Inl (QInvalidInput ''estado atual da etapa nao corresponde a transicao'')
     else
       and_then (core (step_validate_transition from_state to_state)) (\<lambda>_.
       Inr (update_step_state (tr_plan_id t) (tr_revision t) sid (step_state_str to_state) db)))))"

definition apply_transition_tx ::
    "instant \<Rightarrow> tenant_id \<Rightarrow> plan_store_transition \<Rightarrow> db \<Rightarrow> queue_error + db" where
  "apply_transition_tx now tenant t db =
     (case (tr_entity t, tr_from_state t, tr_to_state t) of
        (EntityPlan, PlanSt a, PlanSt b) \<Rightarrow> apply_plan_transition now tenant t a b db
      | (EntityStep, StepSt a, StepSt b) \<Rightarrow> apply_step_transition t a b db
      | _ \<Rightarrow> Inl (QInvalidInput ''entidade e estados da transicao nao correspondem''))"

definition insert_transition_tx :: "env \<Rightarrow> plan_store_transition \<Rightarrow> db \<Rightarrow> queue_error + db" where
  "insert_transition_tx E t db =
     and_then (verify_hash E t) (\<lambda>_.
     and_then (constraint (plan_exists db (tr_plan_id t) (tr_revision t)
       \<and> \<not> list_ex (\<lambda>u. tr_transition_id u = tr_transition_id t
            \<or> of_plan (tr_plan_id t) (tr_revision t) u
              \<and> (tr_idempotency_key u = tr_idempotency_key t \<or> tr_sequence u = tr_sequence t))
            (db_transitions db))) (\<lambda>_.
     Inr (db\<lparr>db_transitions := db_transitions db @ [t]\<rparr>)))"

text \<open>\<open>Uuid::new_v4\<close>.\<close>

definition fresh_uuid :: "db \<Rightarrow> uuid \<times> db" where
  "fresh_uuid db = (db_uuid_seed db, db\<lparr>db_uuid_seed := Suc (db_uuid_seed db)\<rparr>)"

text \<open>\<open>append_plan_transition_tx\<close> and \<open>append_step_transition_tx\<close> differ in the entity only.\<close>

definition append_transition ::
    "env \<Rightarrow> tenant_id \<Rightarrow> plan_id \<Rightarrow> u32 \<Rightarrow> transition_entity \<Rightarrow> plan_step_id option \<Rightarrow>
     transition_state \<Rightarrow> transition_state \<Rightarrow> string \<Rightarrow> instant \<Rightarrow> db \<Rightarrow> queue_error + db" where
  "append_transition E tenant pid revision entity entity_id from_state to_state key now db =
     (let lst = last_transition_tx db pid revision;
          sequence = chain_next lst;
          (fresh, db) = fresh_uuid db in
      and_then (transition_new E fresh pid revision sequence entity entity_id from_state to_state key
        (map_option snd lst) now) (\<lambda>t.
      and_then (apply_transition_tx now tenant t db) (insert_transition_tx E t)))"

definition append_plan_transition_tx ::
    "env \<Rightarrow> tenant_id \<Rightarrow> plan_spec \<Rightarrow> plan_state \<Rightarrow> plan_state \<Rightarrow> string \<Rightarrow> instant \<Rightarrow> db \<Rightarrow>
     queue_error + db" where
  "append_plan_transition_tx E tenant plan from_state to_state key now db =
     append_transition E tenant (ps_plan_id plan) (ps_revision plan) EntityPlan None
       (PlanSt from_state) (PlanSt to_state) key now db"

definition append_step_transition_tx ::
    "env \<Rightarrow> plan_spec \<Rightarrow> plan_step_id \<Rightarrow> plan_step_state \<Rightarrow> plan_step_state \<Rightarrow> string \<Rightarrow> instant \<Rightarrow>
     db \<Rightarrow> queue_error + db" where
  "append_step_transition_tx E plan sid from_state to_state key now db =
     append_transition E (ps_tenant plan) (ps_plan_id plan) (ps_revision plan) EntityStep (Some sid)
       (StepSt from_state) (StepSt to_state) key now db"

definition record_plan_transition ::
    "env \<Rightarrow> instant \<Rightarrow> tenant_id \<Rightarrow> plan_store_transition \<Rightarrow> db \<Rightarrow> queue_error + db" where
  "record_plan_transition E now tenant t db =
     and_then (load_plan E (tr_plan_id t) tenant db) (\<lambda>persisted.
     if tr_revision t \<noteq> ps_revision (pp_plan persisted) then
       Inl (QInvalidInput ''transicao nao corresponde a revisao carregada'')
     else
       and_then (verify_hash E t) (\<lambda>_.
       and_then (validate_transition_shape (tr_entity t) (tr_entity_id t) (tr_from_state t)
         (tr_to_state t)) (\<lambda>_.
       case find (\<lambda>u. of_plan (tr_plan_id t) (tr_revision t) u
              \<and> tr_idempotency_key u = tr_idempotency_key t) (db_transitions db) of
         Some u \<Rightarrow> if tr_event_hash u = tr_event_hash t then Inr db else Inl IdempotencyConflict
       | None \<Rightarrow>
           let lst = last_transition_tx db (tr_plan_id t) (tr_revision t) in
           if tr_sequence t \<noteq> chain_next lst
              \<or> tr_previous_hash t \<noteq> map_option snd lst then
             Inl (QInvalidInput ''transicao nao continua a cadeia persistida'')
           else
             and_then (apply_transition_tx now tenant t db) (insert_transition_tx E t))))"

subsection \<open>The replay\<close>

type_synonym step_states = "(plan_step_id, plan_step_state) btree"

definition apply_transition_state ::
    "plan_state \<times> step_states \<Rightarrow> plan_store_transition \<Rightarrow> queue_error + (plan_state \<times> step_states)"
  where
  "apply_transition_state st t =
     (case st of (plan_state, steps) \<Rightarrow>
      (case (tr_entity t, tr_from_state t, tr_to_state t) of
         (EntityPlan, PlanSt a, PlanSt b) \<Rightarrow>
           if plan_state = a then
             and_then (core (plan_validate_transition a b)) (\<lambda>_. Inr (b, steps))
           else Inl (QInvalidInput ''transicao incompativel com o reducer'')
       | (EntityStep, StepSt a, StepSt b) \<Rightarrow>
           and_then (ok_or (QInvalidInput ''transicao de etapa sem step_id'') (tr_entity_id t)) (\<lambda>i.
           and_then (ok_or (NotFound (''step '' @ step_str i)) (map_of steps i)) (\<lambda>current.
           if current \<noteq> a then
             Inl (QInvalidInput ''cadeia de etapas diverge no estado de origem'')
           else
             and_then (core (step_validate_transition a b)) (\<lambda>_.
             Inr (plan_state, bt_insert i b steps))))
       | _ \<Rightarrow> Inl (QInvalidInput ''transicao incompativel com o reducer'')))"

datatype replay_error = ChainBroken | StepRejected queue_error

text \<open>The loop that \<open>inspect_plan\<close> and \<open>resume_plan\<close> share: expected sequence, previous hash, and
  the state computed so far.\<close>

type_synonym reducer = "nat \<times> string option \<times> plan_state \<times> step_states"

definition initial_reducer :: "plan_spec \<Rightarrow> reducer" where
  "initial_reducer plan =
     (1, None, Draft, bt_collect (map (\<lambda>s. (st_id s, StepPending)) (ps_steps plan)))"

definition replay_step :: "env \<Rightarrow> reducer \<Rightarrow> plan_store_transition \<Rightarrow> replay_error + reducer" where
  "replay_step E r t =
     (case r of (expected, prev, plan_state, steps) \<Rightarrow>
        if tr_sequence t \<noteq> expected \<or> tr_previous_hash t \<noteq> prev \<or> \<not> is_ok (verify_hash E t) then
          Inl ChainBroken
        else
          and_then (map_err StepRejected (apply_transition_state (plan_state, steps) t))
            (\<lambda>(plan_state, steps). Inr (expected + 1, Some (tr_event_hash t), plan_state, steps)))"

definition replay_log ::
    "env \<Rightarrow> plan_spec \<Rightarrow> plan_store_transition list \<Rightarrow> replay_error + reducer" where
  "replay_log E plan transitions = fold_result (replay_step E) transitions (initial_reducer plan)"

definition load_reducer_rows ::
    "plan_id \<Rightarrow> u32 \<Rightarrow> tenant_id \<Rightarrow> db \<Rightarrow>
     queue_error + (plan_store_transition list \<times> plan_checkpoint list \<times> plan_state \<times> step_states)"
  where
  "load_reducer_rows pid revision tenant db =
     and_then (select_plan_state db pid revision tenant) (\<lambda>text.
     and_then (collect_results checkpoint_of_row (plan_checkpoints_of db pid revision)) (\<lambda>checkpoints.
     and_then (collect_results
       (\<lambda>r. and_then (conversion (plan_step_id_new (sr_step_id r))) (\<lambda>i.
            and_then (conversion (parse_step_state (sr_state r))) (\<lambda>s. Inr (i, s))))
       (plan_steps_of db pid revision)) (\<lambda>entries.
     and_then (parse_plan_state text) (\<lambda>plan_state.
     Inr (plan_log db pid revision, checkpoints, plan_state, bt_collect entries)))))"

subsection \<open>Inspection\<close>

record inspection_report =
  is_plan :: plan_spec
  is_step_states :: step_states
  is_status :: inspection_status
  is_issue :: "inspection_issue option"
  is_checkpoints_checked :: nat
  is_transitions_checked :: nat

definition inspection_issue_of ::
    "env \<Rightarrow> plan_spec \<Rightarrow> plan_store_transition list \<Rightarrow> plan_checkpoint list \<Rightarrow> plan_state \<Rightarrow>
     step_states \<Rightarrow> inspection_issue option" where
  "inspection_issue_of E plan transitions checkpoints db_plan_state db_step_states =
     (case replay_log E plan transitions of
        Inl ChainBroken \<Rightarrow> Some TransitionChainInvalid
      | Inl (StepRejected _) \<Rightarrow> Some ReducerDiverged
      | Inr (_, _, plan_state, steps) \<Rightarrow>
          if plan_state \<noteq> db_plan_state \<or> steps \<noteq> db_step_states then Some ReducerDiverged
          else if \<not> check_checkpoint_sequence checkpoints then Some CheckpointSequenceInvalid
          else None)"

definition inspect_plan ::
    "env \<Rightarrow> tenant_id \<Rightarrow> plan_id \<Rightarrow> db \<Rightarrow> queue_error + inspection_report" where
  "inspect_plan E tenant pid db =
     and_then (load_plan E pid tenant db) (\<lambda>persisted.
     let plan = pp_plan persisted in
     and_then (load_reducer_rows pid (ps_revision plan) tenant db)
       (\<lambda>(transitions, checkpoints, db_plan_state, db_step_states).
     let issue = inspection_issue_of E plan transitions checkpoints db_plan_state db_step_states in
     Inr \<lparr>is_plan = plan\<lparr>ps_state := db_plan_state\<rparr>, is_step_states = db_step_states,
       is_status = (if issue = None then InspectionStable else InspectionInconsistent),
       is_issue = issue, is_checkpoints_checked = length checkpoints,
       is_transitions_checked = length transitions\<rparr>))"

definition validate_plan ::
    "env \<Rightarrow> instant \<Rightarrow> tenant_id \<Rightarrow> plan_id \<Rightarrow> db \<Rightarrow> queue_error + verification_report" where
  "validate_plan E now tenant pid db =
     and_then (load_plan E pid tenant db) (\<lambda>persisted.
     let plan = pp_plan persisted in
     Inr (verify (sha_plan E) default_verifier plan
       ((new_context now Preflight)\<lparr>vc_approvals := load_approvals_tx db plan\<rparr>)))"

definition list_plan_checkpoints ::
    "env \<Rightarrow> tenant_id \<Rightarrow> plan_id \<Rightarrow> db \<Rightarrow> queue_error + plan_checkpoint list" where
  "list_plan_checkpoints E tenant pid db =
     and_then (load_plan E pid tenant db) (\<lambda>persisted.
     and_then (load_reducer_rows pid (ps_revision (pp_plan persisted)) tenant db)
       (\<lambda>(_, checkpoints, _, _).
     if check_checkpoint_sequence checkpoints then Inr checkpoints
     else Inl (QInvalidInput ''sequencia de checkpoints invalida'')))"

end
