(* ===== verification/Plan_Reducer_Inv.thy ===== *)
theory Plan_Reducer_Inv
  imports Plan_Reducer
begin

text \<open>
  The invariant of the reducer: for every stored plan the log replays, and what it replays to is what
  the tables hold. Appending through the reducer keeps it, so an inspection can only report a
  divergence that something else than the reducer caused.
\<close>

subsection \<open>The log of a plan\<close>

lemma sort_key_snoc:
  assumes "\<forall>x \<in> set xs. f x \<le> f y"
  shows "sort_key f (xs @ [y]) = sort_key f xs @ [y]"
proof (rule properties_for_sort_key)
  show "sorted (map f (sort_key f xs @ [y]))"
    using assms by (simp add: sorted_append)
  fix k
  show "filter (\<lambda>x. f k = f x) (sort_key f xs @ [y]) = filter (\<lambda>x. f k = f x) (xs @ [y])"
    using sort_key_stable [of f "f k" xs] by (simp add: eq_commute)
qed simp

lemma sort_key_Nil_iff [simp]: "sort_key f xs = [] \<longleftrightarrow> xs = []"
  by (metis set_empty set_sort)

lemma sorted_last_le: "sorted (map f xs) \<Longrightarrow> x \<in> set xs \<Longrightarrow> f x \<le> f (last xs)"
  by (induction xs rule: rev_induct) (auto simp: sorted_append)

lemma set_plan_log: "t \<in> set (plan_log db pid rv) \<longleftrightarrow> t \<in> set (db_transitions db) \<and> of_plan pid rv t"
  by (auto simp: plan_log_def)

lemma plan_log_insert:
  assumes "\<forall>u \<in> set (plan_log db pid rv). tr_sequence u \<le> tr_sequence t" "of_plan pid rv t"
  shows "plan_log (db\<lparr>db_transitions := db_transitions db @ [t]\<rparr>) pid rv = plan_log db pid rv @ [t]"
  using assms by (simp add: plan_log_def sort_key_snoc)

lemma plan_log_insert_other:
  "\<not> of_plan pid rv t \<Longrightarrow>
   plan_log (db\<lparr>db_transitions := db_transitions db @ [t]\<rparr>) pid rv = plan_log db pid rv"
  by (simp add: plan_log_def)

lemma replay_log_snoc:
  "replay_log E plan (ts @ [t]) = and_then (replay_log E plan ts) (\<lambda>r. replay_step E r t)"
  by (simp add: replay_log_def fold_result_append)
    (cases "fold_result (replay_step E) ts (initial_reducer plan)"; simp add: and_then_def split: sum.split)

text \<open>The position of a replay that got to the end of the log.\<close>

definition chain_end :: "plan_store_transition list \<Rightarrow> (nat \<times> string) option" where
  "chain_end ts = (if ts = [] then None else Some (tr_sequence (last ts), tr_event_hash (last ts)))"

lemma replay_position:
  assumes "replay_log E plan ts = Inr (n, prev, ps, steps)"
  shows "n = length ts + 1 \<and> n = chain_next (chain_end ts) \<and> prev = map_option snd (chain_end ts)
    \<and> (\<forall>t \<in> set ts. tr_sequence t < n)"
  using assms
proof (induction ts arbitrary: n prev ps steps rule: rev_induct)
  case Nil
  then show ?case by (simp add: replay_log_def initial_reducer_def chain_end_def chain_next_def)
next
  case (snoc t ts)
  then show ?case
    by (auto simp: replay_log_snoc result_simps replay_step_def chain_end_def chain_next_def
        split: if_splits)
qed

lemma last_transition_chain_end: "last_transition_tx db pid rv = chain_end (plan_log db pid rv)"
  by (simp add: last_transition_tx_def chain_end_def Let_def)

subsection \<open>The step states of a plan\<close>

definition step_key :: "step_row \<Rightarrow> plan_id \<times> u32 \<times> string" where
  "step_key r = (sr_plan_id r, sr_revision r, sr_step_id r)"

definition step_of :: "plan_id \<Rightarrow> u32 \<Rightarrow> step_row \<Rightarrow> bool" where
  "step_of pid rv r \<longleftrightarrow> sr_plan_id r = pid \<and> sr_revision r = rv"

lemma step_entry_iff:
  "step_entry r = Inr (i, s) \<longleftrightarrow>
     validate_plan_key (sr_step_id r) ''step_id'' = Inr () \<and> i = PlanStepId (sr_step_id r)
     \<and> sr_state r = step_state_str s"
  by (auto simp: step_entry_def result_simps)

definition steps_view :: "step_row list \<Rightarrow> plan_id \<Rightarrow> u32 \<Rightarrow> step_states \<Rightarrow> bool" where
  "steps_view rows pid rv steps \<longleftrightarrow>
     btree_ok steps
     \<and> (\<forall>r \<in> set rows. step_of pid rv r \<longrightarrow> (\<exists>e. step_entry r = Inr e))
     \<and> (\<forall>i s. map_of steps i = Some s \<longleftrightarrow>
          (\<exists>r \<in> set rows. step_of pid rv r \<and> step_entry r = Inr (i, s)))"

lemma steps_view_unique: "steps_view rows pid rv m \<Longrightarrow> steps_view rows pid rv n \<Longrightarrow> m = n"
proof (rule btree_eqI)
  assume "steps_view rows pid rv m" "steps_view rows pid rv n"
  then have "map_of m i = Some s \<longleftrightarrow> map_of n i = Some s" for i s
    by (simp add: steps_view_def)
  then show "map_of m = map_of n" by (metis not_Some_eq ext)
qed (simp_all add: steps_view_def)

lemma distinct_plan_steps:
  assumes "distinct (map step_key (db_steps db))"
  shows "distinct (map sr_step_id (plan_steps_of db pid rv))"
proof -
  have "distinct (map sr_step_id (filter (\<lambda>r. sr_plan_id r = pid \<and> sr_revision r = rv) rows))"
    if "distinct (map step_key rows)" for rows
    using that by (induction rows) (auto simp: step_key_def image_iff)
  from this [OF assms] show ?thesis
    by (simp add: plan_steps_of_def distinct_map)
qed

lemma load_step_states_view:
  assumes "distinct (map step_key (db_steps db))" "load_step_states_tx db pid rv = Inr steps"
  shows "steps_view (db_steps db) pid rv steps"
proof -
  let ?rows = "plan_steps_of db pid rv"
  obtain es where es: "list_all2 (\<lambda>r e. step_entry r = Inr e) ?rows es" and steps: "steps = bt_collect es"
    using assms(2) by (auto simp: load_step_states_tx_def result_simps collect_results_list_all2)
  have rows: "set ?rows = {r \<in> set (db_steps db). step_of pid rv r}"
    by (auto simp: plan_steps_of_def step_of_def)
  have "map fst es = map (\<lambda>r. PlanStepId (sr_step_id r)) ?rows"
    using es by (induction rule: list_all2_induct) (auto simp: step_entry_iff)
  then have keys: "distinct (map fst es)"
    using distinct_plan_steps [OF assms(1), of pid rv]
    by (simp add: distinct_map inj_on_def)
  have members: "e \<in> set es \<longleftrightarrow> (\<exists>r \<in> set ?rows. step_entry r = Inr e)" for e
    using es by (induction rule: list_all2_induct) auto
  have total: "\<forall>r \<in> set ?rows. \<exists>e. step_entry r = Inr e"
    using es by (induction rule: list_all2_induct) auto
  show ?thesis
    unfolding steps_view_def steps
    using total by (auto simp: map_of_collect [OF keys] map_of_eq_Some_iff [OF keys] members rows)
qed

lemma load_step_states_iff:
  assumes "distinct (map step_key (db_steps db))"
  shows "load_step_states_tx db pid rv = Inr steps \<longleftrightarrow> steps_view (db_steps db) pid rv steps"
proof
  assume view: "steps_view (db_steps db) pid rv steps"
  then have "\<forall>r \<in> set (plan_steps_of db pid rv). \<exists>e. step_entry r = Inr e"
    by (auto simp: steps_view_def plan_steps_of_def step_of_def)
  then obtain g where "\<forall>r \<in> set (plan_steps_of db pid rv). step_entry r = Inr (g r)" by metis
  then have "\<exists>m. load_step_states_tx db pid rv = Inr m"
    by (auto simp: load_step_states_tx_def collect_results_total)
  then show "load_step_states_tx db pid rv = Inr steps"
    using load_step_states_view [OF assms] steps_view_unique view by metis
qed (rule load_step_states_view [OF assms])

lemma steps_view_cong:
  assumes "filter (step_of pid rv) rows = filter (step_of pid rv) rows'"
  shows "steps_view rows pid rv m \<longleftrightarrow> steps_view rows' pid rv m"
proof -
  have "r \<in> set rows \<and> step_of pid rv r \<longleftrightarrow> r \<in> set rows' \<and> step_of pid rv r" for r
    using arg_cong [OF assms, of set] by auto
  then show ?thesis
    unfolding steps_view_def by blast
qed

lemma steps_view_update_other:
  assumes "(p, n) \<noteq> (pid, rv)"
  shows "steps_view (update_where (same_step p n sid) (\<lambda>r. r\<lparr>sr_state := text\<rparr>) rows) pid rv m
    \<longleftrightarrow> steps_view rows pid rv m"
  using assms
  by (intro steps_view_cong filter_update_where_other) (auto simp: same_step_def step_of_def)

lemma steps_view_map:
  assumes view: "steps_view rows pid rv m" and "btree_ok m'"
    and of_g: "\<And>r. step_of pid rv (g r) \<longleftrightarrow> step_of pid rv r"
    and entry_g: "\<And>r i s. r \<in> set rows \<Longrightarrow> step_of pid rv r \<Longrightarrow> step_entry r = Inr (i, s) \<Longrightarrow>
      step_entry (g r) = Inr (i, h i s)"
    and m': "\<And>i. map_of m' i = map_option (h i) (map_of m i)"
  shows "steps_view (map g rows) pid rv m'"
proof -
  have total: "\<exists>i s. step_entry r = Inr (i, s)" if "r \<in> set rows" "step_of pid rv r" for r
    using view that by (auto simp: steps_view_def)
  have m: "map_of m i = Some s \<longleftrightarrow> (\<exists>r \<in> set rows. step_of pid rv r \<and> step_entry r = Inr (i, s))" for i s
    using view by (simp add: steps_view_def)
  have "map_of m' i = Some u \<longleftrightarrow> (\<exists>r \<in> g ` set rows. step_of pid rv r \<and> step_entry r = Inr (i, u))"
    (is "?L \<longleftrightarrow> ?R") for i u
  proof
    assume ?L
    then obtain s where "map_of m i = Some s" "u = h i s" by (auto simp: m')
    then show ?R using entry_g by (force simp: m of_g)
  next
    assume ?R
    then obtain r where r: "r \<in> set rows" "step_of pid rv r" "step_entry (g r) = Inr (i, u)"
      by (auto simp: of_g)
    then obtain j s where js: "step_entry r = Inr (j, s)" using total by blast
    with entry_g [OF r(1,2) js] r(3) have "i = j" "u = h i s" by simp_all
    moreover have "map_of m j = Some s" using r js by (auto simp: m)
    ultimately show ?L by (simp add: m')
  qed
  moreover have "\<exists>e. step_entry (g r) = Inr e" if "r \<in> set rows" "step_of pid rv (g r)" for r
    using that total entry_g by (metis of_g)
  ultimately show ?thesis
    using assms(2) by (auto simp: steps_view_def)
qed

lemma same_step_entry:
  "step_of pid rv r \<Longrightarrow> step_entry r = Inr (i, s) \<Longrightarrow> same_step pid rv sid r \<longleftrightarrow> i = PlanStepId sid"
  by (auto simp: same_step_def step_of_def step_entry_iff)

lemma steps_view_update:
  assumes view: "steps_view rows pid rv m" and known: "map_of m (PlanStepId sid) = Some a"
  shows "steps_view (update_where (same_step pid rv sid)
     (\<lambda>r. r\<lparr>sr_state := step_state_str b\<rparr>) rows) pid rv (bt_insert (PlanStepId sid) b m)"
  unfolding update_where_def
proof (rule steps_view_map [OF view, where h = "\<lambda>i s. if i = PlanStepId sid then b else s"])
  show "btree_ok (bt_insert (PlanStepId sid) b m)"
    using view by (simp add: steps_view_def btree_ok_insert)
  show "map_of (bt_insert (PlanStepId sid) b m) i
      = map_option (\<lambda>s. if i = PlanStepId sid then b else s) (map_of m i)" for i
    using known by (cases "map_of m i") auto
qed (auto simp: same_step_entry step_entry_iff step_of_def same_step_def)

subsection \<open>The invariant\<close>

definition plan_key :: "plan_row \<Rightarrow> plan_id \<times> u32" where
  "plan_key r = (pl_plan_id r, pl_revision r)"

text \<open>What \<open>load_plan\<close> checks of a stored plan.\<close>

definition snapshot_ok :: "env \<Rightarrow> plan_row \<Rightarrow> bool" where
  "snapshot_ok E r \<longleftrightarrow>
     (let plan = pl_plan_json r in
      ps_plan_id plan = pl_plan_id r \<and> ps_tenant plan = pl_tenant r \<and> ps_revision plan = pl_revision r
      \<and> ps_digest plan = pl_digest r \<and> validate_structure plan = Inr ()
      \<and> verify_digest (sha_plan E) plan = Inr ())"

text \<open>The tables hold what the log of the plan replays to.\<close>

definition row_consistent :: "env \<Rightarrow> db \<Rightarrow> plan_row \<Rightarrow> bool" where
  "row_consistent E db r \<longleftrightarrow>
     (\<exists>n prev ps steps.
        replay_log E (pl_plan_json r) (plan_log db (pl_plan_id r) (pl_revision r)) = Inr (n, prev, ps, steps)
        \<and> pl_state r = plan_state_str ps
        \<and> steps_view (db_steps db) (pl_plan_id r) (pl_revision r) steps)"

definition store_inv :: "env \<Rightarrow> db \<Rightarrow> bool" where
  "store_inv E db \<longleftrightarrow>
     distinct (map plan_key (db_plans db)) \<and> distinct (map step_key (db_steps db))
     \<and> (\<forall>r \<in> set (db_plans db). snapshot_ok E r \<and> row_consistent E db r)
     \<and> (\<forall>t \<in> set (db_transitions db). plan_exists db (tr_plan_id t) (tr_revision t))
     \<and> (\<forall>s \<in> set (db_steps db). plan_exists db (sr_plan_id s) (sr_revision s))"

lemma store_invD:
  assumes "store_inv E db"
  shows "distinct (map plan_key (db_plans db))" "distinct (map step_key (db_steps db))"
    "r \<in> set (db_plans db) \<Longrightarrow> snapshot_ok E r" "r \<in> set (db_plans db) \<Longrightarrow> row_consistent E db r"
  using assms by (auto simp: store_inv_def)

lemma plan_exists_iff: "plan_exists db pid rv \<longleftrightarrow> (pid, rv) \<in> plan_key ` set (db_plans db)"
  by (auto simp: plan_exists_def list_ex_iff plan_key_def)

text \<open>Only plans, steps and the log matter, and of the plans not the time of the last update.\<close>

lemma store_inv_frame:
  assumes "db_plans db' = db_plans db" "db_steps db' = db_steps db" "db_transitions db' = db_transitions db"
  shows "store_inv E db' \<longleftrightarrow> store_inv E db"
  using assms by (simp add: store_inv_def row_consistent_def plan_log_def plan_exists_def)

subsection \<open>Appending keeps the invariant\<close>

lemma verify_hash_ok: "is_ok (verify_hash E t) \<longleftrightarrow> verify_hash E t = Inr ()"
  by (simp add: verify_hash_def)

text \<open>An entry that continues the chain of its plan, in terms of the replay.\<close>

definition continues :: "db \<Rightarrow> plan_store_transition \<Rightarrow> bool" where
  "continues db t \<longleftrightarrow>
     (let lst = last_transition_tx db (tr_plan_id t) (tr_revision t) in
      tr_sequence t = chain_next lst \<and> tr_previous_hash t = map_option snd lst)"

lemma replay_continue:
  assumes "replay_log E plan (plan_log db (tr_plan_id t) (tr_revision t)) = Inr (n, prev, ps, steps)"
    and "continues db t" "verify_hash E t = Inr ()"
    and "apply_transition_state (ps, steps) t = Inr (ps', steps')"
  shows "replay_log E plan (plan_log (db'\<lparr>db_transitions := db_transitions db @ [t]\<rparr>)
      (tr_plan_id t) (tr_revision t)) = Inr (n + 1, Some (tr_event_hash t), ps', steps')"
proof -
  let ?log = "plan_log db (tr_plan_id t) (tr_revision t)"
  have pos: "n = tr_sequence t" "prev = tr_previous_hash t" "\<forall>u \<in> set ?log. tr_sequence u < n"
    using replay_position [OF assms(1)] assms(2)
    by (auto simp: continues_def last_transition_chain_end Let_def)
  have "plan_log (db'\<lparr>db_transitions := db_transitions db @ [t]\<rparr>) (tr_plan_id t) (tr_revision t)
      = plan_log (db\<lparr>db_transitions := db_transitions db @ [t]\<rparr>) (tr_plan_id t) (tr_revision t)"
    by (simp add: plan_log_def)
  also have "\<dots> = ?log @ [t]"
    using pos by (intro plan_log_insert) (auto simp: of_plan_def)
  finally show ?thesis
    using assms(1,3,4) pos by (simp add: replay_log_snoc replay_step_def verify_hash_ok)
qed

lemma plan_log_other:
  assumes "db_transitions db' = db_transitions db @ [t]" "(pid, rv) \<noteq> (tr_plan_id t, tr_revision t)"
  shows "plan_log db' pid rv = plan_log db pid rv"
  using assms by (auto simp: plan_log_def of_plan_def)

lemma same_plan_key: "same_plan pid rv tenant r \<Longrightarrow> plan_key r = (pid, rv)"
  by (simp add: same_plan_def plan_key_def)

lemma plan_row_unique:
  assumes "distinct (map plan_key (db_plans db))" "r \<in> set (db_plans db)" "s \<in> set (db_plans db)"
    and "plan_key r = plan_key s"
  shows "r = s"
  using assms by (metis distinct_map inj_on_def)

text \<open>A change confined to one plan keeps the invariant when its log still replays to its rows.\<close>

lemma store_inv_update:
  assumes inv: "store_inv E db" and row: "row \<in> set (db_plans db)" "plan_key row = (pid, rv)"
    and plans: "db_plans db' = map f (db_plans db)"
      "\<And>r. plan_key (f r) = plan_key r" "\<And>r. snapshot_ok E (f r) = snapshot_ok E r"
      "\<And>r. r \<in> set (db_plans db) \<Longrightarrow> plan_key r \<noteq> (pid, rv) \<Longrightarrow> f r = r"
    and steps: "map step_key (db_steps db') = map step_key (db_steps db)"
      "\<And>p v. (p, v) \<noteq> (pid, rv) \<Longrightarrow>
        filter (step_of p v) (db_steps db') = filter (step_of p v) (db_steps db)"
    and log: "db_transitions db' = db_transitions db @ ts" "\<forall>t \<in> set ts. of_plan pid rv t"
    and replay: "replay_log E (pl_plan_json (f row)) (plan_log db' pid rv) = Inr (n, prev, ps, m)"
    and view: "steps_view (db_steps db') pid rv m" and state: "pl_state (f row) = plan_state_str ps"
  shows "store_inv E db'"
proof -
  have keys: "map plan_key (db_plans db') = map plan_key (db_plans db)"
    by (simp add: plans(1,2))
  have exists: "plan_exists db' = plan_exists db"
    using arg_cong [OF keys, of set] by (intro ext) (simp add: plan_exists_iff)
  have consistent: "row_consistent E db' (f r)" if mem: "r \<in> set (db_plans db)" for r
  proof (cases "plan_key r = (pid, rv)")
    case True
    then have "r = row"
      using plan_row_unique [OF store_invD(1) [OF inv] mem row(1)] row(2) by simp
    then have "pl_plan_id (f r) = pid" "pl_revision (f r) = rv"
      using plans(2) [of r] row(2) by (simp_all add: plan_key_def)
    with \<open>r = row\<close> replay view state show ?thesis by (auto simp: row_consistent_def)
  next
    case False
    then have "plan_log db' (pl_plan_id r) (pl_revision r) = plan_log db (pl_plan_id r) (pl_revision r)"
      using log by (auto simp: plan_log_def plan_key_def of_plan_def intro!: arg_cong [where f = "sort_key tr_sequence"])
    moreover have "steps_view (db_steps db') (pl_plan_id r) (pl_revision r) k
        \<longleftrightarrow> steps_view (db_steps db) (pl_plan_id r) (pl_revision r) k" for k
      using False by (intro steps_view_cong steps(2)) (simp add: plan_key_def)
    ultimately show ?thesis
      using store_invD(4) [OF inv mem] plans(4) [OF mem False] by (simp add: row_consistent_def)
  qed
  have "(sr_plan_id s, sr_revision s) \<in> (\<lambda>k. (fst k, fst (snd k))) ` set (map step_key (db_steps db))"
    if "s \<in> set (db_steps db')" for s
    using that unfolding steps(1) [symmetric] by (force simp: step_key_def)
  then have "\<forall>s \<in> set (db_steps db'). plan_exists db (sr_plan_id s) (sr_revision s)"
    using inv by (fastforce simp: store_inv_def step_key_def)
  moreover have "plan_exists db pid rv"
    using row by (force simp: plan_exists_iff)
  moreover have "distinct (map plan_key (db_plans db'))" "distinct (map step_key (db_steps db'))"
    using store_invD(1,2) [OF inv] by (simp_all only: keys steps(1))
  moreover have "\<forall>r \<in> set (db_plans db'). snapshot_ok E r \<and> row_consistent E db' r"
    using store_invD(3) [OF inv] consistent by (auto simp: plans(1,3))
  ultimately show ?thesis
    using inv log unfolding store_inv_def by (auto simp: exists of_plan_def)
qed

lemma append_plan_entry:
  assumes inv: "store_inv E db"
    and entry: "continues db t" "verify_hash E t = Inr ()" "tr_entity t = EntityPlan"
      "tr_from_state t = PlanSt a" "tr_to_state t = PlanSt b"
    and applied: "apply_plan_transition now tenant t a b db = Inr db'"
  shows "store_inv E (db'\<lparr>db_transitions := db_transitions db' @ [t]\<rparr>)"
proof -
  let ?pid = "tr_plan_id t" and ?rv = "tr_revision t"
  let ?f = "\<lambda>r. if same_plan ?pid ?rv tenant r
    then r\<lparr>pl_state := plan_state_str b, pl_updated_at := now\<rparr> else r"
  obtain row where row: "find (same_plan ?pid ?rv tenant) (db_plans db) = Some row"
      "pl_state row = plan_state_str a"
    and valid: "plan_valid_next a b" and db': "db' = db\<lparr>db_plans := map ?f (db_plans db)\<rparr>"
    using applied
    by (auto simp: apply_plan_transition_def select_plan_state_def result_simps update_plan_state_def
        update_where_def split: if_splits)
  have row_mem: "row \<in> set (db_plans db)" "same_plan ?pid ?rv tenant row"
    using find_SomeD [OF row(1)] by auto
  note key = same_plan_key [OF row_mem(2)]
  obtain n prev steps where
    old: "replay_log E (pl_plan_json row) (plan_log db ?pid ?rv) = Inr (n, prev, a, steps)"
    and view: "steps_view (db_steps db) ?pid ?rv steps"
    using store_invD(4) [OF inv row_mem(1)] row(2) key by (auto simp: row_consistent_def plan_key_def)
  have "apply_transition_state (a, steps) t = Inr (b, steps)"
    using entry valid by (simp add: apply_transition_state_def plan_validate_transition_def)
  from replay_continue [OF old entry(1,2) this, of db'] show ?thesis
    using view
    by (intro store_inv_update [OF inv row_mem(1) key, where f = ?f and ts = "[t]" and m = steps and ps = b])
      (auto simp: db' row_mem(2) [unfolded same_plan_def] plan_key_def snapshot_ok_def same_plan_def of_plan_def)
qed

lemma append_step_entry:
  assumes inv: "store_inv E db"
    and entry: "continues db t" "verify_hash E t = Inr ()" "tr_entity t = EntityStep"
      "tr_from_state t = StepSt a" "tr_to_state t = StepSt b"
    and applied: "apply_step_transition t a b db = Inr db'"
  shows "store_inv E (db'\<lparr>db_transitions := db_transitions db' @ [t]\<rparr>)"
proof -
  let ?pid = "tr_plan_id t" and ?rv = "tr_revision t"
  obtain sid where sid: "tr_entity_id t = Some (PlanStepId sid)"
    using applied by (auto simp: apply_step_transition_def result_simps) (metis plan_step_id.exhaust)
  obtain srow where srow: "find (same_step ?pid ?rv sid) (db_steps db) = Some srow"
      "sr_state srow = step_state_str a"
    and valid: "step_valid_next a b"
    and db': "db' = db\<lparr>db_steps := update_where (same_step ?pid ?rv sid)
      (\<lambda>r. r\<lparr>sr_state := step_state_str b\<rparr>) (db_steps db)\<rparr>"
    using applied sid
    by (auto simp: apply_step_transition_def select_step_state_def result_simps update_step_state_def
        split: if_splits)
  have mem: "srow \<in> set (db_steps db)" "same_step ?pid ?rv sid srow"
    using find_SomeD [OF srow(1)] by auto
  then have "plan_exists db ?pid ?rv"
    using inv by (auto simp: store_inv_def same_step_def)
  then obtain row where row: "row \<in> set (db_plans db)" "plan_key row = (?pid, ?rv)"
    by (auto simp: plan_exists_iff)
  obtain n prev ps steps where
    old: "replay_log E (pl_plan_json row) (plan_log db ?pid ?rv) = Inr (n, prev, ps, steps)"
    and state: "pl_state row = plan_state_str ps" and view: "steps_view (db_steps db) ?pid ?rv steps"
    using store_invD(4) [OF inv row(1)] row(2) by (auto simp: row_consistent_def plan_key_def)
  have "step_entry srow = Inr (PlanStepId sid, a)"
    using view mem srow(2) by (auto simp: steps_view_def step_entry_iff same_step_def step_of_def)
  then have known: "map_of steps (PlanStepId sid) = Some a"
    using view mem by (auto simp: steps_view_def same_step_def step_of_def)
  then have "apply_transition_state (ps, steps) t = Inr (ps, bt_insert (PlanStepId sid) b steps)"
    using entry valid sid by (simp add: apply_transition_state_def step_validate_transition_def)
  from replay_continue [OF old entry(1,2) this, of db'] show ?thesis
    using steps_view_update [OF view known, of b] state
    by (intro store_inv_update [OF inv row, where f = id and ts = "[t]"])
      (auto simp: db' of_plan_def map_update_where_same step_key_def
        intro!: filter_update_where_other simp: same_step_def step_of_def)
qed

text \<open>What \<open>apply_transition_tx\<close> followed by \<open>insert_transition_tx\<close> does to an entry that continues
  the chain.\<close>

definition commit_transition ::
    "env \<Rightarrow> instant \<Rightarrow> tenant_id \<Rightarrow> plan_store_transition \<Rightarrow> db \<Rightarrow> queue_error + db" where
  "commit_transition E now tenant t db =
     and_then (apply_transition_tx now tenant t db) (insert_transition_tx E t)"

lemma commit_transition_inv:
  assumes "store_inv E db" "continues db t" "commit_transition E now tenant t db = Inr db2"
  shows "store_inv E db2"
proof -
  obtain db' where applied: "apply_transition_tx now tenant t db = Inr db'"
    and ok: "verify_hash E t = Inr ()" and db2: "db2 = db'\<lparr>db_transitions := db_transitions db' @ [t]\<rparr>"
    using assms(3) by (auto simp: commit_transition_def insert_transition_tx_def result_simps)
  show ?thesis
    using applied append_plan_entry [OF assms(1,2) ok] append_step_entry [OF assms(1,2) ok]
    unfolding db2 apply_transition_tx_def
    by (auto split: transition_entity.splits transition_state.splits)
qed

lemma transition_new_facts:
  assumes "transition_new E fresh pid rv n e i a b key prev now = Inr t"
  shows "tr_plan_id t = pid" "tr_revision t = rv" "tr_sequence t = n" "tr_entity t = e"
    "tr_entity_id t = i" "tr_from_state t = a" "tr_to_state t = b" "tr_previous_hash t = prev"
    "tr_idempotency_key t = key" "verify_hash E t = Inr ()"
  using assms
  by (auto simp: transition_new_def result_simps Let_def verify_hash_def calculate_hash_def
      transition_material.truncate_def split: if_splits)

lemma append_transition_inv:
  assumes "store_inv E db" "append_transition E tenant pid rv e i a b key now db = Inr db'"
  shows "store_inv E db'"
proof -
  define db0 where "db0 = snd (fresh_uuid db)"
  have same: "last_transition_tx db0 = last_transition_tx db"
    by (intro ext) (simp add: db0_def fresh_uuid_def last_transition_tx_def plan_log_def)
  obtain t where t: "transition_new E (fst (fresh_uuid db)) pid rv (chain_next (last_transition_tx db pid rv))
      e i a b key (map_option snd (last_transition_tx db pid rv)) now = Inr t"
    and commit: "commit_transition E now tenant t db0 = Inr db'"
    using assms(2)
    by (auto simp: append_transition_def fresh_uuid_def Let_def result_simps chain_next_def
        commit_transition_def db0_def)
  have "continues db0 t"
    using transition_new_facts(1-3,8) [OF t] by (simp add: continues_def same)
  moreover have "store_inv E db0"
    using assms(1) by (subst store_inv_frame [where db = db]) (simp_all add: db0_def fresh_uuid_def)
  ultimately show ?thesis using commit commit_transition_inv by blast
qed

lemma record_plan_transition_cases:
  assumes "record_plan_transition E now tenant t db = Inr db'"
  shows "db' = db \<or> continues db t \<and> commit_transition E now tenant t db = Inr db'"
  using assms
  by (auto simp: record_plan_transition_def result_simps Let_def continues_def commit_transition_def
      split: option.splits if_splits)

lemma record_plan_transition_inv:
  "store_inv E db \<Longrightarrow> record_plan_transition E now tenant t db = Inr db' \<Longrightarrow> store_inv E db'"
  using record_plan_transition_cases commit_transition_inv by blast

subsection \<open>Saving a plan\<close>

lemma insert_step_effect:
  assumes "insert_step plan db s = Inr db'"
  shows "db_plans db' = db_plans db" "db_transitions db' = db_transitions db"
    "db_checkpoints db' = db_checkpoints db" "db_steps db' = db_steps db @ [step_row_of plan s]"
    "step_key (step_row_of plan s) \<notin> step_key ` set (db_steps db)"
  using assms
  by (auto simp: insert_step_def insert_step_row_def insert_compensation_row_def result_simps
      list_ex_iff same_step_def step_key_def split: option.splits)

lemma insert_steps_effect:
  assumes "fold_result (insert_step plan) ss db = Inr db'"
  shows "db_plans db' = db_plans db \<and> db_transitions db' = db_transitions db
    \<and> db_checkpoints db' = db_checkpoints db
    \<and> db_steps db' = db_steps db @ map (step_row_of plan) ss"
  using assms
proof (induction ss arbitrary: db)
  case (Cons s ss)
  then obtain db1 where db1: "insert_step plan db s = Inr db1"
    and rest: "fold_result (insert_step plan) ss db1 = Inr db'"
    by (auto simp: result_simps)
  show ?case using Cons.IH [OF rest] insert_step_effect [OF db1] by simp
qed simp

lemma insert_steps_distinct:
  assumes "fold_result (insert_step plan) ss db = Inr db'" "distinct (map step_key (db_steps db))"
  shows "distinct (map step_key (db_steps db'))"
  using assms
  by (rule fold_result_invariant [where P = "\<lambda>db. distinct (map step_key (db_steps db))"])
    (simp add: insert_step_effect)

lemma steps_view_initial:
  assumes "distinct (map st_id (ps_steps plan))"
    and "\<forall>s \<in> set (ps_steps plan). validate_plan_key (step_str (st_id s)) ''step_id'' = Inr ()"
  shows "steps_view (map (step_row_of plan) (ps_steps plan)) (ps_plan_id plan) (ps_revision plan)
    (bt_collect (map (\<lambda>s. (st_id s, StepPending)) (ps_steps plan)))"
proof -
  have entry: "step_entry (step_row_of plan s) = Inr (st_id s, StepPending)" if "s \<in> set (ps_steps plan)" for s
    using that assms(2) by (cases "st_id s") (auto simp: step_entry_iff step_row_of_def)
  have keys: "distinct (map fst (map (\<lambda>s. (st_id s, StepPending)) (ps_steps plan)))"
    using assms(1) by (simp add: comp_def)
  show ?thesis
    using entry
    by (auto simp: steps_view_def step_of_def map_of_collect [OF keys] map_of_eq_Some_iff [OF keys])
      (auto simp: step_row_of_def)
qed

lemma save_plan_inv:
  assumes inv: "store_inv E db" and save: "save_plan E now plan db = Inr (p, db')"
    and draft: "ps_state plan = Draft"
  shows "store_inv E db'"
proof (cases "find (same_plan (ps_plan_id plan) (ps_revision plan) (ps_tenant plan)) (db_plans db)")
  case (Some row)
  then show ?thesis using inv save by (auto simp: save_plan_def result_simps split: if_splits)
next
  case None
  let ?row = "plan_row_of now plan" and ?pid = "ps_plan_id plan" and ?rv = "ps_revision plan"
  from save None have valid: "validate_structure plan = Inr ()" "verify_digest (sha_plan E) plan = Inr ()"
    and new: "\<not> plan_exists db ?pid ?rv"
    and steps: "fold_result (insert_step plan) (ps_steps plan) (db\<lparr>db_plans := db_plans db @ [?row]\<rparr>) = Inr db'"
    by (auto simp: save_plan_def result_simps insert_plan_row_def plan_row_of_def)
  note effect = insert_steps_effect [OF steps, simplified]
  have distinct: "distinct (map step_key (db_steps db'))"
    using insert_steps_distinct [OF steps] store_invD(2) [OF inv] by simp
  have ids: "distinct (map st_id (ps_steps plan))"
    "\<forall>s \<in> set (ps_steps plan). validate_plan_key (step_str (st_id s)) ''step_id'' = Inr ()"
    using validate_structure_facts(7,8) [OF valid(1)] validate_references_facts(1)
      validate_step_facts(1) by blast+
  have key: "plan_key ?row = (?pid, ?rv)"
    by (simp add: plan_row_of_def plan_key_def)
  have log: "plan_log db' = plan_log db"
    using effect by (intro ext) (simp add: plan_log_def)
  have empty: "plan_log db ?pid ?rv = []" "filter (step_of ?pid ?rv) (db_steps db) = []"
    using inv new by (auto simp: store_inv_def plan_log_def of_plan_def filter_empty_conv step_of_def)
  have "row_consistent E db' ?row"
  proof -
    have "steps_view (db_steps db') ?pid ?rv m
        \<longleftrightarrow> steps_view (map (step_row_of plan) (ps_steps plan)) ?pid ?rv m" for m
      using effect empty(2) by (intro steps_view_cong) simp
    with steps_view_initial [OF ids] empty(1) draft show ?thesis
      by (auto simp: row_consistent_def plan_row_of_def log replay_log_def initial_reducer_def)
  qed
  moreover have "row_consistent E db' r" if "r \<in> set (db_plans db)" for r
  proof -
    have "(pl_plan_id r, pl_revision r) \<noteq> (?pid, ?rv)"
      using that new by (auto simp: plan_exists_iff plan_key_def image_iff)
    then have "steps_view (db_steps db') (pl_plan_id r) (pl_revision r) m
        \<longleftrightarrow> steps_view (db_steps db) (pl_plan_id r) (pl_revision r) m" for m
      using effect by (intro steps_view_cong) (auto simp: filter_empty_conv step_of_def step_row_of_def)
    with store_invD(4) [OF inv that] show ?thesis by (simp add: row_consistent_def log)
  qed
  moreover have "snapshot_ok E ?row"
    using valid by (simp add: snapshot_ok_def plan_row_of_def)
  moreover have exists: "plan_exists db' p n \<longleftrightarrow> plan_exists db p n \<or> (p, n) = (?pid, ?rv)" for p n
    using effect key by (auto simp: plan_exists_iff)
  ultimately show ?thesis
    using inv effect key new distinct unfolding store_inv_def
    by (auto simp: plan_exists_iff step_row_of_def)
qed

subsection \<open>Loading a plan\<close>

lemma validate_structure_state [simp]: "validate_structure (p\<lparr>ps_state := s\<rparr>) = validate_structure p"
  by (simp add: validate_structure_def)

lemma verify_digest_state [simp]: "verify_digest sha (p\<lparr>ps_state := s\<rparr>) = verify_digest sha p"
  by (simp add: verify_digest_def calculate_digest_def digest_material_def)

lemma replay_log_state [simp]: "replay_log E (p\<lparr>ps_state := s\<rparr>) ts = replay_log E p ts"
  by (simp add: replay_log_def initial_reducer_def)

lemma latest_plan_row_facts:
  assumes "latest_plan_row db pid tenant = Some r"
  shows "r \<in> set (db_plans db)" "pl_plan_id r = pid" "pl_tenant r = tenant"
    "\<forall>s \<in> set (db_plans db). pl_plan_id s = pid \<and> pl_tenant s = tenant \<longrightarrow> pl_revision s \<le> pl_revision r"
proof -
  define rows where "rows = sort_key pl_revision (filter (\<lambda>r. pl_plan_id r = pid \<and> pl_tenant r = tenant) (db_plans db))"
  have rows: "rows \<noteq> []" "r = last rows"
    using assms by (auto simp: latest_plan_row_def rows_def Let_def split: if_splits)
  then have "r \<in> set rows" by simp
  then show "r \<in> set (db_plans db)" "pl_plan_id r = pid" "pl_tenant r = tenant"
    by (auto simp: rows_def)
  have "\<forall>s \<in> set rows. pl_revision s \<le> pl_revision r"
    using sorted_last_le [of pl_revision rows] by (simp add: rows_def rows(2))
  then show "\<forall>s \<in> set (db_plans db). pl_plan_id s = pid \<and> pl_tenant s = tenant \<longrightarrow> pl_revision s \<le> pl_revision r"
    by (auto simp: rows_def)
qed

lemma load_plan_Inr:
  assumes "load_plan E pid tenant db = Inr p"
  obtains r s where "latest_plan_row db pid tenant = Some r" "pl_state r = plan_state_str s"
    "pp_plan p = (pl_plan_json r)\<lparr>ps_state := s\<rparr>" "snapshot_ok E r"
proof -
  obtain r where r: "latest_plan_row db pid tenant = Some r"
    using assms by (auto simp: load_plan_def result_simps)
  show ?thesis
    using assms r latest_plan_row_facts(2,3) [OF r] that [OF r]
    by (auto simp: load_plan_def result_simps Let_def snapshot_ok_def split: if_splits)
qed

lemma load_plan_ok:
  assumes "store_inv E db" "latest_plan_row db pid tenant = Some r"
  obtains s where "pl_state r = plan_state_str s"
    "load_plan E pid tenant db = Inr \<lparr>pp_plan = (pl_plan_json r)\<lparr>ps_state := s\<rparr>, pp_updated_at = pl_updated_at r\<rparr>"
proof -
  note r = latest_plan_row_facts [OF assms(2)]
  obtain s where s: "pl_state r = plan_state_str s"
    using store_invD(4) [OF assms(1) r(1)] by (auto simp: row_consistent_def)
  moreover have "load_plan E pid tenant db
      = Inr \<lparr>pp_plan = (pl_plan_json r)\<lparr>ps_state := s\<rparr>, pp_updated_at = pl_updated_at r\<rparr>"
    using store_invD(3) [OF assms(1) r(1)] r s assms(2)
    by (simp add: load_plan_def snapshot_ok_def Let_def)
  ultimately show ?thesis using that by blast
qed

lemma find_plan_row:
  assumes "distinct (map plan_key (db_plans db))" "r \<in> set (db_plans db)"
  shows "find (same_plan (pl_plan_id r) (pl_revision r) (pl_tenant r)) (db_plans db) = Some r"
proof (cases "find (same_plan (pl_plan_id r) (pl_revision r) (pl_tenant r)) (db_plans db)")
  case None
  with assms(2) show ?thesis by (auto simp: find_None_iff same_plan_def)
next
  case (Some s)
  then have "s \<in> set (db_plans db)" "plan_key s = plan_key r"
    by (auto dest: find_SomeD simp: same_plan_def plan_key_def)
  with plan_row_unique [OF assms(1) _ assms(2)] Some show ?thesis by simp
qed

subsection \<open>Checkpoints\<close>

text \<open>The checkpoints of every plan are numbered from one without a gap, and their rows parse.\<close>

definition checkpoints_ok :: "db \<Rightarrow> bool" where
  "checkpoints_ok db \<longleftrightarrow>
     (\<forall>r \<in> set (db_checkpoints db). \<exists>c. checkpoint_of_row r = Inr c)
     \<and> (\<forall>pid rv. map cp_sequence (plan_checkpoints_of db pid rv)
          = [1..<Suc (length (plan_checkpoints_of db pid rv))])"

lemma checkpoint_of_row_sequence: "checkpoint_of_row r = Inr c \<Longrightarrow> ck_sequence c = cp_sequence r"
  by (auto simp: checkpoint_of_row_def result_simps)

lemma check_checkpoint_sequence_iff:
  "check_checkpoint_sequence cs \<longleftrightarrow> map ck_sequence cs = [1..<Suc (length cs)]"
proof -
  have "list_all (\<lambda>(i, c). ck_sequence c = i + 1) (enumerate n cs)
      \<longleftrightarrow> map ck_sequence cs = [Suc n..<Suc (n + length cs)]" for n
    by (induction cs arbitrary: n) (auto simp: upt_conv_Cons)
  from this [of 0] show ?thesis by (simp add: check_checkpoint_sequence_def)
qed

lemma load_checkpoints:
  assumes "checkpoints_ok db"
  shows "\<exists>cs. collect_results checkpoint_of_row (plan_checkpoints_of db pid rv) = Inr cs
    \<and> check_checkpoint_sequence cs \<and> map ck_sequence cs = map cp_sequence (plan_checkpoints_of db pid rv)"
proof -
  have "\<forall>r \<in> set (plan_checkpoints_of db pid rv). \<exists>c. checkpoint_of_row r = Inr c"
    using assms by (auto simp: checkpoints_ok_def plan_checkpoints_of_def)
  then obtain g where g: "\<forall>r \<in> set (plan_checkpoints_of db pid rv). checkpoint_of_row r = Inr (g r)"
    by metis
  then have "map ck_sequence (map g (plan_checkpoints_of db pid rv)) = map cp_sequence (plan_checkpoints_of db pid rv)"
    by (auto dest: checkpoint_of_row_sequence)
  with g assms show ?thesis
    by (auto simp: collect_results_total check_checkpoint_sequence_iff checkpoints_ok_def)
qed

lemma load_reducer_rows_ok:
  assumes inv: "store_inv E db" "checkpoints_ok db" and r: "r \<in> set (db_plans db)"
  obtains cs ps steps where
    "load_reducer_rows (pl_plan_id r) (pl_revision r) (pl_tenant r) db
       = Inr (plan_log db (pl_plan_id r) (pl_revision r), cs, ps, steps)"
    "check_checkpoint_sequence cs" "pl_state r = plan_state_str ps"
    "\<exists>n prev. replay_log E (pl_plan_json r) (plan_log db (pl_plan_id r) (pl_revision r)) = Inr (n, prev, ps, steps)"
proof -
  let ?pid = "pl_plan_id r" and ?rv = "pl_revision r"
  obtain ps steps where ps: "pl_state r = plan_state_str ps"
    and view: "steps_view (db_steps db) ?pid ?rv steps"
    and replay: "\<exists>n prev. replay_log E (pl_plan_json r) (plan_log db ?pid ?rv) = Inr (n, prev, ps, steps)"
    using store_invD(4) [OF inv(1) r] by (auto simp: row_consistent_def)
  obtain cs where cs: "collect_results checkpoint_of_row (plan_checkpoints_of db ?pid ?rv) = Inr cs"
      "check_checkpoint_sequence cs"
    using load_checkpoints [OF inv(2)] by blast
  have "load_step_states_tx db ?pid ?rv = Inr steps"
    using view load_step_states_iff [OF store_invD(2) [OF inv(1)]] by simp
  then obtain es where es: "collect_results step_entry (plan_steps_of db ?pid ?rv) = Inr es"
      and steps: "steps = bt_collect es"
    by (auto simp: load_step_states_tx_def result_simps)
  have "collect_results (\<lambda>r. and_then (conversion (plan_step_id_new (sr_step_id r))) (\<lambda>i.
      and_then (conversion (parse_step_state (sr_state r))) (\<lambda>s. Inr (i, s))))
      (plan_steps_of db ?pid ?rv) = Inr es"
    using es unfolding collect_results_list_all2
    by (rule list_all2_mono) (auto simp: step_entry_def conversion_def result_simps)
  with cs(1) ps steps have "load_reducer_rows ?pid ?rv (pl_tenant r) db = Inr (plan_log db ?pid ?rv, cs, ps, steps)"
    by (simp add: load_reducer_rows_def select_plan_state_def
        find_plan_row [OF store_invD(1) [OF inv(1)] r])
  with cs(2) ps replay that show ?thesis by blast
qed

lemma inspect_plan_lemma:
  assumes inv: "store_inv E db" "checkpoints_ok db" and row: "latest_plan_row db pid tenant = Some r"
  shows "\<exists>report. inspect_plan E tenant pid db = Inr report \<and> is_issue report = None
    \<and> is_status report = InspectionStable"
proof -
  note r = latest_plan_row_facts [OF row]
  obtain s where load: "load_plan E pid tenant db
      = Inr \<lparr>pp_plan = (pl_plan_json r)\<lparr>ps_state := s\<rparr>, pp_updated_at = pl_updated_at r\<rparr>"
    using load_plan_ok [OF inv(1) row] by blast
  have rev_id: "ps_revision (pl_plan_json r) = pl_revision r"
    using store_invD(3) [OF inv(1) r(1)] by (simp add: snapshot_ok_def Let_def)
  obtain cs ps steps where rows: "load_reducer_rows pid (pl_revision r) tenant db
      = Inr (plan_log db pid (pl_revision r), cs, ps, steps)"
    and ok: "check_checkpoint_sequence cs"
    and replay: "\<exists>n prev. replay_log E (pl_plan_json r) (plan_log db pid (pl_revision r)) = Inr (n, prev, ps, steps)"
    using load_reducer_rows_ok [OF inv r(1)] r(2,3) by metis
  then show ?thesis
    by (auto simp: inspect_plan_def load rev_id inspection_issue_of_def Let_def)
qed

subsection \<open>Checkpoints keep the invariant\<close>

lemma plan_checkpoints_insert:
  assumes "checkpoints_ok db" "cp_sequence r = next_checkpoint_sequence_tx db pid rv"
    "cp_plan_id r = pid" "cp_revision r = rv"
  shows "plan_checkpoints_of (db\<lparr>db_checkpoints := db_checkpoints db @ [r]\<rparr>) pid rv
      = plan_checkpoints_of db pid rv @ [r]"
    and "cp_sequence r = Suc (length (plan_checkpoints_of db pid rv))"
proof -
  let ?rows = "plan_checkpoints_of db pid rv"
  have seq: "map cp_sequence ?rows = [1..<Suc (length ?rows)]"
    using assms(1) by (simp add: checkpoints_ok_def)
  have "cp_sequence (last ?rows) = length ?rows" if "?rows \<noteq> []"
    using that arg_cong [OF seq, of last] by (simp add: last_map Suc_le_eq)
  then show sq: "cp_sequence r = Suc (length ?rows)"
    by (simp add: assms(2) next_checkpoint_sequence_tx_def last_checkpoint_sequence_def Let_def)
  have "\<forall>c \<in> set ?rows. cp_sequence c \<le> length ?rows"
  proof
    fix c assume "c \<in> set ?rows"
    then have "cp_sequence c \<in> set [1..<Suc (length ?rows)]"
      unfolding seq [symmetric] by simp
    then show "cp_sequence c \<le> length ?rows" by (simp only: set_upt atLeastLessThan_iff less_Suc_eq_le)
  qed
  then show "plan_checkpoints_of (db\<lparr>db_checkpoints := db_checkpoints db @ [r]\<rparr>) pid rv = ?rows @ [r]"
    using assms(3,4) sq by (auto simp: plan_checkpoints_of_def intro!: sort_key_snoc)
qed

lemma insert_checkpoint_row_ok:
  assumes ok: "checkpoints_ok db" and insert: "insert_checkpoint_row r db = Inr db'"
    and seq: "cp_sequence r = next_checkpoint_sequence_tx db (cp_plan_id r) (cp_revision r)"
    and parses: "\<exists>c. checkpoint_of_row r = Inr c"
  shows "checkpoints_ok db'"
proof -
  have db': "db' = db\<lparr>db_checkpoints := db_checkpoints db @ [r]\<rparr>"
    using insert by (auto simp: insert_checkpoint_row_def result_simps)
  have "map cp_sequence (plan_checkpoints_of db' pid rv) = [1..<Suc (length (plan_checkpoints_of db' pid rv))]"
    for pid rv
  proof (cases "(pid, rv) = (cp_plan_id r, cp_revision r)")
    case True
    then show ?thesis
      using plan_checkpoints_insert [OF ok seq refl refl] ok by (simp add: db' checkpoints_ok_def)
  next
    case False
    then have "plan_checkpoints_of db' pid rv = plan_checkpoints_of db pid rv"
      by (auto simp: db' plan_checkpoints_of_def)
    then show ?thesis using ok by (simp add: checkpoints_ok_def)
  qed
  then show ?thesis
    using ok parses by (auto simp: checkpoints_ok_def db')
qed

lemma insert_checkpoint_tx_ok:
  assumes "checkpoints_ok db" "insert_checkpoint_tx pid rv step_id phase status digest now db = Inr db'"
    and "\<forall>i. step_id = Some i \<longrightarrow> validate_plan_key (step_str i) ''step_id'' = Inr ()"
  shows "checkpoints_ok db'"
proof -
  let ?r = "\<lparr>cp_plan_id = pid, cp_revision = rv, cp_sequence = next_checkpoint_sequence_tx db pid rv,
    cp_step_id = map_option step_str step_id, cp_phase = phase_as_str phase,
    cp_status = checkpoint_status_as_str status, cp_state_digest = digest, cp_created_at = now\<rparr>"
  have insert: "insert_checkpoint_row ?r db = Inr db'"
    using assms(2) by (auto simp: insert_checkpoint_tx_def result_simps)
  have "\<exists>c. checkpoint_of_row ?r = Inr c"
    using assms(3)
    by (cases step_id) (simp_all add: checkpoint_of_row_def conversion_def plan_step_id_new_def)
  then show ?thesis
    by (intro insert_checkpoint_row_ok [OF assms(1) insert]) simp_all
qed

lemma insert_checkpoint_tx_frame:
  assumes "insert_checkpoint_tx pid rv step_id phase status digest now db = Inr db'"
  shows "db_plans db' = db_plans db" "db_steps db' = db_steps db" "db_transitions db' = db_transitions db"
    "db_approvals db' = db_approvals db" "db_tasks db' = db_tasks db"
  using assms by (auto simp: insert_checkpoint_tx_def insert_checkpoint_row_def result_simps)

lemma insert_checkpoint_tx_inv:
  assumes "store_inv E db" "insert_checkpoint_tx pid rv step_id phase status digest now db = Inr db'"
  shows "store_inv E db'"
  using assms(1) store_inv_frame [OF insert_checkpoint_tx_frame(1,2,3) [OF assms(2)]] by blast

end
