(* ===== verification/Plan_Recovery.thy ===== *)
theory Plan_Recovery
  imports Plan_Reducer_Inv
begin

text \<open>
  \<^verbatim>\<open>crates/shaka-queue/src/plan_store.rs\<close>: recovery. \<open>resume_plan\<close> replays the log after a
  restart and turns every boundary whose outcome is not known into the state \<open>unknown\<close>, which only a
  human decision leaves; \<open>mark_plan_unknown\<close> does the same for one plan and step.

  \<open>resume_plan\<close>, \<open>recover_unknown\<close> and \<open>force_unknown\<close> read the database again after their commit:
  they return the database next to the result, because an error of the second reading does not undo
  the commit. \<open>recover_unknown\<close> takes the state the caller saw, which another connection may have
  changed since.
\<close>

definition active_state :: "plan_step_state \<Rightarrow> bool" where
  "active_state s \<longleftrightarrow> s \<in> {StepRunning, StepCancelRequested, StepCompensating}"

definition active_text :: "string \<Rightarrow> bool" where
  "active_text s \<longleftrightarrow> s \<in> {''running'', ''cancel_requested'', ''compensating''}"

definition active_steps_tx ::
    "plan_id \<Rightarrow> u32 \<Rightarrow> db \<Rightarrow> queue_error + (plan_step_id \<times> plan_step_state) list" where
  "active_steps_tx pid revision db =
     collect_results step_entry (filter (\<lambda>r. active_text (sr_state r)) (plan_steps_of db pid revision))"

subsection \<open>Entries of the recovery\<close>

text \<open>Unlike \<open>append_transition\<close> these are inserted without being applied: the tables are updated
  afterwards in one statement each.\<close>

type_synonym recovery_loop = "db \<times> nat \<times> string option \<times> step_states"

definition recovery_insert ::
    "env \<Rightarrow> instant \<Rightarrow> plan_id \<Rightarrow> u32 \<Rightarrow> transition_entity \<Rightarrow> plan_step_id option \<Rightarrow>
     transition_state \<Rightarrow> transition_state \<Rightarrow> string \<Rightarrow> recovery_loop \<Rightarrow> queue_error + recovery_loop" where
  "recovery_insert E now pid revision entity entity_id from_state to_state key loop =
     (case loop of (db, sequence, previous_hash, states) \<Rightarrow>
      let (fresh, db) = fresh_uuid db in
      and_then (transition_new E fresh pid revision sequence entity entity_id from_state to_state key
        previous_hash now) (\<lambda>t.
      and_then (insert_transition_tx E t db) (\<lambda>db.
      Inr (db, sequence + 1, Some (tr_event_hash t), states))))"

definition recovery_step ::
    "env \<Rightarrow> instant \<Rightarrow> plan_id \<Rightarrow> u32 \<Rightarrow> recovery_loop \<Rightarrow> plan_step_id \<times> plan_step_state \<Rightarrow>
     queue_error + recovery_loop" where
  "recovery_step E now pid revision loop entry =
     (case entry of (i, state) \<Rightarrow>
      and_then (recovery_insert E now pid revision EntityStep (Some i) (StepSt state) (StepSt StepUnknown)
        (''recovery:step:'' @ step_str i @ '':'' @ show_nat (fst (snd loop))) loop)
        (\<lambda>(db, sequence, previous_hash, states).
      Inr (db, sequence, previous_hash, bt_insert i StepUnknown states)))"

definition append_recovery_transitions_tx ::
    "env \<Rightarrow> instant \<Rightarrow> plan_id \<Rightarrow> u32 \<Rightarrow> plan_state \<Rightarrow> (plan_step_id \<times> plan_step_state) list \<Rightarrow> db \<Rightarrow>
     queue_error + (step_states \<times> db)" where
  "append_recovery_transitions_tx E now pid revision plan_state active_steps db =
     (let lst = last_transition_tx db pid revision;
          loop = (db, chain_next lst, map_option snd lst, [])
      in and_then (if plan_state \<noteq> Unknown then
             recovery_insert E now pid revision EntityPlan None (PlanSt plan_state) (PlanSt Unknown)
               (''recovery:plan:'' @ show_nat (chain_next lst)) loop
           else Inr loop) (\<lambda>loop.
         and_then (fold_result (recovery_step E now pid revision) active_steps loop)
           (\<lambda>(db, _, _, states). Inr (states, db))))"

text \<open>\<open>UPDATE plan_steps SET state = 'unknown' WHERE ... state IN (...)\<close>.\<close>

definition mark_active_steps :: "plan_id \<Rightarrow> u32 \<Rightarrow> db \<Rightarrow> db" where
  "mark_active_steps pid revision db =
     db\<lparr>db_steps := update_where
       (\<lambda>r. sr_plan_id r = pid \<and> sr_revision r = revision \<and> active_text (sr_state r))
       (\<lambda>r. r\<lparr>sr_state := ''unknown''\<rparr>) (db_steps db)\<rparr>"

definition recovery_checkpoint ::
    "plan_id \<Rightarrow> u32 \<Rightarrow> string option \<Rightarrow> instant \<Rightarrow> db \<Rightarrow> queue_error + db" where
  "recovery_checkpoint pid revision state_digest now db =
     insert_checkpoint_row
       \<lparr>cp_plan_id = pid, cp_revision = revision,
        cp_sequence = next_checkpoint_sequence_tx db pid revision, cp_step_id = None,
        cp_phase = ''recovery'', cp_status = ''unknown'', cp_state_digest = state_digest,
        cp_created_at = now\<rparr> db"

subsection \<open>\<open>recover_unknown\<close>\<close>

text \<open>The transaction, after the check of the plan state.\<close>

definition recover_commit ::
    "env \<Rightarrow> instant \<Rightarrow> tenant_id \<Rightarrow> plan_id \<Rightarrow> u32 \<Rightarrow> plan_state \<Rightarrow>
     (plan_step_id \<times> plan_step_state) list \<Rightarrow> string \<Rightarrow> db \<Rightarrow> queue_error + (step_states \<times> db)" where
  "recover_commit E now tenant pid revision plan_state active_steps state_digest db =
     and_then (active_steps_tx pid revision db) (\<lambda>current_active_steps.
     if current_active_steps \<noteq> active_steps then
       Inl (QInvalidInput ''etapas ativas mudaram durante o recovery'')
     else
       and_then (append_recovery_transitions_tx E now pid revision plan_state active_steps db)
         (\<lambda>(states, db).
       let db = mark_active_steps pid revision
         (update_plan_state now pid revision tenant ''unknown'' db) in
       and_then (recovery_checkpoint pid revision (Some state_digest) now db) (\<lambda>db.
       Inr (states, db))))"

definition reload_plan ::
    "env \<Rightarrow> tenant_id \<Rightarrow> plan_id \<Rightarrow> u32 \<Rightarrow> db \<Rightarrow> queue_error + (plan_spec \<times> step_states)" where
  "reload_plan E tenant pid revision db =
     and_then (load_plan E pid tenant db) (\<lambda>persisted.
     and_then (load_reducer_rows pid revision tenant db) (\<lambda>(_, _, _, states).
     Inr (pp_plan persisted, states)))"

text \<open>\<open>states.entry(step_id).or_insert(state)\<close> for every step of the plan.\<close>

definition complete_states :: "plan_spec \<Rightarrow> step_states \<Rightarrow> step_states \<Rightarrow> step_states" where
  "complete_states plan current_states states =
     fold (\<lambda>s states.
       if map_of states (st_id s) = None then
         bt_insert (st_id s) (unwrap_or (map_of current_states (st_id s)) StepPending) states
       else states) (ps_steps plan) states"

definition recover_unknown ::
    "env \<Rightarrow> instant \<Rightarrow> tenant_id \<Rightarrow> plan_id \<Rightarrow> u32 \<Rightarrow> plan_state \<Rightarrow>
     (plan_step_id \<times> plan_step_state) list \<Rightarrow> string \<Rightarrow> db \<Rightarrow>
     db \<times> (queue_error + (plan_spec \<times> step_states))" where
  "recover_unknown E now tenant pid revision plan_state active_steps state_digest db =
     (case and_then (select_plan_state db pid revision tenant) parse_plan_state of
        Inl e \<Rightarrow> (db, Inl e)
      | Inr current \<Rightarrow>
          if current = Unknown then (db, reload_plan E tenant pid revision db)
          else if current \<noteq> plan_state then
            (db, Inl (QInvalidInput ''plano mudou durante o recovery''))
          else
            (case recover_commit E now tenant pid revision plan_state active_steps state_digest db of
               Inl e \<Rightarrow> (db, Inl e)
             | Inr (states, db') \<Rightarrow>
                 (db', and_then (reload_plan E tenant pid revision db') (\<lambda>(plan, current_states).
                   Inr (plan, complete_states plan current_states states)))))"

subsection \<open>\<open>force_unknown\<close>\<close>

definition force_commit :: "instant \<Rightarrow> tenant_id \<Rightarrow> plan_id \<Rightarrow> u32 \<Rightarrow> db \<Rightarrow> queue_error + db" where
  "force_commit now tenant pid revision db =
     (let db = mark_active_steps pid revision
        (update_plan_state now pid revision tenant ''unknown'' db) in
      if list_ex (\<lambda>c. cp_plan_id c = pid \<and> cp_revision c = revision \<and> cp_phase c = ''recovery''
           \<and> cp_status c = ''unknown'') (db_checkpoints db)
      then Inr db
      else (case find (same_plan pid revision tenant) (db_plans db) of
              None \<Rightarrow> Inr db
            | Some row \<Rightarrow> recovery_checkpoint pid revision (Some (pl_digest row)) now db))"

definition force_unknown ::
    "env \<Rightarrow> instant \<Rightarrow> tenant_id \<Rightarrow> plan_id \<Rightarrow> u32 \<Rightarrow> db \<Rightarrow>
     db \<times> (queue_error + (plan_spec \<times> step_states))" where
  "force_unknown E now tenant pid revision db =
     (case force_commit now tenant pid revision db of
        Inl e \<Rightarrow> (db, Inl e)
      | Inr db' \<Rightarrow> (db', reload_plan E tenant pid revision db'))"

subsection \<open>\<open>resume_plan\<close>\<close>

record resume_report =
  re_plan :: plan_spec
  re_step_states :: step_states
  re_status :: resume_status
  re_checkpoints_checked :: nat
  re_transitions_checked :: nat
  re_inconsistency :: "string option"

definition safe_error :: "queue_error \<Rightarrow> string" where
  "safe_error e =
     (case e of
        QInvalidInput detail \<Rightarrow> take_chars 160 detail
      | NotFound detail \<Rightarrow> take_chars 160 detail
      | _ \<Rightarrow> ''falha na reconstrucao do reducer'')"

definition resume_inconsistency ::
    "env \<Rightarrow> plan_spec \<Rightarrow> plan_store_transition list \<Rightarrow> plan_checkpoint list \<Rightarrow> plan_state \<Rightarrow>
     step_states \<Rightarrow> string option" where
  "resume_inconsistency E plan transitions checkpoints db_plan_state db_step_states =
     (case replay_log E plan transitions of
        Inl ChainBroken \<Rightarrow> Some ''cadeia de transicoes invalida''
      | Inl (StepRejected e) \<Rightarrow> Some (safe_error e)
      | Inr (_, _, plan_state, steps) \<Rightarrow>
          if plan_state \<noteq> db_plan_state \<or> steps \<noteq> db_step_states then
            Some ''snapshot do reducer diverge da cadeia''
          else if \<not> check_checkpoint_sequence checkpoints then
            Some ''sequencia de checkpoints invalida''
          else None)"

definition active_plan :: "plan_state \<Rightarrow> bool" where
  "active_plan s \<longleftrightarrow> s \<in> {Running, CancelRequested, Compensating}"

definition report_of ::
    "resume_status \<Rightarrow> nat \<Rightarrow> nat \<Rightarrow> string option \<Rightarrow> plan_spec \<times> step_states \<Rightarrow> resume_report" where
  "report_of status checkpoints transitions inconsistency r =
     \<lparr>re_plan = fst r, re_step_states = snd r, re_status = status,
      re_checkpoints_checked = checkpoints, re_transitions_checked = transitions,
      re_inconsistency = inconsistency\<rparr>"

text \<open>What \<open>resume_plan\<close> does with the rows it read.\<close>

definition resume_loaded ::
    "env \<Rightarrow> instant \<Rightarrow> tenant_id \<Rightarrow> plan_id \<Rightarrow> plan_spec \<Rightarrow> plan_store_transition list \<Rightarrow>
     plan_checkpoint list \<Rightarrow> plan_state \<Rightarrow> step_states \<Rightarrow> db \<Rightarrow> db \<times> (queue_error + resume_report)" where
  "resume_loaded E now tenant pid plan transitions checkpoints db_plan_state db_step_states db =
     (let c = length checkpoints; t = length transitions;
          active_steps = filter (\<lambda>(_, state). active_state state) db_step_states in
      case resume_inconsistency E plan transitions checkpoints db_plan_state db_step_states of
        Some reason \<Rightarrow>
          apsnd (\<lambda>r. and_then r (\<lambda>x. Inr (report_of Inconsistent (c + 1) t (Some reason) x)))
            (force_unknown E now tenant pid (ps_revision plan) db)
      | None \<Rightarrow>
          if active_plan db_plan_state \<or> active_steps \<noteq> [] then
            apsnd (\<lambda>r. and_then r (\<lambda>x. Inr (report_of RecoveredUnknown (c + 1) t None x)))
              (recover_unknown E now tenant pid (ps_revision plan) db_plan_state active_steps
                (ps_digest plan) db)
          else
            (db, Inr (report_of Stable c t None (plan\<lparr>ps_state := db_plan_state\<rparr>, db_step_states))))"

definition resume_plan ::
    "env \<Rightarrow> instant \<Rightarrow> tenant_id \<Rightarrow> plan_id \<Rightarrow> db \<Rightarrow> db \<times> (queue_error + resume_report)" where
  "resume_plan E now tenant pid db =
     (case and_then (load_plan E pid tenant db) (\<lambda>persisted.
         and_then (load_reducer_rows pid (ps_revision (pp_plan persisted)) tenant db) (\<lambda>rows.
         Inr (pp_plan persisted, rows))) of
        Inl e \<Rightarrow> (db, Inl e)
      | Inr (plan, transitions, checkpoints, db_plan_state, db_step_states) \<Rightarrow>
          resume_loaded E now tenant pid plan transitions checkpoints db_plan_state db_step_states db)"

subsection \<open>\<open>mark_plan_unknown\<close>\<close>

text \<open>Where the state machine has no move to \<open>unknown\<close> the row is overwritten without an entry in
  the log.\<close>

definition mark_plan_row_unknown ::
    "env \<Rightarrow> tenant_id \<Rightarrow> plan_spec \<Rightarrow> instant \<Rightarrow> db \<Rightarrow> queue_error + db" where
  "mark_plan_row_unknown E tenant plan now db =
     and_then (select_plan_state db (ps_plan_id plan) (ps_revision plan) tenant) (\<lambda>text.
     and_then (parse_plan_state text) (\<lambda>current.
     if current = Unknown then Inr db
     else if is_ok (plan_validate_transition current Unknown) then
       append_plan_transition_tx E (ps_tenant plan) plan current Unknown
         (''recovery:plan:unknown:'' @ rfc3339 E now) now db
     else
       Inr (update_plan_state now (ps_plan_id plan) (ps_revision plan) tenant ''unknown'' db)))"

definition mark_step_row_unknown ::
    "env \<Rightarrow> plan_spec \<Rightarrow> plan_step_id \<Rightarrow> instant \<Rightarrow> db \<Rightarrow> queue_error + db" where
  "mark_step_row_unknown E plan sid now db =
     (case find (same_step (ps_plan_id plan) (ps_revision plan) (step_str sid)) (db_steps db) of
        None \<Rightarrow> Inr db
      | Some r \<Rightarrow>
          and_then (parse_step_state (sr_state r)) (\<lambda>current.
          if current = StepUnknown then Inr db
          else if is_ok (step_validate_transition current StepUnknown) then
            append_step_transition_tx E plan sid current StepUnknown
              (''recovery:step:'' @ step_str sid @ '':unknown:'' @ rfc3339 E now) now db
          else Inr (update_step_state (ps_plan_id plan) (ps_revision plan) sid ''unknown'' db)))"

definition mark_plan_unknown_tx ::
    "env \<Rightarrow> tenant_id \<Rightarrow> plan_spec \<Rightarrow> plan_step_id option \<Rightarrow> string option \<Rightarrow> instant \<Rightarrow> db \<Rightarrow>
     queue_error + db" where
  "mark_plan_unknown_tx E tenant plan step_id state_digest now db =
     and_then (mark_plan_row_unknown E tenant plan now db) (\<lambda>db.
     and_then (case step_id of
         None \<Rightarrow> Inr db
       | Some sid \<Rightarrow> mark_step_row_unknown E plan sid now db) (\<lambda>db.
     insert_checkpoint_tx (ps_plan_id plan) (ps_revision plan) step_id PhaseRecovery
       CheckpointUnknown state_digest now db))"

definition mark_plan_unknown ::
    "env \<Rightarrow> instant \<Rightarrow> tenant_id \<Rightarrow> plan_id \<Rightarrow> plan_step_id option \<Rightarrow> string option \<Rightarrow> db \<Rightarrow>
     queue_error + db" where
  "mark_plan_unknown E now tenant pid step_id state_digest db =
     and_then (case state_digest of
         None \<Rightarrow> Inr ()
       | Some digest \<Rightarrow> store_validate_sha256 digest ''state_digest'') (\<lambda>_.
     and_then (load_plan E pid tenant db) (\<lambda>persisted.
     mark_plan_unknown_tx E tenant (pp_plan persisted) step_id state_digest now db))"

end
