(* ===== verification/Plan_Recovery_Inv.thy ===== *)
theory Plan_Recovery_Inv
  imports Plan_Recovery
begin

text \<open>
  Recovery and the invariant of the reducer: on a consistent store \<open>resume_plan\<close> leaves a consistent
  store in which no plan or step is left at a boundary whose outcome is not known.
\<close>

subsection \<open>The recovery entries replay\<close>

text \<open>What a recovery loop leaves: entries of one plan only, everything else untouched.\<close>

definition log_extends :: "plan_id \<Rightarrow> u32 \<Rightarrow> db \<Rightarrow> db \<Rightarrow> bool" where
  "log_extends pid rv db db' \<longleftrightarrow>
     db_plans db' = db_plans db \<and> db_steps db' = db_steps db \<and> db_checkpoints db' = db_checkpoints db
     \<and> (\<exists>ts. db_transitions db' = db_transitions db @ ts \<and> (\<forall>t \<in> set ts. of_plan pid rv t \<and> plan_exists db pid rv))"

lemma log_extends_refl: "log_extends pid rv db db"
  by (simp add: log_extends_def)

lemma log_extends_trans:
  "log_extends pid rv db db1 \<Longrightarrow> log_extends pid rv db1 db2 \<Longrightarrow> log_extends pid rv db db2"
  by (auto simp: log_extends_def plan_exists_def)

lemma recovery_insert_replay:
  assumes insert: "recovery_insert E now pid rv e i a b key (db, n, prev, states) = Inr (db', n', prev', states')"
    and replay: "replay_log E plan (plan_log db pid rv) = Inr (n, prev, ps, steps)"
    and apply_ok: "\<And>t. tr_entity t = e \<Longrightarrow> tr_entity_id t = i \<Longrightarrow> tr_from_state t = a \<Longrightarrow> tr_to_state t = b
      \<Longrightarrow> apply_transition_state (ps, steps) t = Inr (ps', steps')"
  shows "replay_log E plan (plan_log db' pid rv) = Inr (n', prev', ps', steps')"
    and "log_extends pid rv db db'"
proof -
  define db0 where "db0 = snd (fresh_uuid db)"
  obtain t where t: "transition_new E (fst (fresh_uuid db)) pid rv n e i a b key prev now = Inr t"
    and tx: "insert_transition_tx E t db0 = Inr db'"
    and out: "n' = n + 1" "prev' = Some (tr_event_hash t)" "states' = states"
    using insert by (auto simp: recovery_insert_def fresh_uuid_def Let_def result_simps db0_def)
  note facts = transition_new_facts [OF t]
  have db': "db' = db0\<lparr>db_transitions := db_transitions db @ [t]\<rparr>"
    and ok: "verify_hash E t = Inr ()" and exists: "plan_exists db0 pid rv"
    using tx facts(1,2) by (auto simp: insert_transition_tx_def result_simps db0_def fresh_uuid_def)
  have "continues db t"
    using replay_position [OF replay] facts(1-3,8)
    by (simp add: continues_def last_transition_chain_end)
  moreover have "replay_log E plan (plan_log db (tr_plan_id t) (tr_revision t)) = Inr (n, prev, ps, steps)"
    using replay facts(1,2) by simp
  ultimately show "replay_log E plan (plan_log db' pid rv) = Inr (n', prev', ps', steps')"
    using replay_continue [OF _ _ ok apply_ok [OF facts(4-7)], of plan db n prev db0] facts(1,2)
    by (simp add: db' out)
  have "of_plan pid rv t" "plan_exists db pid rv"
    using facts(1,2) exists by (simp_all add: of_plan_def plan_exists_def db0_def fresh_uuid_def)
  then show "log_extends pid rv db db'"
    by (auto simp: log_extends_def db' db0_def fresh_uuid_def)
qed

definition to_unknown :: "(plan_step_id \<times> plan_step_state) list \<Rightarrow> step_states \<Rightarrow> step_states" where
  "to_unknown active m = fold (\<lambda>(i, _) m. bt_insert i StepUnknown m) active m"

lemma recovery_loop_replay:
  assumes "fold_result (recovery_step E now pid rv) active (db, n, prev, states) = Inr (db', n', prev', states')"
    and "replay_log E plan (plan_log db pid rv) = Inr (n, prev, ps, steps)"
    and "distinct (map fst active)"
    and "\<forall>(i, s) \<in> set active. map_of steps i = Some s \<and> step_valid_next s StepUnknown"
  shows "replay_log E plan (plan_log db' pid rv) = Inr (n', prev', ps, to_unknown active steps)
    \<and> log_extends pid rv db db'"
  using assms
proof (induction active arbitrary: db n prev states steps)
  case Nil
  then show ?case by (simp add: to_unknown_def log_extends_refl)
next
  case (Cons e active)
  obtain i s where e: "e = (i, s)" by (cases e)
  obtain loop where loop: "recovery_step E now pid rv (db, n, prev, states) (i, s) = Inr loop"
    and more: "fold_result (recovery_step E now pid rv) active loop = Inr (db', n', prev', states')"
    using Cons.prems(1) unfolding e by (auto simp only: fold_result.simps and_then_Inr_iff)
  obtain db1 n1 prev1 states1 where step: "recovery_insert E now pid rv EntityStep (Some i) (StepSt s)
      (StepSt StepUnknown) (''recovery:step:'' @ step_str i @ '':'' @ show_nat n) (db, n, prev, states)
      = Inr (db1, n1, prev1, states1)"
    and rest: "fold_result (recovery_step E now pid rv) active (db1, n1, prev1, bt_insert i StepUnknown states1)
      = Inr (db', n', prev', states')"
    using loop more by (auto simp: result_simps recovery_step_def simp del: fold_result.simps)
  have known: "map_of steps i = Some s" "step_valid_next s StepUnknown"
    using Cons.prems(4) by (auto simp: e)
  note one = recovery_insert_replay [OF step Cons.prems(2), of ps "bt_insert i StepUnknown steps"]
  have applied: "apply_transition_state (ps, steps) t = Inr (ps, bt_insert i StepUnknown steps)"
    if "tr_entity t = EntityStep" "tr_entity_id t = Some i" "tr_from_state t = StepSt s"
      "tr_to_state t = StepSt StepUnknown" for t
    using that known by (simp add: apply_transition_state_def step_validate_transition_def)
  have later: "\<forall>(j, u) \<in> set active. map_of (bt_insert i StepUnknown steps) j = Some u
      \<and> step_valid_next u StepUnknown"
    using Cons.prems(3,4) by (force simp: e)
  have fresh: "distinct (map fst active)"
    using Cons.prems(3) by simp
  have first: "log_extends pid rv db db1" by (rule one(2) [OF applied])
  have same: "to_unknown (e # active) steps = to_unknown active (bt_insert i StepUnknown steps)"
    by (simp add: to_unknown_def e)
  have "replay_log E plan (plan_log db' pid rv)
      = Inr (n', prev', ps, to_unknown active (bt_insert i StepUnknown steps)) \<and> log_extends pid rv db1 db'"
    by (rule Cons.IH [OF rest one(1) [OF applied] fresh later])
  then show ?case
    unfolding same using log_extends_trans [OF first] by blast
qed

lemma append_recovery_replay:
  assumes tx: "append_recovery_transitions_tx E now pid rv s active db = Inr (states, db')"
    and replay: "replay_log E plan (plan_log db pid rv) = Inr (n, prev, s, steps)"
    and valid: "s = Unknown \<or> plan_valid_next s Unknown"
    and active: "distinct (map fst active)"
      "\<forall>(i, u) \<in> set active. map_of steps i = Some u \<and> step_valid_next u StepUnknown"
  shows "\<exists>n' prev'. replay_log E plan (plan_log db' pid rv) = Inr (n', prev', Unknown, to_unknown active steps)"
    and "log_extends pid rv db db'"
proof -
  have start: "chain_next (last_transition_tx db pid rv) = n" "map_option snd (last_transition_tx db pid rv) = prev"
    using replay_position [OF replay] by (simp_all add: last_transition_chain_end)
  obtain db1 n1 prev1 states1 n' prev' where
    first: "(if s \<noteq> Unknown then
        recovery_insert E now pid rv EntityPlan None (PlanSt s) (PlanSt Unknown)
          (''recovery:plan:'' @ show_nat n) (db, n, prev, [])
      else Inr (db, n, prev, [])) = Inr (db1, n1, prev1, states1)"
    and rest: "fold_result (recovery_step E now pid rv) active (db1, n1, prev1, states1)
      = Inr (db', n', prev', states)"
    using tx unfolding append_recovery_transitions_tx_def Let_def start
    by (auto simp: and_then_Inr_iff simp del: fold_result.simps)
  have "replay_log E plan (plan_log db1 pid rv) = Inr (n1, prev1, Unknown, steps) \<and> log_extends pid rv db db1"
  proof (cases "s = Unknown")
    case True
    with first replay show ?thesis by (simp add: log_extends_refl)
  next
    case False
    with first have insert: "recovery_insert E now pid rv EntityPlan None (PlanSt s) (PlanSt Unknown)
        (''recovery:plan:'' @ show_nat n) (db, n, prev, []) = Inr (db1, n1, prev1, states1)"
      by simp
    have "apply_transition_state (s, steps) t = Inr (Unknown, steps)"
      if "tr_entity t = EntityPlan" "tr_from_state t = PlanSt s" "tr_to_state t = PlanSt Unknown" for t
      using that False valid by (simp add: apply_transition_state_def plan_validate_transition_def)
    with recovery_insert_replay [OF insert replay] show ?thesis by blast
  qed
  with recovery_loop_replay [OF rest _ active]
  show "\<exists>n' prev'. replay_log E plan (plan_log db' pid rv) = Inr (n', prev', Unknown, to_unknown active steps)"
    "log_extends pid rv db db'"
    by (blast intro: log_extends_trans)+
qed

subsection \<open>The active steps\<close>

lemma active_text_state: "active_text (step_state_str s) \<longleftrightarrow> active_state s"
  by (cases s) (simp_all add: active_text_def active_state_def)

lemma active_to_unknown: "active_state s \<Longrightarrow> step_valid_next s StepUnknown"
  by (auto simp: active_state_def step_valid_next_def)

lemma to_unknown_map:
  "map_of (to_unknown active m) i = (if i \<in> fst ` set active then Some StepUnknown else map_of m i)"
  by (induction active arbitrary: m) (auto simp: to_unknown_def)

lemma to_unknown_ok: "btree_ok m \<Longrightarrow> btree_ok (to_unknown active m)"
  by (induction active arbitrary: m) (auto simp: to_unknown_def intro: btree_ok_insert)

lemma active_steps_tx_view:
  assumes inv: "distinct (map step_key (db_steps db))" and view: "steps_view (db_steps db) pid rv steps"
    and active: "active_steps_tx pid rv db = Inr active"
  shows "distinct (map fst active)"
    and "(i, s) \<in> set active \<longleftrightarrow> map_of steps i = Some s \<and> active_state s"
proof -
  define rows where "rows = filter (\<lambda>r. active_text (sr_state r)) (plan_steps_of db pid rv)"
  have es: "list_all2 (\<lambda>r e. step_entry r = Inr e) rows active"
    using active by (simp add: active_steps_tx_def rows_def collect_results_list_all2)
  have "map fst active = map (\<lambda>r. PlanStepId (sr_step_id r)) rows"
    using es by (induction rule: list_all2_induct) (auto simp: step_entry_iff)
  moreover have "distinct (map sr_step_id rows)"
    using distinct_plan_steps [OF inv, of pid rv] by (simp add: rows_def distinct_map_filter)
  ultimately show "distinct (map fst active)"
    by (simp add: distinct_map inj_on_def)
  have "e \<in> set active \<longleftrightarrow> (\<exists>r \<in> set rows. step_entry r = Inr e)" for e
    using es by (induction rule: list_all2_induct) auto
  then show "(i, s) \<in> set active \<longleftrightarrow> map_of steps i = Some s \<and> active_state s"
    using view unfolding steps_view_def
    by (auto simp: rows_def plan_steps_of_def step_of_def step_entry_iff active_text_state)
qed

lemma mark_active_view:
  assumes view: "steps_view (db_steps db) pid rv steps"
    and active: "\<And>i s. (i, s) \<in> set active \<longleftrightarrow> map_of steps i = Some s \<and> active_state s"
  shows "steps_view (db_steps (mark_active_steps pid rv db)) pid rv (to_unknown active steps)"
proof -
  have keys: "i \<in> fst ` set active \<longleftrightarrow> (\<exists>s. map_of steps i = Some s \<and> active_state s)" for i
    using active by (force simp: image_iff)
  have ok: "btree_ok (to_unknown active steps)"
    using view by (simp add: steps_view_def to_unknown_ok)
  have map: "map_of (to_unknown active steps) i
      = map_option (\<lambda>s. if active_state s then StepUnknown else s) (map_of steps i)" for i
    using keys [of i] by (cases "map_of steps i") (auto simp: to_unknown_map)
  show ?thesis
    unfolding mark_active_steps_def update_where_def
    by (simp, rule steps_view_map [OF view ok _ _ map])
      (auto simp: step_of_def step_entry_iff active_text_state)
qed

subsection \<open>A recovery keeps the invariant\<close>

lemma insert_checkpoint_row_frame:
  assumes "insert_checkpoint_row r db = Inr db'"
  shows "db_plans db' = db_plans db" "db_steps db' = db_steps db" "db_transitions db' = db_transitions db"
  using assms by (auto simp: insert_checkpoint_row_def result_simps)

lemma recovery_checkpoint_frame:
  assumes "recovery_checkpoint pid rv digest now db = Inr db'"
  shows "db_plans db' = db_plans db" "db_steps db' = db_steps db" "db_transitions db' = db_transitions db"
  using insert_checkpoint_row_frame assms unfolding recovery_checkpoint_def by blast+

lemma recovery_checkpoint_ok:
  assumes "checkpoints_ok db" "recovery_checkpoint pid rv digest now db = Inr db'"
  shows "checkpoints_ok db'"
proof (rule insert_checkpoint_row_ok [OF assms(1) assms(2) [unfolded recovery_checkpoint_def]])
  show "\<exists>c. checkpoint_of_row \<lparr>cp_plan_id = pid, cp_revision = rv,
      cp_sequence = next_checkpoint_sequence_tx db pid rv, cp_step_id = None, cp_phase = ''recovery'',
      cp_status = ''unknown'', cp_state_digest = digest, cp_created_at = now\<rparr> = Inr c"
    by (simp add: checkpoint_of_row_def conversion_def parse_phase_def parse_checkpoint_status_def)
qed simp

lemma checkpoints_ok_frame: "db_checkpoints db' = db_checkpoints db \<Longrightarrow> checkpoints_ok db' = checkpoints_ok db"
  by (simp add: checkpoints_ok_def plan_checkpoints_of_def)

text \<open>The state of a plan as the tables have it.\<close>

definition holds_state :: "db \<Rightarrow> plan_id \<Rightarrow> u32 \<Rightarrow> plan_state \<Rightarrow> step_states \<Rightarrow> bool" where
  "holds_state db pid rv ps steps \<longleftrightarrow>
     (\<exists>r \<in> set (db_plans db). plan_key r = (pid, rv) \<and> pl_state r = plan_state_str ps)
     \<and> steps_view (db_steps db) pid rv steps"

lemma recover_commit_inv:
  assumes inv: "store_inv E db" "checkpoints_ok db"
    and row: "row \<in> set (db_plans db)" "same_plan pid rv tenant row" "pl_state row = plan_state_str s"
    and view: "steps_view (db_steps db) pid rv steps"
    and valid: "s = Unknown \<or> plan_valid_next s Unknown"
    and commit: "recover_commit E now tenant pid rv s active digest db = Inr (states, db')"
  shows "store_inv E db'" "checkpoints_ok db'" "holds_state db' pid rv Unknown (to_unknown active steps)"
    "(i, u) \<in> set active \<longleftrightarrow> map_of steps i = Some u \<and> active_state u"
proof -
  obtain db1 where act: "active_steps_tx pid rv db = Inr active"
    and append: "append_recovery_transitions_tx E now pid rv s active db = Inr (states, db1)"
    and checkpoint: "recovery_checkpoint pid rv (Some digest) now
      (mark_active_steps pid rv (update_plan_state now pid rv tenant ''unknown'' db1)) = Inr db'"
    using commit by (auto simp: recover_commit_def result_simps Let_def split: if_splits)
  note key = same_plan_key [OF row(2)]
  note active = active_steps_tx_view [OF store_invD(2) [OF inv(1)] view act]
  show "(i, u) \<in> set active \<longleftrightarrow> map_of steps i = Some u \<and> active_state u" by (rule active(2))
  obtain n prev where replay: "replay_log E (pl_plan_json row) (plan_log db pid rv) = Inr (n, prev, s, steps)"
  proof -
    obtain n prev m where "replay_log E (pl_plan_json row) (plan_log db pid rv) = Inr (n, prev, s, m)"
      "steps_view (db_steps db) pid rv m"
      using store_invD(4) [OF inv(1) row(1)] row(3) key by (auto simp: row_consistent_def plan_key_def)
    then show ?thesis using that steps_view_unique [OF view] by blast
  qed
  have "\<forall>(i, u) \<in> set active. map_of steps i = Some u \<and> step_valid_next u StepUnknown"
    using active(2) active_to_unknown by blast
  note recovered = append_recovery_replay [OF append replay valid active(1) this]
  note frame = recovery_checkpoint_frame [OF checkpoint]
  let ?f = "\<lambda>r. if same_plan pid rv tenant r then r\<lparr>pl_state := ''unknown'', pl_updated_at := now\<rparr> else r"
  have plans: "db_plans db' = map ?f (db_plans db)"
    using recovered(2) by (simp add: frame(1) mark_active_steps_def update_plan_state_def update_where_def
        log_extends_def)
  have steps': "db_steps db' = db_steps (mark_active_steps pid rv db)"
    using recovered(2) by (simp add: frame(2) mark_active_steps_def update_plan_state_def log_extends_def)
  have view': "steps_view (db_steps db') pid rv (to_unknown active steps)"
    unfolding steps' by (rule mark_active_view [OF view active(2)])
  obtain ts where ts: "db_transitions db' = db_transitions db @ ts" "\<forall>t \<in> set ts. of_plan pid rv t"
    using recovered(2) by (auto simp: frame(3) mark_active_steps_def update_plan_state_def log_extends_def)
  have log: "plan_log db' pid rv = plan_log db1 pid rv"
    by (simp add: plan_log_def frame(3) mark_active_steps_def update_plan_state_def)
  obtain n' prev' where
    replay': "replay_log E (pl_plan_json row) (plan_log db' pid rv) = Inr (n', prev', Unknown, to_unknown active steps)"
    using recovered(1) log by auto
  show "store_inv E db'"
  proof (rule store_inv_update [OF inv(1) row(1) key plans _ _ _ _ _ ts _ view'])
    show "map step_key (db_steps db') = map step_key (db_steps db)"
      unfolding steps' by (simp add: mark_active_steps_def map_update_where_same step_key_def)
    show "filter (step_of p v) (db_steps db') = filter (step_of p v) (db_steps db)" if "(p, v) \<noteq> (pid, rv)" for p v
      unfolding steps' using that
      by (auto simp: mark_active_steps_def step_of_def intro!: filter_update_where_other)
    show "replay_log E (pl_plan_json (?f row)) (plan_log db' pid rv)
        = Inr (n', prev', Unknown, to_unknown active steps)" using replay' by simp
  qed (use row(2) in \<open>auto simp: plan_key_def snapshot_ok_def same_plan_def\<close>)
  have same: "db_checkpoints (mark_active_steps pid rv (update_plan_state now pid rv tenant ''unknown'' db1))
      = db_checkpoints db"
    using recovered(2) by (simp add: mark_active_steps_def update_plan_state_def log_extends_def)
  show "checkpoints_ok db'"
    using checkpoints_ok_frame [OF same] inv(2) recovery_checkpoint_ok [OF _ checkpoint] by blast
  have "?f row \<in> set (db_plans db')" using row(1) unfolding plans set_map by (rule imageI)
  moreover have "plan_key (?f row) = (pid, rv) \<and> pl_state (?f row) = plan_state_str Unknown"
    using row(2) key by (simp add: plan_key_def)
  ultimately show "holds_state db' pid rv Unknown (to_unknown active steps)"
    using view' by (auto simp only: holds_state_def)
qed

text \<open>No plan or step of it is at a boundary whose outcome is unknown.\<close>

definition settled :: "db \<Rightarrow> plan_id \<Rightarrow> u32 \<Rightarrow> bool" where
  "settled db pid rv \<longleftrightarrow>
     (\<exists>ps steps. holds_state db pid rv ps steps \<and> \<not> active_plan ps
        \<and> (\<forall>i s. map_of steps i = Some s \<longrightarrow> \<not> active_state s))"

text \<open>An active step belongs to an active plan.\<close>

definition boundary_of_active_plan :: "db \<Rightarrow> plan_id \<Rightarrow> u32 \<Rightarrow> bool" where
  "boundary_of_active_plan db pid rv \<longleftrightarrow>
     (\<forall>ps steps. holds_state db pid rv ps steps \<longrightarrow> \<not> active_plan ps \<longrightarrow>
        (\<forall>i s. map_of steps i = Some s \<longrightarrow> \<not> active_state s))"

lemma recover_unknown_inv:
  assumes inv: "store_inv E db" "checkpoints_ok db"
    and row: "row \<in> set (db_plans db)" "same_plan pid rv tenant row" "pl_state row = plan_state_str s"
    and view: "steps_view (db_steps db) pid rv steps" and active: "active_plan s"
    and run: "recover_unknown E now tenant pid rv s acts digest db = (db', result)"
  shows "store_inv E db' \<and> checkpoints_ok db' \<and> (db' = db \<and> (\<exists>e. result = Inl e) \<or> settled db' pid rv)"
proof -
  have "find (same_plan pid rv tenant) (db_plans db) = Some row"
    using find_plan_row [OF store_invD(1) [OF inv(1)] row(1)] row(2) by (simp add: same_plan_def)
  then have current: "and_then (select_plan_state db pid rv tenant) parse_plan_state = Inr s"
    by (simp add: select_plan_state_def row(3))
  have "s \<noteq> Unknown" "plan_valid_next s Unknown"
    using active by (auto simp: active_plan_def plan_valid_next_def)
  show ?thesis
  proof (cases "recover_commit E now tenant pid rv s acts digest db")
    case (Inl e)
    then show ?thesis using run current \<open>s \<noteq> Unknown\<close> inv by (auto simp: recover_unknown_def)
  next
    case (Inr out)
    obtain states db1 where out: "out = (states, db1)" by (cases out)
    note commit = recover_commit_inv [OF inv row view disjI2 [OF \<open>plan_valid_next s Unknown\<close>] Inr [unfolded out]]
    have "settled db1 pid rv"
      unfolding settled_def
    proof (intro exI conjI allI impI)
      show "holds_state db1 pid rv Unknown (to_unknown acts steps)" by (rule commit(3))
      show "\<not> active_plan Unknown" by (simp add: active_plan_def)
      show "\<not> active_state u" if "map_of (to_unknown acts steps) i = Some u" for i u
        using that commit(4) [of i u] by (force simp: to_unknown_map active_state_def split: if_splits)
    qed
    then show ?thesis
      using run current \<open>s \<noteq> Unknown\<close> Inr commit(1,2) by (auto simp: recover_unknown_def out)
  qed
qed

lemma resume_consistent:
  assumes inv: "store_inv E db" "checkpoints_ok db" and row: "latest_plan_row db pid tenant = Some row"
    and quiet: "boundary_of_active_plan db pid (pl_revision row)"
    and run: "resume_plan E now tenant pid db = (db', result)"
  shows "store_inv E db' \<and> checkpoints_ok db'
    \<and> (db' = db \<and> (\<exists>e. result = Inl e) \<or> settled db' pid (pl_revision row))"
proof -
  note r = latest_plan_row_facts [OF row]
  let ?rv = "pl_revision row"
  obtain s where load: "load_plan E pid tenant db
      = Inr \<lparr>pp_plan = (pl_plan_json row)\<lparr>ps_state := s\<rparr>, pp_updated_at = pl_updated_at row\<rparr>"
    using load_plan_ok [OF inv(1) row] by blast
  have rv: "ps_revision (pl_plan_json row) = ?rv"
    using store_invD(3) [OF inv(1) r(1)] by (simp add: snapshot_ok_def Let_def)
  obtain cs ps steps where rows: "load_reducer_rows pid ?rv tenant db = Inr (plan_log db pid ?rv, cs, ps, steps)"
    and ok: "check_checkpoint_sequence cs" and state: "pl_state row = plan_state_str ps"
    and replay: "\<exists>n prev. replay_log E (pl_plan_json row) (plan_log db pid ?rv) = Inr (n, prev, ps, steps)"
    using load_reducer_rows_ok [OF inv r(1)] r(2,3) by metis
  have view: "steps_view (db_steps db) pid ?rv steps"
    using store_invD(4) [OF inv(1) r(1)] replay r(2) by (auto simp: row_consistent_def)
  have holds: "holds_state db pid ?rv ps steps"
    using r(1,2) state view by (auto simp: holds_state_def plan_key_def)
  have consistent: "resume_inconsistency E ((pl_plan_json row)\<lparr>ps_state := s\<rparr>) (plan_log db pid ?rv) cs ps steps = None"
    using replay ok by (auto simp: resume_inconsistency_def)
  let ?acts = "filter (\<lambda>(_, state). active_state state) steps"
  show ?thesis
  proof (cases "active_plan ps")
    case True
    obtain db1 res where ru: "recover_unknown E now tenant pid ?rv ps ?acts (ps_digest (pl_plan_json row)) db
        = (db1, res)"
      by (cases "recover_unknown E now tenant pid ?rv ps ?acts (ps_digest (pl_plan_json row)) db")
    then have "db' = db1" "(\<exists>e. result = Inl e) \<longleftrightarrow> (\<exists>e. res = Inl e)"
      using run True
      by (auto simp: resume_plan_def load rows rv resume_loaded_def consistent Let_def result_simps)
    moreover have "same_plan pid ?rv tenant row"
      using r(2,3) by (simp add: same_plan_def)
    ultimately show ?thesis
      using recover_unknown_inv [OF inv r(1) _ state view True ru] by simp
  next
    case False
    then have no_active: "\<forall>i s. map_of steps i = Some s \<longrightarrow> \<not> active_state s"
      using quiet holds by (auto simp: boundary_of_active_plan_def)
    moreover have "distinct (map fst steps)"
      using view by (simp add: steps_view_def btree_ok_distinct)
    ultimately have "?acts = []"
      by (auto simp: filter_empty_conv map_of_eq_Some_iff)
    then have "db' = db"
      using run False by (auto simp: resume_plan_def load rows rv resume_loaded_def consistent Let_def)
    then show ?thesis
      using inv holds False no_active by (auto simp: settled_def)
  qed
qed

end
