(* ===== verification/Plan_Approvals.thy ===== *)
theory Plan_Approvals
  imports Plan_Recovery_Inv
begin

text \<open>
  \<^verbatim>\<open>crates/shaka-queue/src/plan_store.rs\<close>: human approvals and the resolution of an \<open>unknown\<close>
  plan. Both are decisions of a principal, keyed so that a repeated request does not act twice.
\<close>

subsection \<open>Approvals\<close>

definition insert_approval_row :: "approval_row \<Rightarrow> db \<Rightarrow> queue_error + db" where
  "insert_approval_row r db =
     and_then (constraint (plan_exists db (ar_plan_id r) (ar_revision r)
       \<and> \<not> list_ex (\<lambda>a. ar_approval_id a = ar_approval_id r
            \<or> ar_plan_id a = ar_plan_id r \<and> ar_revision a = ar_revision r
              \<and> ar_idempotency_key a \<noteq> None \<and> ar_idempotency_key a = ar_idempotency_key r)
            (db_approvals db))) (\<lambda>_.
     Inr (db\<lparr>db_approvals := db_approvals db @ [r]\<rparr>))"

definition approval_row_of :: "instant \<Rightarrow> string \<Rightarrow> plan_approval \<Rightarrow> approval_row" where
  "approval_row_of now key a =
     \<lparr>ar_approval_id = ap_id a, ar_plan_id = ap_plan_id a, ar_revision = ap_revision a,
      ar_tenant = ap_tenant a, ar_step_id = map_option step_str (ap_step_id a),
      ar_approval_json = a, ar_revoked = ap_revoked a, ar_expires_at = ap_expires_at a,
      ar_created_at = now, ar_idempotency_key = Some key\<rparr>"

definition save_plan_approval ::
    "env \<Rightarrow> instant \<Rightarrow> tenant_id \<Rightarrow> plan_approval \<Rightarrow> db \<Rightarrow> queue_error + db" where
  "save_plan_approval E now tenant a db =
     and_then (load_plan E (ap_plan_id a) tenant db) (\<lambda>persisted.
     if ap_revision a \<noteq> ps_revision (pp_plan persisted) \<or> ap_tenant a \<noteq> tenant then Inl Forbidden
     else
       and_then (core (validate_for a (pp_plan persisted) (ap_step_id a) now)) (\<lambda>_.
       insert_approval_row (approval_row_of now (''legacy:'' @ uuid_text E (ap_id a)) a) db))"

definition same_approval_intent :: "plan_approval \<Rightarrow> plan_approval \<Rightarrow> bool" where
  "same_approval_intent l r \<longleftrightarrow>
     ap_id l = ap_id r \<and> ap_plan_id l = ap_plan_id r \<and> ap_plan_digest l = ap_plan_digest r
     \<and> ap_revision l = ap_revision r \<and> ap_tenant l = ap_tenant r \<and> ap_approver l = ap_approver r
     \<and> ap_approver_role l = ap_approver_role r \<and> ap_step_id l = ap_step_id r
     \<and> ap_required l = ap_required r \<and> ap_decision l = ap_decision r \<and> ap_revoked l = ap_revoked r"

definition validate_approval_shape ::
    "plan_spec \<Rightarrow> principal \<Rightarrow> plan_approval \<Rightarrow> instant \<Rightarrow> queue_error + unit" where
  "validate_approval_shape plan who a now =
     (if ap_plan_id a \<noteq> ps_plan_id plan \<or> ap_revision a \<noteq> ps_revision plan
         \<or> ap_plan_digest a \<noteq> ps_digest plan \<or> ap_tenant a \<noteq> ps_tenant plan
         \<or> ap_tenant a \<noteq> pr_tenant who \<or> ap_approver a \<noteq> pr_operator who
         \<or> ap_approver_role a \<noteq> pr_role who \<or> ap_revoked a \<or> ap_expires_at a \<le> now
      then Inl Forbidden
      else
        and_then (case ap_step_id a of
            None \<Rightarrow> Inr ()
          | Some i \<Rightarrow>
              ensure (list_ex (\<lambda>s. st_id s = i) (ps_steps plan)) (NotFound (''step '' @ step_str i)))
          (\<lambda>_.
        let required_for_scope =
          (case Option.bind (ap_step_id a) (find_step plan) of
             None \<Rightarrow> required_approval plan
           | Some s \<Rightarrow> step_required_approval s)
        in if ap_required a < required_for_scope \<or> \<not> allows_role (ap_required a) (ap_approver_role a)
           then Inl Forbidden
           else if ap_decision a = DecisionApproved then
             core (validate_for a plan (ap_step_id a) now)
           else Inr ()))"

text \<open>The effect of an accepted approval on the plan.\<close>

definition approve_transitions ::
    "env \<Rightarrow> instant \<Rightarrow> principal \<Rightarrow> plan_spec \<Rightarrow> plan_approval \<Rightarrow> db \<Rightarrow> queue_error + db" where
  "approve_transitions E now who plan a db =
     (let tenant = pr_tenant who; u = uuid_text E (ap_id a); state = ps_state plan in
      and_then (if state = Draft then
          and_then (append_plan_transition_tx E tenant plan Draft Proposed
            (''approval:proposed:'' @ u) now db) (\<lambda>db. Inr (Proposed, db))
        else Inr (state, db)) (\<lambda>(state, db).
      and_then (if state = Proposed then
          and_then (append_plan_transition_tx E tenant plan Proposed Validated
            (''approval:validated:'' @ u) now db) (\<lambda>db. Inr (Validated, db))
        else Inr (state, db)) (\<lambda>(state, db).
      if state \<notin> {Validated, AwaitingApproval} then
        Inl (QInvalidInput ''plano nao esta aguardando aprovacao'')
      else
        append_plan_transition_tx E tenant plan state Approved (''approval:approved:'' @ u) now db)))"

definition reject_transitions ::
    "env \<Rightarrow> instant \<Rightarrow> principal \<Rightarrow> plan_spec \<Rightarrow> plan_approval \<Rightarrow> db \<Rightarrow> queue_error + db" where
  "reject_transitions E now who plan a db =
     (if ps_state plan \<notin> {Draft, Proposed, Validated, AwaitingApproval} then
        Inl (QInvalidInput ''plano nao pode mais ser rejeitado'')
      else
        append_plan_transition_tx E (pr_tenant who) plan (ps_state plan) Rejected
          (''approval:rejected:'' @ uuid_text E (ap_id a)) now db)"

definition decide_approval ::
    "env \<Rightarrow> instant \<Rightarrow> principal \<Rightarrow> plan_spec \<Rightarrow> plan_approval \<Rightarrow> db \<Rightarrow>
     queue_error + (approval_outcome \<times> db)" where
  "decide_approval E now who plan a db =
     (case ap_decision a of
        DecisionApproved \<Rightarrow>
          if ap_step_id a \<noteq> None then Inr (OutcomeApproved, db)
          else and_then (approve_transitions E now who plan a db)
                 (\<lambda>db. Inr (OutcomeApproved, db))
      | DecisionRejected \<Rightarrow>
          and_then (reject_transitions E now who plan a db) (\<lambda>db. Inr (OutcomeRejected, db)))"

text \<open>The part of \<open>approve_plan\<close> for a key that has not been used.\<close>

definition approve_fresh ::
    "env \<Rightarrow> instant \<Rightarrow> principal \<Rightarrow> plan_spec \<Rightarrow> plan_approval \<Rightarrow> string \<Rightarrow> db \<Rightarrow>
     queue_error + (approval_outcome \<times> db)" where
  "approve_fresh E now who plan a idempotency_key db =
     and_then (insert_approval_row (approval_row_of now idempotency_key a) db) (\<lambda>db.
     and_then (decide_approval E now who plan a db) (\<lambda>(outcome, db).
     and_then (insert_checkpoint_tx (ps_plan_id plan) (ps_revision plan) (ap_step_id a) PhaseApproval
       (if outcome = OutcomeApproved then CheckpointSucceeded else CheckpointFailed) None now db) (\<lambda>db.
     Inr (outcome, db))))"

definition approve_plan ::
    "env \<Rightarrow> instant \<Rightarrow> principal \<Rightarrow> plan_approval \<Rightarrow> string \<Rightarrow> db \<Rightarrow>
     queue_error + (approval_outcome \<times> db)" where
  "approve_plan E now who a idempotency_key db =
     (if \<not> allows who ApprovePlan \<or> pr_operator who \<noteq> ap_approver a
         \<or> pr_role who \<noteq> ap_approver_role a then Inl Forbidden
      else
        and_then (validate_key idempotency_key ''approval_idempotency_key'' 256) (\<lambda>_.
        and_then (plan_task_reference_new (ap_plan_id a) (ap_revision a) (ap_plan_digest a)) (\<lambda>reference.
        and_then (load_plan_tx E (pr_tenant who) reference db) (\<lambda>plan.
        and_then (validate_approval_shape plan who a now) (\<lambda>_.
        case find (\<lambda>r. ar_plan_id r = ap_plan_id a \<and> ar_revision r = ap_revision a
               \<and> ar_idempotency_key r = Some idempotency_key) (db_approvals db) of
          Some r \<Rightarrow>
            if same_approval_intent (ar_approval_json r) a then Inr (ApprovalExisting, db)
            else Inl IdempotencyConflict
        | None \<Rightarrow> approve_fresh E now who plan a idempotency_key db)))))"

subsection \<open>Resolution of an unknown plan\<close>

text \<open>\<open>changed != 1\<close> is an error: the plan must have its task.\<close>

definition update_task_for_resolution ::
    "instant \<Rightarrow> plan_spec \<Rightarrow> task_status \<Rightarrow> bool \<Rightarrow> string option \<Rightarrow> db \<Rightarrow> queue_error + db" where
  "update_task_for_resolution now plan status cancel_requested last_error db =
     (let P = (\<lambda>r. tk_task_id r = ps_task_id plan \<and> tk_tenant r = ps_tenant plan
            \<and> tk_plan_id r = Some (ps_plan_id plan) \<and> tk_plan_revision r = Some (ps_revision plan))
      in if count_where P (db_tasks db) \<noteq> 1 then
           Inl (NotFound ''task planejada nao encontrada'')
         else
           Inr (db\<lparr>db_tasks := update_where P
             (\<lambda>r. r\<lparr>tk_status := task_status_as_str status, tk_cancel_requested := cancel_requested,
               tk_lease_until := None, tk_lease_token := None, tk_plan_step_id := None,
               tk_last_error := last_error, tk_updated_at := now,
               tk_completed_at := (if cancel_requested then Some now else None)\<rparr>) (db_tasks db)\<rparr>))"

definition resolve_resume ::
    "env \<Rightarrow> instant \<Rightarrow> principal \<Rightarrow> plan_spec \<Rightarrow> string \<Rightarrow> db \<Rightarrow> queue_error + db" where
  "resolve_resume E now who plan key db =
     and_then (load_step_states_tx db (ps_plan_id plan) (ps_revision plan)) (\<lambda>states.
     and_then (fold_result (\<lambda>db (i, state).
         append_step_transition_tx E plan i state StepReady (key @ '':step:'' @ step_str i) now db)
       (filter (\<lambda>(_, state). state = StepUnknown) states) db) (\<lambda>db.
     and_then (append_plan_transition_tx E (pr_tenant who) plan Unknown Running key now db) (\<lambda>db.
     update_task_for_resolution now plan Queued False None db)))"

text \<open>The steps to compensate, with their compensation and state, in the order of the plan.\<close>

definition compensation_sources ::
    "plan_spec \<Rightarrow> step_states \<Rightarrow> (plan_step_id \<times> plan_step_id \<times> plan_step_state) list" where
  "compensation_sources plan states =
     List.map_filter (\<lambda>s.
       case (st_compensation s, map_of states (st_id s)) of
         (Some c, Some state) \<Rightarrow>
           if state \<in> {StepSucceeded, StepFailed, StepUnknown, StepCompensating}
           then Some (st_id s, c, state) else None
       | _ \<Rightarrow> None) (ps_steps plan)"

definition compensate_source ::
    "env \<Rightarrow> instant \<Rightarrow> plan_spec \<Rightarrow> string \<Rightarrow> db \<Rightarrow> plan_step_id \<times> plan_step_id \<times> plan_step_state \<Rightarrow>
     queue_error + db" where
  "compensate_source E now plan key db source =
     (case source of (i, _, state) \<Rightarrow>
        if state \<noteq> StepCompensating then
          append_step_transition_tx E plan i state StepCompensating
            (key @ '':source:'' @ step_str i) now db
        else Inr db)"

definition ready_target ::
    "env \<Rightarrow> instant \<Rightarrow> plan_spec \<Rightarrow> string \<Rightarrow> step_states \<Rightarrow> db \<Rightarrow> plan_step_id \<Rightarrow> queue_error + db" where
  "ready_target E now plan key states db i =
     (case map_of states i of
        Some state \<Rightarrow>
          if state \<in> {StepUnknown, StepFailed} then
            append_step_transition_tx E plan i state StepReady (key @ '':target:'' @ step_str i) now db
          else Inr db
      | None \<Rightarrow> Inr db)"

definition resolve_compensate ::
    "env \<Rightarrow> instant \<Rightarrow> principal \<Rightarrow> plan_spec \<Rightarrow> string \<Rightarrow> db \<Rightarrow> queue_error + db" where
  "resolve_compensate E now who plan key db =
     and_then (load_step_states_tx db (ps_plan_id plan) (ps_revision plan)) (\<lambda>states.
     let sources = compensation_sources plan states in
     if sources = [] then
       Inl (QInvalidInput ''plano nao possui compensacao declarada elegivel'')
     else
       and_then (fold_result (compensate_source E now plan key) sources db) (\<lambda>db.
       and_then (load_step_states_tx db (ps_plan_id plan) (ps_revision plan)) (\<lambda>states.
       and_then (fold_result (ready_target E now plan key states)
         (sorted_list_of_set (set (map (\<lambda>(_, c, _). c) sources))) db) (\<lambda>db.
       and_then (append_plan_transition_tx E (pr_tenant who) plan Unknown Compensating key now db) (\<lambda>db.
       update_task_for_resolution now plan Queued False None db)))))"

definition resolve_cancel ::
    "env \<Rightarrow> instant \<Rightarrow> principal \<Rightarrow> plan_spec \<Rightarrow> string \<Rightarrow> db \<Rightarrow> queue_error + db" where
  "resolve_cancel E now who plan key db =
     and_then (load_step_states_tx db (ps_plan_id plan) (ps_revision plan)) (\<lambda>states.
     if list_ex (\<lambda>(_, state).
          state \<in> {StepRunning, StepCancelRequested, StepCompensating, StepUnknown}) states then
       Inl (QInvalidInput ''cancelamento bloqueado enquanto houver fronteira ativa ou unknown'')
     else
       and_then (fold_result (\<lambda>db (i, state).
           append_step_transition_tx E plan i state StepCancelled (key @ '':step:'' @ step_str i) now db)
         (filter (\<lambda>(_, state). state = StepUnknown) states) db) (\<lambda>db.
       and_then (append_plan_transition_tx E (pr_tenant who) plan Unknown Cancelled key now db) (\<lambda>db.
       update_task_for_resolution now plan TaskIsCancelled True
         (Some ''plano unknown cancelado por operador'') db)))"

fun resolution_target :: "resolution_decision \<Rightarrow> plan_state" where
  "resolution_target Resume = Running"
| "resolution_target Compensate = Compensating"
| "resolution_target Cancel = Cancelled"

fun resolution_outcome_of :: "resolution_decision \<Rightarrow> resolution_outcome" where
  "resolution_outcome_of Resume = Resumed"
| "resolution_outcome_of Compensate = OutcomeCompensating"
| "resolution_outcome_of Cancel = OutcomeCancelled"

definition resolve_decision ::
    "env \<Rightarrow> instant \<Rightarrow> principal \<Rightarrow> plan_spec \<Rightarrow> resolution_decision \<Rightarrow> string \<Rightarrow> db \<Rightarrow> queue_error + db"
  where
  "resolve_decision E now who plan decision key db =
     (case decision of
        Resume \<Rightarrow> resolve_resume E now who plan key db
      | Compensate \<Rightarrow> resolve_compensate E now who plan key db
      | Cancel \<Rightarrow> resolve_cancel E now who plan key db)"

text \<open>The transaction of \<open>resolve_plan_unknown\<close>.\<close>

definition resolve_tx ::
    "env \<Rightarrow> instant \<Rightarrow> principal \<Rightarrow> plan_spec \<Rightarrow> resolution_decision \<Rightarrow> string \<Rightarrow> string option \<Rightarrow> db \<Rightarrow>
     queue_error + (resolution_outcome \<times> db)" where
  "resolve_tx E now who plan decision key evidence_digest db =
     (case find (\<lambda>t. of_plan (ps_plan_id plan) (ps_revision plan) t \<and> tr_idempotency_key t = key)
        (db_transitions db) of
        Some existing \<Rightarrow>
          if tr_to_state existing = PlanSt (resolution_target decision) then
            Inr (ResolutionExisting, db)
          else Inl IdempotencyConflict
      | None \<Rightarrow>
          and_then (select_plan_state db (ps_plan_id plan) (ps_revision plan) (pr_tenant who)) (\<lambda>text.
          and_then (parse_plan_state text) (\<lambda>current.
          if current \<noteq> Unknown then Inl (QInvalidInput ''resolucao exige plano em unknown'')
          else
            and_then (resolve_decision E now who plan decision key db) (\<lambda>db.
            and_then (insert_checkpoint_tx (ps_plan_id plan) (ps_revision plan) None PhaseResolution
              (if decision = Cancel then CheckpointFailed else CheckpointSucceeded)
              evidence_digest now db) (\<lambda>db.
            Inr (resolution_outcome_of decision, db))))))"

definition resolve_plan_unknown ::
    "env \<Rightarrow> instant \<Rightarrow> principal \<Rightarrow> plan_id \<Rightarrow> resolution_decision \<Rightarrow> string \<Rightarrow> string option \<Rightarrow> db \<Rightarrow>
     queue_error + (resolution_outcome \<times> db)" where
  "resolve_plan_unknown E now who pid decision key evidence_digest db =
     (if \<not> allows who ResolvePlanUnknown then Inl Forbidden
      else
        and_then (validate_key key ''resolution_idempotency_key'' 256) (\<lambda>_.
        and_then (case evidence_digest of
            None \<Rightarrow> Inr ()
          | Some digest \<Rightarrow> store_validate_sha256 digest ''resolution evidence digest'') (\<lambda>_.
        if decision = Resume \<and> evidence_digest = None then
          Inl (QInvalidInput ''retomada de unknown exige digest de evidencia'')
        else
          and_then (load_plan E pid (pr_tenant who) db) (\<lambda>persisted.
          let plan = pp_plan persisted in
          and_then (plan_task_reference_new (ps_plan_id plan) (ps_revision plan) (ps_digest plan)) (\<lambda>_.
          resolve_tx E now who plan decision key evidence_digest db)))))"

end
