(* ===== verification/Plan_Execution.thy ===== *)
theory Plan_Execution
  imports Plan_Approvals
begin

text \<open>
  \<^verbatim>\<open>crates/shaka-queue/src/plan_store.rs\<close>: a planned task through the queue. Admission verifies the
  plan, a claim selects and starts one step, the end of the step is checked and recorded, a
  compensation runs the declared steps, and a cancellation or an expired lease stops at the next
  boundary. Every function works inside the transaction of the queue that calls it.
\<close>

subsection \<open>Tasks\<close>

definition same_task :: "task_id \<Rightarrow> tenant_id \<Rightarrow> task_row \<Rightarrow> bool" where
  "same_task tid tenant r \<longleftrightarrow> tk_task_id r = tid \<and> tk_tenant r = tenant"

definition update_task :: "task_id \<Rightarrow> tenant_id \<Rightarrow> (task_row \<Rightarrow> task_row) \<Rightarrow> db \<Rightarrow> db" where
  "update_task tid tenant f db = db\<lparr>db_tasks := update_where (same_task tid tenant) f (db_tasks db)\<rparr>"

text \<open>The columns that end the lease of a step: \<open>lease_until\<close>, \<open>lease_token\<close>, \<open>plan_step_id\<close> set to
  \<open>NULL\<close> with the new status.\<close>

definition release_task :: "task_status \<Rightarrow> instant \<Rightarrow> task_row \<Rightarrow> task_row" where
  "release_task status now r =
     r\<lparr>tk_status := task_status_as_str status, tk_lease_until := None, tk_lease_token := None,
       tk_plan_step_id := None, tk_updated_at := now\<rparr>"

definition task_reference :: "task_record \<Rightarrow> queue_error + plan_task_reference" where
  "task_reference task =
     (case (ta_plan_id task, ta_plan_revision task, ta_plan_digest task) of
        (Some pid, Some revision, Some digest) \<Rightarrow> plan_task_reference_new pid revision digest
      | _ \<Rightarrow> Inl (QInvalidInput ''task planejada sem referencia completa''))"

subsection \<open>Admission\<close>

definition verify_plan_admission_tx ::
    "env \<Rightarrow> instant \<Rightarrow> principal \<Rightarrow> task_envelope \<Rightarrow> plan_task_reference \<Rightarrow> db \<Rightarrow>
     queue_error + plan_spec" where
  "verify_plan_admission_tx E now who envelope reference db =
     and_then (load_plan_tx E (pr_tenant who) reference db) (\<lambda>plan.
     if ps_task_id plan \<noteq> te_task_id envelope \<or> ps_operator plan \<noteq> pr_operator who then Inl Forbidden
     else if ps_mode plan \<noteq> DryRun then
       Inl (QInvalidInput ''execucao live planejada ainda nao possui executor tipado'')
     else if ps_state plan \<notin> {Draft, Proposed, Validated, AwaitingApproval, Approved} then
       Inl (QInvalidInput ''plano nao esta em estado admitivel'')
     else if \<not> is_executable (verify (sha_plan E) default_verifier plan
          ((new_context now Preflight)\<lparr>vc_approvals := load_approvals_tx db plan\<rparr>)) then
       Inl (QInvalidInput ''plano nao passou pela verificacao preflight'')
     else Inr plan)"

text \<open>The transitions that bring an admitted plan to \<open>Approved\<close>.\<close>

definition admission_transitions ::
    "env \<Rightarrow> instant \<Rightarrow> principal \<Rightarrow> plan_spec \<Rightarrow> db \<Rightarrow> queue_error + db" where
  "admission_transitions E now who plan db =
     (let tenant = pr_tenant who; state = ps_state plan in
      and_then (if state = Draft then
          and_then (append_plan_transition_tx E tenant plan Draft Proposed ''admission:proposed'' now db)
            (\<lambda>db. Inr (Proposed, db))
        else Inr (state, db)) (\<lambda>(state, db).
      and_then (if state = Proposed then
          and_then (append_plan_transition_tx E tenant plan Proposed Validated ''admission:validated'' now db)
            (\<lambda>db. Inr (Validated, db))
        else Inr (state, db)) (\<lambda>(state, db).
      if state = Validated \<or> state = AwaitingApproval then
        append_plan_transition_tx E tenant plan state Approved ''admission:approved'' now db
      else Inr db)))"

definition record_plan_admission_tx ::
    "env \<Rightarrow> instant \<Rightarrow> principal \<Rightarrow> task_envelope \<Rightarrow> plan_task_reference \<Rightarrow> db \<Rightarrow>
     queue_error + (uuid option \<times> db)" where
  "record_plan_admission_tx E now who envelope reference db =
     and_then (verify_plan_admission_tx E now who envelope reference db) (\<lambda>plan.
     let admission_approval_id =
       (if required_approval plan = NoApproval then None
        else map_option ap_id (find (\<lambda>a. ap_step_id a = None \<and> is_ok (validate_for a plan None now))
               (load_approvals_tx db plan)))
     in and_then (admission_transitions E now who plan db) (\<lambda>db.
        and_then (insert_checkpoint_tx (ps_plan_id plan) (ps_revision plan) None PhasePreflight
          CheckpointSucceeded (Some (ps_digest plan)) now db) (\<lambda>db.
        Inr (admission_approval_id, db))))"

subsection \<open>Claiming a step\<close>

definition succeeded_steps :: "step_states \<Rightarrow> plan_step_id set" where
  "succeeded_steps states = set (map fst (filter (\<lambda>(_, state). state = StepSucceeded) states))"

definition compensation_targets :: "plan_spec \<Rightarrow> step_states \<Rightarrow> plan_step_id set" where
  "compensation_targets plan states =
     (if ps_state plan = Compensating then
        set (List.map_filter st_compensation
          (filter (\<lambda>s. map_of states (st_id s) = Some StepCompensating) (ps_steps plan)))
      else {})"

definition claim_candidates :: "plan_spec \<Rightarrow> step_states \<Rightarrow> plan_step list" where
  "claim_candidates plan states =
     sort_key st_id (filter (\<lambda>s.
       map_of states (st_id s) \<in> {Some StepReady, Some StepPending}
       \<and> (ps_state plan \<noteq> Compensating \<or> st_id s \<in> compensation_targets plan states)) (ps_steps plan))"

definition claim_context_of ::
    "task_record \<Rightarrow> plan_claim_context \<Rightarrow> step_states \<Rightarrow> plan_approval list \<Rightarrow> instant \<Rightarrow> plan_step_id \<Rightarrow>
     verification_context" where
  "claim_context_of task cc states approvals now i =
     (for_step i (new_context now StepReadyPhase))
       \<lparr>vc_task_state := Some TaskRunning, vc_succeeded_steps := succeeded_steps states,
        vc_granted_capabilities := cc_granted_capabilities cc,
        vc_circuit_closed := cc_circuit_closed cc,
        vc_remaining_budget :=
          unwrap_or (cc_remaining_budget cc) (te_budget (ta_envelope task)),
        vc_state_digest := cc_state_digest cc, vc_approvals := approvals\<rparr>"

definition select_step ::
    "env \<Rightarrow> plan_spec \<Rightarrow> task_record \<Rightarrow> plan_claim_context \<Rightarrow> step_states \<Rightarrow> plan_approval list \<Rightarrow>
     instant \<Rightarrow> plan_step option" where
  "select_step E plan task cc states approvals now =
     find (\<lambda>s. list_all (\<lambda>d. d \<in> succeeded_steps states) (st_depends_on s)
          \<and> is_executable (verify (sha_plan E) default_verifier plan
               (claim_context_of task cc states approvals now (st_id s))))
       (claim_candidates plan states)"

definition select_step_row :: "db \<Rightarrow> plan_spec \<Rightarrow> plan_step_id \<Rightarrow> queue_error + step_row" where
  "select_step_row db plan sid =
     ok_or (Sqlite QueryReturnedNoRows)
       (find (same_step (ps_plan_id plan) (ps_revision plan) (step_str sid)) (db_steps db))"

definition increment_attempts :: "plan_spec \<Rightarrow> plan_step_id \<Rightarrow> db \<Rightarrow> db" where
  "increment_attempts plan sid db =
     db\<lparr>db_steps := update_where (same_step (ps_plan_id plan) (ps_revision plan) (step_str sid))
       (\<lambda>r. r\<lparr>sr_attempts := sr_attempts r + 1\<rparr>) (db_steps db)\<rparr>"

text \<open>Starting the selected step, in a plan that is \<open>Approved\<close>, \<open>Running\<close> or \<open>Compensating\<close>.\<close>

definition start_step ::
    "env \<Rightarrow> plan_spec \<Rightarrow> step_states \<Rightarrow> plan_step \<Rightarrow> plan_claim_context \<Rightarrow> instant \<Rightarrow> db \<Rightarrow> queue_error + db"
  where
  "start_step E plan states s cc now db =
     (let i = st_id s in
      and_then (if ps_state plan = Approved then
          append_plan_transition_tx E (ps_tenant plan) plan Approved Running
            (''claim:plan:'' @ step_str i) now db
        else Inr db) (\<lambda>db.
      and_then (ok_or (NotFound (''step '' @ step_str i)) (map_of states i)) (\<lambda>current.
      and_then (select_step_row db plan i) (\<lambda>row.
      let attempt = show_nat (sr_attempts row + 1) in
      and_then (if current = StepPending then
          append_step_transition_tx E plan i StepPending StepReady
            (''claim:ready:'' @ step_str i @ '':'' @ attempt) now db
        else Inr db) (\<lambda>db.
      and_then (append_step_transition_tx E plan i StepReady StepRunning
        (''claim:running:'' @ step_str i @ '':'' @ attempt) now db) (\<lambda>db.
      insert_checkpoint_tx (ps_plan_id plan) (ps_revision plan) (Some i) BeforeStep CheckpointPending
        (cc_state_digest cc) now (increment_attempts plan i db)))))))"

definition prepare_planned_claim_tx ::
    "env \<Rightarrow> task_record \<Rightarrow> plan_task_reference \<Rightarrow> plan_claim_context \<Rightarrow> instant \<Rightarrow> db \<Rightarrow>
     queue_error + (plan_step option \<times> db)" where
  "prepare_planned_claim_tx E task reference cc now db =
     and_then (load_plan_tx E (ta_tenant task) reference db) (\<lambda>plan.
     if ps_task_id plan \<noteq> ta_task_id task \<or> ps_mode plan \<noteq> DryRun then Inl Forbidden
     else if ta_plan_step_id task \<noteq> None then
       Inl (QInvalidInput ''task planejada ja possui etapa locada'')
     else if ps_state plan \<notin> {Approved, Running, Compensating} then Inr (None, db)
     else
       and_then (load_step_states_tx db (ps_plan_id plan) (ps_revision plan)) (\<lambda>states.
       let approvals = load_approvals_tx db plan in
       if \<not> is_executable (verify (sha_plan E) default_verifier plan
            ((new_context now Preflight)\<lparr>vc_approvals := approvals\<rparr>)) then Inr (None, db)
       else
         (case select_step E plan task cc states approvals now of
            None \<Rightarrow> Inr (None, db)
          | Some s \<Rightarrow> and_then (start_step E plan states s cc now db) (\<lambda>db. Inr (Some s, db)))))"

subsection \<open>The end of a step\<close>

text \<open>\<open>base * 2^min(attempts - 1, 10)\<close>, saturating in 64 bits, at most \<open>max\<close> and not negative.\<close>

definition retry_delay_ms :: "int \<Rightarrow> int \<Rightarrow> nat \<Rightarrow> int" where
  "retry_delay_ms base_ms max_ms attempts =
     (let exponent = min (attempts - 1) 10;
          product = base_ms * 2 ^ exponent;
          saturated = max (- (2 ^ 63)) (min (2 ^ 63 - 1) product)
      in max (min saturated max_ms) 0)"

definition millis :: "int \<Rightarrow> int" where "millis ms = ms * 1000000"

definition post_step_context ::
    "task_record \<Rightarrow> plan_claim_context \<Rightarrow> step_states \<Rightarrow> plan_approval list \<Rightarrow> instant \<Rightarrow> plan_step_id \<Rightarrow>
     verification_context" where
  "post_step_context task cc states approvals now i =
     (for_step i (new_context now PostStep))
       \<lparr>vc_task_state := Some TaskSucceeded,
        vc_succeeded_steps :=
          set (map fst (filter (\<lambda>(j, state). state = StepSucceeded \<or> j = i) states)),
        vc_granted_capabilities := ctx_capabilities (te_context (ta_envelope task)),
        vc_circuit_closed := cc_circuit_closed cc,
        vc_remaining_budget := unwrap_or (cc_remaining_budget cc) (te_budget (ta_envelope task)),
        vc_state_digest := cc_state_digest cc, vc_approvals := approvals\<rparr>"

definition complete_compensation_tx ::
    "env \<Rightarrow> plan_spec \<Rightarrow> plan_step_id \<Rightarrow> json option \<Rightarrow> instant \<Rightarrow> db \<Rightarrow>
     queue_error + (finish_outcome \<times> db)" where
  "complete_compensation_tx E plan sid result now db =
     (let pid = ps_plan_id plan; revision = ps_revision plan in
      and_then (collect_results (\<lambda>r. conversion (plan_step_id_new (sr_step_id r)))
        (filter (\<lambda>r. sr_compensation_step_id r = Some (step_str sid) \<and> sr_state r = ''compensating'')
          (plan_steps_of db pid revision))) (\<lambda>source_ids.
      and_then (fold_result (\<lambda>db i.
          append_step_transition_tx E plan i StepCompensating StepCompensated
            (''compensation:source:'' @ step_str i) now db) source_ids db) (\<lambda>db.
      and_then (insert_checkpoint_tx pid revision (Some sid) PhaseCompensation CheckpointSucceeded None
        now db) (\<lambda>db.
      if count_where (\<lambda>r. sr_plan_id r = pid \<and> sr_revision r = revision
           \<and> sr_state r = ''compensating'') (db_steps db) = 0 then
        and_then (append_plan_transition_tx E (ps_tenant plan) plan Compensating Compensated
          ''compensation:plan:compensated'' now db) (\<lambda>db.
        Inr (FinishCompensated, update_task (ps_task_id plan) (ps_tenant plan)
          (\<lambda>r. (release_task TaskIsFailed now r)\<lparr>tk_result_json := result,
             tk_last_error := Some ''operacao original compensada; nao representa sucesso da task'',
             tk_completed_at := Some now\<rparr>) db))
      else
        Inr (PlanStepSucceeded now, update_task (ps_task_id plan) (ps_tenant plan)
          (\<lambda>r. (release_task Queued now r)\<lparr>tk_result_json := None, tk_last_error := None,
             tk_next_attempt_at := now\<rparr>) db)))))"

definition finish_cancelled ::
    "env \<Rightarrow> task_record \<Rightarrow> plan_spec \<Rightarrow> plan_step_id \<Rightarrow> plan_claim_context \<Rightarrow> instant \<Rightarrow> db \<Rightarrow>
     queue_error + (finish_outcome \<times> db)" where
  "finish_cancelled E task plan sid cc now db =
     and_then (mark_plan_unknown_tx E (ta_tenant task) plan (Some sid) (cc_state_digest cc) now db) (\<lambda>db.
     Inr (FinishCancelled, update_task (ta_task_id task) (ta_tenant task)
       (\<lambda>r. (release_task TaskIsCancelled now r)\<lparr>tk_cancel_requested := True,
          tk_completed_at := Some now\<rparr>) db))"

definition finish_succeeded ::
    "env \<Rightarrow> task_record \<Rightarrow> plan_spec \<Rightarrow> plan_step_id \<Rightarrow> nat \<Rightarrow> json option \<Rightarrow> plan_claim_context \<Rightarrow>
     instant \<Rightarrow> db \<Rightarrow> queue_error + (finish_outcome \<times> db)" where
  "finish_succeeded E task plan sid attempts result cc now db =
     (let pid = ps_plan_id plan; revision = ps_revision plan in
      and_then (append_step_transition_tx E plan sid StepRunning StepSucceeded
        (''finish:succeeded:'' @ step_str sid @ '':'' @ show_nat attempts) now db) (\<lambda>db.
      and_then (insert_checkpoint_tx pid revision (Some sid) AfterStep CheckpointSucceeded
        (cc_state_digest cc) now db) (\<lambda>db.
      if ps_state plan = Compensating then complete_compensation_tx E plan sid result now db
      else if count_where (\<lambda>r. sr_plan_id r = pid \<and> sr_revision r = revision
             \<and> sr_state r \<noteq> ''succeeded'') (db_steps db) = 0 then
        and_then (append_plan_transition_tx E (ps_tenant plan) plan Running Succeeded
          ''finish:plan:succeeded'' now db) (\<lambda>db.
        Inr (FinishSucceeded, update_task (ta_task_id task) (ta_tenant task)
          (\<lambda>r. (release_task TaskIsSucceeded now r)\<lparr>tk_result_json := result, tk_last_error := None,
             tk_completed_at := Some now\<rparr>) db))
      else
        Inr (PlanStepSucceeded now, update_task (ta_task_id task) (ta_tenant task)
          (\<lambda>r. (release_task Queued now r)\<lparr>tk_result_json := None, tk_last_error := None,
             tk_next_attempt_at := now\<rparr>) db))))"

text \<open>After the step is recorded as failed.\<close>

definition finish_failed ::
    "env \<Rightarrow> task_record \<Rightarrow> plan_spec \<Rightarrow> plan_step_id \<Rightarrow> nat \<Rightarrow> nat \<Rightarrow> string option \<Rightarrow> bool \<Rightarrow>
     int \<Rightarrow> int \<Rightarrow> plan_claim_context \<Rightarrow> instant \<Rightarrow> db \<Rightarrow> queue_error + (finish_outcome \<times> db)" where
  "finish_failed E task plan sid attempts max_attempts err retryable base_ms max_ms cc now db =
     (if ps_state plan = Compensating then
        and_then (mark_plan_unknown_tx E (ta_tenant task) plan (Some sid) (cc_state_digest cc) now db) (\<lambda>db.
        Inr (FinishFailed, update_task (ta_task_id task) (ta_tenant task)
          (\<lambda>r. (release_task TaskIsFailed now r)\<lparr>tk_result_json := None,
             tk_last_error := Some ''falha durante compensacao; resolucao humana necessaria'',
             tk_completed_at := Some now\<rparr>) db))
      else if retryable \<and> attempts < max_attempts then
        and_then (append_step_transition_tx E plan sid StepFailed StepReady
          (''retry:ready:'' @ step_str sid @ '':'' @ show_nat attempts) now db) (\<lambda>db.
        let next_attempt_at = now + millis (retry_delay_ms base_ms max_ms attempts) in
        Inr (Requeued next_attempt_at, update_task (ta_task_id task) (ta_tenant task)
          (\<lambda>r. (release_task Queued now r)\<lparr>tk_result_json := None, tk_last_error := err,
             tk_next_attempt_at := next_attempt_at\<rparr>) db))
      else
        and_then (if ps_state plan = Running then
            append_plan_transition_tx E (ps_tenant plan) plan Running Failed ''finish:plan:failed'' now db
          else Inr db) (\<lambda>db.
        Inr (FinishFailed, update_task (ta_task_id task) (ta_tenant task)
          (\<lambda>r. (release_task TaskIsFailed now r)\<lparr>tk_result_json := None, tk_last_error := err,
             tk_completed_at := Some now\<rparr>) db)))"

text \<open>Success as the worker reports it counts only if the postconditions hold.\<close>

definition finish_verdict ::
    "env \<Rightarrow> task_record \<Rightarrow> plan_spec \<Rightarrow> plan_step_id \<Rightarrow> string option \<Rightarrow> plan_claim_context \<Rightarrow> instant \<Rightarrow>
     db \<Rightarrow> queue_error + (bool \<times> string option)" where
  "finish_verdict E task plan sid err cc now db =
     (case err of
        Some e \<Rightarrow> Inr (False, Some (take_chars 4096 e))
      | None \<Rightarrow>
          and_then (load_step_states_tx db (ps_plan_id plan) (ps_revision plan)) (\<lambda>states.
          if is_executable (verify (sha_plan E) default_verifier plan
               (post_step_context task cc states (load_approvals_tx db plan) now sid))
          then Inr (True, None)
          else Inr (False, Some ''pos-condicao planejada nao satisfeita'')))"

definition finish_reported ::
    "env \<Rightarrow> task_record \<Rightarrow> plan_spec \<Rightarrow> plan_step_id \<Rightarrow> step_row \<Rightarrow> json option \<Rightarrow> string option \<Rightarrow>
     bool \<Rightarrow> instant \<Rightarrow> int \<Rightarrow> int \<Rightarrow> plan_claim_context \<Rightarrow> db \<Rightarrow> queue_error + (finish_outcome \<times> db)" where
  "finish_reported E task plan sid row result err retryable now base_ms max_ms cc db =
     and_then (finish_verdict E task plan sid err cc now db) (\<lambda>(success, err).
     if success then
       finish_succeeded E task plan sid (sr_attempts row) result cc now db
     else
       and_then (append_step_transition_tx E plan sid StepRunning StepFailed
         (''finish:failed:'' @ step_str sid @ '':'' @ show_nat (sr_attempts row)) now db) (\<lambda>db.
       and_then (insert_checkpoint_tx (ps_plan_id plan) (ps_revision plan) (Some sid) AfterStep
         CheckpointFailed (cc_state_digest cc) now db) (\<lambda>db.
       finish_failed E task plan sid (sr_attempts row) (sr_max_attempts row) err retryable
         base_ms max_ms cc now db)))"

definition in_execution :: "plan_step_state \<Rightarrow> bool" where
  "in_execution s \<longleftrightarrow> s \<in> {StepRunning, StepCancelRequested}"

definition finish_planned_step_tx ::
    "env \<Rightarrow> task_record \<Rightarrow> json option \<Rightarrow> string option \<Rightarrow> bool \<Rightarrow> instant \<Rightarrow> int \<Rightarrow> int \<Rightarrow>
     plan_claim_context \<Rightarrow> db \<Rightarrow> queue_error + (finish_outcome \<times> db)" where
  "finish_planned_step_tx E task result err retryable now base_ms max_ms cc db =
     and_then (task_reference task) (\<lambda>reference.
     and_then (load_plan_tx E (ta_tenant task) reference db) (\<lambda>plan.
     and_then (ok_or (QInvalidInput ''task planejada sem etapa locada'') (ta_plan_step_id task)) (\<lambda>sid.
     and_then (select_step_row db plan sid) (\<lambda>row.
     and_then (parse_step_state (sr_state row)) (\<lambda>state.
     if \<not> in_execution state then
       Inl (QInvalidInput ''etapa planejada nao esta em execucao'')
     else
       and_then (ok_or (Sqlite QueryReturnedNoRows)
         (find (same_task (ta_task_id task) (ta_tenant task)) (db_tasks db))) (\<lambda>trow.
       if tk_cancel_requested trow \<or> tk_status trow = task_status_as_str TaskCancelRequested then
         finish_cancelled E task plan sid cc now db
       else
         finish_reported E task plan sid row result err retryable now base_ms max_ms cc db))))))"

subsection \<open>Cancellation and expired leases\<close>

definition cancel_queued_plan ::
    "env \<Rightarrow> plan_spec \<Rightarrow> instant \<Rightarrow> db \<Rightarrow> queue_error + db" where
  "cancel_queued_plan E plan now db =
     and_then (if ps_state plan \<in> {Approved, Running} then
         append_plan_transition_tx E (ps_tenant plan) plan (ps_state plan) CancelRequested
           ''cancel:plan:requested'' now db
       else Inr db) (\<lambda>db.
     and_then (load_step_states_tx db (ps_plan_id plan) (ps_revision plan)) (\<lambda>states.
     and_then (fold_result (\<lambda>db (i, state).
         append_step_transition_tx E plan i state StepCancelled (''cancel:step:'' @ step_str i) now db)
       (filter (\<lambda>(_, state). state \<in> {StepPending, StepReady, StepAwaitingApproval}) states) db) (\<lambda>db.
     and_then (select_plan_state db (ps_plan_id plan) (ps_revision plan) (ps_tenant plan)) (\<lambda>text.
     and_then (parse_plan_state text) (\<lambda>current.
     if current = CancelRequested then
       append_plan_transition_tx E (ps_tenant plan) plan CancelRequested Cancelled
         ''cancel:plan:completed'' now db
     else Inr db)))))"

definition cancel_planned_task_tx ::
    "env \<Rightarrow> task_record \<Rightarrow> instant \<Rightarrow> db \<Rightarrow> queue_error + db" where
  "cancel_planned_task_tx E task now db =
     and_then (task_reference task) (\<lambda>reference.
     and_then (load_plan_tx E (ta_tenant task) reference db) (\<lambda>plan.
     if ps_state plan = Unknown \<or> ps_state plan = Compensating then
       Inl (QInvalidInput ''cancelamento planejado exige resolucao da fronteira atual'')
     else if ta_status task = Queued then cancel_queued_plan E plan now db
     else if ta_status task = TaskIsRunning \<and> ps_state plan = Running then
       append_plan_transition_tx E (ps_tenant plan) plan Running CancelRequested
         ''cancel:plan:requested'' now db
     else Inr db))"

definition recover_expired_plan_lease_tx ::
    "env \<Rightarrow> task_record \<Rightarrow> instant \<Rightarrow> db \<Rightarrow> queue_error + db" where
  "recover_expired_plan_lease_tx E task now db =
     and_then (task_reference task) (\<lambda>reference.
     and_then (load_plan_tx E (ta_tenant task) reference db) (\<lambda>plan.
     and_then (mark_plan_unknown_tx E (ta_tenant task) plan (ta_plan_step_id task) None now db) (\<lambda>db.
     Inr (update_task (ta_task_id task) (ta_tenant task)
       (\<lambda>r. (release_task (if ta_cancel_requested task then TaskIsCancelled else TaskIsFailed) now r)
          \<lparr>tk_completed_at := Some now,
           tk_last_error := Some ''lease planejada expirada; estado requer resolucao''\<rparr>) db))))"

end
