(* ===== verification/Plan_Execution_Inv.thy ===== *)
theory Plan_Execution_Inv
  imports Plan_Execution
begin

text \<open>
  Every operation of the plan store that goes through the reducer keeps it consistent: the log of
  every plan replays to what the tables hold, and its checkpoints are numbered without a gap.
\<close>

definition consistent :: "env \<Rightarrow> db \<Rightarrow> bool" where
  "consistent E db \<longleftrightarrow> store_inv E db \<and> checkpoints_ok db"

lemma consistent_frame:
  assumes "db_plans db' = db_plans db" "db_steps db' = db_steps db"
    "db_transitions db' = db_transitions db" "db_checkpoints db' = db_checkpoints db"
  shows "consistent E db' \<longleftrightarrow> consistent E db"
  using store_inv_frame [OF assms(1-3)] checkpoints_ok_frame [OF assms(4)] by (simp add: consistent_def)

lemma consistent_update_task [simp]: "consistent E (update_task tid tenant f db) = consistent E db"
  by (rule consistent_frame) (simp_all add: update_task_def)

subsection \<open>What one append changes\<close>

lemma apply_transition_frame:
  assumes "apply_transition_tx now tenant t db = Inr db'"
  shows "db_checkpoints db' = db_checkpoints db" "db_approvals db' = db_approvals db"
    "db_tasks db' = db_tasks db" "db_transitions db' = db_transitions db"
    "tr_entity t = EntityPlan \<Longrightarrow> db_steps db' = db_steps db"
    "tr_entity t = EntityStep \<Longrightarrow> db_plans db' = db_plans db"
  using assms
  by (auto simp: apply_transition_tx_def apply_plan_transition_def apply_step_transition_def result_simps
      update_plan_state_def update_step_state_def
      split: transition_entity.splits transition_state.splits if_splits)

lemma append_transition_frame:
  assumes "append_transition E tenant pid rv e i a b key now db = Inr db'"
  shows "db_checkpoints db' = db_checkpoints db" "db_approvals db' = db_approvals db"
    "db_tasks db' = db_tasks db"
    "e = EntityPlan \<Longrightarrow> db_steps db' = db_steps db" "e = EntityStep \<Longrightarrow> db_plans db' = db_plans db"
proof -
  obtain t db1 where new: "transition_new E (fst (fresh_uuid db)) pid rv
      (chain_next (last_transition_tx db pid rv)) e i a b key
      (map_option snd (last_transition_tx db pid rv)) now = Inr t"
    and applied: "apply_transition_tx now tenant t (snd (fresh_uuid db)) = Inr db1"
    and inserted: "insert_transition_tx E t db1 = Inr db'"
    using assms by (auto simp: append_transition_def fresh_uuid_def Let_def result_simps)
  have "db' = db1\<lparr>db_transitions := db_transitions db1 @ [t]\<rparr>"
    using inserted by (auto simp: insert_transition_tx_def result_simps)
  with apply_transition_frame [OF applied] transition_new_facts(4) [OF new]
  show "db_checkpoints db' = db_checkpoints db" "db_approvals db' = db_approvals db"
    "db_tasks db' = db_tasks db"
    "e = EntityPlan \<Longrightarrow> db_steps db' = db_steps db" "e = EntityStep \<Longrightarrow> db_plans db' = db_plans db"
    by (simp_all add: fresh_uuid_def)
qed

lemma append_consistent:
  assumes "consistent E db" "append_transition E tenant pid rv e i a b key now db = Inr db'"
  shows "consistent E db'"
  using assms(1) append_transition_inv [OF _ assms(2)]
    checkpoints_ok_frame [OF append_transition_frame(1) [OF assms(2)]]
  by (simp add: consistent_def)

lemma append_plan_consistent [intro]:
  "append_plan_transition_tx E tenant plan a b key now db = Inr db' \<Longrightarrow> consistent E db \<Longrightarrow> consistent E db'"
  using append_consistent unfolding append_plan_transition_tx_def by blast

lemma append_step_consistent [intro]:
  "append_step_transition_tx E plan i a b key now db = Inr db' \<Longrightarrow> consistent E db \<Longrightarrow> consistent E db'"
  using append_consistent unfolding append_step_transition_tx_def by blast

lemma checkpoint_consistent [intro]:
  "insert_checkpoint_tx pid rv step_id phase status digest now db = Inr db' \<Longrightarrow> consistent E db \<Longrightarrow>
   \<forall>i. step_id = Some i \<longrightarrow> validate_plan_key (step_str i) ''step_id'' = Inr () \<Longrightarrow> consistent E db'"
  using insert_checkpoint_tx_inv insert_checkpoint_tx_ok unfolding consistent_def by blast

lemma fold_consistent:
  assumes "fold_result f xs db = Inr db'" "consistent E db"
    and "\<And>x db db'. x \<in> set xs \<Longrightarrow> consistent E db \<Longrightarrow> f db x = Inr db' \<Longrightarrow> consistent E db'"
  shows "consistent E db'"
  using fold_result_invariant [where P = "consistent E", OF assms] .

lemma steps_view_same:
  assumes "\<And>r. step_entry (g r) = step_entry r" "\<And>r. step_of p v (g r) \<longleftrightarrow> step_of p v r"
  shows "steps_view (map g rows) p v m \<longleftrightarrow> steps_view rows p v m"
  by (simp add: steps_view_def assms)

lemma increment_attempts_consistent:
  assumes "consistent E db"
  shows "consistent E (increment_attempts plan sid db)"
proof -
  let ?P = "same_step (ps_plan_id plan) (ps_revision plan) (step_str sid)"
  define g where "g r = (if ?P r then r\<lparr>sr_attempts := sr_attempts r + 1\<rparr> else r)" for r
  have entry: "step_entry (g r) = step_entry r" "step_of p v (g r) = step_of p v r"
    "step_key (g r) = step_key r" for r p v
    by (simp_all add: g_def step_entry_def step_of_def step_key_def)
  then have exists: "sr_plan_id (g r) = sr_plan_id r" "sr_revision (g r) = sr_revision r" for r
    by (simp_all add: step_key_def)
  have "increment_attempts plan sid db = db\<lparr>db_steps := map g (db_steps db)\<rparr>"
    by (simp add: increment_attempts_def update_where_def g_def)
  then show ?thesis
    using assms
    by (simp add: consistent_def store_inv_def row_consistent_def plan_log_def plan_exists_def
        checkpoints_ok_def plan_checkpoints_of_def steps_view_same entry exists comp_def)
qed

subsection \<open>Loading and approvals\<close>

lemma load_plan_tx_facts:
  assumes "load_plan_tx E tenant reference db = Inr plan"
  shows "validate_structure plan = Inr ()" "verify_digest (sha_plan E) plan = Inr ()"
    "ps_tenant plan = tenant" "ps_plan_id plan = rf_plan_id reference"
    "ps_revision plan = rf_revision reference" "ps_digest plan = rf_digest reference"
    "select_plan_state db (ps_plan_id plan) (ps_revision plan) tenant = Inr (plan_state_str (ps_state plan))"
  using assms
  by (auto simp: load_plan_tx_def result_simps Let_def select_plan_state_def split: if_splits)

lemma valid_step_key:
  assumes "validate_structure plan = Inr ()" "s \<in> set (ps_steps plan)"
  shows "validate_plan_key (step_str (st_id s)) ''step_id'' = Inr ()"
  using validate_step_facts(1) [OF validate_references_facts(1)] validate_structure_facts(8) [OF assms(1)] assms(2)
  by blast

lemma insert_approval_consistent:
  "insert_approval_row r db = Inr db' \<Longrightarrow> consistent E db \<Longrightarrow> consistent E db'"
  using consistent_frame [of db' db E] by (auto simp: insert_approval_row_def result_simps)

lemma approve_transitions_consistent:
  "approve_transitions E now who plan a db = Inr db' \<Longrightarrow> consistent E db \<Longrightarrow> consistent E db'"
  by (auto simp: approve_transitions_def result_simps Let_def split: if_splits)
    (blast dest: append_plan_consistent)

lemma approve_plan_consistent:
  assumes "approve_plan E now who a key db = Inr (outcome, db')" "consistent E db"
  shows "consistent E db'"
proof -
  have "consistent E db'" if fresh: "approve_fresh E now who plan a key db = Inr (outcome, db')"
    and shape: "validate_approval_shape plan who a now = Inr ()"
    and valid: "validate_structure plan = Inr ()" for plan
  proof -
    have key: "\<forall>i. ap_step_id a = Some i \<longrightarrow> validate_plan_key (step_str i) ''step_id'' = Inr ()"
      using shape valid_step_key [OF valid]
      by (auto simp: validate_approval_shape_def result_simps list_ex_iff split: if_splits)
    obtain db1 db2 where insert: "insert_approval_row (approval_row_of now key a) db = Inr db1"
      and decide: "decide_approval E now who plan a db1 = Inr (outcome, db2)"
      and checkpoint: "insert_checkpoint_tx (ps_plan_id plan) (ps_revision plan) (ap_step_id a) PhaseApproval
        (if outcome = OutcomeApproved then CheckpointSucceeded else CheckpointFailed) None now db2 = Inr db'"
      using fresh by (auto simp: approve_fresh_def result_simps)
    have "consistent E db2"
      using decide insert_approval_consistent [OF insert assms(2)] approve_transitions_consistent
      by (auto simp: decide_approval_def reject_transitions_def result_simps
          split: plan_approval_decision.splits if_splits)
    with checkpoint key show ?thesis by blast
  qed
  then show ?thesis
    using assms
    by (auto simp: approve_plan_def result_simps dest: load_plan_tx_facts(1) split: if_splits option.splits)
qed

subsection \<open>Resolution\<close>

lemma update_task_for_resolution_consistent:
  assumes "update_task_for_resolution now plan status c err db = Inr db'" "consistent E db"
  shows "consistent E db'"
  using assms consistent_frame [of db' db E]
  by (auto simp: update_task_for_resolution_def Let_def split: if_splits)

lemma resolve_decision_consistent:
  assumes run: "resolve_decision E now who plan decision key db = Inr db'" and ok: "consistent E db"
  shows "consistent E db'"
proof (cases decision)
  case Resume
  then obtain xs db1 db2 where
    steps: "fold_result (\<lambda>db (i, state).
         append_step_transition_tx E plan i state StepReady (key @ '':step:'' @ step_str i) now db) xs db = Inr db1"
    and plan: "append_plan_transition_tx E (pr_tenant who) plan Unknown Running key now db1 = Inr db2"
    and task: "update_task_for_resolution now plan Queued False None db2 = Inr db'"
    using run by (auto simp: resolve_decision_def resolve_resume_def result_simps)
  have "consistent E db1" by (rule fold_consistent [OF steps ok]) auto
  with plan task show ?thesis using update_task_for_resolution_consistent by blast
next
  case Compensate
  then obtain sources states targets db1 db2 db3 where
    sources: "fold_result (compensate_source E now plan key) sources db = Inr db1"
    and targets: "fold_result (ready_target E now plan key states) targets db1 = Inr db2"
    and plan: "append_plan_transition_tx E (pr_tenant who) plan Unknown Compensating key now db2 = Inr db3"
    and task: "update_task_for_resolution now plan Queued False None db3 = Inr db'"
    using run by (auto simp: resolve_decision_def resolve_compensate_def result_simps Let_def split: if_splits)
  have "consistent E db1"
    by (rule fold_consistent [OF sources ok]) (auto simp: compensate_source_def split: if_splits)
  then have "consistent E db2"
    by (rule fold_consistent [OF targets]) (auto simp: ready_target_def split: if_splits option.splits)
  with plan task show ?thesis using update_task_for_resolution_consistent by blast
next
  case Cancel
  then obtain xs db1 db2 where
    steps: "fold_result (\<lambda>db (i, state).
         append_step_transition_tx E plan i state StepCancelled (key @ '':step:'' @ step_str i) now db) xs db = Inr db1"
    and plan: "append_plan_transition_tx E (pr_tenant who) plan Unknown Cancelled key now db1 = Inr db2"
    and task: "update_task_for_resolution now plan TaskIsCancelled True
         (Some ''plano unknown cancelado por operador'') db2 = Inr db'"
    using run by (auto simp: resolve_decision_def resolve_cancel_def result_simps split: if_splits)
  have "consistent E db1" by (rule fold_consistent [OF steps ok]) auto
  with plan task show ?thesis using update_task_for_resolution_consistent by blast
qed

lemma resolve_plan_unknown_consistent:
  assumes "resolve_plan_unknown E now who pid decision key evidence db = Inr (outcome, db')" "consistent E db"
  shows "consistent E db'"
proof -
  obtain plan where "resolve_tx E now who plan decision key evidence db = Inr (outcome, db')"
    using assms(1) by (auto simp: resolve_plan_unknown_def result_simps Let_def split: if_splits)
  then show ?thesis
    using assms(2) resolve_decision_consistent
    by (auto simp: resolve_tx_def result_simps split: option.splits if_splits)
qed

subsection \<open>Admission and claims\<close>

lemma admission_transitions_consistent:
  "admission_transitions E now who plan db = Inr db' \<Longrightarrow> consistent E db \<Longrightarrow> consistent E db'"
  by (auto simp: admission_transitions_def result_simps Let_def split: if_splits)
    (blast dest: append_plan_consistent)+

lemma record_plan_admission_consistent:
  assumes "record_plan_admission_tx E now who envelope reference db = Inr (approval, db')" "consistent E db"
  shows "consistent E db'"
proof -
  obtain plan db1 where "admission_transitions E now who plan db = Inr db1"
    "insert_checkpoint_tx (ps_plan_id plan) (ps_revision plan) None PhasePreflight CheckpointSucceeded
       (Some (ps_digest plan)) now db1 = Inr db'"
    using assms(1) by (auto simp: record_plan_admission_tx_def result_simps Let_def)
  with assms(2) admission_transitions_consistent show ?thesis by blast
qed

lemma start_step_consistent:
  assumes "start_step E plan states s cc now db = Inr db'" "consistent E db"
    and "validate_plan_key (step_str (st_id s)) ''step_id'' = Inr ()"
  shows "consistent E db'"
proof -
  let ?i = "st_id s"
  obtain db1 db2 db3 attempt where
    plan: "(if ps_state plan = Approved then
        append_plan_transition_tx E (ps_tenant plan) plan Approved Running (''claim:plan:'' @ step_str ?i) now db
      else Inr db) = Inr db1"
    and ready: "db2 = db1 \<or> append_step_transition_tx E plan ?i StepPending StepReady
        (''claim:ready:'' @ step_str ?i @ '':'' @ attempt) now db1 = Inr db2"
    and running: "append_step_transition_tx E plan ?i StepReady StepRunning
        (''claim:running:'' @ step_str ?i @ '':'' @ attempt) now db2 = Inr db3"
    and checkpoint: "insert_checkpoint_tx (ps_plan_id plan) (ps_revision plan) (Some ?i) BeforeStep
        CheckpointPending (cc_state_digest cc) now (increment_attempts plan ?i db3) = Inr db'"
    using assms(1) by (auto simp: start_step_def result_simps Let_def split: if_splits)
  have "consistent E db1" using plan assms(2) by (auto split: if_splits)
  then have "consistent E db3" using ready running by blast
  then show ?thesis
    using checkpoint increment_attempts_consistent assms(3) by blast
qed

lemma select_step_facts:
  assumes "select_step E plan task cc states approvals now = Some s"
  shows "s \<in> set (ps_steps plan)" "map_of states (st_id s) \<in> {Some StepReady, Some StepPending}"
    "set (st_depends_on s) \<subseteq> succeeded_steps states"
    "is_executable (verify (sha_plan E) default_verifier plan
       (claim_context_of task cc states approvals now (st_id s)))"
    "ps_state plan = Compensating \<Longrightarrow> st_id s \<in> compensation_targets plan states"
  using find_SomeD [OF assms [unfolded select_step_def]]
  by (auto simp: claim_candidates_def list_all_iff)

lemma prepare_planned_claim_cases:
  assumes "prepare_planned_claim_tx E task reference cc now db = Inr (selected, db')"
  obtains "selected = None" "db' = db"
  | plan states s where "selected = Some s" "load_plan_tx E (ta_tenant task) reference db = Inr plan"
      "load_step_states_tx db (ps_plan_id plan) (ps_revision plan) = Inr states"
      "ps_state plan \<in> {Approved, Running, Compensating}" "ta_plan_step_id task = None"
      "select_step E plan task cc states (load_approvals_tx db plan) now = Some s"
      "start_step E plan states s cc now db = Inr db'"
  using assms
  by (auto simp: prepare_planned_claim_tx_def result_simps Let_def split: if_splits option.splits)

lemma prepare_planned_claim_consistent:
  assumes "prepare_planned_claim_tx E task reference cc now db = Inr (selected, db')" "consistent E db"
  shows "consistent E db'"
  using assms(1)
proof (cases rule: prepare_planned_claim_cases)
  case (2 plan states s)
  have "validate_plan_key (step_str (st_id s)) ''step_id'' = Inr ()"
    using valid_step_key [OF load_plan_tx_facts(1) [OF 2(2)] select_step_facts(1) [OF 2(6)]] .
  with start_step_consistent [OF 2(7) assms(2)] show ?thesis .
qed (use assms(2) in simp)

subsection \<open>Marking a plan unknown\<close>

text \<open>The state machines have a move to \<open>unknown\<close>, or the row is there already.\<close>

definition unknown_allowed :: "db \<Rightarrow> plan_spec \<Rightarrow> tenant_id \<Rightarrow> plan_step_id option \<Rightarrow> bool" where
  "unknown_allowed db plan tenant step_id \<longleftrightarrow>
     (\<forall>s. select_plan_state db (ps_plan_id plan) (ps_revision plan) tenant = Inr (plan_state_str s) \<longrightarrow>
        s = Unknown \<or> plan_valid_next s Unknown)
     \<and> (\<forall>i. step_id = Some i \<longrightarrow>
          validate_plan_key (step_str i) ''step_id'' = Inr ()
          \<and> (\<forall>r u. find (same_step (ps_plan_id plan) (ps_revision plan) (step_str i)) (db_steps db) = Some r \<longrightarrow>
               sr_state r = step_state_str u \<longrightarrow> u = StepUnknown \<or> step_valid_next u StepUnknown))"

lemma mark_plan_unknown_consistent:
  assumes run: "mark_plan_unknown_tx E tenant plan step_id digest now db = Inr db'"
    and ok: "consistent E db" and allowed: "unknown_allowed db plan tenant step_id"
  shows "consistent E db'"
proof -
  obtain db1 db2 where plan: "mark_plan_row_unknown E tenant plan now db = Inr db1"
    and step: "(case step_id of None \<Rightarrow> Inr db1 | Some i \<Rightarrow> mark_step_row_unknown E plan i now db1) = Inr db2"
    and checkpoint: "insert_checkpoint_tx (ps_plan_id plan) (ps_revision plan) step_id PhaseRecovery
       CheckpointUnknown digest now db2 = Inr db'"
    using run by (auto simp: mark_plan_unknown_tx_def result_simps)
  have db1: "consistent E db1 \<and> db_steps db1 = db_steps db"
    using plan ok allowed
    by (auto simp: mark_plan_row_unknown_def result_simps unknown_allowed_def is_ok_iff
        append_plan_transition_tx_def dest: append_consistent append_transition_frame(4)
        split: if_splits)
  have "consistent E db2"
    using step db1 allowed
    by (auto simp: mark_step_row_unknown_def result_simps unknown_allowed_def is_ok_iff
        split: option.splits if_splits)
  with checkpoint allowed show ?thesis
    by (auto simp: unknown_allowed_def intro: checkpoint_consistent)
qed

subsection \<open>The end of a step\<close>

lemma step_text_iff:
  "''failed'' = step_state_str u \<longleftrightarrow> u = StepFailed"
  "''running'' = step_state_str u \<longleftrightarrow> u = StepRunning"
  "''cancel_requested'' = step_state_str u \<longleftrightarrow> u = StepCancelRequested"
  by (cases u; simp)+

lemma plan_text_iff: "''unknown'' = plan_state_str s \<longleftrightarrow> s = Unknown"
  by (cases s) simp_all

lemma step_row_key:
  assumes "consistent E db" "r \<in> set (db_steps db)"
  shows "validate_plan_key (sr_step_id r) ''step_id'' = Inr ()"
proof -
  have inv: "store_inv E db" using assms(1) by (simp add: consistent_def)
  then obtain p where p: "p \<in> set (db_plans db)" "plan_key p = (sr_plan_id r, sr_revision r)"
    using assms(2) by (auto simp: store_inv_def plan_exists_iff)
  obtain steps where "steps_view (db_steps db) (sr_plan_id r) (sr_revision r) steps"
    using store_invD(4) [OF inv p(1)] p(2) by (auto simp: row_consistent_def plan_key_def)
  then have "\<exists>e. step_entry r = Inr e"
    using assms(2) by (simp add: steps_view_def step_of_def)
  then show ?thesis by (auto simp: step_entry_iff)
qed

lemma select_step_row_facts:
  assumes "select_step_row db plan sid = Inr r"
  shows "r \<in> set (db_steps db)" "sr_step_id r = step_str sid"
    "find (same_step (ps_plan_id plan) (ps_revision plan) (step_str sid)) (db_steps db) = Some r"
  using assms by (auto simp: select_step_row_def result_simps same_step_def dest: find_SomeD)

lemma append_step_effect:
  assumes "append_step_transition_tx E plan sid a b key now db = Inr db'"
  shows "db_plans db' = db_plans db"
    "find (same_step (ps_plan_id plan) (ps_revision plan) (step_str sid)) (db_steps db') = Some r \<Longrightarrow>
       sr_state r = step_state_str b"
proof -
  show "db_plans db' = db_plans db"
    using append_transition_frame(5) assms by (simp add: append_step_transition_tx_def)
  obtain t db0 db1 where t: "tr_plan_id t = ps_plan_id plan" "tr_revision t = ps_revision plan"
      "tr_entity t = EntityStep" "tr_entity_id t = Some sid" "tr_from_state t = StepSt a" "tr_to_state t = StepSt b"
    and applied: "apply_transition_tx now (ps_tenant plan) t db0 = Inr db1"
    and inserted: "insert_transition_tx E t db1 = Inr db'"
    using assms unfolding append_step_transition_tx_def append_transition_def fresh_uuid_def Let_def
    by (auto simp: result_simps dest: transition_new_facts)
  have "db_steps db' = update_where (same_step (ps_plan_id plan) (ps_revision plan) (step_str sid))
      (\<lambda>r. r\<lparr>sr_state := step_state_str b\<rparr>) (db_steps db0)"
    using applied inserted t
    by (auto simp: apply_transition_tx_def apply_step_transition_def result_simps update_step_state_def
        insert_transition_tx_def split: if_splits)
  then show "find (same_step (ps_plan_id plan) (ps_revision plan) (step_str sid)) (db_steps db') = Some r \<Longrightarrow>
      sr_state r = step_state_str b"
    by (auto simp: find_update_where_stable same_step_def dest!: find_SomeD)
qed

lemma complete_compensation_consistent:
  assumes run: "complete_compensation_tx E plan sid result now db = Inr (outcome, db')"
    and ok: "consistent E db" and key: "validate_plan_key (step_str sid) ''step_id'' = Inr ()"
  shows "consistent E db'"
proof -
  obtain xs db1 db2 where sources: "fold_result (\<lambda>db i.
        append_step_transition_tx E plan i StepCompensating StepCompensated
          (''compensation:source:'' @ step_str i) now db) xs db = Inr db1"
    and checkpoint: "insert_checkpoint_tx (ps_plan_id plan) (ps_revision plan) (Some sid) PhaseCompensation
        CheckpointSucceeded None now db1 = Inr db2"
    and rest: "(\<exists>db3 f. append_plan_transition_tx E (ps_tenant plan) plan Compensating Compensated
          ''compensation:plan:compensated'' now db2 = Inr db3
          \<and> db' = update_task (ps_task_id plan) (ps_tenant plan) f db3)
       \<or> (\<exists>f. db' = update_task (ps_task_id plan) (ps_tenant plan) f db2)"
    using run by (auto simp: complete_compensation_tx_def result_simps Let_def split: if_splits) blast+
  have "consistent E db1" by (rule fold_consistent [OF sources ok]) auto
  then have "consistent E db2" using checkpoint key by auto
  with rest show ?thesis by auto
qed

lemma finish_succeeded_consistent:
  assumes run: "finish_succeeded E task plan sid attempts result cc now db = Inr (outcome, db')"
    and ok: "consistent E db" and key: "validate_plan_key (step_str sid) ''step_id'' = Inr ()"
  shows "consistent E db'"
proof -
  obtain db1 db2 where step: "append_step_transition_tx E plan sid StepRunning StepSucceeded
      (''finish:succeeded:'' @ step_str sid @ '':'' @ show_nat attempts) now db = Inr db1"
    and checkpoint: "insert_checkpoint_tx (ps_plan_id plan) (ps_revision plan) (Some sid) AfterStep
      CheckpointSucceeded (cc_state_digest cc) now db1 = Inr db2"
    and rest: "complete_compensation_tx E plan sid result now db2 = Inr (outcome, db')
       \<or> (\<exists>db3 f. append_plan_transition_tx E (ps_tenant plan) plan Running Succeeded
            ''finish:plan:succeeded'' now db2 = Inr db3
            \<and> db' = update_task (ta_task_id task) (ta_tenant task) f db3)
       \<or> (\<exists>f. db' = update_task (ta_task_id task) (ta_tenant task) f db2)"
    using run by (auto simp: finish_succeeded_def result_simps Let_def split: if_splits)
  have "consistent E db2" using step checkpoint ok key by blast
  with rest key show ?thesis by (auto intro: complete_compensation_consistent)
qed

lemma finish_failed_consistent:
  assumes run: "finish_failed E task plan sid attempts max_attempts err retryable base_ms max_ms cc now db
      = Inr (outcome, db')"
    and ok: "consistent E db"
    and allowed: "ps_state plan = Compensating \<Longrightarrow> unknown_allowed db plan (ta_tenant task) (Some sid)"
  shows "consistent E db'"
  using run ok allowed
  by (auto simp: finish_failed_def result_simps Let_def split: if_splits
      intro: mark_plan_unknown_consistent)


text \<open>The plan of a leased task is one that may become \<open>unknown\<close>, or is so already.\<close>

definition lease_boundary :: "env \<Rightarrow> task_record \<Rightarrow> db \<Rightarrow> bool" where
  "lease_boundary E task db \<longleftrightarrow>
     (\<forall>reference plan. task_reference task = Inr reference \<longrightarrow>
        load_plan_tx E (ta_tenant task) reference db = Inr plan \<longrightarrow>
        ps_state plan \<in> {Running, CancelRequested, Compensating, Unknown})"

lemma boundary_state:
  "s \<in> {Running, CancelRequested, Compensating, Unknown} \<Longrightarrow> s = Unknown \<or> plan_valid_next s Unknown"
  by (auto simp: plan_valid_next_def)

lemma finish_reported_consistent:
  assumes run: "finish_reported E task plan sid row result err retryable now base_ms max_ms cc db
      = Inr (outcome, db')"
    and ok: "consistent E db" and key: "validate_plan_key (step_str sid) ''step_id'' = Inr ()"
    and state: "select_plan_state db (ps_plan_id plan) (ps_revision plan) (ta_tenant task)
      = Inr (plan_state_str s)" "s = Unknown \<or> plan_valid_next s Unknown"
  shows "consistent E db'"
proof -
  obtain success err' where verdict: "finish_verdict E task plan sid err cc now db = Inr (success, err')"
    using run by (auto simp: finish_reported_def result_simps)
  show ?thesis
  proof (cases success)
    case True
    with run verdict finish_succeeded_consistent ok key show ?thesis
      by (auto simp: finish_reported_def)
  next
    case False
    with run verdict obtain db1 db2 where
      step: "append_step_transition_tx E plan sid StepRunning StepFailed
        (''finish:failed:'' @ step_str sid @ '':'' @ show_nat (sr_attempts row)) now db = Inr db1"
      and checkpoint: "insert_checkpoint_tx (ps_plan_id plan) (ps_revision plan) (Some sid) AfterStep
        CheckpointFailed (cc_state_digest cc) now db1 = Inr db2"
      and failed: "finish_failed E task plan sid (sr_attempts row) (sr_max_attempts row) err' retryable
        base_ms max_ms cc now db2 = Inr (outcome, db')"
      by (auto simp: finish_reported_def result_simps)
    note effect = append_step_effect [OF step] insert_checkpoint_tx_frame(1,2) [OF checkpoint]
    have "unknown_allowed db2 plan (ta_tenant task) (Some sid)"
      using state key effect
      by (auto simp: unknown_allowed_def select_plan_state_def step_valid_next_def step_text_iff plan_text_iff)
    moreover have "consistent E db2" using step checkpoint ok key by blast
    ultimately show ?thesis using finish_failed_consistent failed by blast
  qed
qed

lemma finish_planned_step_consistent:
  assumes run: "finish_planned_step_tx E task result err retryable now base_ms max_ms cc db = Inr (outcome, db')"
    and ok: "consistent E db" and boundary: "lease_boundary E task db"
  shows "consistent E db'"
proof -
  obtain reference plan sid row state where
    plan: "task_reference task = Inr reference" "load_plan_tx E (ta_tenant task) reference db = Inr plan"
    and row: "select_step_row db plan sid = Inr row" "parse_step_state (sr_state row) = Inr state"
      "in_execution state"
    and rest: "finish_cancelled E task plan sid cc now db = Inr (outcome, db')
      \<or> finish_reported E task plan sid row result err retryable now base_ms max_ms cc db = Inr (outcome, db')"
    using run unfolding finish_planned_step_tx_def and_then_Inr_iff
    by (auto split: if_split_asm simp del: Un_iff simp: and_then_Inr_iff)
  note facts = select_step_row_facts [OF row(1)]
  have key: "validate_plan_key (step_str sid) ''step_id'' = Inr ()"
    using step_row_key [OF ok facts(1)] facts(2) by simp
  have state: "select_plan_state db (ps_plan_id plan) (ps_revision plan) (ta_tenant task)
      = Inr (plan_state_str (ps_state plan))" "ps_state plan = Unknown \<or> plan_valid_next (ps_state plan) Unknown"
    using load_plan_tx_facts(7) [OF plan(2)] boundary plan boundary_state
    by (auto simp: lease_boundary_def)
  have "unknown_allowed db plan (ta_tenant task) (Some sid)"
    using state key facts(3) row(2,3)
    by (auto simp: unknown_allowed_def step_valid_next_def in_execution_def result_simps step_text_iff)
  then show ?thesis
    using rest ok finish_reported_consistent [OF _ ok key state]
    by (auto simp: finish_cancelled_def result_simps intro: mark_plan_unknown_consistent)
qed

subsection \<open>Cancellation, expired leases and the public operations\<close>

lemma cancel_queued_plan_consistent:
  assumes run: "cancel_queued_plan E plan now db = Inr db'" and ok: "consistent E db"
  shows "consistent E db'"
proof -
  obtain db1 xs db2 where
    first: "db1 = db \<or> append_plan_transition_tx E (ps_tenant plan) plan (ps_state plan) CancelRequested
        ''cancel:plan:requested'' now db = Inr db1"
    and steps: "fold_result (\<lambda>db (i, state).
         append_step_transition_tx E plan i state StepCancelled (''cancel:step:'' @ step_str i) now db)
         xs db1 = Inr db2"
    and rest: "db' = db2 \<or> append_plan_transition_tx E (ps_tenant plan) plan CancelRequested Cancelled
         ''cancel:plan:completed'' now db2 = Inr db'"
    using run by (auto simp: cancel_queued_plan_def result_simps split: if_splits)
  have "consistent E db1" using first ok by blast
  then have "consistent E db2" by (rule fold_consistent [OF steps]) auto
  with rest show ?thesis by blast
qed

lemma cancel_planned_task_consistent:
  "cancel_planned_task_tx E task now db = Inr db' \<Longrightarrow> consistent E db \<Longrightarrow> consistent E db'"
  by (auto simp: cancel_planned_task_tx_def result_simps split: if_splits
      intro: cancel_queued_plan_consistent)

definition lease_recoverable :: "env \<Rightarrow> task_record \<Rightarrow> db \<Rightarrow> bool" where
  "lease_recoverable E task db \<longleftrightarrow>
     (\<forall>reference plan. task_reference task = Inr reference \<longrightarrow>
        load_plan_tx E (ta_tenant task) reference db = Inr plan \<longrightarrow>
        unknown_allowed db plan (ta_tenant task) (ta_plan_step_id task))"

lemma recover_expired_consistent:
  assumes "recover_expired_plan_lease_tx E task now db = Inr db'" "consistent E db"
    and "lease_recoverable E task db"
  shows "consistent E db'"
  using assms
  by (auto simp: recover_expired_plan_lease_tx_def result_simps lease_recoverable_def
      intro: mark_plan_unknown_consistent)

lemma save_plan_checkpoints:
  assumes "save_plan E now plan db = Inr (p, db')"
  shows "db_checkpoints db' = db_checkpoints db"
  using assms
  by (auto simp: save_plan_def result_simps insert_plan_row_def split: option.splits if_splits
      dest!: insert_steps_effect)

lemma save_plan_consistent:
  "save_plan E now plan db = Inr (p, db') \<Longrightarrow> ps_state plan = Draft \<Longrightarrow> consistent E db \<Longrightarrow> consistent E db'"
  using save_plan_inv checkpoints_ok_frame [OF save_plan_checkpoints] unfolding consistent_def by blast

lemma record_plan_transition_consistent:
  assumes "record_plan_transition E now tenant t db = Inr db'" "consistent E db"
  shows "consistent E db'"
proof -
  have "db_checkpoints db' = db_checkpoints db"
    using record_plan_transition_cases [OF assms(1)] apply_transition_frame(1)
    by (auto simp: commit_transition_def insert_transition_tx_def result_simps)
  from checkpoints_ok_frame [OF this] show ?thesis
    using assms record_plan_transition_inv by (auto simp: consistent_def)
qed

lemma append_plan_checkpoint_consistent:
  assumes run: "append_plan_checkpoint E tenant c db = Inr db'" and ok: "consistent E db"
    and contiguous: "ck_sequence c \<le> next_checkpoint_sequence_tx db (ck_plan_id c) (ck_revision c)"
  shows "consistent E db'"
proof (cases "db' = db")
  case False
  let ?last = "last_checkpoint_sequence db (ck_plan_id c) (ck_revision c)"
  obtain p where load: "load_plan E (ck_plan_id c) tenant db = Inr p"
    and admissible: "checkpoint_admissible (pp_plan p) c = Inr ()"
    and insert: "insert_checkpoint_row (checkpoint_row_of c) db = Inr db'"
    and new: "\<not> (case ?last of None \<Rightarrow> False | Some n \<Rightarrow> ck_sequence c \<le> n)"
    using run False
    by (auto simp: append_plan_checkpoint_def result_simps Let_def split: if_splits option.splits)
  have "validate_structure (pp_plan p) = Inr ()"
    by (rule load_plan_Inr [OF load]) (simp add: snapshot_ok_def Let_def)
  then have "\<exists>ck. checkpoint_of_row (checkpoint_row_of c) = Inr ck"
    using admissible valid_step_key
    by (auto simp: checkpoint_of_row_def checkpoint_row_of_def conversion_def plan_step_id_new_def
        checkpoint_admissible_def result_simps list_ex_iff split: option.splits if_splits)
  moreover have "cp_sequence (checkpoint_row_of c) = next_checkpoint_sequence_tx db (ck_plan_id c) (ck_revision c)"
    using new contiguous admissible
    by (auto simp: checkpoint_row_of_def next_checkpoint_sequence_tx_def checkpoint_admissible_def
        split: option.splits if_splits)
  ultimately have "checkpoints_ok db'"
    using ok by (intro insert_checkpoint_row_ok [OF _ insert])
      (simp_all add: consistent_def checkpoint_row_of_def)
  then show ?thesis
    using ok store_inv_frame [OF insert_checkpoint_row_frame [OF insert]] by (simp add: consistent_def)
qed (use ok in simp)

lemma save_plan_approval_consistent:
  "save_plan_approval E now tenant a db = Inr db' \<Longrightarrow> consistent E db \<Longrightarrow> consistent E db'"
  using insert_approval_consistent
  by (auto simp: save_plan_approval_def result_simps split: if_splits)

lemma public_mark_unknown_consistent:
  assumes "mark_plan_unknown E now tenant pid step_id digest db = Inr db'" "consistent E db"
    and "\<And>p. load_plan E pid tenant db = Inr p \<Longrightarrow> unknown_allowed db (pp_plan p) tenant step_id"
  shows "consistent E db'"
  using assms mark_plan_unknown_consistent by (auto simp: mark_plan_unknown_def result_simps)

lemma resume_plan_consistent:
  assumes run: "resume_plan E now tenant pid db = (db', result)" and ok: "consistent E db"
    and quiet: "\<And>row. latest_plan_row db pid tenant = Some row \<Longrightarrow>
      boundary_of_active_plan db pid (pl_revision row)"
  shows "consistent E db'"
proof (cases "latest_plan_row db pid tenant")
  case None
  then have "db' = db" using run by (auto simp: resume_plan_def load_plan_def)
  with ok show ?thesis by simp
next
  case (Some row)
  with resume_consistent [OF _ _ Some quiet [OF Some] run] ok show ?thesis by (simp add: consistent_def)
qed

end
