(* ===== verification/Plan_Store.thy ===== *)
theory Plan_Store
  imports Plan_Execution_Inv
begin

text \<open>
  The plan store as a system: its operations as a step relation on the database, the stores that can
  be reached, and what holds in them. A step is one operation of the crate as it commits; the ones
  whose guard names a boundary are those for which the code itself can leave the state machines.
\<close>

subsection \<open>The operations as steps\<close>

inductive store_step :: "env \<Rightarrow> db \<Rightarrow> db \<Rightarrow> bool" for E :: env where
  Save: "save_plan E now plan db = Inr (p, db') \<Longrightarrow> ps_state plan = Draft \<Longrightarrow> store_step E db db'"
| Transition: "record_plan_transition E now tenant t db = Inr db' \<Longrightarrow> store_step E db db'"
| Checkpoint: "append_plan_checkpoint E tenant c db = Inr db' \<Longrightarrow>
    ck_sequence c \<le> next_checkpoint_sequence_tx db (ck_plan_id c) (ck_revision c) \<Longrightarrow> store_step E db db'"
| SaveApproval: "save_plan_approval E now tenant a db = Inr db' \<Longrightarrow> store_step E db db'"
| Approve: "approve_plan E now who a key db = Inr (approved, db') \<Longrightarrow> store_step E db db'"
| Resolve: "resolve_plan_unknown E now who pid decision key evidence db = Inr (resolved, db') \<Longrightarrow>
    store_step E db db'"
| Admit: "record_plan_admission_tx E now who envelope reference db = Inr (approval, db') \<Longrightarrow>
    store_step E db db'"
| Claim: "prepare_planned_claim_tx E task reference cc now db = Inr (selected, db') \<Longrightarrow> store_step E db db'"
| Finish: "finish_planned_step_tx E task result err retryable now base_ms max_ms cc db = Inr (finished, db') \<Longrightarrow>
    lease_boundary E task db \<Longrightarrow> store_step E db db'"
| CancelTask: "cancel_planned_task_tx E task now db = Inr db' \<Longrightarrow> store_step E db db'"
| LeaseExpired: "recover_expired_plan_lease_tx E task now db = Inr db' \<Longrightarrow>
    lease_recoverable E task db \<Longrightarrow> store_step E db db'"
| MarkUnknown: "mark_plan_unknown E now tenant pid step_id digest db = Inr db' \<Longrightarrow>
    (\<And>p. load_plan E pid tenant db = Inr p \<Longrightarrow> unknown_allowed db (pp_plan p) tenant step_id) \<Longrightarrow>
    store_step E db db'"
| ResumePlan: "resume_plan E now tenant pid db = (db', result) \<Longrightarrow>
    (\<And>row. latest_plan_row db pid tenant = Some row \<Longrightarrow>
      boundary_of_active_plan db pid (pl_revision row)) \<Longrightarrow> store_step E db db'"
| Tasks: "db_plans db' = db_plans db \<Longrightarrow> db_steps db' = db_steps db \<Longrightarrow>
    db_transitions db' = db_transitions db \<Longrightarrow> db_checkpoints db' = db_checkpoints db \<Longrightarrow> store_step E db db'"

lemma store_step_consistent: "store_step E db db' \<Longrightarrow> consistent E db \<Longrightarrow> consistent E db'"
proof (induction rule: store_step.induct)
  case (Tasks db' db)
  then show ?case using consistent_frame by blast
qed (rule save_plan_consistent record_plan_transition_consistent append_plan_checkpoint_consistent
    save_plan_approval_consistent approve_plan_consistent resolve_plan_unknown_consistent
    record_plan_admission_consistent prepare_planned_claim_consistent finish_planned_step_consistent
    cancel_planned_task_consistent recover_expired_consistent public_mark_unknown_consistent
    resume_plan_consistent; assumption)+

lemma empty_consistent: "consistent E empty_db"
  by (simp add: consistent_def store_inv_def checkpoints_ok_def empty_db_def plan_checkpoints_of_def)

abbreviation reachable :: "env \<Rightarrow> db \<Rightarrow> bool" where
  "reachable E db \<equiv> (store_step E)\<^sup>*\<^sup>* empty_db db"

lemma reachable_consistent: "reachable E db \<Longrightarrow> consistent E db"
  by (induction rule: rtranclp_induct) (auto intro: empty_consistent store_step_consistent)

subsection \<open>What an append does to the tables\<close>

lemma append_transition_parts:
  assumes "append_transition E tenant pid rv e i a b key now db = Inr db'"
  obtains t db1 where "tr_plan_id t = pid" "tr_revision t = rv" "tr_entity t = e" "tr_entity_id t = i"
    "tr_from_state t = a" "tr_to_state t = b" "tr_idempotency_key t = key" "verify_hash E t = Inr ()"
    "continues db t" "apply_transition_tx now tenant t (snd (fresh_uuid db)) = Inr db1"
    "db' = db1\<lparr>db_transitions := db_transitions db @ [t]\<rparr>"
    "commit_transition E now tenant t (snd (fresh_uuid db)) = Inr db'"
proof -
  obtain t db1 where new: "transition_new E (fst (fresh_uuid db)) pid rv
      (chain_next (last_transition_tx db pid rv)) e i a b key
      (map_option snd (last_transition_tx db pid rv)) now = Inr t"
    and applied: "apply_transition_tx now tenant t (snd (fresh_uuid db)) = Inr db1"
    and inserted: "insert_transition_tx E t db1 = Inr db'"
    using assms by (auto simp: append_transition_def fresh_uuid_def Let_def result_simps)
  have "db' = db1\<lparr>db_transitions := db_transitions db1 @ [t]\<rparr>"
    using inserted by (auto simp: insert_transition_tx_def result_simps)
  moreover have "db_transitions db1 = db_transitions db"
    using apply_transition_frame(4) [OF applied] by (simp add: fresh_uuid_def)
  ultimately show ?thesis
    using that [OF transition_new_facts(1,2,4-7,9,10) [OF new] _ applied] transition_new_facts(1-3,8) [OF new]
      applied inserted
    by (simp add: continues_def commit_transition_def)
qed

lemma append_plan_effect:
  assumes "append_plan_transition_tx E tenant plan a b key now db = Inr db'"
  shows "select_plan_state db (ps_plan_id plan) (ps_revision plan) tenant = Inr (plan_state_str a)"
    "plan_valid_next a b"
    "select_plan_state db' (ps_plan_id plan) (ps_revision plan) tenant = Inr (plan_state_str b)"
    "db_steps db' = db_steps db"
proof -
  show "db_steps db' = db_steps db"
    using append_transition_frame(4) assms by (simp add: append_plan_transition_tx_def)
  obtain t db1 where t: "tr_plan_id t = ps_plan_id plan" "tr_revision t = ps_revision plan"
      "tr_entity t = EntityPlan" "tr_from_state t = PlanSt a" "tr_to_state t = PlanSt b"
    and applied: "apply_transition_tx now tenant t (snd (fresh_uuid db)) = Inr db1"
    and db': "db' = db1\<lparr>db_transitions := db_transitions db @ [t]\<rparr>"
    using assms unfolding append_plan_transition_tx_def by (rule append_transition_parts) blast
  have inner: "apply_plan_transition now tenant t a b (snd (fresh_uuid db)) = Inr db1"
    using applied t by (simp add: apply_transition_tx_def)
  then show "select_plan_state db (ps_plan_id plan) (ps_revision plan) tenant = Inr (plan_state_str a)"
    "plan_valid_next a b"
    using t by (auto simp: apply_plan_transition_def result_simps select_plan_state_def fresh_uuid_def
        split: if_splits)
  show "select_plan_state db' (ps_plan_id plan) (ps_revision plan) tenant = Inr (plan_state_str b)"
    using inner t
    by (auto simp: apply_plan_transition_def result_simps select_plan_state_def fresh_uuid_def db'
        update_plan_state_def find_update_where_self same_plan_def split: if_splits)
qed

subsection \<open>The tables refine the reducer\<close>

lemma holds_state_replay:
  assumes ok: "consistent E db" and row: "row \<in> set (db_plans db)" "plan_key row = (pid, rv)"
  shows "holds_state db pid rv ps steps \<longleftrightarrow>
    (\<exists>n prev. replay_log E (pl_plan_json row) (plan_log db pid rv) = Inr (n, prev, ps, steps))"
proof -
  have inv: "store_inv E db" using ok by (simp add: consistent_def)
  obtain n prev qs m where replay: "replay_log E (pl_plan_json row) (plan_log db pid rv) = Inr (n, prev, qs, m)"
    and state: "pl_state row = plan_state_str qs" and view: "steps_view (db_steps db) pid rv m"
    using store_invD(4) [OF inv row(1)] row(2) by (auto simp: row_consistent_def plan_key_def)
  have "holds_state db pid rv ps steps \<longleftrightarrow> ps = qs \<and> steps = m"
  proof
    assume "holds_state db pid rv ps steps"
    then obtain r where r: "r \<in> set (db_plans db)" "plan_key r = (pid, rv)" "pl_state r = plan_state_str ps"
      and v: "steps_view (db_steps db) pid rv steps"
      by (auto simp: holds_state_def)
    have "r = row"
      using plan_row_unique [OF store_invD(1) [OF inv] r(1) row(1)] r(2) row(2) by simp
    with r(3) state steps_view_unique [OF v view] show "ps = qs \<and> steps = m" by simp
  next
    assume "ps = qs \<and> steps = m"
    with row state view show "holds_state db pid rv ps steps" by (auto simp: holds_state_def)
  qed
  with replay show ?thesis by auto
qed

lemma apply_transition_json:
  "apply_transition_tx now tenant t db = Inr db' \<Longrightarrow>
   map (\<lambda>r. (plan_key r, pl_plan_json r)) (db_plans db') = map (\<lambda>r. (plan_key r, pl_plan_json r)) (db_plans db)"
  by (auto simp: apply_transition_tx_def apply_plan_transition_def apply_step_transition_def result_simps
      update_plan_state_def update_step_state_def map_update_where_same plan_key_def
      split: transition_entity.splits transition_state.splits if_splits)

lemma commit_refines:
  assumes ok: "consistent E db" and holds: "holds_state db pid rv ps steps"
    and t: "tr_plan_id t = pid" "tr_revision t = rv" and chain: "continues db t"
    and run: "commit_transition E now tenant t db = Inr db'"
  shows "\<exists>ps' steps'. plan_log db' pid rv = plan_log db pid rv @ [t]
    \<and> apply_transition_state (ps, steps) t = Inr (ps', steps') \<and> holds_state db' pid rv ps' steps'"
proof -
  obtain row where row: "row \<in> set (db_plans db)" "plan_key row = (pid, rv)"
    using holds by (auto simp: holds_state_def)
  obtain db1 where applied: "apply_transition_tx now tenant t db = Inr db1"
    and db': "db' = db1\<lparr>db_transitions := db_transitions db1 @ [t]\<rparr>"
    using run by (auto simp: commit_transition_def insert_transition_tx_def result_simps)
  have log1: "db_transitions db1 = db_transitions db" by (rule apply_transition_frame(4) [OF applied])
  obtain n prev where replay: "replay_log E (pl_plan_json row) (plan_log db pid rv) = Inr (n, prev, ps, steps)"
    using holds_state_replay [OF ok row] holds by blast
  have "\<forall>u \<in> set (plan_log db pid rv). tr_sequence u \<le> tr_sequence t"
    using replay_position [OF replay] chain t
    by (auto simp: continues_def last_transition_chain_end Let_def)
  then have log: "plan_log db' pid rv = plan_log db pid rv @ [t]"
    using plan_log_insert [of db pid rv t] t by (simp add: plan_log_def db' of_plan_def log1)
  have "(plan_key row, pl_plan_json row) \<in> set (map (\<lambda>r. (plan_key r, pl_plan_json r)) (db_plans db'))"
    using row(1) apply_transition_json [OF applied] by (simp add: db')
  then obtain row' where row': "row' \<in> set (db_plans db')" "plan_key row' = (pid, rv)"
      "pl_plan_json row' = pl_plan_json row"
    using row(2) by auto
  have "checkpoints_ok db'"
    using ok checkpoints_ok_frame [of db' db] apply_transition_frame(1) [OF applied]
    by (simp add: consistent_def db')
  then have ok': "consistent E db'"
    using ok commit_transition_inv [OF _ chain run] by (simp add: consistent_def)
  obtain ps' steps' n' prev' where replay': "replay_log E (pl_plan_json row') (plan_log db' pid rv)
      = Inr (n', prev', ps', steps')"
    using ok' row' by (auto simp: consistent_def store_inv_def row_consistent_def plan_key_def)
  then have "apply_transition_state (ps, steps) t = Inr (ps', steps')"
    unfolding row'(3) log replay_log_snoc replay
    by (auto simp: replay_step_def result_simps split: if_splits)
  with log holds_state_replay [OF ok' row'(1,2)] replay' show ?thesis by blast
qed

lemma append_refines:
  assumes ok: "consistent E db" and holds: "holds_state db pid rv ps steps"
    and run: "append_transition E tenant pid rv e i a b key now db = Inr db'"
  shows "\<exists>t ps' steps'. plan_log db' pid rv = plan_log db pid rv @ [t]
    \<and> tr_entity t = e \<and> tr_entity_id t = i \<and> tr_from_state t = a \<and> tr_to_state t = b
    \<and> tr_idempotency_key t = key
    \<and> apply_transition_state (ps, steps) t = Inr (ps', steps') \<and> holds_state db' pid rv ps' steps'"
proof -
  let ?db = "snd (fresh_uuid db)"
  have frame: "db_plans ?db = db_plans db" "db_steps ?db = db_steps db"
      "db_transitions ?db = db_transitions db" "db_checkpoints ?db = db_checkpoints db"
    by (simp_all add: fresh_uuid_def)
  then have log: "plan_log ?db = plan_log db" by (intro ext) (simp add: plan_log_def)
  obtain t db1 where t: "tr_plan_id t = pid" "tr_revision t = rv" "tr_entity t = e" "tr_entity_id t = i"
      "tr_from_state t = a" "tr_to_state t = b" "tr_idempotency_key t = key" "verify_hash E t = Inr ()"
    and chain: "continues db t" and commit: "commit_transition E now tenant t ?db = Inr db'"
    using run by (rule append_transition_parts) blast
  have "continues ?db t" using chain by (simp add: continues_def last_transition_tx_def log)
  moreover have "consistent E ?db" using ok consistent_frame frame by blast
  moreover have "holds_state ?db pid rv ps steps" using holds frame by (simp add: holds_state_def)
  ultimately show ?thesis using commit_refines [OF _ _ t(1,2) _ commit] t log by fastforce
qed

lemma append_plan_refines:
  assumes "consistent E db" "holds_state db (ps_plan_id plan) (ps_revision plan) ps steps"
    and "append_plan_transition_tx E tenant plan a b key now db = Inr db'"
  shows "ps = a" "plan_valid_next a b" "holds_state db' (ps_plan_id plan) (ps_revision plan) b steps"
  using append_refines [OF assms(1,2) assms(3) [unfolded append_plan_transition_tx_def]]
  by (auto simp: apply_transition_state_def result_simps split: if_splits)

lemma append_step_refines:
  assumes "consistent E db" "holds_state db (ps_plan_id plan) (ps_revision plan) ps steps"
    and "append_step_transition_tx E plan sid a b key now db = Inr db'"
  shows "map_of steps sid = Some a" "step_valid_next a b"
    "holds_state db' (ps_plan_id plan) (ps_revision plan) ps (bt_insert sid b steps)"
  using append_refines [OF assms(1,2) assms(3) [unfolded append_step_transition_tx_def]]
  by (auto simp: apply_transition_state_def result_simps split: if_splits)

lemma holds_state_frame:
  assumes "db_plans db' = db_plans db" "db_steps db' = db_steps db"
  shows "holds_state db' pid rv ps steps \<longleftrightarrow> holds_state db pid rv ps steps"
  using assms by (simp add: holds_state_def)

lemma loaded_holds_state:
  assumes ok: "consistent E db" and load: "load_plan_tx E tenant reference db = Inr plan"
    and states: "load_step_states_tx db (ps_plan_id plan) (ps_revision plan) = Inr steps"
  shows "holds_state db (ps_plan_id plan) (ps_revision plan) (ps_state plan) steps"
proof -
  have "select_plan_state db (ps_plan_id plan) (ps_revision plan) tenant = Inr (plan_state_str (ps_state plan))"
    by (rule load_plan_tx_facts(7) [OF load])
  moreover have "steps_view (db_steps db) (ps_plan_id plan) (ps_revision plan) steps"
    using states load_step_states_iff ok by (simp add: consistent_def store_inv_def)
  ultimately show ?thesis
    by (force simp: holds_state_def select_plan_state_def result_simps same_plan_def plan_key_def
        dest!: find_SomeD)
qed

lemma loaded_holds:
  assumes ok: "consistent E db" and load: "load_plan_tx E tenant reference db = Inr plan"
  shows "\<exists>steps. holds_state db (ps_plan_id plan) (ps_revision plan) (ps_state plan) steps"
proof -
  obtain row where row: "row \<in> set (db_plans db)" "same_plan (ps_plan_id plan) (ps_revision plan) tenant row"
      "pl_state row = plan_state_str (ps_state plan)"
    using load_plan_tx_facts(7) [OF load]
    by (auto simp: select_plan_state_def result_simps dest!: find_SomeD)
  note key = same_plan_key [OF row(2)]
  obtain steps where "steps_view (db_steps db) (ps_plan_id plan) (ps_revision plan) steps"
    using ok row(1) key by (force simp: consistent_def store_inv_def row_consistent_def plan_key_def)
  with row key show ?thesis by (auto simp: holds_state_def)
qed

lemma holds_state_checkpoint:
  "insert_checkpoint_tx p v step_id phase status digest now db = Inr db' \<Longrightarrow>
   holds_state db' pid rv ps steps \<longleftrightarrow> holds_state db pid rv ps steps"
  by (intro holds_state_frame insert_checkpoint_tx_frame)

lemma holds_state_task [simp]: "holds_state (update_task tid tenant f db) = holds_state db"
  by (intro ext) (simp add: holds_state_def update_task_def)

lemma holds_state_attempts [simp]: "holds_state (increment_attempts plan sid db) = holds_state db"
proof (intro ext)
  fix pid rv ps steps
  let ?g = "\<lambda>r. if same_step (ps_plan_id plan) (ps_revision plan) (step_str sid) r
    then r\<lparr>sr_attempts := Suc (sr_attempts r)\<rparr> else r"
  have "steps_view (map ?g (db_steps db)) pid rv steps \<longleftrightarrow> steps_view (db_steps db) pid rv steps"
    by (rule steps_view_same) (simp_all add: step_entry_def step_of_def)
  then show "holds_state (increment_attempts plan sid db) pid rv ps steps = holds_state db pid rv ps steps"
    by (simp add: holds_state_def increment_attempts_def update_where_def)
qed

subsection \<open>Claims\<close>

lemma start_step_effect:
  assumes run: "start_step E plan states s cc now db = Inr db'" and ok: "consistent E db"
    and key: "validate_plan_key (step_str (st_id s)) ''step_id'' = Inr ()"
    and holds: "holds_state db (ps_plan_id plan) (ps_revision plan) (ps_state plan) states"
    and state: "map_of states (st_id s) \<in> {Some StepReady, Some StepPending}"
  shows "\<exists>states'. holds_state db' (ps_plan_id plan) (ps_revision plan)
      (if ps_state plan = Approved then Running else ps_state plan) states'
    \<and> map_of states' = (map_of states)(st_id s \<mapsto> StepRunning)"
proof -
  let ?i = "st_id s" and ?pid = "ps_plan_id plan" and ?rv = "ps_revision plan"
  let ?ps = "if ps_state plan = Approved then Running else ps_state plan"
  obtain db1 current row db2 db3 where
    plan: "(if ps_state plan = Approved then
        append_plan_transition_tx E (ps_tenant plan) plan Approved Running (''claim:plan:'' @ step_str ?i) now db
      else Inr db) = Inr db1"
    and current: "map_of states ?i = Some current"
    and row: "select_step_row db1 plan ?i = Inr row"
    and ready: "(if current = StepPending then
        append_step_transition_tx E plan ?i StepPending StepReady
        (''claim:ready:'' @ step_str ?i @ '':'' @ show_nat (sr_attempts row + 1)) now db1 else Inr db1) = Inr db2"
    and running: "append_step_transition_tx E plan ?i StepReady StepRunning
        (''claim:running:'' @ step_str ?i @ '':'' @ show_nat (sr_attempts row + 1)) now db2 = Inr db3"
    and checkpoint: "insert_checkpoint_tx ?pid ?rv (Some ?i) BeforeStep
        CheckpointPending (cc_state_digest cc) now (increment_attempts plan ?i db3) = Inr db'"
    using run unfolding start_step_def Let_def and_then_Inr_iff ok_or_Inr_iff
    by (elim exE conjE) (rule that)
  have h1: "holds_state db1 ?pid ?rv ?ps states" and c1: "consistent E db1"
    using plan append_plan_refines(3) [OF ok holds] ok holds by (auto split: if_splits)
  obtain m where h2: "holds_state db2 ?pid ?rv ?ps m" and c2: "consistent E db2"
    and m: "(map_of m)(?i \<mapsto> StepRunning) = (map_of states)(?i \<mapsto> StepRunning)"
  proof (cases "current = StepPending")
    case True
    with ready append_step_refines(3) [OF c1 h1] c1 show ?thesis
      by (intro that [of "bt_insert ?i StepReady states"]) auto
  next
    case False
    with ready h1 c1 show ?thesis by (intro that [of states]) auto
  qed
  have "holds_state db3 ?pid ?rv ?ps (bt_insert ?i StepRunning m)"
    by (rule append_step_refines(3) [OF c2 h2 running])
  with holds_state_checkpoint [OF checkpoint] m show ?thesis by auto
qed

definition claim_effect :: "env \<Rightarrow> plan_spec \<Rightarrow> plan_step \<Rightarrow> instant \<Rightarrow> db \<Rightarrow> db \<Rightarrow> bool" where
  "claim_effect E plan s now db db' \<longleftrightarrow>
     (\<exists>states states'.
        holds_state db (ps_plan_id plan) (ps_revision plan) (ps_state plan) states
        \<and> map_of states (st_id s) \<in> {Some StepReady, Some StepPending}
        \<and> (\<forall>d \<in> set (st_depends_on s). map_of states d = Some StepSucceeded)
        \<and> holds_state db' (ps_plan_id plan) (ps_revision plan)
            (if ps_state plan = Approved then Running else ps_state plan) states'
        \<and> map_of states' = (map_of states)(st_id s \<mapsto> StepRunning))"

lemma claim_lemma:
  assumes ok: "consistent E db"
    and run: "prepare_planned_claim_tx E task reference cc now db = Inr (Some s, db')"
  shows "\<exists>plan. load_plan_tx E (ta_tenant task) reference db = Inr plan \<and> s \<in> set (ps_steps plan)
    \<and> ps_state plan \<in> {Approved, Running, Compensating} \<and> claim_effect E plan s now db db'
    \<and> (st_risk s \<noteq> ReadOnly \<longrightarrow> (\<exists>a \<in> set (load_approvals_tx db plan).
         ap_approver a \<noteq> ps_operator plan
         \<and> allows_role (minimum_approval (st_risk s)) (ap_approver_role a)
         \<and> now < ap_expires_at a \<and> \<not> ap_revoked a \<and> ap_plan_digest a = ps_digest plan))"
  using run
proof (cases rule: prepare_planned_claim_cases)
  case (2 plan states s')
  then have s: "select_step E plan task cc states (load_approvals_tx db plan) now = Some s" by simp
  note sel = select_step_facts [OF s]
  have holds: "holds_state db (ps_plan_id plan) (ps_revision plan) (ps_state plan) states"
    by (rule loaded_holds_state [OF ok 2(2,3)])
  have distinct: "distinct (map fst states)"
    using holds by (simp add: holds_state_def steps_view_def btree_ok_distinct)
  have structure': "validate_structure plan = Inr ()" by (rule load_plan_tx_facts(1) [OF 2(2)])
  obtain states' where after: "holds_state db' (ps_plan_id plan) (ps_revision plan)
      (if ps_state plan = Approved then Running else ps_state plan) states'"
      "map_of states' = (map_of states)(st_id s \<mapsto> StepRunning)"
    using start_step_effect [OF _ ok valid_step_key [OF structure' sel(1)] holds sel(2)] 2(1,7) by blast
  have "\<forall>d \<in> set (st_depends_on s). map_of states d = Some StepSucceeded"
    using sel(3) distinct by (auto simp: succeeded_steps_def map_of_eq_Some_iff subset_iff)
  with holds sel(2) after have "claim_effect E plan s now db db'"
    unfolding claim_effect_def by blast
  moreover have "\<exists>a \<in> set (load_approvals_tx db plan). ap_approver a \<noteq> ps_operator plan
         \<and> allows_role (minimum_approval (st_risk s)) (ap_approver_role a)
         \<and> now < ap_expires_at a \<and> \<not> ap_revoked a \<and> ap_plan_digest a = ps_digest plan"
    if "st_risk s \<noteq> ReadOnly"
  proof -
    have "find_step plan (st_id s) = Some s"
      unfolding find_step_def
      by (rule find_distinct_key [OF validate_structure_facts(7) [OF structure'] sel(1)]) simp
    from executable_risky_step [OF sel(4) _ _ this that] show ?thesis
      by (simp add: claim_context_of_def for_step_def new_context_def)
  qed
  ultimately show ?thesis using 2(2,4) sel(1) by blast
qed simp

end
