(* ===== verification/Sample_Store.thy ===== *)
theory Sample_Store
  imports Plan_Store
begin

text \<open>
  A concrete store, used wherever a theorem about the store is applied to data: the sample plan is
  saved, approved by the administrator, admitted, and its two steps are claimed and finished one
  after the other. The libraries the crate calls are instantiated by concrete functions.
\<close>

definition sample_hash :: "nat \<Rightarrow> string" where
  "sample_hash n = replicate (64 - length (show_nat n)) (CHR ''0'') @ show_nat n"

definition sample_env :: env where
  "sample_env = \<lparr>sha_plan = sample_sha, sha_transition = (\<lambda>m. sample_hash (tr_sequence m)),
     rfc3339 = (\<lambda>t. show_nat (nat t)), uuid_text = show_nat\<rparr>"

definition sample_who :: principal where
  "sample_who = \<lparr>pr_operator = sample_admin, pr_tenant = sample_tenant, pr_role = Administrator\<rparr>"

definition sample_owner :: principal where
  "sample_owner = \<lparr>pr_operator = sample_proposer, pr_tenant = sample_tenant, pr_role = Operator\<rparr>"

definition sample_envelope :: task_envelope where
  "sample_envelope = \<lparr>te_task_id = TaskId 1, te_tenant = sample_tenant, te_operator = sample_proposer,
     te_objective = ''store'', te_budget = default_budget, te_dry_run = True,
     te_context = default_context, te_created_at = 5\<rparr>"

definition sample_reference :: plan_task_reference where
  "sample_reference = \<lparr>rf_plan_id = PlanId 7, rf_revision = 1, rf_digest = ps_digest sample_draft\<rparr>"

definition sample_row :: task_row where
  "sample_row = \<lparr>tk_task_id = TaskId 1, tk_session_id = 3, tk_tenant = sample_tenant,
     tk_idempotency_key = ''k'', tk_request_fingerprint = ''f'', tk_envelope_json = sample_envelope,
     tk_status = ''queued'', tk_priority = 0, tk_attempts = 0, tk_max_attempts = 3,
     tk_next_attempt_at = 5, tk_cancel_requested = False, tk_lease_until = None,
     tk_lease_token = None, tk_result_json = None, tk_last_error = None, tk_created_at = 5,
     tk_updated_at = 5, tk_completed_at = None, tk_plan_id = Some (PlanId 7),
     tk_plan_revision = Some 1, tk_plan_digest = Some (ps_digest sample_draft),
     tk_plan_step_id = None\<rparr>"

definition sample_task :: "plan_step_id option \<Rightarrow> task_record" where
  "sample_task s = \<lparr>ta_task_id = TaskId 1, ta_session_id = 3, ta_tenant = sample_tenant,
     ta_idempotency_key = ''k'', ta_request_fingerprint = ''f'', ta_envelope = sample_envelope,
     ta_status = TaskIsRunning, ta_priority = 0, ta_attempts = 1, ta_max_attempts = 3,
     ta_next_attempt_at = 5, ta_cancel_requested = False, ta_lease_until = Some 99,
     ta_lease_token = Some 4, ta_plan_execution_scope = None, ta_result = None,
     ta_last_error = None, ta_created_at = 5, ta_updated_at = 5, ta_completed_at = None,
     ta_plan_id = Some (PlanId 7), ta_plan_revision = Some 1,
     ta_plan_digest = Some (ps_digest sample_draft), ta_plan_step_id = s\<rparr>"

definition sample_cc :: plan_claim_context where
  "sample_cc = \<lparr>cc_circuit_closed = True, cc_granted_capabilities = [MemoryWrite],
     cc_remaining_budget = None, cc_state_digest = None\<rparr>"

subsection \<open>The tables at each point\<close>

text \<open>The log of the whole run; each stage has a prefix of it, and of the checkpoints.\<close>

definition sample_entry ::
    "nat \<Rightarrow> plan_step_id option \<Rightarrow> transition_state \<Rightarrow> transition_state \<Rightarrow> string \<Rightarrow> instant \<Rightarrow>
     plan_store_transition" where
  "sample_entry n i a b key t =
     \<lparr>tr_transition_id = 999 + n, tr_plan_id = PlanId 7, tr_revision = 1, tr_sequence = n,
      tr_entity = (if i = None then EntityPlan else EntityStep), tr_entity_id = i,
      tr_from_state = a, tr_to_state = b, tr_idempotency_key = key,
      tr_previous_hash = (if n = 1 then None else Some (sample_hash (n - 1))),
      tr_created_at = t, tr_event_hash = sample_hash n\<rparr>"

definition sample_log :: "plan_store_transition list" where
  "sample_log =
    [sample_entry 1 None (PlanSt Draft) (PlanSt Proposed) ''approval:proposed:90'' 10,
     sample_entry 2 None (PlanSt Proposed) (PlanSt Validated) ''approval:validated:90'' 10,
     sample_entry 3 None (PlanSt Validated) (PlanSt Approved) ''approval:approved:90'' 10,
     sample_entry 4 None (PlanSt Approved) (PlanSt Running) ''claim:plan:a'' 12,
     sample_entry 5 (Some (PlanStepId ''a'')) (StepSt StepPending) (StepSt StepReady) ''claim:ready:a:1'' 12,
     sample_entry 6 (Some (PlanStepId ''a'')) (StepSt StepReady) (StepSt StepRunning) ''claim:running:a:1'' 12,
     sample_entry 7 (Some (PlanStepId ''a'')) (StepSt StepRunning) (StepSt StepSucceeded)
       ''finish:succeeded:a:1'' 13,
     sample_entry 8 (Some (PlanStepId ''b'')) (StepSt StepPending) (StepSt StepReady) ''claim:ready:b:1'' 14,
     sample_entry 9 (Some (PlanStepId ''b'')) (StepSt StepReady) (StepSt StepRunning) ''claim:running:b:1'' 14,
     sample_entry 10 (Some (PlanStepId ''b'')) (StepSt StepRunning) (StepSt StepSucceeded)
       ''finish:succeeded:b:1'' 15,
     sample_entry 11 None (PlanSt Running) (PlanSt Succeeded) ''finish:plan:succeeded'' 15]"

definition sample_checkpoint ::
    "nat \<Rightarrow> string option \<Rightarrow> string \<Rightarrow> string \<Rightarrow> string option \<Rightarrow> instant \<Rightarrow> checkpoint_row" where
  "sample_checkpoint n i phase status digest t =
     \<lparr>cp_plan_id = PlanId 7, cp_revision = 1, cp_sequence = n, cp_step_id = i, cp_phase = phase,
      cp_status = status, cp_state_digest = digest, cp_created_at = t\<rparr>"

definition sample_checkpoints :: "checkpoint_row list" where
  "sample_checkpoints =
    [sample_checkpoint 1 None ''approval'' ''succeeded'' None 10,
     sample_checkpoint 2 None ''preflight'' ''succeeded'' (Some (ps_digest sample_draft)) 11,
     sample_checkpoint 3 (Some ''a'') ''before_step'' ''pending'' None 12,
     sample_checkpoint 4 (Some ''a'') ''after_step'' ''succeeded'' None 13,
     sample_checkpoint 5 (Some ''b'') ''before_step'' ''pending'' None 14,
     sample_checkpoint 6 (Some ''b'') ''after_step'' ''succeeded'' None 15]"

text \<open>The tables with the state and attempts of the plan and its steps, the number of entries of the
  log, the number of checkpoints, the approvals and the task.\<close>

definition sample_store ::
    "string \<Rightarrow> instant \<Rightarrow> string \<Rightarrow> nat \<Rightarrow> string \<Rightarrow> nat \<Rightarrow> nat \<Rightarrow> nat \<Rightarrow> approval_row list \<Rightarrow> task_row \<Rightarrow> db" where
  "sample_store plan t a a_attempts b b_attempts entries checkpoints approvals task =
     \<lparr>db_plans = [(plan_row_of 6 sample_draft)\<lparr>pl_state := plan, pl_updated_at := t\<rparr>],
      db_steps = [(step_row_of sample_draft step_write)\<lparr>sr_state := b, sr_attempts := b_attempts\<rparr>,
        (step_row_of sample_draft step_read)\<lparr>sr_state := a, sr_attempts := a_attempts\<rparr>],
      db_checkpoints = take checkpoints sample_checkpoints, db_approvals = approvals,
      db_transitions = take entries sample_log,
      db_compensations = [\<lparr>co_plan_id = PlanId 7, co_revision = 1, co_step_id = ''b'',
        co_compensation_step_id = ''a''\<rparr>],
      db_tasks = [task], db_uuid_seed = 1000 + entries\<rparr>"

definition approval_rows :: "approval_row list" where
  "approval_rows = [approval_row_of 10 ''go'' sample_approval]"

definition db_saved :: db where
  "db_saved = sample_store ''draft'' 6 ''pending'' 0 ''pending'' 0 0 0 [] sample_row"

definition db_approved :: db where
  "db_approved = sample_store ''approved'' 10 ''pending'' 0 ''pending'' 0 3 1 approval_rows sample_row"

definition db_admitted :: db where
  "db_admitted = sample_store ''approved'' 10 ''pending'' 0 ''pending'' 0 3 2 approval_rows sample_row"

definition db_claimed :: db where
  "db_claimed = sample_store ''running'' 12 ''running'' 1 ''pending'' 0 6 3 approval_rows sample_row"

definition db_half :: db where
  "db_half = sample_store ''running'' 12 ''succeeded'' 1 ''pending'' 0 7 4 approval_rows
     (release_task Queued 13 sample_row\<lparr>tk_next_attempt_at := 13\<rparr>)"

definition db_claimed_b :: db where
  "db_claimed_b = sample_store ''running'' 12 ''succeeded'' 1 ''running'' 1 9 5 approval_rows
     (release_task Queued 13 sample_row\<lparr>tk_next_attempt_at := 13\<rparr>)"

definition db_done :: db where
  "db_done = sample_store ''succeeded'' 15 ''succeeded'' 1 ''succeeded'' 1 11 6 approval_rows
     (release_task TaskIsSucceeded 15 sample_row\<lparr>tk_next_attempt_at := 13, tk_completed_at := Some 15\<rparr>)"

subsection \<open>Evaluation\<close>

text \<open>The definitions that the runs compute, and the congruence rules that evaluate a result before
  what is done with it.\<close>

lemma and_then_weak_cong: "r = r' \<Longrightarrow> and_then r f = and_then r' f"
  by simp

lemma show_nat_eval [simp]:
  "n < 10 \<Longrightarrow> show_nat n = [digit n]"
  "10 \<le> n \<Longrightarrow> show_nat n = show_nat (n div 10) @ [digit (n mod 10)]"
  by (subst show_nat.simps; simp)+

lemma digit_eval [simp]:
  "digit 0 = CHR ''0''" "digit (Suc 0) = CHR ''1''" "digit 2 = CHR ''2''" "digit 3 = CHR ''3''"
  "digit 4 = CHR ''4''" "digit 5 = CHR ''5''" "digit 6 = CHR ''6''" "digit 7 = CHR ''7''"
  "digit 8 = CHR ''8''" "digit 9 = CHR ''9''"
  by code_simp+

lemma sample_sha_eval [simp]:
  "length (ps_steps p) = 2 \<Longrightarrow> sample_sha p = CHR ''2'' # replicate 63 (CHR ''0'')"
  by (simp add: sample_sha_def)

lemma hexdigits_eval [simp]: "list_all ascii_hexdigit (replicate n (CHR ''0''))"
  by (simp add: list_all_iff ascii_hexdigit_def)

lemmas core_eval =
  and_then_def map_err_def is_ok_def ok_or_def ensure_def ascii_white_def wide_white_def
  ascii_alphanumeric_def ascii_hexdigit_def continuation_byte_def saturating_add_def bt_collect_def
  update_where_def count_where_def unwrap_or_def tenant_id_new_def operator_id_new_def allows_def
  for_role_def capabilities_allow_def default_provenance_def default_context_def from_principal_def
  with_provenance_def MAX_EXECUTION_STEPS_def MAX_TOOL_CALLS_def MAX_EXECUTION_ELAPSED_MS_def
  MAX_EXECUTION_COST_MICROUNITS_def validate_budget_def default_budget_def task_envelope_new_def
  less_eq_plan_step_id_def less_plan_step_id_def validate_plan_key_def validate_sha256_def
  plan_step_id_new_def less_eq_plan_risk_def less_plan_risk_def
  less_eq_plan_approval_requirement_def less_plan_approval_requirement_def requires_approval_def
  allows_role_def plan_is_terminal_def plan_valid_next_def plan_validate_transition_def
  step_valid_next_def step_validate_transition_def step_is_final_def sample_tenant_def
  sample_proposer_def sample_admin_def step_read_def step_write_def sample_draft_def
  sample_approval_def Let_def
  allows_tool_def validate_step_def ensure_acyclic_def validate_references_def
  validate_structure_def digest_material_def calculate_digest_def verify_digest_def
  plan_spec_new_def step_required_approval_def required_approval_def find_step_def validate_for_def

lemmas verifier_eval =
  new_context_def for_step_def is_executable_def is_valid_def default_verifier_def push_def
  has_blocking_violation_def safe_error_detail_def budget_at_least_def has_valid_approval_def
  satisfied_if_def referenced_step_def verify_step_shape_def verify_preflight_approval_def
  verify_dependencies_def verify_conditions_def verify_step_approval_def verify_structure_phase_def
  verify_target_def verify_phase_def final_status_def verify_def

lemmas reducer_eval =
  parse_plan_state_def parse_step_state_def parse_phase_def parse_checkpoint_status_def
  parse_task_status_def parse_circuit_def task_is_terminal_def validate_key_def
  store_validate_sha256_def calculate_hash_def verify_hash_def validate_transition_shape_def
  transition_new_def plan_task_reference_new_def empty_db_def same_plan_def same_step_def
  plan_exists_def constraint_def insert_plan_row_def insert_step_row_def insert_compensation_row_def
  insert_checkpoint_row_def of_plan_def plan_log_def last_transition_tx_def chain_next_def
  plan_steps_of_def plan_checkpoints_of_def last_checkpoint_sequence_def
  next_checkpoint_sequence_tx_def select_plan_state_def select_step_state_def update_plan_state_def
  update_step_state_def step_entry_def load_step_states_tx_def load_approvals_tx_def
  latest_plan_row_def plan_not_found_def load_plan_def load_plan_tx_def plan_row_of_def
  step_row_of_def insert_step_def save_plan_def insert_checkpoint_tx_def checkpoint_row_of_def
  checkpoint_admissible_def append_plan_checkpoint_def conversion_def checkpoint_of_row_def
  check_checkpoint_sequence_def apply_plan_transition_def apply_step_transition_def
  apply_transition_tx_def insert_transition_tx_def fresh_uuid_def append_transition_def
  append_plan_transition_tx_def append_step_transition_tx_def record_plan_transition_def
  apply_transition_state_def initial_reducer_def replay_step_def replay_log_def
  load_reducer_rows_def inspection_issue_of_def inspect_plan_def validate_plan_def
  list_plan_checkpoints_def transition_material.truncate_def numeral_2_eq_2 [symmetric]

lemmas recovery_eval =
  active_state_def active_text_def active_steps_tx_def recovery_insert_def recovery_step_def
  append_recovery_transitions_tx_def mark_active_steps_def recovery_checkpoint_def
  recover_commit_def reload_plan_def complete_states_def recover_unknown_def force_commit_def
  force_unknown_def safe_error_def resume_inconsistency_def active_plan_def report_of_def
  resume_loaded_def resume_plan_def mark_plan_row_unknown_def mark_step_row_unknown_def
  mark_plan_unknown_tx_def mark_plan_unknown_def

lemmas operation_eval =
  insert_approval_row_def approval_row_of_def save_plan_approval_def same_approval_intent_def
  validate_approval_shape_def approve_transitions_def reject_transitions_def decide_approval_def
  approve_fresh_def approve_plan_def update_task_for_resolution_def resolve_resume_def
  compensation_sources_def compensate_source_def ready_target_def resolve_compensate_def
  resolve_cancel_def resolve_decision_def resolve_tx_def resolve_plan_unknown_def same_task_def
  update_task_def release_task_def task_reference_def verify_plan_admission_tx_def
  admission_transitions_def record_plan_admission_tx_def succeeded_steps_def
  compensation_targets_def claim_candidates_def claim_context_of_def select_step_def
  select_step_row_def increment_attempts_def start_step_def prepare_planned_claim_tx_def
  retry_delay_ms_def millis_def post_step_context_def complete_compensation_tx_def
  finish_cancelled_def finish_succeeded_def finish_failed_def finish_verdict_def finish_reported_def
  in_execution_def finish_planned_step_tx_def cancel_queued_plan_def cancel_planned_task_tx_def
  recover_expired_plan_lease_tx_def

lemmas sample_eval =
  sample_env_def sample_who_def sample_owner_def sample_envelope_def sample_reference_def
  sample_row_def sample_task_def sample_cc_def sample_entry_def sample_log_def sample_checkpoint_def
  sample_checkpoints_def sample_store_def approval_rows_def db_saved_def db_approved_def
  db_admitted_def db_claimed_def db_half_def db_claimed_b_def db_done_def sample_hash_def

lemmas store_eval =
  core_eval verifier_eval reducer_eval recovery_eval operation_eval sample_eval

lemmas eval_cong = and_then_weak_cong let_weak_cong

subsection \<open>The run\<close>

lemma run_save:
  "save_plan sample_env 6 sample_draft empty_db
   = Inr (\<lparr>pp_plan = sample_draft, pp_updated_at = 6\<rparr>, db_saved\<lparr>db_tasks := []\<rparr>)"
  by (simp add: store_eval cong: eval_cong)

lemma run_approve:
  "approve_plan sample_env 10 sample_who sample_approval ''go'' db_saved = Inr (OutcomeApproved, db_approved)"
  by (simp add: store_eval cong: eval_cong)

lemma run_admit:
  "record_plan_admission_tx sample_env 11 sample_owner sample_envelope sample_reference db_approved
   = Inr (Some 90, db_admitted)"
  by (simp add: store_eval cong: eval_cong)

lemma run_claim:
  "prepare_planned_claim_tx sample_env (sample_task None) sample_reference sample_cc 12 db_admitted
   = Inr (Some step_read, db_claimed)"
  by (simp add: store_eval cong: eval_cong)

lemma run_finish:
  "finish_planned_step_tx sample_env (sample_task (Some (PlanStepId ''a''))) None None False 13 100 1000
     sample_cc db_claimed = Inr (PlanStepSucceeded 13, db_half)"
  by (simp add: store_eval cong: eval_cong)

lemma run_claim_b:
  "prepare_planned_claim_tx sample_env (sample_task None) sample_reference sample_cc 14 db_half
   = Inr (Some step_write, db_claimed_b)"
  by (simp add: store_eval cong: eval_cong)

lemma run_finish_b:
  "finish_planned_step_tx sample_env (sample_task (Some (PlanStepId ''b''))) None None False 15 100 1000
     sample_cc db_claimed_b = Inr (FinishSucceeded, db_done)"
  by (simp add: store_eval cong: eval_cong)

end
