(* ===== verification/Hash_Chain.thy ===== *)
theory Hash_Chain
  imports Shaka_Prelude
begin

text \<open>
  Append-only logs in which every entry carries the seal of the one before it. The locale is the
  interface between such a log and what can be said of tampering: \<open>link\<close> and \<open>seal\<close> are the two
  stored hashes of an entry, \<open>material\<close> what the hash is computed from, and \<open>sealed\<close> the check of
  one entry. Two chains that end in the same seal have the same material throughout, provided
  \<open>digest\<close> has no collision on it. The log of the plan reducer is one instance and the audit trail
  of the memory store another.
\<close>

locale hash_chain =
  fixes link :: "'e \<Rightarrow> 'h option" and seal :: "'e \<Rightarrow> 'h" and digest :: "'m \<Rightarrow> 'h"
    and material :: "'e \<Rightarrow> 'm" and sealed :: "'e \<Rightarrow> bool"
  assumes seal_digest: "sealed e \<Longrightarrow> seal e = digest (material e)"
    and link_bound: "sealed e \<Longrightarrow> sealed f \<Longrightarrow> material e = material f \<Longrightarrow> link e = link f"
begin

fun chained :: "'h option \<Rightarrow> 'e list \<Rightarrow> bool" where
  "chained l [] \<longleftrightarrow> True"
| "chained l (e # es) \<longleftrightarrow> sealed e \<and> link e = l \<and> chained (Some (seal e)) es"

definition end_of :: "'h option \<Rightarrow> 'e list \<Rightarrow> 'h option" where
  "end_of l es = (if es = [] then l else Some (seal (last es)))"

lemma chained_append: "chained l (es @ fs) \<longleftrightarrow> chained l es \<and> chained (end_of l es) fs"
  by (induction es arbitrary: l) (auto simp: end_of_def)

lemma chained_snoc: "chained l (es @ [e]) \<longleftrightarrow> chained l es \<and> sealed e \<and> link e = end_of l es"
  by (simp add: chained_append)

lemma chained_sealed: "chained l es \<Longrightarrow> e \<in> set es \<Longrightarrow> sealed e"
  by (induction es arbitrary: l) auto

lemma same_material:
  assumes "sealed e" "sealed f" "seal e = seal f" "inj_on digest M" "material e \<in> M" "material f \<in> M"
  shows "material e = material f" "link e = link f"
proof -
  show "material e = material f"
    using assms(1-3) seal_digest by (intro inj_onD [OF assms(4) _ assms(5,6)]) metis
  then show "link e = link f" using assms(1,2) link_bound by blast
qed

lemma same_end:
  assumes "chained None es" "chained None fs" "end_of None es = end_of None fs"
    and "inj_on digest (material ` (set es \<union> set fs))"
  shows "map material es = map material fs"
  using assms
proof (induction es arbitrary: fs rule: rev_induct)
  case Nil
  then show ?case by (simp add: end_of_def split: if_splits)
next
  case (snoc e es)
  from snoc.prems(3) obtain gs f where fs: "fs = gs @ [f]"
    by (cases fs rule: rev_cases) (auto simp: end_of_def)
  note chain = snoc.prems(1,2) [unfolded fs chained_snoc]
  have "seal e = seal f" using snoc.prems(3) by (simp add: end_of_def fs)
  with chain snoc.prems(4) have same: "material e = material f" "link e = link f"
    using same_material [of e f] by (auto simp: fs)
  have "map material es = map material gs"
  proof (rule snoc.IH)
    show "end_of None es = end_of None gs" using chain same(2) by simp
    show "inj_on digest (material ` (set es \<union> set gs))"
      using snoc.prems(4) by (rule inj_on_subset) (auto simp: fs)
  qed (use chain in simp_all)
  with same(1) show ?case by (simp add: fs)
qed

end

end
