(* ===== verification/Plan_Store_Facts.thy ===== *)
theory Plan_Store_Facts
  imports Sample_Store Hash_Chain
begin

text \<open>
  What the plan store promises its callers: the tables and the log agree in every store that can be
  reached, an operation is one move of the state machines, a step runs only when its dependencies
  have succeeded and somebody independent has approved it, a finished plan has finished every step,
  and what is not known to have finished becomes \<open>unknown\<close>.
\<close>

subsection \<open>The sample store is reachable\<close>

lemma sample_reachable: "reachable sample_env db_claimed" "reachable sample_env db_claimed_b"
  "reachable sample_env db_done" "reachable sample_env db_saved"
  "reachable sample_env db_approved" "reachable sample_env db_admitted" "reachable sample_env db_half"
proof -
  have "store_step sample_env empty_db (db_saved\<lparr>db_tasks := []\<rparr>)"
    by (rule Save [OF run_save]) (simp add: sample_draft_def)
  moreover have "store_step sample_env (db_saved\<lparr>db_tasks := []\<rparr>) db_saved"
    by (rule Tasks) simp_all
  ultimately show saved: "reachable sample_env db_saved" by (meson rtranclp.intros)
  then show approved: "reachable sample_env db_approved"
    by (rule rtranclp.rtrancl_into_rtrancl) (rule Approve [OF run_approve])
  from approved show admitted: "reachable sample_env db_admitted"
    by (rule rtranclp.rtrancl_into_rtrancl) (rule Admit [OF run_admit])
  from admitted show claimed: "reachable sample_env db_claimed"
    by (rule rtranclp.rtrancl_into_rtrancl) (rule Claim [OF run_claim])
  have "lease_boundary sample_env (sample_task (Some (PlanStepId ''a''))) db_claimed"
    by (simp add: lease_boundary_def store_eval cong: eval_cong)
  then have "store_step sample_env db_claimed db_half" by (rule Finish [OF run_finish])
  with claimed show half: "reachable sample_env db_half" by (rule rtranclp.rtrancl_into_rtrancl)
  from half show claimed_b: "reachable sample_env db_claimed_b"
    by (rule rtranclp.rtrancl_into_rtrancl) (rule Claim [OF run_claim_b])
  have "lease_boundary sample_env (sample_task (Some (PlanStepId ''b''))) db_claimed_b"
    by (simp add: lease_boundary_def store_eval cong: eval_cong)
  then have "store_step sample_env db_claimed_b db_done" by (rule Finish [OF run_finish_b])
  with claimed_b show "reachable sample_env db_done" by (rule rtranclp.rtrancl_into_rtrancl)
qed

lemma sample_latest:
  "latest_plan_row db_done (PlanId 7) sample_tenant
   = Some ((plan_row_of 6 sample_draft)\<lparr>pl_state := ''succeeded'', pl_updated_at := 15\<rparr>)"
  "latest_plan_row db_claimed (PlanId 7) sample_tenant
   = Some ((plan_row_of 6 sample_draft)\<lparr>pl_state := ''running'', pl_updated_at := 12\<rparr>)"
  by (simp_all add: store_eval cong: eval_cong)

subsection \<open>Inspection\<close>




lemma sample_boundary: "boundary_of_active_plan db_claimed (PlanId 7) 1"
proof -
  have "ps = Running" if "holds_state db_claimed (PlanId 7) 1 ps steps" for ps steps
    using that
    by (cases ps) (simp_all add: holds_state_def db_claimed_def sample_store_def)
  then show ?thesis by (auto simp: boundary_of_active_plan_def active_plan_def)
qed

lemma run_resume:
  "\<exists>report. snd (resume_plan sample_env 20 sample_tenant (PlanId 7) db_claimed) = Inr report
    \<and> re_status report = RecoveredUnknown \<and> ps_state (re_plan report) = Unknown
    \<and> map_of (re_step_states report) (PlanStepId ''a'') = Some StepUnknown"
  by (simp add: store_eval cong: eval_cong)


subsection \<open>The log\<close>

lemma replay_snocE:
  assumes "replay_log E p (ts @ [t]) = Inr (n, prev, ps, steps)"
  obtains prev' ps' steps' where "replay_log E p ts = Inr (tr_sequence t, prev', ps', steps')"
    "tr_previous_hash t = prev'" "verify_hash E t = Inr ()"
    "apply_transition_state (ps', steps') t = Inr (ps, steps)"
    "n = Suc (tr_sequence t)" "prev = Some (tr_event_hash t)"
proof -
  obtain m prev' ps' steps' where r: "replay_log E p ts = Inr (m, prev', ps', steps')"
    and s: "replay_step E (m, prev', ps', steps') t = Inr (n, prev, ps, steps)"
    using assms by (auto simp: replay_log_snoc and_then_Inr_iff)
  show ?thesis
    using r s that by (auto simp: replay_step_def is_ok_iff result_simps split: if_splits)
qed

interpretation plan_chain: hash_chain tr_previous_hash tr_event_hash "sha_transition E"
  transition_material.truncate "\<lambda>t. verify_hash E t = Inr ()" for E
proof unfold_locales
  show "tr_event_hash e = sha_transition E (transition_material.truncate e)"
    if "verify_hash E e = Inr ()" for e :: plan_store_transition
    using that by (simp add: verify_hash_def calculate_hash_def split: if_splits)
  show "tr_previous_hash e = tr_previous_hash f"
    if "transition_material.truncate e = transition_material.truncate f" for e f :: plan_store_transition
    using that by (simp add: transition_material.truncate_def)
qed

lemma replay_chained:
  assumes "replay_log E p ts = Inr (n, prev, ps, steps)"
  shows "plan_chain.chained E None ts \<and> prev = plan_chain.end_of None ts"
  using assms
proof (induction ts arbitrary: n prev ps steps rule: rev_induct)
  case Nil
  then show ?case by (auto simp: replay_log_def initial_reducer_def plan_chain.end_of_def)
next
  case (snoc t ts)
  from snoc.prems show ?case
    by (rule replay_snocE) (use snoc.IH in \<open>auto simp: plan_chain.chained_snoc plan_chain.end_of_def\<close>)
qed

lemma consistent_log:
  assumes "consistent E db" "r \<in> set (db_plans db)"
  shows "\<exists>n prev ps steps.
    replay_log E (pl_plan_json r) (plan_log db (pl_plan_id r) (pl_revision r)) = Inr (n, prev, ps, steps)
    \<and> holds_state db (pl_plan_id r) (pl_revision r) ps steps"
proof -
  obtain n prev ps steps where
    *: "replay_log E (pl_plan_json r) (plan_log db (pl_plan_id r) (pl_revision r)) = Inr (n, prev, ps, steps)"
    "pl_state r = plan_state_str ps" "steps_view (db_steps db) (pl_plan_id r) (pl_revision r) steps"
    using assms by (auto simp: consistent_def store_inv_def row_consistent_def)
  then have "holds_state db (pl_plan_id r) (pl_revision r) ps steps"
    using assms(2) by (auto simp: holds_state_def plan_key_def)
  with * show ?thesis by blast
qed

lemma sealed_inject:
  assumes "verify_hash E t = Inr ()" "verify_hash E u = Inr ()"
    "transition_material.truncate t = transition_material.truncate u"
  shows "t = u"
proof -
  have "tr_event_hash t = tr_event_hash u"
    using assms plan_chain.seal_digest by metis
  with assms(3) show ?thesis by (cases t; cases u) (simp add: transition_material.truncate_def)
qed

text \<open>The log is tamper evident: two stores whose last entries for a plan carry the same hash have
  the same log for it, entry by entry, if SHA-256 has no collision among the entries.\<close>

theorem log_determined_by_last_hash:
  assumes "reachable E db" "reachable E db'" "r \<in> set (db_plans db)" "r' \<in> set (db_plans db')"
    and "plan_key r = (pid, rv)" "plan_key r' = (pid, rv)"
    and "map_option snd (last_transition_tx db pid rv) = map_option snd (last_transition_tx db' pid rv)"
    and "inj_on (sha_transition E)
      (transition_material.truncate ` (set (plan_log db pid rv) \<union> set (plan_log db' pid rv)))"
  shows "plan_log db pid rv = plan_log db' pid rv"
proof -
  have chain: "plan_chain.chained E None (plan_log d pid rv)
      \<and> plan_chain.end_of None (plan_log d pid rv) = map_option snd (last_transition_tx d pid rv)"
    if reach: "reachable E d" and row: "s \<in> set (db_plans d)" "plan_key s = (pid, rv)" for d s
  proof -
    obtain n prev ps steps where "replay_log E (pl_plan_json s) (plan_log d pid rv) = Inr (n, prev, ps, steps)"
      using consistent_log [OF reachable_consistent [OF reach] row(1)] row(2) by (auto simp: plan_key_def)
    from replay_chained [OF this] show ?thesis
      by (simp add: plan_chain.end_of_def last_transition_tx_def Let_def)
  qed
  note left = conjunct1 [OF chain [OF assms(1,3,5)]] conjunct2 [OF chain [OF assms(1,3,5)]]
    and right = conjunct1 [OF chain [OF assms(2,4,6)]] conjunct2 [OF chain [OF assms(2,4,6)]]
  have "map transition_material.truncate (plan_log db pid rv)
      = map transition_material.truncate (plan_log db' pid rv)"
    using plan_chain.same_end [OF left(1) right(1) _ assms(8)] left(2) right(2) assms(7) by simp
  moreover have "inj_on transition_material.truncate (set (plan_log db pid rv) \<union> set (plan_log db' pid rv))"
    using plan_chain.chained_sealed [OF left(1)] plan_chain.chained_sealed [OF right(1)] sealed_inject
    by (intro inj_onI) blast
  ultimately show ?thesis by (simp add: inj_on_map_eq_map)
qed

lemma replicate_snoc: "replicate 63 (CHR ''0'') = replicate 62 (CHR ''0'') @ ''0''"
  by (simp add: numeral_eq_Suc)

lemma sample_log_inj:
  "inj_on (sha_transition sample_env) (transition_material.truncate ` set sample_log)"
proof (rule inj_on_imageI)
  have "distinct (map (\<lambda>t. sample_hash (tr_sequence t)) sample_log)"
    by (simp add: sample_log_def sample_entry_def sample_hash_def replicate_snoc)
  then have "inj_on (\<lambda>t. sample_hash (tr_sequence t)) (set sample_log)" by (simp add: distinct_map)
  then show "inj_on (sha_transition sample_env \<circ> transition_material.truncate) (set sample_log)"
    by (simp add: comp_def sample_env_def transition_material.truncate_def)
qed

theorem log_determined_by_last_hash_witness:
  "db_approved \<noteq> db_admitted \<and> plan_log db_approved (PlanId 7) 1 = plan_log db_admitted (PlanId 7) 1"
proof -
  have log: "set (plan_log d (PlanId 7) 1) \<subseteq> set sample_log" if "d \<in> {db_approved, db_admitted}" for d
    using that set_take_subset [of 3 sample_log]
    by (auto simp: set_plan_log db_approved_def db_admitted_def sample_store_def)
  have "plan_log db_approved (PlanId 7) 1 = plan_log db_admitted (PlanId 7) 1"
  proof (rule log_determined_by_last_hash [OF sample_reachable(5,6)])
    show "hd (db_plans db_approved) \<in> set (db_plans db_approved)"
      "hd (db_plans db_admitted) \<in> set (db_plans db_admitted)"
      "plan_key (hd (db_plans db_approved)) = (PlanId 7, 1)"
      "plan_key (hd (db_plans db_admitted)) = (PlanId 7, 1)"
      by (simp_all add: db_approved_def db_admitted_def sample_store_def plan_key_def plan_row_of_def
          sample_draft_def)
    show "map_option snd (last_transition_tx db_approved (PlanId 7) 1)
        = map_option snd (last_transition_tx db_admitted (PlanId 7) 1)"
      by (simp add: last_transition_tx_def plan_log_def db_approved_def db_admitted_def sample_store_def)
    show "inj_on (sha_transition sample_env) (transition_material.truncate `
        (set (plan_log db_approved (PlanId 7) 1) \<union> set (plan_log db_admitted (PlanId 7) 1)))"
      by (rule inj_on_subset [OF sample_log_inj]) (use log in blast)
  qed
  moreover have "length (db_checkpoints db_approved) \<noteq> length (db_checkpoints db_admitted)"
    by (simp add: db_approved_def db_admitted_def sample_store_def sample_checkpoints_def)
  ultimately show ?thesis by metis
qed

end
