(* ===== verification/Plan_Operation_Facts.thy ===== *)
theory Plan_Operation_Facts
  imports Plan_Store_Facts
begin

text \<open>
  The operations of the plan store one by one: a recorded transition is one move of the reducer, a
  claim starts a ready step, the end of a plan is the end of all its steps, an approval separates
  the approver from the proposer, and repeating a request changes nothing.
\<close>

subsection \<open>Recording a transition\<close>

lemma load_plan_holds:
  assumes ok: "consistent E db" and load: "load_plan E pid tenant db = Inr p"
  shows "\<exists>steps. holds_state db pid (ps_revision (pp_plan p)) (ps_state (pp_plan p)) steps"
proof -
  obtain r s where r: "latest_plan_row db pid tenant = Some r" "pl_state r = plan_state_str s"
      "pp_plan p = (pl_plan_json r)\<lparr>ps_state := s\<rparr>" "snapshot_ok E r"
    by (rule load_plan_Inr [OF load])
  note row = latest_plan_row_facts [OF r(1)]
  obtain ps steps where h: "holds_state db pid (pl_revision r) ps steps"
    using consistent_log [OF ok row(1)] row(2) by blast
  have "pl_state r = plan_state_str ps"
  proof -
    obtain r' where "r' \<in> set (db_plans db)" "plan_key r' = plan_key r" "pl_state r' = plan_state_str ps"
      using h row(2) by (auto simp: holds_state_def plan_key_def)
    with plan_row_unique [of db r' r] ok row(1) show ?thesis
      by (auto simp: consistent_def store_inv_def)
  qed
  with h r(2-4) show ?thesis by (auto simp: snapshot_ok_def Let_def)
qed

text \<open>C39: recording a transition is one move of the reducer: either the same transition (by key and
  hash) is in the log and nothing changes, or it is appended to the log, it is a move the state
  machine of the plan or of the step permits from the stored state, and the tables hold the state it
  leads to.\<close>

theorem record_transition_refines:
  assumes "reachable E db" "record_plan_transition E now tenant t db = Inr db'"
  shows "db' = db \<and> (\<exists>u \<in> set (db_transitions db). of_plan (tr_plan_id t) (tr_revision t) u
      \<and> tr_idempotency_key u = tr_idempotency_key t \<and> tr_event_hash u = tr_event_hash t)
    \<or> (\<exists>ps steps ps' steps'. holds_state db (tr_plan_id t) (tr_revision t) ps steps
      \<and> apply_transition_state (ps, steps) t = Inr (ps', steps')
      \<and> holds_state db' (tr_plan_id t) (tr_revision t) ps' steps'
      \<and> plan_log db' (tr_plan_id t) (tr_revision t) = plan_log db (tr_plan_id t) (tr_revision t) @ [t])"
proof -
  have ok: "consistent E db" by (rule reachable_consistent [OF assms(1)])
  obtain p where p: "load_plan E (tr_plan_id t) tenant db = Inr p" "tr_revision t = ps_revision (pp_plan p)"
    using assms(2) by (auto simp: record_plan_transition_def result_simps split: if_splits)
  obtain steps where h: "holds_state db (tr_plan_id t) (tr_revision t) (ps_state (pp_plan p)) steps"
    using load_plan_holds [OF ok p(1)] p(2) by auto
  show ?thesis
  proof (cases "find (\<lambda>u. of_plan (tr_plan_id t) (tr_revision t) u
              \<and> tr_idempotency_key u = tr_idempotency_key t) (db_transitions db)")
    case None
    then have "continues db t \<and> commit_transition E now tenant t db = Inr db'"
      using assms(2) by (auto simp: record_plan_transition_def result_simps Let_def continues_def
          commit_transition_def split: if_splits)
    then show ?thesis using commit_refines [OF ok h refl refl] h by blast
  next
    case (Some u)
    then show ?thesis
      using assms(2) find_SomeD [OF Some]
      by (auto simp: record_plan_transition_def result_simps split: if_splits)
  qed
qed

definition sample_proposal :: plan_store_transition where
  "sample_proposal = sample_entry 1 None (PlanSt Draft) (PlanSt Proposed) ''propose'' 7"

lemma run_record:
  "\<exists>db'. record_plan_transition sample_env 7 sample_tenant sample_proposal db_saved = Inr db'
     \<and> length (db_transitions db') = 1"
  by (simp add: sample_proposal_def store_eval cong: eval_cong)

theorem record_transition_refines_witness:
  "\<exists>db' ps' steps'. record_plan_transition sample_env 7 sample_tenant sample_proposal db_saved = Inr db'
     \<and> holds_state db' (PlanId 7) 1 ps' steps' \<and> plan_log db' (PlanId 7) 1 = [sample_proposal]"
proof -
  obtain db' where db': "record_plan_transition sample_env 7 sample_tenant sample_proposal db_saved = Inr db'"
    "length (db_transitions db') = 1"
    using run_record by blast
  then have "db' \<noteq> db_saved" by (auto simp: db_saved_def sample_store_def)
  moreover have "plan_log db_saved (PlanId 7) 1 = []"
    by (simp add: plan_log_def db_saved_def sample_store_def)
  ultimately show ?thesis
    using record_transition_refines [OF sample_reachable(4) db'(1)] db'(1)
    by (auto simp: sample_proposal_def sample_entry_def)
qed

subsection \<open>Claiming a step\<close>

text \<open>C5: a claim that returns a step returns one of the plan the task names, whose dependencies have
  all succeeded; the step moves from \<open>ready\<close> or \<open>pending\<close> to \<open>running\<close>, an approved plan starts to
  run, no other step changes, and a step above read-only risk has a live approval, bound to the
  plan's digest, by somebody other than its operator whose role covers the risk.\<close>

theorem claim_starts_ready_step:
  assumes "reachable E db"
    and "prepare_planned_claim_tx E task reference cc now db = Inr (Some s, db')"
  shows "\<exists>plan states states'. load_plan_tx E (ta_tenant task) reference db = Inr plan
    \<and> s \<in> set (ps_steps plan)
    \<and> holds_state db (ps_plan_id plan) (ps_revision plan) (ps_state plan) states
    \<and> map_of states (st_id s) \<in> {Some StepReady, Some StepPending}
    \<and> (\<forall>d \<in> set (st_depends_on s). map_of states d = Some StepSucceeded)
    \<and> holds_state db' (ps_plan_id plan) (ps_revision plan)
        (if ps_state plan = Approved then Running else ps_state plan) states'
    \<and> map_of states' = (map_of states)(st_id s \<mapsto> StepRunning)
    \<and> (st_risk s \<noteq> ReadOnly \<longrightarrow> (\<exists>a \<in> set (load_approvals_tx db plan).
         ap_approver a \<noteq> ps_operator plan
         \<and> allows_role (minimum_approval (st_risk s)) (ap_approver_role a)
         \<and> now < ap_expires_at a \<and> \<not> ap_revoked a \<and> ap_plan_digest a = ps_digest plan))"
  using claim_lemma [OF reachable_consistent [OF assms(1)] assms(2)]
  unfolding claim_effect_def by blast

theorem claim_starts_ready_step_witness:
  "\<exists>states'. holds_state db_claimed_b (PlanId 7) 1 Running states'
     \<and> map_of states' (PlanStepId ''b'') = Some StepRunning"
proof -
  have half: "reachable sample_env db_half" by (rule sample_reachable(7))
  have "load_plan_tx sample_env sample_tenant sample_reference db_half
      = Inr (sample_draft\<lparr>ps_state := Running\<rparr>)"
    by (simp add: store_eval cong: eval_cong)
  with claim_starts_ready_step [OF half run_claim_b] show ?thesis
    by (auto simp: sample_task_def step_write_def sample_draft_def)
qed

subsection \<open>Finishing a plan\<close>

lemma apply_transition_domain:
  "apply_transition_state (ps, steps) t = Inr (ps', steps') \<Longrightarrow> dom (map_of steps') = dom (map_of steps)"
  by (auto simp: apply_transition_state_def result_simps insert_absorb domI
      split: transition_entity.splits transition_state.splits if_splits)

lemma replay_domain:
  assumes "replay_log E p ts = Inr (n, prev, ps, steps)"
  shows "dom (map_of steps) = st_id ` set (ps_steps p)"
  using assms
proof (induction ts arbitrary: n prev ps steps rule: rev_induct)
  case Nil
  then have "steps = bt_collect (map (\<lambda>s. (st_id s, StepPending)) (ps_steps p))"
    by (simp add: replay_log_def initial_reducer_def)
  moreover have "dom (map_of (fold (\<lambda>(k, v) m. bt_insert k v m) ps m)) = fst ` set ps \<union> dom (map_of m)"
    for ps :: "(plan_step_id \<times> plan_step_state) list" and m
    by (induction ps arbitrary: m) (simp_all add: split_beta)
  ultimately show ?case by (simp add: bt_collect_def image_image)
next
  case (snoc t ts)
  from snoc.prems show ?case
    by (rule replay_snocE) (use snoc.IH apply_transition_domain in metis)
qed

lemma holds_state_domain:
  assumes ok: "consistent E db" and load: "load_plan_tx E tenant reference db = Inr plan"
    and holds: "holds_state db (ps_plan_id plan) (ps_revision plan) ps steps"
  shows "dom (map_of steps) = st_id ` set (ps_steps plan)"
proof -
  obtain row where row: "row \<in> set (db_plans db)" "plan_key row = (ps_plan_id plan, ps_revision plan)"
      "ps_steps (pl_plan_json row) = ps_steps plan"
    using load by (auto simp: load_plan_tx_def result_simps Let_def same_plan_def plan_key_def
        dest!: find_SomeD split: if_splits)
  from holds_state_replay [OF ok row(1,2)] holds replay_domain row(3) show ?thesis by metis
qed

lemma complete_compensation_outcome [simp]:
  "complete_compensation_tx E plan sid result now db \<noteq> Inr (FinishSucceeded, db')"
  by (auto simp: complete_compensation_tx_def Let_def result_simps split: if_splits)

lemma finish_succeeded_steps:
  assumes "finish_succeeded E task plan sid attempts result cc now db = Inr (FinishSucceeded, db')"
  shows "\<exists>db1. append_step_transition_tx E plan sid StepRunning StepSucceeded
        (''finish:succeeded:'' @ step_str sid @ '':'' @ show_nat attempts) now db = Inr db1
    \<and> (\<exists>db2. insert_checkpoint_tx (ps_plan_id plan) (ps_revision plan) (Some sid) AfterStep
        CheckpointSucceeded (cc_state_digest cc) now db1 = Inr db2
      \<and> count_where (\<lambda>r. sr_plan_id r = ps_plan_id plan \<and> sr_revision r = ps_revision plan
          \<and> sr_state r \<noteq> ''succeeded'') (db_steps db2) = 0
      \<and> (\<exists>db3. append_plan_transition_tx E (ps_tenant plan) plan Running Succeeded
          ''finish:plan:succeeded'' now db2 = Inr db3
        \<and> db' = update_task (ta_task_id task) (ta_tenant task)
            (\<lambda>r. (release_task TaskIsSucceeded now r)\<lparr>tk_result_json := result, tk_last_error := None,
               tk_completed_at := Some now\<rparr>) db3))"
  using assms by (auto simp: finish_succeeded_def Let_def and_then_Inr_iff split: if_splits)

lemma none_unfinished:
  assumes view: "steps_view (db_steps db) pid rv steps"
    and none: "count_where (\<lambda>r. sr_plan_id r = pid \<and> sr_revision r = rv \<and> sr_state r \<noteq> ''succeeded'')
      (db_steps db) = 0"
    and i: "map_of steps i = Some s"
  shows "s = StepSucceeded"
proof -
  obtain r where r: "r \<in> set (db_steps db)" "step_of pid rv r" "step_entry r = Inr (i, s)"
    using view i by (auto simp: steps_view_def)
  then have "sr_state r = ''succeeded''"
    using none by (auto simp: count_where_def filter_empty_conv step_of_def)
  with r(3) have "''succeeded'' = step_state_str s" by (simp add: step_entry_iff)
  then show ?thesis by (cases s) simp_all
qed

lemma finish_succeeded_effect:
  assumes ok: "consistent E db" and load: "load_plan_tx E tenant reference db = Inr plan"
    and key: "validate_plan_key (step_str sid) ''step_id'' = Inr ()"
    and run: "finish_succeeded E task plan sid attempts result cc now db = Inr (FinishSucceeded, db')"
  shows "\<exists>steps. holds_state db' (ps_plan_id plan) (ps_revision plan) Succeeded steps
    \<and> (\<forall>s \<in> set (ps_steps plan). map_of steps (st_id s) = Some StepSucceeded)"
proof -
  let ?pid = "ps_plan_id plan" and ?rv = "ps_revision plan"
  obtain db1 db2 db3 where step: "append_step_transition_tx E plan sid StepRunning StepSucceeded
        (''finish:succeeded:'' @ step_str sid @ '':'' @ show_nat attempts) now db = Inr db1"
    and checkpoint: "insert_checkpoint_tx ?pid ?rv (Some sid) AfterStep CheckpointSucceeded
        (cc_state_digest cc) now db1 = Inr db2"
    and none: "count_where (\<lambda>r. sr_plan_id r = ?pid \<and> sr_revision r = ?rv \<and> sr_state r \<noteq> ''succeeded'')
        (db_steps db2) = 0"
    and plan: "append_plan_transition_tx E (ps_tenant plan) plan Running Succeeded
        ''finish:plan:succeeded'' now db2 = Inr db3"
    and db': "\<exists>tid tenant f. db' = update_task tid tenant f db3"
    using finish_succeeded_steps [OF run] by blast
  obtain steps where h: "holds_state db ?pid ?rv (ps_state plan) steps"
    using loaded_holds [OF ok load] by blast
  note h1 = append_step_refines(3) [OF ok h step]
  then have h2: "holds_state db2 ?pid ?rv (ps_state plan) (bt_insert sid StepSucceeded steps)"
    using holds_state_checkpoint [OF checkpoint] by simp
  have c1: "consistent E db1"
    using append_consistent [OF ok] step unfolding append_step_transition_tx_def by blast
  have c2: "consistent E db2"
    using checkpoint_consistent [OF checkpoint c1] key by simp
  have done': "holds_state db3 ?pid ?rv Succeeded (bt_insert sid StepSucceeded steps)"
    by (rule append_plan_refines(3) [OF c2 h2 plan])
  have "map_of (bt_insert sid StepSucceeded steps) (st_id s) = Some StepSucceeded"
    if "s \<in> set (ps_steps plan)" for s
  proof -
    have "st_id s \<in> dom (map_of steps)" using holds_state_domain [OF ok load h] that by simp
    then obtain u where u: "map_of (bt_insert sid StepSucceeded steps) (st_id s) = Some u"
      by (cases "st_id s = sid") auto
    have "steps_view (db_steps db2) ?pid ?rv (bt_insert sid StepSucceeded steps)"
      using h2 by (simp add: holds_state_def)
    from none_unfinished [OF this none u] u show ?thesis by simp
  qed
  with done' db' show ?thesis by auto
qed

text \<open>C7: when the end of a step finishes its plan, the worker reported no error, the plan is
  \<open>succeeded\<close> in the tables and every step of the plan is \<open>succeeded\<close>.\<close>

theorem finished_plan_succeeded:
  assumes "reachable E db"
    and "finish_planned_step_tx E task result err retryable now base_ms max_ms cc db
      = Inr (FinishSucceeded, db')"
  shows "\<exists>reference plan steps. task_reference task = Inr reference
    \<and> load_plan_tx E (ta_tenant task) reference db = Inr plan \<and> err = None
    \<and> holds_state db' (ps_plan_id plan) (ps_revision plan) Succeeded steps
    \<and> (\<forall>s \<in> set (ps_steps plan). map_of steps (st_id s) = Some StepSucceeded)"
proof -
  have ok: "consistent E db" by (rule reachable_consistent [OF assms(1)])
  obtain reference plan sid row where plan: "task_reference task = Inr reference"
      "load_plan_tx E (ta_tenant task) reference db = Inr plan"
    and row: "select_step_row db plan sid = Inr row"
    and run: "finish_reported E task plan sid row result err retryable now base_ms max_ms cc db
      = Inr (FinishSucceeded, db')"
    using assms(2)
    by (auto simp: finish_planned_step_tx_def result_simps finish_cancelled_def split: if_splits)
  have key: "validate_plan_key (step_str sid) ''step_id'' = Inr ()"
    using step_row_key [OF ok select_step_row_facts(1) [OF row]] select_step_row_facts(2) [OF row] by simp
  have "err = None \<and> finish_succeeded E task plan sid (sr_attempts row) result cc now db
      = Inr (FinishSucceeded, db')"
    using run
    by (auto simp: finish_reported_def finish_verdict_def finish_failed_def Let_def result_simps
        split: option.splits if_splits)
  with finish_succeeded_effect [OF ok plan(2) key] plan show ?thesis by blast
qed

theorem finished_plan_succeeded_witness:
  "\<exists>steps. holds_state db_done (PlanId 7) 1 Succeeded steps
     \<and> map_of steps (PlanStepId ''a'') = Some StepSucceeded
     \<and> map_of steps (PlanStepId ''b'') = Some StepSucceeded"
proof -
  have "task_reference (sample_task (Some (PlanStepId ''b''))) = Inr sample_reference"
    "load_plan_tx sample_env sample_tenant sample_reference db_claimed_b
      = Inr (sample_draft\<lparr>ps_state := Running\<rparr>)"
    by (simp_all add: store_eval cong: eval_cong)
  with finished_plan_succeeded [OF sample_reachable(2) run_finish_b] show ?thesis
    by (auto simp: sample_task_def sample_draft_def step_read_def step_write_def)
qed

subsection \<open>Approvals\<close>

lemma append_plan_both:
  assumes "consistent E db \<and> holds_state db (ps_plan_id plan) (ps_revision plan) a steps"
    and "append_plan_transition_tx E tenant plan a b key now db = Inr db'"
  shows "consistent E db' \<and> holds_state db' (ps_plan_id plan) (ps_revision plan) b steps"
  using assms append_plan_refines(3) append_plan_consistent by blast

lemma guarded_append:
  assumes H: "consistent E db \<and> holds_state db (ps_plan_id plan) (ps_revision plan) s steps"
    and run: "(if s = a then
        and_then (append_plan_transition_tx E tenant plan a b key now db) (\<lambda>db. Inr (b, db))
      else Inr (s, db)) = Inr (s', db')"
  shows "consistent E db' \<and> holds_state db' (ps_plan_id plan) (ps_revision plan) s' steps"
proof (cases "s = a")
  case True
  with run have "append_plan_transition_tx E tenant plan a b key now db = Inr db'" "s' = b"
    by (auto simp: and_then_Inr_iff)
  with H True append_plan_both show ?thesis by blast
qed (use H run in simp)

lemma approve_transitions_parts:
  assumes "approve_transitions E now who plan a db = Inr db'"
  obtains db1 s1 db2 s2 where
    "(if ps_state plan = Draft then
          and_then (append_plan_transition_tx E (pr_tenant who) plan Draft Proposed
            (''approval:proposed:'' @ uuid_text E (ap_id a)) now db) (\<lambda>db. Inr (Proposed, db))
        else Inr (ps_state plan, db)) = Inr (s1, db1)"
    "(if s1 = Proposed then
          and_then (append_plan_transition_tx E (pr_tenant who) plan Proposed Validated
            (''approval:validated:'' @ uuid_text E (ap_id a)) now db1) (\<lambda>db. Inr (Validated, db))
        else Inr (s1, db1)) = Inr (s2, db2)"
    "append_plan_transition_tx E (pr_tenant who) plan s2 Approved
      (''approval:approved:'' @ uuid_text E (ap_id a)) now db2 = Inr db'"
proof -
  from assms show ?thesis
    unfolding approve_transitions_def Let_def and_then_Inr_iff split_paired_Ex prod.case
    by (elim exE conjE) (rule that, assumption, assumption, simp split: if_split_asm)
qed

lemma approve_transitions_effect:
  assumes "consistent E db" "holds_state db (ps_plan_id plan) (ps_revision plan) (ps_state plan) steps"
    and run: "approve_transitions E now who plan a db = Inr db'"
  shows "holds_state db' (ps_plan_id plan) (ps_revision plan) Approved steps"
  using run
proof (rule approve_transitions_parts, goal_cases)
  case (1 db1 s1 db2 s2)
  from guarded_append [OF _ 1(1)] assms(1,2)
  have "consistent E db1 \<and> holds_state db1 (ps_plan_id plan) (ps_revision plan) s1 steps" by blast
  from guarded_append [OF this 1(2)] append_plan_both [OF _ 1(3)] show ?case by blast
qed

lemma decide_approval_effect:
  assumes "consistent E db" "holds_state db (ps_plan_id plan) (ps_revision plan) (ps_state plan) steps"
    and "decide_approval E now who plan a db = Inr (OutcomeApproved, db')"
  shows "ap_decision a = DecisionApproved
    \<and> (ap_step_id a = None \<longrightarrow> holds_state db' (ps_plan_id plan) (ps_revision plan) Approved steps)"
proof (cases "ap_decision a")
  case DecisionApproved
  then have "approve_transitions E now who plan a db = Inr db'" if "ap_step_id a = None"
    using assms(3) that by (simp add: decide_approval_def and_then_Inr_iff)
  with DecisionApproved approve_transitions_effect [OF assms(1,2)] show ?thesis by blast
next
  case DecisionRejected
  then show ?thesis using assms(3) by (auto simp: decide_approval_def and_then_Inr_iff)
qed

text \<open>The row a key has been used for.\<close>

definition keyed_approval :: "plan_approval \<Rightarrow> string \<Rightarrow> db \<Rightarrow> approval_row option" where
  "keyed_approval a key db = find (\<lambda>r. ar_plan_id r = ap_plan_id a \<and> ar_revision r = ap_revision a
     \<and> ar_idempotency_key r = Some key) (db_approvals db)"

lemma approve_plan_cases:
  assumes "approve_plan E now who a key db = Inr (outcome, db')"
  obtains reference plan where
    "allows who ApprovePlan" "pr_operator who = ap_approver a" "pr_role who = ap_approver_role a"
    "validate_key key ''approval_idempotency_key'' 256 = Inr ()"
    "plan_task_reference_new (ap_plan_id a) (ap_revision a) (ap_plan_digest a) = Inr reference"
    "load_plan_tx E (pr_tenant who) reference db = Inr plan"
    "validate_approval_shape plan who a now = Inr ()"
    "keyed_approval a key db = None \<and> approve_fresh E now who plan a key db = Inr (outcome, db')
     \<or> (\<exists>r. outcome = ApprovalExisting \<and> db' = db \<and> keyed_approval a key db = Some r
          \<and> same_approval_intent (ar_approval_json r) a)"
proof -
  have guard: "allows who ApprovePlan" "pr_operator who = ap_approver a" "pr_role who = ap_approver_role a"
    using assms by (auto simp: approve_plan_def split: if_split_asm)
  have "\<exists>u. validate_key key ''approval_idempotency_key'' 256 = Inr u \<and>
      (\<exists>reference. plan_task_reference_new (ap_plan_id a) (ap_revision a) (ap_plan_digest a) = Inr reference \<and>
      (\<exists>plan. load_plan_tx E (pr_tenant who) reference db = Inr plan \<and>
      (\<exists>v. validate_approval_shape plan who a now = Inr v \<and>
        (case keyed_approval a key db of
           Some r \<Rightarrow> if same_approval_intent (ar_approval_json r) a then Inr (ApprovalExisting, db)
             else Inl IdempotencyConflict
         | None \<Rightarrow> approve_fresh E now who plan a key db) = Inr (outcome, db'))))"
    using assms guard by (simp add: approve_plan_def keyed_approval_def and_then_Inr_iff)
  then show ?thesis
    using guard by (cases "keyed_approval a key db") (auto intro: that split: if_split_asm)
qed

lemma approve_plan_existing:
  assumes "allows who ApprovePlan" "pr_operator who = ap_approver a" "pr_role who = ap_approver_role a"
    "validate_key key ''approval_idempotency_key'' 256 = Inr ()"
    "plan_task_reference_new (ap_plan_id a) (ap_revision a) (ap_plan_digest a) = Inr reference"
    "load_plan_tx E (pr_tenant who) reference db = Inr plan"
    "validate_approval_shape plan who a now = Inr ()"
    "keyed_approval a key db = Some r" "same_approval_intent (ar_approval_json r) a"
  shows "approve_plan E now who a key db = Inr (ApprovalExisting, db)"
  using assms by (simp add: approve_plan_def keyed_approval_def)

lemma approve_fresh_decides:
  assumes "approve_fresh E now who plan a key db = Inr (outcome, db')"
  shows "\<exists>db1. insert_approval_row (approval_row_of now key a) db = Inr db1
    \<and> (\<exists>db2. decide_approval E now who plan a db1 = Inr (outcome, db2)
      \<and> (\<exists>phase status. insert_checkpoint_tx (ps_plan_id plan) (ps_revision plan) (ap_step_id a) phase
          status None now db2 = Inr db'))"
  using assms by (auto simp: approve_fresh_def and_then_Inr_iff)

lemma approved_shape:
  assumes "validate_approval_shape plan who a now = Inr ()" "ap_decision a = DecisionApproved"
  shows "validate_for a plan (ap_step_id a) now = Inr ()" "ap_approver_role a = pr_role who"
  using assms by (auto simp: validate_approval_shape_def and_then_Inr_iff map_err_Inr_iff Let_def split: if_split_asm)

text \<open>C6: an approval that takes effect is independent: the principal is not the plan's operator, its
  role may approve plans and covers the level the plan or step demands, the approval is bound to the
  plan's digest and has not expired; an approval of the whole plan leaves it \<open>approved\<close>.\<close>

theorem approval_is_independent:
  assumes "reachable E db" "approve_plan E now who a key db = Inr (OutcomeApproved, db')"
  shows "\<exists>reference plan. load_plan_tx E (pr_tenant who) reference db = Inr plan
    \<and> pr_operator who \<noteq> ps_operator plan \<and> allows who ApprovePlan
    \<and> (\<exists>level. scope_approval plan (ap_step_id a) = Some level \<and> allows_role level (pr_role who))
    \<and> ap_plan_digest a = ps_digest plan \<and> now < ap_expires_at a
    \<and> (ap_step_id a = None \<longrightarrow>
        (\<exists>steps. holds_state db' (ps_plan_id plan) (ps_revision plan) Approved steps))"
  using assms(2)
proof (rule approve_plan_cases, goal_cases)
  case (1 reference plan)
  have ok: "consistent E db" by (rule reachable_consistent [OF assms(1)])
  have fresh: "approve_fresh E now who plan a key db = Inr (OutcomeApproved, db')" using 1(8) by simp
  obtain db1 db2 phase status where run: "insert_approval_row (approval_row_of now key a) db = Inr db1"
      "decide_approval E now who plan a db1 = Inr (OutcomeApproved, db2)"
      "insert_checkpoint_tx (ps_plan_id plan) (ps_revision plan) (ap_step_id a) phase status None now db2
        = Inr db'"
    using approve_fresh_decides [OF fresh] by blast
  obtain steps where "holds_state db (ps_plan_id plan) (ps_revision plan) (ps_state plan) steps"
    using loaded_holds [OF ok 1(6)] by blast
  then have "holds_state db1 (ps_plan_id plan) (ps_revision plan) (ps_state plan) steps"
    using run(1) by (auto simp: insert_approval_row_def and_then_Inr_iff holds_state_def)
  note effect = decide_approval_effect [OF insert_approval_consistent [OF run(1) ok] this run(2)]
  then have shape: "validate_for a plan (ap_step_id a) now = Inr ()" "ap_approver_role a = pr_role who"
    using approved_shape [OF 1(7)] by blast+
  with validate_for_live [OF shape(1)] 1(1,2,6) effect holds_state_checkpoint [OF run(3)]
  show ?case by metis
qed

theorem approval_is_independent_witness:
  "pr_operator sample_who \<noteq> ps_operator sample_draft
   \<and> (\<exists>pid rv steps. holds_state db_approved pid rv Approved steps)"
proof -
  obtain reference plan where "load_plan_tx sample_env sample_tenant reference db_saved = Inr plan"
    "\<exists>steps. holds_state db_approved (ps_plan_id plan) (ps_revision plan) Approved steps"
    using approval_is_independent [OF sample_reachable(4) run_approve]
    by (auto simp: sample_approval_def sample_who_def)
  then show ?thesis by (auto simp: sample_defs sample_who_def)
qed

text \<open>What no operation changes: the snapshots of the plans; and what only approvals change.\<close>

definition keeps :: "db \<Rightarrow> db \<Rightarrow> bool" where
  "keeps db db' \<longleftrightarrow> db_approvals db' = db_approvals db
     \<and> map (\<lambda>r. (plan_key r, pl_plan_json r)) (db_plans db') = map (\<lambda>r. (plan_key r, pl_plan_json r)) (db_plans db)"

lemma keeps_refl: "keeps db db" and keeps_trans: "keeps a b \<Longrightarrow> keeps b c \<Longrightarrow> keeps a c"
  by (simp_all add: keeps_def)

lemma append_keeps: "append_plan_transition_tx E tenant plan a b key now db = Inr db' \<Longrightarrow> keeps db db'"
  unfolding append_plan_transition_tx_def
proof (erule append_transition_parts)
  fix t db1
  assume applied: "apply_transition_tx now tenant t (snd (fresh_uuid db)) = Inr db1"
    and db': "db' = db1\<lparr>db_transitions := db_transitions db @ [t]\<rparr>"
  have "db_approvals db1 = db_approvals db"
    using applied
    by (auto simp: apply_transition_tx_def apply_plan_transition_def apply_step_transition_def result_simps
        update_plan_state_def update_step_state_def fresh_uuid_def
        split: transition_entity.splits transition_state.splits if_splits)
  with apply_transition_json [OF applied] show "keeps db db'"
    by (simp add: keeps_def db' fresh_uuid_def)
qed

lemma guarded_keeps:
  "(if c then and_then (append_plan_transition_tx E tenant plan a b key now db) (\<lambda>db. Inr (b, db))
    else Inr (s, db)) = Inr (s', db') \<Longrightarrow> keeps db db'"
  using append_keeps keeps_refl by (auto simp: and_then_Inr_iff split: if_split_asm)

lemma approve_transitions_keeps:
  assumes "approve_transitions E now who plan a db = Inr db'"
  shows "keeps db db'"
  using assms
proof (rule approve_transitions_parts, goal_cases)
  case (1 db1 s1 db2 s2)
  from guarded_keeps [OF 1(1)] guarded_keeps [OF 1(2)] append_keeps [OF 1(3)] show ?case
    using keeps_trans by blast
qed

lemma decide_approval_keeps: "decide_approval E now who plan a db = Inr (outcome, db') \<Longrightarrow> keeps db db'"
  using approve_transitions_keeps append_keeps keeps_refl
  by (auto simp: decide_approval_def reject_transitions_def and_then_Inr_iff
      split: plan_approval_decision.splits if_split_asm)

lemma load_plan_tx_again:
  assumes ok: "consistent E db'" and load: "load_plan_tx E tenant reference db = Inr plan"
    and keeps: "map (\<lambda>r. (plan_key r, pl_plan_json r)) (db_plans db') = map (\<lambda>r. (plan_key r, pl_plan_json r)) (db_plans db)"
  shows "\<exists>s. load_plan_tx E tenant reference db' = Inr (plan\<lparr>ps_state := s\<rparr>)"
proof -
  obtain row s where row: "row \<in> set (db_plans db)" "plan = (pl_plan_json row)\<lparr>ps_state := s\<rparr>"
      "plan_key row = (rf_plan_id reference, rf_revision reference)"
    using load by (auto simp: load_plan_tx_def result_simps Let_def same_plan_def plan_key_def
        dest!: find_SomeD split: if_splits)
  note facts = load_plan_tx_facts [OF load]
  have "(plan_key row, pl_plan_json row) \<in> set (map (\<lambda>r. (plan_key r, pl_plan_json r)) (db_plans db'))"
    using row(1) by (simp add: keeps)
  then obtain r where r: "r \<in> set (db_plans db')" "plan_key r = plan_key row" "pl_plan_json r = pl_plan_json row"
    by auto
  have inv: "store_inv E db'" using ok by (simp add: consistent_def)
  note snap = store_invD(3) [OF inv r(1), unfolded snapshot_ok_def Let_def r(3)]
  obtain u where u: "pl_state r = plan_state_str u"
    using store_invD(4) [OF inv r(1)] by (auto simp: row_consistent_def)
  have "find (same_plan (rf_plan_id reference) (rf_revision reference) tenant) (db_plans db') = Some r"
    using find_plan_row [OF store_invD(1) [OF inv] r(1)] r(2) row(2,3) snap facts(3)
    by (simp add: plan_key_def)
  then have "load_plan_tx E tenant reference db' = Inr ((pl_plan_json r)\<lparr>ps_state := u\<rparr>)"
    using facts row(2) snap r(3) u by (simp add: load_plan_tx_def)
  then show ?thesis using row(2) r(3) by auto
qed

lemma approval_shape_later:
  assumes "validate_approval_shape plan who a now = Inr ()" "now' < ap_expires_at a"
  shows "validate_approval_shape (plan\<lparr>ps_state := s\<rparr>) who a now' = Inr ()"
  using assms
  by (auto simp: validate_approval_shape_def and_then_Inr_iff map_err_Inr_iff Let_def validate_for_def
      find_step_def required_approval_def split: if_split_asm option.splits)

text \<open>Once accepted, an approval is among those stored, and the plans are what they were apart from their state.\<close>

lemma approve_plan_records:
  assumes "keyed_approval a key db = None \<and> approve_fresh E now who plan a key db = Inr (outcome, db')
     \<or> (\<exists>r. outcome = ApprovalExisting \<and> db' = db \<and> keyed_approval a key db = Some r
          \<and> same_approval_intent (ar_approval_json r) a)"
  shows "map (\<lambda>r. (plan_key r, pl_plan_json r)) (db_plans db') = map (\<lambda>r. (plan_key r, pl_plan_json r)) (db_plans db)
    \<and> (\<exists>r. keyed_approval a key db' = Some r \<and> same_approval_intent (ar_approval_json r) a)"
  using assms
proof
  assume new: "keyed_approval a key db = None \<and> approve_fresh E now who plan a key db = Inr (outcome, db')"
  then obtain db1 db2 phase status where run:
      "insert_approval_row (approval_row_of now key a) db = Inr db1"
      "decide_approval E now who plan a db1 = Inr (outcome, db2)"
      "insert_checkpoint_tx (ps_plan_id plan) (ps_revision plan) (ap_step_id a) phase status None now db2
        = Inr db'"
    using approve_fresh_decides by blast
  have "db_approvals db1 = db_approvals db @ [approval_row_of now key a]" "db_plans db1 = db_plans db"
    using run(1) by (auto simp: insert_approval_row_def and_then_Inr_iff)
  moreover have "keeps db2 db'"
    using run(3) by (auto simp: insert_checkpoint_tx_def insert_checkpoint_row_def and_then_Inr_iff keeps_def)
  ultimately show ?thesis
    using new decide_approval_keeps [OF run(2)]
    by (auto simp: keeps_def keyed_approval_def find_append approval_row_of_def same_approval_intent_def)
qed auto

text \<open>Repeating an approval is harmless: after it has been accepted, the same request with the same
  key, at any later time before the approval expires, reports that it exists and changes nothing.\<close>

theorem approval_idempotent:
  assumes "reachable E db" "approve_plan E now who a key db = Inr (outcome, db')"
    and "now' < ap_expires_at a"
  shows "approve_plan E now' who a key db' = Inr (ApprovalExisting, db')"
  using assms(2)
proof (rule approve_plan_cases, goal_cases)
  case (1 reference plan)
  have ok: "consistent E db'"
    by (rule approve_plan_consistent [OF assms(2) reachable_consistent [OF assms(1)]])
  note records = approve_plan_records [OF 1(8)]
  obtain s where "load_plan_tx E (pr_tenant who) reference db' = Inr (plan\<lparr>ps_state := s\<rparr>)"
    using load_plan_tx_again [OF ok 1(6)] records by blast
  then show ?case
    using records approve_plan_existing [OF 1(1-5) _ approval_shape_later [OF 1(7) assms(3)]] by blast
qed

theorem approval_idempotent_witness:
  "approve_plan sample_env 11 sample_who sample_approval ''go'' db_approved
   = Inr (ApprovalExisting, db_approved)"
  by (rule approval_idempotent [OF sample_reachable(4) run_approve]) (simp add: sample_approval_def)

end
