(* ===== verification/Store_Change.thy ===== *)
theory Store_Change
  imports Plan_Store
begin

text \<open>
  What every operation of the plan store does to the database, as an interface: a reflexive and
  transitive relation that holds across each single update of a table holds across every operation.
  The log's growth and the discipline of the leases are two such relations.
\<close>

text \<open>A fallible operation whose result, if there is one, satisfies a predicate. Stated with it, what
  an operation does to the log follows its body, call by call.\<close>

definition yields :: "('a \<Rightarrow> bool) \<Rightarrow> 'e + 'a \<Rightarrow> bool" where
  "yields P r \<longleftrightarrow> (\<forall>x. r = Inr x \<longrightarrow> P x)"

lemma yields_Inr: "P x \<Longrightarrow> yields P (Inr x)"
  and yields_Inl: "yields P (Inl e)"
  and yields_ok: "yields (\<lambda>_. True) r"
  by (simp_all add: yields_def)

lemma yields_bind: "yields Q r \<Longrightarrow> (\<And>x. Q x \<Longrightarrow> yields P (f x)) \<Longrightarrow> yields P (and_then r f)"
  by (auto simp: yields_def and_then_Inr_iff)

lemma yields_ignore: "(\<And>x. yields P (f x)) \<Longrightarrow> yields P (and_then r f)"
  by (auto simp: yields_def and_then_Inr_iff)

lemma yields_if: "(c \<Longrightarrow> yields P a) \<Longrightarrow> (\<not> c \<Longrightarrow> yields P b) \<Longrightarrow> yields P (if c then a else b)"
  by simp

lemma yields_option:
  "(x = None \<Longrightarrow> yields P a) \<Longrightarrow> (\<And>y. x = Some y \<Longrightarrow> yields P (b y)) \<Longrightarrow>
   yields P (case x of None \<Rightarrow> a | Some y \<Rightarrow> b y)"
  by (cases x) auto

lemma yields_pair: "(\<And>x y. p = (x, y) \<Longrightarrow> yields P (f x y)) \<Longrightarrow> yields P (case p of (x, y) \<Rightarrow> f x y)"
  by (cases p) auto

lemma yields_mono: "yields Q r \<Longrightarrow> (\<And>x. Q x \<Longrightarrow> P x) \<Longrightarrow> yields P r"
  by (simp add: yields_def)

lemma yields_fold:
  assumes "P a" "\<And>x a. x \<in> set xs \<Longrightarrow> P a \<Longrightarrow> yields P (f a x)"
  shows "yields P (fold_result f xs a)"
  unfolding yields_def
proof (intro allI impI)
  fix b assume run: "fold_result f xs a = Inr b"
  show "P b"
    by (rule fold_result_invariant [OF run, of P, OF assms(1)]) (use assms(2) in \<open>auto simp: yields_def\<close>)
qed

lemma yieldsD: "yields P r \<Longrightarrow> r = Inr x \<Longrightarrow> P x"
  by (simp add: yields_def)

lemma yields_bind_if:
  "(c \<Longrightarrow> yields Q x) \<Longrightarrow> (\<not> c \<Longrightarrow> yields Q y) \<Longrightarrow> (\<And>z. Q z \<Longrightarrow> yields P (f z)) \<Longrightarrow>
   yields P (and_then (if c then x else y) f)"
  by (cases c) (auto intro: yields_bind)

lemma yields_decision:
  "yields P x \<Longrightarrow> yields P y \<Longrightarrow>
   yields P (case d of DecisionApproved \<Rightarrow> x | DecisionRejected \<Rightarrow> y)"
  by (cases d) auto

lemma yields_resolution:
  "yields P x \<Longrightarrow> yields P y \<Longrightarrow> yields P z \<Longrightarrow>
   yields P (case d of Resume \<Rightarrow> x | Compensate \<Rightarrow> y | Cancel \<Rightarrow> z)"
  by (cases d) auto

text \<open>How the plan store leaves a task: no lease and no step, a status that is not an active one, and
  the moment of completion recorded with a final one. What identifies the task is not touched.\<close>

definition same_identity :: "task_row \<Rightarrow> task_row \<Rightarrow> bool" where
  "same_identity r r' \<longleftrightarrow> tk_task_id r' = tk_task_id r \<and> tk_session_id r' = tk_session_id r
     \<and> tk_tenant r' = tk_tenant r \<and> tk_idempotency_key r' = tk_idempotency_key r
     \<and> tk_request_fingerprint r' = tk_request_fingerprint r \<and> tk_envelope_json r' = tk_envelope_json r
     \<and> tk_priority r' = tk_priority r \<and> tk_max_attempts r' = tk_max_attempts r
     \<and> tk_created_at r' = tk_created_at r \<and> tk_plan_id r' = tk_plan_id r
     \<and> tk_plan_revision r' = tk_plan_revision r \<and> tk_plan_digest r' = tk_plan_digest r"

definition task_release :: "task_row \<Rightarrow> task_row \<Rightarrow> bool" where
  "task_release r r' \<longleftrightarrow> same_identity r r' \<and> tk_lease_until r' = None \<and> tk_lease_token r' = None
     \<and> tk_plan_step_id r' = None
     \<and> (\<exists>s \<in> {Queued, TaskIsSucceeded, TaskIsFailed, TaskIsCancelled}.
          tk_status r' = task_status_as_str s \<and> (task_is_terminal s \<longrightarrow> tk_completed_at r' \<noteq> None))"

locale plan_change =
  fixes R :: "db \<Rightarrow> db \<Rightarrow> bool"
  assumes refl_R: "R db db"
    and trans_R: "R a b \<Longrightarrow> R b c \<Longrightarrow> R a c"
    and plans_R: "plan_key ` set (db_plans db) \<subseteq> plan_key ` set ps \<Longrightarrow> R db (db\<lparr>db_plans := ps\<rparr>)"
    and steps_R: "R db (db\<lparr>db_steps := ss\<rparr>)"
    and checkpoints_R: "R db (db\<lparr>db_checkpoints := cs\<rparr>)"
    and approvals_R: "R db (db\<lparr>db_approvals := as\<rparr>)"
    and compensations_R: "R db (db\<lparr>db_compensations := ms\<rparr>)"
    and entry_R: "R db (db\<lparr>db_transitions := db_transitions db @ [t]\<rparr>)"
    and seed_R: "R db (db\<lparr>db_uuid_seed := Suc (db_uuid_seed db)\<rparr>)"
begin

text \<open>Single updates after whatever has happened since a database \<open>a\<close>.\<close>

lemmas extend_R =
  trans_R [OF _ plans_R] trans_R [OF _ steps_R] trans_R [OF _ checkpoints_R] trans_R [OF _ approvals_R]
  trans_R [OF _ compensations_R] trans_R [OF _ entry_R] trans_R [OF _ seed_R]

lemma update_plan_in: "R a db \<Longrightarrow> R a (update_plan_state now p v tenant state db)"
proof -
  have "map plan_key (db_plans (update_plan_state now p v tenant state db)) = map plan_key (db_plans db)"
    by (auto simp: update_plan_state_def plan_key_def intro!: map_update_where_same)
  then have keys: "plan_key ` set (db_plans (update_plan_state now p v tenant state db))
      = plan_key ` set (db_plans db)"
    by (metis set_map)
  show "R a db \<Longrightarrow> R a (update_plan_state now p v tenant state db)"
    unfolding update_plan_state_def
    by (erule extend_R) (use keys in \<open>simp add: update_plan_state_def\<close>)
qed

lemma update_step_in: "R a db \<Longrightarrow> R a (update_step_state p v sid state db)"
  and mark_active_in: "R a db \<Longrightarrow> R a (mark_active_steps p v db)"
  and increment_in: "R a db \<Longrightarrow> R a (increment_attempts plan sid db)"
  unfolding update_step_state_def mark_active_steps_def increment_attempts_def by (erule extend_R)+

lemma fresh_in: "R a db \<Longrightarrow> R a (snd (fresh_uuid db))"
  by (simp add: fresh_uuid_def extend_R)

lemma apply_transition_in: "R a db \<Longrightarrow> yields (R a) (apply_transition_tx now tenant t db)"
  by (auto simp: yields_def apply_transition_tx_def apply_plan_transition_def apply_step_transition_def
      and_then_Inr_iff intro: update_plan_in update_step_in split: transition_entity.splits
      transition_state.splits option.splits if_splits)

lemma insert_transition_in: "R a db \<Longrightarrow> yields (R a) (insert_transition_tx E t db)"
  by (auto simp: yields_def insert_transition_tx_def and_then_Inr_iff intro: extend_R)

lemma insert_checkpoint_row_in: "R a db \<Longrightarrow> yields (R a) (insert_checkpoint_row r db)"
  by (auto simp: yields_def insert_checkpoint_row_def and_then_Inr_iff intro: extend_R)

lemma insert_checkpoint_in:
  "R a db \<Longrightarrow> yields (R a) (insert_checkpoint_tx p v i phase status digest now db)"
  unfolding insert_checkpoint_tx_def by (intro yields_ignore insert_checkpoint_row_in)

lemma append_transition_in:
  assumes "R a db"
  shows "yields (R a) (append_transition E tenant p v e i s s' key now db)"
  using fresh_in [OF assms] unfolding append_transition_def Let_def
  by (cases "fresh_uuid db", simp only: prod.case snd_conv)
    (assumption | rule yields_bind [OF apply_transition_in] insert_transition_in | rule yields_ignore)+

lemma append_plan_in: "R a db \<Longrightarrow> yields (R a) (append_plan_transition_tx E tenant plan s s' key now db)"
  and append_step_in: "R a db \<Longrightarrow> yields (R a) (append_step_transition_tx E plan sid u u' key now db)"
  unfolding append_plan_transition_tx_def append_step_transition_tx_def
  by (rule append_transition_in; assumption)+

text \<open>An operation called in the middle of another.\<close>

lemma yields_bind_fold:
  "R a db \<Longrightarrow> (\<And>x d. R a d \<Longrightarrow> yields (R a) (g d x)) \<Longrightarrow>
   (\<And>d. R a d \<Longrightarrow> yields P (f d)) \<Longrightarrow> yields P (and_then (fold_result g xs db) f)"
  by (rule yields_bind [OF yields_fold])

abbreviation ends_in :: "db \<Rightarrow> 'a \<times> db \<Rightarrow> bool" where
  "ends_in a \<equiv> \<lambda>p. R a (snd p)"

lemma ends_in_pair: "R a db \<Longrightarrow> yields (ends_in a) (Inr (x, db))"
  by (simp add: yields_Inr)

lemma yields_bind_pair:
  "yields (ends_in a) r \<Longrightarrow> (\<And>y d. R a d \<Longrightarrow> yields P (f (y, d))) \<Longrightarrow> yields P (and_then r f)"
  by (erule yields_bind) (metis prod.collapse)

lemmas change_calls =
  yields_bind [OF append_plan_in] yields_bind [OF append_step_in]
  yields_bind [OF insert_checkpoint_in] yields_bind_fold

lemmas change_ends = append_plan_in append_step_in insert_checkpoint_in ends_in_pair

lemmas yields_flow =
  yields_Inl yields_Inr yields_if yields_option yields_pair yields_decision yields_resolution yields_ignore

subsection \<open>Approvals\<close>

lemma guarded_append_in:
  assumes "R a db"
  shows "yields (ends_in a) (if c then and_then (append_plan_transition_tx E tenant plan s s' key now db)
    (\<lambda>db. Inr (s', db)) else Inr (t, db))"
  using assms by - (assumption | rule change_calls change_ends | rule yields_flow)+

lemma approve_transitions_in:
  "R a db \<Longrightarrow> yields (R a) (approve_transitions E now who plan ap db)"
  unfolding approve_transitions_def Let_def
  by (assumption | rule yields_bind_pair [OF guarded_append_in] change_calls change_ends
    | simp only: prod.case | rule yields_flow)+

lemma insert_approval_in: "R a db \<Longrightarrow> yields (R a) (insert_approval_row r db)"
  by (auto simp: yields_def insert_approval_row_def and_then_Inr_iff intro: extend_R)

lemma decide_approval_in:
  "R a db \<Longrightarrow> yields (ends_in a) (decide_approval E now who plan ap db)"
  unfolding decide_approval_def reject_transitions_def
  by (assumption | rule yields_bind [OF approve_transitions_in] yields_bind_if change_calls change_ends
    | rule yields_flow)+

lemma approve_plan_in: "R a db \<Longrightarrow> yields (ends_in a) (approve_plan E now who ap key db)"
  unfolding approve_plan_def approve_fresh_def
  by (assumption | rule yields_bind [OF insert_approval_in] yields_bind_pair [OF decide_approval_in]
      change_calls change_ends
    | simp only: prod.case | rule yields_flow)+

subsection \<open>Plans, transitions and checkpoints\<close>

lemma save_plan_in: "R a db \<Longrightarrow> yields (ends_in a) (save_plan E now plan db)"
proof -
  have row: "yields (R a) (insert_plan_row r db)" if "R a db" for a r and db :: db
    using that by (auto simp: yields_def insert_plan_row_def and_then_Inr_iff intro: extend_R)
  have step: "yields (R a) (insert_step plan db s)" if "R a db" for a s and db :: db
    using that
    by (auto simp: yields_def insert_step_def insert_step_row_def insert_compensation_row_def
        and_then_Inr_iff split: option.splits intro: extend_R)
  show "R a db \<Longrightarrow> yields (ends_in a) (save_plan E now plan db)"
    unfolding save_plan_def
    by (assumption | rule yields_bind [OF row] yields_bind_fold step change_ends | rule yields_flow)+
qed

lemma record_transition_in: "R a db \<Longrightarrow> yields (R a) (record_plan_transition E now tenant t db)"
  unfolding record_plan_transition_def Let_def
  by (assumption | rule yields_bind [OF apply_transition_in] insert_transition_in | rule yields_flow)+

lemma append_checkpoint_in: "R a db \<Longrightarrow> yields (R a) (append_plan_checkpoint E tenant c db)"
  unfolding append_plan_checkpoint_def Let_def
  by (assumption | rule insert_checkpoint_row_in | rule yields_flow)+

lemma save_approval_in: "R a db \<Longrightarrow> yields (R a) (save_plan_approval E now tenant ap db)"
  unfolding save_plan_approval_def
  by (assumption | rule insert_approval_in | rule yields_flow)+

subsection \<open>Execution\<close>

lemma admission_in:
  "R a db \<Longrightarrow> yields (ends_in a) (record_plan_admission_tx E now who envelope reference db)"
proof -
  have admit: "yields (R a) (admission_transitions E now who plan db)" if "R a db" for a plan db
    using that unfolding admission_transitions_def Let_def
    by - (assumption | rule yields_bind_pair [OF guarded_append_in] change_calls change_ends
      | simp only: prod.case | rule yields_flow)+
  show "R a db \<Longrightarrow> yields (ends_in a) (record_plan_admission_tx E now who envelope reference db)"
    unfolding record_plan_admission_tx_def Let_def
    by (assumption | rule yields_bind [OF admit] change_calls change_ends | rule yields_flow)+
qed

lemma start_step_in: "R a db \<Longrightarrow> yields (R a) (start_step E plan states s cc now db)"
  unfolding start_step_def Let_def
  by (assumption | rule increment_in yields_bind_if change_calls change_ends | rule yields_flow)+

lemma claim_in: "R a db \<Longrightarrow> yields (ends_in a) (prepare_planned_claim_tx E task reference cc now db)"
  unfolding prepare_planned_claim_tx_def Let_def
  by (assumption | rule yields_bind [OF start_step_in] change_ends | rule yields_flow)+

lemma mark_unknown_in:
  "R a db \<Longrightarrow> yields (R a) (mark_plan_unknown_tx E tenant plan step_id digest now db)"
proof -
  have plan_row: "yields (R a) (mark_plan_row_unknown E tenant plan now db)" if "R a db" for a db
    using that unfolding mark_plan_row_unknown_def
    by - (assumption | rule change_ends update_plan_in | rule yields_flow)+
  have step_row: "yields (R a) (mark_step_row_unknown E plan sid now db)" if "R a db" for a sid db
    using that unfolding mark_step_row_unknown_def
    by - (assumption | rule change_ends update_step_in | rule yields_flow)+
  have opt: "yields (R a) (case step_id of None \<Rightarrow> Inr db | Some sid \<Rightarrow> mark_step_row_unknown E plan sid now db)"
    if "R a db" for a db
    using that step_row by (auto split: option.split intro: yields_Inr)
  show "R a db \<Longrightarrow> yields (R a) (mark_plan_unknown_tx E tenant plan step_id digest now db)"
    unfolding mark_plan_unknown_tx_def
    by (assumption | rule yields_bind [OF plan_row] yields_bind [OF opt] change_ends)+
qed

lemma cancel_in: "R a db \<Longrightarrow> yields (R a) (cancel_planned_task_tx E task now db)"
  unfolding cancel_planned_task_tx_def cancel_queued_plan_def
  by (assumption | rule yields_bind_if change_calls change_ends | rule yields_flow)+

lemma public_mark_unknown_in: "R a db \<Longrightarrow> yields (R a) (mark_plan_unknown E now tenant pid step_id digest db)"
  unfolding mark_plan_unknown_def
  by (assumption | rule mark_unknown_in | rule yields_flow)+

subsection \<open>Recovery\<close>

abbreviation loop_in :: "db \<Rightarrow> db \<times> 'b \<Rightarrow> bool" where
  "loop_in a \<equiv> \<lambda>p. R a (fst p)"

lemma recovery_insert_in:
  "loop_in a l \<Longrightarrow> yields (loop_in a) (recovery_insert E now p v e i s s' key l)"
  using fresh_in [of a "fst l"] unfolding recovery_insert_def Let_def
  by (cases l, cases "fresh_uuid (fst l)", simp)
    (rule yields_ignore, rule yields_bind [OF insert_transition_in], auto intro: yields_Inr)

lemma recovery_step_in: "loop_in a l \<Longrightarrow> yields (loop_in a) (recovery_step E now p v l e)"
  unfolding recovery_step_def
  by (cases e) (auto intro!: yields_bind [OF recovery_insert_in] yields_Inr)

lemma append_recovery_in:
  assumes "R a db"
  shows "yields (ends_in a) (append_recovery_transitions_tx E now p v ps active db)"
proof -
  have loop: "yields (loop_in a) (fold_result (recovery_step E now p v) active l)" if "loop_in a l" for l
    by (rule yields_fold) (use that recovery_step_in in auto)
  show ?thesis
    unfolding append_recovery_transitions_tx_def Let_def
    by (rule yields_bind_if [where Q = "loop_in a"], rule recovery_insert_in, simp add: assms,
        rule yields_Inr, simp add: assms, rule yields_bind [OF loop], assumption)
      (auto intro: yields_Inr)
qed

lemma recovery_checkpoint_in: "R a db \<Longrightarrow> yields (R a) (recovery_checkpoint p v digest now db)"
  unfolding recovery_checkpoint_def by (rule insert_checkpoint_row_in)

lemma recover_commit_in:
  "R a db \<Longrightarrow> yields (ends_in a) (recover_commit E now tenant p v ps active digest db)"
  unfolding recover_commit_def Let_def
  by (assumption | rule yields_bind_pair [OF append_recovery_in] yields_bind [OF recovery_checkpoint_in]
      change_ends mark_active_in update_plan_in
    | simp only: prod.case | rule yields_flow)+

lemma force_commit_in: "R a db \<Longrightarrow> yields (R a) (force_commit now tenant p v db)"
  unfolding force_commit_def Let_def
  by (assumption | rule yields_if yields_option recovery_checkpoint_in yields_Inr mark_active_in
      update_plan_in)+

lemma resume_in:
  assumes "resume_plan E now tenant pid db = (db', result)"
  shows "R db db'"
proof -
  have recover: "R db (fst (recover_unknown E now tenant p v ps active digest db))" for p v ps active digest
    using recover_commit_in [OF refl_R]
    by (auto simp: recover_unknown_def yields_def intro: refl_R split: sum.split)
  have force: "R db (fst (force_unknown E now tenant p v db))" for p v
    using force_commit_in [OF refl_R] by (auto simp: force_unknown_def yields_def intro: refl_R split: sum.split)
  have "R db (fst (resume_loaded E now tenant p plan ts cs ps steps db))" for p plan ts cs ps steps
    using recover force by (simp add: resume_loaded_def Let_def refl_R split: option.split)
  then show ?thesis
    using assms by (auto simp: resume_plan_def intro: refl_R split: sum.splits) (metis fst_conv)
qed


end

subsection \<open>Operations that release a task\<close>

text \<open>A relation that also holds across the release of a task holds across every operation.\<close>

locale store_change = plan_change R for R :: "db \<Rightarrow> db \<Rightarrow> bool" +
  assumes tasks_R: "(\<And>r. P r \<Longrightarrow> task_release r (f r)) \<Longrightarrow>
      R db (db\<lparr>db_tasks := update_where P f (db_tasks db)\<rparr>)"
begin

lemma update_task_in:
  "R a db \<Longrightarrow> (\<And>r. task_release r (f r)) \<Longrightarrow> R a (update_task tid tenant f db)"
  unfolding update_task_def by (rule trans_R [OF _ tasks_R])

lemma update_task_for_resolution_in:
  assumes "R a db" "(status, c) \<in> {(Queued, False), (TaskIsCancelled, True)}"
  shows "yields (R a) (update_task_for_resolution now plan status c err db)"
proof -
  have "task_release r (r\<lparr>tk_status := task_status_as_str status, tk_cancel_requested := c,
      tk_lease_until := None, tk_lease_token := None, tk_plan_step_id := None, tk_last_error := err,
      tk_updated_at := now, tk_completed_at := (if c then Some now else None)\<rparr>)" for r
    using assms(2) by (auto simp: task_release_def same_identity_def task_is_terminal_def)
  with assms(1) show ?thesis
    by (auto simp: yields_def update_task_for_resolution_def Let_def intro: trans_R [OF _ tasks_R])
qed

lemmas resolution_updates_in =
  update_task_for_resolution_in [where status = Queued and c = False, simplified]
  update_task_for_resolution_in [where status = TaskIsCancelled and c = True, simplified]

lemma resolve_in:
  assumes "R a db"
  shows "yields (R a) (resolve_resume E now who plan key db)"
    "yields (R a) (resolve_compensate E now who plan key db)"
    "yields (R a) (resolve_cancel E now who plan key db)"
  using assms
  unfolding resolve_resume_def resolve_compensate_def resolve_cancel_def compensate_source_def
    ready_target_def Let_def
  by - (assumption | rule resolution_updates_in change_calls change_ends
    | simp only: prod.case | rule yields_flow)+

lemma resolve_plan_unknown_in:
  "R a db \<Longrightarrow> yields (ends_in a) (resolve_plan_unknown E now who pid decision key evidence db)"
  unfolding resolve_plan_unknown_def resolve_tx_def resolve_decision_def Let_def
  by (assumption | rule yields_bind [OF yields_resolution, OF resolve_in] change_calls change_ends
    | rule yields_flow)+

lemma complete_compensation_in:
  "R a db \<Longrightarrow> yields (ends_in a) (complete_compensation_tx E plan sid result now db)"
  unfolding complete_compensation_tx_def Let_def
  by (assumption | rule update_task_in change_calls change_ends | rule yields_flow
    | (simp add: task_release_def same_identity_def release_task_def task_is_terminal_def; fail))+

lemma finish_in:
  "R a db \<Longrightarrow> yields (ends_in a) (finish_planned_step_tx E task result err retryable now b m cc db)"
  unfolding finish_planned_step_tx_def finish_cancelled_def finish_reported_def finish_succeeded_def
    finish_failed_def Let_def
  by (assumption | rule yields_bind [OF mark_unknown_in] complete_compensation_in update_task_in
      yields_bind_if change_calls change_ends
    | rule yields_flow
    | (simp add: task_release_def same_identity_def release_task_def task_is_terminal_def; fail))+

lemma lease_in: "R a db \<Longrightarrow> yields (R a) (recover_expired_plan_lease_tx E task now db)"
  unfolding recover_expired_plan_lease_tx_def
  by (assumption | rule yields_bind [OF mark_unknown_in] update_task_in | rule yields_flow
    | (simp add: task_release_def same_identity_def release_task_def task_is_terminal_def; fail))+

lemmas operation_in =
  save_plan_in record_transition_in append_checkpoint_in save_approval_in approve_plan_in
  resolve_plan_unknown_in admission_in claim_in finish_in cancel_in lease_in public_mark_unknown_in

end

end
