(* ===== verification/Plan_Log_Growth.thy ===== *)
theory Plan_Log_Growth
  imports Plan_Store_Facts Store_Change
begin

text \<open>
  The log is append only: whatever an operation does to the tables, the entries it found are there
  afterwards, in their order, before the ones it added. From this follows what no operation can undo.
\<close>

definition grows :: "db \<Rightarrow> db \<Rightarrow> bool" where
  "grows db db' \<longleftrightarrow> (\<exists>ts. db_transitions db' = db_transitions db @ ts)
     \<and> plan_key ` set (db_plans db) \<subseteq> plan_key ` set (db_plans db')"

lemma grows_refl [intro, simp]: "grows db db"
  by (simp add: grows_def)

lemma grows_trans [trans]: "grows a b \<Longrightarrow> grows b c \<Longrightarrow> grows a c"
  by (auto simp: grows_def)

interpretation log_change: store_change grows
  by unfold_locales (auto simp: grows_def)

lemma store_step_grows: "store_step E db db' \<Longrightarrow> grows db db'"
proof (induction rule: store_step.induct)
  case (Tasks db' db)
  then show ?case by (simp add: grows_def)
next
  case (ResumePlan now tenant pid db db' result)
  then show ?case using log_change.resume_in by blast
qed (use log_change.operation_in [OF grows_refl, THEN yieldsD] in \<open>fastforce+\<close>)

subsection \<open>What no operation undoes\<close>

lemma store_steps_grow: "(store_step E)\<^sup>*\<^sup>* db db' \<Longrightarrow> grows db db'"
  by (induction rule: rtranclp_induct) (auto intro: grows_trans store_step_grows)

lemma sort_key_append:
  assumes "\<forall>x \<in> set xs. \<forall>y \<in> set ys. f x \<le> f y"
  shows "sort_key f (xs @ ys) = sort_key f xs @ sort_key f ys"
proof (rule properties_for_sort_key)
  show "sorted (map f (sort_key f xs @ sort_key f ys))"
    using assms by (simp add: sorted_append)
  have "filter (\<lambda>x. f k = f x) (sort_key f zs) = filter (\<lambda>x. f k = f x) zs" for k zs
    using sort_key_stable [of f "f k" zs] by (simp add: eq_commute)
  then show "filter (\<lambda>x. f k = f x) (sort_key f xs @ sort_key f ys) = filter (\<lambda>x. f k = f x) (xs @ ys)" for k
    by simp
qed simp

lemma replay_sequences:
  assumes "replay_log E p ts = Inr (n, prev, ps, steps)"
  shows "map tr_sequence ts = [1..<Suc (length ts)]"
  using assms
proof (induction ts arbitrary: n prev ps steps rule: rev_induct)
  case (snoc t ts)
  from snoc.prems show ?case
  proof (rule replay_snocE)
    fix prev' ps' steps'
    assume r: "replay_log E p ts = Inr (tr_sequence t, prev', ps', steps')"
    from snoc.IH [OF r] replay_position [OF r] show ?thesis by simp
  qed
qed simp

lemma consistent_replay:
  assumes "consistent E db" "plan_exists db pid rv"
  shows "\<exists>p n prev ps steps. replay_log E p (plan_log db pid rv) = Inr (n, prev, ps, steps)
    \<and> holds_state db pid rv ps steps"
proof -
  obtain r where r: "r \<in> set (db_plans db)" "pl_plan_id r = pid" "pl_revision r = rv"
    using assms(2) by (auto simp: plan_exists_def list_ex_iff)
  from consistent_log [OF assms(1) r(1)] r show ?thesis by blast
qed

lemma plan_log_grows:
  assumes ok: "consistent E db" "consistent E db'" and grow: "grows db db'"
    and row: "plan_exists db pid rv" "plan_exists db' pid rv"
  shows "\<exists>ts. plan_log db' pid rv = plan_log db pid rv @ ts"
proof -
  obtain new where new: "db_transitions db' = db_transitions db @ new" using grow by (auto simp: grows_def)
  let ?old = "filter (of_plan pid rv) (db_transitions db)" and ?new = "filter (of_plan pid rv) new"
  have old: "map tr_sequence (sort_key tr_sequence ?old) = [1..<Suc (length ?old)]"
    using consistent_replay [OF ok(1) row(1)] replay_sequences by (force simp: plan_log_def)
  have all: "map tr_sequence (sort_key tr_sequence (?old @ ?new)) = [1..<Suc (length ?old + length ?new)]"
    using consistent_replay [OF ok(2) row(2)] replay_sequences by (force simp: plan_log_def new)
  have "mset (map tr_sequence (?old @ ?new)) = mset [1..<Suc (length ?old + length ?new)]"
    by (metis all mset_map mset_sort)
  then have "distinct (map tr_sequence (?old @ ?new))"
    using mset_eq_imp_distinct_iff distinct_upt by blast
  then have apart: "tr_sequence ` set ?old \<inter> tr_sequence ` set ?new = {}" by (simp add: image_set)
  have in_old: "tr_sequence ` set ?old = {1..<Suc (length ?old)}"
    using arg_cong [OF old, of set] by (simp del: upt_Suc)
  have in_all: "tr_sequence ` (set ?old \<union> set ?new) = {1..<Suc (length ?old + length ?new)}"
    using arg_cong [OF all, of set] by (simp add: Un_commute del: upt_Suc)
  have "tr_sequence x \<le> tr_sequence y" if "x \<in> set ?old" "y \<in> set ?new" for x y
  proof -
    have "tr_sequence x < Suc (length ?old)" using in_old that(1) by auto
    moreover have "tr_sequence y \<notin> {1..<Suc (length ?old)}" using in_old apart that(2) by blast
    moreover have "1 \<le> tr_sequence y"
      using in_all that(2) by (metis Un_iff atLeastLessThan_iff imageI)
    ultimately show ?thesis by simp
  qed
  then show ?thesis by (simp add: plan_log_def new sort_key_append)
qed


lemma sample_steps: "(store_step sample_env)\<^sup>*\<^sup>* db_claimed db_done"
proof -
  have "store_step sample_env db_claimed db_half"
    by (rule Finish [OF run_finish]) (simp add: lease_boundary_def store_eval cong: eval_cong)
  moreover have "store_step sample_env db_half db_claimed_b" by (rule Claim [OF run_claim_b])
  moreover have "store_step sample_env db_claimed_b db_done"
    by (rule Finish [OF run_finish_b]) (simp add: lease_boundary_def store_eval cong: eval_cong)
  ultimately show ?thesis
    by (blast intro: converse_rtranclp_into_rtranclp)
qed


lemma apply_transition_plan:
  assumes "apply_transition_state (ps, steps) t = Inr (ps', steps')"
  shows "tr_entity t = EntityPlan \<and> tr_from_state t = PlanSt ps \<and> tr_to_state t = PlanSt ps'
      \<and> plan_valid_next ps ps'
    \<or> tr_entity t = EntityStep \<and> ps' = ps"
  using assms
  by (auto simp: apply_transition_state_def result_simps
      split: transition_entity.splits transition_state.splits if_splits)

lemma replay_snocD:
  assumes "replay_log E p (ts @ [t]) = Inr (n, prev, ps, st)"
  shows "\<exists>n0 prev0 ps0 st0. replay_log E p ts = Inr (n0, prev0, ps0, st0)
    \<and> apply_transition_state (ps0, st0) t = Inr (ps, st)"
  using assms by (rule replay_snocE) blast

lemma replay_state_unique:
  assumes "replay_log E p ts = Inr (n, prev, ps, st)" "replay_log E q ts = Inr (m, prev', ps', st')"
  shows "ps = ps'"
  using assms
proof (induction ts arbitrary: n prev ps st m prev' ps' st' rule: rev_induct)
  case Nil
  then show ?case by (simp add: replay_log_def initial_reducer_def)
next
  case (snoc t ts)
  obtain n0 prev0 ps0 st0 where p: "replay_log E p ts = Inr (n0, prev0, ps0, st0)"
    "apply_transition_state (ps0, st0) t = Inr (ps, st)"
    using replay_snocD [OF snoc.prems(1)] by blast
  obtain n1 prev1 ps1 st1 where q: "replay_log E q ts = Inr (n1, prev1, ps1, st1)"
    "apply_transition_state (ps1, st1) t = Inr (ps', st')"
    using replay_snocD [OF snoc.prems(2)] by blast
  have "ps0 = ps1" by (rule snoc.IH [OF p(1) q(1)])
  with apply_transition_plan [OF p(2)] apply_transition_plan [OF q(2)] show ?case by auto
qed

lemma replay_prefix:
  assumes "replay_log E p (ts @ us) = Inr (n, prev, ps, st)"
  shows "\<exists>m prev' ps0 st0. replay_log E p ts = Inr (m, prev', ps0, st0) \<and> (plan_is_terminal ps0 \<longrightarrow> ps = ps0)"
  using assms
proof (induction us arbitrary: n prev ps st rule: rev_induct)
  case (snoc u us)
  have longer: "replay_log E p ((ts @ us) @ [u]) = Inr (n, prev, ps, st)" using snoc.prems by simp
  obtain n1 prev1 ps1 st1 where r: "replay_log E p (ts @ us) = Inr (n1, prev1, ps1, st1)"
    "apply_transition_state (ps1, st1) u = Inr (ps, st)"
    using replay_snocD [OF longer] by blast
  from snoc.IH [OF r(1)] apply_transition_plan [OF r(2)] show ?case
    using plan_machine.terminal_iff by metis
qed simp

text \<open>A plan that has ended stays ended: once a plan is \<open>succeeded\<close>, \<open>cancelled\<close>, \<open>compensated\<close>,
  \<open>failed\<close> or \<open>rejected\<close> (the states the machine cannot leave), no sequence of operations changes
  its state.\<close>

theorem ended_plan_stays_ended:
  assumes "reachable E db" "(store_step E)\<^sup>*\<^sup>* db db'"
    and "holds_state db pid rv ps steps" "plan_is_terminal ps"
  shows "\<exists>steps'. holds_state db' pid rv ps steps'"
proof -
  have "reachable E db'" using assms(1,2) by (rule rtranclp_trans)
  note ok = reachable_consistent [OF assms(1)] reachable_consistent [OF this]
  have grow: "grows db db'" by (rule store_steps_grow [OF assms(2)])
  obtain row where row: "row \<in> set (db_plans db)" "plan_key row = (pid, rv)"
    using assms(3) by (auto simp: holds_state_def)
  then have here: "plan_exists db pid rv" "plan_exists db' pid rv"
    using grow by (force simp: plan_exists_iff grows_def)+
  obtain n prev where r: "replay_log E (pl_plan_json row) (plan_log db pid rv) = Inr (n, prev, ps, steps)"
    using holds_state_replay [OF ok(1) row] assms(3) by blast
  obtain ts where ts: "plan_log db' pid rv = plan_log db pid rv @ ts"
    using plan_log_grows [OF ok grow here] by blast
  obtain q n' prev' ps' steps' where r': "replay_log E q (plan_log db pid rv @ ts) = Inr (n', prev', ps', steps')"
    and h: "holds_state db' pid rv ps' steps'"
    using consistent_replay [OF ok(2) here(2)] ts by auto
  obtain m prev0 ps0 st0 where r0: "replay_log E q (plan_log db pid rv) = Inr (m, prev0, ps0, st0)"
    "plan_is_terminal ps0 \<longrightarrow> ps' = ps0"
    using replay_prefix [OF r'] by blast
  with replay_state_unique [OF r r0(1)] assms(4) h show ?thesis by auto
qed

text \<open>Nothing runs unapproved: if a plan is in a state past approval, its log holds the entry that
  brought it to \<open>approved\<close>.\<close>

theorem running_plan_was_approved:
  assumes "reachable E db" "holds_state db pid rv ps steps"
    and "ps \<in> {Running, Paused, Succeeded, Failed, CancelRequested, Cancelled, Compensating,
      Compensated, Unknown}"
  shows "\<exists>t \<in> set (plan_log db pid rv). tr_entity t = EntityPlan \<and> tr_to_state t = PlanSt Approved"
proof -
  have ok: "consistent E db" by (rule reachable_consistent [OF assms(1)])
  obtain row where row: "row \<in> set (db_plans db)" "plan_key row = (pid, rv)"
    using assms(2) by (auto simp: holds_state_def)
  obtain n prev where r: "replay_log E (pl_plan_json row) (plan_log db pid rv) = Inr (n, prev, ps, steps)"
    using holds_state_replay [OF ok row] assms(2) by blast
  have "ps \<in> {Draft, Proposed, Validated, AwaitingApproval, Rejected}
      \<or> (\<exists>t \<in> set ts. tr_entity t = EntityPlan \<and> tr_to_state t = PlanSt Approved)"
    if "replay_log E p ts = Inr (n, prev, ps, steps)" for p ts n prev ps steps
    using that
  proof (induction ts arbitrary: n prev ps steps rule: rev_induct)
    case Nil
    then show ?case by (simp add: replay_log_def initial_reducer_def)
  next
    case (snoc t ts)
    obtain n1 prev1 ps1 st1 where s: "replay_log E p ts = Inr (n1, prev1, ps1, st1)"
      "apply_transition_state (ps1, st1) t = Inr (ps, steps)"
      using replay_snocD [OF snoc.prems] by blast
    from snoc.IH [OF s(1)] apply_transition_plan [OF s(2)] show ?case
      by (cases ps1) (auto simp: plan_valid_next_def)
  qed
  with r assms(3) show ?thesis by blast
qed

lemma sample_done_holds: "holds_state db_done (PlanId 7) 1 Succeeded
    [(PlanStepId ''a'', StepSucceeded), (PlanStepId ''b'', StepSucceeded)]"
proof -
  have "load_plan_tx sample_env sample_tenant sample_reference db_done
      = Inr (sample_draft\<lparr>ps_state := Succeeded\<rparr>)"
    "load_step_states_tx db_done (PlanId 7) 1
      = Inr [(PlanStepId ''a'', StepSucceeded), (PlanStepId ''b'', StepSucceeded)]"
    by (simp_all add: store_eval cong: eval_cong)
  with loaded_holds_state [OF reachable_consistent [OF sample_reachable(3)]] show ?thesis
    by (fastforce simp: sample_draft_def)
qed

theorem ended_plan_stays_ended_witness:
  "store_step sample_env db_done (db_done\<lparr>db_tasks := []\<rparr>)
   \<and> (\<exists>steps. holds_state (db_done\<lparr>db_tasks := []\<rparr>) (PlanId 7) 1 Succeeded steps)"
proof -
  have step: "store_step sample_env db_done (db_done\<lparr>db_tasks := []\<rparr>)" by (rule Tasks) simp_all
  with ended_plan_stays_ended [OF sample_reachable(3) r_into_rtranclp sample_done_holds, OF step]
  show ?thesis by (simp add: plan_is_terminal_def)
qed

theorem running_plan_was_approved_witness:
  "\<exists>t \<in> set (plan_log db_done (PlanId 7) 1). tr_to_state t = PlanSt Approved"
  using running_plan_was_approved [OF sample_reachable(3) sample_done_holds] by blast

end
