(* ===== verification/Queue_Circuit.thy ===== *)
theory Queue_Circuit
  imports Store_Types
begin

text \<open>
  \<^verbatim>\<open>crates/shaka-queue/src/lib.rs\<close>: the circuit breaker in front of the agent runtime. The controller
  keeps a snapshot in memory and writes every change of it to its row of \<open>api_circuit_breaker\<close>.
\<close>

record circuit_snapshot =
  cb_name :: string
  cb_state :: circuit_state
  cb_failure_count :: u32
  cb_opened_at :: "instant option"
  cb_next_probe_at :: "instant option"

record circuit_config =
  cf_failure_threshold :: u32
  cf_open_for :: int

definition default_circuit_config :: circuit_config where
  "default_circuit_config = \<lparr>cf_failure_threshold = 3, cf_open_for = 30 * 1000000000\<rparr>"

record circuit_row =
  cr_name :: string
  cr_state :: string
  cr_failure_count :: nat
  cr_opened_at :: "instant option"
  cr_next_probe_at :: "instant option"

definition circuit_row_of :: "circuit_snapshot \<Rightarrow> circuit_row" where
  "circuit_row_of s = \<lparr>cr_name = cb_name s, cr_state = circuit_as_str (cb_state s),
     cr_failure_count = unat (cb_failure_count s), cr_opened_at = cb_opened_at s,
     cr_next_probe_at = cb_next_probe_at s\<rparr>"

definition snapshot_of_row :: "circuit_row \<Rightarrow> queue_error + circuit_snapshot" where
  "snapshot_of_row r =
     (if cr_failure_count r \<ge> 2 ^ 32 then
        Inl (QInvalidInput ''failure_count persistido invalido: out of range integral type conversion attempted'')
      else and_then (parse_circuit (cr_state r)) (\<lambda>state.
        Inr \<lparr>cb_name = cr_name r, cb_state = state, cb_failure_count = of_nat (cr_failure_count r),
          cb_opened_at = cr_opened_at r, cb_next_probe_at = cr_next_probe_at r\<rparr>))"

definition closed_snapshot :: "string \<Rightarrow> circuit_snapshot" where
  "closed_snapshot name = \<lparr>cb_name = name, cb_state = Closed, cb_failure_count = 0,
     cb_opened_at = None, cb_next_probe_at = None\<rparr>"

definition load_circuit ::
    "string \<Rightarrow> circuit_row list \<Rightarrow> queue_error + (circuit_snapshot \<times> circuit_row list)" where
  "load_circuit name rows =
     and_then (validate_key name ''circuit name'' 128) (\<lambda>_.
     case find (\<lambda>r. cr_name r = name) rows of
       None \<Rightarrow> Inr (closed_snapshot name, rows @ [circuit_row_of (closed_snapshot name)])
     | Some r \<Rightarrow> and_then (snapshot_of_row r) (\<lambda>s. Inr (s, rows)))"

text \<open>\<open>INSERT ... ON CONFLICT(name) DO UPDATE\<close>.\<close>

definition save_circuit :: "circuit_snapshot \<Rightarrow> circuit_row list \<Rightarrow> circuit_row list" where
  "save_circuit s rows =
     (if list_ex (\<lambda>r. cr_name r = cb_name s) rows
      then update_where (\<lambda>r. cr_name r = cb_name s) (\<lambda>_. circuit_row_of s) rows
      else rows @ [circuit_row_of s])"

text \<open>The controller: its configuration, the snapshot under its lock, and the table it writes to.\<close>

record circuit_breaker =
  br_config :: circuit_config
  br_snapshot :: circuit_snapshot
  br_rows :: "circuit_row list"

definition circuit_breaker_new ::
    "string \<Rightarrow> circuit_config \<Rightarrow> circuit_row list \<Rightarrow> queue_error + circuit_breaker" where
  "circuit_breaker_new name config rows =
     and_then (load_circuit name rows) (\<lambda>(s, rows).
     Inr \<lparr>br_config = config, br_snapshot = s, br_rows = rows\<rparr>)"

definition store_snapshot :: "circuit_snapshot \<Rightarrow> circuit_breaker \<Rightarrow> circuit_breaker" where
  "store_snapshot s b = b\<lparr>br_snapshot := s, br_rows := save_circuit s (br_rows b)\<rparr>"

definition allow :: "instant \<Rightarrow> circuit_breaker \<Rightarrow> bool \<times> circuit_breaker" where
  "allow now b =
     (let s = br_snapshot b in
      case cb_state s of
        Closed \<Rightarrow> (True, b)
      | Open \<Rightarrow>
          (case cb_next_probe_at s of
             Some probe \<Rightarrow>
               if probe \<le> now
               then (True, store_snapshot (s\<lparr>cb_state := HalfOpen, cb_next_probe_at := None\<rparr>) b)
               else (False, b)
           | None \<Rightarrow> (False, b))
      | HalfOpen \<Rightarrow> (False, b))"

definition record_success :: "circuit_breaker \<Rightarrow> circuit_breaker" where
  "record_success b =
     store_snapshot ((br_snapshot b)\<lparr>cb_state := Closed, cb_failure_count := 0,
       cb_opened_at := None, cb_next_probe_at := None\<rparr>) b"

definition record_failure :: "instant \<Rightarrow> circuit_breaker \<Rightarrow> circuit_breaker" where
  "record_failure now b =
     (let s = br_snapshot b;
          s = s\<lparr>cb_failure_count := saturating_add (cb_failure_count s) 1\<rparr>;
          s = (if cb_state s = HalfOpen \<or> cb_failure_count s \<ge> cf_failure_threshold (br_config b)
               then s\<lparr>cb_state := Open, cb_opened_at := Some now,
                      cb_next_probe_at := Some (now + cf_open_for (br_config b))\<rparr>
               else s)
      in store_snapshot s b)"

subsection \<open>The row follows the snapshot\<close>

text \<open>A controller is in step with its row when reading the row back gives the snapshot.\<close>

definition persisted :: "circuit_breaker \<Rightarrow> bool" where
  "persisted b \<longleftrightarrow> find (\<lambda>r. cr_name r = cb_name (br_snapshot b)) (br_rows b)
     = Some (circuit_row_of (br_snapshot b))"

lemma snapshot_of_row_of [simp]: "snapshot_of_row (circuit_row_of s) = Inr s"
  by (simp add: snapshot_of_row_def circuit_row_of_def not_le unsigned_less [of "cb_failure_count s", simplified])

lemma name_circuit_row_of [simp]: "cr_name (circuit_row_of s) = cb_name s"
  by (simp add: circuit_row_of_def)

lemma find_save_circuit:
  "find (\<lambda>r. cr_name r = cb_name s) (save_circuit s rows) = Some (circuit_row_of s)"
  by (induction rows) (auto simp: save_circuit_def)

lemma find_save_circuit_other:
  "name \<noteq> cb_name s \<Longrightarrow> find (\<lambda>r. cr_name r = name) (save_circuit s rows) = find (\<lambda>r. cr_name r = name) rows"
  by (auto simp: save_circuit_def find_append table_simps split: option.split)

lemma persisted_store [simp]: "cb_name s = cb_name (br_snapshot b) \<Longrightarrow> persisted (store_snapshot s b)"
  using find_save_circuit [of s] by (simp add: persisted_def store_snapshot_def)

lemma store_snapshot_simps [simp]:
  "br_snapshot (store_snapshot s b) = s" "br_config (store_snapshot s b) = br_config b"
  by (simp_all add: store_snapshot_def)

lemma persisted_steps:
  assumes "persisted b"
  shows "persisted (snd (allow now b))" "persisted (record_success b)" "persisted (record_failure now b)"
  using assms
  by (auto simp: allow_def record_success_def record_failure_def Let_def split: circuit_state.split option.split)

lemma circuit_breaker_new_persisted:
  assumes "circuit_breaker_new name config rows = Inr b"
  shows "persisted b" "cb_name (br_snapshot b) = name" "br_config b = config"
    "validate_key name ''circuit name'' 128 = Inr ()"
proof -
  obtain s rows' where load: "load_circuit name rows = Inr (s, rows')"
      and b: "b = \<lparr>br_config = config, br_snapshot = s, br_rows = rows'\<rparr>"
    using assms by (auto simp: circuit_breaker_new_def result_simps)
  have row: "circuit_row_of s = r" if "snapshot_of_row r = Inr s" for r
    using that by (cases r) (auto simp: snapshot_of_row_def circuit_row_of_def result_simps not_le
        unat_of_nat take_bit_nat_eq_self split: if_splits)
  have "find (\<lambda>r. cr_name r = name) rows' = Some (circuit_row_of s) \<and> cb_name s = name"
  proof (cases "find (\<lambda>r. cr_name r = name) rows")
    case None
    then show ?thesis
      using load by (auto simp: load_circuit_def result_simps find_append closed_snapshot_def circuit_row_of_def)
  next
    case (Some r)
    then have "snapshot_of_row r = Inr s" "rows' = rows" "cr_name r = name"
      using load find_SomeD [OF Some] by (auto simp: load_circuit_def result_simps)
    with Some row name_circuit_row_of show ?thesis by metis
  qed
  then show "persisted b" "cb_name (br_snapshot b) = name" by (auto simp: persisted_def b)
  show "br_config b = config" "validate_key name ''circuit name'' 128 = Inr ()"
    using load by (auto simp: b load_circuit_def result_simps)
qed

lemma allow_open:
  assumes "cb_state (br_snapshot b) = Open"
  shows "allow now b =
    (case cb_next_probe_at (br_snapshot b) of
       Some p \<Rightarrow> if p \<le> now
         then (True, store_snapshot ((br_snapshot b)\<lparr>cb_state := HalfOpen, cb_next_probe_at := None\<rparr>) b)
         else (False, b)
     | None \<Rightarrow> (False, b))"
  using assms by (simp add: allow_def Let_def)

subsection \<open>Runs of a controller\<close>

datatype circuit_event = Ask instant | Success | Failure instant

fun circuit_step :: "circuit_event \<Rightarrow> circuit_breaker \<Rightarrow> circuit_breaker" where
  "circuit_step (Ask now) b = snd (allow now b)"
| "circuit_step Success b = record_success b"
| "circuit_step (Failure now) b = record_failure now b"

abbreviation circuit_run :: "circuit_event list \<Rightarrow> circuit_breaker \<Rightarrow> circuit_breaker" where
  "circuit_run \<equiv> fold circuit_step"

lemma circuit_step_frame:
  "br_config (circuit_step e b) = br_config b"
  "cb_name (br_snapshot (circuit_step e b)) = cb_name (br_snapshot b)"
  "persisted b \<Longrightarrow> persisted (circuit_step e b)"
  by (cases e; auto simp: allow_def record_success_def record_failure_def Let_def persisted_steps
      split: circuit_state.split option.split)+

lemma circuit_run_frame:
  "br_config (circuit_run es b) = br_config b"
  "cb_name (br_snapshot (circuit_run es b)) = cb_name (br_snapshot b)"
  "persisted b \<Longrightarrow> persisted (circuit_run es b)"
  by (induction es arbitrary: b) (auto simp: circuit_step_frame)

text \<open>The breaker survives a restart: whatever calls and outcomes a controller has seen, one created
  again over the table it wrote is in exactly its state.\<close>

theorem circuit_restart_roundtrip:
  assumes "circuit_breaker_new name config rows = Inr b"
  shows "circuit_breaker_new name config (br_rows (circuit_run es b)) = Inr (circuit_run es b)"
proof -
  let ?b = "circuit_run es b"
  note new = circuit_breaker_new_persisted [OF assms]
  have "find (\<lambda>r. cr_name r = name) (br_rows ?b) = Some (circuit_row_of (br_snapshot ?b))"
    using circuit_run_frame(3) [OF new(1), of es] new(2) by (simp add: persisted_def circuit_run_frame)
  then have "load_circuit name (br_rows ?b) = Inr (br_snapshot ?b, br_rows ?b)"
    using new(4) by (simp add: load_circuit_def)
  then show ?thesis
    using new(3) by (simp add: circuit_breaker_new_def circuit_run_frame(1) [symmetric, of b es])
qed

definition sample_breaker :: circuit_breaker where
  "sample_breaker = \<lparr>br_config = default_circuit_config, br_snapshot = closed_snapshot ''agent-runtime'',
     br_rows = [circuit_row_of (closed_snapshot ''agent-runtime'')]\<rparr>"

lemma sample_breaker_new: "circuit_breaker_new ''agent-runtime'' default_circuit_config [] = Inr sample_breaker"
  by (simp add: circuit_breaker_new_def load_circuit_def validate_key_def sample_breaker_def ascii_white_def)

theorem circuit_restart_roundtrip_witness:
  "let b = circuit_run [Failure 1, Failure 2, Failure 3, Ask 40000000000] sample_breaker
   in circuit_breaker_new ''agent-runtime'' default_circuit_config (br_rows b) = Inr b"
  using circuit_restart_roundtrip [OF sample_breaker_new] by (simp only: Let_def)

text \<open>The number of failures in a row at the end of a list of outcomes.\<close>

definition trailing_failures :: "circuit_event list \<Rightarrow> nat" where
  "trailing_failures es = length (takeWhile (\<lambda>e. e \<noteq> Success) (rev es))"

definition is_outcome :: "circuit_event \<Rightarrow> bool" where
  "is_outcome e \<longleftrightarrow> (case e of Ask _ \<Rightarrow> False | _ \<Rightarrow> True)"

text \<open>The breaker opens on consecutive failures and only on them: after any sequence of outcomes a
  breaker that started closed is open exactly when the sequence ends in at least the threshold (and at
  least one) of failures without a success between them, otherwise it is closed; it counts those
  failures, up to the largest 32-bit value.\<close>

theorem circuit_opens_on_consecutive_failures:
  assumes "br_snapshot b = closed_snapshot name" "list_all is_outcome es"
  defines "n \<equiv> trailing_failures es" and "s \<equiv> br_snapshot (circuit_run es b)"
  shows "unat (cb_failure_count s) = min n (2 ^ 32 - 1)
    \<and> cb_state s = (if 1 \<le> n \<and> unat (cf_failure_threshold (br_config b)) \<le> n then Open else Closed)"
  using assms(2) unfolding n_def s_def
proof (induction es rule: rev_induct)
  case Nil
  then show ?case by (simp add: assms(1) closed_snapshot_def trailing_failures_def)
next
  case (snoc e es)
  have cfg: "br_config (circuit_run es b) = br_config b" by (rule circuit_run_frame)
  show ?case
  proof (cases e)
    case (Failure now)
    have "unat (cf_failure_threshold (br_config b)) < 2 ^ 32"
      using unsigned_less [of "cf_failure_threshold (br_config b)"] by simp
    then show ?thesis
      using snoc Failure cfg
      by (auto simp: trailing_failures_def record_failure_def Let_def saturating_add_unat
          word_le_nat_alt is_outcome_def split: if_splits)
  next
    case Success
    then show ?thesis by (simp add: trailing_failures_def record_success_def)
  qed (use snoc.prems in \<open>simp add: is_outcome_def\<close>)
qed

theorem circuit_opens_on_consecutive_failures_witness:
  "cb_state (br_snapshot (circuit_run [Failure 1, Success, Failure 2, Failure 3, Failure 4] sample_breaker)) = Open"
  using circuit_opens_on_consecutive_failures [of sample_breaker "''agent-runtime''"
      "[Failure 1, Success, Failure 2, Failure 3, Failure 4]"]
  by (simp add: sample_breaker_def is_outcome_def trailing_failures_def default_circuit_config_def)

text \<open>The answers to a series of calls of \<open>allow\<close>.\<close>

fun answers :: "instant list \<Rightarrow> circuit_breaker \<Rightarrow> bool list" where
  "answers [] b = []"
| "answers (now # ts) b = (case allow now b of (ok, b) \<Rightarrow> ok # answers ts b)"

lemma answers_half_open: "cb_state (br_snapshot b) = HalfOpen \<Longrightarrow> answers ts b = replicate (length ts) False"
  by (induction ts) (auto simp: allow_def)

text \<open>An open circuit lets at most one probe through: among any number of calls made while no outcome
  is recorded, from any number of workers, at most one is allowed, and none before the moment the
  circuit may be probed.\<close>

theorem open_circuit_single_probe:
  assumes "cb_state (br_snapshot b) = Open"
  shows "length (filter id (answers ts b)) \<le> 1
    \<and> (\<forall>i < length ts. answers ts b ! i \<longrightarrow>
        (\<exists>p. cb_next_probe_at (br_snapshot b) = Some p \<and> p \<le> ts ! i))"
  using assms
proof (induction ts)
  case (Cons now ts)
  show ?case
  proof (cases "fst (allow now b)")
    case True
    then obtain p where p: "cb_next_probe_at (br_snapshot b) = Some p" "p \<le> now"
        and "cb_state (br_snapshot (snd (allow now b))) = HalfOpen"
      using Cons.prems by (auto simp: allow_open split: option.splits if_splits)
    then have "answers (now # ts) b = True # replicate (length ts) False"
      using True by (cases "allow now b") (simp add: answers_half_open)
    with p show ?thesis by (auto simp: nth_Cons split: nat.splits)
  next
    case False
    then have "allow now b = (False, b)"
      using Cons.prems by (auto simp: allow_open split: option.splits if_splits)
    with Cons show ?thesis by (auto simp: nth_Cons split: nat.splits)
  qed
qed simp

definition sample_open :: circuit_breaker where
  "sample_open = store_snapshot \<lparr>cb_name = ''agent-runtime'', cb_state = Open, cb_failure_count = 3,
     cb_opened_at = Some 3, cb_next_probe_at = Some 30000000003\<rparr> sample_breaker"

theorem open_circuit_single_probe_witness:
  "length (filter id (answers [5, 40000000000, 50000000000] sample_open)) \<le> 1
   \<and> answers [5, 40000000000] sample_open = [False, True]"
  using open_circuit_single_probe [of sample_open "[5, 40000000000, 50000000000]"]
  by (simp add: sample_open_def allow_def Let_def)

end
