(* ===== verification/Queue_Iam.thy ===== *)
theory Queue_Iam
  imports Queue_Circuit Plan_Reducer
begin

text \<open>
  \<^verbatim>\<open>crates/shaka-queue/src/lib.rs\<close>: tenants, users, bearer tokens, tenant limits and sessions. A
  role column holds the JSON text of a role and is typed; SHA-256 of a token is an argument. Text
  of timestamps compares as the timestamps do, so \<open>expires_at > ?\<close> is a comparison of numbers.
\<close>

record session_row =
  ss_session_id :: uuid
  ss_tenant :: tenant_id
  ss_operator :: operator_id
  ss_role :: role
  ss_created_at :: instant
  ss_last_seen_at :: instant
  ss_metadata :: json

record tenant_row =
  tn_tenant :: tenant_id
  tn_display_name :: string
  tn_active :: bool
  tn_created_at :: instant

record user_row =
  us_operator :: operator_id
  us_tenant :: tenant_id
  us_role :: role
  us_active :: bool
  us_created_at :: instant
  us_updated_at :: instant

record token_row =
  to_token_id :: string
  to_hash :: string
  to_prefix :: string
  to_operator :: operator_id
  to_created_at :: instant
  to_expires_at :: "instant option"
  to_revoked_at :: "instant option"
  to_last_used_at :: "instant option"

record tenant_limits =
  tl_tenant :: tenant_id
  tl_max_active_tasks :: u32
  tl_max_daily_tasks :: u32
  tl_max_daily_cost :: u64
  tl_requests_per_window :: u32
  tl_window_seconds :: u32

record rate_row =
  rw_scope :: string
  rw_window_start :: instant
  rw_count :: nat

text \<open>The store of the host: the tables of the plan engine and of the task queue, and those of IAM.\<close>

record host =
  hs_db :: db
  hs_sessions :: "session_row list"
  hs_tenants :: "tenant_row list"
  hs_users :: "user_row list"
  hs_tokens :: "token_row list"
  hs_limits :: "tenant_limits list"
  hs_rates :: "rate_row list"

definition host_uuid :: "host \<Rightarrow> uuid \<times> host" where
  "host_uuid h = (case fresh_uuid (hs_db h) of (u, db) \<Rightarrow> (u, h\<lparr>hs_db := db\<rparr>))"

subsection \<open>Limits\<close>

definition default_limits :: "tenant_id \<Rightarrow> tenant_limits" where
  "default_limits tenant = \<lparr>tl_tenant = tenant, tl_max_active_tasks = 32, tl_max_daily_tasks = 1000,
     tl_max_daily_cost = 10000000, tl_requests_per_window = 120, tl_window_seconds = 60\<rparr>"

definition validate_limits :: "tenant_limits \<Rightarrow> queue_error + unit" where
  "validate_limits l =
     (if tl_max_active_tasks l = 0 \<or> tl_max_active_tasks l > 100000 then
        Inl (QInvalidInput ''max_active_tasks deve estar entre 1 e 100000'')
      else if tl_max_daily_tasks l = 0 \<or> tl_max_daily_tasks l > 1000000 then
        Inl (QInvalidInput ''max_daily_tasks deve estar entre 1 e 1000000'')
      else if tl_max_daily_cost l = 0 then
        Inl (QInvalidInput ''max_daily_cost_microunits deve ser positivo'')
      else if tl_requests_per_window l = 0 \<or> tl_requests_per_window l > 1000000 then
        Inl (QInvalidInput ''requests_per_window deve estar entre 1 e 1000000'')
      else if tl_window_seconds l = 0 \<or> tl_window_seconds l > 86400 then
        Inl (QInvalidInput ''window_seconds deve estar entre 1 e 86400'')
      else Inr ())"

definition tenant_not_found :: "tenant_id \<Rightarrow> queue_error" where
  "tenant_not_found tenant = NotFound (''tenant '' @ tenant_str tenant)"

definition load_limits :: "tenant_id \<Rightarrow> host \<Rightarrow> queue_error + tenant_limits" where
  "load_limits tenant h =
     ok_or (tenant_not_found tenant) (find (\<lambda>l. tl_tenant l = tenant) (hs_limits h))"

text \<open>\<open>INSERT OR IGNORE\<close>.\<close>

definition ensure_limits :: "tenant_id \<Rightarrow> host \<Rightarrow> host" where
  "ensure_limits tenant h =
     (if list_ex (\<lambda>l. tl_tenant l = tenant) (hs_limits h) then h
      else h\<lparr>hs_limits := hs_limits h @ [default_limits tenant]\<rparr>)"

text \<open>A \<open>u64\<close> is bound to a 64-bit signed column; one that does not fit is an error of the driver.\<close>

definition set_limits :: "tenant_limits \<Rightarrow> host \<Rightarrow> queue_error + (tenant_limits \<times> host)" where
  "set_limits l h =
     and_then (validate_limits l) (\<lambda>_.
     if unat (tl_max_daily_cost l) \<ge> 2 ^ 63 then Inl (Sqlite ConversionFailure)
     else if count_where (\<lambda>r. tl_tenant r = tl_tenant l) (hs_limits h) = 0 then
       Inl (tenant_not_found (tl_tenant l))
     else Inr (l, h\<lparr>hs_limits := update_where (\<lambda>r. tl_tenant r = tl_tenant l) (\<lambda>_. l) (hs_limits h)\<rparr>))"

subsection \<open>Tenants and users\<close>

text \<open>A row that was inserted is read back by its key afterwards. Its names have then passed the check that
  reading them repeats, so that this cannot fail on a table the operations built.\<close>

record tenant_record =
  tr_row :: tenant_row
  tr_limits :: tenant_limits

definition load_tenant_row :: "tenant_row \<times> tenant_limits \<Rightarrow> queue_error + tenant_record" where
  "load_tenant_row p = (case p of (n, l) \<Rightarrow>
     and_then (map_err (\<lambda>_. Sqlite ConversionFailure) (tenant_id_new (tenant_str (tn_tenant n)))) (\<lambda>_.
     Inr \<lparr>tr_row = n, tr_limits = l\<rparr>))"

definition tenants_with_limits :: "host \<Rightarrow> (tenant_row \<times> tenant_limits) list" where
  "tenants_with_limits h =
     concat (map (\<lambda>n. map (Pair n) (filter (\<lambda>l. tl_tenant l = tn_tenant n) (hs_limits h))) (hs_tenants h))"

definition list_tenants :: "host \<Rightarrow> queue_error + tenant_record list" where
  "list_tenants h =
     collect_results load_tenant_row (sort_key (\<lambda>p. tenant_str (tn_tenant (fst p))) (tenants_with_limits h))"

definition get_tenant :: "tenant_id \<Rightarrow> host \<Rightarrow> queue_error + tenant_record" where
  "get_tenant tenant h =
     and_then (ok_or (tenant_not_found tenant)
       (find (\<lambda>p. tn_tenant (fst p) = tenant) (tenants_with_limits h))) load_tenant_row"

definition tenant_exists :: "tenant_id \<Rightarrow> host \<Rightarrow> bool" where
  "tenant_exists tenant h \<longleftrightarrow> list_ex (\<lambda>n. tn_tenant n = tenant) (hs_tenants h)"

definition tenant_is_active :: "tenant_id \<Rightarrow> host \<Rightarrow> bool" where
  "tenant_is_active tenant h \<longleftrightarrow> list_ex (\<lambda>n. tn_tenant n = tenant \<and> tn_active n) (hs_tenants h)"

definition insert_tenant :: "tenant_row \<Rightarrow> host \<Rightarrow> host" where
  "insert_tenant n h = h\<lparr>hs_tenants := hs_tenants h @ [n]\<rparr>"

definition create_tenant ::
    "instant \<Rightarrow> tenant_id \<Rightarrow> string \<Rightarrow> host \<Rightarrow> queue_error + (tenant_record \<times> host)" where
  "create_tenant now tenant display_name h =
     and_then (validate_key (tenant_str tenant) ''tenant_id'' 128) (\<lambda>_.
     and_then (validate_key display_name ''display_name'' 256) (\<lambda>_.
     and_then (constraint (\<not> tenant_exists tenant h)) (\<lambda>_.
     let h = ensure_limits tenant (insert_tenant \<lparr>tn_tenant = tenant, tn_display_name = display_name,
           tn_active = True, tn_created_at = now\<rparr> h)
     in and_then (get_tenant tenant h) (\<lambda>r. Inr (r, h)))))"

definition get_user :: "operator_id \<Rightarrow> host \<Rightarrow> queue_error + user_row" where
  "get_user operator h =
     and_then (ok_or (NotFound (''user '' @ operator_str operator))
       (find (\<lambda>u. us_operator u = operator) (hs_users h))) (\<lambda>u.
     and_then (core (operator_id_new (operator_str (us_operator u)))) (\<lambda>_.
     and_then (core (tenant_id_new (tenant_str (us_tenant u)))) (\<lambda>_. Inr u)))"

definition user_exists :: "operator_id \<Rightarrow> host \<Rightarrow> bool" where
  "user_exists operator h \<longleftrightarrow> list_ex (\<lambda>u. us_operator u = operator) (hs_users h)"

definition new_user :: "instant \<Rightarrow> operator_id \<Rightarrow> tenant_id \<Rightarrow> role \<Rightarrow> user_row" where
  "new_user now operator tenant role = \<lparr>us_operator = operator, us_tenant = tenant, us_role = role,
     us_active = True, us_created_at = now, us_updated_at = now\<rparr>"

definition insert_user :: "user_row \<Rightarrow> host \<Rightarrow> host" where
  "insert_user u h = h\<lparr>hs_users := hs_users h @ [u]\<rparr>"

text \<open>\<open>INSERT ... SELECT ... WHERE EXISTS\<close>: no row for a tenant that is absent or inactive, and the
  primary key refuses a second user of the same name.\<close>

definition create_user ::
    "instant \<Rightarrow> operator_id \<Rightarrow> tenant_id \<Rightarrow> role \<Rightarrow> host \<Rightarrow> queue_error + (user_row \<times> host)" where
  "create_user now operator tenant role h =
     and_then (validate_key (operator_str operator) ''operator_id'' 128) (\<lambda>_.
     if \<not> tenant_is_active tenant h then
       Inl (QInvalidInput ''tenant inexistente/inativo ou usuario ja existente'')
     else
       and_then (constraint (\<not> user_exists operator h)) (\<lambda>_.
       let h = insert_user (new_user now operator tenant role) h
       in and_then (get_user operator h) (\<lambda>u. Inr (u, h))))"

definition bootstrap_principal :: "instant \<Rightarrow> principal \<Rightarrow> host \<Rightarrow> queue_error + host" where
  "bootstrap_principal now who h =
     and_then (validate_key (tenant_str (pr_tenant who)) ''tenant_id'' 128) (\<lambda>_.
     and_then (validate_key (operator_str (pr_operator who)) ''operator_id'' 128) (\<lambda>_.
     let h = (if tenant_exists (pr_tenant who) h then h
              else insert_tenant \<lparr>tn_tenant = pr_tenant who, tn_display_name = tenant_str (pr_tenant who),
                tn_active = True, tn_created_at = now\<rparr> h);
         h = (if user_exists (pr_operator who) h then h
              else insert_user (new_user now (pr_operator who) (pr_tenant who) (pr_role who)) h)
     in Inr (ensure_limits (pr_tenant who) h)))"

subsection \<open>Tokens\<close>

definition MAX_TOKEN_LIFETIME_SECONDS :: int where
  "MAX_TOKEN_LIFETIME_SECONDS = 90 * 24 * 60 * 60"

definition seconds :: "int \<Rightarrow> int" where "seconds s = s * 1000000000"

record token_issue =
  ti_token_id :: string
  ti_token :: string
  ti_token_prefix :: string
  ti_principal :: principal
  ti_expires_at :: "instant option"

datatype auth_source = FromToken | FromStaticApiKey

record authenticated_principal =
  au_principal :: principal
  au_token_id :: string
  au_token_prefix :: string
  au_source :: auth_source

text \<open>What the crate takes from its libraries here: SHA-256 of a text as hexadecimal digits, and the
  text of a UUID.\<close>

record iam_env =
  sha_text :: "string \<Rightarrow> string"
  uuid_str :: "uuid \<Rightarrow> string"

definition lifetime_ok :: "instant \<Rightarrow> instant option \<Rightarrow> queue_error + instant" where
  "lifetime_ok now expires_at =
     and_then (ok_or (QInvalidInput ''token IAM exige expiracao explicita'') expires_at) (\<lambda>expires.
     if expires \<le> now then Inl (QInvalidInput ''token IAM deve expirar no futuro'')
     else if expires > now + seconds MAX_TOKEN_LIFETIME_SECONDS then
       Inl (QInvalidInput (''vida do token IAM nao pode exceder '' @ show_nat 7776000 @ '' segundos''))
     else Inr expires)"

definition token_id_text :: "iam_env \<Rightarrow> uuid \<Rightarrow> string" where
  "token_id_text I a = ''tok_'' @ uuid_str I a"

definition bearer_text :: "iam_env \<Rightarrow> uuid \<Rightarrow> uuid \<Rightarrow> string" where
  "bearer_text I b c = ''shk_'' @ uuid_str I b @ ''_'' @ uuid_str I c"

definition issue_token ::
    "iam_env \<Rightarrow> instant \<Rightarrow> operator_id \<Rightarrow> instant option \<Rightarrow> host \<Rightarrow> queue_error + (token_issue \<times> host)"
  where
  "issue_token I now operator expires_at h =
     and_then (get_user operator h) (\<lambda>user.
     if \<not> us_active user then Inl QUnauthorized
     else
       and_then (lifetime_ok now expires_at) (\<lambda>expires.
       let (a, h) = host_uuid h; (b, h) = host_uuid h; (c, h) = host_uuid h;
           token_id = token_id_text I a; token = bearer_text I b c;
           prefix = take_chars 12 token
       in and_then (constraint (\<not> list_ex (\<lambda>t. to_token_id t = token_id \<or> to_hash t = sha_text I token)
              (hs_tokens h))) (\<lambda>_.
          Inr (\<lparr>ti_token_id = token_id, ti_token = token, ti_token_prefix = prefix,
                 ti_principal = \<lparr>pr_operator = us_operator user, pr_tenant = us_tenant user,
                   pr_role = us_role user\<rparr>, ti_expires_at = Some expires\<rparr>,
               h\<lparr>hs_tokens := hs_tokens h @ [\<lparr>to_token_id = token_id, to_hash = sha_text I token,
                 to_prefix = prefix, to_operator = operator, to_created_at = now,
                 to_expires_at = Some expires, to_revoked_at = None, to_last_used_at = None\<rparr>]\<rparr>))))"

definition revoke_token :: "instant \<Rightarrow> string \<Rightarrow> host \<Rightarrow> queue_error + host" where
  "revoke_token now token_id h =
     (let P = (\<lambda>t. to_token_id t = token_id \<and> to_revoked_at t = None)
      in if count_where P (hs_tokens h) = 0 then Inl (NotFound (''token '' @ token_id))
         else Inr (h\<lparr>hs_tokens := update_where P (\<lambda>t. t\<lparr>to_revoked_at := Some now\<rparr>) (hs_tokens h)\<rparr>))"

text \<open>The join of a token with its user and the tenant of the user: the token is not revoked, user and
  tenant are active, and it has not expired.\<close>

definition live_token :: "instant \<Rightarrow> token_row \<Rightarrow> bool" where
  "live_token now t \<longleftrightarrow> to_revoked_at t = None \<and> (case to_expires_at t of None \<Rightarrow> False | Some e \<Rightarrow> now < e)"

definition token_user :: "token_row \<Rightarrow> host \<Rightarrow> user_row option" where
  "token_user t h =
     find (\<lambda>u. us_operator u = to_operator t \<and> us_active u \<and> tenant_is_active (us_tenant u) h) (hs_users h)"

definition find_bearer :: "instant \<Rightarrow> string \<Rightarrow> host \<Rightarrow> (token_row \<times> user_row) option" where
  "find_bearer now digest h =
     Option.bind (find (\<lambda>t. to_hash t = digest \<and> live_token now t \<and> token_user t h \<noteq> None) (hs_tokens h))
       (\<lambda>t. map_option (Pair t) (token_user t h))"

text \<open>The last use is recorded before the names in the row are checked again.\<close>

definition authenticate_token ::
    "iam_env \<Rightarrow> instant \<Rightarrow> string \<Rightarrow> host \<Rightarrow> (queue_error + authenticated_principal) \<times> host" where
  "authenticate_token I now token h =
     (if trim_is_empty token \<or> length token > 512 then (Inl QUnauthorized, h)
      else
        (case find_bearer now (sha_text I token) h of
           None \<Rightarrow> (Inl QUnauthorized, h)
         | Some (t, u) \<Rightarrow>
             (and_then (core (operator_id_new (operator_str (us_operator u)))) (\<lambda>operator.
              and_then (core (tenant_id_new (tenant_str (us_tenant u)))) (\<lambda>tenant.
              Inr \<lparr>au_principal = \<lparr>pr_operator = operator, pr_tenant = tenant, pr_role = us_role u\<rparr>,
                au_token_id = to_token_id t, au_token_prefix = to_prefix t, au_source = FromToken\<rparr>)),
              h\<lparr>hs_tokens := update_where (\<lambda>r. to_hash r = sha_text I token)
                (\<lambda>r. r\<lparr>to_last_used_at := Some now\<rparr>) (hs_tokens h)\<rparr>)))"

definition has_active_tokens :: "instant \<Rightarrow> host \<Rightarrow> bool" where
  "has_active_tokens now h \<longleftrightarrow> list_ex (\<lambda>t. live_token now t \<and> token_user t h \<noteq> None) (hs_tokens h)"

subsection \<open>Sessions\<close>

definition session_not_found :: "(uuid \<Rightarrow> string) \<Rightarrow> uuid \<Rightarrow> queue_error" where
  "session_not_found ut session_id = NotFound (''session '' @ ut session_id)"

definition create_session :: "instant \<Rightarrow> principal \<Rightarrow> json \<Rightarrow> host \<Rightarrow> queue_error + (session_row \<times> host)"
  where
  "create_session now who metadata h =
     (let (i, h) = host_uuid h;
          s = \<lparr>ss_session_id = i, ss_tenant = pr_tenant who, ss_operator = pr_operator who,
            ss_role = pr_role who, ss_created_at = now, ss_last_seen_at = now, ss_metadata = metadata\<rparr>
      in and_then (constraint (\<not> list_ex (\<lambda>r. ss_session_id r = i) (hs_sessions h))) (\<lambda>_.
         Inr (s, h\<lparr>hs_sessions := hs_sessions h @ [s]\<rparr>)))"

definition get_session :: "(uuid \<Rightarrow> string) \<Rightarrow> uuid \<Rightarrow> tenant_id \<Rightarrow> host \<Rightarrow> queue_error + session_row" where
  "get_session ut session_id tenant h =
     and_then (ok_or (session_not_found ut session_id)
       (find (\<lambda>r. ss_session_id r = session_id \<and> ss_tenant r = tenant) (hs_sessions h))) (\<lambda>r.
     and_then (core (tenant_id_new (tenant_str (ss_tenant r)))) (\<lambda>_.
     and_then (core (operator_id_new (operator_str (ss_operator r)))) (\<lambda>_. Inr r)))"

definition touch_session ::
    "(uuid \<Rightarrow> string) \<Rightarrow> instant \<Rightarrow> uuid \<Rightarrow> tenant_id \<Rightarrow> host \<Rightarrow> queue_error + host" where
  "touch_session ut now session_id tenant h =
     (let P = (\<lambda>r. ss_session_id r = session_id \<and> ss_tenant r = tenant)
      in if count_where P (hs_sessions h) = 0 then Inl (session_not_found ut session_id)
         else Inr (h\<lparr>hs_sessions := update_where P (\<lambda>r. r\<lparr>ss_last_seen_at := now\<rparr>) (hs_sessions h)\<rparr>))"

end
