(* ===== verification/Queue_Tasks.thy ===== *)
theory Queue_Tasks
  imports Queue_Iam Plan_Store
begin

text \<open>
  \<^verbatim>\<open>crates/shaka-queue/src/lib.rs\<close>: the task queue. A submission is admitted against the limits of its
  tenant, a claim hands the first eligible task to a worker under a lease with a fresh token, and only
  the holder of the token ends it; a cancellation is recorded and a lease that has expired is taken
  back. Planned tasks go through the plan engine in the same transaction. Each function is one
  transaction: an error leaves the store as it was.
\<close>

subsection \<open>Reading a task\<close>

definition task_not_found :: "env \<Rightarrow> task_id \<Rightarrow> queue_error" where
  "task_not_found E tid = (case tid of TaskId u \<Rightarrow> NotFound (''task '' @ uuid_text E u))"

definition partial_plan_reference :: "task_row \<Rightarrow> bool" where
  "partial_plan_reference r \<longleftrightarrow>
     (tk_plan_id r = None) \<noteq> (tk_plan_revision r = None)
     \<or> (tk_plan_id r = None) \<noteq> (tk_plan_digest r = None)
     \<or> tk_plan_step_id r \<noteq> None \<and> tk_plan_id r = None"

definition optional_step :: "string option \<Rightarrow> queue_error + plan_step_id option" where
  "optional_step s =
     (case s of None \<Rightarrow> Inr None
      | Some text \<Rightarrow> and_then (core (plan_step_id_new text)) (\<lambda>i. Inr (Some i)))"

definition task_of_row :: "task_row \<Rightarrow> queue_error + task_record" where
  "task_of_row r =
     and_then (optional_step (tk_plan_step_id r)) (\<lambda>step.
     if partial_plan_reference r then
       Inl (QInvalidInput ''referencia de plano parcialmente persistida'')
     else if \<not> (- (2 ^ 31) \<le> tk_priority r \<and> tk_priority r < 2 ^ 31) then
       Inl (QInvalidInput ''priority persistida invalida: out of range integral type conversion attempted'')
     else if tk_attempts r \<ge> 2 ^ 32 then Inl (QInvalidInput ''attempts persistido invalido: out of range integral type conversion attempted'')
     else if tk_max_attempts r \<ge> 2 ^ 32 then Inl (QInvalidInput ''max_attempts persistido invalido: out of range integral type conversion attempted'')
     else if tk_max_attempts r = 0 \<or> tk_max_attempts r > 10 then
       Inl (QInvalidInput ''invariantes de retry persistidas invalidas'')
     else and_then (parse_task_status (tk_status r)) (\<lambda>status.
       Inr \<lparr>ta_task_id = tk_task_id r, ta_session_id = tk_session_id r, ta_tenant = tk_tenant r,
         ta_idempotency_key = tk_idempotency_key r, ta_request_fingerprint = tk_request_fingerprint r,
         ta_envelope = tk_envelope_json r, ta_status = status, ta_priority = tk_priority r,
         ta_attempts = of_nat (tk_attempts r), ta_max_attempts = of_nat (tk_max_attempts r),
         ta_next_attempt_at = tk_next_attempt_at r, ta_cancel_requested = tk_cancel_requested r,
         ta_lease_until = tk_lease_until r, ta_lease_token = tk_lease_token r,
         ta_plan_execution_scope = None, ta_result = tk_result_json r, ta_last_error = tk_last_error r,
         ta_created_at = tk_created_at r, ta_updated_at = tk_updated_at r,
         ta_completed_at = tk_completed_at r, ta_plan_id = tk_plan_id r,
         ta_plan_revision = tk_plan_revision r, ta_plan_digest = tk_plan_digest r,
         ta_plan_step_id = step\<rparr>))"

definition find_task :: "task_id \<Rightarrow> tenant_id \<Rightarrow> db \<Rightarrow> task_row option" where
  "find_task tid tenant db = find (same_task tid tenant) (db_tasks db)"

definition load_task :: "env \<Rightarrow> task_id \<Rightarrow> tenant_id \<Rightarrow> db \<Rightarrow> queue_error + task_record" where
  "load_task E tid tenant db = and_then (ok_or (task_not_found E tid) (find_task tid tenant db)) task_of_row"

definition get_task :: "env \<Rightarrow> task_id \<Rightarrow> tenant_id \<Rightarrow> host \<Rightarrow> queue_error + task_record" where
  "get_task E tid tenant h = load_task E tid tenant (hs_db h)"

definition active_status :: "string \<Rightarrow> bool" where
  "active_status s \<longleftrightarrow> s \<in> {''queued'', ''running'', ''cancel_requested''}"

definition queued_count :: "host \<Rightarrow> nat" where
  "queued_count h = count_where (\<lambda>r. active_status (tk_status r)) (db_tasks (hs_db h))"

subsection \<open>Submission\<close>

definition same_plan_reference :: "task_record \<Rightarrow> plan_task_reference option \<Rightarrow> bool" where
  "same_plan_reference t reference =
     (case (ta_plan_id t, ta_plan_revision t, ta_plan_digest t, reference) of
        (None, None, None, None) \<Rightarrow> True
      | (Some pid, Some revision, Some digest, Some r) \<Rightarrow>
          pid = rf_plan_id r \<and> revision = rf_revision r \<and> digest = rf_digest r
      | _ \<Rightarrow> False)"

text \<open>The start of the window in whole seconds since the epoch, the window at least one second long.\<close>

definition fixed_window_start :: "instant \<Rightarrow> u32 \<Rightarrow> instant" where
  "fixed_window_start now window =
     (let s = now div 1000000000; w = int (max (unat window) 1) in seconds (s - s mod w))"

definition day_start :: "instant \<Rightarrow> instant" where
  "day_start now = (let day = seconds 86400 in now div day * day)"

definition submit_scopes :: "principal \<Rightarrow> string list" where
  "submit_scopes who =
     [''tenant:'' @ tenant_str (pr_tenant who) @ '':submit'',
      ''operator:'' @ operator_str (pr_operator who) @ '':submit'']"

definition same_window :: "string \<Rightarrow> instant \<Rightarrow> rate_row \<Rightarrow> bool" where
  "same_window scope start r \<longleftrightarrow> rw_scope r = scope \<and> rw_window_start r = start"

definition window_count :: "string \<Rightarrow> instant \<Rightarrow> rate_row list \<Rightarrow> nat" where
  "window_count scope start rows =
     (case find (same_window scope start) rows of None \<Rightarrow> 0 | Some r \<Rightarrow> rw_count r)"

text \<open>\<open>(window_start + window - now).num_seconds().max(1)\<close>; whole seconds, truncated toward zero.\<close>

definition retry_after :: "instant \<Rightarrow> tenant_limits \<Rightarrow> instant \<Rightarrow> nat" where
  "retry_after start l now =
     (let left = start + seconds (int (unat (tl_window_seconds l))) - now
      in nat (max 1 (if left \<ge> 0 then left div 1000000000 else - ((- left) div 1000000000))))"

definition check_rate ::
    "tenant_limits \<Rightarrow> instant \<Rightarrow> instant \<Rightarrow> rate_row list \<Rightarrow> string \<Rightarrow> queue_error + unit" where
  "check_rate l start now rows scope =
     (if window_count scope start rows \<ge> unat (tl_requests_per_window l)
      then Inl (RateLimited (retry_after start l now)) else Inr ())"

definition count_request :: "instant \<Rightarrow> rate_row list \<Rightarrow> string \<Rightarrow> rate_row list" where
  "count_request start rows scope =
     (if list_ex (same_window scope start) rows
      then update_where (same_window scope start) (\<lambda>r. r\<lparr>rw_count := rw_count r + 1\<rparr>) rows
      else rows @ [\<lparr>rw_scope = scope, rw_window_start = start, rw_count = 1\<rparr>])"

definition tenant_tasks :: "tenant_id \<Rightarrow> db \<Rightarrow> task_row list" where
  "tenant_tasks tenant db = filter (\<lambda>r. tk_tenant r = tenant) (db_tasks db)"

definition tasks_since :: "tenant_id \<Rightarrow> instant \<Rightarrow> db \<Rightarrow> task_row list" where
  "tasks_since tenant start db = filter (\<lambda>r. start \<le> tk_created_at r) (tenant_tasks tenant db)"

definition daily_cost :: "task_row list \<Rightarrow> u64" where
  "daily_cost rows =
     fold (\<lambda>r cost. saturating_add cost (max_cost_microunits (te_budget (tk_envelope_json r)))) rows 0"

definition check_quotas ::
    "tenant_limits \<Rightarrow> tenant_id \<Rightarrow> instant \<Rightarrow> task_envelope \<Rightarrow> db \<Rightarrow> queue_error + unit" where
  "check_quotas l tenant now envelope db =
     (let today = tasks_since tenant (day_start now) db in
      if count_where (\<lambda>r. active_status (tk_status r)) (tenant_tasks tenant db)
           \<ge> unat (tl_max_active_tasks l) then Inl (QuotaExceeded ''max_active_tasks'')
      else if length today \<ge> unat (tl_max_daily_tasks l) then Inl (QuotaExceeded ''max_daily_tasks'')
      else if saturating_add (daily_cost today) (max_cost_microunits (te_budget envelope))
           > tl_max_daily_cost l then Inl (QuotaExceeded ''max_daily_cost_microunits'')
      else Inr ())"

definition new_task_row ::
    "instant \<Rightarrow> uuid \<Rightarrow> principal \<Rightarrow> string \<Rightarrow> string \<Rightarrow> task_envelope \<Rightarrow> int \<Rightarrow> u32 \<Rightarrow>
     plan_task_reference option \<Rightarrow> task_row" where
  "new_task_row now session_id who key fingerprint envelope priority max_attempts reference =
     \<lparr>tk_task_id = te_task_id envelope, tk_session_id = session_id, tk_tenant = pr_tenant who,
      tk_idempotency_key = key, tk_request_fingerprint = fingerprint, tk_envelope_json = envelope,
      tk_status = ''queued'', tk_priority = priority, tk_attempts = 0,
      tk_max_attempts = unat max_attempts, tk_next_attempt_at = now, tk_cancel_requested = False,
      tk_lease_until = None, tk_lease_token = None, tk_result_json = None, tk_last_error = None,
      tk_created_at = now, tk_updated_at = now, tk_completed_at = None,
      tk_plan_id = map_option rf_plan_id reference, tk_plan_revision = map_option rf_revision reference,
      tk_plan_digest = map_option rf_digest reference, tk_plan_step_id = None\<rparr>"

definition insert_task_row :: "task_row \<Rightarrow> db \<Rightarrow> queue_error + db" where
  "insert_task_row r db =
     and_then (constraint (\<not> list_ex (\<lambda>q. tk_task_id q = tk_task_id r
         \<or> tk_tenant q = tk_tenant r \<and> tk_idempotency_key q = tk_idempotency_key r) (db_tasks db))) (\<lambda>_.
     Inr (db\<lparr>db_tasks := db_tasks db @ [r]\<rparr>))"

datatype submit_outcome = Created | Existing

record submission =
  sm_session_id :: uuid
  sm_who :: principal
  sm_key :: string
  sm_fingerprint :: string
  sm_envelope :: task_envelope
  sm_priority :: int
  sm_max_attempts :: u32
  sm_reference :: "plan_task_reference option"
  sm_request_id :: "string option"

text \<open>The checks before the transaction.\<close>

definition validate_submission :: "submission \<Rightarrow> queue_error + unit" where
  "validate_submission s =
     and_then (validate_key (sm_key s) ''idempotency_key'' 256) (\<lambda>_.
     and_then (validate_key (sm_fingerprint s) ''request_fingerprint'' 128) (\<lambda>_.
     and_then (case sm_request_id s of None \<Rightarrow> Inr () | Some r \<Rightarrow> validate_key r ''request_id'' 128) (\<lambda>_.
     if sm_max_attempts s = 0 \<or> sm_max_attempts s > 10 then
       Inl (QInvalidInput ''max_attempts deve estar entre 1 e 10'')
     else
       and_then (core (validate_budget (te_budget (sm_envelope s)))) (\<lambda>_.
       if te_tenant (sm_envelope s) \<noteq> pr_tenant (sm_who s)
          \<or> te_operator (sm_envelope s) \<noteq> pr_operator (sm_who s) then Inl Forbidden
       else Inr ()))))"

text \<open>What the host stores for the client's envelope: the context of the principal, never the one sent.\<close>

definition governed_envelope :: "submission \<Rightarrow> uuid option \<Rightarrow> task_envelope" where
  "governed_envelope s approval =
     (sm_envelope s)\<lparr>te_context := with_provenance (from_principal (sm_who s)) (sm_request_id s) approval\<rparr>"

text \<open>A submission that is new: the rate windows, the admission of its plan, the quotas and the row.\<close>

definition submit_new ::
    "env \<Rightarrow> instant \<Rightarrow> submission \<Rightarrow> tenant_limits \<Rightarrow> host \<Rightarrow>
     queue_error + (submit_outcome \<times> task_record \<times> host)" where
  "submit_new E now s limits h =
     (let who = sm_who s; start = fixed_window_start now (tl_window_seconds limits) in
      and_then (check_all (check_rate limits start now (hs_rates h)) (submit_scopes who)) (\<lambda>_.
      let rates = foldl (count_request start) (hs_rates h) (submit_scopes who) in
      and_then (case sm_reference s of
          None \<Rightarrow> Inr (None, hs_db h)
        | Some reference \<Rightarrow> record_plan_admission_tx E now who
            ((sm_envelope s)\<lparr>te_context := from_principal who\<rparr>) reference (hs_db h)) (\<lambda>(approval, db).
      let envelope = governed_envelope s approval in
      and_then (check_quotas limits (pr_tenant who) now envelope db) (\<lambda>_.
      and_then (insert_task_row (new_task_row now (sm_session_id s) who (sm_key s) (sm_fingerprint s)
          envelope (sm_priority s) (sm_max_attempts s) (sm_reference s)) db) (\<lambda>db.
      and_then (load_task E (te_task_id envelope) (pr_tenant who) db) (\<lambda>task.
      Inr (Created, task, h\<lparr>hs_db := db, hs_rates := rates\<rparr>)))))))"

definition submit_task_governed ::
    "env \<Rightarrow> instant \<Rightarrow> submission \<Rightarrow> host \<Rightarrow> queue_error + (submit_outcome \<times> task_record \<times> host)" where
  "submit_task_governed E now s h =
     (let who = sm_who s; tenant = pr_tenant who in
      and_then (validate_submission s) (\<lambda>_.
      and_then (ok_or (session_not_found (uuid_text E) (sm_session_id s))
        (find (\<lambda>r. ss_session_id r = sm_session_id s \<and> ss_tenant r = tenant) (hs_sessions h))) (\<lambda>session.
      if ss_operator session \<noteq> pr_operator who then Inl Forbidden
      else
        and_then (load_limits tenant h) (\<lambda>limits.
        case find (\<lambda>r. tk_tenant r = tenant \<and> tk_idempotency_key r = sm_key s) (db_tasks (hs_db h)) of
          Some r \<Rightarrow>
            and_then (load_task E (tk_task_id r) tenant (hs_db h)) (\<lambda>existing.
            if ta_request_fingerprint existing \<noteq> sm_fingerprint s
               \<or> \<not> same_plan_reference existing (sm_reference s) then Inl IdempotencyConflict
            else Inr (Existing, existing, h))
        | None \<Rightarrow> submit_new E now s limits h))))"

subsection \<open>Claim\<close>

definition eligible :: "instant \<Rightarrow> task_row \<Rightarrow> bool" where
  "eligible now r \<longleftrightarrow> tk_status r = ''queued'' \<and> \<not> tk_cancel_requested r \<and> tk_next_attempt_at r \<le> now"

text \<open>\<open>ORDER BY priority DESC, created_at ASC LIMIT 64\<close>.\<close>

definition claim_queue :: "instant \<Rightarrow> db \<Rightarrow> task_row list" where
  "claim_queue now db =
     take 64 (sort_key (\<lambda>r. - tk_priority r) (sort_key tk_created_at (filter (eligible now) (db_tasks db))))"

text \<open>The step of a planned task, with the scope it runs in; a direct task has none. The capabilities are
  those of the stored envelope, whatever the worker says.\<close>

definition prepare_claim ::
    "env \<Rightarrow> plan_claim_context \<Rightarrow> instant \<Rightarrow> task_record \<Rightarrow> db \<Rightarrow>
     queue_error + (plan_execution_scope option option \<times> db)" where
  "prepare_claim E cc now task db =
     (if ta_plan_id task = None then Inr (Some None, db)
      else
        and_then (task_reference task) (\<lambda>reference.
        let cc = cc\<lparr>cc_granted_capabilities := ctx_capabilities (te_context (ta_envelope task))\<rparr> in
        and_then (prepare_planned_claim_tx E task reference cc now db) (\<lambda>(selected, db).
        Inr (map_option (\<lambda>s. Some \<lparr>sc_plan_id = rf_plan_id reference, sc_step_id = st_id s,
          sc_action = st_action s\<rparr>) selected, db))))"

definition lease_task :: "uuid \<Rightarrow> instant \<Rightarrow> instant \<Rightarrow> plan_step_id option \<Rightarrow> task_row \<Rightarrow> task_row" where
  "lease_task token until now step r =
     r\<lparr>tk_status := ''running'', tk_attempts := tk_attempts r + 1, tk_lease_until := Some until,
       tk_lease_token := Some token, tk_plan_step_id := map_option step_str step, tk_updated_at := now\<rparr>"

fun claim_loop ::
    "env \<Rightarrow> plan_claim_context \<Rightarrow> instant \<Rightarrow> instant \<Rightarrow> (task_id \<times> tenant_id) list \<Rightarrow> db \<Rightarrow>
     queue_error + (task_record option \<times> db)" where
  "claim_loop E cc now until [] db = Inr (None, db)"
| "claim_loop E cc now until ((tid, tenant) # rest) db =
     and_then (core (tenant_id_new (tenant_str tenant))) (\<lambda>_.
     and_then (load_task E tid tenant db) (\<lambda>task.
     and_then (prepare_claim E cc now task db) (\<lambda>(selected, db).
     case selected of
       None \<Rightarrow> claim_loop E cc now until rest db
     | Some scope \<Rightarrow>
         let (token, db) = fresh_uuid db;
             db = db\<lparr>db_tasks := update_where (\<lambda>r. same_task tid tenant r \<and> tk_status r = ''queued'')
               (lease_task token until now (map_option sc_step_id scope)) (db_tasks db)\<rparr>
         in and_then (load_task E tid tenant db) (\<lambda>claimed.
            Inr (Some (claimed\<lparr>ta_plan_execution_scope := scope\<rparr>), db)))))"

definition claim_next ::
    "env \<Rightarrow> instant \<Rightarrow> int \<Rightarrow> plan_claim_context \<Rightarrow> host \<Rightarrow> queue_error + (task_record option \<times> host)"
  where
  "claim_next E now lease_for cc h =
     (if lease_for \<le> 0 then Inl (QInvalidInput ''lease_for deve ser maior que zero'')
      else
        and_then (claim_loop E cc now (now + lease_for)
          (map (\<lambda>r. (tk_task_id r, tk_tenant r)) (claim_queue now (hs_db h))) (hs_db h)) (\<lambda>(task, db).
        Inr (task, h\<lparr>hs_db := db\<rparr>)))"

subsection \<open>Cancellation\<close>

definition cancelled_status :: "task_record \<Rightarrow> instant \<Rightarrow> string \<times> instant option" where
  "cancelled_status task now =
     (case ta_status task of
        Queued \<Rightarrow> (task_status_as_str TaskIsCancelled, Some now)
      | TaskIsRunning \<Rightarrow> (task_status_as_str TaskCancelRequested, None)
      | TaskCancelRequested \<Rightarrow> (task_status_as_str TaskCancelRequested, None)
      | s \<Rightarrow> (task_status_as_str s, ta_completed_at task))"

definition request_cancel ::
    "env \<Rightarrow> instant \<Rightarrow> task_id \<Rightarrow> tenant_id \<Rightarrow> host \<Rightarrow> queue_error + (task_record \<times> host)" where
  "request_cancel E now tid tenant h =
     and_then (load_task E tid tenant (hs_db h)) (\<lambda>task.
     if task_is_terminal (ta_status task) then Inr (task, h)
     else
       and_then (if ta_plan_id task \<noteq> None then cancel_planned_task_tx E task now (hs_db h)
                 else Inr (hs_db h)) (\<lambda>db.
       let (status, completed) = cancelled_status task now;
           db = update_task tid tenant (\<lambda>r. r\<lparr>tk_status := status, tk_cancel_requested := True,
             tk_updated_at := now, tk_completed_at := completed\<rparr>) db
       in and_then (load_task E tid tenant db) (\<lambda>updated. Inr (updated, h\<lparr>hs_db := db\<rparr>))))"

subsection \<open>The end of a task\<close>

definition terminal_outcome :: "task_status \<Rightarrow> finish_outcome" where
  "terminal_outcome s =
     (case s of TaskIsSucceeded \<Rightarrow> FinishSucceeded | TaskIsCancelled \<Rightarrow> FinishCancelled | _ \<Rightarrow> FinishFailed)"

definition leased_task :: "task_id \<Rightarrow> tenant_id \<Rightarrow> uuid \<Rightarrow> task_row \<Rightarrow> bool" where
  "leased_task tid tenant token r \<longleftrightarrow> same_task tid tenant r \<and> tk_lease_token r = Some token"

definition update_leased :: "task_id \<Rightarrow> tenant_id \<Rightarrow> uuid \<Rightarrow> (task_row \<Rightarrow> task_row) \<Rightarrow> db \<Rightarrow> db" where
  "update_leased tid tenant token f db =
     db\<lparr>db_tasks := update_where (leased_task tid tenant token) f (db_tasks db)\<rparr>"

definition end_lease :: "string \<Rightarrow> instant \<Rightarrow> task_row \<Rightarrow> task_row" where
  "end_lease status now r =
     r\<lparr>tk_status := status, tk_lease_until := None, tk_lease_token := None, tk_updated_at := now\<rparr>"

definition finish_direct_cancel_tx :: "task_id \<Rightarrow> tenant_id \<Rightarrow> uuid \<Rightarrow> instant \<Rightarrow> db \<Rightarrow> finish_outcome \<times> db" where
  "finish_direct_cancel_tx tid tenant token now db =
     (FinishCancelled, update_leased tid tenant token (\<lambda>r. (end_lease ''cancelled'' now r)
        \<lparr>tk_cancel_requested := True, tk_completed_at := Some now\<rparr>) db)"

definition finish_direct_requeue_tx ::
    "task_id \<Rightarrow> tenant_id \<Rightarrow> uuid \<Rightarrow> string option \<Rightarrow> instant \<Rightarrow> instant \<Rightarrow> db \<Rightarrow> finish_outcome \<times> db" where
  "finish_direct_requeue_tx tid tenant token err next now db =
     (Requeued next, update_leased tid tenant token (\<lambda>r. (end_lease ''queued'' now r)
        \<lparr>tk_next_attempt_at := next, tk_result_json := None, tk_last_error := err\<rparr>) db)"

definition finish_direct_terminal_tx ::
    "task_record \<Rightarrow> uuid \<Rightarrow> json option \<Rightarrow> string option \<Rightarrow> task_status \<Rightarrow> instant \<Rightarrow> db \<Rightarrow>
     finish_outcome \<times> db" where
  "finish_direct_terminal_tx task token result err status now db =
     (if status = TaskIsSucceeded then FinishSucceeded else FinishFailed,
      update_leased (ta_task_id task) (ta_tenant task) token
        (\<lambda>r. (end_lease (task_status_as_str status) now r)\<lparr>tk_result_json := result, tk_last_error := err,
          tk_completed_at := Some now\<rparr>) db)"

definition finish_direct ::
    "task_record \<Rightarrow> task_id \<Rightarrow> tenant_id \<Rightarrow> uuid \<Rightarrow> json option \<Rightarrow> string option \<Rightarrow> bool \<Rightarrow> instant \<Rightarrow>
     int \<Rightarrow> int \<Rightarrow> db \<Rightarrow> finish_outcome \<times> db" where
  "finish_direct task tid tenant token result err retryable now base_ms max_ms db =
     (if ta_cancel_requested task \<or> ta_status task = TaskCancelRequested then
        finish_direct_cancel_tx tid tenant token now db
      else if retryable \<and> ta_attempts task < ta_max_attempts task then
        finish_direct_requeue_tx tid tenant token (map_option (take_chars 4096) err)
          (now + millis (retry_delay_ms base_ms max_ms (unat (ta_attempts task)))) now db
      else
        finish_direct_terminal_tx task token result (map_option (take_chars 4096) err)
          (if err = None then TaskIsSucceeded else TaskIsFailed) now db)"

definition finish_task ::
    "env \<Rightarrow> task_id \<Rightarrow> tenant_id \<Rightarrow> uuid \<Rightarrow> json option \<Rightarrow> string option \<Rightarrow> bool \<Rightarrow> instant \<Rightarrow> int \<Rightarrow>
     int \<Rightarrow> plan_claim_context \<Rightarrow> host \<Rightarrow> queue_error + (finish_outcome \<times> host)" where
  "finish_task E tid tenant token result err retryable now base_ms max_ms cc h =
     and_then (load_task E tid tenant (hs_db h)) (\<lambda>task.
     if task_is_terminal (ta_status task) then Inr (terminal_outcome (ta_status task), h)
     else if ta_lease_token task \<noteq> Some token
          \<or> (case ta_lease_until task of None \<Rightarrow> True | Some until \<Rightarrow> until \<le> now) then Inl LeaseLost
     else
       and_then (if ta_plan_id task \<noteq> None then
           finish_planned_step_tx E task result err retryable now base_ms max_ms cc (hs_db h)
         else
           Inr (finish_direct task tid tenant token result err retryable now base_ms max_ms (hs_db h)))
         (\<lambda>(outcome, db). Inr (outcome, h\<lparr>hs_db := db\<rparr>)))"

subsection \<open>Expired leases\<close>

definition lease_expired :: "instant \<Rightarrow> task_row \<Rightarrow> bool" where
  "lease_expired now r \<longleftrightarrow> tk_status r \<in> {''running'', ''cancel_requested''}
     \<and> (case tk_lease_until r of None \<Rightarrow> False | Some until \<Rightarrow> until \<le> now)"

definition recover_direct_lease :: "instant \<Rightarrow> task_row \<Rightarrow> task_row" where
  "recover_direct_lease now r =
     (end_lease (if tk_cancel_requested r then ''cancelled'' else ''queued'') now r)
       \<lparr>tk_completed_at := (if tk_cancel_requested r then Some now else tk_completed_at r)\<rparr>"

definition recover_lease :: "env \<Rightarrow> instant \<Rightarrow> db \<Rightarrow> task_id \<times> tenant_id \<Rightarrow> queue_error + db" where
  "recover_lease E now db entry =
     (case entry of (tid, tenant) \<Rightarrow>
      and_then (core (tenant_id_new (tenant_str tenant))) (\<lambda>_.
      and_then (load_task E tid tenant db) (\<lambda>task.
      if ta_plan_id task \<noteq> None then recover_expired_plan_lease_tx E task now db
      else Inr (update_task tid tenant (recover_direct_lease now) db))))"

definition recover_expired_leases :: "env \<Rightarrow> instant \<Rightarrow> host \<Rightarrow> queue_error + (nat \<times> host)" where
  "recover_expired_leases E now h =
     (let expired = take 128 (sort_key tk_updated_at (filter (lease_expired now) (db_tasks (hs_db h))))
      in and_then (fold_result (recover_lease E now) (map (\<lambda>r. (tk_task_id r, tk_tenant r)) expired)
           (hs_db h)) (\<lambda>db.
         Inr (length expired, h\<lparr>hs_db := db\<rparr>)))"

end
