(* ===== verification/Queue_Leases.thy ===== *)
theory Queue_Leases
  imports Queue_Tasks Store_Change
begin

text \<open>
  The discipline of the leases, as a relation every operation of the host keeps: identifiers are
  handed out in order, task rows are never removed and what identifies a task never changes, a lease
  token appears in a row only when it is new, and the well-formedness of the table of tasks is
  preserved.
\<close>

subsection \<open>Well-formed tasks\<close>

definition leased_status :: "task_status set" where
  "leased_status = {TaskIsRunning, TaskCancelRequested}"

text \<open>A row holds a token exactly while it is \<open>running\<close> or \<open>cancel_requested\<close>, an end of lease exactly
  with a token, a step only with a lease, and a moment of completion once it is final; the stored
  context grants what the role of the principal allows.\<close>

definition row_ok :: "task_row \<Rightarrow> bool" where
  "row_ok r \<longleftrightarrow>
     (\<exists>s. tk_status r = task_status_as_str s \<and> (tk_lease_token r \<noteq> None \<longleftrightarrow> s \<in> leased_status)
        \<and> (task_is_terminal s \<longrightarrow> tk_completed_at r \<noteq> None))
     \<and> (tk_lease_until r = None \<longleftrightarrow> tk_lease_token r = None)
     \<and> (tk_plan_step_id r \<noteq> None \<longrightarrow> tk_lease_token r \<noteq> None)
     \<and> 1 \<le> tk_max_attempts r \<and> tk_max_attempts r \<le> 10
     \<and> ctx_capabilities (te_context (tk_envelope_json r)) = for_role (ctx_role (te_context (tk_envelope_json r)))
     \<and> te_tenant (tk_envelope_json r) = tk_tenant r \<and> te_task_id (tk_envelope_json r) = tk_task_id r"

definition task_key :: "task_row \<Rightarrow> tenant_id \<times> string" where
  "task_key r = (tk_tenant r, tk_idempotency_key r)"

definition tokens :: "task_row list \<Rightarrow> uuid list" where
  "tokens rs = List.map_filter tk_lease_token rs"

definition tasks_ok :: "db \<Rightarrow> bool" where
  "tasks_ok db \<longleftrightarrow> distinct (map tk_task_id (db_tasks db)) \<and> distinct (map task_key (db_tasks db))
     \<and> distinct (tokens (db_tasks db)) \<and> (\<forall>k \<in> set (tokens (db_tasks db)). k < db_uuid_seed db)
     \<and> (\<forall>r \<in> set (db_tasks db). row_ok r)"

lemma tokens_simps [simp]:
  "tokens [] = []" "tokens (r # rs) = (case tk_lease_token r of None \<Rightarrow> tokens rs | Some k \<Rightarrow> k # tokens rs)"
  "tokens (rs @ ss) = tokens rs @ tokens ss"
  by (simp_all add: tokens_def map_filter_simps map_filter_def split: option.split)

lemma set_tokens: "k \<in> set (tokens rs) \<longleftrightarrow> (\<exists>r \<in> set rs. tk_lease_token r = Some k)"
  by (induction rs) (auto split: option.splits)

subsection \<open>The relation\<close>

text \<open>From one state of a row to another, while the supply of identifiers goes from \<open>a\<close> to \<open>b\<close>.\<close>

definition row_moves :: "uuid \<Rightarrow> uuid \<Rightarrow> task_row \<Rightarrow> task_row \<Rightarrow> bool" where
  "row_moves a b r r' \<longleftrightarrow> same_identity r r'
     \<and> (\<forall>k. tk_lease_token r' = Some k \<longrightarrow> tk_lease_token r = Some k \<or> a \<le> k \<and> k < b)"

definition leases_from :: "uuid \<Rightarrow> uuid \<Rightarrow> task_row list \<Rightarrow> task_row list \<Rightarrow> bool" where
  "leases_from a b ts ts' \<longleftrightarrow> (\<exists>rows new. ts' = rows @ new \<and> list_all2 (row_moves a b) ts rows
     \<and> (\<forall>r \<in> set new. \<forall>k. tk_lease_token r = Some k \<longrightarrow> a \<le> k \<and> k < b))"

definition leases :: "db \<Rightarrow> db \<Rightarrow> bool" where
  "leases db db' \<longleftrightarrow> db_uuid_seed db \<le> db_uuid_seed db'
     \<and> leases_from (db_uuid_seed db) (db_uuid_seed db') (db_tasks db) (db_tasks db')
     \<and> (tasks_ok db \<longrightarrow> tasks_ok db')"

lemma same_identity_refl [simp]: "same_identity r r"
  and same_identity_trans: "same_identity r s \<Longrightarrow> same_identity s t \<Longrightarrow> same_identity r t"
  by (simp_all add: same_identity_def)

lemma row_moves_refl [simp]: "row_moves a b r r"
  by (simp add: row_moves_def)

lemma row_moves_trans:
  assumes "row_moves a b r s" "row_moves b c s t" "a \<le> b" "b \<le> c"
  shows "row_moves a c r t"
  using assms unfolding row_moves_def by (meson order.strict_trans2 order_trans same_identity_trans)

lemma row_moves_later: "row_moves a b r s \<Longrightarrow> b \<le> c \<Longrightarrow> row_moves a c r s"
  using row_moves_trans [of a b r s c s] by (auto simp: row_moves_def)

lemma leases_from_same: "leases_from a b ts ts"
  unfolding leases_from_def by (rule exI [of _ ts]) (simp add: list_all2_refl)

lemma leases_from_trans:
  assumes "leases_from a b ts us" "leases_from b c us vs" "a \<le> b" "b \<le> c"
  shows "leases_from a c ts vs"
proof -
  obtain rows new where us: "us = rows @ new" and rows: "list_all2 (row_moves a b) ts rows"
    and new: "\<forall>r \<in> set new. \<forall>k. tk_lease_token r = Some k \<longrightarrow> a \<le> k \<and> k < b"
    using assms(1) by (auto simp: leases_from_def)
  obtain rows' new' added where vs: "vs = (rows' @ new') @ added"
    and rows': "list_all2 (row_moves b c) rows rows'" and new': "list_all2 (row_moves b c) new new'"
    and added: "\<forall>r \<in> set added. \<forall>k. tk_lease_token r = Some k \<longrightarrow> b \<le> k \<and> k < c"
    using assms(2) by (auto simp: leases_from_def us list_all2_append1)
  have "list_all2 (row_moves a c) ts rows'"
    using list_all2_trans [OF _ rows rows'] row_moves_trans assms(3,4) by blast
  moreover have "a \<le> k \<and> k < c" if "r \<in> set (new' @ added)" "tk_lease_token r = Some k" for r k
  proof (cases "r \<in> set new'")
    case True
    then obtain r0 where "r0 \<in> set new" "row_moves b c r0 r"
      using new' by (metis in_set_conv_nth list_all2_conv_all_nth)
    with new that(2) assms(3,4) show ?thesis unfolding row_moves_def by fastforce
  next
    case False
    with that added assms(3) show ?thesis by fastforce
  qed
  ultimately show ?thesis
    unfolding leases_from_def vs by (intro exI [of _ rows'] exI [of _ "new' @ added"]) simp
qed

lemma leases_refl: "leases db db"
  by (simp add: leases_def leases_from_same)

lemma leases_trans: "leases a b \<Longrightarrow> leases b c \<Longrightarrow> leases a c"
  unfolding leases_def by (meson leases_from_trans order_trans)

lemma leases_same:
  "db_tasks db' = db_tasks db \<Longrightarrow> db_uuid_seed db \<le> db_uuid_seed db' \<Longrightarrow> leases db db'"
  by (auto simp: leases_def leases_from_same tasks_ok_def)

text \<open>Updating rows.\<close>

lemma leases_from_update:
  assumes "\<And>r. P r \<Longrightarrow> row_moves a b r (f r)"
  shows "leases_from a b ts (update_where P f ts)"
  unfolding leases_from_def update_where_def
  by (rule exI [of _ "map (\<lambda>r. if P r then f r else r) ts"])
    (auto simp: list_all2_map2 intro!: list_all2_refl assms)

lemma distinct_tokens_release:
  assumes "\<And>r. P r \<Longrightarrow> tk_lease_token (f r) = None \<or> tk_lease_token (f r) = tk_lease_token r"
    and "distinct (tokens ts)"
  shows "distinct (tokens (update_where P f ts)) \<and> set (tokens (update_where P f ts)) \<subseteq> set (tokens ts)"
  using assms(2)
proof (induction ts)
  case (Cons r ts)
  then have IH: "distinct (tokens (update_where P f ts)) \<and> set (tokens (update_where P f ts)) \<subseteq> set (tokens ts)"
    by (auto split: option.splits)
  show ?case
  proof (cases "tk_lease_token (if P r then f r else r)")
    case None
    with IH show ?thesis by (auto split: option.splits)
  next
    case (Some k)
    then have "tk_lease_token r = Some k" using assms(1) [of r] by (auto split: if_splits)
    with IH Cons.prems Some show ?thesis by auto
  qed
qed simp

lemma leases_update:
  assumes "\<And>r. P r \<Longrightarrow> same_identity r (f r)"
    and "\<And>r. P r \<Longrightarrow> tk_lease_token (f r) = None \<or> tk_lease_token (f r) = tk_lease_token r"
    and "\<And>r. r \<in> set (db_tasks db) \<Longrightarrow> P r \<Longrightarrow> row_ok r \<Longrightarrow> row_ok (f r)"
  shows "leases db (db\<lparr>db_tasks := update_where P f (db_tasks db)\<rparr>)"
proof -
  have moves: "row_moves a b r (f r)" if "P r" for a b r
    using assms(1,2) [OF that] by (auto simp: row_moves_def)
  have keys: "map tk_task_id (update_where P f ts) = map tk_task_id ts"
    "map task_key (update_where P f ts) = map task_key ts" for ts
    using assms(1) by (auto simp: map_update_where_same same_identity_def task_key_def)
  have "tasks_ok (db\<lparr>db_tasks := update_where P f (db_tasks db)\<rparr>)" if "tasks_ok db"
    using that distinct_tokens_release [of P f "db_tasks db", OF assms(2)] assms(3)
    by (auto simp: tasks_ok_def keys set_update_where)
  then show ?thesis
    by (simp add: leases_def leases_from_update moves)
qed

lemma task_release_ok:
  assumes "row_ok r" "task_release r r'"
  shows "row_ok r'"
proof -
  obtain s where s: "s \<in> {Queued, TaskIsSucceeded, TaskIsFailed, TaskIsCancelled}"
      "tk_status r' = task_status_as_str s" "task_is_terminal s \<longrightarrow> tk_completed_at r' \<noteq> None"
    using assms(2) unfolding task_release_def by blast
  then have "\<exists>s. tk_status r' = task_status_as_str s \<and> (None \<noteq> (None :: uuid option) \<longleftrightarrow> s \<in> leased_status)
      \<and> (task_is_terminal s \<longrightarrow> tk_completed_at r' \<noteq> None)"
    by (intro exI [of _ s]) (auto simp: leased_status_def)
  with assms show ?thesis by (simp add: row_ok_def task_release_def same_identity_def)
qed

text \<open>The operations of the plan engine that do not end a task leave the table of tasks alone.\<close>

interpretation task_frame: plan_change "\<lambda>db db'. db_tasks db' = db_tasks db"
  by unfold_locales simp_all

interpretation lease_change: store_change leases
proof unfold_locales
  fix P f and db :: db
  assume "\<And>r. P r \<Longrightarrow> task_release r (f r)"
  then show "leases db (db\<lparr>db_tasks := update_where P f (db_tasks db)\<rparr>)"
    by (intro leases_update) (auto simp: task_release_def intro: task_release_ok)
qed (rule leases_refl | erule (1) leases_trans | rule leases_same; simp)+

subsection \<open>The operations of the queue\<close>

lemma task_of_row_facts:
  assumes "task_of_row r = Inr t"
  shows "ta_task_id t = tk_task_id r" "ta_tenant t = tk_tenant r" "tk_status r = task_status_as_str (ta_status t)"
    "ta_lease_token t = tk_lease_token r" "ta_lease_until t = tk_lease_until r" "ta_plan_id t = tk_plan_id r"
    "ta_cancel_requested t = tk_cancel_requested r" "ta_attempts t = of_nat (tk_attempts r)"
    "tk_attempts r < 2 ^ 32" "ta_max_attempts t = of_nat (tk_max_attempts r)"
    "ta_completed_at t = tk_completed_at r" "ta_envelope t = tk_envelope_json r"
    "ta_idempotency_key t = tk_idempotency_key r" "ta_request_fingerprint t = tk_request_fingerprint r"
    "ta_plan_revision t = tk_plan_revision r" "ta_plan_digest t = tk_plan_digest r"
    "1 \<le> tk_max_attempts r" "tk_max_attempts r \<le> 10" "ta_plan_execution_scope t = None"
    "ta_priority t = tk_priority r" "ta_created_at t = tk_created_at r"
  using assms by (auto simp: task_of_row_def result_simps split: if_splits)

lemma load_task_row:
  assumes "load_task E tid tenant db = Inr t"
  shows "\<exists>r. r \<in> set (db_tasks db) \<and> find_task tid tenant db = Some r \<and> same_task tid tenant r
    \<and> task_of_row r = Inr t"
  using assms by (auto simp: load_task_def result_simps find_task_def dest: find_SomeD)

lemma leases_from_append:
  "tk_lease_token r = None \<Longrightarrow> leases_from a b ts (ts @ [r])"
  unfolding leases_from_def by (rule exI [of _ ts], rule exI [of _ "[r]"]) (simp add: list_all2_refl)

lemma leases_insert:
  assumes "insert_task_row r db = Inr db'" "row_ok r" "tk_lease_token r = None"
  shows "leases db db'"
proof -
  have db': "db' = db\<lparr>db_tasks := db_tasks db @ [r]\<rparr>"
    and free: "\<forall>q \<in> set (db_tasks db). tk_task_id q \<noteq> tk_task_id r \<and> task_key q \<noteq> task_key r"
    using assms(1) by (auto simp: insert_task_row_def result_simps constraint_def list_ex_iff task_key_def)
  have "tasks_ok db'" if "tasks_ok db"
    using that free assms(2,3) by (auto simp: db' tasks_ok_def)
  then show ?thesis using assms(3) by (simp add: leases_def leases_from_append db')
qed

lemma leases_frame:
  assumes "leases db db'" shows "tasks_ok db \<Longrightarrow> tasks_ok db'" "db_uuid_seed db \<le> db_uuid_seed db'"
  using assms by (simp_all add: leases_def)

lemma new_task_row_ok:
  assumes "validate_submission s = Inr ()"
  shows "row_ok (new_task_row now i (sm_who s) k f (governed_envelope s approval) p (sm_max_attempts s) reference)"
proof -
  have "sm_max_attempts s \<noteq> 0" "\<not> 10 < sm_max_attempts s"
      "te_tenant (sm_envelope s) = pr_tenant (sm_who s)"
    using assms by (auto simp: validate_submission_def result_simps split: if_splits)
  then have "1 \<le> unat (sm_max_attempts s)" "unat (sm_max_attempts s) \<le> 10"
    by (simp_all add: word_less_nat_alt unat_gt_0 Suc_le_eq)
  moreover have "\<exists>st. ''queued'' = task_status_as_str st \<and> (st \<notin> leased_status) \<and> \<not> task_is_terminal st"
    by (rule exI [of _ Queued]) (simp add: leased_status_def task_is_terminal_def)
  ultimately show ?thesis
    using \<open>te_tenant _ = _\<close>
    by (auto simp: row_ok_def new_task_row_def governed_envelope_def with_provenance_def from_principal_def)
qed

lemma submit_leases:
  assumes "submit_task_governed E now s h = Inr (outcome, task, h')"
  shows "leases (hs_db h) (hs_db h')"
proof -
  have "leases (hs_db h) (hs_db h')" if valid: "validate_submission s = Inr ()"
      and new: "submit_new E now s l h = Inr (outcome, task, h')" for l
  proof -
    obtain approval db db1 row where plan: "(case sm_reference s of
          None \<Rightarrow> Inr (None, hs_db h)
        | Some reference \<Rightarrow> record_plan_admission_tx E now (sm_who s)
            ((sm_envelope s)\<lparr>te_context := from_principal (sm_who s)\<rparr>) reference (hs_db h)) = Inr (approval, db)"
      and row: "row = new_task_row now (sm_session_id s) (sm_who s) (sm_key s) (sm_fingerprint s)
          (governed_envelope s approval) (sm_priority s) (sm_max_attempts s) (sm_reference s)"
      and ins: "insert_task_row row db = Inr db1" and h': "hs_db h' = db1"
      using new by (auto simp: submit_new_def Let_def result_simps split_paired_Ex)
    have "leases (hs_db h) db"
      using plan yieldsD [OF lease_change.admission_in [OF leases_refl]]
      by (auto simp: leases_refl split: option.splits)
    moreover have "leases db db1"
      using ins row new_task_row_ok [OF valid] by (intro leases_insert) (auto simp: new_task_row_def)
    ultimately show ?thesis unfolding h' by (rule leases_trans)
  qed
  then show ?thesis
    using assms by (auto simp: submit_task_governed_def Let_def result_simps leases_refl
        split: option.splits if_splits)
qed

text \<open>Handing out a lease.\<close>

lemma prepare_claim_facts:
  assumes "prepare_claim E cc now task db = Inr (selected, db')"
  shows "leases db db'" "db_tasks db' = db_tasks db"
  using assms yieldsD [OF lease_change.claim_in [OF leases_refl]] yieldsD [OF task_frame.claim_in [OF refl]]
  by (fastforce simp: prepare_claim_def Let_def result_simps leases_refl split: if_splits)+

lemma find_task_unique:
  assumes "tasks_ok db" "find_task tid tenant db = Some r" "q \<in> set (db_tasks db)" "tk_task_id q = tid"
  shows "q = r"
  using assms by (auto simp: tasks_ok_def find_task_def same_task_def distinct_map inj_on_def dest!: find_SomeD)

text \<open>The row of a task under a new lease.\<close>

lemma leases_claim:
  assumes "find_task tid tenant db = Some r" "tk_status r = ''queued''" "db_uuid_seed db \<le> k"
    and "db' = db\<lparr>db_uuid_seed := Suc k, db_tasks := update_where
      (\<lambda>r. same_task tid tenant r \<and> tk_status r = ''queued'') (lease_task k until now step) (db_tasks db)\<rparr>"
  shows "leases db db'"
proof -
  let ?P = "\<lambda>r. same_task tid tenant r \<and> tk_status r = ''queued''"
  have queued_str: "s = Queued" if "''queued'' = task_status_as_str s" for s
    using that by (cases s) auto
  have "leases_from (db_uuid_seed db) (Suc k) (db_tasks db) (update_where ?P (lease_task k until now step) (db_tasks db))"
    using assms(3) by (intro leases_from_update) (auto simp: row_moves_def same_identity_def lease_task_def)
  moreover have "tasks_ok db'" if ok: "tasks_ok db"
  proof -
    obtain xs ys where split: "db_tasks db = xs @ r # ys"
      using assms(1) by (metis find_SomeD find_task_def split_list)
    have r: "same_task tid tenant r" using assms(1) by (simp add: find_task_def find_SomeD)
    have others: "\<not> same_task tid tenant q" if "q \<in> set xs \<union> set ys" for q
      using ok that r by (auto simp: tasks_ok_def split same_task_def) (metis imageI)+
    have upd: "update_where ?P f xs = xs" "update_where ?P f ys = ys" for f
      using others by (auto simp: update_where_def map_idI)
    have row: "row_ok (lease_task k until now step r)"
    proof -
      have "\<exists>s. ''running'' = task_status_as_str s \<and> s \<in> leased_status \<and> \<not> task_is_terminal s"
        by (rule exI [of _ TaskIsRunning]) (simp add: leased_status_def task_is_terminal_def)
      moreover have "row_ok r" using ok split by (simp add: tasks_ok_def)
      ultimately show ?thesis by (auto simp: row_ok_def lease_task_def)
    qed
    have tasks: "db_tasks db' = xs @ lease_task k until now step r # ys"
      using r assms(2,4) by (simp add: split upd)
    have "tk_lease_token r = None"
    proof -
      have "row_ok r" using ok split by (simp add: tasks_ok_def)
      then obtain s where "tk_status r = task_status_as_str s" "tk_lease_token r \<noteq> None \<longleftrightarrow> s \<in> leased_status"
        by (auto simp: row_ok_def)
      with assms(2) queued_str show ?thesis by (force simp: leased_status_def)
    qed
    then have below: "\<forall>j \<in> set (tokens xs) \<union> set (tokens ys). j < db_uuid_seed db"
      and "distinct (tokens xs @ tokens ys)"
      using ok by (auto simp: tasks_ok_def split)
    moreover have "\<forall>j \<in> set (tokens xs) \<union> set (tokens ys). j < k"
      using below assms(3) order.strict_trans2 by blast
    ultimately have toks: "distinct (tokens (db_tasks db'))"
      "\<forall>j \<in> set (tokens (db_tasks db')). j < db_uuid_seed db'"
      unfolding tasks using arg_cong [OF assms(4), of db_uuid_seed]
      by (auto simp: lease_task_def intro: less_SucI)
    have "map tk_task_id (db_tasks db') = map tk_task_id (db_tasks db)"
      "map task_key (db_tasks db') = map task_key (db_tasks db)"
      by (simp_all add: tasks split lease_task_def task_key_def)
    then have "distinct (map tk_task_id (db_tasks db'))" "distinct (map task_key (db_tasks db'))"
      using ok by (simp_all add: tasks_ok_def)
    with toks row ok show ?thesis unfolding tasks_ok_def by (simp add: tasks split)
  qed
  ultimately show ?thesis using assms(3,4) by (simp add: leases_def)
qed

definition lease_out ::
    "instant \<Rightarrow> instant \<Rightarrow> task_id \<Rightarrow> tenant_id \<Rightarrow> plan_step_id option \<Rightarrow> db \<Rightarrow> db" where
  "lease_out now until tid tenant step db =
     db\<lparr>db_uuid_seed := Suc (db_uuid_seed db),
        db_tasks := update_where (\<lambda>r. same_task tid tenant r \<and> tk_status r = ''queued'')
          (lease_task (db_uuid_seed db) until now step) (db_tasks db)\<rparr>"

definition unclaimable :: "env \<Rightarrow> plan_claim_context \<Rightarrow> instant \<Rightarrow> db \<Rightarrow> task_id \<times> tenant_id \<Rightarrow> bool" where
  "unclaimable E cc now db e \<longleftrightarrow>
     (\<exists>task. load_task E (fst e) (snd e) db = Inr task \<and> prepare_claim E cc now task db = Inr (None, db))"

lemma prepare_claim_none: "prepare_claim E cc now task db = Inr (None, db') \<Longrightarrow> db' = db"
  by (auto simp: prepare_claim_def prepare_planned_claim_tx_def Let_def result_simps
      split: if_splits option.splits)

text \<open>A claim passes over the tasks that have no step to run, which changes nothing, and leases the
  first one that can be.\<close>

lemma claim_loop_step:
  assumes "claim_loop E cc now until (e # es) db = Inr (result, db')"
  shows "unclaimable E cc now db e \<and> claim_loop E cc now until es db = Inr (result, db')
    \<or> (\<exists>task scope db1 claimed. load_task E (fst e) (snd e) db = Inr task
        \<and> prepare_claim E cc now task db = Inr (Some scope, db1)
        \<and> db' = lease_out now until (fst e) (snd e) (map_option sc_step_id scope) db1
        \<and> load_task E (fst e) (snd e) db' = Inr claimed
        \<and> result = Some (claimed\<lparr>ta_plan_execution_scope := scope\<rparr>))"
proof -
  obtain tid tenant where e: "e = (tid, tenant)" by (cases e)
  obtain task selected db1 where load: "load_task E tid tenant db = Inr task"
      and prep: "prepare_claim E cc now task db = Inr (selected, db1)"
    using assms by (auto simp: e result_simps split_paired_Ex)
  show ?thesis
  proof (cases selected)
    case None
    then have "db1 = db" using prep prepare_claim_none by blast
    with None assms load prep show ?thesis by (auto simp: e result_simps unclaimable_def)
  next
    case (Some scope)
    then have "db' = lease_out now until tid tenant (map_option sc_step_id scope) db1"
      "\<exists>claimed. load_task E tid tenant db' = Inr claimed
        \<and> result = Some (claimed\<lparr>ta_plan_execution_scope := scope\<rparr>)"
      using assms load prep by (auto simp: e result_simps fresh_uuid_def lease_out_def Let_def)
    with load prep Some e show ?thesis by auto
  qed
qed

lemma claim_loop_none:
  "claim_loop E cc now until es db = Inr (None, db') \<Longrightarrow>
   db' = db \<and> (\<forall>e \<in> set es. unclaimable E cc now db e)"
proof (induction es)
  case (Cons e es)
  from claim_loop_step [OF Cons.prems] Cons.IH show ?case by auto
qed simp

lemma claim_loop_some:
  assumes "claim_loop E cc now until es db = Inr (Some t, db')"
  shows "\<exists>pre tid tenant post task scope db1 claimed. es = pre @ (tid, tenant) # post
    \<and> (\<forall>e \<in> set pre. unclaimable E cc now db e) \<and> load_task E tid tenant db = Inr task
    \<and> prepare_claim E cc now task db = Inr (Some scope, db1)
    \<and> db' = lease_out now until tid tenant (map_option sc_step_id scope) db1
    \<and> load_task E tid tenant db' = Inr claimed \<and> t = claimed\<lparr>ta_plan_execution_scope := scope\<rparr>"
  using assms
proof (induction es)
  case (Cons e es)
  from claim_loop_step [OF Cons.prems] show ?case
  proof (elim disjE conjE exE)
    assume skip: "unclaimable E cc now db e" and "claim_loop E cc now until es db = Inr (Some t, db')"
    from Cons.IH [OF this(2)] show ?thesis
    proof (elim exE conjE)
      fix pre tid tenant post task scope db1 claimed
      assume "es = pre @ (tid, tenant) # post" "\<forall>e \<in> set pre. unclaimable E cc now db e"
        "load_task E tid tenant db = Inr task" "prepare_claim E cc now task db = Inr (Some scope, db1)"
        "db' = lease_out now until tid tenant (map_option sc_step_id scope) db1"
        "load_task E tid tenant db' = Inr claimed" "t = claimed\<lparr>ta_plan_execution_scope := scope\<rparr>"
      with skip show ?thesis by (intro exI [of _ "e # pre"] exI [of _ tid]) auto
    qed
  next
    fix task scope db1 claimed
    assume "load_task E (fst e) (snd e) db = Inr task" "prepare_claim E cc now task db = Inr (Some scope, db1)"
      "db' = lease_out now until (fst e) (snd e) (map_option sc_step_id scope) db1"
      "load_task E (fst e) (snd e) db' = Inr claimed" "Some t = Some (claimed\<lparr>ta_plan_execution_scope := scope\<rparr>)"
    then show ?thesis by (intro exI [of _ "[]"] exI [of _ "fst e"] exI [of _ "snd e"] exI [of _ es]) auto
  qed
qed simp

lemma load_task_queued:
  assumes "find_task tid tenant db = Some r" "db_tasks db' = db_tasks db"
  shows "find_task tid tenant db' = Some r"
  using assms by (simp add: find_task_def)

lemma lease_out_leases:
  assumes "leases db db1" "db_tasks db1 = db_tasks db" "find_task tid tenant db = Some r"
    "tk_status r = ''queued''"
  shows "leases db (lease_out now until tid tenant step db1)"
proof (rule leases_trans [OF assms(1)])
  show "leases db1 (lease_out now until tid tenant step db1)"
    using assms(2-4) by (intro leases_claim) (auto simp: lease_out_def find_task_def)
qed

lemma claim_next_cases:
  assumes "claim_next E now lease_for cc h = Inr (result, h')"
  shows "lease_for > 0 \<and> h' = h\<lparr>hs_db := hs_db h'\<rparr>
    \<and> claim_loop E cc now (now + lease_for)
        (map (\<lambda>r. (tk_task_id r, tk_tenant r)) (claim_queue now (hs_db h))) (hs_db h) = Inr (result, hs_db h')"
  using assms by (auto simp: claim_next_def result_simps split: if_splits)

lemma claim_queue_eligible: "r \<in> set (claim_queue now db) \<Longrightarrow> r \<in> set (db_tasks db) \<and> eligible now r"
  by (auto simp: claim_queue_def dest!: in_set_takeD)

text \<open>What a claim that returns a task has done.\<close>

lemma claim_next_some:
  assumes ok: "tasks_ok (hs_db h)" and run: "claim_next E now lease_for cc h = Inr (Some t, h')"
  shows "\<exists>r pre post scope db1 task claimed. claim_queue now (hs_db h) = pre @ r # post
    \<and> (\<forall>q \<in> set pre. unclaimable E cc now (hs_db h) (tk_task_id q, tk_tenant q))
    \<and> find_task (tk_task_id r) (tk_tenant r) (hs_db h) = Some r \<and> task_of_row r = Inr task
    \<and> prepare_claim E cc now task (hs_db h) = Inr (Some scope, db1)
    \<and> hs_db h' = lease_out now (now + lease_for) (tk_task_id r) (tk_tenant r) (map_option sc_step_id scope) db1
    \<and> load_task E (tk_task_id r) (tk_tenant r) (hs_db h') = Inr claimed
    \<and> t = claimed\<lparr>ta_plan_execution_scope := scope\<rparr>"
proof -
  let ?key = "\<lambda>r. (tk_task_id r, tk_tenant r)"
  note claim_loop_some [OF claim_next_cases [OF run, THEN conjunct2, THEN conjunct2]]
  then obtain pre tid tenant post task scope db1 claimed where
    q: "map ?key (claim_queue now (hs_db h)) = pre @ (tid, tenant) # post"
    and pre: "\<forall>e \<in> set pre. unclaimable E cc now (hs_db h) e"
    and load: "load_task E tid tenant (hs_db h) = Inr task"
    and rest: "prepare_claim E cc now task (hs_db h) = Inr (Some scope, db1)"
      "hs_db h' = lease_out now (now + lease_for) tid tenant (map_option sc_step_id scope) db1"
      "load_task E tid tenant (hs_db h') = Inr claimed" "t = claimed\<lparr>ta_plan_execution_scope := scope\<rparr>"
    by blast
  obtain qs r qs' where split: "claim_queue now (hs_db h) = qs @ r # qs'" "map ?key qs = pre" "?key r = (tid, tenant)"
    using q by (auto simp: map_eq_append_conv map_eq_Cons_conv)
  have "r \<in> set (db_tasks (hs_db h))" using claim_queue_eligible [of r now] split(1) by auto
  moreover obtain r0 where r0: "find_task tid tenant (hs_db h) = Some r0" "task_of_row r0 = Inr task"
    using load_task_row [OF load] by auto
  ultimately have "r = r0" using find_task_unique [OF ok r0(1)] split(3) by auto
  have key: "tk_task_id r = tid" "tk_tenant r = tenant" using split(3) by simp_all
  have "\<forall>q \<in> set qs. unclaimable E cc now (hs_db h) (tk_task_id q, tk_tenant q)"
    using pre split(2) by auto
  with split(1) r0 rest \<open>r = r0\<close> key show ?thesis
    by (intro exI [of _ r] exI [of _ qs] exI [of _ qs'] exI [of _ scope] exI [of _ db1] exI [of _ task]
        exI [of _ claimed]) simp
qed

lemma claim_leases:
  assumes "claim_next E now lease_for cc h = Inr (result, h')" "tasks_ok (hs_db h)"
  shows "leases (hs_db h) (hs_db h')"
proof (cases result)
  case None
  with claim_next_cases [OF assms(1)] claim_loop_none show ?thesis by (metis leases_refl)
next
  case (Some t)
  obtain r pre post scope db1 task where
    q: "claim_queue now (hs_db h) = pre @ r # post"
    and r: "find_task (tk_task_id r) (tk_tenant r) (hs_db h) = Some r"
    and prep: "prepare_claim E cc now task (hs_db h) = Inr (Some scope, db1)"
    and h': "hs_db h' = lease_out now (now + lease_for) (tk_task_id r) (tk_tenant r) (map_option sc_step_id scope) db1"
    using claim_next_some [OF assms(2) assms(1) [unfolded Some]] by blast
  have "tk_status r = ''queued''" using claim_queue_eligible [of r now "hs_db h"] q by (simp add: eligible_def)
  then show ?thesis
    unfolding h' by (intro lease_out_leases [OF prepare_claim_facts [OF prep] r])
qed

text \<open>Cancellation, the end of a task and expired leases.\<close>

lemma cancelled_row_ok:
  assumes "row_ok r" "tk_status r = task_status_as_str (ta_status task)" "\<not> task_is_terminal (ta_status task)"
    and "cancelled_status task now = (status, completed)"
  shows "row_ok (r\<lparr>tk_status := status, tk_cancel_requested := True, tk_updated_at := now,
    tk_completed_at := completed\<rparr>)"
proof -
  have lease: "tk_lease_token r \<noteq> None \<longleftrightarrow> ta_status task \<in> leased_status"
    using assms(1,2) by (auto simp: row_ok_def)
  have "\<exists>s. status = task_status_as_str s \<and> (tk_lease_token r \<noteq> None \<longleftrightarrow> s \<in> leased_status)
      \<and> (task_is_terminal s \<longrightarrow> completed \<noteq> None)"
    by (rule exI [of _ "if ta_status task = Queued then TaskIsCancelled else TaskCancelRequested"])
      (use assms(3,4) lease in \<open>cases "ta_status task"; auto simp: cancelled_status_def leased_status_def task_is_terminal_def\<close>)
  with assms(1) show ?thesis by (simp add: row_ok_def)
qed

lemma cancel_leases:
  assumes "request_cancel E now tid tenant h = Inr (task', h')" "tasks_ok (hs_db h)"
  shows "leases (hs_db h) (hs_db h')"
proof -
  obtain task where load: "load_task E tid tenant (hs_db h) = Inr task"
    using assms(1) by (auto simp: request_cancel_def result_simps)
  obtain r where r: "r \<in> set (db_tasks (hs_db h))" "find_task tid tenant (hs_db h) = Some r"
      "task_of_row r = Inr task"
    using load_task_row [OF load] by auto
  show ?thesis
  proof (cases "task_is_terminal (ta_status task)")
    case True
    with assms(1) load show ?thesis by (simp add: request_cancel_def leases_refl)
  next
    case False
    obtain db1 status completed where plan: "(if ta_plan_id task \<noteq> None
          then cancel_planned_task_tx E task now (hs_db h) else Inr (hs_db h)) = Inr db1"
        and st: "cancelled_status task now = (status, completed)"
        and h': "hs_db h' = update_task tid tenant (\<lambda>r. r\<lparr>tk_status := status, tk_cancel_requested := True,
          tk_updated_at := now, tk_completed_at := completed\<rparr>) db1"
      using assms(1) load False
      by (cases "cancelled_status task now") (auto simp: request_cancel_def result_simps Let_def)
    have db1: "leases (hs_db h) db1" "db_tasks db1 = db_tasks (hs_db h)"
      using plan yieldsD [OF lease_change.cancel_in [OF leases_refl]] yieldsD [OF task_frame.cancel_in [OF refl]]
      by (auto simp: leases_refl split: if_splits)
    have "leases db1 (hs_db h')"
      unfolding h' update_task_def
    proof (rule leases_update)
      fix q assume q: "q \<in> set (db_tasks db1)" "same_task tid tenant q" "row_ok q"
      then have "q = r" using find_task_unique [OF assms(2) r(2)] db1(2) by (auto simp: same_task_def)
      with q(3) task_of_row_facts(3) [OF r(3)] False st
      show "row_ok (q\<lparr>tk_status := status, tk_cancel_requested := True, tk_updated_at := now,
          tk_completed_at := completed\<rparr>)" by (auto intro: cancelled_row_ok)
    qed (auto simp: same_identity_def)
    with db1(1) show ?thesis by (rule leases_trans)
  qed
qed

text \<open>A row whose lease ends.\<close>

lemma end_lease_ok:
  assumes "row_ok r" "s \<notin> leased_status" "task_is_terminal s \<longrightarrow> tk_completed_at r' \<noteq> None"
    and "tk_status r' = task_status_as_str s" "tk_lease_until r' = None"
    and "tk_lease_token r' = None" "tk_plan_step_id r' = None" "same_identity r r'"
  shows "row_ok r'"
proof -
  have "\<exists>s. tk_status r' = task_status_as_str s \<and> (None \<noteq> (None :: uuid option) \<longleftrightarrow> s \<in> leased_status)
      \<and> (task_is_terminal s \<longrightarrow> tk_completed_at r' \<noteq> None)"
    using assms(2-4) by (intro exI [of _ s]) auto
  with assms show ?thesis by (simp add: row_ok_def same_identity_def)
qed

lemma update_leased_leases:
  assumes "tasks_ok db" "find_task tid tenant db = Some r"
    and "\<And>q. same_identity q (f q)" "\<And>q. tk_lease_token (f q) = None" "row_ok r \<Longrightarrow> row_ok (f r)"
  shows "leases db (update_leased tid tenant token f db)" "leases db (update_task tid tenant f db)"
proof -
  have "row_ok (f q)" if "q \<in> set (db_tasks db)" "same_task tid tenant q" "row_ok q" for q
    using find_task_unique [OF assms(1,2) that(1)] that assms(5) by (auto simp: same_task_def)
  with assms(3,4) show "leases db (update_leased tid tenant token f db)" "leases db (update_task tid tenant f db)"
    unfolding update_leased_def update_task_def by (auto intro!: leases_update simp: leased_task_def)
qed

lemma finish_direct_leases:
  assumes "tasks_ok db" "find_task tid tenant db = Some r" "task_of_row r = Inr task" "ta_plan_id task = None"
  shows "leases db (snd (finish_direct task tid tenant token result err retryable now base_ms max_ms db))"
proof -
  have step: "tk_plan_step_id r = None"
    using assms(3,4) by (auto simp: task_of_row_def result_simps partial_plan_reference_def split: if_splits)
  have id: "ta_task_id task = tid" "ta_tenant task = tenant"
    using assms(2) task_of_row_facts(1,2) [OF assms(3)] by (auto simp: find_task_def same_task_def dest: find_SomeD)
  have queued: "row_ok ((end_lease ''queued'' now r)\<lparr>tk_next_attempt_at := n, tk_result_json := None,
      tk_last_error := e\<rparr>)" if "row_ok r" for n e
    using that step
    by (rule_tac end_lease_ok [of r Queued])
      (auto simp: end_lease_def same_identity_def leased_status_def task_is_terminal_def)
  have ended: "row_ok ((end_lease (task_status_as_str s) now r)\<lparr>tk_result_json := v, tk_last_error := e,
      tk_completed_at := Some now\<rparr>)" if "row_ok r" "s \<in> {TaskIsSucceeded, TaskIsFailed}" for s v e
    using that step
    by (rule_tac end_lease_ok [of r s])
      (auto simp: end_lease_def same_identity_def leased_status_def task_is_terminal_def)
  have cancelled: "row_ok ((end_lease ''cancelled'' now r)\<lparr>tk_cancel_requested := True,
      tk_completed_at := Some now\<rparr>)" if "row_ok r"
    using that step
    by (rule_tac end_lease_ok [of r TaskIsCancelled])
      (auto simp: end_lease_def same_identity_def leased_status_def task_is_terminal_def)
  show ?thesis
    unfolding finish_direct_def finish_direct_cancel_tx_def finish_direct_requeue_tx_def
      finish_direct_terminal_tx_def id
    using queued cancelled ended [of TaskIsSucceeded] ended [of TaskIsFailed]
    by (auto intro!: update_leased_leases(1) [OF assms(1,2)] simp: end_lease_def same_identity_def)
qed

lemma finish_leases:
  assumes "finish_task E tid tenant token result err retryable now base_ms max_ms cc h = Inr (outcome, h')"
    and ok: "tasks_ok (hs_db h)"
  shows "leases (hs_db h) (hs_db h')"
proof -
  obtain task where load: "load_task E tid tenant (hs_db h) = Inr task"
    using assms(1) by (auto simp: finish_task_def result_simps)
  obtain r where r: "find_task tid tenant (hs_db h) = Some r" "task_of_row r = Inr task"
    using load_task_row [OF load] by auto
  consider "hs_db h' = hs_db h"
    | "ta_plan_id task \<noteq> None" "finish_planned_step_tx E task result err retryable now base_ms max_ms cc (hs_db h)
        = Inr (outcome, hs_db h')"
    | "ta_plan_id task = None"
      "hs_db h' = snd (finish_direct task tid tenant token result err retryable now base_ms max_ms (hs_db h))"
    using assms(1) load by (auto simp: finish_task_def result_simps split: if_splits)
  then show ?thesis
  proof cases
    case 2
    then show ?thesis using yieldsD [OF lease_change.finish_in [OF leases_refl]] by fastforce
  next
    case 3
    then show ?thesis using finish_direct_leases [OF ok r] by simp
  qed (simp add: leases_refl)
qed

lemma recover_lease_leases:
  assumes "recover_lease E now db e = Inr db'" "tasks_ok db"
  shows "leases db db'"
proof -
  obtain tid tenant where e: "e = (tid, tenant)" by (cases e)
  obtain task where load: "load_task E tid tenant db = Inr task"
    using assms(1) by (auto simp: e recover_lease_def result_simps)
  obtain r where r: "find_task tid tenant db = Some r" "task_of_row r = Inr task"
    using load_task_row [OF load] by auto
  show ?thesis
  proof (cases "ta_plan_id task = None")
    case True
    then have step: "tk_plan_step_id r = None"
      using r(2) by (auto simp: task_of_row_def result_simps partial_plan_reference_def split: if_splits)
    have "row_ok (recover_direct_lease now r)" if "row_ok r"
      by (rule end_lease_ok [OF that, of "if tk_cancel_requested r then TaskIsCancelled else Queued"])
        (auto simp: recover_direct_lease_def end_lease_def same_identity_def leased_status_def
          task_is_terminal_def step)
    then have "leases db (update_task tid tenant (recover_direct_lease now) db)"
      by (intro update_leased_leases(2) [OF assms(2) r(1)])
        (auto simp: recover_direct_lease_def end_lease_def same_identity_def)
    with True assms(1) load show ?thesis by (auto simp: e recover_lease_def result_simps)
  next
    case False
    with assms(1) load yieldsD [OF lease_change.lease_in [OF leases_refl]] show ?thesis
      by (auto simp: e recover_lease_def result_simps)
  qed
qed

lemma recover_leases:
  assumes "recover_expired_leases E now h = Inr (n, h')" "tasks_ok (hs_db h)"
  shows "leases (hs_db h) (hs_db h')"
proof -
  have "leases db db'" if "fold_result (recover_lease E now) es db = Inr db'" "tasks_ok db" for es db db'
    using that
  proof (induction es arbitrary: db)
    case (Cons e es)
    then obtain db1 where "recover_lease E now db e = Inr db1" "fold_result (recover_lease E now) es db1 = Inr db'"
      by (auto simp: result_simps)
    with Cons recover_lease_leases leases_frame(1) leases_trans show ?case by meson
  qed (simp add: leases_refl)
  then show ?thesis using assms by (auto simp: recover_expired_leases_def Let_def result_simps)
qed

end
