(* ===== verification/Queue_Host.thy ===== *)
theory Queue_Host
  imports Queue_Leases
begin

text \<open>
  The store of the host as a system: the public methods of \<open>QueueStore\<close> as a step relation, and what
  every one of them keeps, of the tables of tasks, of tokens and of sessions.
\<close>

inductive host_step :: "env \<Rightarrow> iam_env \<Rightarrow> host \<Rightarrow> host \<Rightarrow> bool" for E :: env and I :: iam_env where
  H_submit: "submit_task_governed E now s h = Inr (outcome, task, h') \<Longrightarrow> host_step E I h h'"
| H_claim: "claim_next E now lease_for cc h = Inr (claimed, h') \<Longrightarrow> host_step E I h h'"
| H_cancel: "request_cancel E now tid tenant h = Inr (task, h') \<Longrightarrow> host_step E I h h'"
| H_finish: "finish_task E tid tenant token result err retryable now base_ms max_ms cc h = Inr (ended, h') \<Longrightarrow>
    host_step E I h h'"
| H_recover: "recover_expired_leases E now h = Inr (n, h') \<Longrightarrow> host_step E I h h'"
| H_save_plan: "save_plan E now plan (hs_db h) = Inr (p, db) \<Longrightarrow> host_step E I h (h\<lparr>hs_db := db\<rparr>)"
| H_transition: "record_plan_transition E now tenant t (hs_db h) = Inr db \<Longrightarrow> host_step E I h (h\<lparr>hs_db := db\<rparr>)"
| H_checkpoint: "append_plan_checkpoint E tenant c (hs_db h) = Inr db \<Longrightarrow> host_step E I h (h\<lparr>hs_db := db\<rparr>)"
| H_save_approval: "save_plan_approval E now tenant a (hs_db h) = Inr db \<Longrightarrow> host_step E I h (h\<lparr>hs_db := db\<rparr>)"
| H_approve: "approve_plan E now who a key (hs_db h) = Inr (approved, db) \<Longrightarrow> host_step E I h (h\<lparr>hs_db := db\<rparr>)"
| H_resolve: "resolve_plan_unknown E now who pid decision key evidence (hs_db h) = Inr (resolved, db) \<Longrightarrow>
    host_step E I h (h\<lparr>hs_db := db\<rparr>)"
| H_mark_unknown: "mark_plan_unknown E now tenant pid step_id digest (hs_db h) = Inr db \<Longrightarrow>
    host_step E I h (h\<lparr>hs_db := db\<rparr>)"
| H_resume: "resume_plan E now tenant pid (hs_db h) = (db, report) \<Longrightarrow> host_step E I h (h\<lparr>hs_db := db\<rparr>)"
| H_bootstrap: "bootstrap_principal now who h = Inr h' \<Longrightarrow> host_step E I h h'"
| H_create_tenant: "create_tenant now tenant name h = Inr (record, h') \<Longrightarrow> host_step E I h h'"
| H_create_user: "create_user now operator tenant role h = Inr (user, h') \<Longrightarrow> host_step E I h h'"
| H_issue: "issue_token I now operator expires h = Inr (issue, h') \<Longrightarrow> host_step E I h h'"
| H_revoke: "revoke_token now token_id h = Inr h' \<Longrightarrow> host_step E I h h'"
| H_authenticate: "authenticate_token I now token h = (who, h') \<Longrightarrow> host_step E I h h'"
| H_set_limits: "set_limits l h = Inr (l', h') \<Longrightarrow> host_step E I h h'"
| H_create_session: "create_session now who metadata h = Inr (session, h') \<Longrightarrow> host_step E I h h'"
| H_touch_session: "touch_session ut now session_id tenant h = Inr h' \<Longrightarrow> host_step E I h h'"

definition empty_host :: host where
  "empty_host = \<lparr>hs_db = empty_db, hs_sessions = [], hs_tenants = [], hs_users = [], hs_tokens = [],
     hs_limits = [], hs_rates = []\<rparr>"

abbreviation host_reachable :: "env \<Rightarrow> iam_env \<Rightarrow> host \<Rightarrow> bool" where
  "host_reachable E I \<equiv> (host_step E I)\<^sup>*\<^sup>* empty_host"

subsection \<open>Rows that stay\<close>

text \<open>A table whose rows are never removed: each row is found again, changed at most as \<open>R\<close> says, and
  new rows come after.\<close>

definition kept :: "('a \<Rightarrow> 'a \<Rightarrow> bool) \<Rightarrow> 'a list \<Rightarrow> 'a list \<Rightarrow> bool" where
  "kept R xs ys \<longleftrightarrow> (\<exists>rows new. ys = rows @ new \<and> list_all2 R xs rows)"

lemma kept_refl: "(\<And>x. R x x) \<Longrightarrow> kept R xs xs"
  unfolding kept_def by (intro exI [of _ xs] exI [of _ "[]"]) (simp add: list_all2_refl)

lemma kept_same [simp]: "kept (=) xs xs"
  by (rule kept_refl) simp

lemma kept_append: "(\<And>x. R x x) \<Longrightarrow> kept R xs (xs @ ys)"
  unfolding kept_def by (intro exI [of _ xs] exI [of _ ys]) (simp add: list_all2_refl)

lemma kept_update: "(\<And>x. R x x) \<Longrightarrow> (\<And>x. P x \<Longrightarrow> R x (f x)) \<Longrightarrow> kept R xs (update_where P f xs)"
  unfolding kept_def update_where_def
  by (intro exI [of _ "map (\<lambda>x. if P x then f x else x) xs"] exI [of _ "[]"])
    (simp add: list_all2_map2 list_all2_refl)

lemma kept_trans:
  assumes "kept R xs ys" "kept R ys zs" "\<And>x y z. R x y \<Longrightarrow> R y z \<Longrightarrow> R x z"
  shows "kept R xs zs"
proof -
  obtain rows new rows' new' added where "zs = (rows' @ new') @ added" "list_all2 R xs rows" "list_all2 R rows rows'"
    using assms(1,2) by (auto simp: kept_def list_all2_append1)
  moreover from this have "list_all2 R xs rows'" using list_all2_trans assms(3) by blast
  ultimately show ?thesis unfolding kept_def by (metis append_assoc)
qed

lemma list_all2_member: "list_all2 R xs ys \<Longrightarrow> x \<in> set xs \<Longrightarrow> \<exists>y \<in> set ys. R x y"
  by (induction rule: list_all2_induct) auto

lemma kept_member: "kept R xs ys \<Longrightarrow> x \<in> set xs \<Longrightarrow> \<exists>y \<in> set ys. R x y"
  unfolding kept_def using list_all2_member by fastforce

lemma kept_find:
  assumes "kept R xs ys" "find P xs = Some x" "\<And>x y. R x y \<Longrightarrow> P x = P y"
  shows "\<exists>y. find P ys = Some y \<and> R x y"
proof -
  obtain rows new where ys: "ys = rows @ new" and rel: "list_all2 R xs rows"
    using assms(1) by (auto simp: kept_def)
  from rel assms(2) have "\<exists>y. find P rows = Some y \<and> R x y"
    by (induction rule: list_all2_induct) (auto simp: assms(3) split: if_splits)
  then show ?thesis by (auto simp: ys find_append)
qed

subsection \<open>Tokens and sessions\<close>

text \<open>A token keeps its identity, its owner and its term; a revocation is final.\<close>

definition token_moves :: "token_row \<Rightarrow> token_row \<Rightarrow> bool" where
  "token_moves t t' \<longleftrightarrow> to_token_id t' = to_token_id t \<and> to_hash t' = to_hash t \<and> to_prefix t' = to_prefix t
     \<and> to_operator t' = to_operator t \<and> to_created_at t' = to_created_at t
     \<and> to_expires_at t' = to_expires_at t
     \<and> (to_revoked_at t \<noteq> None \<longrightarrow> to_revoked_at t' = to_revoked_at t)"

definition session_moves :: "session_row \<Rightarrow> session_row \<Rightarrow> bool" where
  "session_moves s s' \<longleftrightarrow> ss_session_id s' = ss_session_id s \<and> ss_tenant s' = ss_tenant s
     \<and> ss_operator s' = ss_operator s \<and> ss_role s' = ss_role s"

definition term_ok :: "token_row \<Rightarrow> bool" where
  "term_ok t \<longleftrightarrow> (\<exists>e. to_expires_at t = Some e \<and> to_created_at t < e
     \<and> e \<le> to_created_at t + seconds MAX_TOKEN_LIFETIME_SECONDS)"

definition tokens_ok :: "host \<Rightarrow> bool" where
  "tokens_ok h \<longleftrightarrow> distinct (map to_token_id (hs_tokens h)) \<and> distinct (map to_hash (hs_tokens h))
     \<and> (\<forall>t \<in> set (hs_tokens h). term_ok t)"

definition limits_ok :: "host \<Rightarrow> bool" where
  "limits_ok h \<longleftrightarrow> (\<forall>l \<in> set (hs_limits h). validate_limits l = Inr () \<and> unat (tl_max_daily_cost l) < 2 ^ 63)"

definition iam_moves :: "host \<Rightarrow> host \<Rightarrow> bool" where
  "iam_moves h h' \<longleftrightarrow> kept token_moves (hs_tokens h) (hs_tokens h')
     \<and> kept session_moves (hs_sessions h) (hs_sessions h')
     \<and> kept (=) (hs_users h) (hs_users h') \<and> kept (=) (hs_tenants h) (hs_tenants h')
     \<and> tl_tenant ` set (hs_limits h) \<subseteq> tl_tenant ` set (hs_limits h')
     \<and> (tokens_ok h \<longrightarrow> tokens_ok h') \<and> (limits_ok h \<longrightarrow> limits_ok h')"

lemma token_moves_refl [simp]: "token_moves t t" and session_moves_refl [simp]: "session_moves s s"
  by (simp_all add: token_moves_def session_moves_def)

lemma iam_moves_trans: "iam_moves a b \<Longrightarrow> iam_moves b c \<Longrightarrow> iam_moves a c"
  unfolding iam_moves_def
  by (elim conjE, intro conjI; (erule (1) kept_trans; auto simp: token_moves_def session_moves_def | blast))

lemma iam_moves_same:
  "hs_tokens h' = hs_tokens h \<Longrightarrow> hs_sessions h' = hs_sessions h \<Longrightarrow> hs_limits h' = hs_limits h \<Longrightarrow>
   kept (=) (hs_users h) (hs_users h') \<Longrightarrow> kept (=) (hs_tenants h) (hs_tenants h') \<Longrightarrow> iam_moves h h'"
  by (simp add: iam_moves_def kept_refl tokens_ok_def limits_ok_def)

lemma iam_moves_refl [simp]: "iam_moves h h"
  by (rule iam_moves_same) simp_all

lemma limits_grow: "tl_tenant ` set (hs_limits h) \<subseteq> tl_tenant ` set (hs_limits (ensure_limits t h))"
  by (auto simp: ensure_limits_def)

lemma ensure_limits_frame [simp]:
  "hs_tokens (ensure_limits t h) = hs_tokens h" "hs_sessions (ensure_limits t h) = hs_sessions h"
  "hs_db (ensure_limits t h) = hs_db h" "hs_users (ensure_limits t h) = hs_users h"
  "hs_tenants (ensure_limits t h) = hs_tenants h"
  by (simp_all add: ensure_limits_def)

lemma ensure_limits_ok: "limits_ok h \<Longrightarrow> limits_ok (ensure_limits t h)"
  by (auto simp: ensure_limits_def limits_ok_def default_limits_def validate_limits_def)

lemma ensure_limits_moves:
  assumes "hs_tokens h' = hs_tokens h" "hs_sessions h' = hs_sessions h" "hs_limits h' = hs_limits h"
    "kept (=) (hs_users h) (hs_users h')" "kept (=) (hs_tenants h) (hs_tenants h')"
  shows "iam_moves h (ensure_limits t h')"
proof -
  have "limits_ok h' = limits_ok h" using assms(3) by (simp only: limits_ok_def)
  moreover have "tokens_ok (ensure_limits t h') = tokens_ok h"
    using assms(1) by (simp only: tokens_ok_def ensure_limits_frame)
  ultimately show ?thesis
    using limits_grow [of h' t] ensure_limits_ok [of h' t] assms by (simp add: iam_moves_def kept_refl)
qed

lemma host_uuid_frame:
  assumes "host_uuid h = (u, h')"
  shows "hs_tokens h' = hs_tokens h" "hs_sessions h' = hs_sessions h" "hs_limits h' = hs_limits h"
    "hs_users h' = hs_users h" "hs_tenants h' = hs_tenants h" "db_tasks (hs_db h') = db_tasks (hs_db h)"
    "db_uuid_seed (hs_db h) \<le> db_uuid_seed (hs_db h')"
  using assms by (auto simp: host_uuid_def fresh_uuid_def)

lemma issue_moves:
  assumes "issue_token I now operator expires h = Inr (issue, h')"
  shows "iam_moves h h'" "leases (hs_db h) (hs_db h')"
proof -
  obtain a b c h1 h2 h3 where u: "host_uuid h = (a, h1)" "host_uuid h1 = (b, h2)" "host_uuid h2 = (c, h3)"
    by (metis surj_pair)
  note frame = host_uuid_frame [OF u(1)] host_uuid_frame [OF u(2)] host_uuid_frame [OF u(3)]
  obtain e where e: "lifetime_ok now expires = Inr e"
    using assms by (auto simp: issue_token_def and_then_Inr_iff split: if_splits)
  let ?token = "bearer_text I b c"
  let ?t = "\<lparr>to_token_id = token_id_text I a, to_hash = sha_text I ?token,
    to_prefix = take_chars 12 ?token, to_operator = operator, to_created_at = now,
    to_expires_at = Some e, to_revoked_at = None, to_last_used_at = None\<rparr>"
  have new: "h' = h3\<lparr>hs_tokens := hs_tokens h3 @ [?t]\<rparr>
      \<and> (\<forall>r \<in> set (hs_tokens h3). to_token_id r \<noteq> to_token_id ?t \<and> to_hash r \<noteq> to_hash ?t)"
    using assms e
    by (simp add: issue_token_def Let_def u and_then_Inr_iff split: if_splits)
      (auto simp: constraint_def and_then_Inr_iff ensure_Inr_iff list_ex_iff)
  have "term_ok ?t"
    using e by (auto simp: term_ok_def lifetime_ok_def result_simps split: if_splits)
  then show "iam_moves h h'"
    using new frame by (auto simp: iam_moves_def kept_append kept_refl tokens_ok_def limits_ok_def)
  show "leases (hs_db h) (hs_db h')"
    using frame new(1) by (intro leases_same) auto
qed

lemma revoke_moves:
  assumes "revoke_token now token_id h = Inr h'"
  shows "iam_moves h h'" "hs_db h' = hs_db h"
proof -
  let ?P = "\<lambda>t. to_token_id t = token_id \<and> to_revoked_at t = None"
  have h': "h' = h\<lparr>hs_tokens := update_where ?P (\<lambda>t. t\<lparr>to_revoked_at := Some now\<rparr>) (hs_tokens h)\<rparr>"
    using assms by (auto simp: revoke_token_def Let_def split: if_splits)
  have "kept token_moves (hs_tokens h) (hs_tokens h')"
    unfolding h' by (auto intro!: kept_update simp: token_moves_def)
  moreover have "tokens_ok h'" if "tokens_ok h"
    using that by (auto simp: h' tokens_ok_def map_update_where_same set_update_where term_ok_def)
  ultimately show "iam_moves h h'" by (simp add: iam_moves_def h' kept_refl limits_ok_def)
  show "hs_db h' = hs_db h" by (simp add: h')
qed

lemma authenticate_moves:
  assumes "authenticate_token I now token h = (who, h')"
  shows "iam_moves h h'" "hs_db h' = hs_db h"
proof -
  let ?f = "\<lambda>t. t\<lparr>to_last_used_at := Some now\<rparr>"
  have "h' = h \<or> h' = h\<lparr>hs_tokens := update_where (\<lambda>r. to_hash r = sha_text I token) ?f (hs_tokens h)\<rparr>"
    using assms by (auto simp: authenticate_token_def split: if_splits option.splits)
  then show "iam_moves h h'" "hs_db h' = hs_db h"
    by (auto simp: iam_moves_def tokens_ok_def limits_ok_def map_update_where_same set_update_where term_ok_def kept_refl
        token_moves_def intro!: kept_update)
qed

lemma session_op_moves:
  assumes "create_session now who metadata h = Inr (session, h')"
  shows "iam_moves h h'" "leases (hs_db h) (hs_db h')"
proof -
  obtain u h1 where u: "host_uuid h = (u, h1)" by fastforce
  then have h': "\<exists>s. h' = h1\<lparr>hs_sessions := hs_sessions h1 @ [s]\<rparr>"
    using assms by (auto simp: create_session_def result_simps Let_def)
  with host_uuid_frame [OF u] show "iam_moves h h'" "leases (hs_db h) (hs_db h')"
    by (auto simp: iam_moves_def kept_refl kept_append tokens_ok_def limits_ok_def intro!: leases_same)
qed

lemma touch_moves:
  assumes "touch_session ut now session_id tenant h = Inr h'"
  shows "iam_moves h h'" "hs_db h' = hs_db h"
proof -
  have h': "\<exists>P. h' = h\<lparr>hs_sessions := update_where P (\<lambda>r. r\<lparr>ss_last_seen_at := now\<rparr>) (hs_sessions h)\<rparr>"
    using assms by (auto simp: touch_session_def Let_def split: if_splits)
  then show "iam_moves h h'" "hs_db h' = hs_db h"
    by (auto simp: iam_moves_def kept_refl tokens_ok_def limits_ok_def session_moves_def intro!: kept_update)
qed

lemma set_limits_moves:
  assumes "set_limits l h = Inr (l', h')"
  shows "iam_moves h h'" "hs_db h' = hs_db h"
proof -
  have h': "h' = h\<lparr>hs_limits := update_where (\<lambda>r. tl_tenant r = tl_tenant l) (\<lambda>_. l) (hs_limits h)\<rparr>"
    using assms by (auto simp: set_limits_def result_simps split: if_splits)
  have "tl_tenant ` set (hs_limits h') = tl_tenant ` set (hs_limits h)"
    by (auto simp: h' set_update_where image_image image_iff) metis
  moreover have "limits_ok h'" if "limits_ok h"
    using that assms by (auto simp: limits_ok_def h' set_update_where set_limits_def result_simps split: if_splits)
  ultimately show "iam_moves h h'" "hs_db h' = hs_db h" by (simp_all add: iam_moves_def h' kept_refl tokens_ok_def)
qed

lemma create_tenant_moves:
  assumes "create_tenant now tenant name h = Inr (record, h')"
  shows "iam_moves h h'" "hs_db h' = hs_db h"
proof -
  have "\<exists>n. h' = ensure_limits tenant (insert_tenant n h)"
    using assms by (auto simp: create_tenant_def Let_def result_simps)
  then show "iam_moves h h'" "hs_db h' = hs_db h"
    by (auto simp: insert_tenant_def kept_refl kept_append intro!: ensure_limits_moves)
qed

lemma create_user_moves:
  "create_user now operator tenant role h = Inr (user, h') \<Longrightarrow> iam_moves h h'"
  "create_user now operator tenant role h = Inr (user, h') \<Longrightarrow> hs_db h' = hs_db h"
  by (auto simp: create_user_def Let_def result_simps insert_user_def kept_refl kept_append split: if_splits intro!: iam_moves_same)

lemma bootstrap_moves:
  assumes "bootstrap_principal now who h = Inr h'"
  shows "iam_moves h h'" "hs_db h' = hs_db h"
proof -
  have "\<exists>h1. h' = ensure_limits (pr_tenant who) h1 \<and> hs_tokens h1 = hs_tokens h \<and> hs_sessions h1 = hs_sessions h
      \<and> hs_limits h1 = hs_limits h \<and> hs_db h1 = hs_db h
      \<and> kept (=) (hs_users h) (hs_users h1) \<and> kept (=) (hs_tenants h) (hs_tenants h1)"
    using assms by (auto simp: bootstrap_principal_def Let_def result_simps insert_user_def insert_tenant_def
        kept_refl kept_append split: if_splits)
  then show "iam_moves h h'" "hs_db h' = hs_db h" by (auto intro: ensure_limits_moves)
qed

lemma queue_iam_frame:
  "submit_task_governed E now s h = Inr (outcome, task, h') \<Longrightarrow> iam_moves h h'"
  "claim_next E now lease_for cc h = Inr (claimed, h') \<Longrightarrow> iam_moves h h'"
  "request_cancel E now tid tenant h = Inr (record, h') \<Longrightarrow> iam_moves h h'"
  "finish_task E tid tenant token result err retryable now base_ms max_ms cc h = Inr (ended, h') \<Longrightarrow> iam_moves h h'"
  "recover_expired_leases E now h = Inr (n, h') \<Longrightarrow> iam_moves h h'"
  by (rule iam_moves_same;
      auto simp: submit_task_governed_def submit_new_def claim_next_def request_cancel_def finish_task_def
        recover_expired_leases_def Let_def result_simps case_prod_unfold kept_refl split: if_splits option.splits)+

lemma host_step_moves:
  assumes "host_step E I h h'"
  shows "iam_moves h h' \<and> (tasks_ok (hs_db h) \<longrightarrow> leases (hs_db h) (hs_db h'))"
  using assms
proof cases
  case H_resume
  then show ?thesis using lease_change.resume_in by (auto intro: iam_moves_same kept_refl)
qed (auto simp: leases_refl create_tenant_moves create_user_moves bootstrap_moves issue_moves revoke_moves
      authenticate_moves session_op_moves touch_moves set_limits_moves
    intro: iam_moves_same kept_refl submit_leases claim_leases cancel_leases finish_leases recover_leases queue_iam_frame
    dest: lease_change.operation_in [OF leases_refl, THEN yieldsD])

end
