(* ===== verification/Queue_Facts.thy ===== *)
theory Queue_Facts
  imports Queue_Host
begin

text \<open>
  What the task queue guarantees: the shape of its table, the fencing of leases, the order of claims,
  idempotent submission within the limits of the tenant, and the outcome of the end of a task.
\<close>

lemma empty_host_ok: "tasks_ok (hs_db empty_host)" "tokens_ok empty_host" "limits_ok empty_host"
  by (simp_all add: tasks_ok_def tokens_ok_def limits_ok_def empty_host_def empty_db_def)

lemma host_steps_move:
  assumes "(host_step E I)\<^sup>*\<^sup>* h h'" "tasks_ok (hs_db h)"
  shows "iam_moves h h' \<and> leases (hs_db h) (hs_db h') \<and> tasks_ok (hs_db h')"
  using assms(1)
proof (induction rule: rtranclp_induct)
  case base
  then show ?case using assms(2) by (simp add: leases_refl)
next
  case (step h1 h2)
  with host_step_moves [OF step(2)] show ?case
    using iam_moves_trans leases_trans leases_frame(1) by blast
qed

lemma host_reachable_ok:
  assumes "host_reachable E I h"
  shows "tasks_ok (hs_db h)" "tokens_ok h" "limits_ok h"
  using host_steps_move [OF assms empty_host_ok(1)] empty_host_ok(2,3) by (auto simp: iam_moves_def)

text \<open>The table of tasks is well formed in every reachable store: task identifiers, idempotency keys of
  a tenant and lease tokens are unique and tokens are among those handed out; a task holds a token and
  an end of lease exactly while it is running or being cancelled, has a step only under a lease, a
  moment of completion once it has ended, at most ten attempts configured, and the capabilities its
  principal's role grants.\<close>

theorem task_table_well_formed:
  assumes "host_reachable E I h"
  shows "tasks_ok (hs_db h)"
  by (rule host_reachable_ok [OF assms])

subsection \<open>Fencing\<close>

lemma leases_row:
  assumes "leases db db'" "r \<in> set (db_tasks db)"
  shows "\<exists>r' \<in> set (db_tasks db'). row_moves (db_uuid_seed db) (db_uuid_seed db') r r'"
proof -
  obtain rows new where "db_tasks db' = rows @ new"
      "list_all2 (row_moves (db_uuid_seed db) (db_uuid_seed db')) (db_tasks db) rows"
    using assms(1) by (auto simp: leases_def leases_from_def)
  with list_all2_member [OF this(2) assms(2)] show ?thesis by auto
qed

lemma find_task_row:
  assumes "tasks_ok db" "r \<in> set (db_tasks db)"
  shows "find_task (tk_task_id r) (tk_tenant r) db = Some r"
proof -
  have "find_task (tk_task_id r) (tk_tenant r) db \<noteq> None"
    using assms(2) by (auto simp: find_task_def find_None_iff same_task_def)
  then obtain s where s: "find_task (tk_task_id r) (tk_tenant r) db = Some s" by blast
  with find_task_unique [OF assms(1) s assms(2)] show ?thesis by simp
qed

lemma leases_find:
  assumes "leases db db'" "tasks_ok db'" "find_task tid tenant db = Some r"
  shows "\<exists>r'. find_task tid tenant db' = Some r' \<and> row_moves (db_uuid_seed db) (db_uuid_seed db') r r'"
proof -
  have r: "r \<in> set (db_tasks db)" "tk_task_id r = tid" "tk_tenant r = tenant"
    using assms(3) by (auto simp: find_task_def same_task_def dest: find_SomeD)
  obtain r' where r': "r' \<in> set (db_tasks db')" "row_moves (db_uuid_seed db) (db_uuid_seed db') r r'"
    using leases_row [OF assms(1) r(1)] by auto
  then have id: "tk_task_id r' = tid" "tk_tenant r' = tenant"
    using r by (auto simp: row_moves_def same_identity_def)
  have "find_task tid tenant db' = Some r'"
    using find_task_row [OF assms(2) r'(1)] id by simp
  with r'(2) show ?thesis by blast
qed

lemma finish_cases:
  assumes "finish_task E tid tenant k result err retryable now base_ms max_ms cc h = Inr (outcome, h')"
  shows "\<exists>task. load_task E tid tenant (hs_db h) = Inr task
    \<and> (h' = h \<and> task_is_terminal (ta_status task) \<and> outcome = terminal_outcome (ta_status task)
       \<or> ta_lease_token task = Some k \<and> (\<exists>u. ta_lease_until task = Some u \<and> now < u))"
  using assms by (auto simp: finish_task_def result_simps not_le split: if_splits option.splits)

text \<open>C32: a stale token cannot end a task: once a task does not hold a token that has been handed out
  (its lease expired and was taken back, or another worker has it), no sequence of operations makes
  the token good again; ending the task with it changes nothing, and reports an outcome only if the
  task has already ended with that outcome.\<close>

theorem stale_lease_rejected:
  assumes "host_reachable E I h" "find_task tid tenant (hs_db h) = Some r"
    and "k < db_uuid_seed (hs_db h)" "tk_lease_token r \<noteq> Some k" "(host_step E I)\<^sup>*\<^sup>* h h'"
    and "finish_task E tid tenant k result err retryable now base_ms max_ms cc h' = Inr (outcome, h'')"
  shows "h'' = h' \<and> (\<exists>task. load_task E tid tenant (hs_db h') = Inr task
    \<and> task_is_terminal (ta_status task) \<and> outcome = terminal_outcome (ta_status task))"
proof -
  note ok = host_reachable_ok(1) [OF assms(1)]
  obtain r' where r': "find_task tid tenant (hs_db h') = Some r'"
      "row_moves (db_uuid_seed (hs_db h)) (db_uuid_seed (hs_db h')) r r'"
    using leases_find [OF _ _ assms(2)] host_steps_move [OF assms(5) ok] by blast
  then have "tk_lease_token r' \<noteq> Some k" using assms(3,4) by (auto simp: row_moves_def)
  then have "ta_lease_token task \<noteq> Some k" if "load_task E tid tenant (hs_db h') = Inr task" for task
    using load_task_row [OF that] r'(1) task_of_row_facts(4) by fastforce
  with finish_cases [OF assms(6)] show ?thesis by blast
qed

subsection \<open>Claims\<close>

definition runs_before :: "task_row \<Rightarrow> task_row \<Rightarrow> bool" where
  "runs_before q r \<longleftrightarrow> tk_priority q > tk_priority r
     \<or> tk_priority q = tk_priority r \<and> tk_created_at q < tk_created_at r"

lemma sorted_filter_pair:
  assumes "sorted (map f (filter P xs))" "xs = ys @ y # zs" "x \<in> set ys" "P x" "P y"
  shows "f x \<le> f y"
  using assms by (auto simp: sorted_append)

lemma sorted_claims:
  assumes "xs = sort_key (\<lambda>r. - tk_priority r) (sort_key tk_created_at rs)" "i < j" "j < length xs"
  shows "\<not> runs_before (xs ! j) (xs ! i)"
proof
  assume before: "runs_before (xs ! j) (xs ! i)"
  have sorted: "sorted (map (\<lambda>r. - tk_priority r) xs)" by (simp add: assms(1))
  then have le: "- tk_priority (xs ! i) \<le> - tk_priority (xs ! j)"
    using assms(2,3) sorted_nth_mono [of "map (\<lambda>r. - tk_priority r) xs" i j] by simp
  with before have same: "tk_priority (xs ! j) = tk_priority (xs ! i)"
    and older: "tk_created_at (xs ! j) < tk_created_at (xs ! i)"
    by (auto simp: runs_before_def)
  let ?p = "tk_priority (xs ! i)"
  let ?f = "filter (\<lambda>r. - tk_priority r = - ?p)"
  have "filter (\<lambda>r. - tk_priority r = p) xs = filter (\<lambda>r. - tk_priority r = p) (sort_key tk_created_at rs)" for p
    using sort_key_stable [of "\<lambda>r. - tk_priority r" p "sort_key tk_created_at rs"]
    by (simp only: assms(1) [symmetric])
  then have "?f xs = ?f (sort_key tk_created_at rs)" .
  moreover have "sorted (map tk_created_at (?f (sort_key tk_created_at rs)))"
    by (rule sorted_filter) (rule sorted_sort_key)
  ultimately have "sorted (map tk_created_at (?f xs))" by (simp only:)
  moreover have "xs = take j xs @ xs ! j # drop (Suc j) xs" using assms(3) by (rule id_take_nth_drop)
  moreover have "xs ! i \<in> set (take j xs)" using nth_mem [of i "take j xs"] assms(2,3) by simp
  ultimately have "tk_created_at (xs ! i) \<le> tk_created_at (xs ! j)"
    using sorted_filter_pair [of tk_created_at "\<lambda>r. - tk_priority r = - ?p" xs "take j xs" "xs ! j"
        "drop (Suc j) xs" "xs ! i"] same by simp
  with older show False by simp
qed

lemma direct_claimable:
  assumes "load_task E (tk_task_id q) (tk_tenant q) db = Inr task" "ta_plan_id task = None"
  shows "\<not> unclaimable E cc now db (tk_task_id q, tk_tenant q)"
  using assms by (auto simp: unclaimable_def prepare_claim_def)

text \<open>A claim hands out the best task it can under a lease of its own: the task was waiting, due and not
  cancelled; afterwards it runs with one attempt more, until the end of the lease asked for, with a
  token never handed out before; and no direct task that is waiting and due has a higher priority, or
  the same priority and an earlier creation.\<close>

theorem claim_hands_out_lease:
  assumes "host_reachable E I h" "claim_next E now lease_for cc h = Inr (Some t, h')"
  shows "\<exists>r r' k. find_task (ta_task_id t) (ta_tenant t) (hs_db h) = Some r \<and> eligible now r
    \<and> find_task (ta_task_id t) (ta_tenant t) (hs_db h') = Some r'
    \<and> tk_status r' = ''running'' \<and> tk_attempts r' = tk_attempts r + 1
    \<and> tk_lease_until r' = Some (now + lease_for) \<and> tk_lease_token r' = Some k \<and> ta_lease_token t = Some k
    \<and> db_uuid_seed (hs_db h) \<le> k
    \<and> (\<forall>q \<in> set (db_tasks (hs_db h)). eligible now q \<and> tk_plan_id q = None \<longrightarrow> \<not> runs_before q r)"
proof -
  note ok = host_reachable_ok(1) [OF assms(1)]
  obtain r pre post scope db1 task claimed where
    q: "claim_queue now (hs_db h) = pre @ r # post"
    and pre: "\<forall>q \<in> set pre. unclaimable E cc now (hs_db h) (tk_task_id q, tk_tenant q)"
    and r: "find_task (tk_task_id r) (tk_tenant r) (hs_db h) = Some r" "task_of_row r = Inr task"
    and prep: "prepare_claim E cc now task (hs_db h) = Inr (Some scope, db1)"
    and h': "hs_db h' = lease_out now (now + lease_for) (tk_task_id r) (tk_tenant r) (map_option sc_step_id scope) db1"
    and load: "load_task E (tk_task_id r) (tk_tenant r) (hs_db h') = Inr claimed"
    and t: "t = claimed\<lparr>ta_plan_execution_scope := scope\<rparr>"
    using claim_next_some [OF ok assms(2)] by blast
  have el: "eligible now r" using claim_queue_eligible [of r now "hs_db h"] q by simp
  let ?r' = "lease_task (db_uuid_seed db1) (now + lease_for) now (map_option sc_step_id scope) r"
  have "find_task (tk_task_id r) (tk_tenant r) (hs_db h') = Some ?r'"
    using r(1) el prepare_claim_facts(2) [OF prep]
    by (simp add: find_task_def h' lease_out_def eligible_def find_update_where_stable same_task_def
        lease_task_def)
  moreover have "ta_task_id t = tk_task_id r" "ta_tenant t = tk_tenant r" "ta_lease_token t = Some (db_uuid_seed db1)"
    using load_task_row [OF load] calculation task_of_row_facts [of ?r' claimed] t by (auto simp: lease_task_def)
  moreover have "db_uuid_seed (hs_db h) \<le> db_uuid_seed db1"
    by (rule leases_frame(2) [OF prepare_claim_facts(1) [OF prep]])
  moreover have "\<not> runs_before q0 r" if q0: "q0 \<in> set (db_tasks (hs_db h))" "eligible now q0" "tk_plan_id q0 = None" for q0
  proof
    assume before: "runs_before q0 r"
    define L where "L = sort_key (\<lambda>r. - tk_priority r) (sort_key tk_created_at (filter (eligible now) (db_tasks (hs_db h))))"
    have cq: "claim_queue now (hs_db h) = take 64 L" by (simp add: claim_queue_def L_def)
    have i: "length pre < length L" "length pre < 64" "L ! length pre = r"
      using q unfolding cq by (metis add_gr_0 length_append length_greater_0_conv less_add_same_cancel1 length_take
        list.discI min_less_iff_conj nth_append_length nth_take)+
    have "q0 \<in> set L" using q0 by (simp add: L_def)
    then obtain j where j: "j < length L" "L ! j = q0" by (auto simp: in_set_conv_nth)
    have "\<not> length pre < j" using sorted_claims [OF L_def _ j(1), of "length pre"] before i j by auto
    moreover have "j \<noteq> length pre" using before i j by (auto simp: runs_before_def)
    ultimately have "j < length pre" by simp
    then have "q0 \<in> set pre" using j q i unfolding cq
      by (metis nth_append nth_mem nth_take order_less_trans)
    then obtain task0 where "load_task E (tk_task_id q0) (tk_tenant q0) (hs_db h) = Inr task0"
      using pre by (auto simp: unclaimable_def)
    moreover have "ta_plan_id task0 = None"
      using load_task_row [OF calculation] find_task_row [OF ok q0(1)] task_of_row_facts(6) q0(3) by fastforce
    ultimately show False using direct_claimable pre \<open>q0 \<in> set pre\<close> by blast
  qed
  ultimately show ?thesis using r(1) el by (auto simp: lease_task_def)
qed

end
