(* ===== verification/Queue_Submission_Facts.thy ===== *)
theory Queue_Submission_Facts
  imports Queue_Facts
begin

text \<open>
  Submissions: what a new task may count on and what the tenant's limits leave of it, and that
  repeating a submission returns the task it made.
\<close>

lemma submit_cases:
  assumes "submit_task_governed E now s h = Inr (outcome, task, h')"
  shows "validate_submission s = Inr ()
    \<and> (\<exists>session l. find (\<lambda>r. ss_session_id r = sm_session_id s \<and> ss_tenant r = pr_tenant (sm_who s)) (hs_sessions h)
          = Some session \<and> ss_operator session = pr_operator (sm_who s)
        \<and> load_limits (pr_tenant (sm_who s)) h = Inr l
        \<and> (case find (\<lambda>r. tk_tenant r = pr_tenant (sm_who s) \<and> tk_idempotency_key r = sm_key s) (db_tasks (hs_db h)) of
             None \<Rightarrow> submit_new E now s l h = Inr (outcome, task, h')
           | Some r \<Rightarrow> outcome = Existing \<and> h' = h
               \<and> load_task E (tk_task_id r) (pr_tenant (sm_who s)) (hs_db h) = Inr task
               \<and> ta_request_fingerprint task = sm_fingerprint s \<and> same_plan_reference task (sm_reference s)))"
  using assms by (auto simp: submit_task_governed_def Let_def result_simps split: option.splits if_splits)

definition submitted_row :: "instant \<Rightarrow> submission \<Rightarrow> uuid option \<Rightarrow> task_row" where
  "submitted_row now s approval = new_task_row now (sm_session_id s) (sm_who s) (sm_key s) (sm_fingerprint s)
     (governed_envelope s approval) (sm_priority s) (sm_max_attempts s) (sm_reference s)"

lemma submitted_row_simps [simp]:
  "tk_task_id (submitted_row now s a) = te_task_id (governed_envelope s a)"
  "tk_tenant (submitted_row now s a) = pr_tenant (sm_who s)"
  "tk_idempotency_key (submitted_row now s a) = sm_key s"
  "tk_request_fingerprint (submitted_row now s a) = sm_fingerprint s"
  "tk_status (submitted_row now s a) = ''queued''" "tk_created_at (submitted_row now s a) = now"
  "tk_envelope_json (submitted_row now s a) = governed_envelope s a"
  "tk_plan_id (submitted_row now s a) = map_option rf_plan_id (sm_reference s)"
  "tk_plan_revision (submitted_row now s a) = map_option rf_revision (sm_reference s)"
  "tk_plan_digest (submitted_row now s a) = map_option rf_digest (sm_reference s)"
  by (simp_all add: submitted_row_def new_task_row_def)

lemma submit_new_cases:
  assumes "submit_new E now s l h = Inr (outcome, task, h')"
  shows "\<exists>approval db. outcome = Created
    \<and> check_all (check_rate l (fixed_window_start now (tl_window_seconds l)) now (hs_rates h))
        (submit_scopes (sm_who s)) = Inr ()
    \<and> hs_rates h' = foldl (count_request (fixed_window_start now (tl_window_seconds l))) (hs_rates h)
        (submit_scopes (sm_who s))
    \<and> db_tasks db = db_tasks (hs_db h)
    \<and> check_quotas l (pr_tenant (sm_who s)) now (governed_envelope s approval) db = Inr ()
    \<and> hs_db h' = db\<lparr>db_tasks := db_tasks db @ [submitted_row now s approval]\<rparr>
    \<and> load_task E (te_task_id (governed_envelope s approval)) (pr_tenant (sm_who s)) (hs_db h') = Inr task"
proof -
  obtain approval db where plan: "(case sm_reference s of
        None \<Rightarrow> Inr (None, hs_db h)
      | Some reference \<Rightarrow> record_plan_admission_tx E now (sm_who s)
          ((sm_envelope s)\<lparr>te_context := from_principal (sm_who s)\<rparr>) reference (hs_db h)) = Inr (approval, db)"
    and rest: "outcome = Created" "check_all (check_rate l (fixed_window_start now (tl_window_seconds l)) now (hs_rates h))
        (submit_scopes (sm_who s)) = Inr ()"
      "hs_rates h' = foldl (count_request (fixed_window_start now (tl_window_seconds l))) (hs_rates h)
        (submit_scopes (sm_who s))"
      "check_quotas l (pr_tenant (sm_who s)) now (governed_envelope s approval) db = Inr ()"
    and ins: "insert_task_row (submitted_row now s approval) db = Inr (hs_db h')"
    and load: "load_task E (te_task_id (governed_envelope s approval)) (pr_tenant (sm_who s)) (hs_db h') = Inr task"
    using assms by (auto simp: submit_new_def Let_def result_simps split_paired_Ex submitted_row_def)
  have "db_tasks db = db_tasks (hs_db h)"
    using plan yieldsD [OF task_frame.admission_in [OF refl]] by (auto split: option.splits)
  moreover have "hs_db h' = db\<lparr>db_tasks := db_tasks db @ [submitted_row now s approval]\<rparr>"
    using ins by (auto simp: insert_task_row_def result_simps)
  ultimately show ?thesis using rest load by blast
qed

text \<open>The task a new submission returns is the row it stored.\<close>

lemma created_task:
  assumes "tasks_ok (hs_db h)" "submit_task_governed E now s h = Inr (Created, task, h')"
  obtains approval where "submitted_row now s approval \<in> set (db_tasks (hs_db h'))"
    "task_of_row (submitted_row now s approval) = Inr task"
    "ta_envelope task = governed_envelope s approval"
proof -
  obtain l where "submit_new E now s l h = Inr (Created, task, h')"
    using submit_cases [OF assms(2)] by (auto split: option.splits)
  from submit_new_cases [OF this] obtain approval db where
    h': "hs_db h' = db\<lparr>db_tasks := db_tasks db @ [submitted_row now s approval]\<rparr>"
    and load: "load_task E (te_task_id (governed_envelope s approval)) (pr_tenant (sm_who s)) (hs_db h') = Inr task"
    by blast
  obtain r where r: "find_task (te_task_id (governed_envelope s approval)) (pr_tenant (sm_who s)) (hs_db h') = Some r"
      "task_of_row r = Inr task"
    using load_task_row [OF load] by blast
  have "tasks_ok (hs_db h')" using submit_leases [OF assms(2)] assms(1) leases_frame(1) by blast
  from find_task_row [OF this, of "submitted_row now s approval"] r(1) have "r = submitted_row now s approval"
    by (simp add: h')
  then show ?thesis using that [of approval] r(2) task_of_row_facts(12) [OF r(2)] by (simp add: h')
qed

subsection \<open>Limits\<close>

lemma window_count_count_request:
  "window_count scope start (count_request start rows other)
     = window_count scope start rows + (if scope = other then 1 else 0)"
proof (cases "list_ex (same_window other start) rows")
  case True
  then have "find (same_window other start) rows \<noteq> None"
    by (auto simp: find_None_iff list_ex_iff)
  with True show ?thesis
    by (auto simp: window_count_def count_request_def find_update_where_stable same_window_def
        split: option.splits dest: find_SomeD)
next
  case False
  then have none: "find (same_window other start) rows = None"
    by (auto simp: find_None_iff list_ex_iff)
  show ?thesis
  proof (cases "find (same_window scope start) rows")
    case None
    with False show ?thesis
      by (simp add: window_count_def count_request_def find_append same_window_def)
  next
    case (Some r)
    with False none show ?thesis
      by (auto simp: window_count_def count_request_def find_append)
  qed
qed

lemma scopes_distinct: "''tenant:'' @ x \<noteq> ''operator:'' @ y"
  by simp

definition task_cost :: "task_row \<Rightarrow> nat" where
  "task_cost r = unat (max_cost_microunits (te_budget (tk_envelope_json r)))"

lemma daily_cost_sum: "unat (daily_cost rs) = min (sum_list (map task_cost rs)) (2 ^ 64 - 1)"
proof -
  have "unat (fold (\<lambda>r cost. saturating_add cost (max_cost_microunits (te_budget (tk_envelope_json r)))) rs c)
      = min (unat c + sum_list (map task_cost rs)) (2 ^ 64 - 1)" for c :: u64
  proof (induction rs arbitrary: c)
    case Nil
    have "unat c < 2 ^ 64" by (rule order_less_le_trans [OF unsigned_less]) simp
    then show ?case by simp
  next
    case (Cons r rs)
    then show ?case by (simp add: saturating_add_unat task_cost_def)
  qed
  from this [of 0] show ?thesis by (simp add: daily_cost_def)
qed

text \<open>C35: a new task is within the limits of its tenant: afterwards neither window of its submitter counts
  more requests than allowed, the tenant has no more active tasks than allowed, and the tasks created
  since the start of the day are no more, and may cost in all no more, than the tenant may spend in a
  day; the sum is exact, it never wraps. The task stored runs with the rights of the principal's role,
  whatever context the client sent.\<close>

theorem accepted_submission_within_limits:
  assumes "host_reachable E I h" "submit_task_governed E now s h = Inr (Created, task, h')"
  defines "tenant \<equiv> pr_tenant (sm_who s)"
  shows "\<exists>l. load_limits tenant h = Inr l
    \<and> (\<forall>scope \<in> set (submit_scopes (sm_who s)).
         window_count scope (fixed_window_start now (tl_window_seconds l)) (hs_rates h')
           \<le> unat (tl_requests_per_window l))
    \<and> count_where (\<lambda>r. active_status (tk_status r)) (tenant_tasks tenant (hs_db h')) \<le> unat (tl_max_active_tasks l)
    \<and> length (tasks_since tenant (day_start now) (hs_db h')) \<le> unat (tl_max_daily_tasks l)
    \<and> sum_list (map task_cost (tasks_since tenant (day_start now) (hs_db h'))) \<le> unat (tl_max_daily_cost l)
    \<and> ctx_role (te_context (ta_envelope task)) = pr_role (sm_who s)
    \<and> ctx_capabilities (te_context (ta_envelope task)) = for_role (pr_role (sm_who s))"
proof -
  obtain l where l: "load_limits tenant h = Inr l" and new: "submit_new E now s l h = Inr (Created, task, h')"
    using submit_cases [OF assms(2)] by (auto simp: tenant_def split: option.splits)
  let ?start = "fixed_window_start now (tl_window_seconds l)"
  obtain approval db where
    rate: "check_all (check_rate l ?start now (hs_rates h)) (submit_scopes (sm_who s)) = Inr ()"
    and rates: "hs_rates h' = foldl (count_request ?start) (hs_rates h) (submit_scopes (sm_who s))"
    and db: "db_tasks db = db_tasks (hs_db h)"
    and quota: "check_quotas l tenant now (governed_envelope s approval) db = Inr ()"
    and h': "hs_db h' = db\<lparr>db_tasks := db_tasks db @ [submitted_row now s approval]\<rparr>"
    and load: "load_task E (te_task_id (governed_envelope s approval)) tenant (hs_db h') = Inr task"
    using submit_new_cases [OF new] by (auto simp: tenant_def)
  let ?row = "submitted_row now s approval"
  have "window_count scope ?start (hs_rates h') \<le> unat (tl_requests_per_window l)"
    if "scope \<in> set (submit_scopes (sm_who s))" for scope
    using rate that by (auto simp: rates submit_scopes_def window_count_count_request check_rate_def result_simps
        Suc_le_eq split: if_splits)
  moreover have cost: "task_cost ?row = unat (max_cost_microunits (te_budget (governed_envelope s approval)))"
    by (simp add: task_cost_def)
  moreover have today: "tasks_since tenant (day_start now) (hs_db h')
      = tasks_since tenant (day_start now) db @ [?row]"
  proof -
    have "day_start now \<le> now"
      by (simp add: day_start_def Let_def seconds_def)
    then show ?thesis by (simp add: tasks_since_def tenant_tasks_def h' tenant_def)
  qed
  moreover have "count_where (\<lambda>r. active_status (tk_status r)) (tenant_tasks tenant (hs_db h'))
      \<le> unat (tl_max_active_tasks l)" "length (tasks_since tenant (day_start now) db) < unat (tl_max_daily_tasks l)"
    using quota
    by (auto simp: check_quotas_def Let_def tenant_tasks_def h' count_where_def active_status_def tenant_def
        split: if_splits)
  moreover have "sum_list (map task_cost (tasks_since tenant (day_start now) (hs_db h'))) \<le> unat (tl_max_daily_cost l)"
  proof -
    have "limits_ok h" by (rule host_reachable_ok [OF assms(1)])
    then have "unat (tl_max_daily_cost l) < 2 ^ 63"
      using l by (auto simp: load_limits_def result_simps limits_ok_def dest: find_SomeD)
    moreover have "unat (saturating_add (daily_cost (tasks_since tenant (day_start now) db))
        (max_cost_microunits (te_budget (governed_envelope s approval)))) \<le> unat (tl_max_daily_cost l)"
      using quota by (auto simp: check_quotas_def Let_def not_less word_le_nat_alt split: if_splits)
    ultimately show ?thesis by (simp add: today saturating_add_unat daily_cost_sum cost)
  qed
  moreover obtain approval' where "ta_envelope task = governed_envelope s approval'"
    using created_task [OF host_reachable_ok(1) [OF assms(1)] assms(2)] by metis
  ultimately show ?thesis
    using l by (intro exI [of _ l]) (auto simp: governed_envelope_def with_provenance_def from_principal_def)
qed

subsection \<open>Idempotency\<close>

definition holds_submission :: "submission \<Rightarrow> task_id \<Rightarrow> task_row \<Rightarrow> bool" where
  "holds_submission s tid r \<longleftrightarrow> tk_task_id r = tid \<and> task_key r = (pr_tenant (sm_who s), sm_key s)
     \<and> tk_request_fingerprint r = sm_fingerprint s
     \<and> tk_plan_id r = map_option rf_plan_id (sm_reference s)
     \<and> tk_plan_revision r = map_option rf_revision (sm_reference s)
     \<and> tk_plan_digest r = map_option rf_digest (sm_reference s)"

lemma same_plan_reference_row:
  assumes "task_of_row r = Inr t"
  shows "same_plan_reference t p \<longleftrightarrow> tk_plan_id r = map_option rf_plan_id p
    \<and> tk_plan_revision r = map_option rf_revision p \<and> tk_plan_digest r = map_option rf_digest p"
  using task_of_row_facts(6,15,16) [OF assms]
  by (cases p) (auto simp: same_plan_reference_def split: option.splits)

lemma plan_reference_fields:
  "map_option rf_plan_id (p :: plan_task_reference option) = map_option rf_plan_id q \<and> map_option rf_revision p = map_option rf_revision q
     \<and> map_option rf_digest p = map_option rf_digest q \<longleftrightarrow> p = q"
  by (cases p; cases q; (cases "the p"; cases "the q")?) auto

lemma submission_row:
  assumes "tasks_ok (hs_db h)" "submit_task_governed E now s h = Inr (outcome, task, h')"
  shows "\<exists>r \<in> set (db_tasks (hs_db h')). holds_submission s (ta_task_id task) r"
proof (cases "find (\<lambda>r. tk_tenant r = pr_tenant (sm_who s) \<and> tk_idempotency_key r = sm_key s) (db_tasks (hs_db h))")
  case None
  then obtain l where "submit_new E now s l h = Inr (outcome, task, h')"
    using submit_cases [OF assms(2)] by auto
  from submit_new_cases [OF this] obtain a db where
    new: "hs_db h' = db\<lparr>db_tasks := db_tasks db @ [submitted_row now s a]\<rparr>"
    and load: "load_task E (tk_task_id (submitted_row now s a)) (pr_tenant (sm_who s)) (hs_db h') = Inr task"
    unfolding submitted_row_simps by blast
  from new have row: "submitted_row now s a \<in> set (db_tasks (hs_db h'))" by simp
  have "ta_task_id task = tk_task_id (submitted_row now s a)"
    using load_task_row [OF load] task_of_row_facts(1) by (auto simp: same_task_def)
  then have "holds_submission s (ta_task_id task) (submitted_row now s a)"
    by (simp add: holds_submission_def task_key_def)
  then show ?thesis using row by blast
next
  case (Some r)
  then have r: "r \<in> set (db_tasks (hs_db h))" "tk_tenant r = pr_tenant (sm_who s)" "tk_idempotency_key r = sm_key s"
    by (auto dest: find_SomeD)
  have load: "load_task E (tk_task_id r) (tk_tenant r) (hs_db h) = Inr task" and h': "h' = h"
    and same: "ta_request_fingerprint task = sm_fingerprint s" "same_plan_reference task (sm_reference s)"
    using submit_cases [OF assms(2)] Some r(2) by auto
  have t: "task_of_row r = Inr task"
    using load find_task_row [OF assms(1) r(1)] by (simp add: load_task_def)
  show ?thesis
    using r same same_plan_reference_row [OF t] task_of_row_facts(1,14) [OF t]
    by (auto simp: h' holds_submission_def task_key_def)
qed

text \<open>C34: a submission is idempotent under its key: once one has been accepted, whatever the host does next, a
  submission of the same principal, session and key makes no second task and changes nothing; it returns
  the task as it is now when the fingerprint and the plan are the same, and is a conflict otherwise.\<close>

theorem resubmission_returns_the_task:
  assumes "host_reachable E I h" "submit_task_governed E now s h = Inr (outcome, task, h1)"
    and "(host_step E I)\<^sup>*\<^sup>* h1 h2"
    and "sm_session_id s2 = sm_session_id s" "sm_who s2 = sm_who s" "sm_key s2 = sm_key s"
  shows "submit_task_governed E later s2 h2 =
    and_then (validate_submission s2) (\<lambda>_.
    and_then (load_task E (ta_task_id task) (pr_tenant (sm_who s)) (hs_db h2)) (\<lambda>now_task.
    if sm_fingerprint s2 \<noteq> sm_fingerprint s \<or> sm_reference s2 \<noteq> sm_reference s then Inl IdempotencyConflict
    else Inr (Existing, now_task, h2)))"
proof -
  note ok = host_reachable_ok(1) [OF assms(1)]
  have first: "iam_moves h h1" "tasks_ok (hs_db h1)"
    using host_steps_move [of E I h h1] H_submit [OF assms(2), of I] ok by blast+
  have steps: "iam_moves h1 h2" "leases (hs_db h1) (hs_db h2)" "tasks_ok (hs_db h2)"
    using host_steps_move [OF assms(3) first(2)] by blast+
  have moves: "iam_moves h h2" by (rule iam_moves_trans [OF first(1) steps(1)])
  obtain session l where
    session: "find (\<lambda>r. ss_session_id r = sm_session_id s \<and> ss_tenant r = pr_tenant (sm_who s)) (hs_sessions h)
          = Some session" "ss_operator session = pr_operator (sm_who s)"
    and l: "load_limits (pr_tenant (sm_who s)) h = Inr l"
    using submit_cases [OF assms(2)] by blast
  obtain session' where
    session': "find (\<lambda>r. ss_session_id r = sm_session_id s \<and> ss_tenant r = pr_tenant (sm_who s)) (hs_sessions h2)
          = Some session'" "ss_operator session' = pr_operator (sm_who s)"
    using kept_find [OF _ session(1), of session_moves "hs_sessions h2"] moves session(2)
    by (auto simp: iam_moves_def session_moves_def)
  have "pr_tenant (sm_who s) \<in> tl_tenant ` set (hs_limits h2)"
  proof -
    have "l \<in> set (hs_limits h) \<and> tl_tenant l = pr_tenant (sm_who s)"
      using l by (auto simp: load_limits_def result_simps dest: find_SomeD)
    then have "pr_tenant (sm_who s) \<in> tl_tenant ` set (hs_limits h)" by force
    then show ?thesis using moves unfolding iam_moves_def by blast
  qed
  then have "find (\<lambda>l. tl_tenant l = pr_tenant (sm_who s)) (hs_limits h2) \<noteq> None"
    by (auto simp: find_None_iff)
  then obtain l' where l': "load_limits (pr_tenant (sm_who s)) h2 = Inr l'"
    by (auto simp: load_limits_def result_simps)
  obtain r0 where r0: "r0 \<in> set (db_tasks (hs_db h1))" "holds_submission s (ta_task_id task) r0"
    using submission_row [OF ok assms(2)] by blast
  obtain r where r: "r \<in> set (db_tasks (hs_db h2))" "holds_submission s (ta_task_id task) r"
    using leases_row [OF steps(2) r0(1)] r0(2)
    by (auto simp: row_moves_def same_identity_def holds_submission_def task_key_def)
  then have key: "tk_tenant r = pr_tenant (sm_who s)" "tk_idempotency_key r = sm_key s" "tk_task_id r = ta_task_id task"
    by (auto simp: holds_submission_def task_key_def)
  have "find (\<lambda>q. task_key q = task_key r) (db_tasks (hs_db h2)) = Some r"
    using steps(3) r(1) by (intro find_distinct_key) (auto simp: tasks_ok_def)
  then have found: "find (\<lambda>q. tk_tenant q = pr_tenant (sm_who s) \<and> tk_idempotency_key q = sm_key s)
      (db_tasks (hs_db h2)) = Some r"
    using key by (simp add: task_key_def)
  have load: "load_task E (ta_task_id task) (pr_tenant (sm_who s)) (hs_db h2) = task_of_row r"
    using find_task_row [OF steps(3) r(1)] key by (simp add: load_task_def)
  have same: "ta_request_fingerprint t = sm_fingerprint s" "same_plan_reference t p \<longleftrightarrow> p = sm_reference s"
    if t: "task_of_row r = Inr t" for t p
    using r(2) task_of_row_facts(14) [OF t] same_plan_reference_row [OF t, of p]
      plan_reference_fields [of p "sm_reference s"]
    unfolding holds_submission_def by (simp_all only:) metis+
  show ?thesis
    unfolding submit_task_governed_def Let_def assms(4-6)
    by (rule and_then_cong [OF refl])
      (simp add: session' l' found key load result_simps, cases "task_of_row r"; auto simp: same)
qed

end
