(* ===== verification/Queue_Recovery_Facts.thy ===== *)
theory Queue_Recovery_Facts
  imports Queue_Facts
begin

text \<open>
  The end of a task by its worker, branch by branch, the delay before a retry, and what taking back
  expired leases leaves in the table.
\<close>

subsection \<open>The delay before a retry\<close>

text \<open>The delay before a retry is never negative nor above the maximum (zero for a negative maximum),
  it does not shrink from one attempt to the next, and it is exactly \<open>base * 2 ^ (attempts - 1)\<close>, the
  exponent cut at ten and the product at the maximum, for every base below \<open>2 ^ 53\<close> milliseconds: the
  saturating product of 64 bits is then never cut.\<close>

theorem retry_backoff_bounds:
  assumes "0 \<le> base_ms"
  shows "0 \<le> retry_delay_ms base_ms max_ms attempts
    \<and> retry_delay_ms base_ms max_ms attempts \<le> max max_ms 0
    \<and> retry_delay_ms base_ms max_ms attempts \<le> retry_delay_ms base_ms max_ms (attempts + 1)
    \<and> (base_ms < 2 ^ 53 \<longrightarrow> retry_delay_ms base_ms max_ms attempts
         = max (min (base_ms * 2 ^ min (attempts - 1) 10) max_ms) 0)"
proof -
  have grows: "base_ms * 2 ^ min (attempts - 1) 10 \<le> base_ms * 2 ^ min (attempts + 1 - 1) 10"
    using assms by (intro mult_left_mono power_increasing) auto
  have fits: "base_ms * 2 ^ min (attempts - 1) 10 \<le> 2 ^ 63 - 1" if "base_ms < 2 ^ 53"
  proof -
    have "base_ms * 2 ^ min (attempts - 1) 10 \<le> (2 ^ 53 - 1) * (2 ^ 10)"
      using that assms by (intro mult_mono power_increasing) auto
    then show ?thesis by simp
  qed
  have pos: "0 \<le> base_ms * 2 ^ min (attempts - 1) 10" using assms by simp
  have cut: "0 \<le> max (min (min m x) c) 0 \<and> max (min (min m x) c) 0 \<le> max c 0
      \<and> max (min (min m x) c) 0 \<le> max (min (min m y) c) 0" if "x \<le> y" for x y m c :: int
    using that by (simp add: min_def max_def)
  have saturated: "max (- (2 ^ 63)) (min (2 ^ 63 - 1) z) = min (2 ^ 63 - 1) z" if "0 \<le> z" for z :: int
    using that by (simp add: max_def min_def)
  show ?thesis
    unfolding retry_delay_ms_def Let_def saturated [OF pos] saturated [OF order_trans [OF pos grows]]
    using cut [OF grows] fits by (simp add: min_absorb2)
qed

lemma retry_backoff_bounds_witness:
  "retry_delay_ms 1000 60000 3 = 4000 \<and> retry_delay_ms 1000 60000 9 = 60000"
  using retry_backoff_bounds [of 1000 60000 3] retry_backoff_bounds [of 1000 60000 9] by simp

subsection \<open>The end of a direct task\<close>

lemma finish_direct_rows:
  assumes "tasks_ok db" "find_task tid tenant db = Some r" "tk_lease_token r = Some k"
    and "\<And>q. same_identity q (f q)"
  shows "db_tasks (update_leased tid tenant k f db) = map (\<lambda>q. if q = r then f r else q) (db_tasks db)"
    "find_task tid tenant (update_leased tid tenant k f db) = Some (f r)"
proof -
  have r: "r \<in> set (db_tasks db)" "same_task tid tenant r"
    using assms(2) by (auto simp: find_task_def dest: find_SomeD)
  have only: "leased_task tid tenant k q \<longleftrightarrow> q = r" if "q \<in> set (db_tasks db)" for q
    using that find_task_unique [OF assms(1,2), of q] r assms(3) by (auto simp: leased_task_def same_task_def)
  then show "db_tasks (update_leased tid tenant k f db) = map (\<lambda>q. if q = r then f r else q) (db_tasks db)"
    by (auto simp: update_leased_def update_where_def)
  have stable: "same_task tid tenant (f q) = same_task tid tenant q" for q
    using assms(4) [of q] by (auto simp: same_task_def same_identity_def)
  have "leased_task tid tenant k r" using r assms(3) by (simp add: leased_task_def)
  then show "find_task tid tenant (update_leased tid tenant k f db) = Some (f r)"
    using assms(2) by (simp add: find_task_def update_leased_def find_update_where_stable stable)
qed

text \<open>What becomes of the row of a direct task whose worker ends it in time.\<close>

definition direct_end ::
    "task_row \<Rightarrow> json option \<Rightarrow> string option \<Rightarrow> bool \<Rightarrow> instant \<Rightarrow> int \<Rightarrow> int \<Rightarrow> finish_outcome \<times> task_row" where
  "direct_end r result err retryable now base_ms max_ms =
     (let ended = (\<lambda>s. r\<lparr>tk_status := s, tk_lease_until := None, tk_lease_token := None, tk_updated_at := now\<rparr>);
          next = now + millis (retry_delay_ms base_ms max_ms (tk_attempts r))
      in if tk_cancel_requested r \<or> tk_status r = ''cancel_requested'' then
           (FinishCancelled, (ended ''cancelled'')\<lparr>tk_cancel_requested := True, tk_completed_at := Some now\<rparr>)
         else if retryable \<and> tk_attempts r < tk_max_attempts r then
           (Requeued next, (ended ''queued'')\<lparr>tk_next_attempt_at := next, tk_result_json := None,
              tk_last_error := map_option (take_chars 4096) err\<rparr>)
         else if err = None then
           (FinishSucceeded, (ended ''succeeded'')\<lparr>tk_result_json := result, tk_last_error := None,
              tk_completed_at := Some now\<rparr>)
         else
           (FinishFailed, (ended ''failed'')\<lparr>tk_result_json := result,
              tk_last_error := map_option (take_chars 4096) err, tk_completed_at := Some now\<rparr>))"

lemma finish_direct_task:
  assumes "tasks_ok (hs_db h)" "find_task tid tenant (hs_db h) = Some r" "task_of_row r = Inr task"
    and "tk_plan_id r = None" "tk_lease_token r = Some k" "tk_lease_until r = Some u" "now < u"
  shows "finish_task E tid tenant k result err retryable now base_ms max_ms cc h =
    (case direct_end r result err retryable now base_ms max_ms of (outcome, r') \<Rightarrow>
      Inr (outcome, h\<lparr>hs_db := (hs_db h)\<lparr>db_tasks :=
        map (\<lambda>q. if q = r then r' else q) (db_tasks (hs_db h))\<rparr>\<rparr>))"
proof -
  note ok = assms(1)
  note task = task_of_row_facts [OF assms(3)]
  have r: "r \<in> set (db_tasks (hs_db h))" "tk_task_id r = tid" "tk_tenant r = tenant"
    using assms(2) by (auto simp: find_task_def same_task_def dest: find_SomeD)
  have live: "\<not> task_is_terminal (ta_status task)"
  proof -
    obtain s where s: "tk_status r = task_status_as_str s" "s \<in> leased_status"
      using ok r(1) assms(5) by (auto simp: tasks_ok_def row_ok_def)
    then have "ta_status task = s" using task(3) by (cases s; cases "ta_status task") auto
    then show ?thesis using s(2) by (auto simp: leased_status_def task_is_terminal_def)
  qed
  have attempts: "unat (ta_attempts task) = tk_attempts r" "unat (ta_max_attempts task) = tk_max_attempts r"
    using task by (simp_all add: unat_of_nat)
  then have left: "ta_attempts task < ta_max_attempts task \<longleftrightarrow> tk_attempts r < tk_max_attempts r"
    by (simp add: word_less_nat_alt)
  have cancel: "ta_status task = TaskCancelRequested \<longleftrightarrow> tk_status r = ''cancel_requested''"
    using task(3) by (cases "ta_status task") auto
  have rows: "update_leased tid tenant k f (hs_db h)
      = (hs_db h)\<lparr>db_tasks := map (\<lambda>q. if q = r then f r else q) (db_tasks (hs_db h))\<rparr>"
    if "\<And>q. same_identity q (f q)" for f
    using finish_direct_rows(1) [OF ok assms(2,5) that] by (simp add: update_leased_def)
  have reduce: "finish_task E tid tenant k result err retryable now base_ms max_ms cc h =
      (case finish_direct task tid tenant k result err retryable now base_ms max_ms (hs_db h) of
        (outcome, db) \<Rightarrow> Inr (outcome, h\<lparr>hs_db := db\<rparr>))"
    using live task(4,5,6) assms(2-7)
    by (simp only: finish_task_def load_task_def ok_or_simps and_then_simps if_False simp_thms not_le split: option.split)
      (simp add: case_prod_unfold)
  show ?thesis
    unfolding reduce finish_direct_def direct_end_def Let_def finish_direct_cancel_tx_def finish_direct_requeue_tx_def
      finish_direct_terminal_tx_def attempts left cancel task(1,2,7) r(2,3)
    by (cases "tk_cancel_requested r \<or> tk_status r = ''cancel_requested''";
        cases "retryable \<and> tk_attempts r < tk_max_attempts r"; cases err;
        simp only: if_True if_False simp_thms prod.case end_lease_def option.map task_status_as_str.simps option.simps
          task_status.simps;
        subst rows; (rule refl | simp add: same_identity_def))
qed

text \<open>A worker that ends a direct task under a lease that has not run out gets exactly one of four
  outcomes, and nothing else changes: cancelled when a cancellation was asked for, whatever the worker
  reports; back to the queue after the delay when it may be retried and an attempt is left; succeeded
  without an error; failed with one. The lease is given up in every case, and no error text longer than
  4096 characters is stored.\<close>

theorem direct_task_ends:
  assumes "host_reachable E I h" "find_task tid tenant (hs_db h) = Some r" "task_of_row r = Inr task"
    and "tk_plan_id r = None" "tk_lease_token r = Some k" "tk_lease_until r = Some u" "now < u"
  shows "finish_task E tid tenant k result err retryable now base_ms max_ms cc h =
    (case direct_end r result err retryable now base_ms max_ms of (outcome, r') \<Rightarrow>
      Inr (outcome, h\<lparr>hs_db := (hs_db h)\<lparr>db_tasks :=
        map (\<lambda>q. if q = r then r' else q) (db_tasks (hs_db h))\<rparr>\<rparr>))"
  by (rule finish_direct_task [OF host_reachable_ok(1) [OF assms(1)] assms(2-7)])

subsection \<open>Expired leases\<close>

text \<open>The row of a lease taken back.\<close>

definition taken_back :: "task_row \<Rightarrow> task_row \<Rightarrow> bool" where
  "taken_back r r' \<longleftrightarrow> same_identity r r' \<and> tk_lease_until r' = None \<and> tk_lease_token r' = None
     \<and> tk_status r' \<in> {''queued'', ''cancelled'', ''failed''} \<and> tk_attempts r' = tk_attempts r"

definition row_key :: "task_row \<Rightarrow> task_id \<times> tenant_id" where
  "row_key r = (tk_task_id r, tk_tenant r)"

lemma recover_lease_rows:
  assumes "recover_lease E now db e = Inr db'"
  shows "list_all2 (\<lambda>r r'. if row_key r = e then taken_back r r' else r' = r) (db_tasks db) (db_tasks db')"
proof -
  obtain tid tenant where e: "e = (tid, tenant)" by (cases e)
  have update: "list_all2 (\<lambda>r r'. if row_key r = e then taken_back r r' else r' = r) ts
      (update_where (same_task tid tenant) f ts)" if "\<And>r. taken_back r (f r)" for f ts
    using that by (auto simp: e update_where_def list_all2_map2 row_key_def same_task_def intro!: list_all2_refl)
  have frame: "db_tasks db1 = db_tasks db" if "mark_plan_unknown_tx E t p sid d now db = Inr db1" for t p sid d db1
    using yieldsD [OF task_frame.mark_unknown_in [OF refl] that] by simp
  obtain task where load: "load_task E tid tenant db = Inr task"
    and rest: "if ta_plan_id task \<noteq> None then recover_expired_plan_lease_tx E task now db = Inr db'
      else db' = update_task tid tenant (recover_direct_lease now) db"
    using assms by (auto simp: e recover_lease_def result_simps split: if_splits)
  have id: "ta_task_id task = tid" "ta_tenant task = tenant"
    using load_task_row [OF load] task_of_row_facts(1,2) by (auto simp: same_task_def)
  have "\<exists>f. db_tasks db' = update_where (same_task tid tenant) f (db_tasks db) \<and> (\<forall>r. taken_back r (f r))"
  proof (cases "ta_plan_id task = None")
    case True
    with rest have "db_tasks db' = update_where (same_task tid tenant) (recover_direct_lease now) (db_tasks db)"
      by (simp add: update_task_def)
    moreover have "taken_back r (recover_direct_lease now r)" for r
      by (simp add: taken_back_def same_identity_def recover_direct_lease_def end_lease_def)
    ultimately show ?thesis by blast
  next
    case False
    let ?f = "\<lambda>r. (release_task (if ta_cancel_requested task then TaskIsCancelled else TaskIsFailed) now r)
       \<lparr>tk_completed_at := Some now,
        tk_last_error := Some ''lease planejada expirada; estado requer resolucao''\<rparr>"
    from False rest obtain db1 where "db_tasks db1 = db_tasks db" "db' = update_task tid tenant ?f db1"
      by (auto simp: recover_expired_plan_lease_tx_def result_simps id dest!: frame)
    then have "db_tasks db' = update_where (same_task tid tenant) ?f (db_tasks db)" by (simp add: update_task_def)
    moreover have "taken_back r (?f r)" for r
      by (simp add: taken_back_def same_identity_def release_task_def)
    ultimately show ?thesis by (intro exI [of _ ?f]) simp
  qed
  then obtain f where f: "db_tasks db' = update_where (same_task tid tenant) f (db_tasks db)"
      "\<forall>r. taken_back r (f r)" by blast
  show ?thesis unfolding f(1) by (rule update) (simp add: f(2))
qed

lemma recover_fold_rows:
  assumes "fold_result (recover_lease E now) es db = Inr db'"
  shows "list_all2 (\<lambda>r r'. if row_key r \<in> set es then taken_back r r' else r' = r) (db_tasks db) (db_tasks db')"
  using assms
proof (induction es arbitrary: db)
  case (Cons e es)
  then obtain db1 where step: "recover_lease E now db e = Inr db1"
    and rest: "fold_result (recover_lease E now) es db1 = Inr db'"
    by (auto simp: result_simps)
  show ?case
  proof (rule list_all2_trans [OF _ recover_lease_rows [OF step] Cons.IH [OF rest]])
    fix r r1 r'
    assume "if row_key r = e then taken_back r r1 else r1 = r"
      and "if row_key r1 \<in> set es then taken_back r1 r' else r' = r1"
    then show "if row_key r \<in> set (e # es) then taken_back r r' else r' = r"
      by (auto simp: taken_back_def same_identity_def row_key_def split: if_splits)
  qed
qed (simp add: list_all2_refl)

lemma taken_back_not_expired: "taken_back r r' \<Longrightarrow> \<not> lease_expired now r'"
  by (auto simp: taken_back_def lease_expired_def)

lemma remaining_expired:
  assumes "list_all2 (\<lambda>r r'. if row_key r \<in> K then taken_back r r' else r' = r) ts ts'"
  shows "filter (lease_expired now) ts' = filter (\<lambda>r. lease_expired now r \<and> row_key r \<notin> K) ts"
  using assms by (induction rule: list_all2_induct) (auto simp: taken_back_not_expired split: if_splits)

lemma length_filter_not_taken:
  assumes "distinct (map k xs)" "mset ys = mset xs"
  shows "length (filter (\<lambda>x. k x \<notin> k ` set (take n ys)) xs) = length xs - min n (length xs)"
proof -
  have len: "length ys = length xs" using assms(2) by (metis size_mset)
  have d: "distinct (map k ys)" using assms mset_eq_imp_distinct_iff [of "map k ys" "map k xs"] by simp
  then have cut: "distinct (map k (take n ys) @ map k (drop n ys))" by (simp flip: map_append)
  have "length (filter P xs) = length (filter P ys)" for P
    using assms(2) by (metis mset_filter size_mset)
  then have "length (filter (\<lambda>x. k x \<notin> k ` set (take n ys)) xs)
      = length (filter (\<lambda>x. k x \<notin> k ` set (take n ys)) (take n ys @ drop n ys))" by simp
  also have "\<dots> = length (drop n ys)"
  proof -
    have "filter (\<lambda>x. k x \<notin> k ` set (take n ys)) (take n ys) = []"
      and "filter (\<lambda>x. k x \<notin> k ` set (take n ys)) (drop n ys) = drop n ys"
      using cut by (auto simp: filter_empty_conv filter_id_conv)
    then show ?thesis by (simp only: filter_append append_Nil)
  qed
  finally show ?thesis by (simp add: len)
qed

text \<open>Taking back expired leases makes progress and harms nobody: up to 128 tasks whose lease has run out
  lose it, the one untouched for longest first, and every such call leaves that many fewer; a task whose
  lease has not run out, or that has none, keeps its row; a task taken back waits again, is cancelled or
  has failed, with its attempts counted as they were.\<close>

theorem expired_leases_are_taken_back:
  assumes "host_reachable E I h" "recover_expired_leases E now h = Inr (n, h')"
  shows "n = min 128 (count_where (lease_expired now) (db_tasks (hs_db h)))
    \<and> count_where (lease_expired now) (db_tasks (hs_db h')) = count_where (lease_expired now) (db_tasks (hs_db h)) - n
    \<and> list_all2 (\<lambda>r r'. r' = r \<or> lease_expired now r \<and> taken_back r r') (db_tasks (hs_db h)) (db_tasks (hs_db h'))"
proof -
  note ok = host_reachable_ok(1) [OF assms(1)]
  let ?ts = "db_tasks (hs_db h)"
  define sorted where "sorted = sort_key tk_updated_at (filter (lease_expired now) ?ts)"
  have run: "fold_result (recover_lease E now) (map row_key (take 128 sorted)) (hs_db h) = Inr (hs_db h')"
    and n: "n = length (take 128 sorted)"
    using assms(2) unfolding row_key_def sorted_def
    by (auto simp: recover_expired_leases_def Let_def result_simps)
  note rows = recover_fold_rows [OF run]
  let ?K = "row_key ` set (take 128 sorted)"
  have keys: "distinct (map row_key ?ts)"
    using ok unfolding tasks_ok_def row_key_def by (auto simp: distinct_map inj_on_def)
  have count: "length (filter (lease_expired now) (db_tasks (hs_db h')))
      = length (filter (\<lambda>r. row_key r \<notin> ?K) (filter (lease_expired now) ?ts))"
    using remaining_expired [OF rows, of now] by (simp add: conj_commute)
  have "distinct (map row_key (filter (lease_expired now) ?ts))" using keys by (simp add: distinct_map_filter)
  then have left: "length (filter (\<lambda>r. row_key r \<notin> ?K) (filter (lease_expired now) ?ts))
      = length (filter (lease_expired now) ?ts) - min 128 (length (filter (lease_expired now) ?ts))"
    by (rule length_filter_not_taken) (simp add: sorted_def)
  have "r' = r \<or> lease_expired now r \<and> taken_back r r'"
    if "r \<in> set ?ts" "if row_key r \<in> set (map row_key (take 128 sorted)) then taken_back r r' else r' = r" for r r'
  proof (cases "row_key r \<in> ?K")
    case True
    then obtain q where q: "q \<in> set (take 128 sorted)" "row_key q = row_key r" by auto
    then have "q \<in> set ?ts" "lease_expired now q" by (auto simp: sorted_def dest: in_set_takeD)
    moreover from this q that(1) keys have "q = r" by (auto simp: distinct_map inj_on_def)
    ultimately show ?thesis using that(2) True by auto
  qed (use that(2) in auto)
  then have "list_all2 (\<lambda>r r'. r' = r \<or> lease_expired now r \<and> taken_back r r') ?ts (db_tasks (hs_db h'))"
    using rows nth_mem unfolding list_all2_conv_all_nth by blast
  then show ?thesis
    using count left by (simp add: n count_where_def sorted_def min.commute)
qed

end
