(* ===== verification/Queue_Iam_Facts.thy ===== *)
theory Queue_Iam_Facts
  imports Queue_Facts
begin

text \<open>
  Bearer tokens through any sequence of operations of the host: who they stand for, for how long, and
  that a revocation is final.
\<close>

lemma find_conj: "find P xs = Some x \<Longrightarrow> Q x \<Longrightarrow> find (\<lambda>y. P y \<and> Q y) xs = Some x"
  by (induction xs) (auto split: if_splits)

lemma find_distinct_conj:
  "distinct (map key rs) \<Longrightarrow> r \<in> set rs \<Longrightarrow>
   find (\<lambda>s. key s = key r \<and> Q s) rs = (if Q r then Some r else None)"
proof (induction rs)
  case (Cons s rs)
  show ?case
  proof (cases "s = r")
    case True
    then have "find (\<lambda>s. key s = key r \<and> Q s) rs = None"
      using Cons.prems(1) by (auto simp: find_None_iff image_iff)
    with True show ?thesis by simp
  qed (use Cons in \<open>auto simp: image_iff\<close>)
qed simp

lemma find_bearer_token:
  assumes "tokens_ok h" "t \<in> set (hs_tokens h)"
  shows "find_bearer now (to_hash t) h
    = (if live_token now t then map_option (Pair t) (token_user t h) else None)"
proof -
  have "distinct (map to_hash (hs_tokens h))" using assms(1) by (simp add: tokens_ok_def)
  from find_distinct_conj [OF this assms(2), of "\<lambda>t. live_token now t \<and> token_user t h \<noteq> None"]
  show ?thesis by (auto simp: find_bearer_def)
qed

lemma operator_name: "operator_id_new (operator_str o1) = Inr o2 \<Longrightarrow> o2 = o1"
  and tenant_name: "tenant_id_new (tenant_str t1) = Inr t2 \<Longrightarrow> t2 = t1"
  by (cases o1; auto simp: operator_id_new_def split: if_splits)
    (cases t1; auto simp: tenant_id_new_def split: if_splits)

lemma authenticate_found:
  assumes "tokens_ok h" "t \<in> set (hs_tokens h)" "to_hash t = sha_text I token"
  shows "authenticate_token I now token h =
    (if trim_is_empty token \<or> length token > 512 \<or> \<not> live_token now t then (Inl QUnauthorized, h)
     else case token_user t h of None \<Rightarrow> (Inl QUnauthorized, h)
       | Some u \<Rightarrow>
         (and_then (core (operator_id_new (operator_str (us_operator u)))) (\<lambda>operator.
          and_then (core (tenant_id_new (tenant_str (us_tenant u)))) (\<lambda>tenant.
          Inr \<lparr>au_principal = \<lparr>pr_operator = operator, pr_tenant = tenant, pr_role = us_role u\<rparr>,
            au_token_id = to_token_id t, au_token_prefix = to_prefix t, au_source = FromToken\<rparr>)),
          h\<lparr>hs_tokens := update_where (\<lambda>r. to_hash r = sha_text I token)
            (\<lambda>r. r\<lparr>to_last_used_at := Some now\<rparr>) (hs_tokens h)\<rparr>))"
  using find_bearer_token [OF assms(1,2), of now]
  by (auto simp: authenticate_token_def assms(3) split: option.split)

text \<open>Whoever a bearer stands for had it issued: an accepted token is one of the table, its digest is the
  token's, it is not revoked and not expired, its whole life is at most ninety days, its user and the
  user's tenant are active, and the principal has exactly the user's name, tenant and role. Only the
  moment of last use of that one token changes.\<close>

theorem accepted_bearer_is_live:
  assumes "host_reachable E I h" "authenticate_token I now token h = (Inr who, h')"
  shows "\<exists>t \<in> set (hs_tokens h). \<exists>u \<in> set (hs_users h). \<exists>e.
      to_hash t = sha_text I token \<and> to_token_id t = au_token_id who \<and> to_revoked_at t = None
      \<and> to_expires_at t = Some e \<and> now < e \<and> e \<le> to_created_at t + seconds MAX_TOKEN_LIFETIME_SECONDS
      \<and> us_operator u = to_operator t \<and> us_active u \<and> tenant_is_active (us_tenant u) h
      \<and> au_principal who = \<lparr>pr_operator = us_operator u, pr_tenant = us_tenant u, pr_role = us_role u\<rparr>
      \<and> h' = h\<lparr>hs_tokens := update_where (\<lambda>r. r = t) (\<lambda>r. r\<lparr>to_last_used_at := Some now\<rparr>) (hs_tokens h)\<rparr>"
proof -
  note ok = host_reachable_ok(2) [OF assms(1)]
  obtain t u0 where "find_bearer now (sha_text I token) h = Some (t, u0)"
    using assms(2) by (auto simp: authenticate_token_def split: if_splits option.splits)
  then have t: "t \<in> set (hs_tokens h)" "to_hash t = sha_text I token"
    by (auto simp: find_bearer_def bind_eq_Some_conv dest: find_SomeD)
  obtain u where u: "token_user t h = Some u" and live: "live_token now t"
    and who: "and_then (core (operator_id_new (operator_str (us_operator u)))) (\<lambda>operator.
          and_then (core (tenant_id_new (tenant_str (us_tenant u)))) (\<lambda>tenant.
          Inr \<lparr>au_principal = \<lparr>pr_operator = operator, pr_tenant = tenant, pr_role = us_role u\<rparr>,
            au_token_id = to_token_id t, au_token_prefix = to_prefix t, au_source = FromToken\<rparr>)) = Inr who"
    and h': "h' = h\<lparr>hs_tokens := update_where (\<lambda>r. to_hash r = sha_text I token)
            (\<lambda>r. r\<lparr>to_last_used_at := Some now\<rparr>) (hs_tokens h)\<rparr>"
    using assms(2) authenticate_found [OF ok t, of now] by (auto split: if_splits option.splits)
  have "update_where (\<lambda>r. to_hash r = sha_text I token) f (hs_tokens h) = update_where (\<lambda>r. r = t) f (hs_tokens h)" for f
    using ok t unfolding update_where_def tokens_ok_def by (intro map_cong) (auto simp: distinct_map inj_on_def)
  note only = this
  obtain e where e: "to_expires_at t = Some e" "now < e" "to_revoked_at t = None"
    using live by (auto simp: live_token_def split: option.splits)
  have "e \<le> to_created_at t + seconds MAX_TOKEN_LIFETIME_SECONDS"
    using ok t(1) e(1) by (auto simp: tokens_ok_def term_ok_def)
  moreover have "u \<in> set (hs_users h) \<and> us_operator u = to_operator t \<and> us_active u \<and> tenant_is_active (us_tenant u) h"
    using u unfolding token_user_def by (auto dest: find_SomeD)
  moreover have "to_token_id t = au_token_id who
      \<and> au_principal who = \<lparr>pr_operator = us_operator u, pr_tenant = us_tenant u, pr_role = us_role u\<rparr>"
    using who by (auto simp: result_simps dest: operator_name tenant_name)
  ultimately show ?thesis
    using t e h' [unfolded only] by blast
qed


lemma issue_cases:
  assumes "issue_token I now operator expires h = Inr (issue, h')"
  shows "\<exists>u t b c. get_user operator h = Inr u \<and> us_active u
    \<and> ti_principal issue = \<lparr>pr_operator = us_operator u, pr_tenant = us_tenant u, pr_role = us_role u\<rparr>
    \<and> t \<in> set (hs_tokens h') \<and> to_token_id t = ti_token_id issue \<and> to_hash t = sha_text I (ti_token issue)
    \<and> to_prefix t = ti_token_prefix issue \<and> to_operator t = operator \<and> to_expires_at t = expires
    \<and> ti_token issue = bearer_text I b c"
proof -
  obtain a b c h1 h2 h3 where u: "host_uuid h = (a, h1)" "host_uuid h1 = (b, h2)" "host_uuid h2 = (c, h3)"
    by (metis surj_pair)
  obtain user where user: "get_user operator h = Inr user" "us_active user"
    using assms by (auto simp: issue_token_def and_then_Inr_iff split: if_splits)
  obtain e where e: "lifetime_ok now expires = Inr e"
    using assms by (auto simp: issue_token_def and_then_Inr_iff split: if_splits)
  then have expires: "expires = Some e" by (auto simp: lifetime_ok_def result_simps split: if_splits)
  let ?t = "\<lparr>to_token_id = token_id_text I a, to_hash = sha_text I (bearer_text I b c),
    to_prefix = take_chars 12 (bearer_text I b c), to_operator = operator, to_created_at = now,
    to_expires_at = Some e, to_revoked_at = None, to_last_used_at = None\<rparr>"
  have "h' = h3\<lparr>hs_tokens := hs_tokens h3 @ [?t]\<rparr>"
    and "issue = \<lparr>ti_token_id = token_id_text I a, ti_token = bearer_text I b c,
      ti_token_prefix = take_chars 12 (bearer_text I b c),
      ti_principal = \<lparr>pr_operator = us_operator user, pr_tenant = us_tenant user, pr_role = us_role user\<rparr>,
      ti_expires_at = Some e\<rparr>"
    using assms e user
    by (simp_all add: issue_token_def Let_def u and_then_Inr_iff split: if_splits)
  then show ?thesis
    using user expires by (intro exI [of _ user] exI [of _ ?t] exI [of _ b] exI [of _ c]) simp
qed

text \<open>C37: a token that was issued authenticates: until it expires or is revoked, whatever the host does
  meanwhile, the bearer text handed out stands for the principal named when it was issued, provided the
  principal's tenant is active and the text of an identifier has at most 200 characters (that of a UUID
  has 36).\<close>

theorem issued_token_authenticates:
  assumes "host_reachable E I h" "issue_token I now operator expires h = Inr (issue, h1)"
    and "tenant_is_active (pr_tenant (ti_principal issue)) h" "\<forall>u. length (uuid_str I u) \<le> 200"
    and "(host_step E I)\<^sup>*\<^sup>* h1 h2" "the expires > later"
    and "\<forall>t \<in> set (hs_tokens h2). to_token_id t = ti_token_id issue \<longrightarrow> to_revoked_at t = None"
  shows "fst (authenticate_token I later (ti_token issue) h2) =
    Inr \<lparr>au_principal = ti_principal issue, au_token_id = ti_token_id issue,
      au_token_prefix = ti_token_prefix issue, au_source = FromToken\<rparr>"
proof -
  have reach: "host_reachable E I h1" "host_reachable E I h2"
    using assms(1,2,5) H_issue by (meson rtranclp.rtrancl_into_rtrancl rtranclp_trans)+
  have moves: "iam_moves h1 h2" "iam_moves h h2"
    using host_steps_move [OF assms(5) host_reachable_ok(1) [OF reach(1)]] issue_moves(1) [OF assms(2)]
    by (auto intro: iam_moves_trans)
  obtain u t1 b c where u: "get_user operator h = Inr u" "us_active u"
      "ti_principal issue = \<lparr>pr_operator = us_operator u, pr_tenant = us_tenant u, pr_role = us_role u\<rparr>"
    and t1: "t1 \<in> set (hs_tokens h1)" "to_token_id t1 = ti_token_id issue" "to_hash t1 = sha_text I (ti_token issue)"
      "to_prefix t1 = ti_token_prefix issue" "to_operator t1 = operator" "to_expires_at t1 = expires"
    and bearer: "ti_token issue = bearer_text I b c"
    using issue_cases [OF assms(2)] by blast
  obtain t where t: "t \<in> set (hs_tokens h2)" and same: "token_moves t1 t"
    using kept_member [OF _ t1(1), of token_moves "hs_tokens h2"] moves(1) by (auto simp: iam_moves_def)
  note t_facts = same [unfolded token_moves_def]
  obtain e where e: "expires = Some e"
    using host_reachable_ok(2) [OF reach(1)] t1(1,6) by (auto simp: tokens_ok_def term_ok_def)
  have "live_token later t"
    using t t_facts t1 e assms(6,7) by (simp add: live_token_def)
  moreover have "token_user t h2 = Some u"
  proof -
    have "find (\<lambda>u. us_operator u = operator) (hs_users h) = Some u"
      using u(1) by (auto simp: get_user_def result_simps)
    from kept_find [OF _ this, of "(=)" "hs_users h2"] moves(2)
    have "find (\<lambda>u. us_operator u = operator) (hs_users h2) = Some u" by (auto simp: iam_moves_def)
    moreover have "tenant_is_active (us_tenant u) h2"
      using assms(3) u(3) kept_member [of "(=)" "hs_tenants h" "hs_tenants h2"] moves(2)
      by (auto simp: tenant_is_active_def list_ex_iff iam_moves_def)
    ultimately show ?thesis
      using find_conj [of _ _ u "\<lambda>u. us_active u \<and> tenant_is_active (us_tenant u) h2"] u(2) t_facts t1(5)
      by (simp add: token_user_def)
  qed
  moreover have "operator_id_new (operator_str (us_operator u)) = Inr (us_operator u)"
      "tenant_id_new (tenant_str (us_tenant u)) = Inr (us_tenant u)"
    using u(1) by (auto simp: get_user_def result_simps dest: operator_name tenant_name)
  moreover have "\<not> trim_is_empty (ti_token issue)" "length (ti_token issue) \<le> 512"
    using assms(4) [rule_format, of b] assms(4) [rule_format, of c]
    by (auto simp: bearer bearer_text_def ascii_white_def wide_white_def split: list.split)
  ultimately show ?thesis
    using authenticate_found [OF host_reachable_ok(2) [OF reach(2)] t, of I "ti_token issue" later] t_facts t1 u(3)
    by simp
qed

end
