(* ===== verification/Worker_Loop.thy ===== *)
theory Worker_Loop
  imports Queue_Host
begin

text \<open>
  \<^verbatim>\<open>crates/shaka-api/src/lib.rs\<close>: the workers of the server, \<open>worker_loop\<close> and \<open>execute_task\<close>. Each
  operation on the queue and on the circuit breaker is one step, run on a thread of its own under a
  lock, so that the steps of several workers and of the handlers of requests interleave. What the agent
  runtime answers is any result or error, at any time.
\<close>

subsection \<open>Errors of the runtime\<close>

text \<open>The payload of an error of another crate is the text it displays.\<close>

datatype orchestrator_error =
  OCore string | OMemory string | OHttp string | InvalidModelResponse string | ToolNotFound string
| PlanActionDenied string | ToolExecution string | DeadlineExceeded | OCancelled

fun orchestrator_text :: "orchestrator_error \<Rightarrow> string" where
  "orchestrator_text (OCore e) = ''erro de nucleo: '' @ e"
| "orchestrator_text (OMemory e) = ''erro de memoria: '' @ e"
| "orchestrator_text (OHttp e) = ''erro HTTP do modelo: '' @ e"
| "orchestrator_text (InvalidModelResponse s) = ''resposta do modelo invalida: '' @ s"
| "orchestrator_text (ToolNotFound s) = ''ferramenta nao encontrada: '' @ s"
| "orchestrator_text (PlanActionDenied s) = ''ferramenta fora do escopo da etapa: '' @ s"
| "orchestrator_text (ToolExecution s) = ''execucao da ferramenta falhou: '' @ s"
| "orchestrator_text DeadlineExceeded = ''limite de tempo da tarefa excedido''"
| "orchestrator_text OCancelled = ''execucao cancelada pelo operador''"

definition is_retryable :: "orchestrator_error \<Rightarrow> bool" where
  "is_retryable e = (case e of OHttp _ \<Rightarrow> True | DeadlineExceeded \<Rightarrow> True | _ \<Rightarrow> False)"

subsection \<open>The state of the server\<close>

text \<open>The configuration of the workers, the capabilities the runtime grants, and the redaction of
  credentials, which rests on the \<open>regex\<close> crate. Delays are in milliseconds, as the queue takes them.\<close>

record worker_config =
  wc_lease_for :: int
  wc_retry_base_ms :: int
  wc_retry_max_ms :: int
  wc_capabilities :: "capability list"
  wc_redact :: "string \<Rightarrow> string"

text \<open>A worker is about to ask the breaker; has been let through at a moment; runs a task under its
  token; has the runtime's answer, with the moment it came; has told the breaker; or has stopped.\<close>

datatype worker =
  Asking
| Permitted instant
| Executing task_record uuid
| Answered task_record uuid "orchestrator_error + json option" instant
| Finishing task_record uuid "orchestrator_error + json option" instant
| Stopped

record server =
  sv_host :: host
  sv_breaker :: circuit_breaker
  sv_workers :: "worker list"
  sv_shutdown :: bool

subsection \<open>Steps of a worker\<close>

definition ask :: "instant \<Rightarrow> server \<Rightarrow> worker \<times> server" where
  "ask now s =
     (if sv_shutdown s then (Stopped, s)
      else case allow now (sv_breaker s) of
        (True, b) \<Rightarrow> (Permitted now, s\<lparr>sv_breaker := b\<rparr>)
      | (False, b) \<Rightarrow> (Asking, s\<lparr>sv_breaker := b\<rparr>))"

definition claim_context :: "worker_config \<Rightarrow> plan_claim_context" where
  "claim_context W = \<lparr>cc_circuit_closed = True, cc_granted_capabilities = wc_capabilities W,
     cc_remaining_budget = None, cc_state_digest = None\<rparr>"

text \<open>The claim uses the moment read before the breaker was asked; an error and an empty queue send the
  worker back to the start of the loop, as does a task without a token.\<close>

definition claim_work :: "env \<Rightarrow> worker_config \<Rightarrow> instant \<Rightarrow> server \<Rightarrow> worker \<times> server" where
  "claim_work E W now s =
     (case claim_next E now (wc_lease_for W) (claim_context W) (sv_host s) of
        Inl _ \<Rightarrow> (Asking, s)
      | Inr (None, h) \<Rightarrow> (Asking, s\<lparr>sv_host := h\<rparr>)
      | Inr (Some task, h) \<Rightarrow>
          ((case ta_lease_token task of None \<Rightarrow> Asking | Some token \<Rightarrow> Executing task token),
           s\<lparr>sv_host := h\<rparr>))"

text \<open>The runtime has answered: a cancellation during shutdown is recorded first, its error ignored.\<close>

definition take_answer ::
    "env \<Rightarrow> instant \<Rightarrow> orchestrator_error + json option \<Rightarrow> task_record \<Rightarrow> uuid \<Rightarrow> server \<Rightarrow> worker \<times> server"
  where
  "take_answer E now answer task token s =
     (Answered task token answer now,
      if answer = Inl OCancelled \<and> sv_shutdown s
      then (case request_cancel E now (ta_task_id task) (ta_tenant task) (sv_host s) of
              Inl _ \<Rightarrow> s | Inr (_, h) \<Rightarrow> s\<lparr>sv_host := h\<rparr>)
      else s)"

definition report :: "task_record \<Rightarrow> uuid \<Rightarrow> orchestrator_error + json option \<Rightarrow> instant \<Rightarrow> server \<Rightarrow> worker \<times> server"
  where
  "report task token answer now s =
     (Finishing task token answer now,
      case answer of
        Inr _ \<Rightarrow> s\<lparr>sv_breaker := record_success (sv_breaker s)\<rparr>
      | Inl e \<Rightarrow> if is_retryable e then s\<lparr>sv_breaker := record_failure now (sv_breaker s)\<rparr> else s)"

definition worker_plan_context :: "worker_config \<Rightarrow> circuit_breaker \<Rightarrow> plan_claim_context" where
  "worker_plan_context W b = \<lparr>cc_circuit_closed = (cb_state (br_snapshot b) = Closed),
     cc_granted_capabilities = wc_capabilities W, cc_remaining_budget = None, cc_state_digest = None\<rparr>"

text \<open>\<open>finish_success\<close> and \<open>finish_failure\<close>; an error of the queue is only logged.\<close>

definition finish_work ::
    "env \<Rightarrow> worker_config \<Rightarrow> task_record \<Rightarrow> uuid \<Rightarrow> orchestrator_error + json option \<Rightarrow> instant \<Rightarrow> server \<Rightarrow>
     worker \<times> server" where
  "finish_work E W task token answer now s =
     (let (result, err, retryable) =
        (case answer of
           Inr r \<Rightarrow> (r, None, False)
         | Inl e \<Rightarrow> (None, Some (wc_redact W (orchestrator_text e)), is_retryable e))
      in (Asking,
          case finish_task E (ta_task_id task) (ta_tenant task) token result err retryable now
              (wc_retry_base_ms W) (wc_retry_max_ms W) (worker_plan_context W (sv_breaker s)) (sv_host s) of
            Inl _ \<Rightarrow> s | Inr (_, h) \<Rightarrow> s\<lparr>sv_host := h\<rparr>))"

text \<open>One step of a worker; \<open>now\<close> and \<open>answer\<close> are what the clock and the runtime say, where it asks them.\<close>

fun advance ::
    "env \<Rightarrow> worker_config \<Rightarrow> instant \<Rightarrow> orchestrator_error + json option \<Rightarrow> worker \<Rightarrow> server \<Rightarrow> worker \<times> server"
  where
  "advance E W now answer Asking s = ask now s"
| "advance E W now answer (Permitted t) s = claim_work E W t s"
| "advance E W now answer (Executing task token) s = take_answer E now answer task token s"
| "advance E W now answer (Answered task token a t) s = report task token a t s"
| "advance E W now answer (Finishing task token a t) s = finish_work E W task token a t s"
| "advance E W now answer Stopped s = (Stopped, s)"

definition run_worker ::
    "env \<Rightarrow> worker_config \<Rightarrow> nat \<Rightarrow> instant \<Rightarrow> orchestrator_error + json option \<Rightarrow> server \<Rightarrow> server" where
  "run_worker E W i now answer s =
     (case advance E W now answer (sv_workers s ! i) s of (w, s') \<Rightarrow> s'\<lparr>sv_workers := (sv_workers s)[i := w]\<rparr>)"

text \<open>The server: its workers, the operations requests make on the store (the recovery of leases among
  them), and the signal to stop.\<close>

inductive server_step :: "env \<Rightarrow> iam_env \<Rightarrow> worker_config \<Rightarrow> server \<Rightarrow> server \<Rightarrow> bool"
  for E :: env and I :: iam_env and W :: worker_config where
  S_worker: "i < length (sv_workers s) \<Longrightarrow> server_step E I W s (run_worker E W i now answer s)"
| S_request: "host_step E I (sv_host s) h \<Longrightarrow> server_step E I W s (s\<lparr>sv_host := h\<rparr>)"
| S_shutdown: "server_step E I W s (s\<lparr>sv_shutdown := True\<rparr>)"

text \<open>The start: the leases of the last run that have expired are taken back, if the store allows it, and
  the workers are spawned over the breaker as its row says it was.\<close>

definition start_workers :: "env \<Rightarrow> instant \<Rightarrow> nat \<Rightarrow> host \<Rightarrow> circuit_breaker \<Rightarrow> server" where
  "start_workers E now worker_count h b =
     \<lparr>sv_host = (case recover_expired_leases E now h of Inl _ \<Rightarrow> h | Inr (_, h') \<Rightarrow> h'),
      sv_breaker = b, sv_workers = replicate worker_count Asking, sv_shutdown = False\<rparr>"

inductive server_reachable :: "env \<Rightarrow> iam_env \<Rightarrow> worker_config \<Rightarrow> server \<Rightarrow> bool"
  for E :: env and I :: iam_env and W :: worker_config where
  R_started: "host_reachable E I h \<Longrightarrow> circuit_breaker_new ''agent-runtime'' config rows = Inr b \<Longrightarrow>
    server_reachable E I W (start_workers E now n h b)"
| R_step: "server_reachable E I W s \<Longrightarrow> server_step E I W s s' \<Longrightarrow> server_reachable E I W s'"

end
