(* ===== verification/Worker_Facts.thy ===== *)
theory Worker_Facts
  imports Worker_Loop Queue_Recovery_Facts
begin

text \<open>
  What the workers guarantee together: every lease is held by one worker, the breaker in memory is the
  one on disk, a task that can be served is served, and what becomes of a probe of the circuit.
\<close>

subsection \<open>Steps of the server are steps of its store\<close>

lemma advance_host:
  assumes "advance E W now answer w s = (w', s')"
  shows "sv_host s' = sv_host s \<or> host_step E I (sv_host s) (sv_host s')"
  using assms
  by (cases w)
    (auto simp: ask_def claim_work_def take_answer_def report_def finish_work_def Let_def case_prod_unfold
      split: if_splits prod.splits bool.splits sum.splits option.splits
      intro: H_claim H_cancel H_finish)

lemma server_host:
  assumes "server_step E I W s s'"
  shows "(host_step E I)\<^sup>*\<^sup>* (sv_host s) (sv_host s')"
  using assms
proof cases
  case (S_worker i now answer)
  obtain w' s1 where "advance E W now answer (sv_workers s ! i) s = (w', s1)" by fastforce
  with S_worker advance_host [OF this, of I] show ?thesis by (auto simp: run_worker_def)
qed auto

lemma server_reachable_host: "server_reachable E I W s \<Longrightarrow> host_reachable E I (sv_host s)"
proof (induction rule: server_reachable.induct)
  case (R_started h config rows b now n)
  show ?case
  proof (cases "recover_expired_leases E now h")
    case (Inl e)
    then show ?thesis by (simp add: start_workers_def R_started(1))
  next
    case (Inr p)
    then have "recover_expired_leases E now h = Inr (fst p, snd p)" by simp
    then have "host_step E I h (snd p)" by (rule H_recover)
    with R_started(1) have "host_reachable E I (snd p)" by (rule rtranclp.rtrancl_into_rtrancl)
    then show ?thesis by (simp add: start_workers_def Inr case_prod_unfold)
  qed
next
  case (R_step s s')
  show ?case by (rule rtranclp_trans [OF R_step.IH server_host [OF R_step.hyps(2)]])
qed

subsection \<open>One worker, one lease\<close>

fun held :: "worker \<Rightarrow> uuid option" where
  "held (Executing task token) = Some token"
| "held (Answered task token a t) = Some token"
| "held (Finishing task token a t) = Some token"
| "held _ = None"

definition held_once :: "uuid \<Rightarrow> worker list \<Rightarrow> bool" where
  "held_once seed ws \<longleftrightarrow> (\<forall>i < length ws. \<forall>k. held (ws ! i) = Some k \<longrightarrow>
      k < seed \<and> (\<forall>j < length ws. held (ws ! j) = Some k \<longrightarrow> j = i))"

lemma held_once_later: "held_once a ws \<Longrightarrow> a \<le> b \<Longrightarrow> held_once b ws"
  unfolding held_once_def by (meson less_le_trans)

lemma held_once_update:
  assumes "held_once a ws" "a \<le> b"
    and "held w = None \<or> held w = held (ws ! i) \<or> (\<exists>k. held w = Some k \<and> a \<le> k \<and> k < b)"
  shows "held_once b (ws[i := w])"
proof (cases "i < length ws")
  case True
  then have at: "held (ws[i := w] ! j) = (if j = i then held w else held (ws ! j))" if "j < length ws" for j
    using that by (auto simp: nth_list_update)
  have old: "k < a" if "j < length ws" "held (ws ! j) = Some k" for j k
    using assms(1) that unfolding held_once_def by blast
  have same: "j' = j" if "j < length ws" "held (ws ! j) = Some k" "j' < length ws" "held (ws ! j') = Some k" for j j' k
    using assms(1) that unfolding held_once_def by blast
  have new: "j = i" if "j < length ws" "held (ws ! j) = Some k" "held w = Some k" for j k
  proof -
    have "k < a" by (rule old [OF that(1,2)])
    then have "held (ws ! i) = Some k" using assms(3) that(3) by auto
    then show ?thesis using same [OF True _ that(1,2)] by blast
  qed
  show ?thesis
    unfolding held_once_def length_list_update
  proof (intro allI impI conjI)
    fix j k assume j: "j < length ws" "held (ws[i := w] ! j) = Some k"
    show "k < b"
    proof (cases "j = i")
      case True
      then have k: "held w = Some k" using at [OF j(1)] j(2) by simp
      show ?thesis
      proof (rule ccontr)
        assume "\<not> k < b"
        then have "held (ws ! i) = Some k" using assms(3) k by auto
        then have "k < a" using old \<open>i < length ws\<close> by blast
        with \<open>\<not> k < b\<close> assms(2) show False by simp
      qed
    next
      case False
      then have "held (ws ! j) = Some k" using at [OF j(1)] j(2) by simp
      then have "k < a" using old j(1) by blast
      then show ?thesis using assms(2) by (rule less_le_trans)
    qed
    fix j' assume j': "j' < length ws" "held (ws[i := w] ! j') = Some k"
    show "j' = j"
    proof (cases "j = i \<or> j' = i")
      case True
      then have "held w = Some k" using at [OF j(1)] at [OF j'(1)] j(2) j'(2) by auto
      then have "held (ws ! j) = Some k \<longrightarrow> j = i" "held (ws ! j') = Some k \<longrightarrow> j' = i"
        using new j(1) j'(1) by blast+
      then show ?thesis using at [OF j(1)] at [OF j'(1)] j(2) j'(2) by (metis (full_types))
    next
      case False
      then have "held (ws ! j) = Some k" "held (ws ! j') = Some k"
        using at [OF j(1)] at [OF j'(1)] j(2) j'(2) by auto
      then show ?thesis using same j(1) j'(1) by blast
    qed
  qed
next
  case False
  then show ?thesis using held_once_later [OF assms(1,2)] by (simp add: list_update_beyond)
qed

abbreviation leases_held :: "server \<Rightarrow> bool" where
  "leases_held s \<equiv> held_once (db_uuid_seed (hs_db (sv_host s))) (sv_workers s)"

lemma claim_token_new:
  assumes "tasks_ok (hs_db h)" "claim_next E now lease_for cc h = Inr (Some t, h')"
  shows "\<exists>k. ta_lease_token t = Some k \<and> db_uuid_seed (hs_db h) \<le> k \<and> k < db_uuid_seed (hs_db h')"
proof -
  obtain r scope db1 task claimed where
    r: "find_task (tk_task_id r) (tk_tenant r) (hs_db h) = Some r" "eligible now r"
    and prep: "prepare_claim E cc now task (hs_db h) = Inr (Some scope, db1)"
    and h': "hs_db h' = lease_out now (now + lease_for) (tk_task_id r) (tk_tenant r) (map_option sc_step_id scope) db1"
    and load: "load_task E (tk_task_id r) (tk_tenant r) (hs_db h') = Inr claimed"
    and t: "t = claimed\<lparr>ta_plan_execution_scope := scope\<rparr>"
    using claim_next_some [OF assms] claim_queue_eligible by (metis in_set_conv_decomp)
  let ?r' = "lease_task (db_uuid_seed db1) (now + lease_for) now (map_option sc_step_id scope) r"
  have "find_task (tk_task_id r) (tk_tenant r) (hs_db h') = Some ?r'"
    using r prepare_claim_facts(2) [OF prep]
    by (simp add: find_task_def h' lease_out_def eligible_def find_update_where_stable same_task_def lease_task_def)
  then have "ta_lease_token t = Some (db_uuid_seed db1)"
    using load_task_row [OF load] task_of_row_facts [of ?r' claimed] t by (auto simp: lease_task_def)
  moreover have "db_uuid_seed (hs_db h) \<le> db_uuid_seed db1"
    by (rule leases_frame(2) [OF prepare_claim_facts(1) [OF prep]])
  ultimately show ?thesis by (auto simp: h' lease_out_def)
qed

lemma advance_held:
  assumes "advance E W now answer w s = (w', s')" "tasks_ok (hs_db (sv_host s))"
  shows "held w' = None \<or> held w' = held w
    \<or> (\<exists>k. held w' = Some k \<and> db_uuid_seed (hs_db (sv_host s)) \<le> k \<and> k < db_uuid_seed (hs_db (sv_host s')))"
proof (cases w)
  case (Permitted t)
  with assms claim_token_new [OF assms(2)] show ?thesis
    by (fastforce simp: claim_work_def split: sum.splits prod.splits option.splits)
qed (use assms in \<open>auto simp: ask_def take_answer_def report_def finish_work_def Let_def
  split: if_splits prod.splits bool.splits sum.splits\<close>)

lemma leases_held_step:
  assumes "server_step E I W s s'" "leases_held s" "host_reachable E I (sv_host s)"
  shows "leases_held s'"
proof -
  note ok = host_reachable_ok(1) [OF assms(3)]
  have seed: "db_uuid_seed (hs_db (sv_host s)) \<le> db_uuid_seed (hs_db (sv_host s'))"
    using host_steps_move [OF server_host [OF assms(1)] ok] by (simp add: leases_def)
  show ?thesis
    using assms(1)
  proof cases
    case (S_worker i now answer)
    obtain w' s1 where adv: "advance E W now answer (sv_workers s ! i) s = (w', s1)" by fastforce
    then have s': "sv_workers s' = (sv_workers s)[i := w']" "sv_host s' = sv_host s1"
      by (simp_all add: S_worker(1) run_worker_def)
    from held_once_update [OF assms(2) seed] advance_held [OF adv ok] show ?thesis
      unfolding s' by blast
  qed (use held_once_later [OF assms(2) seed] in auto)
qed

text \<open>C33: no two workers hold the same lease: in every reachable state of the server, whatever the workers
  and the requests do in between, two different workers run under different tokens; hence of several
  that run the same task (after a lease ran out) at most one holds the token in the task's row, and only
  that one can end it.\<close>

theorem workers_hold_distinct_leases:
  assumes "server_reachable E I W s" "i < length (sv_workers s)" "j < length (sv_workers s)" "i \<noteq> j"
    and "held (sv_workers s ! i) = Some k"
  shows "held (sv_workers s ! j) \<noteq> Some k"
proof -
  have "leases_held s"
    using assms(1)
  proof (induction rule: server_reachable.induct)
    case (R_started h config rows b now n)
    then show ?case by (simp add: held_once_def start_workers_def)
  next
    case (R_step s s')
    then show ?case using leases_held_step server_reachable_host by blast
  qed
  then show ?thesis using assms(2-5) unfolding held_once_def by blast
qed

subsection \<open>The probe of an open circuit\<close>

lemma advance_breaker:
  assumes "advance E W now answer w s = (w', s')"
  shows "sv_breaker s' = sv_breaker s \<or> (\<exists>e. sv_breaker s' = circuit_step e (sv_breaker s))"
proof (cases w)
  case Asking
  then have "sv_breaker s' = sv_breaker s \<or> sv_breaker s' = circuit_step (Ask now) (sv_breaker s)"
    using assms by (auto simp: ask_def split: if_splits prod.splits bool.splits)
  then show ?thesis by blast
next
  case (Answered task token a t)
  then have "sv_breaker s' \<in> {sv_breaker s, circuit_step Success (sv_breaker s), circuit_step (Failure t) (sv_breaker s)}"
    using assms by (auto simp: report_def split: sum.splits if_splits)
  then show ?thesis by blast
qed (use assms in \<open>auto simp: claim_work_def take_answer_def finish_work_def Let_def
  split: sum.splits prod.splits option.splits if_splits\<close>)

lemma server_reachable_breaker:
  assumes "server_reachable E I W s"
  shows "persisted (sv_breaker s) \<and> cb_name (br_snapshot (sv_breaker s)) = ''agent-runtime''"
  using assms
proof (induction rule: server_reachable.induct)
  case (R_started h config rows b now n)
  then show ?case using circuit_breaker_new_persisted [OF R_started(2)] by (simp add: start_workers_def)
next
  case (R_step s s')
  from R_step.hyps(2) show ?case
  proof cases
    case (S_worker i now answer)
    obtain w' s1 where "advance E W now answer (sv_workers s ! i) s = (w', s1)" by fastforce
    with S_worker advance_breaker [OF this] R_step.IH circuit_step_frame show ?thesis
      by (auto simp: run_worker_def)
  qed (use R_step.IH in auto)
qed

text \<open>No worker can be let through: the circuit is half open and every worker asks or has stopped.\<close>

definition stalled :: "server \<Rightarrow> bool" where
  "stalled s \<longleftrightarrow> cb_state (br_snapshot (sv_breaker s)) = HalfOpen \<and> set (sv_workers s) \<subseteq> {Asking, Stopped}"

lemma stalled_step:
  assumes "server_step E I W s s'" "stalled s"
  shows "stalled s' \<and> sv_breaker s' = sv_breaker s"
  using assms(1)
proof cases
  case (S_worker i now answer)
  have "sv_workers s ! i \<in> {Asking, Stopped}"
    using assms(2) nth_mem [OF S_worker(2)] by (auto simp: stalled_def)
  moreover have "allow now (sv_breaker s) = (False, sv_breaker s)"
    using assms(2) by (simp add: stalled_def allow_def Let_def)
  ultimately obtain w' where "advance E W now answer (sv_workers s ! i) s = (w', s)" "w' \<in> {Asking, Stopped}"
    by (cases "sv_shutdown s") (auto simp: ask_def)
  then show ?thesis
    using assms(2) set_update_subset_insert [of "sv_workers s" i w'] by (auto simp: S_worker(1) run_worker_def stalled_def)
qed (use assms(2) in \<open>auto simp: stalled_def\<close>)

lemma stalled_steps:
  assumes "(server_step E I W)\<^sup>*\<^sup>* s s'" "stalled s"
  shows "stalled s' \<and> sv_breaker s' = sv_breaker s"
  using assms(1)
proof (induction rule: rtranclp_induct)
  case (step s1 s2)
  then show ?case using stalled_step [OF step.hyps(2)] by auto
qed (simp add: assms(2))


subsection \<open>A task is served\<close>

text \<open>A waiting task without a plan whose row can be read, with room to count one attempt more.\<close>

definition servable :: "task_row \<Rightarrow> bool" where
  "servable r \<longleftrightarrow> tk_plan_id r = None \<and> tk_attempts r + 1 < 2 ^ 32
     \<and> (\<exists>t. task_of_row r = Inr t) \<and> (\<exists>t. tenant_id_new (tenant_str (tk_tenant r)) = Inr t)"

lemma claim_direct:
  assumes "tasks_ok (hs_db h)" "claim_queue now (hs_db h) = r # rest" "servable r" "0 < lease_for"
  defines "k \<equiv> db_uuid_seed (hs_db h)"
  shows "\<exists>t h'. claim_next E now lease_for cc h = Inr (Some t, h') \<and> ta_lease_token t = Some k
    \<and> ta_task_id t = tk_task_id r \<and> ta_tenant t = tk_tenant r
    \<and> find_task (tk_task_id r) (tk_tenant r) (hs_db h') = Some (lease_task k (now + lease_for) now None r)
    \<and> task_of_row (lease_task k (now + lease_for) now None r) = Inr t"
proof -
  have r: "r \<in> set (db_tasks (hs_db h))" "eligible now r"
    using claim_queue_eligible [of r now "hs_db h"] assms(2) by auto
  let ?lr = "lease_task k (now + lease_for) now None r"
  obtain task where task: "task_of_row r = Inr task" and tenant: "\<exists>t. tenant_id_new (tenant_str (tk_tenant r)) = Inr t"
    using assms(3) by (auto simp: servable_def)
  have direct: "ta_plan_id task = None" using task_of_row_facts(6) [OF task] assms(3) by (simp add: servable_def)
  have "\<exists>t. task_of_row ?lr = Inr t"
    using task assms(3)
    by (auto simp: task_of_row_def lease_task_def servable_def result_simps partial_plan_reference_def
        optional_step_def split: if_splits option.splits) (rule exI [of _ TaskIsRunning], simp)
  then obtain t where t: "task_of_row ?lr = Inr t" by blast
  note facts = task_of_row_facts [OF t]
  have scope: "t\<lparr>ta_plan_execution_scope := None\<rparr> = t" using facts(19) by (cases t) simp
  have found: "find_task (tk_task_id r) (tk_tenant r) (hs_db h) = Some r" by (rule find_task_row [OF assms(1) r(1)])
  define db' where "db' = lease_out now (now + lease_for) (tk_task_id r) (tk_tenant r) None (hs_db h)"
  have new: "find_task (tk_task_id r) (tk_tenant r) db' = Some ?lr"
    using found r(2)
    by (simp add: find_task_def db'_def lease_out_def eligible_def find_update_where_stable same_task_def lease_task_def k_def)
  have "claim_next E now lease_for cc h = Inr (Some t, h\<lparr>hs_db := db'\<rparr>)"
    using assms(2,4) tenant found task direct new t scope
    by (auto simp: claim_next_def load_task_def prepare_claim_def fresh_uuid_def db'_def lease_out_def Let_def)
  then show ?thesis using new t facts(1,2,4) by (auto simp: lease_task_def)
qed

text \<open>A task that waits is served: when the circuit is closed and every task that is due can be served
  directly, one pass of a worker whose runtime answers before the lease runs out takes a task that was
  due, and leaves it succeeded with that answer, one attempt counted and no lease, the circuit closed and
  the worker ready for the next.\<close>

theorem due_task_is_served:
  fixes result :: "json option"
  assumes "server_reachable E I W s" "i < length (sv_workers s)" "sv_workers s ! i = Asking" "\<not> sv_shutdown s"
    and "cb_state (br_snapshot (sv_breaker s)) = Closed" "0 < wc_lease_for W" "t < now + wc_lease_for W"
    and "\<forall>r \<in> set (db_tasks (hs_db (sv_host s))). eligible now r \<longrightarrow> servable r"
    and "\<exists>r \<in> set (db_tasks (hs_db (sv_host s))). eligible now r"
  defines "s' \<equiv> fold (\<lambda>clock. run_worker E W i clock (Inr result)) [now, now, t, t, t] s"
  shows "\<exists>r r'. r \<in> set (db_tasks (hs_db (sv_host s))) \<and> eligible now r
    \<and> find_task (tk_task_id r) (tk_tenant r) (hs_db (sv_host s')) = Some r'
    \<and> tk_status r' = ''succeeded'' \<and> tk_result_json r' = result \<and> tk_completed_at r' = Some t
    \<and> tk_attempts r' = tk_attempts r + 1 \<and> tk_lease_token r' = None
    \<and> cb_state (br_snapshot (sv_breaker s')) = Closed \<and> sv_workers s' ! i = Asking"
proof -
  let ?h = "sv_host s"
  note ok = host_reachable_ok(1) [OF server_reachable_host [OF assms(1)]]
  obtain r rest where queue: "claim_queue now (hs_db ?h) = r # rest"
    using assms(9) by (cases "claim_queue now (hs_db ?h)") (auto simp: claim_queue_def filter_empty_conv)
  then have r: "r \<in> set (db_tasks (hs_db ?h))" "eligible now r"
    using claim_queue_eligible [of r now "hs_db ?h"] by auto
  then have "servable r" using assms(8) by blast
  let ?k = "db_uuid_seed (hs_db ?h)"
  let ?lr = "lease_task ?k (now + wc_lease_for W) now None r"
  obtain task h1 where claim: "claim_next E now (wc_lease_for W) (claim_context W) ?h = Inr (Some task, h1)"
      "ta_lease_token task = Some ?k" "ta_task_id task = tk_task_id r" "ta_tenant task = tk_tenant r"
    and row: "find_task (tk_task_id r) (tk_tenant r) (hs_db h1) = Some ?lr" "task_of_row ?lr = Inr task"
    using claim_direct [OF ok queue \<open>servable r\<close> assms(6)] by blast
  have ok1: "tasks_ok (hs_db h1)" using claim_leases [OF claim(1) ok] ok by (simp add: leases_def)
  define lr' where "lr' = snd (direct_end ?lr result None False t (wc_retry_base_ms W) (wc_retry_max_ms W))"
  have ended: "direct_end ?lr result None False t (wc_retry_base_ms W) (wc_retry_max_ms W) = (FinishSucceeded, lr')"
    and lr': "tk_status lr' = ''succeeded''" "tk_result_json lr' = result" "tk_completed_at lr' = Some t"
      "tk_attempts lr' = tk_attempts r + 1" "tk_lease_token lr' = None" "tk_task_id lr' = tk_task_id r"
      "tk_tenant lr' = tk_tenant r"
    using r(2) by (simp_all add: lr'_def direct_end_def Let_def lease_task_def eligible_def)
  let ?h2 = "h1\<lparr>hs_db := (hs_db h1)\<lparr>db_tasks := map (\<lambda>q. if q = ?lr then lr' else q) (db_tasks (hs_db h1))\<rparr>\<rparr>"
  have finish: "finish_task E (tk_task_id r) (tk_tenant r) ?k result None False t (wc_retry_base_ms W)
      (wc_retry_max_ms W) cc h1 = Inr (FinishSucceeded, ?h2)" for cc
    using finish_direct_task [OF ok1 row, of ?k "now + wc_lease_for W" t] ended \<open>servable r\<close> assms(7)
    by (simp add: lease_task_def servable_def)
  define b where "b = record_success (sv_breaker s)"
  have "s' = s\<lparr>sv_host := ?h2, sv_breaker := b, sv_workers := (sv_workers s)[i := Asking]\<rparr>"
    using assms(2-5) claim finish
    by (simp add: s'_def run_worker_def ask_def allow_def Let_def claim_work_def take_answer_def report_def
        finish_work_def b_def)
  moreover have "find_task (tk_task_id r) (tk_tenant r) (hs_db ?h2) = Some lr'"
  proof -
    have "?lr \<in> set (db_tasks (hs_db h1))" using row(1) by (auto simp: find_task_def dest: find_SomeD)
    then have stored: "lr' \<in> set (db_tasks (hs_db ?h2))" by (auto intro!: image_eqI [of _ _ ?lr])
    have "leases (hs_db h1) (hs_db ?h2)" by (rule finish_leases [OF finish ok1])
    then have "tasks_ok (hs_db ?h2)" using ok1 leases_frame(1) by blast
    from find_task_row [OF this stored] show ?thesis unfolding lr'(6,7) .
  qed
  ultimately show ?thesis
    using r lr' assms(2) by (intro exI [of _ r] exI [of _ lr']) (simp add: b_def record_success_def)
qed

end
