(* ===== verification/Sample_Host.thy ===== *)
theory Sample_Host
  imports Sample_Store Worker_Facts
begin

text \<open>
  A host in use, wherever a theorem about the host is applied to data: the operator of the sample
  plan is made known, opens a session and submits a task without a plan; a worker claims it. SHA-256
  and the text of a UUID are instantiated by concrete functions.
\<close>

definition sample_iam :: iam_env where
  "sample_iam = \<lparr>sha_text = (\<lambda>s. s), uuid_str = (\<lambda>u. show_nat (u mod 1000))\<rparr>"

definition sample_submission :: submission where
  "sample_submission = \<lparr>sm_session_id = 1000, sm_who = sample_owner, sm_key = ''k'', sm_fingerprint = ''f'',
     sm_envelope = sample_envelope, sm_priority = 0, sm_max_attempts = 3, sm_reference = None,
     sm_request_id = None\<rparr>"

definition host_with :: "nat \<Rightarrow> token_row list \<Rightarrow> rate_row list \<Rightarrow> task_row list \<Rightarrow> host" where
  "host_with seed bearers rates tasks =
     \<lparr>hs_db = empty_db\<lparr>db_tasks := tasks, db_uuid_seed := seed\<rparr>,
      hs_sessions = [\<lparr>ss_session_id = 1000, ss_tenant = sample_tenant, ss_operator = sample_proposer,
        ss_role = Operator, ss_created_at = 20, ss_last_seen_at = 20, ss_metadata = JObject []\<rparr>],
      hs_tenants = [\<lparr>tn_tenant = sample_tenant, tn_display_name = ''acme'', tn_active = True,
        tn_created_at = 10\<rparr>],
      hs_users = [\<lparr>us_operator = sample_proposer, us_tenant = sample_tenant, us_role = Operator,
        us_active = True, us_created_at = 10, us_updated_at = 10\<rparr>],
      hs_tokens = bearers, hs_limits = [default_limits sample_tenant], hs_rates = rates\<rparr>"

definition sample_rates :: "rate_row list" where
  "sample_rates = [\<lparr>rw_scope = ''tenant:acme:submit'', rw_window_start = 0, rw_count = 1\<rparr>,
     \<lparr>rw_scope = ''operator:ana:submit'', rw_window_start = 0, rw_count = 1\<rparr>]"

definition waiting_row :: task_row where
  "waiting_row = new_task_row 30 1000 sample_owner ''k'' ''f''
     (sample_envelope\<lparr>te_context := from_principal sample_owner\<rparr>) 0 3 None"

text \<open>The task claimed, taken back after its lease, claimed again and done.\<close>

definition running_row :: task_row where
  "running_row = lease_task 1001 1040 40 None waiting_row"

definition back_row :: task_row where
  "back_row = recover_direct_lease 2000 running_row"

definition again_row :: task_row where
  "again_row = lease_task 1002 3100 2100 None back_row"

definition done_row :: task_row where
  "done_row = (end_lease ''succeeded'' 2200 again_row)
     \<lparr>tk_result_json := Some (JObject []), tk_last_error := None, tk_completed_at := Some 2200\<rparr>"

definition host_ready :: host where "host_ready = host_with 1001 [] [] []"
definition host_queued :: host where "host_queued = host_with 1001 [] sample_rates [waiting_row]"
definition host_running :: host where "host_running = host_with 1002 [] sample_rates [running_row]"
definition host_back :: host where "host_back = host_with 1002 [] sample_rates [back_row]"
definition host_again :: host where "host_again = host_with 1003 [] sample_rates [again_row]"
definition host_done :: host where "host_done = host_with 1003 [] sample_rates [done_row]"

lemmas host_eval =
  sample_iam_def sample_submission_def host_with_def sample_rates_def waiting_row_def host_ready_def
  host_queued_def host_running_def host_back_def host_again_def host_done_def empty_host_def
  running_row_def back_row_def again_row_def done_row_def
  host_uuid_def default_limits_def validate_limits_def tenant_not_found_def load_limits_def ensure_limits_def
  load_tenant_row_def tenants_with_limits_def get_tenant_def tenant_exists_def tenant_is_active_def
  insert_tenant_def create_tenant_def get_user_def user_exists_def new_user_def insert_user_def
  create_user_def bootstrap_principal_def MAX_TOKEN_LIFETIME_SECONDS_def seconds_def lifetime_ok_def
  token_id_text_def bearer_text_def issue_token_def revoke_token_def live_token_def token_user_def
  find_bearer_def authenticate_token_def create_session_def
  partial_plan_reference_def optional_step_def task_of_row_def find_task_def load_task_def active_status_def
  same_plan_reference_def fixed_window_start_def day_start_def submit_scopes_def same_window_def
  window_count_def check_rate_def count_request_def tenant_tasks_def tasks_since_def daily_cost_def
  check_quotas_def new_task_row_def insert_task_row_def validate_submission_def governed_envelope_def
  submit_new_def submit_task_governed_def eligible_def claim_queue_def prepare_claim_def lease_task_def
  claim_next_def cancelled_status_def request_cancel_def terminal_outcome_def leased_task_def
  update_leased_def end_lease_def finish_direct_cancel_tx_def finish_direct_requeue_tx_def
  finish_direct_terminal_tx_def finish_direct_def finish_task_def lease_expired_def
  recover_direct_lease_def recover_lease_def recover_expired_leases_def

lemma run_bootstrap:
  "bootstrap_principal 10 sample_owner empty_host
   = Inr (host_ready\<lparr>hs_db := empty_db, hs_sessions := []\<rparr>)"
  by (simp add: store_eval host_eval cong: eval_cong)

lemma run_session:
  "create_session 20 sample_owner (JObject []) (host_ready\<lparr>hs_db := empty_db, hs_sessions := []\<rparr>)
   = Inr (hd (hs_sessions host_ready), host_ready)"
  by (simp add: store_eval host_eval cong: eval_cong)

lemma run_submit:
  "\<exists>t. submit_task_governed sample_env 30 sample_submission host_ready = Inr (Created, t, host_queued)"
  by (simp add: store_eval host_eval cong: eval_cong)

lemma run_claim_direct:
  "\<exists>t. claim_next sample_env 40 1000 sample_cc host_queued = Inr (Some t, host_running)"
  by (simp add: store_eval host_eval cong: eval_cong)

lemma run_recover: "recover_expired_leases sample_env 2000 host_running = Inr (1, host_back)"
  by (simp add: store_eval host_eval cong: eval_cong)

lemma run_claim_again:
  "\<exists>t. claim_next sample_env 2100 1000 sample_cc host_back = Inr (Some t, host_again)"
  by (simp add: store_eval host_eval cong: eval_cong)

lemma run_finish_direct:
  "finish_task sample_env (TaskId 1) sample_tenant 1002 (Some (JObject [])) None False 2200 100 1000 sample_cc host_again
   = Inr (FinishSucceeded, host_done)"
  by (simp add: store_eval host_eval cong: eval_cong)

lemma run_finish_stale:
  "finish_task sample_env (TaskId 1) sample_tenant 1001 None (Some ''late'') True 2300 100 1000 sample_cc host_done
   = Inr (FinishSucceeded, host_done)"
  by (simp add: store_eval host_eval cong: eval_cong)

end
