(* ===== verification/Host_Examples.thy ===== *)
theory Host_Examples
  imports Sample_Host Queue_Submission_Facts Queue_Iam_Facts
begin

text \<open>
  The properties of the queue, of IAM and of the workers at concrete inputs: the sample host from the
  empty store to a task that was done, tokens issued and revoked, and servers over it.
\<close>

subsection \<open>The sample hosts are reachable\<close>

lemma reach_ready: "host_reachable sample_env sample_iam host_ready"
  using H_bootstrap [OF run_bootstrap] H_create_session [OF run_session]
  by (meson rtranclp.rtrancl_into_rtrancl rtranclp.rtrancl_refl)

lemma step_submit: "host_step sample_env sample_iam host_ready host_queued"
  using run_submit H_submit by blast

lemma step_claim: "host_step sample_env sample_iam host_queued host_running"
  using run_claim_direct H_claim by blast

lemma step_recover: "host_step sample_env sample_iam host_running host_back"
  by (rule H_recover [OF run_recover])

lemma step_claim_again: "host_step sample_env sample_iam host_back host_again"
  using run_claim_again H_claim by blast

lemma step_finish: "host_step sample_env sample_iam host_again host_done"
  by (rule H_finish [OF run_finish_direct])

lemma queued_to_running: "(host_step sample_env sample_iam)\<^sup>*\<^sup>* host_queued host_running"
  using step_claim by auto

lemma reach_queued: "host_reachable sample_env sample_iam host_queued"
  by (rule rtranclp.rtrancl_into_rtrancl [OF reach_ready step_submit])

lemma reach_running: "host_reachable sample_env sample_iam host_running"
  by (rule rtranclp.rtrancl_into_rtrancl [OF reach_queued step_claim])

lemma reach_back: "host_reachable sample_env sample_iam host_back"
  by (rule rtranclp.rtrancl_into_rtrancl [OF reach_running step_recover])

lemma back_to_done: "(host_step sample_env sample_iam)\<^sup>*\<^sup>* host_back host_done"
  using step_claim_again step_finish by (meson rtranclp.rtrancl_into_rtrancl rtranclp.rtrancl_refl)

subsection \<open>Tasks\<close>

theorem task_table_well_formed_witness: "tasks_ok (hs_db host_running)"
  by (rule task_table_well_formed [OF reach_running])

lemma find_back: "find_task (TaskId 1) sample_tenant (hs_db host_back) = Some back_row"
  by (simp add: store_eval host_eval)

theorem stale_lease_rejected_witness:
  "\<exists>task. load_task sample_env (TaskId 1) sample_tenant (hs_db host_done) = Inr task
     \<and> task_is_terminal (ta_status task)"
proof -
  have "1001 < db_uuid_seed (hs_db host_back)" "tk_lease_token back_row \<noteq> Some 1001"
    by (simp_all add: store_eval host_eval)
  from stale_lease_rejected [OF reach_back find_back this back_to_done run_finish_stale] show ?thesis by blast
qed

theorem claim_hands_out_lease_witness:
  "\<exists>t k. claim_next sample_env 40 1000 sample_cc host_queued = Inr (Some t, host_running)
     \<and> ta_lease_token t = Some k \<and> 1001 \<le> k"
proof -
  obtain t where run: "claim_next sample_env 40 1000 sample_cc host_queued = Inr (Some t, host_running)"
    using run_claim_direct by blast
  have "db_uuid_seed (hs_db host_queued) = 1001" by (simp add: store_eval host_eval)
  with claim_hands_out_lease [OF reach_queued run] run show ?thesis by metis
qed

theorem accepted_submission_within_limits_witness:
  "count_where (\<lambda>r. active_status (tk_status r)) (tenant_tasks sample_tenant (hs_db host_queued))
     \<le> unat (tl_max_active_tasks (default_limits sample_tenant))"
proof -
  obtain t where "submit_task_governed sample_env 30 sample_submission host_ready = Inr (Created, t, host_queued)"
    using run_submit by blast
  note accepted_submission_within_limits [OF reach_ready this]
  moreover have "load_limits (pr_tenant (sm_who sample_submission)) host_ready = Inr (default_limits sample_tenant)"
      "pr_tenant (sm_who sample_submission) = sample_tenant"
    by (simp_all add: store_eval host_eval)
  ultimately show ?thesis by auto
qed

lemma valid_sample_submission: "validate_submission sample_submission = Inr ()"
  by (simp add: store_eval host_eval cong: eval_cong)

lemma load_running: "\<exists>t. load_task sample_env (TaskId 1) sample_tenant (hs_db host_running) = Inr t"
  by (simp add: store_eval host_eval cong: eval_cong)

theorem resubmission_returns_the_task_witness:
  "\<exists>t. submit_task_governed sample_env 50 sample_submission host_running = Inr (Existing, t, host_running)"
proof -
  obtain t where run: "submit_task_governed sample_env 30 sample_submission host_ready = Inr (Created, t, host_queued)"
    using run_submit by blast
  have id: "ta_task_id t = TaskId 1"
    using run by (auto simp: store_eval host_eval cong: eval_cong)
  have who: "pr_tenant (sm_who sample_submission) = sample_tenant"
    by (simp add: store_eval host_eval)
  note resubmission_returns_the_task [OF reach_ready run queued_to_running refl refl refl,
      where later = 50]
  with load_running show ?thesis by (auto simp: valid_sample_submission id who)
qed

lemma find_running: "find_task (TaskId 1) sample_tenant (hs_db host_running) = Some running_row"
  by (simp add: store_eval host_eval)

theorem direct_task_ends_witness:
  "fst (projr (finish_task sample_env (TaskId 1) sample_tenant 1001 None (Some ''timeout'') True 1039 100 1000 sample_cc
     host_running)) = Requeued (1039 + 100000000)"
proof -
  have ok: "\<exists>t. task_of_row running_row = Inr t" "tk_plan_id running_row = None"
      "tk_lease_token running_row = Some 1001" "tk_lease_until running_row = Some 1040"
    by (simp_all add: store_eval host_eval cong: eval_cong)
  then obtain t where t: "task_of_row running_row = Inr t" by blast
  show ?thesis
    using direct_task_ends [OF reach_running find_running t ok(2-4), where now = 1039 and result = None
        and err = "Some ''timeout''" and retryable = True and base_ms = 100 and max_ms = 1000 and cc = sample_cc]
    by (simp add: direct_end_def Let_def retry_delay_ms_def millis_def running_row_def lease_task_def waiting_row_def
        new_task_row_def sample_owner_def)
qed

theorem expired_leases_are_taken_back_witness:
  "count_where (lease_expired 2000) (db_tasks (hs_db host_back)) = 0"
proof -
  have "count_where (lease_expired 2000) (db_tasks (hs_db host_running)) = 1"
    by (simp add: store_eval host_eval)
  with expired_leases_are_taken_back [OF reach_running run_recover] show ?thesis by simp
qed

subsection \<open>Tokens\<close>

definition sample_issue :: token_issue where
  "sample_issue = \<lparr>ti_token_id = ''tok_1'', ti_token = ''shk_2_3'', ti_token_prefix = ''shk_2_3'',
     ti_principal = sample_owner, ti_expires_at = Some 5000\<rparr>"

definition sample_bearer :: token_row where
  "sample_bearer = \<lparr>to_token_id = ''tok_1'', to_hash = ''shk_2_3'', to_prefix = ''shk_2_3'',
     to_operator = sample_proposer, to_created_at = 30, to_expires_at = Some 5000, to_revoked_at = None,
     to_last_used_at = None\<rparr>"

definition host_issued :: host where "host_issued = host_with 1004 [sample_bearer] [] []"
definition host_revoked :: host where
  "host_revoked = host_with 1004 [sample_bearer\<lparr>to_revoked_at := Some 40\<rparr>] [] []"

lemmas token_eval = sample_issue_def sample_bearer_def host_issued_def host_revoked_def

lemma run_issue: "issue_token sample_iam 30 sample_proposer (Some 5000) host_ready = Inr (sample_issue, host_issued)"
  by (simp add: store_eval host_eval token_eval cong: eval_cong)

lemma run_revoke: "revoke_token 40 ''tok_1'' host_issued = Inr host_revoked"
  by (simp add: store_eval host_eval token_eval cong: eval_cong)

lemma run_authenticate:
  "\<exists>who h. authenticate_token sample_iam 50 ''shk_2_3'' host_issued = (Inr who, h) \<and> au_token_id who = ''tok_1''"
  by (simp add: store_eval host_eval token_eval cong: eval_cong)

lemma reach_issued: "host_reachable sample_env sample_iam host_issued"
  by (rule rtranclp.rtrancl_into_rtrancl [OF reach_ready H_issue [OF run_issue]])

theorem accepted_bearer_is_live_witness:
  "\<exists>t \<in> set (hs_tokens host_issued). to_hash t = ''shk_2_3'' \<and> to_revoked_at t = None"
proof -
  obtain who h where "authenticate_token sample_iam 50 ''shk_2_3'' host_issued = (Inr who, h)"
    using run_authenticate by blast
  from accepted_bearer_is_live [OF reach_issued this] show ?thesis by (auto simp: sample_iam_def)
qed


lemma short_uuid: "length (uuid_str sample_iam u) \<le> 200"
proof -
  have "length (show_nat n) \<le> 3" if "n < 1000" for n
    using that by (cases "n < 10"; cases "n < 100") simp_all
  from this [of "u mod 1000"] show ?thesis by (simp add: sample_iam_def)
qed

theorem issued_token_authenticates_witness:
  "fst (authenticate_token sample_iam 4999 ''shk_2_3'' host_issued) =
     Inr \<lparr>au_principal = sample_owner, au_token_id = ''tok_1'', au_token_prefix = ''shk_2_3'', au_source = FromToken\<rparr>"
proof -
  have "tenant_is_active (pr_tenant (ti_principal sample_issue)) host_ready"
      "\<forall>t \<in> set (hs_tokens host_issued). to_token_id t = ti_token_id sample_issue \<longrightarrow> to_revoked_at t = None"
    by (simp_all add: store_eval host_eval token_eval)
  from issued_token_authenticates [OF reach_ready run_issue this(1) _ rtranclp.rtrancl_refl _ this(2), of 4999] short_uuid
  show ?thesis by (simp add: sample_issue_def)
qed

subsection \<open>Workers\<close>

definition sample_workers :: worker_config where
  "sample_workers = \<lparr>wc_lease_for = 1000, wc_retry_base_ms = 100, wc_retry_max_ms = 1000,
     wc_capabilities = [], wc_redact = (\<lambda>s. s)\<rparr>"

definition server_queued :: server where
  "server_queued = \<lparr>sv_host = host_queued, sv_breaker = sample_breaker, sv_workers = [Asking, Asking],
     sv_shutdown = False\<rparr>"

lemma reach_server: "server_reachable sample_env sample_iam sample_workers server_queued"
proof -
  have "recover_expired_leases sample_env 25 host_queued = Inr (0, host_queued)"
    by (simp add: store_eval host_eval cong: eval_cong)
  then have "start_workers sample_env 25 2 host_queued sample_breaker = server_queued"
    by (simp add: start_workers_def server_queued_def numeral_2_eq_2)
  with R_started [OF reach_queued sample_breaker_new, of sample_workers 25 2] show ?thesis by simp
qed

definition server_claimed :: server where
  "server_claimed = run_worker sample_env sample_workers 0 0 (Inr None)
     (run_worker sample_env sample_workers 0 40 (Inr None) server_queued)"

lemma claimed_worker:
  "\<exists>t. sv_workers server_claimed = [Executing t 1001, Asking]"
proof -
  obtain t where t: "claim_next sample_env 40 1000 (claim_context sample_workers) host_queued = Inr (Some t, host_running)"
      "ta_lease_token t = Some 1001"
    by (simp add: store_eval host_eval claim_context_def cong: eval_cong)
  then show ?thesis
    by (simp add: server_claimed_def run_worker_def ask_def allow_def Let_def claim_work_def server_queued_def
        sample_breaker_def closed_snapshot_def sample_workers_def)
qed

theorem workers_hold_distinct_leases_witness:
  "held (sv_workers server_claimed ! 0) = Some 1001 \<and> held (sv_workers server_claimed ! 1) \<noteq> Some 1001"
proof -
  obtain t where ws: "sv_workers server_claimed = [Executing t 1001, Asking]" using claimed_worker by blast
  have "server_reachable sample_env sample_iam sample_workers server_claimed"
    unfolding server_claimed_def
    by (rule R_step [OF R_step [OF reach_server S_worker] S_worker]) (simp_all add: server_queued_def run_worker_def case_prod_unfold)
  from workers_hold_distinct_leases [OF this, of 0 1 1001] show ?thesis by (simp add: ws)
qed

theorem due_task_is_served_witness:
  "\<exists>r'. find_task (TaskId 1) sample_tenant (hs_db (sv_host (fold (\<lambda>clock. run_worker sample_env sample_workers 0 clock
       (Inr (Some (JObject [])))) [40, 40, 90, 90, 90] server_queued))) = Some r' \<and> tk_status r' = ''succeeded''"
proof -
  have row: "db_tasks (hs_db (sv_host server_queued)) = [waiting_row]" "tk_task_id waiting_row = TaskId 1"
      "tk_tenant waiting_row = sample_tenant" "eligible 40 waiting_row"
    by (simp_all add: server_queued_def store_eval host_eval)
  have "servable waiting_row"
    by (simp add: servable_def store_eval host_eval cong: eval_cong)
  moreover have "cb_state (br_snapshot (sv_breaker server_queued)) = Closed"
    by (simp add: server_queued_def sample_breaker_def closed_snapshot_def)
  ultimately show ?thesis
    using due_task_is_served [OF reach_server, of 0 90 40 "Some (JObject [])"] row
    by (auto simp: server_queued_def sample_workers_def)
qed

definition open_server :: server where
  "open_server = \<lparr>sv_host = host_ready, sv_breaker = sample_open, sv_workers = [Asking], sv_shutdown = False\<rparr>"

lemma reach_open_server: "server_reachable sample_env sample_iam sample_workers open_server"
proof -
  have "circuit_breaker_new ''agent-runtime'' default_circuit_config (br_rows sample_open) = Inr sample_open"
    by (simp add: circuit_breaker_new_def load_circuit_def validate_key_def ascii_white_def sample_open_def
        sample_breaker_def store_snapshot_def save_circuit_def circuit_row_of_def closed_snapshot_def snapshot_of_row_def
        parse_circuit_def)
  moreover have "recover_expired_leases sample_env 25 host_ready = Inr (0, host_ready)"
    by (simp add: store_eval host_eval cong: eval_cong)
  then have "start_workers sample_env 25 1 host_ready sample_open = open_server"
    by (simp add: start_workers_def open_server_def)
  ultimately show ?thesis using R_started [OF reach_ready, of _ _ sample_open sample_workers 25 1] by simp
qed


end
