(* ===== verification/Memory_Store.thy ===== *)
theory Memory_Store
  imports Core_Identity
begin

text \<open>
  \<^verbatim>\<open>crates/shaka-memory/src/lib.rs\<close>: the memory of a tenant (episodes, consolidated knowledge, working
  memory with an expiry) and the audit trail, and the audit event of \<^verbatim>\<open>crates/shaka-core/src/lib.rs\<close>
  with the text its hash is computed from. Each function is one statement or one transaction.
\<close>

subsection \<open>Audit events\<close>

text \<open>Metadata is a \<open>BTreeMap\<close>: its entries in the order of their keys.\<close>

record audit_event =
  av_event_id :: uuid
  av_task_id :: "task_id option"
  av_tenant :: tenant_id
  av_actor :: string
  av_action :: string
  av_outcome :: string
  av_occurred_at :: instant
  av_metadata :: "(string \<times> string) list"
  av_previous_hash :: "string option"
  av_event_hash :: string

text \<open>What the crates take from their libraries here: SHA-256 of a text as hexadecimal digits, and the
  \<open>Display\<close> texts of a UUID and of a moment.\<close>

record memory_env =
  me_sha :: "string \<Rightarrow> string"
  me_uuid :: "uuid \<Rightarrow> string"
  me_time :: "instant \<Rightarrow> string"

text \<open>\<open>{:?}\<close> of a string: quotes, the backslash and control characters are escaped. A byte above ASCII
  stands for itself (which it does not in the few characters that Unicode does not print).\<close>

definition hex_digit :: "nat \<Rightarrow> char" where
  "hex_digit n = char_of (if n < 10 then 48 + n else 87 + n)"

definition debug_char :: "char \<Rightarrow> string" where
  "debug_char c =
     (let n = of_char c :: nat in
      if n = 34 then [char_of (92 :: nat), c]
      else if n = 92 then [c, c]
      else if n = 9 then [char_of (92 :: nat), CHR ''t'']
      else if n = 10 then [char_of (92 :: nat), CHR ''n'']
      else if n = 13 then [char_of (92 :: nat), CHR ''r'']
      else if n = 0 then [char_of (92 :: nat), CHR ''0'']
      else if n < 16 then [char_of (92 :: nat), CHR ''u'', CHR ''{'', hex_digit n, CHR ''}'']
      else if n < 32 \<or> n = 127 then
        [char_of (92 :: nat), CHR ''u'', CHR ''{'', hex_digit (n div 16), hex_digit (n mod 16), CHR ''}'']
      else [c])"

definition debug_string :: "string \<Rightarrow> string" where
  "debug_string s = CHR 0x22 # concat (map debug_char s) @ [CHR 0x22]"

fun debug_entries :: "(string \<times> string) list \<Rightarrow> string" where
  "debug_entries [] = []"
| "debug_entries [(k, v)] = debug_string k @ '': '' @ debug_string v"
| "debug_entries ((k, v) # m) = debug_string k @ '': '' @ debug_string v @ '', '' @ debug_entries m"

definition debug_map :: "(string \<times> string) list \<Rightarrow> string" where
  "debug_map m = ''{'' @ debug_entries m @ ''}''"

definition debug_option :: "string option \<Rightarrow> string" where
  "debug_option x = (case x of None \<Rightarrow> ''None'' | Some s \<Rightarrow> ''Some('' @ debug_string s @ '')'')"

definition canonical :: "memory_env \<Rightarrow> audit_event \<Rightarrow> string" where
  "canonical E e =
     me_uuid E (av_event_id e) @ ''|'' @ me_time E (av_occurred_at e) @ ''|'' @ av_actor e @ ''|''
     @ av_action e @ ''|'' @ av_outcome e @ ''|'' @ debug_map (av_metadata e) @ ''|''
     @ debug_option (av_previous_hash e)"

definition calculate_audit_hash :: "memory_env \<Rightarrow> audit_event \<Rightarrow> string" where
  "calculate_audit_hash E e = me_sha E (canonical E e)"

definition with_previous_hash :: "memory_env \<Rightarrow> string option \<Rightarrow> audit_event \<Rightarrow> audit_event" where
  "with_previous_hash E previous e =
     (let e = e\<lparr>av_previous_hash := previous\<rparr> in e\<lparr>av_event_hash := calculate_audit_hash E e\<rparr>)"

definition has_valid_hash :: "memory_env \<Rightarrow> audit_event \<Rightarrow> bool" where
  "has_valid_hash E e \<longleftrightarrow> av_event_hash e = calculate_audit_hash E e"

definition audit_event_new ::
    "memory_env \<Rightarrow> uuid \<Rightarrow> instant \<Rightarrow> task_id option \<Rightarrow> tenant_id \<Rightarrow> string \<Rightarrow> string \<Rightarrow> string \<Rightarrow>
     (string \<times> string) list \<Rightarrow> string option \<Rightarrow> audit_event" where
  "audit_event_new E event_id now task tenant actor action outcome metadata previous =
     (let e = \<lparr>av_event_id = event_id, av_task_id = task, av_tenant = tenant, av_actor = actor,
        av_action = action, av_outcome = outcome, av_occurred_at = now, av_metadata = metadata,
        av_previous_hash = previous, av_event_hash = []\<rparr>
      in e\<lparr>av_event_hash := calculate_audit_hash E e\<rparr>)"

subsection \<open>The tables\<close>

datatype memory_error =
  MSqlite | MDatabaseFull | MIo string | MSerialization | MNotFound string | MInvalidRetention string
| MInvalidRecord string | MInvalidDatabaseQuota u64 u64 | PayloadTooLarge string nat

record episode =
  ep_id :: uuid
  ep_tenant :: tenant_id
  ep_task_id :: "task_id option"
  ep_kind :: string
  ep_content :: string
  ep_outcome :: string
  ep_cost :: u64
  ep_elapsed_ms :: u64
  ep_created_at :: instant

record semantic =
  se_id :: uuid
  se_tenant :: tenant_id
  se_title :: string
  se_content :: string
  se_source_episode_id :: "uuid option"
  se_version :: u32
  se_created_at :: instant

record working_item =
  wi_key :: string
  wi_value :: string
  wi_expires_at :: instant

record working_row =
  wk_tenant :: tenant_id
  wk_task_id :: task_id
  wk_item :: working_item

record audit_row =
  ad_event_id :: uuid
  ad_tenant :: tenant_id
  ad_event_json :: audit_event
  ad_event_hash :: string

record memory =
  mm_episodes :: "episode list"
  mm_semantic :: "semantic list"
  mm_working :: "working_row list"
  mm_audit :: "audit_row list"
  mm_uuid_seed :: uuid

definition empty_memory :: memory where
  "empty_memory = \<lparr>mm_episodes = [], mm_semantic = [], mm_working = [], mm_audit = [], mm_uuid_seed = 1000\<rparr>"

definition unique_key :: "bool \<Rightarrow> memory_error + unit" where
  "unique_key b = ensure b MSqlite"

subsection \<open>Episodes\<close>

definition MAX_EPISODE_CONTENT_BYTES :: nat where
  "MAX_EPISODE_CONTENT_BYTES = 64 * 1024"

text \<open>A \<open>u64\<close> is bound to a 64-bit signed column; one that does not fit is an error of the driver.\<close>

definition append_episode :: "episode \<Rightarrow> memory \<Rightarrow> memory_error + memory" where
  "append_episode r m =
     (if length (ep_content r) > MAX_EPISODE_CONTENT_BYTES then
        Inl (PayloadTooLarge ''episodic_memory.content'' MAX_EPISODE_CONTENT_BYTES)
      else if unat (ep_cost r) \<ge> 2 ^ 63 \<or> unat (ep_elapsed_ms r) \<ge> 2 ^ 63 then Inl MSqlite
      else and_then (unique_key (\<not> list_ex (\<lambda>q. ep_id q = ep_id r) (mm_episodes m))) (\<lambda>_.
        Inr (m\<lparr>mm_episodes := mm_episodes m @ [r]\<rparr>)))"

text \<open>\<open>ORDER BY created_at DESC LIMIT ?\<close>.\<close>

definition recent_episodes :: "tenant_id \<Rightarrow> u32 \<Rightarrow> memory \<Rightarrow> episode list" where
  "recent_episodes tenant limit m =
     take (unat limit) (sort_key (\<lambda>r. - ep_created_at r) (filter (\<lambda>r. ep_tenant r = tenant) (mm_episodes m)))"

definition episode_not_found :: "memory_env \<Rightarrow> uuid \<Rightarrow> memory_error" where
  "episode_not_found E i = MNotFound (''episodio '' @ me_uuid E i)"

definition consolidate_episode ::
    "memory_env \<Rightarrow> instant \<Rightarrow> tenant_id \<Rightarrow> uuid \<Rightarrow> string \<Rightarrow> string \<Rightarrow> memory \<Rightarrow>
     memory_error + (semantic \<times> memory)" where
  "consolidate_episode E now tenant episode_id title content m =
     (if \<not> list_ex (\<lambda>r. ep_id r = episode_id \<and> ep_tenant r = tenant) (mm_episodes m) then
        Inl (episode_not_found E episode_id)
      else
        let i = mm_uuid_seed m;
            r = \<lparr>se_id = i, se_tenant = tenant, se_title = title, se_content = content,
              se_source_episode_id = Some episode_id, se_version = 1, se_created_at = now\<rparr>
        in and_then (unique_key (\<not> list_ex (\<lambda>q. se_id q = i) (mm_semantic m))) (\<lambda>_.
           Inr (r, m\<lparr>mm_semantic := mm_semantic m @ [r], mm_uuid_seed := Suc i\<rparr>)))"

definition purged :: "tenant_id \<Rightarrow> instant \<Rightarrow> episode \<Rightarrow> bool" where
  "purged tenant cutoff r \<longleftrightarrow> ep_tenant r = tenant \<and> ep_created_at r < cutoff"

definition purge_older_than ::
    "instant \<Rightarrow> tenant_id \<Rightarrow> int \<Rightarrow> memory \<Rightarrow> memory_error + (nat \<times> memory)" where
  "purge_older_than now tenant retention m =
     (if retention < 0 then Inl (MInvalidRetention ''o periodo deve ser zero ou positivo'')
      else
        let gone = purged tenant (now - retention)
        in Inr (count_where gone (mm_episodes m),
             m\<lparr>mm_episodes := filter (\<lambda>r. \<not> gone r) (mm_episodes m)\<rparr>))"

subsection \<open>Working memory\<close>

definition same_item :: "tenant_id \<Rightarrow> task_id \<Rightarrow> string \<Rightarrow> working_row \<Rightarrow> bool" where
  "same_item tenant task key r \<longleftrightarrow> wk_tenant r = tenant \<and> wk_task_id r = task \<and> wi_key (wk_item r) = key"

text \<open>\<open>INSERT ... ON CONFLICT DO UPDATE\<close>.\<close>

definition put_working :: "tenant_id \<Rightarrow> task_id \<Rightarrow> working_item \<Rightarrow> memory \<Rightarrow> memory" where
  "put_working tenant task item m =
     (let same = same_item tenant task (wi_key item) in
      m\<lparr>mm_working :=
        (if list_ex same (mm_working m) then update_where same (\<lambda>r. r\<lparr>wk_item := item\<rparr>) (mm_working m)
         else mm_working m @ [\<lparr>wk_tenant = tenant, wk_task_id = task, wk_item = item\<rparr>])\<rparr>)"

definition get_working :: "instant \<Rightarrow> tenant_id \<Rightarrow> task_id \<Rightarrow> string \<Rightarrow> memory \<Rightarrow> working_item option" where
  "get_working now tenant task key m =
     map_option wk_item
       (find (\<lambda>r. same_item tenant task key r \<and> now < wi_expires_at (wk_item r)) (mm_working m))"

subsection \<open>The audit trail\<close>

definition tenant_trail :: "tenant_id \<Rightarrow> memory \<Rightarrow> audit_row list" where
  "tenant_trail tenant m = filter (\<lambda>r. ad_tenant r = tenant) (mm_audit m)"

definition last_hash :: "audit_row list \<Rightarrow> string option" where
  "last_hash rs = (if rs = [] then None else Some (ad_event_hash (last rs)))"

definition append_audit_event :: "memory_env \<Rightarrow> audit_event \<Rightarrow> memory \<Rightarrow> memory_error + (audit_event \<times> memory)"
  where
  "append_audit_event E event m =
     (let chained = with_previous_hash E (last_hash (tenant_trail (av_tenant event) m)) event in
      and_then (unique_key (\<not> list_ex (\<lambda>r. ad_event_id r = av_event_id chained) (mm_audit m))) (\<lambda>_.
      Inr (chained, m\<lparr>mm_audit := mm_audit m @ [\<lparr>ad_event_id = av_event_id chained,
        ad_tenant = av_tenant chained, ad_event_json = chained, ad_event_hash = av_event_hash chained\<rparr>]\<rparr>)))"

record audit_verification =
  vf_valid :: bool
  vf_checked_events :: nat
  vf_failure_at :: "string option"

definition audit_broken :: "memory_env \<Rightarrow> tenant_id \<Rightarrow> string option \<Rightarrow> audit_row \<Rightarrow> bool" where
  "audit_broken E tenant previous r \<longleftrightarrow>
     (let event = ad_event_json r in
      av_tenant event \<noteq> tenant \<or> av_previous_hash event \<noteq> previous
      \<or> av_event_hash event \<noteq> ad_event_hash r \<or> \<not> has_valid_hash E event)"

fun verify_rows ::
    "memory_env \<Rightarrow> tenant_id \<Rightarrow> string option \<Rightarrow> nat \<Rightarrow> audit_row list \<Rightarrow> audit_verification" where
  "verify_rows E tenant previous checked [] =
     \<lparr>vf_valid = True, vf_checked_events = checked, vf_failure_at = None\<rparr>"
| "verify_rows E tenant previous checked (r # rs) =
     (if audit_broken E tenant previous r then
        \<lparr>vf_valid = False, vf_checked_events = checked,
         vf_failure_at = Some (me_uuid E (av_event_id (ad_event_json r)))\<rparr>
      else verify_rows E tenant (Some (av_event_hash (ad_event_json r))) (checked + 1) rs)"

definition verify_audit_chain :: "memory_env \<Rightarrow> tenant_id \<Rightarrow> memory \<Rightarrow> audit_verification" where
  "verify_audit_chain E tenant m = verify_rows E tenant None 0 (tenant_trail tenant m)"

end
