(* ===== verification/Memory_Facts.thy ===== *)
theory Memory_Facts
  imports Memory_Store Hash_Chain
begin

text \<open>
  What the memory store guarantees: the trail of a tenant verifies in every reachable state, two trails
  that verify and end in the same hash have the same hashed texts, and what the verification does not
  see; a value put into working memory is what is read back until it expires.
\<close>

subsection \<open>Operations in any order\<close>

inductive memory_step :: "memory_env \<Rightarrow> memory \<Rightarrow> memory \<Rightarrow> bool" for E :: memory_env where
  M_episode: "append_episode r m = Inr m' \<Longrightarrow> memory_step E m m'"
| M_consolidate: "consolidate_episode E now tenant i title content m = Inr (s, m') \<Longrightarrow> memory_step E m m'"
| M_purge: "purge_older_than now tenant retention m = Inr (n, m') \<Longrightarrow> memory_step E m m'"
| M_working: "memory_step E m (put_working tenant task item m)"
| M_audit: "append_audit_event E event m = Inr (chained, m') \<Longrightarrow> memory_step E m m'"

inductive memory_reachable :: "memory_env \<Rightarrow> memory \<Rightarrow> bool" for E :: memory_env where
  M_empty: "memory_reachable E empty_memory"
| M_step: "memory_reachable E m \<Longrightarrow> memory_step E m m' \<Longrightarrow> memory_reachable E m'"

subsection \<open>The trail\<close>

lemma verify_rows_append:
  "verify_rows E tenant prev n (rs @ [r]) =
     (let v = verify_rows E tenant prev n rs in
      if \<not> vf_valid v then v
      else verify_rows E tenant (if rs = [] then prev else Some (av_event_hash (ad_event_json (last rs))))
             (vf_checked_events v) [r])"
  by (induction rs arbitrary: prev n) (auto simp: Let_def)

definition trail_ok :: "memory_env \<Rightarrow> memory \<Rightarrow> bool" where
  "trail_ok E m \<longleftrightarrow> (\<forall>t. verify_audit_chain E t m =
     \<lparr>vf_valid = True, vf_checked_events = length (tenant_trail t m), vf_failure_at = None\<rparr>
     \<and> (\<forall>r \<in> set (tenant_trail t m). ad_event_hash r = av_event_hash (ad_event_json r)))"

lemma trail_ok_same: "mm_audit m' = mm_audit m \<Longrightarrow> trail_ok E m \<Longrightarrow> trail_ok E m'"
  by (simp add: trail_ok_def verify_audit_chain_def tenant_trail_def)

lemma trail_ok_append:
  assumes ok: "trail_ok E m" and run: "append_audit_event E event m = Inr (chained, m')"
  shows "trail_ok E m'"
proof -
  define t where "t = av_tenant event"
  from run have c: "chained = with_previous_hash E (last_hash (tenant_trail t m)) event"
    and m': "mm_audit m' = mm_audit m @ [\<lparr>ad_event_id = av_event_id chained,
        ad_tenant = av_tenant chained, ad_event_json = chained, ad_event_hash = av_event_hash chained\<rparr>]"
    by (auto simp: append_audit_event_def Let_def result_simps t_def)
  have fields: "av_tenant chained = t" "av_previous_hash chained = last_hash (tenant_trail t m)"
    "has_valid_hash E chained"
    by (simp_all add: c with_previous_hash_def has_valid_hash_def calculate_audit_hash_def canonical_def t_def)
  have other: "tenant_trail s m' = tenant_trail s m" if "s \<noteq> t" for s
    using that fields(1) by (simp add: tenant_trail_def m')
  have own: "tenant_trail t m' = tenant_trail t m @ [\<lparr>ad_event_id = av_event_id chained,
        ad_tenant = t, ad_event_json = chained, ad_event_hash = av_event_hash chained\<rparr>]"
    by (simp add: tenant_trail_def m' fields(1))
  have "verify_audit_chain E s m' =
     \<lparr>vf_valid = True, vf_checked_events = length (tenant_trail s m'), vf_failure_at = None\<rparr>
     \<and> (\<forall>r \<in> set (tenant_trail s m'). ad_event_hash r = av_event_hash (ad_event_json r))" for s
  proof (cases "s = t")
    case True
    from ok have v: "verify_rows E t None 0 (tenant_trail t m) =
        \<lparr>vf_valid = True, vf_checked_events = length (tenant_trail t m), vf_failure_at = None\<rparr>"
      and h: "\<forall>r \<in> set (tenant_trail t m). ad_event_hash r = av_event_hash (ad_event_json r)"
      by (simp_all add: trail_ok_def verify_audit_chain_def)
    have l: "last_hash (tenant_trail t m) =
        (if tenant_trail t m = [] then None else Some (av_event_hash (ad_event_json (last (tenant_trail t m)))))"
      using h by (simp add: last_hash_def)
    show ?thesis using h
      by (simp add: True verify_audit_chain_def own verify_rows_append v Let_def audit_broken_def fields l)
  next
    case False
    then show ?thesis using ok by (simp add: other verify_audit_chain_def trail_ok_def)
  qed
  then show ?thesis by (simp add: trail_ok_def)
qed

lemma memory_step_trail: "memory_step E m m' \<Longrightarrow> trail_ok E m \<Longrightarrow> trail_ok E m'"
proof (induction rule: memory_step.induct)
  case (M_audit event m chained m')
  then show ?case by (blast intro: trail_ok_append)
qed (auto intro: trail_ok_same simp: append_episode_def consolidate_episode_def purge_older_than_def
    put_working_def Let_def result_simps split: if_splits)

lemma reachable_trail: "memory_reachable E m \<Longrightarrow> trail_ok E m"
proof (induction rule: memory_reachable.induct)
  case M_empty
  then show ?case by (simp add: trail_ok_def verify_audit_chain_def tenant_trail_def empty_memory_def)
qed (blast intro: memory_step_trail)

text \<open>C9: whatever the operations of the store and their order, the verification of the audit trail of
  any tenant succeeds on all of its events: every event is linked to the one committed before it, and
  events of other tenants in between do not break a chain.\<close>

theorem audit_chain_stays_valid:
  assumes "memory_reachable E m"
  shows "verify_audit_chain E tenant m =
    \<lparr>vf_valid = True, vf_checked_events = length (tenant_trail tenant m), vf_failure_at = None\<rparr>"
  using reachable_trail [OF assms] by (simp add: trail_ok_def)

subsection \<open>What a hash seals\<close>

text \<open>What the verification relies on of the hash function: its value is a text of 64 lower-case
  hexadecimal digits.\<close>

definition hex_char :: "char \<Rightarrow> bool" where
  "hex_char c \<longleftrightarrow> (48 \<le> (of_char c :: nat) \<and> (of_char c :: nat) \<le> 57)
     \<or> (97 \<le> (of_char c :: nat) \<and> (of_char c :: nat) \<le> 102)"

definition sha_hex :: "string \<Rightarrow> bool" where
  "sha_hex s \<longleftrightarrow> length s = 64 \<and> list_all hex_char s"

definition hex_link :: "string option \<Rightarrow> bool" where
  "hex_link l = (case l of None \<Rightarrow> True | Some h \<Rightarrow> sha_hex h)"

definition row_sealed :: "memory_env \<Rightarrow> audit_row \<Rightarrow> bool" where
  "row_sealed E r \<longleftrightarrow> has_valid_hash E (ad_event_json r) \<and> hex_link (av_previous_hash (ad_event_json r))"

definition row_canonical :: "memory_env \<Rightarrow> audit_row \<Rightarrow> string" where
  "row_canonical E r = canonical E (ad_event_json r)"

lemma debug_hex: "list_all hex_char s \<Longrightarrow> debug_string s = CHR 0x22 # s @ [CHR 0x22]"
proof -
  have "debug_char c = [c]" if "hex_char c" for c
    using that by (auto simp: debug_char_def hex_char_def Let_def)
  then have "list_all hex_char s \<Longrightarrow> concat (map debug_char s) = s" by (induction s) simp_all
  then show "list_all hex_char s \<Longrightarrow> debug_string s = CHR 0x22 # s @ [CHR 0x22]"
    by (simp add: debug_string_def)
qed

text \<open>The last field of the hashed text: either \<open>None\<close> or the hash in quotes, so that the end of the
  text tells which hash it is.\<close>

lemma same_option_text:
  assumes same: "xs @ debug_option k = ys @ debug_option l" and k: "hex_link k" and l: "hex_link l"
  shows "k = l"
proof (cases k)
  case None
  show ?thesis
  proof (cases l)
    case (Some b)
    from arg_cong [OF same, of last] show ?thesis
      by (simp add: None Some debug_option_def)
  qed (simp add: None)
next
  case (Some a)
  then have a: "length a = 64" "list_all hex_char a" using k by (simp_all add: hex_link_def sha_hex_def)
  show ?thesis
  proof (cases l)
    case None
    from arg_cong [OF same, of last] show ?thesis
      by (simp add: None Some debug_option_def)
  next
    case b: (Some b)
    then have "length b = 64" "list_all hex_char b" using l by (simp_all add: hex_link_def sha_hex_def)
    with same a have "a = b" by (simp add: Some b debug_option_def debug_hex)
    then show ?thesis by (simp add: Some b)
  qed
qed

interpretation audit_chain: hash_chain "\<lambda>r. av_previous_hash (ad_event_json r)"
  "\<lambda>r. av_event_hash (ad_event_json r)" "me_sha E" "row_canonical E" "row_sealed E" for E
proof unfold_locales
  show "av_event_hash (ad_event_json r) = me_sha E (row_canonical E r)" if "row_sealed E r" for r
    using that by (simp add: row_sealed_def has_valid_hash_def calculate_audit_hash_def row_canonical_def)
  show "av_previous_hash (ad_event_json r) = av_previous_hash (ad_event_json q)"
    if "row_sealed E r" "row_sealed E q" "row_canonical E r = row_canonical E q" for r q
  proof (rule same_option_text)
    define front where "front e = me_uuid E (av_event_id e) @ ''|'' @ me_time E (av_occurred_at e) @ ''|''
      @ av_actor e @ ''|'' @ av_action e @ ''|'' @ av_outcome e @ ''|'' @ debug_map (av_metadata e) @ ''|''" for e :: audit_event
    have canonical: "canonical E e = front e @ debug_option (av_previous_hash e)" for e :: audit_event
      by (simp add: canonical_def front_def)
    show "front (ad_event_json r) @ debug_option (av_previous_hash (ad_event_json r)) =
        front (ad_event_json q) @ debug_option (av_previous_hash (ad_event_json q))"
      using that(3) unfolding row_canonical_def canonical .
  qed (use that in \<open>simp_all add: row_sealed_def\<close>)
qed

lemma verified_chained:
  assumes "vf_valid (verify_rows E tenant prev n rs)" and "hex_link prev"
    and "\<And>x. sha_hex (me_sha E x)"
  shows "audit_chain.chained E prev rs"
  using assms(1,2)
proof (induction rs arbitrary: prev n)
  case (Cons r rs)
  then have r: "av_previous_hash (ad_event_json r) = prev" "has_valid_hash E (ad_event_json r)"
    and rs: "vf_valid (verify_rows E tenant (Some (av_event_hash (ad_event_json r))) (n + 1) rs)"
    by (simp_all add: audit_broken_def Let_def split: if_splits)
  have "hex_link (Some (av_event_hash (ad_event_json r)))"
    using r(2) assms(3) by (simp add: hex_link_def has_valid_hash_def calculate_audit_hash_def)
  note rest = Cons.IH [OF rs this]
  have "row_sealed E r" using r Cons.prems(2) by (simp add: row_sealed_def)
  with rest show ?case by (simp add: r(1))
qed simp

definition texts :: "memory_env \<Rightarrow> tenant_id \<Rightarrow> memory \<Rightarrow> string list" where
  "texts E tenant m = map (row_canonical E) (tenant_trail tenant m)"

lemma last_hash_end:
  assumes "vf_valid (verify_audit_chain E tenant m)"
  shows "last_hash (tenant_trail tenant m) =
    (if tenant_trail tenant m = [] then None else Some (av_event_hash (ad_event_json (last (tenant_trail tenant m)))))"
proof -
  have "ad_event_hash r = av_event_hash (ad_event_json r)"
    if "vf_valid (verify_rows E tenant prev n rs)" "r \<in> set rs" for prev n rs r
    using that by (induction rs arbitrary: prev n) (auto simp: audit_broken_def Let_def split: if_splits)
  then show ?thesis using assms by (auto simp: last_hash_def verify_audit_chain_def)
qed

lemma trail_sealed:
  assumes valid: "vf_valid (verify_audit_chain E tenant m)" "vf_valid (verify_audit_chain E tenant m')"
    and last: "last_hash (tenant_trail tenant m) = last_hash (tenant_trail tenant m')"
    and hex: "\<And>x. sha_hex (me_sha E x)"
    and sha: "inj_on (me_sha E) (set (texts E tenant m) \<union> set (texts E tenant m'))"
  shows "texts E tenant m = texts E tenant m'"
proof -
  note chained = verified_chained [OF _ _ hex, where prev = None, unfolded hex_link_def, simplified]
  show ?thesis unfolding texts_def
  proof (rule audit_chain.same_end)
    show "audit_chain.chained E None (tenant_trail tenant m)"
      "audit_chain.chained E None (tenant_trail tenant m')"
      using valid by (auto intro: chained simp: verify_audit_chain_def)
    show "audit_chain.end_of None (tenant_trail tenant m) = audit_chain.end_of None (tenant_trail tenant m')"
      using last by (simp add: audit_chain.end_of_def last_hash_end [OF valid(1)] last_hash_end [OF valid(2)])
    show "inj_on (me_sha E) (row_canonical E ` (set (tenant_trail tenant m) \<union> set (tenant_trail tenant m')))"
      using sha by (simp add: texts_def image_Un)
  qed
qed

text \<open>Two databases whose verification succeeds for a tenant and whose last events have the same
  hash hold the same trail, as far as the hashed text of its events says: nothing was removed from it,
  inserted, reordered or rewritten there, unless SHA-256 collides on the texts.\<close>

theorem audit_trail_sealed:
  assumes "vf_valid (verify_audit_chain E tenant m)" "vf_valid (verify_audit_chain E tenant m')"
    and "last_hash (tenant_trail tenant m) = last_hash (tenant_trail tenant m')"
    and "\<And>x. sha_hex (me_sha E x)"
    and "inj_on (me_sha E) (set (texts E tenant m) \<union> set (texts E tenant m'))"
  shows "texts E tenant m = texts E tenant m'"
  using assms by (rule trail_sealed)

text \<open>The hashed text leaves out the task of an event, and joins the actor and the action with a
  separator that neither of them escapes.\<close>

definition reassign :: "(audit_event \<Rightarrow> task_id option \<times> string \<times> string) \<Rightarrow> audit_event \<Rightarrow> audit_event" where
  "reassign f e = (case f e of (task, actor, action) \<Rightarrow>
     e\<lparr>av_task_id := task, av_actor := actor, av_action := action\<rparr>)"

definition rewrite_trail :: "(audit_event \<Rightarrow> task_id option \<times> string \<times> string) \<Rightarrow> memory \<Rightarrow> memory" where
  "rewrite_trail f m = m\<lparr>mm_audit := map (\<lambda>r. r\<lparr>ad_event_json := reassign f (ad_event_json r)\<rparr>) (mm_audit m)\<rparr>"

lemma rewritten_trail:
  "tenant_trail t (rewrite_trail f m) =
     map (\<lambda>r. r\<lparr>ad_event_json := reassign f (ad_event_json r)\<rparr>) (tenant_trail t m)"
  by (simp add: tenant_trail_def rewrite_trail_def filter_map o_def)

lemma reassign_canonical:
  assumes "case f e of (task, actor, action) \<Rightarrow> actor @ ''|'' @ action = av_actor e @ ''|'' @ av_action e"
  shows "canonical E (reassign f e) = canonical E e"
proof -
  obtain task actor action where f: "f e = (task, actor, action)" by (cases "f e")
  with assms have same: "actor @ ''|'' @ action = av_actor e @ ''|'' @ av_action e" by simp
  have join: "actor @ CHR ''|'' # action @ xs = av_actor e @ CHR ''|'' # av_action e @ xs" for xs
    using arg_cong [OF same, of "\<lambda>y. y @ xs"] by simp
  show ?thesis by (simp add: canonical_def reassign_def f join)
qed

lemma rewrite_rows:
  assumes "\<And>e. canonical E (reassign f e) = canonical E e"
  shows "verify_rows E t prev n (map (\<lambda>r. r\<lparr>ad_event_json := reassign f (ad_event_json r)\<rparr>) rs) =
    verify_rows E t prev n rs"
proof -
  have kept: "av_tenant (reassign f e) = av_tenant e" "av_previous_hash (reassign f e) = av_previous_hash e"
    "av_event_hash (reassign f e) = av_event_hash e" "av_event_id (reassign f e) = av_event_id e" for e
    by (simp_all add: reassign_def split: prod.splits)
  have "audit_broken E t p (r\<lparr>ad_event_json := reassign f (ad_event_json r)\<rparr>) = audit_broken E t p r" for p r
    by (simp add: audit_broken_def Let_def kept has_valid_hash_def calculate_audit_hash_def assms)
  then show ?thesis by (induction rs arbitrary: prev n) (simp_all add: kept)
qed

text \<open>What the verification cannot see: whoever can write the table may assign every event to another
  task, and move the boundary between actor and action wherever the actor or the action contains the
  separator, and every tenant's chain verifies exactly as before.\<close>

theorem audit_rewrite_undetected:
  assumes "\<And>e. case f e of (task, actor, action) \<Rightarrow> actor @ ''|'' @ action = av_actor e @ ''|'' @ av_action e"
  shows "verify_audit_chain E tenant (rewrite_trail f m) = verify_audit_chain E tenant m"
  unfolding verify_audit_chain_def rewritten_trail by (rule rewrite_rows, rule reassign_canonical, rule assms)

subsection \<open>Working memory\<close>

lemma find_update_other:
  "(\<And>r. P r \<Longrightarrow> \<not> Q r \<and> \<not> Q (f r)) \<Longrightarrow> find Q (update_where P f rs) = find Q rs"
  by (induction rs) auto

lemma find_update_same:
  assumes "list_ex P rs" "\<And>r. P r \<Longrightarrow> P (f r)" "\<And>r. P r \<Longrightarrow> Q (f r) \<longleftrightarrow> b" "\<And>r. Q r \<Longrightarrow> P r"
    and "\<And>r. P r \<Longrightarrow> g (f r) = y"
  shows "map_option g (find Q (update_where P f rs)) = (if b then Some y else None)"
  using assms(1)
proof (induction rs)
  case (Cons r rs)
  show ?case
  proof (cases "list_ex P rs")
    case True
    then show ?thesis using Cons.IH assms(2-5) by (cases "P r") auto
  next
    case False
    then have "\<not> Q q" if "q \<in> set rs" for q using that assms(4) by (auto simp: list_ex_iff)
    then have "find Q rs = None" by (simp add: find_None_iff)
    moreover have "update_where P f rs = rs"
      using False by (simp add: update_where_def list_ex_iff map_idI)
    ultimately show ?thesis using Cons.prems False assms(2-5) by auto
  qed
qed simp

lemma working_roundtrip:
  "get_working now t k key (put_working t' k' item m) =
     (if t = t' \<and> k = k' \<and> key = wi_key item then if now < wi_expires_at item then Some item else None
      else get_working now t k key m)"
proof -
  define same where "same = same_item t' k' (wi_key item)"
  define Q where "Q = (\<lambda>r. same_item t k key r \<and> now < wi_expires_at (wk_item r))"
  have get: "get_working now t k key m = map_option wk_item (find Q (mm_working m))" for m
    by (simp add: get_working_def Q_def)
  show ?thesis
  proof (cases "t = t' \<and> k = k' \<and> key = wi_key item")
    case True
    show ?thesis
    proof (cases "list_ex same (mm_working m)")
      case some: True
      then have "map_option wk_item (find Q (update_where same (\<lambda>r. r\<lparr>wk_item := item\<rparr>) (mm_working m))) =
          (if now < wi_expires_at item then Some item else None)"
        using True by (intro find_update_same) (auto simp: same_def Q_def same_item_def)
      then show ?thesis using True some unfolding get by (simp add: put_working_def Let_def same_def)
    next
      case none: False
      then have "find Q (mm_working m) = None"
        using True by (auto simp: find_None_iff Q_def same_def list_ex_iff)
      then show ?thesis using True none unfolding get
        by (simp add: put_working_def Let_def same_def find_append Q_def same_item_def)
    qed
  next
    case False
    have "find Q (update_where same (\<lambda>r. r\<lparr>wk_item := item\<rparr>) rs) = find Q rs" for rs
      using False by (intro find_update_other) (auto simp: same_def Q_def same_item_def)
    moreover have "\<not> Q \<lparr>wk_tenant = t', wk_task_id = k', wk_item = item\<rparr>"
      using False by (auto simp: Q_def same_item_def)
    ultimately show ?thesis using False
      by (auto simp: get put_working_def Let_def same_def find_append split: option.split)
  qed
qed

text \<open>An item put into the working memory of a task is what a read of its key returns until it
  expires, and nothing after that, whatever the key held before; no other key, task or tenant sees a
  difference.\<close>

theorem working_memory_roundtrip:
  "get_working now t k key (put_working t' k' item m) =
     (if t = t' \<and> k = k' \<and> key = wi_key item then if now < wi_expires_at item then Some item else None
      else get_working now t k key m)"
  by (rule working_roundtrip)

end
