(* ===== verification/Memory_Examples.thy ===== *)
theory Memory_Examples
  imports Memory_Facts
begin

text \<open>
  The properties of the memory store on concrete databases: two events of one tenant with one of
  another, and a hash function that is collision free on their texts.
\<close>

definition toy_sha :: "string \<Rightarrow> string" where
  "toy_sha x = replicate 63 (CHR ''0'') @ [hex_digit (length x mod 16)]"

definition toy_memory_env :: memory_env where
  "toy_memory_env = \<lparr>me_sha = toy_sha, me_uuid = (\<lambda>n. replicate n (CHR ''u'')), me_time = (\<lambda>t. ''now'')\<rparr>"

lemma toy_sha_hex: "sha_hex (toy_sha x)"
proof -
  have "hex_char (hex_digit n)" if "n < 16" for n
    using that by (simp add: hex_char_def hex_digit_def)
  moreover have "hex_char (CHR ''0'')" by (simp add: hex_char_def)
  ultimately show ?thesis by (simp add: sha_hex_def toy_sha_def list_all_iff)
qed

definition toy_event :: "uuid \<Rightarrow> string \<Rightarrow> string \<Rightarrow> audit_event" where
  "toy_event i tenant action = audit_event_new toy_memory_env i 0 None (TenantId tenant) ''op|1'' action ''success'' [] None"

definition stored :: "uuid \<Rightarrow> string \<Rightarrow> string \<Rightarrow> memory \<Rightarrow> memory" where
  "stored i tenant action m =
     (case append_audit_event toy_memory_env (toy_event i tenant action) m of Inl _ \<Rightarrow> m | Inr (_, m') \<Rightarrow> m')"

definition toy_memory :: memory where
  "toy_memory = stored 2 ''a'' ''tool.execute'' (stored 1 ''a'' ''agent.run'' empty_memory)"

definition wider_memory :: memory where
  "wider_memory = stored 3 ''b'' ''agent.run'' toy_memory"

lemma stored_reachable:
  "memory_reachable toy_memory_env m \<Longrightarrow> memory_reachable toy_memory_env (stored i tenant action m)"
  unfolding stored_def by (auto split: sum.splits intro: M_step M_audit)

lemma toy_reachable: "memory_reachable toy_memory_env toy_memory" "memory_reachable toy_memory_env wider_memory"
  by (simp_all add: toy_memory_def wider_memory_def stored_reachable M_empty)

lemmas memory_eval = stored_def append_audit_event_def toy_event_def audit_event_new_def with_previous_hash_def
  calculate_audit_hash_def canonical_def toy_memory_env_def unique_key_def last_hash_def tenant_trail_def
  empty_memory_def Let_def

lemma toy_trails:
  "map (\<lambda>r. ad_event_id r) (tenant_trail (TenantId ''a'') toy_memory) = [1, 2]"
  "tenant_trail (TenantId ''a'') wider_memory = tenant_trail (TenantId ''a'') toy_memory"
  "tenant_trail (TenantId ''b'') wider_memory \<noteq> []"
  by (simp_all add: toy_memory_def wider_memory_def memory_eval ensure_def)

lemma toy_texts: "distinct (map toy_sha (texts toy_memory_env (TenantId ''a'') toy_memory))"
  by (simp add: texts_def row_canonical_def toy_memory_def memory_eval ensure_def toy_sha_def hex_digit_def
    debug_map_def debug_option_def debug_string_def debug_char_def)

theorem audit_chain_stays_valid_witness:
  "verify_audit_chain toy_memory_env (TenantId ''a'') wider_memory =
     \<lparr>vf_valid = True, vf_checked_events = 2, vf_failure_at = None\<rparr>"
proof -
  have "length (tenant_trail (TenantId ''a'') wider_memory) = 2"
    using arg_cong [OF toy_trails(1), of length] by (simp add: toy_trails(2))
  then show ?thesis by (simp add: audit_chain_stays_valid [OF toy_reachable(2)])
qed

theorem audit_trail_sealed_witness:
  "texts toy_memory_env (TenantId ''a'') toy_memory = texts toy_memory_env (TenantId ''a'') wider_memory"
proof (rule audit_trail_sealed)
  show "vf_valid (verify_audit_chain toy_memory_env (TenantId ''a'') toy_memory)"
    "vf_valid (verify_audit_chain toy_memory_env (TenantId ''a'') wider_memory)"
    using reachable_trail [OF toy_reachable(1)] reachable_trail [OF toy_reachable(2)]
    by (simp_all add: trail_ok_def)
  show "inj_on (me_sha toy_memory_env) (set (texts toy_memory_env (TenantId ''a'') toy_memory)
      \<union> set (texts toy_memory_env (TenantId ''a'') wider_memory))"
    using toy_texts unfolding distinct_map by (simp add: texts_def toy_trails(2) toy_memory_env_def)
qed (simp_all add: toy_trails(2) toy_sha_hex, simp add: toy_memory_env_def toy_sha_hex)

text \<open>The operator \<open>op|1\<close> who ran a tool becomes the operator \<open>op\<close>, for another task.\<close>

definition forge :: "audit_event \<Rightarrow> task_id option \<times> string \<times> string" where
  "forge e = (if av_actor e = ''op|1'' then (Some (TaskId 7), ''op'', ''1|'' @ av_action e)
     else (av_task_id e, av_actor e, av_action e))"

theorem audit_rewrite_undetected_witness:
  "verify_audit_chain toy_memory_env (TenantId ''a'') (rewrite_trail forge wider_memory) =
     verify_audit_chain toy_memory_env (TenantId ''a'') wider_memory
   \<and> rewrite_trail forge wider_memory \<noteq> wider_memory"
proof
  show "verify_audit_chain toy_memory_env (TenantId ''a'') (rewrite_trail forge wider_memory) =
      verify_audit_chain toy_memory_env (TenantId ''a'') wider_memory"
    by (rule audit_rewrite_undetected) (simp add: forge_def)
  show "rewrite_trail forge wider_memory \<noteq> wider_memory"
    by (simp add: rewrite_trail_def reassign_def forge_def toy_memory_def wider_memory_def memory_eval ensure_def)
qed

end
