(* ===== verification/Agent_Tools.thy ===== *)
theory Agent_Tools
  imports Worker_Loop Memory_Store
begin

text \<open>
  \<^verbatim>\<open>crates/shaka-orchestrator/src/lib.rs\<close>: the tools a model may propose, their registry, and the checks
  between a proposed call and its execution. Whatever a tool does is a function of the call.
\<close>

subsection \<open>Texts of errors\<close>

text \<open>\<open>Display\<close> of the errors of the core and of the memory crate; \<open>driver\<close> is what the database driver
  or the JSON library says of an error of its own.\<close>

fun capability_debug :: "capability \<Rightarrow> string" where
  "capability_debug Network = ''Network''"
| "capability_debug FilesystemRead = ''FilesystemRead''"
| "capability_debug FilesystemWrite = ''FilesystemWrite''"
| "capability_debug CodeExecution = ''CodeExecution''"
| "capability_debug ExternalMessaging = ''ExternalMessaging''"
| "capability_debug MemoryWrite = ''MemoryWrite''"

fun action_debug :: "action \<Rightarrow> string" where
  "action_debug RunReadOnly = ''RunReadOnly''"
| "action_debug RunExternal = ''RunExternal''"
| "action_debug CreateSkill = ''CreateSkill''"
| "action_debug ApproveSkill = ''ApproveSkill''"
| "action_debug RevokeSkill = ''RevokeSkill''"
| "action_debug Backup = ''Backup''"
| "action_debug Restore = ''Restore''"
| "action_debug VerifyAudit = ''VerifyAudit''"
| "action_debug PurgeMemory = ''PurgeMemory''"
| "action_debug ManageIam = ''ManageIam''"
| "action_debug ApprovePlan = ''ApprovePlan''"
| "action_debug ResumePlan = ''ResumePlan''"
| "action_debug ResolvePlanUnknown = ''ResolvePlanUnknown''"

fun core_error_text :: "core_error \<Rightarrow> string" where
  "core_error_text (InvalidIdentifier s) = ''identificador invalido: '' @ s"
| "core_error_text (InvalidInput s) = ''entrada invalida: '' @ s"
| "core_error_text (SchemaViolation tool message) =
     ''violacao de schema na ferramenta '' @ tool @ '': '' @ message"
| "core_error_text (CapabilityDenied c) = ''capacidade nao autorizada: '' @ capability_debug c"
| "core_error_text ApprovalRequired = ''operacao requer aprovacao explicita do operador''"
| "core_error_text (BudgetExceeded s) = ''orcamento excedido: '' @ s"
| "core_error_text (Unauthorized a) = ''principal nao autorizado para a acao: '' @ action_debug a"
| "core_error_text (PlanInvalid s) = ''plano invalido: '' @ s"
| "core_error_text (PlanApprovalInvalid s) = ''aprovacao de plano invalida: '' @ s"

fun memory_error_text :: "string \<Rightarrow> memory_error \<Rightarrow> string" where
  "memory_error_text driver MSqlite = ''erro SQLite: '' @ driver"
| "memory_error_text driver MDatabaseFull = ''banco SQLite atingiu o limite de armazenamento''"
| "memory_error_text driver (MIo s) = ''erro de filesystem: '' @ s"
| "memory_error_text driver MSerialization = ''erro de serializacao: '' @ driver"
| "memory_error_text driver (MNotFound s) = ''registro nao encontrado: '' @ s"
| "memory_error_text driver (MInvalidRetention s) = ''retencao invalida: '' @ s"
| "memory_error_text driver (MInvalidRecord s) = ''registro episodico invalido: '' @ s"
| "memory_error_text driver (MInvalidDatabaseQuota requested minimum) =
     ''quota SQLite invalida: requested_bytes='' @ show_nat (unat requested) @ '', minimum_bytes=''
     @ show_nat (unat minimum)"
| "memory_error_text driver (PayloadTooLarge field max_bytes) =
     ''campo '' @ field @ '' excede o limite de '' @ show_nat max_bytes @ '' bytes''"

definition core_failure :: "core_error \<Rightarrow> orchestrator_error" where
  "core_failure e = OCore (core_error_text e)"

subsection \<open>Tools\<close>

record tool_call =
  cl_task_id :: task_id
  cl_tool_name :: string
  cl_input :: json
  cl_requested_at :: instant

record tool_result =
  rs_tool_name :: string
  rs_output :: json
  rs_success :: bool
  rs_error_code :: "string option"

record tool =
  tl_definition :: tool_definition
  tl_execute :: "tool_call \<Rightarrow> orchestrator_error + json"

text \<open>\<open>Value::get\<close> and \<open>Value::as_str\<close>.\<close>

fun json_get :: "string \<Rightarrow> json \<Rightarrow> json option" where
  "json_get key (JObject members) = map_of members key"
| "json_get key _ = None"

fun json_str :: "json \<Rightarrow> string option" where
  "json_str (JString s) = Some s"
| "json_str _ = None"

definition string_schema :: json where
  "string_schema = JObject [(''type'', JString ''string'')]"

definition echo_tool :: tool where
  "echo_tool = \<lparr>
     tl_definition = \<lparr>td_name = ''echo'', td_description = ''Repete uma mensagem sem efeito colateral.'',
       td_input_schema = JObject [
         (''properties'', JObject [(''message'', string_schema)]),
         (''required'', JArray [JString ''message'']),
         (''type'', JString ''object'')],
       td_required_capabilities = [], td_side_effect = SideReadOnly\<rparr>,
     tl_execute = (\<lambda>call.
       and_then (ok_or (ToolExecution ''message ausente'')
         (Option.bind (json_get ''message'' (cl_input call)) json_str)) (\<lambda>message.
       Inr (JObject [(''message'', JString message)])))\<rparr>"

definition outbound_message_tool :: tool where
  "outbound_message_tool = \<lparr>
     tl_definition = \<lparr>td_name = ''send_message'',
       td_description = ''Envia mensagem externa; no MVP permanece em dry-run.'',
       td_input_schema = JObject [
         (''properties'', JObject [(''channel'', string_schema), (''message'', string_schema)]),
         (''required'', JArray [JString ''channel'', JString ''message'']),
         (''type'', JString ''object'')],
       td_required_capabilities = [ExternalMessaging], td_side_effect = SideExternalEffect\<rparr>,
     tl_execute = (\<lambda>call. Inr (JObject [(''input'', cl_input call), (''status'', JString ''not_configured'')]))\<rparr>"

subsection \<open>The registry\<close>

text \<open>A \<open>HashMap\<close> from names to tools, and the capabilities the host allows at all.\<close>

record tool_registry =
  rg_tools :: "(string \<times> tool) list"
  rg_capabilities :: capability_set

definition with_capabilities :: "capability_set \<Rightarrow> tool_registry" where
  "with_capabilities granted = \<lparr>rg_tools = [], rg_capabilities = granted\<rparr>"

text \<open>The first capability that is required and not granted, once \<open>allows\<close> has said that there is one.\<close>

definition denied_capability :: "capability_set \<Rightarrow> capability list \<Rightarrow> capability option" where
  "denied_capability granted required =
     (if capabilities_allow granted required then None else find (\<lambda>c. c \<notin> set granted) required)"

definition register_tool :: "tool \<Rightarrow> tool_registry \<Rightarrow> orchestrator_error + tool_registry" where
  "register_tool tool R =
     (case denied_capability (rg_capabilities R) (td_required_capabilities (tl_definition tool)) of
        Some c \<Rightarrow> Inl (core_failure (CapabilityDenied c))
      | None \<Rightarrow>
          let name = td_name (tl_definition tool) in
          Inr (R\<lparr>rg_tools := (name, tool) # filter (\<lambda>(n, _). n \<noteq> name) (rg_tools R)\<rparr>))"

definition definitions_for_scoped ::
    "tool_registry \<Rightarrow> capability_set \<Rightarrow> plan_execution_scope option \<Rightarrow> tool_definition list" where
  "definitions_for_scoped R granted scope =
     sort_key td_name
       (filter (\<lambda>d. case scope of None \<Rightarrow> True | Some s \<Rightarrow> allows_tool s d)
         (filter (\<lambda>d. capabilities_allow granted (td_required_capabilities d))
           (map (\<lambda>(_, tool). tl_definition tool) (rg_tools R))))"

subsection \<open>The checks of a call\<close>

text \<open>\<open>validator_for(schema)\<close> of the \<open>jsonschema\<close> crate is a parameter: an error for a schema that is not one,
  or the validation it stands for.\<close>

definition validate_input ::
    "(json \<Rightarrow> string + (json \<Rightarrow> string + unit)) \<Rightarrow> tool_definition \<Rightarrow> json \<Rightarrow> core_error + unit" where
  "validate_input validator_for d input =
     (case validator_for (td_input_schema d) of
        Inl e \<Rightarrow> Inl (SchemaViolation (td_name d) (''schema invalido: '' @ e))
      | Inr validate \<Rightarrow> map_err (SchemaViolation (td_name d)) (validate input))"

text \<open>\<open>execute_with_scope\<close> up to the schema: registered, within the scope of the step, granted, valid.\<close>

definition admit_call ::
    "(json \<Rightarrow> string + (json \<Rightarrow> string + unit)) \<Rightarrow> tool_registry \<Rightarrow> capability_set \<Rightarrow>
     plan_execution_scope option \<Rightarrow> string \<Rightarrow> json \<Rightarrow> orchestrator_error + tool" where
  "admit_call validator_for R granted scope name input =
     and_then (ok_or (ToolNotFound name) (map_of (rg_tools R) name)) (\<lambda>tool.
     let d = tl_definition tool in
     and_then (ensure (case scope of None \<Rightarrow> True | Some s \<Rightarrow> allows_tool s d) (PlanActionDenied name)) (\<lambda>_.
     case denied_capability granted (td_required_capabilities d) of
       Some c \<Rightarrow> Inl (core_failure (CapabilityDenied c))
     | None \<Rightarrow>
         and_then (map_err core_failure (validate_input validator_for d input)) (\<lambda>_. Inr tool)))"

lemma denied_iff: "denied_capability granted required = None \<longleftrightarrow> capabilities_allow granted required"
  by (auto simp: denied_capability_def capabilities_allow_def find_None_iff)

lemma allows_tool_iff: "allows_tool s d \<longleftrightarrow> sc_action s = ExecuteTool (td_name d)"
  by (cases "sc_action s") (auto simp: allows_tool_def)

text \<open>A tool is admitted exactly when every check passes.\<close>

lemma admit_call_Inr_iff:
  "admit_call validator_for R granted scope name input = Inr tool \<longleftrightarrow>
     map_of (rg_tools R) name = Some tool
     \<and> (\<forall>s. scope = Some s \<longrightarrow> allows_tool s (tl_definition tool))
     \<and> capabilities_allow granted (td_required_capabilities (tl_definition tool))
     \<and> validate_input validator_for (tl_definition tool) input = Inr ()"
  unfolding denied_iff [symmetric] admit_call_def Let_def
  by (cases "map_of (rg_tools R) name"; cases scope) (auto simp: result_simps split: option.splits)

end
