(* ===== verification/Agent_Facts.thy ===== *)
theory Agent_Facts
  imports Agent_Runtime Memory_Facts
begin

text \<open>
  What a run of the agent may do, whatever the model proposes and whenever it is interrupted: how often
  the model is asked and tools are called, which calls reach a tool, what is written about the run.
\<close>

subsection \<open>The trace of a run\<close>

definition call_admitted ::
    "agent_env \<Rightarrow> tool_registry \<Rightarrow> task_envelope \<Rightarrow> plan_execution_scope option \<Rightarrow> tool_call \<Rightarrow> bool" where
  "call_admitted E R envelope scope c \<longleftrightarrow>
     cl_task_id c = te_task_id envelope \<and>
     (\<exists>tool. admit_call (re_validator E) R (ctx_capabilities (te_context envelope)) scope
          (cl_tool_name c) (cl_input c) = Inr tool
        \<and> (te_dry_run envelope \<longrightarrow> td_side_effect (tl_definition tool) = SideReadOnly))"

text \<open>From \<open>s\<close> to \<open>s'\<close>, at most \<open>n\<close> requests to the model and at most \<open>m\<close> calls of tools, all admitted.\<close>

definition bounded_trace ::
    "(tool_call \<Rightarrow> bool) \<Rightarrow> nat \<Rightarrow> nat \<Rightarrow> agent \<Rightarrow> agent \<Rightarrow> bool" where
  "bounded_trace P n m s s' \<longleftrightarrow>
     (\<exists>qs cs. ag_requests s' = ag_requests s @ qs \<and> length qs \<le> n
        \<and> ag_handed s' = ag_handed s @ cs \<and> length cs \<le> m \<and> list_all P cs)"

lemma trace_refl:
  "ag_requests s' = ag_requests s \<Longrightarrow> ag_handed s' = ag_handed s \<Longrightarrow> bounded_trace P n m s s'"
  by (auto simp: bounded_trace_def)

lemma trace_weaken: "bounded_trace P n m s s' \<Longrightarrow> n \<le> n' \<Longrightarrow> m \<le> m' \<Longrightarrow> bounded_trace P n' m' s s'"
  unfolding bounded_trace_def by (meson le_trans)

lemma trace_trans:
  assumes "bounded_trace P n m s t" "bounded_trace P n' m' t u" "n + n' \<le> k" "m + m' \<le> l"
  shows "bounded_trace P k l s u"
proof -
  from assms(1) obtain qs cs where s: "ag_requests t = ag_requests s @ qs" "length qs \<le> n"
    "ag_handed t = ag_handed s @ cs" "length cs \<le> m" "list_all P cs"
    by (auto simp: bounded_trace_def)
  from assms(2) obtain qs' cs' where t: "ag_requests u = ag_requests t @ qs'" "length qs' \<le> n'"
    "ag_handed u = ag_handed t @ cs'" "length cs' \<le> m'" "list_all P cs'"
    by (auto simp: bounded_trace_def)
  have "ag_requests u = ag_requests s @ (qs @ qs') \<and> length (qs @ qs') \<le> k
      \<and> ag_handed u = ag_handed s @ (cs @ cs') \<and> length (cs @ cs') \<le> l \<and> list_all P (cs @ cs')"
    using s t assms(3,4) by simp
  then show ?thesis unfolding bounded_trace_def by blast
qed

text \<open>The record of a run leaves the trace alone.\<close>

named_theorems quiet \<open>what the operations on the memory store do to the trace\<close>

lemma ticked_quiet [simp]: "ag_requests (ticked s) = ag_requests s" "ag_handed (ticked s) = ag_handed s"
  "ag_memory (ticked s) = ag_memory s" "ag_tick (ticked s) = Suc (ag_tick s)"
  by (simp_all add: ticked_def)

lemma save_quiet [quiet]:
  "ag_requests (snd (save_episode E r s)) = ag_requests s" "ag_handed (snd (save_episode E r s)) = ag_handed s"
  "ag_requests (snd (save_audit E a s)) = ag_requests s" "ag_handed (snd (save_audit E a s)) = ag_handed s"
  by (auto simp: save_episode_def save_audit_def split: option.splits sum.splits)

lemma record_run_quiet [quiet]:
  "ag_requests (snd (record_run E envelope content outcome cost metadata s)) = ag_requests s"
  "ag_handed (snd (record_run E envelope content outcome cost metadata s)) = ag_handed s"
  unfolding record_run_def Let_def
  by (simp_all add: quiet split_def split: sum.splits)

lemma end_quiet [quiet]:
  "ag_requests (snd (fail_run E envelope error s)) = ag_requests s"
  "ag_handed (snd (fail_run E envelope error s)) = ag_handed s"
  "ag_requests (snd (cancel_run E envelope s)) = ag_requests s"
  "ag_handed (snd (cancel_run E envelope s)) = ag_handed s"
  by (simp_all add: fail_run_def cancel_run_def record_run_failure_def record_run_cancelled_def quiet Let_def)

lemma record_call_quiet [quiet]:
  "ag_requests (snd (record_call E envelope r s)) = ag_requests s"
  "ag_handed (snd (record_call E envelope r s)) = ag_handed s"
  unfolding record_call_def Let_def by (simp_all add: quiet split_def split: sum.splits)

lemma finish_run_quiet [quiet]:
  "ag_requests (snd (finish_run E envelope content l s)) = ag_requests s"
  "ag_handed (snd (finish_run E envelope content l s)) = ag_handed s"
  unfolding finish_run_def Let_def by (simp_all add: quiet split_def split: sum.splits)

lemma execute_trace:
  "bounded_trace (call_admitted E R envelope scope) 0 1 s (snd (execute_with_scope E R envelope scope name input s))"
  unfolding execute_with_scope_def Let_def
  by (auto simp: bounded_trace_def call_admitted_def split: sum.splits option.splits)

lemma trace_ticked [simp]: "bounded_trace P n m (ticked s) s' = bounded_trace P n m s s'"
  by (simp add: bounded_trace_def)

lemma trace_quiet [simp]:
  "bounded_trace P n m s (ticked u) = bounded_trace P n m s u"
  "bounded_trace P n m s (snd (fail_run E envelope error u)) = bounded_trace P n m s u"
  "bounded_trace P n m s (snd (cancel_run E envelope u)) = bounded_trace P n m s u"
  "bounded_trace P n m s (snd (record_call E envelope r u)) = bounded_trace P n m s u"
  "bounded_trace P n m s (snd (finish_run E envelope content l u)) = bounded_trace P n m s u"
  by (simp_all add: bounded_trace_def quiet)

lemma trace_same [simp]: "bounded_trace P n m s s"
  by (simp add: trace_refl)

lemma run_call_trace:
  "bounded_trace (call_admitted E R envelope scope) 0 1 s (snd (run_call E R envelope scope c s))"
proof -
  obtain a s1 where x: "execute_with_scope E R envelope scope (mc_tool_name c) (mc_arguments c)
      (ticked (ticked (ticked s))) = (a, s1)"
    by fastforce
  have t: "bounded_trace (call_admitted E R envelope scope) 0 1 s s1"
    using execute_trace [of E R envelope scope "ticked (ticked (ticked s))" "mc_tool_name c" "mc_arguments c"]
    by (simp add: x)
  then show ?thesis unfolding run_call_def Let_def x
    by (simp split: awaited.splits interruption.splits sum.splits)
qed

lemma run_calls_trace:
  "bounded_trace (call_admitted E R envelope scope) 0 (length cs) s (snd (run_calls E R envelope scope cs s))"
proof (induction cs arbitrary: s)
  case (Cons c cs)
  obtain r s1 where one: "run_call E R envelope scope c s = (r, s1)" by fastforce
  obtain rs s2 where rest: "run_calls E R envelope scope cs s1 = (rs, s2)" by fastforce
  have t1: "bounded_trace (call_admitted E R envelope scope) 0 1 s s1"
    using run_call_trace [of E R envelope scope s c] by (simp add: one)
  have t2: "bounded_trace (call_admitted E R envelope scope) 0 (length cs) s1 s2"
    using Cons.IH [of s1] by (simp add: rest)
  have "bounded_trace (call_admitted E R envelope scope) 0 (length (c # cs)) s s1"
    using t1 by (rule trace_weaken) simp_all
  moreover have "bounded_trace (call_admitted E R envelope scope) 0 (length (c # cs)) s s2"
    using t1 t2 by (rule trace_trans) simp_all
  ultimately show ?case by (simp add: one rest split: sum.split)
qed (simp add: trace_refl)

lemma run_calls_length: "run_calls E R envelope scope cs s = (Inr rs, s') \<Longrightarrow> length rs = length cs"
  by (induction cs arbitrary: s rs s') (auto split: prod.splits sum.splits)

lemma call_count_bound: "unat (call_count r) = min (length (mr_tool_calls r)) (2 ^ 32 - 1)"
  by (auto simp: call_count_def Let_def unat_of_nat unsigned_minus_1_eq_mask mask_eq_exp_minus_1)

text \<open>The counter of calls bounds the calls that are made, as long as it does not saturate, which the
  limit of the host keeps it from.\<close>

lemma take_response_trace:
  assumes limit: "unat (max_tool_calls (te_budget envelope)) \<le> 512"
    and run: "take_response E R envelope scope response l s = (result, s')"
  shows "bounded_trace (call_admitted E R envelope scope) 0
      (unat (max_tool_calls (te_budget envelope)) - unat (lp_tool_call_count l)) s s'" (is ?budget)
    and "result = Inr (Again l') \<Longrightarrow> bounded_trace (call_admitted E R envelope scope) 0
      (unat (lp_tool_call_count l') - unat (lp_tool_call_count l)) s s'
      \<and> unat (lp_tool_call_count l) \<le> unat (lp_tool_call_count l')
      \<and> unat (lp_tool_call_count l') \<le> unat (max_tool_calls (te_budget envelope))" (is "_ \<Longrightarrow> ?again")
proof -
  define count where "count = saturating_add (lp_tool_call_count l) (call_count response)"
  define n where "n = length (mr_tool_calls response)"
  have count: "unat count = min (unat (lp_tool_call_count l) + min n (2 ^ 32 - 1)) (2 ^ 32 - 1)"
    by (simp add: count_def saturating_add_unat call_count_bound n_def)
  obtain a s1 where calls: "run_calls E R envelope scope (mr_tool_calls response) s = (a, s1)" by fastforce
  have t: "bounded_trace (call_admitted E R envelope scope) 0 n s s1"
    using run_calls_trace [of E R envelope scope "mr_tool_calls response" s] by (simp add: calls n_def)
  show ?budget
  proof (cases "count > max_tool_calls (te_budget envelope)")
    case True
    then have "bounded_trace (call_admitted E R envelope scope) 0 k s (snd (take_response E R envelope scope response l s))"
      for k by (simp add: take_response_def Let_def count_def)
    then show ?thesis by (simp add: run)
  next
    case False
    then have "unat count \<le> unat (max_tool_calls (te_budget envelope))" by (simp add: not_less word_le_nat_alt)
    with limit count have "n \<le> unat (max_tool_calls (te_budget envelope)) - unat (lp_tool_call_count l)"
      by (auto simp: min_def split: if_splits)
    with t have "bounded_trace (call_admitted E R envelope scope) 0
        (unat (max_tool_calls (te_budget envelope)) - unat (lp_tool_call_count l)) s s1"
      by (auto intro: trace_weaken)
    with False have "bounded_trace (call_admitted E R envelope scope) 0
        (unat (max_tool_calls (te_budget envelope)) - unat (lp_tool_call_count l)) s
        (snd (take_response E R envelope scope response l s))"
      by (simp add: take_response_def Let_def count_def calls split: sum.splits)
    then show ?thesis by (simp add: run)
  qed
  show ?again if "result = Inr (Again l')"
  proof -
    from run that have ok: "\<not> count > max_tool_calls (te_budget envelope)" "lp_tool_call_count l' = count"
      "s1 = s'"
      by (auto simp: take_response_def Let_def count_def fail_run_def calls split: if_splits sum.splits)
    then have "unat count \<le> unat (max_tool_calls (te_budget envelope))" by (simp add: not_less word_le_nat_alt)
    with limit count have "n \<le> unat count - unat (lp_tool_call_count l)" "unat (lp_tool_call_count l) \<le> unat count"
      by (auto simp: min_def split: if_splits)
    with t ok \<open>unat count \<le> _\<close> show ?thesis by (auto intro: trace_weaken)
  qed
qed

lemma take_turn_trace:
  assumes limit: "unat (max_tool_calls (te_budget envelope)) \<le> 512"
    and run: "take_turn E R envelope scope l s = (result, s')"
  shows "bounded_trace (call_admitted E R envelope scope)
      (unat (max_steps (te_budget envelope)) - unat (lp_step_count l))
      (unat (max_tool_calls (te_budget envelope)) - unat (lp_tool_call_count l)) s s'" (is ?budget)
    and "result = Inr (Again l') \<Longrightarrow> bounded_trace (call_admitted E R envelope scope) 1
      (unat (lp_tool_call_count l') - unat (lp_tool_call_count l)) s s'
      \<and> unat (lp_tool_call_count l) \<le> unat (lp_tool_call_count l')
      \<and> unat (lp_tool_call_count l') \<le> unat (max_tool_calls (te_budget envelope))" (is "_ \<Longrightarrow> ?again")
proof -
  define request where "request = model_request_of E R envelope scope l"
  obtain a s1 where ask: "ask_model E request (ticked (ticked s)) = (a, s1)" by fastforce
  have asked: "bounded_trace (call_admitted E R envelope scope) 1 0 s s1"
    using ask by (auto simp: ask_model_def Let_def bounded_trace_def split: option.splits)
  have turn: "take_turn E R envelope scope l s =
    (if re_cancelled E (ag_tick s) then cancel_run E envelope (ticked s)
     else if lp_step_count l \<ge> max_steps (te_budget envelope) then
       fail_run E envelope (core_failure (BudgetExceeded ''max_steps'')) (ticked s)
     else if remaining_ms E envelope (ticked s) = 0 then fail_run E envelope DeadlineExceeded (ticked (ticked s))
     else case a of
         Cut ByCancel \<Rightarrow> cancel_run E envelope s1
       | Cut ByDeadline \<Rightarrow> fail_run E envelope DeadlineExceeded s1
       | Ready (Inl e) \<Rightarrow> fail_run E envelope e s1
       | Ready (Inr response) \<Rightarrow> take_response E R envelope scope response l s1)"
    unfolding take_turn_def Let_def request_def [symmetric] ask
    by (simp split: awaited.split interruption.split sum.split)
  show ?budget
  proof (cases "lp_step_count l \<ge> max_steps (te_budget envelope)")
    case True
    then have "bounded_trace (call_admitted E R envelope scope) n m s (snd (take_turn E R envelope scope l s))" for n m
      by (simp add: turn)
    then show ?thesis by (simp add: run)
  next
    case False
    then have one: "1 \<le> unat (max_steps (te_budget envelope)) - unat (lp_step_count l)"
      by (simp add: not_le word_less_nat_alt)
    have asked': "bounded_trace (call_admitted E R envelope scope)
      (unat (max_steps (te_budget envelope)) - unat (lp_step_count l))
      (unat (max_tool_calls (te_budget envelope)) - unat (lp_tool_call_count l)) s s1"
      using asked by (rule trace_weaken) (use one in simp_all)
    have response: "bounded_trace (call_admitted E R envelope scope)
      (unat (max_steps (te_budget envelope)) - unat (lp_step_count l))
      (unat (max_tool_calls (te_budget envelope)) - unat (lp_tool_call_count l)) s
      (snd (take_response E R envelope scope response l s1))" for response
      by (rule trace_trans [OF asked take_response_trace(1) [OF limit prod.collapse [symmetric]]])
        (use one in simp_all)
    have "bounded_trace (call_admitted E R envelope scope)
      (unat (max_steps (te_budget envelope)) - unat (lp_step_count l))
      (unat (max_tool_calls (te_budget envelope)) - unat (lp_tool_call_count l)) s
      (snd (take_turn E R envelope scope l s))"
      unfolding turn using asked' response
      by (simp split: awaited.splits interruption.splits sum.splits)
    then show ?thesis by (simp add: run)
  qed
  show ?again if again: "result = Inr (Again l')"
  proof -
    from run again obtain response where r: "take_response E R envelope scope response l s1 = (Inr (Again l'), s')"
      unfolding turn
      by (auto simp: fail_run_def cancel_run_def split: if_splits awaited.splits interruption.splits sum.splits)
    note t = take_response_trace(2) [OF limit r refl]
    then have "bounded_trace (call_admitted E R envelope scope) 1
        (unat (lp_tool_call_count l') - unat (lp_tool_call_count l)) s s'"
      by (intro trace_trans [OF asked]) auto
    with t show ?thesis by blast
  qed
qed

lemma agent_loop_trace:
  assumes limit: "unat (max_tool_calls (te_budget envelope)) \<le> 512"
  shows "bounded_trace (call_admitted E R envelope scope)
      (unat (max_steps (te_budget envelope)) - unat (lp_step_count l))
      (unat (max_tool_calls (te_budget envelope)) - unat (lp_tool_call_count l)) s
      (snd (agent_loop E R envelope scope l s))"
  using limit
proof (induction E R envelope scope l s rule: agent_loop.induct)
  case (1 E R envelope scope l s)
  obtain result s' where turn: "take_turn E R envelope scope l s = (result, s')" by fastforce
  note here = take_turn_trace(1) [OF 1(2) turn]
  show ?case
  proof (cases "\<exists>l'. result = Inr (Again l')")
    case True
    then obtain l' where again: "result = Inr (Again l')" ..
    note turn' = turn [unfolded again]
    have rest: "bounded_trace (call_admitted E R envelope scope)
      (unat (max_steps (te_budget envelope)) - unat (lp_step_count l'))
      (unat (max_tool_calls (te_budget envelope)) - unat (lp_tool_call_count l')) s'
      (snd (agent_loop E R envelope scope l' s'))"
      using 1(1) [OF turn' [symmetric] refl refl] 1(2) by blast
    note step = take_turn_trace(2) [OF 1(2) turn' refl] and counts = take_turn_counts [OF turn']
    have "bounded_trace (call_admitted E R envelope scope)
      (unat (max_steps (te_budget envelope)) - unat (lp_step_count l))
      (unat (max_tool_calls (te_budget envelope)) - unat (lp_tool_call_count l)) s
      (snd (agent_loop E R envelope scope l' s'))"
      using step by (intro trace_trans [OF _ rest]) (use counts in auto)
    then show ?thesis by (subst agent_loop.simps) (simp add: turn again)
  next
    case False
    then show ?thesis using here
      by (subst agent_loop.simps) (auto simp: turn split: sum.split turn.split)
  qed
qed

lemma run_trace:
  assumes "run_with_cancellation_and_scope E R envelope scope s = (result, s')"
  shows "bounded_trace (call_admitted E R envelope scope) (unat (max_steps (te_budget envelope)))
      (unat (max_tool_calls (te_budget envelope))) s s'"
    and "validate_budget (te_budget envelope) = Inl e \<Longrightarrow>
      result = Inl (core_failure e) \<and> bounded_trace (call_admitted E R envelope scope) 0 0 s s'"
proof -
  have loop: "bounded_trace (call_admitted E R envelope scope) (unat (max_steps (te_budget envelope)))
      (unat (max_tool_calls (te_budget envelope))) s (snd (agent_loop E R envelope scope start_loop s))"
    if "validate_budget (te_budget envelope) = Inr ()"
  proof -
    from that have "unat (max_tool_calls (te_budget envelope)) \<le> 512"
      by (simp add: validate_budget_def budget_limits word_le_nat_alt not_less split: if_splits)
    from agent_loop_trace [OF this, of E R scope start_loop s] show ?thesis by (simp add: start_loop_def)
  qed
  obtain r u where l: "agent_loop E R envelope scope start_loop s = (r, u)" by fastforce
  have "bounded_trace (call_admitted E R envelope scope) (unat (max_steps (te_budget envelope)))
      (unat (max_tool_calls (te_budget envelope))) s (snd (run_with_cancellation_and_scope E R envelope scope s))"
    unfolding run_with_cancellation_and_scope_def using loop
    by (auto simp: l split: sum.split)
  then show "bounded_trace (call_admitted E R envelope scope) (unat (max_steps (te_budget envelope)))
      (unat (max_tool_calls (te_budget envelope))) s s'" by (simp add: assms)
  show "result = Inl (core_failure e) \<and> bounded_trace (call_admitted E R envelope scope) 0 0 s s'"
    if "validate_budget (te_budget envelope) = Inl e"
  proof
    have run: "run_with_cancellation_and_scope E R envelope scope s = fail_run E envelope (core_failure e) s"
      by (simp add: run_with_cancellation_and_scope_def that)
    show "result = Inl (core_failure e)" using assms by (simp add: run fail_run_def)
    have "bounded_trace (call_admitted E R envelope scope) 0 0 s (snd (run_with_cancellation_and_scope E R envelope scope s))"
      by (simp add: run)
    then show "bounded_trace (call_admitted E R envelope scope) 0 0 s s'" by (simp add: assms)
  qed
qed

subsection \<open>Limits, grants and refusals\<close>

text \<open>C10: every run ends: whatever the model proposes, it is asked at most \<open>max_steps\<close> times and at most
  \<open>max_tool_calls\<close> calls are handed to tools; with a budget that does not validate, the run ends at once
  with the error of the validation, and neither the model nor a tool is called.\<close>

theorem run_within_budget:
  assumes "run_with_cancellation_and_scope E R envelope scope s = (result, s')"
  shows "length (ag_requests s') \<le> length (ag_requests s) + unat (max_steps (te_budget envelope))
    \<and> length (ag_handed s') \<le> length (ag_handed s) + unat (max_tool_calls (te_budget envelope))
    \<and> (\<forall>e. validate_budget (te_budget envelope) = Inl e \<longrightarrow>
        result = Inl (core_failure e) \<and> ag_requests s' = ag_requests s \<and> ag_handed s' = ag_handed s)"
proof (intro conjI allI impI)
  show "length (ag_requests s') \<le> length (ag_requests s) + unat (max_steps (te_budget envelope))"
    "length (ag_handed s') \<le> length (ag_handed s) + unat (max_tool_calls (te_budget envelope))"
    using run_trace(1) [OF assms] by (auto simp: bounded_trace_def)
  show "result = Inl (core_failure e)" "ag_requests s' = ag_requests s" "ag_handed s' = ag_handed s"
    if "validate_budget (te_budget envelope) = Inl e" for e
    using run_trace(2) [OF assms that] by (auto simp: bounded_trace_def)
qed

text \<open>C11: a call reaches a tool only if the tool is registered under the name the model gave, the scope of
  the step names exactly that tool, every capability it requires was granted to the task, the input is
  valid under its schema, and, in a dry run, the tool only reads.\<close>

theorem only_admitted_calls_run:
  assumes "run_with_cancellation_and_scope E R envelope scope s = (result, s')"
    and "c \<in> set (drop (length (ag_handed s)) (ag_handed s'))"
  shows "\<exists>tool. map_of (rg_tools R) (cl_tool_name c) = Some tool
    \<and> (\<forall>sc. scope = Some sc \<longrightarrow> sc_action sc = ExecuteTool (td_name (tl_definition tool)))
    \<and> set (td_required_capabilities (tl_definition tool)) \<subseteq> set (ctx_capabilities (te_context envelope))
    \<and> validate_input (re_validator E) (tl_definition tool) (cl_input c) = Inr ()
    \<and> (te_dry_run envelope \<longrightarrow> td_side_effect (tl_definition tool) = SideReadOnly)
    \<and> cl_task_id c = te_task_id envelope"
proof -
  from run_trace(1) [OF assms(1)] assms(2) have "call_admitted E R envelope scope c"
    by (auto simp: bounded_trace_def list_all_iff)
  then show ?thesis
    unfolding call_admitted_def admit_call_Inr_iff capabilities_allow_def allows_tool_iff by blast
qed


end
