(* ===== verification/Agent_Record.thy ===== *)
theory Agent_Record
  imports Agent_Facts
begin

text \<open>
  What a run leaves in the memory store and what it returns: whatever invariant the two writes of the
  store keep, a run keeps; a run that is not disturbed by the disk leaves one episode and one entry of
  the audit trail, and one entry for each call; what is returned is redacted and bounded.
\<close>

subsection \<open>Invariants of the store\<close>

locale store_invariant =
  fixes E :: agent_env and Q :: "memory \<Rightarrow> bool"
  assumes keeps_episode: "append_episode r m = Inr m' \<Longrightarrow> Q m \<Longrightarrow> Q m'"
    and keeps_audit: "append_audit_event (re_memory E) event m = Inr (chained, m') \<Longrightarrow> Q m \<Longrightarrow> Q m'"
begin

definition holds :: "agent \<Rightarrow> bool" where
  "holds s \<longleftrightarrow> Q (ag_memory s)"

lemma holds_ticked [simp]: "holds (ticked s) = holds s"
  by (simp add: holds_def)

lemma saves: "holds s \<Longrightarrow> holds (snd (save_episode E r s))" "holds s \<Longrightarrow> holds (snd (save_audit E a s))"
  by (auto simp: holds_def save_episode_def save_audit_def keeps_episode keeps_audit split: option.splits sum.splits)

lemma record_run_holds: "holds s \<Longrightarrow> holds (snd (record_run E envelope content outcome cost metadata s))"
  unfolding record_run_def Let_def by (simp add: saves split_def split: sum.splits)

lemma end_holds: "holds s \<Longrightarrow> holds (snd (fail_run E envelope error s))"
  "holds s \<Longrightarrow> holds (snd (cancel_run E envelope s))"
  by (simp_all add: fail_run_def cancel_run_def record_run_failure_def record_run_cancelled_def record_run_holds Let_def)

lemma record_call_holds: "holds s \<Longrightarrow> holds (snd (record_call E envelope r s))"
  unfolding record_call_def Let_def by (simp add: saves split_def split: sum.splits)

lemma finish_run_holds: "holds s \<Longrightarrow> holds (snd (finish_run E envelope content l s))"
  unfolding finish_run_def Let_def by (simp add: saves split_def split: sum.splits)

lemma execute_holds: "holds s \<Longrightarrow> holds (snd (execute_with_scope E R envelope scope name input s))"
  unfolding execute_with_scope_def Let_def by (simp add: holds_def split: sum.splits option.splits)

lemma ask_model_holds: "holds s \<Longrightarrow> holds (snd (ask_model E request s))"
  unfolding ask_model_def Let_def by (simp add: holds_def split: option.splits)

lemma run_call_holds:
  assumes "holds s"
  shows "holds (snd (run_call E R envelope scope c s))"
proof -
  obtain a s1 where x: "execute_with_scope E R envelope scope (mc_tool_name c) (mc_arguments c)
      (ticked (ticked (ticked s))) = (a, s1)"
    by fastforce
  have "holds s1"
    using execute_holds [of "ticked (ticked (ticked s))" R envelope scope "mc_tool_name c" "mc_arguments c"] assms
    by (simp add: x)
  with assms show ?thesis unfolding run_call_def Let_def x
    by (simp add: end_holds record_call_holds split: awaited.splits interruption.splits sum.splits)
qed

lemma run_calls_holds: "holds s \<Longrightarrow> holds (snd (run_calls E R envelope scope cs s))"
proof (induction cs arbitrary: s)
  case (Cons c cs)
  obtain r s1 where one: "run_call E R envelope scope c s = (r, s1)" by fastforce
  then have "holds s1" using run_call_holds [OF Cons.prems, of R envelope scope c] by simp
  with Cons.IH [of s1] show ?case by (simp add: one split_def split: sum.split)
qed simp

lemma take_response_holds: "holds s \<Longrightarrow> holds (snd (take_response E R envelope scope response l s))"
  using run_calls_holds [of s R envelope scope "mr_tool_calls response"]
  by (simp add: take_response_def Let_def end_holds split_def split: sum.split)

lemma take_turn_holds: "holds s \<Longrightarrow> holds (snd (take_turn E R envelope scope l s))"
proof -
  assume s: "holds s"
  define request where "request = model_request_of E R envelope scope l"
  obtain a s1 where ask: "ask_model E request (ticked (ticked s)) = (a, s1)" by fastforce
  then have "holds s1" using ask_model_holds [of "ticked (ticked s)" request] s by simp
  then show ?thesis unfolding take_turn_def Let_def request_def [symmetric] ask
    using s by (simp add: end_holds take_response_holds split: awaited.split interruption.split sum.split)
qed

lemma agent_loop_holds: "holds s \<Longrightarrow> holds (snd (agent_loop E R envelope scope l s))"
proof (induction "unat (max_steps (te_budget envelope)) - unat (lp_step_count l)" arbitrary: l s rule: less_induct)
  case less
  obtain result s' where turn: "take_turn E R envelope scope l s = (result, s')" by fastforce
  have s': "holds s'" using take_turn_holds [OF less.prems, of R envelope scope l] by (simp add: turn)
  have rest: "holds (snd (agent_loop E R envelope scope l' s'))" if "result = Inr (Again l')" for l'
    using less.hyps [OF _ s', of l'] take_turn_counts [OF turn [unfolded that]] by simp
  show ?case using s' rest
    by (subst agent_loop.simps) (auto simp: turn split: sum.split turn.split)
qed

lemma run_holds:
  assumes "holds s"
  shows "holds (snd (run_with_cancellation_and_scope E R envelope scope s))"
proof -
  obtain r u where l: "agent_loop E R envelope scope start_loop s = (r, u)" by fastforce
  then have "holds u" using agent_loop_holds [OF assms, of R envelope scope start_loop] by simp
  with assms show ?thesis unfolding run_with_cancellation_and_scope_def
    by (auto simp: l end_holds finish_run_holds split: sum.split)
qed

end

interpretation reach: store_invariant E "memory_reachable (re_memory E)" for E
  by unfold_locales (blast intro: M_step M_episode M_audit)+

text \<open>Whatever happens in a run, the audit trail of every tenant verifies afterwards, if the store was
  in a reachable state before: what the runtime writes is one more history of the store.\<close>

theorem run_keeps_audit_valid:
  assumes "memory_reachable (re_memory E) (ag_memory s)"
    and "run_with_cancellation_and_scope E R envelope scope s = (result, s')"
  shows "memory_reachable (re_memory E) (ag_memory s')
    \<and> vf_valid (verify_audit_chain (re_memory E) tenant (ag_memory s'))"
proof -
  have "memory_reachable (re_memory E) (ag_memory s')"
    using reach.run_holds [of E s R envelope scope] assms by (simp add: reach.holds_def)
  then show ?thesis using reachable_trail by (simp add: trail_ok_def)
qed

subsection \<open>The record of a run\<close>

text \<open>A run that the disk does not disturb: the identifiers it draws are fresh, elapsed times fit the
  column, and a character of the redacted text takes at most four bytes, as UTF-8 has it.\<close>

definition calm :: "agent_env \<Rightarrow> bool" where
  "calm E \<longleftrightarrow> (\<forall>t. re_disk E t = None) \<and> inj (re_uuid E) \<and> (\<forall>t. unat (re_elapsed_ms E t) < 2 ^ 63)
     \<and> (\<forall>n x. length (take_chars n (re_redact E x)) \<le> 4 * n)"

definition unused :: "agent_env \<Rightarrow> agent \<Rightarrow> bool" where
  "unused E s \<longleftrightarrow> (\<forall>t \<ge> ag_tick s. (\<forall>r \<in> set (mm_episodes (ag_memory s)). ep_id r \<noteq> re_uuid E t)
     \<and> (\<forall>r \<in> set (mm_audit (ag_memory s)). ad_event_id r \<noteq> re_uuid E t))"

lemma unused_ticked [simp]: "unused E s \<Longrightarrow> unused E (ticked s)"
  by (simp add: unused_def)

definition row_of :: "task_envelope \<Rightarrow> string \<Rightarrow> audit_row \<Rightarrow> bool" where
  "row_of envelope action r \<longleftrightarrow> ad_tenant r = te_tenant envelope \<and> av_action (ad_event_json r) = action
     \<and> av_task_id (ad_event_json r) = Some (te_task_id envelope)"

text \<open>\<open>k\<close> calls were logged; the run ended with this outcome, content and cost after \<open>k\<close> calls.\<close>

definition calls_logged :: "task_envelope \<Rightarrow> nat \<Rightarrow> memory \<Rightarrow> memory \<Rightarrow> bool" where
  "calls_logged envelope k m m' \<longleftrightarrow> mm_episodes m' = mm_episodes m
     \<and> (\<exists>rows. mm_audit m' = mm_audit m @ rows \<and> length rows = k \<and> list_all (row_of envelope ''tool.execute'') rows)"

definition run_logged ::
    "task_envelope \<Rightarrow> nat \<Rightarrow> string \<Rightarrow> string \<Rightarrow> u64 \<Rightarrow> memory \<Rightarrow> memory \<Rightarrow> bool" where
  "run_logged envelope k outcome content cost m m' \<longleftrightarrow>
     (\<exists>ep rows row. mm_episodes m' = mm_episodes m @ [ep] \<and> ep_tenant ep = te_tenant envelope
       \<and> ep_task_id ep = Some (te_task_id envelope) \<and> ep_outcome ep = outcome \<and> ep_content ep = content
       \<and> ep_cost ep = cost
       \<and> mm_audit m' = mm_audit m @ rows @ [row] \<and> length rows = k
       \<and> list_all (row_of envelope ''tool.execute'') rows \<and> row_of envelope ''agent.run'' row
       \<and> av_outcome (ad_event_json row) = outcome)"

lemma calls_logged_trans:
  assumes "calls_logged envelope k m m1" "calls_logged envelope j m1 m2"
  shows "calls_logged envelope (k + j) m m2"
proof -
  from assms obtain rows rows' where "mm_audit m1 = mm_audit m @ rows" "length rows = k"
    "list_all (row_of envelope ''tool.execute'') rows" "mm_audit m2 = mm_audit m1 @ rows'" "length rows' = j"
    "list_all (row_of envelope ''tool.execute'') rows'" by (auto simp: calls_logged_def)
  moreover have "mm_episodes m2 = mm_episodes m" using assms by (simp add: calls_logged_def)
  ultimately have "mm_episodes m2 = mm_episodes m \<and> mm_audit m2 = mm_audit m @ (rows @ rows')
      \<and> length (rows @ rows') = k + j \<and> list_all (row_of envelope ''tool.execute'') (rows @ rows')" by simp
  then show ?thesis unfolding calls_logged_def by blast
qed

lemma calls_then_run_logged:
  assumes "calls_logged envelope k m m1" "run_logged envelope j outcome content cost m1 m2"
  shows "run_logged envelope (k + j) outcome content cost m m2"
proof -
  from assms obtain rows where m1: "mm_episodes m1 = mm_episodes m" "mm_audit m1 = mm_audit m @ rows" "length rows = k"
    "list_all (row_of envelope ''tool.execute'') rows" by (auto simp: calls_logged_def)
  from assms(2) obtain ep rows' row where m2: "mm_episodes m2 = mm_episodes m1 @ [ep]"
    "ep_tenant ep = te_tenant envelope \<and> ep_task_id ep = Some (te_task_id envelope) \<and> ep_outcome ep = outcome
      \<and> ep_content ep = content \<and> ep_cost ep = cost"
    "mm_audit m2 = mm_audit m1 @ rows' @ [row]" "length rows' = j"
    "list_all (row_of envelope ''tool.execute'') rows'" "row_of envelope ''agent.run'' row"
    "av_outcome (ad_event_json row) = outcome"
    unfolding run_logged_def by blast
  have "mm_episodes m2 = mm_episodes m @ [ep] \<and> mm_audit m2 = mm_audit m @ (rows @ rows') @ [row]
      \<and> length (rows @ rows') = k + j \<and> list_all (row_of envelope ''tool.execute'') (rows @ rows')"
    using m1 m2 by simp
  with m2 show ?thesis unfolding run_logged_def by blast
qed

lemma calls_logged_refl [simp]: "calls_logged envelope 0 m m"
  by (simp add: calls_logged_def)

lemma save_episode_calm:
  assumes "calm E" "unused E s" "length content \<le> 65536" "unat cost < 2 ^ 63"
  shows "save_episode E (run_episode E envelope content outcome cost t (ag_tick s)) s =
      (Inr (), (ticked s)\<lparr>ag_memory := (ag_memory s)\<lparr>mm_episodes := mm_episodes (ag_memory s)
        @ [run_episode E envelope content outcome cost t (ag_tick s)]\<rparr>\<rparr>)"
  using assms
  by (auto simp: save_episode_def append_episode_def run_episode_def calm_def unused_def MAX_EPISODE_CONTENT_BYTES_def
      unique_key_def list_ex_iff Let_def not_less not_le ensure_def)

lemma save_audit_calm:
  assumes "calm E" "unused E s"
  shows "\<exists>row. save_audit E (audit_entry E envelope action outcome metadata (ag_tick s)) s =
      (Inr (), (ticked s)\<lparr>ag_memory := (ag_memory s)\<lparr>mm_audit := mm_audit (ag_memory s) @ [row]\<rparr>\<rparr>)
    \<and> row_of envelope action row \<and> av_outcome (ad_event_json row) = outcome \<and> ad_event_id row = re_uuid E (ag_tick s)"
  using assms
  by (auto simp: save_audit_def append_audit_event_def audit_entry_def audit_event_new_def with_previous_hash_def
      calm_def unused_def unique_key_def list_ex_iff Let_def row_of_def ensure_def)

lemma fresh_later: "calm E \<Longrightarrow> Suc n \<le> t \<Longrightarrow> re_uuid E n \<noteq> re_uuid E t"
  by (auto simp: calm_def dest: injD)

lemma save_episode_logged:
  assumes "calm E" "unused E s" "length content \<le> 65536" "unat cost < 2 ^ 63"
    and s': "s' = snd (save_episode E (run_episode E envelope content outcome cost t (ag_tick s)) s)"
  shows "fst (save_episode E (run_episode E envelope content outcome cost t (ag_tick s)) s) = Inr ()"
    and "unused E s'"
    and "mm_episodes (ag_memory s') = mm_episodes (ag_memory s)
      @ [run_episode E envelope content outcome cost t (ag_tick s)]"
    and "mm_audit (ag_memory s') = mm_audit (ag_memory s)"
proof -
  have "ep_id (run_episode E envelope content outcome cost t (ag_tick s)) = re_uuid E (ag_tick s)"
    by (simp add: run_episode_def)
  then show "unused E s'" using assms(2) fresh_later [OF assms(1)]
    by (auto simp: s' save_episode_calm [OF assms(1-4)] unused_def)
qed (simp_all add: s' save_episode_calm [OF assms(1-4)])

lemma save_audit_logged:
  assumes "calm E" "unused E s"
    and s': "s' = snd (save_audit E (audit_entry E envelope action outcome metadata (ag_tick s)) s)"
  shows "fst (save_audit E (audit_entry E envelope action outcome metadata (ag_tick s)) s) = Inr ()"
    and "unused E s'"
    and "mm_episodes (ag_memory s') = mm_episodes (ag_memory s)"
    and "\<exists>row. mm_audit (ag_memory s') = mm_audit (ag_memory s) @ [row] \<and> row_of envelope action row
      \<and> av_outcome (ad_event_json row) = outcome"
proof -
  obtain row where row: "save_audit E (audit_entry E envelope action outcome metadata (ag_tick s)) s =
      (Inr (), (ticked s)\<lparr>ag_memory := (ag_memory s)\<lparr>mm_audit := mm_audit (ag_memory s) @ [row]\<rparr>\<rparr>)"
    "row_of envelope action row" "av_outcome (ad_event_json row) = outcome" "ad_event_id row = re_uuid E (ag_tick s)"
    using save_audit_calm [OF assms(1,2), of envelope action outcome metadata] by blast
  show "fst (save_audit E (audit_entry E envelope action outcome metadata (ag_tick s)) s) = Inr ()"
    "mm_episodes (ag_memory s') = mm_episodes (ag_memory s)"
    by (simp_all add: s' row)
  show "unused E s'" using assms(2) fresh_later [OF assms(1)]
    by (auto simp: s' row(1) unused_def row(4))
  show "\<exists>row. mm_audit (ag_memory s') = mm_audit (ag_memory s) @ [row] \<and> row_of envelope action row
      \<and> av_outcome (ad_event_json row) = outcome"
    using row by (auto simp: s')
qed

text \<open>An episode and an entry, written one after the other.\<close>

lemma saved_run_logged:
  assumes calm: "calm E" and unused: "unused E s" and small: "length content \<le> 65536" "unat cost < 2 ^ 63"
    and s1: "s1 = snd (save_episode E (run_episode E envelope content outcome cost t (ag_tick s)) s)"
    and s2: "s2 = snd (save_audit E (audit_entry E envelope ''agent.run'' outcome metadata (ag_tick s1)) s1)"
  shows "fst (save_episode E (run_episode E envelope content outcome cost t (ag_tick s)) s) = Inr ()"
    and "fst (save_audit E (audit_entry E envelope ''agent.run'' outcome metadata (ag_tick s1)) s1) = Inr ()"
    and "unused E s2" and "run_logged envelope 0 outcome content cost (ag_memory s) (ag_memory s2)"
proof -
  note one = save_episode_logged [OF calm unused small s1]
  note two = save_audit_logged [OF calm one(2) s2]
  show "fst (save_episode E (run_episode E envelope content outcome cost t (ag_tick s)) s) = Inr ()"
    "fst (save_audit E (audit_entry E envelope ''agent.run'' outcome metadata (ag_tick s1)) s1) = Inr ()"
    "unused E s2" by (rule one two)+
  from two(4) obtain row where "mm_audit (ag_memory s2) = mm_audit (ag_memory s1) @ [row]"
    "row_of envelope ''agent.run'' row" "av_outcome (ad_event_json row) = outcome" by blast
  then show "run_logged envelope 0 outcome content cost (ag_memory s) (ag_memory s2)"
    using one(3,4) two(3) by (auto simp: run_logged_def run_episode_def)
qed

lemma record_run_logged:
  assumes "calm E" "unused E s" "length content \<le> 65536" "unat cost < 2 ^ 63"
    and s': "s' = snd (record_run E envelope content outcome cost metadata s)"
  shows "unused E s'" and "run_logged envelope 0 outcome content cost (ag_memory s) (ag_memory s')"
proof -
  define s1 where "s1 = snd (save_episode E (run_episode E envelope content outcome cost (ag_tick s)
    (ag_tick (ticked s))) (ticked s))"
  define meta where "meta = (''elapsed_ms'', show_nat (unat (re_elapsed_ms E (ag_tick s)))) # metadata"
  define s2 where "s2 = snd (save_audit E (audit_entry E envelope ''agent.run'' outcome meta (ag_tick s1)) s1)"
  note saved = saved_run_logged [OF assms(1) unused_ticked [OF assms(2)] assms(3,4) s1_def s2_def]
  have "record_run E envelope content outcome cost metadata s = (Inr (), s2)"
    using saved(1,2) by (simp add: record_run_def Let_def split_def s1_def s2_def meta_def prod_eq_iff)
  then have "s' = s2" by (simp add: s')
  with saved(3,4) show "unused E s'" "run_logged envelope 0 outcome content cost (ag_memory s) (ag_memory s')"
    by simp_all
qed

text \<open>The early returns: one episode, with the outcome of the error.\<close>

definition ended_badly :: "task_envelope \<Rightarrow> orchestrator_error \<Rightarrow> memory \<Rightarrow> memory \<Rightarrow> bool" where
  "ended_badly envelope e m m' \<longleftrightarrow>
     (\<exists>k outcome content. run_logged envelope k outcome content 0 m m'
       \<and> (outcome = ''failure'' \<or> outcome = ''cancelled'' \<and> e = OCancelled))"

lemma fail_run_logged:
  assumes "calm E" "unused E s"
  shows "unused E (snd (record_run_failure E envelope error s))"
    and "ended_badly envelope error (ag_memory s) (ag_memory (snd (record_run_failure E envelope error s)))"
proof -
  define safe where "safe = take_chars 512 (re_redact E (orchestrator_text error))"
  have "length safe \<le> 4 * 512" unfolding safe_def using assms(1) unfolding calm_def by blast
  then have small: "length (''falha de execucao: '' @ safe) \<le> 65536" by simp
  have finish: "snd (record_run_failure E envelope error s) = snd (record_run E envelope (''falha de execucao: '' @ safe) ''failure'' 0
      [(''error'', safe)] s)"
    by (simp add: record_run_failure_def safe_def Let_def)
  note logged = record_run_logged [OF assms small _ finish]
  show "unused E (snd (record_run_failure E envelope error s))" by (rule logged) simp
  have "run_logged envelope 0 ''failure'' (''falha de execucao: '' @ safe) 0 (ag_memory s)
      (ag_memory (snd (record_run_failure E envelope error s)))" by (rule logged) simp
  then show "ended_badly envelope error (ag_memory s) (ag_memory (snd (record_run_failure E envelope error s)))"
    unfolding ended_badly_def by blast
qed

lemma cancel_run_logged:
  assumes "calm E" "unused E s"
  shows "unused E (snd (record_run_cancelled E envelope s))"
    and "ended_badly envelope OCancelled (ag_memory s) (ag_memory (snd (record_run_cancelled E envelope s)))"
proof -
  have small: "length ''execucao cancelada pelo operador'' \<le> 65536" by simp
  have finish: "snd (record_run_cancelled E envelope s) = snd (record_run E envelope ''execucao cancelada pelo operador'' ''cancelled'' 0 [] s)"
    by (simp add: record_run_cancelled_def)
  note logged = record_run_logged [OF assms small _ finish]
  show "unused E (snd (record_run_cancelled E envelope s))" by (rule logged) simp
  have "run_logged envelope 0 ''cancelled'' ''execucao cancelada pelo operador'' 0 (ag_memory s)
      (ag_memory (snd (record_run_cancelled E envelope s)))" by (rule logged) simp
  then show "ended_badly envelope OCancelled (ag_memory s) (ag_memory (snd (record_run_cancelled E envelope s)))"
    unfolding ended_badly_def by blast
qed

text \<open>A function that either ends the run, recorded, or goes on with a value.\<close>

definition step_logged ::
    "agent_env \<Rightarrow> task_envelope \<Rightarrow> ('a \<Rightarrow> memory \<Rightarrow> memory \<Rightarrow> bool) \<Rightarrow> agent \<Rightarrow> (orchestrator_error + 'a) \<times> agent \<Rightarrow> bool"
  where
  "step_logged E envelope P s x \<longleftrightarrow> unused E (snd x) \<and>
     (case fst x of
        Inl e \<Rightarrow> ended_badly envelope e (ag_memory s) (ag_memory (snd x))
      | Inr y \<Rightarrow> P y (ag_memory s) (ag_memory (snd x)))"

lemma calls_then_ended_badly:
  "calls_logged envelope k m m1 \<Longrightarrow> ended_badly envelope e m1 m2 \<Longrightarrow> ended_badly envelope e m m2"
  unfolding ended_badly_def using calls_then_run_logged by blast

lemma ends_logged:
  assumes "calm E" "unused E u" "ag_memory u = ag_memory s"
  shows "step_logged E envelope P s (fail_run E envelope error u)"
    and "step_logged E envelope P s (cancel_run E envelope u)"
  using fail_run_logged [OF assms(1,2), of envelope error] cancel_run_logged [OF assms(1,2), of envelope] assms(3)
  by (simp_all add: step_logged_def fail_run_def cancel_run_def)

lemma record_call_logged:
  assumes "calm E" "unused E u" "ag_memory u = ag_memory s"
  shows "step_logged E envelope (\<lambda>_. calls_logged envelope (Suc 0)) s (record_call E envelope r u)"
proof -
  define safe where "safe = sanitize_tool_result E r"
  define s' where "s' = snd (save_audit E (audit_entry E envelope ''tool.execute''
    (if rs_success safe then ''success'' else ''failure'') (result_metadata safe) (ag_tick u)) u)"
  note saved = save_audit_logged [OF assms(1,2) s'_def]
  have "record_call E envelope r u = (Inr safe, s')"
    using saved(1) by (simp add: record_call_def Let_def split_def s'_def safe_def)
  moreover have "calls_logged envelope 1 (ag_memory s) (ag_memory s')"
    using saved(3,4) assms(3) by (auto simp: calls_logged_def)
  then have "calls_logged envelope (Suc 0) (ag_memory s) (ag_memory s')" by simp
  ultimately show ?thesis using saved(2) by (simp add: step_logged_def)
qed

lemma execute_quiet:
  "ag_memory (snd (execute_with_scope E R envelope scope name input s)) = ag_memory s"
  "unused E s \<Longrightarrow> unused E (snd (execute_with_scope E R envelope scope name input s))"
  by (auto simp: execute_with_scope_def Let_def unused_def split: sum.splits option.splits)

lemma run_call_logged:
  assumes calm: "calm E" and unused: "unused E s"
  shows "step_logged E envelope (\<lambda>_. calls_logged envelope (Suc 0)) s (run_call E R envelope scope c s)"
proof -
  obtain a s1 where x: "execute_with_scope E R envelope scope (mc_tool_name c) (mc_arguments c)
      (ticked (ticked (ticked s))) = (a, s1)"
    by fastforce
  have s1: "unused E s1" "ag_memory s1 = ag_memory s"
    using execute_quiet(1) [of E R envelope scope "mc_tool_name c" "mc_arguments c" "ticked (ticked (ticked s))"]
      execute_quiet(2) [of E "ticked (ticked (ticked s))" R envelope scope "mc_tool_name c" "mc_arguments c"] unused
    by (simp_all add: x)
  show ?thesis unfolding run_call_def Let_def x
    using calm unused s1
    by (auto intro!: ends_logged record_call_logged split: awaited.splits interruption.splits sum.splits)
qed

lemma run_calls_logged:
  assumes calm: "calm E"
  shows "unused E s \<Longrightarrow>
    step_logged E envelope (\<lambda>rs. calls_logged envelope (length rs)) s (run_calls E R envelope scope cs s)"
proof (induction cs arbitrary: s)
  case (Cons c cs)
  obtain r s1 where one: "run_call E R envelope scope c s = (r, s1)" by fastforce
  obtain rs s2 where rest: "run_calls E R envelope scope cs s1 = (rs, s2)" by fastforce
  have first: "step_logged E envelope (\<lambda>_. calls_logged envelope (Suc 0)) s (r, s1)"
    using run_call_logged [OF calm Cons.prems, of envelope R scope c] by (simp add: one)
  show ?case
  proof (cases r)
    case (Inl e)
    then show ?thesis using first by (simp add: one step_logged_def)
  next
    case (Inr y)
    with first have s1: "unused E s1" and logged: "calls_logged envelope (Suc 0) (ag_memory s) (ag_memory s1)"
      by (simp_all add: step_logged_def)
    have more: "step_logged E envelope (\<lambda>rs. calls_logged envelope (length rs)) s1 (rs, s2)"
      using Cons.IH [OF s1] by (simp add: rest)
    show ?thesis
    proof (cases rs)
      case bad: (Inl e)
      then show ?thesis using more calls_then_ended_badly [OF logged]
        by (simp add: one rest Inr step_logged_def)
    next
      case ok: (Inr ys)
      then show ?thesis using more calls_logged_trans [OF logged, of "length ys"]
        by (simp add: one rest Inr step_logged_def)
    qed
  qed
qed (simp add: step_logged_def)

lemma ask_model_quiet:
  "ag_memory (snd (ask_model E request s)) = ag_memory s"
  "unused E s \<Longrightarrow> unused E (snd (ask_model E request s))"
  by (auto simp: ask_model_def Let_def unused_def split: option.splits)

text \<open>What a turn that goes on has logged: its new results.\<close>

definition turn_logged :: "task_envelope \<Rightarrow> loop_state \<Rightarrow> turn \<Rightarrow> memory \<Rightarrow> memory \<Rightarrow> bool" where
  "turn_logged envelope l x m m' \<longleftrightarrow>
     (case x of
        Again l' \<Rightarrow> \<exists>rs. lp_all_results l' = lp_all_results l @ rs \<and> calls_logged envelope (length rs) m m'
      | Answer _ l' \<Rightarrow> lp_all_results l' = lp_all_results l \<and> m' = m)"

lemma take_response_logged:
  assumes "calm E" "unused E u" "ag_memory u = ag_memory s"
  shows "step_logged E envelope (turn_logged envelope l) s (take_response E R envelope scope response l u)"
proof -
  obtain rs s1 where calls: "run_calls E R envelope scope (mr_tool_calls response) u = (rs, s1)" by fastforce
  then have "step_logged E envelope (\<lambda>rs. calls_logged envelope (length rs)) s (rs, s1)"
    using run_calls_logged [OF assms(1,2), of envelope R scope "mr_tool_calls response"] assms(3)
    by (cases rs) (simp_all add: step_logged_def)
  then have again: "step_logged E envelope (turn_logged envelope l) s
      (case rs of Inl e \<Rightarrow> (Inl e, s1)
       | Inr results \<Rightarrow> (Inr (Again (l\<lparr>lp_step_count := n, lp_total_cost := c, lp_tool_call_count := k,
           lp_all_results := lp_all_results l @ results, lp_prior_results := results\<rparr>)), s1))" for n c k
    by (cases rs) (simp_all add: step_logged_def turn_logged_def)
  have answer: "step_logged E envelope (turn_logged envelope l) s
      (Inr (Answer content (l\<lparr>lp_step_count := n, lp_total_cost := c\<rparr>)), u)" for content n c
    using assms by (simp add: step_logged_def turn_logged_def)
  show ?thesis using again answer unfolding take_response_def Let_def calls
    by (simp add: ends_logged(1) [OF assms] cong: sum.case_cong)
qed

lemma take_turn_logged:
  assumes "calm E" "unused E s"
  shows "step_logged E envelope (turn_logged envelope l) s (take_turn E R envelope scope l s)"
proof -
  define request where "request = model_request_of E R envelope scope l"
  obtain a s1 where ask: "ask_model E request (ticked (ticked s)) = (a, s1)" by fastforce
  then have s1: "unused E s1" "ag_memory s1 = ag_memory s"
    using ask_model_quiet(1) [of E request "ticked (ticked s)"] ask_model_quiet(2) [of E "ticked (ticked s)" request]
      assms(2) by simp_all
  show ?thesis unfolding take_turn_def Let_def request_def [symmetric] ask
    using assms s1
    by (auto intro!: ends_logged take_response_logged split: awaited.splits interruption.splits sum.splits)
qed

definition loop_logged ::
    "task_envelope \<Rightarrow> loop_state \<Rightarrow> string \<times> loop_state \<Rightarrow> memory \<Rightarrow> memory \<Rightarrow> bool" where
  "loop_logged envelope l x m m' \<longleftrightarrow>
     (\<exists>rs. lp_all_results (snd x) = lp_all_results l @ rs \<and> calls_logged envelope (length rs) m m')"

lemma agent_loop_logged:
  assumes calm: "calm E"
  shows "unused E s \<Longrightarrow> step_logged E envelope (loop_logged envelope l) s (agent_loop E R envelope scope l s)"
proof (induction "unat (max_steps (te_budget envelope)) - unat (lp_step_count l)" arbitrary: l s rule: less_induct)
  case less
  obtain x s' where turn: "take_turn E R envelope scope l s = (x, s')" by fastforce
  have logged: "step_logged E envelope (turn_logged envelope l) s (x, s')"
    using take_turn_logged [OF calm less.prems, of envelope l R scope] by (simp add: turn)
  show ?case
  proof (cases x)
    case (Inl e)
    then show ?thesis using logged by (subst agent_loop.simps) (simp add: turn step_logged_def)
  next
    case t: (Inr t)
    show ?thesis
    proof (cases t)
      case (Answer content l')
      then show ?thesis using logged
        by (subst agent_loop.simps) (simp add: turn t step_logged_def turn_logged_def loop_logged_def)
    next
      case (Again l')
      with logged t obtain rs where s': "unused E s'" and rs: "lp_all_results l' = lp_all_results l @ rs"
        "calls_logged envelope (length rs) (ag_memory s) (ag_memory s')"
        by (auto simp: step_logged_def turn_logged_def)
      obtain y u where rest: "agent_loop E R envelope scope l' s' = (y, u)" by fastforce
      have again: "agent_loop E R envelope scope l s = (y, u)"
        by (subst agent_loop.simps) (simp add: turn t Again rest)
      have "step_logged E envelope (loop_logged envelope l') s' (y, u)"
        using less.hyps [OF _ s', of l'] take_turn_counts [OF turn [unfolded t Again]] by (simp add: rest)
      then have u: "unused E u" and y: "case y of Inl e \<Rightarrow> ended_badly envelope e (ag_memory s') (ag_memory u)
          | Inr z \<Rightarrow> loop_logged envelope l' z (ag_memory s') (ag_memory u)"
        by (cases y; simp add: step_logged_def)+
      show ?thesis
      proof (cases y)
        case (Inl e)
        then show ?thesis using y u calls_then_ended_badly [OF rs(2)] by (simp add: again step_logged_def)
      next
        case (Inr z)
        with y obtain rs' where "lp_all_results (snd z) = lp_all_results l @ (rs @ rs')"
          "calls_logged envelope (length rs') (ag_memory s') (ag_memory u)"
          by (auto simp: loop_logged_def rs)
        with calls_logged_trans [OF rs(2)] have "loop_logged envelope l z (ag_memory s) (ag_memory u)"
          unfolding loop_logged_def by (metis length_append)
        then show ?thesis using u by (simp add: again Inr step_logged_def)
      qed
    qed
  qed
qed

subsection \<open>What is returned\<close>

definition sanitized :: "tool_result \<Rightarrow> bool" where
  "sanitized r \<longleftrightarrow> (\<exists>x. rs_output r = JObject [(''serialized'', JString x)] \<and> char_count x \<le> 8192)"

lemma run_call_sanitized: "run_call E R envelope scope c s = (Inr r, s') \<Longrightarrow> sanitized r"
  unfolding run_call_def Let_def
  by (auto simp: record_call_def sanitize_tool_result_def sanitized_def char_count_take fail_run_def cancel_run_def
      Let_def split: if_splits prod.splits awaited.splits interruption.splits sum.splits)

lemma run_calls_sanitized: "run_calls E R envelope scope cs s = (Inr rs, s') \<Longrightarrow> list_all sanitized rs"
  by (induction cs arbitrary: s rs s') (auto split: prod.splits sum.splits dest: run_call_sanitized)

definition loop_ok :: "task_envelope \<Rightarrow> loop_state \<Rightarrow> bool" where
  "loop_ok envelope l \<longleftrightarrow> list_all sanitized (lp_all_results l)
     \<and> lp_total_cost l \<le> max_cost_microunits (te_budget envelope)"

lemma take_turn_ok:
  assumes "take_turn E R envelope scope l s = (Inr t, s')" and "list_all sanitized (lp_all_results l)"
  shows "case t of Again l' \<Rightarrow> loop_ok envelope l' | Answer _ l' \<Rightarrow> loop_ok envelope l'"
  using assms run_calls_sanitized
  by (auto simp: take_turn_def take_response_def loop_ok_def fail_run_def cancel_run_def Let_def not_less
      split: if_splits prod.splits awaited.splits interruption.splits sum.splits)

lemma agent_loop_ok:
  "agent_loop E R envelope scope l s = (Inr (content, l'), s') \<Longrightarrow> list_all sanitized (lp_all_results l) \<Longrightarrow>
    loop_ok envelope l'"
proof (induction "unat (max_steps (te_budget envelope)) - unat (lp_step_count l)" arbitrary: l s rule: less_induct)
  case less
  obtain x s1 where turn: "take_turn E R envelope scope l s = (x, s1)" by fastforce
  with less.prems(1) obtain t where t: "x = Inr t"
    by (cases x) (subst (asm) agent_loop.simps, simp_all)
  note ok = take_turn_ok [OF turn [unfolded t] less.prems(2)]
  show ?case
  proof (cases t)
    case (Answer c l1)
    have "l1 = l'" using less.prems(1) by (subst (asm) agent_loop.simps) (simp add: turn t Answer)
    with ok show ?thesis by (simp add: Answer)
  next
    case (Again l1)
    have "agent_loop E R envelope scope l1 s1 = (Inr (content, l'), s')"
      using less.prems(1) by (subst (asm) agent_loop.simps) (simp add: turn t Again)
    moreover have "list_all sanitized (lp_all_results l1)" using ok by (simp add: Again loop_ok_def)
    ultimately show ?thesis using less.hyps [of l1 s1] take_turn_counts [OF turn [unfolded t Again]] by simp
  qed
qed

text \<open>The end of a run that has an answer.\<close>

lemma finish_run_logged:
  assumes calm: "calm E" and unused: "unused E s" and cost: "unat (lp_total_cost l) < 2 ^ 63"
  shows "\<exists>r s'. finish_run E envelope content l s = (Inr r, s')
    \<and> rr_tool_results r = lp_all_results l \<and> rr_success r = list_all rs_success (lp_all_results l)
    \<and> run_logged envelope 0 (outcome_of (lp_all_results l)) (rr_answer r) (lp_total_cost l) (ag_memory s) (ag_memory s')"
proof -
  define outcome where "outcome = outcome_of (lp_all_results l)"
  define safe where "safe = take_chars 8192 (re_redact E content)"
  have "length safe \<le> 4 * 8192" unfolding safe_def using calm unfolding calm_def by blast
  then have small: "length safe \<le> 65536" by simp
  define s1 where "s1 = snd (save_episode E (run_episode E envelope safe outcome (lp_total_cost l) (ag_tick s)
    (ag_tick (ticked s))) (ticked s))"
  define meta where "meta = [(''cost_microunits'', show_nat (unat (lp_total_cost l))),
    (''elapsed_ms'', show_nat (unat (re_elapsed_ms E (ag_tick s)))),
    (''step_count'', show_nat (unat (lp_step_count l))),
    (''tool_call_count'', show_nat (unat (lp_tool_call_count l)))]"
  define s2 where "s2 = snd (save_audit E (audit_entry E envelope ''agent.run'' outcome meta (ag_tick s1)) s1)"
  note saved = saved_run_logged [OF calm unused_ticked [OF unused] small cost s1_def s2_def]
  have "finish_run E envelope content l s =
      (Inr \<lparr>rr_task_id = te_task_id envelope, rr_answer = safe, rr_tool_results = lp_all_results l,
         rr_success = (outcome = ''success'')\<rparr>, s2)"
    using saved(1,2)
    by (simp add: finish_run_def Let_def split_def s1_def s2_def meta_def outcome_def safe_def)
  moreover have "(outcome = ''success'') = list_all rs_success (lp_all_results l)"
    by (simp add: outcome_def outcome_of_def)
  ultimately show ?thesis using saved(4) by (simp add: outcome_def)
qed

lemma run_logged_result:
  assumes calm: "calm E" and unused: "unused E s"
    and run: "run_with_cancellation_and_scope E R envelope scope s = (result, s')"
  shows "case result of
      Inl e \<Rightarrow> ended_badly envelope e (ag_memory s) (ag_memory s')
    | Inr r \<Rightarrow> \<exists>cost \<le> max_cost_microunits (te_budget envelope).
        run_logged envelope (length (rr_tool_results r)) (outcome_of (rr_tool_results r)) (rr_answer r) cost
          (ag_memory s) (ag_memory s')
        \<and> rr_success r = list_all rs_success (rr_tool_results r)"
proof (cases "validate_budget (te_budget envelope)")
    case (Inl e)
    with run have "result = Inl (core_failure e)" "s' = snd (record_run_failure E envelope (core_failure e) s)"
      by (simp_all add: run_with_cancellation_and_scope_def fail_run_def)
    then show ?thesis using fail_run_logged(2) [OF calm unused] by simp
  next
    case (Inr u)
    then have cost_limit: "unat (max_cost_microunits (te_budget envelope)) < 2 ^ 63"
      and time: "max_elapsed_ms (te_budget envelope) \<noteq> 0"
      by (simp_all add: validate_budget_def budget_limits word_le_nat_alt not_less split: if_splits)
    obtain x s1 where l: "agent_loop E R envelope scope start_loop s = (x, s1)" by fastforce
    have logged: "step_logged E envelope (loop_logged envelope start_loop) s (x, s1)"
      using agent_loop_logged [OF calm unused, of envelope start_loop R scope] by (simp add: l)
    have all: "run_with_cancellation_and_scope E R envelope scope s =
        (case x of Inl e \<Rightarrow> (Inl e, s1) | Inr (content, l) \<Rightarrow> finish_run E envelope content l s1)"
      using Inr time by (simp add: run_with_cancellation_and_scope_def l split: sum.split)
    show ?thesis
    proof (cases x)
      case bad: (Inl e)
      then show ?thesis using run logged by (auto simp: all step_logged_def)
    next
      case ok: (Inr y)
      obtain content l1 where y: "y = (content, l1)" by (cases y)
      from logged have s1: "unused E s1"
        and calls: "calls_logged envelope (length (lp_all_results l1)) (ag_memory s) (ag_memory s1)"
        by (auto simp: step_logged_def ok y loop_logged_def start_loop_def)
      have cost: "lp_total_cost l1 \<le> max_cost_microunits (te_budget envelope)"
        using agent_loop_ok [OF l [unfolded ok y]] by (simp add: loop_ok_def start_loop_def)
      then have small: "unat (lp_total_cost l1) < 2 ^ 63" using cost_limit by (simp add: word_le_nat_alt)
      from finish_run_logged [OF calm s1 small, of envelope content] obtain r s2 where
        fin: "finish_run E envelope content l1 s1 = (Inr r, s2)" "rr_tool_results r = lp_all_results l1"
          "rr_success r = list_all rs_success (lp_all_results l1)"
        and end_logged: "run_logged envelope 0 (outcome_of (lp_all_results l1)) (rr_answer r) (lp_total_cost l1)
          (ag_memory s1) (ag_memory s2)" by blast
      have "result = Inr r" "s' = s2" using run fin(1) by (simp_all add: all ok y)
      then show ?thesis using calls_then_run_logged [OF calls end_logged] cost fin(2,3) by auto
    qed
qed

text \<open>C13: a run that the disk does not disturb ends, whatever the model answers and whenever it is
  interrupted, with exactly one episode and one last entry of the audit trail for the task, which agree
  on the outcome, after one entry for each call that was answered; a result is a success exactly when
  every call was, its cost is within the budget, and a run that ends in an error is recorded as
  failed or cancelled, at no cost whatever the model charged.\<close>

theorem every_run_is_recorded:
  assumes "calm E" and "unused E s"
    and "run_with_cancellation_and_scope E R envelope scope s = (result, s')"
  shows "case result of
      Inl e \<Rightarrow> ended_badly envelope e (ag_memory s) (ag_memory s')
    | Inr r \<Rightarrow> \<exists>cost \<le> max_cost_microunits (te_budget envelope).
        run_logged envelope (length (rr_tool_results r)) (outcome_of (rr_tool_results r)) (rr_answer r) cost
          (ag_memory s) (ag_memory s')
        \<and> rr_success r = list_all rs_success (rr_tool_results r)"
  using assms by (rule run_logged_result)

text \<open>What a run returns, and so what the worker stores as the result of the task, has this form: the
  answer and the output of every call are at most 8192 characters of redacted text, an output is the one
  member \<open>serialized\<close>.\<close>

theorem run_result_sanitized:
  assumes "run_with_cancellation_and_scope E R envelope scope s = (Inr r, s')"
  shows "rr_task_id r = te_task_id envelope \<and> char_count (rr_answer r) \<le> 8192
    \<and> (\<exists>content. rr_answer r = take_chars 8192 (re_redact E content)) \<and> list_all sanitized (rr_tool_results r)"
proof -
  obtain x s1 where l: "agent_loop E R envelope scope start_loop s = (x, s1)" by fastforce
  with assms obtain y where x: "x = Inr y"
    by (auto simp: run_with_cancellation_and_scope_def fail_run_def split: sum.splits if_splits)
  obtain content l1 where y: "y = (content, l1)" by (cases y)
  have "finish_run E envelope content l1 s1 = (Inr r, s')"
    using assms by (auto simp: run_with_cancellation_and_scope_def l x y fail_run_def split: sum.splits if_splits)
  then have r: "rr_answer r = take_chars 8192 (re_redact E content)" "rr_tool_results r = lp_all_results l1"
    "rr_task_id r = te_task_id envelope"
    by (auto simp: finish_run_def Let_def split: prod.splits sum.splits)
  have "list_all sanitized (lp_all_results l1)"
    using agent_loop_ok [OF l [unfolded x y]] by (simp add: loop_ok_def start_loop_def)
  with r show ?thesis by (auto simp: char_count_take)
qed

end
