(* ===== verification/Agent_Models.thy ===== *)
theory Agent_Models
  imports Agent_Runtime
begin

text \<open>
  \<^verbatim>\<open>crates/shaka-orchestrator/src/lib.rs\<close>: the two models a runtime is started with, the local one and
  the client of an endpoint compatible with OpenAI. The exchange with the endpoint (\<open>reqwest\<close>) and the
  JSON parser are arguments.
\<close>

subsection \<open>The local model\<close>

definition local_complete :: "model_request \<Rightarrow> orchestrator_error + model_response" where
  "local_complete q =
     (let tool_note = (if mq_tools q = [] then ''Nenhuma ferramenta esta disponivel.''
        else ''As ferramentas disponiveis foram validadas pelo host antes de qualquer execucao.'')
      in Inr \<lparr>mr_content = ''MVP local do Shaka: objetivo recebido: '' @ mq_user q @ ''. '' @ tool_note,
           mr_tool_calls = [], mr_estimated_cost = 0\<rparr>)"

subsection \<open>The remote model\<close>

record chat_function =
  cf_name :: string
  cf_arguments :: string

record chat_message =
  cm_content :: "string option"
  cm_tool_calls :: "chat_function list"

record open_ai_model =
  oa_post :: "json \<Rightarrow> string + chat_message list"
  oa_from_str :: "string \<Rightarrow> string + json"
  oa_to_string :: "json \<Rightarrow> string"
  oa_model :: string

definition open_ai_new ::
    "(json \<Rightarrow> string + chat_message list) \<Rightarrow> (string \<Rightarrow> string + json) \<Rightarrow> (json \<Rightarrow> string) \<Rightarrow> string \<Rightarrow> string \<Rightarrow>
     orchestrator_error + open_ai_model" where
  "open_ai_new post from_str to_string api_key model =
     (if trim_is_empty api_key \<or> trim_is_empty model then
        Inl (InvalidModelResponse ''api_key e model nao podem ser vazios'')
      else Inr \<lparr>oa_post = post, oa_from_str = from_str, oa_to_string = to_string, oa_model = model\<rparr>)"

definition tool_json :: "tool_definition \<Rightarrow> json" where
  "tool_json d = JObject [
     (''function'', JObject [(''description'', JString (td_description d)), (''name'', JString (td_name d)),
        (''parameters'', td_input_schema d)]),
     (''type'', JString ''function'')]"

definition message_json :: "string \<Rightarrow> string \<Rightarrow> json" where
  "message_json role content = JObject [(''content'', JString content), (''role'', JString role)]"

definition result_json :: "(json \<Rightarrow> string) \<Rightarrow> tool_result \<Rightarrow> json" where
  "result_json to_string r = JObject [(''content'', JString (to_string (rs_output r))),
     (''name'', JString (rs_tool_name r)), (''role'', JString ''tool'')]"

definition chat_payload :: "open_ai_model \<Rightarrow> model_request \<Rightarrow> json" where
  "chat_payload A q = JObject [
     (''max_tokens'', JNumber (show_nat (unat (mq_max_output_tokens q)))),
     (''messages'', JArray ([message_json ''system'' (mq_system q), message_json ''user'' (mq_user q)]
        @ map (result_json (oa_to_string A)) (mq_prior_tool_results q))),
     (''model'', JString (oa_model A)),
     (''tool_choice'', JString ''auto''),
     (''tools'', JArray (map tool_json (mq_tools q)))]"

definition parse_call :: "open_ai_model \<Rightarrow> chat_function \<Rightarrow> orchestrator_error + model_tool_call" where
  "parse_call A f =
     (case oa_from_str A (cf_arguments f) of
        Inl e \<Rightarrow> Inl (InvalidModelResponse (''argumentos JSON invalidos para '' @ cf_name f @ '': '' @ e))
      | Inr arguments \<Rightarrow> Inr \<lparr>mc_tool_name = cf_name f, mc_arguments = arguments\<rparr>)"

definition open_ai_complete :: "open_ai_model \<Rightarrow> model_request \<Rightarrow> orchestrator_error + model_response" where
  "open_ai_complete A q =
     and_then (map_err OHttp (oa_post A (chat_payload A q))) (\<lambda>choices.
     and_then (ok_or (InvalidModelResponse ''choices vazio'')
       (case choices of [] \<Rightarrow> None | choice # _ \<Rightarrow> Some choice)) (\<lambda>choice.
     and_then (collect_results (parse_call A) (cm_tool_calls choice)) (\<lambda>tool_calls.
     Inr \<lparr>mr_content = (case cm_content choice of None \<Rightarrow> [] | Some s \<Rightarrow> s), mr_tool_calls = tool_calls,
       mr_estimated_cost = 0\<rparr>)))"

text \<open>Both models report no cost.\<close>

lemma models_report_no_cost:
  "local_complete q = Inr r \<Longrightarrow> mr_estimated_cost r = 0"
  "open_ai_complete A q = Inr r \<Longrightarrow> mr_estimated_cost r = 0"
  by (auto simp: local_complete_def open_ai_complete_def Let_def result_simps)

text \<open>A run over such a model counts no cost: the limit of the budget on cost is never reached.\<close>

lemma take_turn_free:
  assumes free: "\<And>t q r. re_complete E t q = Inr r \<Longrightarrow> mr_estimated_cost r = 0"
    and "take_turn E R envelope scope l s = (Inr x, s')" and "lp_total_cost l = 0"
  shows "case x of Again l' \<Rightarrow> lp_total_cost l' = 0 | Answer _ l' \<Rightarrow> lp_total_cost l' = 0"
  using assms(2,3) free
  by (auto simp: take_turn_def take_response_def ask_model_def fail_run_def cancel_run_def Let_def saturating_add_def
      split: if_splits prod.splits awaited.splits interruption.splits sum.splits option.splits)

lemma agent_loop_free:
  assumes free: "\<And>t q r. re_complete E t q = Inr r \<Longrightarrow> mr_estimated_cost r = 0"
  shows "agent_loop E R envelope scope l s = (Inr (content, l'), s') \<Longrightarrow> lp_total_cost l = 0 \<Longrightarrow> lp_total_cost l' = 0"
proof (induction "unat (max_steps (te_budget envelope)) - unat (lp_step_count l)" arbitrary: l s rule: less_induct)
  case less
  obtain x s1 where turn: "take_turn E R envelope scope l s = (x, s1)" by fastforce
  with less.prems(1) obtain t where t: "x = Inr t"
    by (cases x) (subst (asm) agent_loop.simps, simp_all)
  note ok = take_turn_free [OF free turn [unfolded t] less.prems(2)]
  show ?case
  proof (cases t)
    case (Answer c l1)
    have "l1 = l'" using less.prems(1) by (subst (asm) agent_loop.simps) (simp add: turn t Answer)
    with ok show ?thesis by (simp add: Answer)
  next
    case (Again l1)
    have "agent_loop E R envelope scope l1 s1 = (Inr (content, l'), s')"
      using less.prems(1) by (subst (asm) agent_loop.simps) (simp add: turn t Again)
    with ok show ?thesis using less.hyps [of l1 s1] take_turn_counts [OF turn [unfolded t Again]]
      by (simp add: Again)
  qed
qed

end
