(* ===== verification/Agent_Examples.thy ===== *)
theory Agent_Examples
  imports Agent_Record Memory_Examples
begin

text \<open>
  A concrete run, by evaluation: the model proposes an echo and answers when it has the result.
\<close>

definition toy_complete :: "nat \<Rightarrow> model_request \<Rightarrow> orchestrator_error + model_response" where
  "toy_complete t q = Inr
     (if mq_prior_tool_results q = [] then
        \<lparr>mr_content = [], mr_tool_calls =
          [\<lparr>mc_tool_name = ''echo'', mc_arguments = JObject [(''message'', JString ''hi'')]\<rparr>], mr_estimated_cost = 5\<rparr>
      else \<lparr>mr_content = ''bye'', mr_tool_calls = [], mr_estimated_cost = 7\<rparr>)"

definition ascii :: "string \<Rightarrow> string" where
  "ascii s = filter (\<lambda>c. \<not> continuation_byte c) s"

definition toy_agent_env :: agent_env where
  "toy_agent_env = \<lparr>re_memory = toy_memory_env\<lparr>me_sha := (\<lambda>_. ''h'')\<rparr>, re_redact = ascii, re_json_text = (\<lambda>_. ''json''),
     re_validator = (\<lambda>_. Inr (\<lambda>_. Inr ())), re_driver = ''driver'', re_uuid = (\<lambda>t. t), re_now = int,
     re_elapsed_ms = (\<lambda>_. 3), re_cancelled = (\<lambda>_. False), re_interrupted = (\<lambda>_. None),
     re_disk = (\<lambda>_. None), re_complete = toy_complete\<rparr>"

definition toy_registry :: tool_registry where
  "toy_registry = \<lparr>rg_tools = [(''echo'', echo_tool), (''send_message'', outbound_message_tool)], rg_capabilities = [ExternalMessaging]\<rparr>"

definition toy_envelope :: task_envelope where
  "toy_envelope = \<lparr>te_task_id = TaskId 9, te_tenant = TenantId ''a'', te_operator = OperatorId ''op'',
     te_objective = ''say hi'', te_budget = default_budget, te_dry_run = True, te_context = default_context,
     te_created_at = 0\<rparr>"

definition toy_agent :: agent where
  "toy_agent = \<lparr>ag_tick = 0, ag_memory = empty_memory, ag_requests = [], ag_handed = []\<rparr>"

lemma char_count_ascii: "length (take_chars n (ascii s)) \<le> 4 * n"
proof -
  have "length (take_chars n (filter (\<lambda>c. \<not> continuation_byte c) s)) \<le> n" for n
    by (induction s arbitrary: n) (auto split: nat.split)
  from this [of n] show ?thesis unfolding ascii_def by linarith
qed

lemma toy_calm: "calm toy_agent_env" "unused toy_agent_env toy_agent"
  using char_count_ascii
  by (simp_all add: calm_def toy_agent_env_def unused_def toy_agent_def empty_memory_def inj_on_def)

abbreviation toy_run :: "(orchestrator_error + agent_run_result) \<times> agent" where
  "toy_run \<equiv> run_with_cancellation_and_scope toy_agent_env toy_registry toy_envelope None toy_agent"

theorem every_run_is_recorded_witness:
  "case fst toy_run of
      Inl e \<Rightarrow> ended_badly toy_envelope e (ag_memory toy_agent) (ag_memory (snd toy_run))
    | Inr r \<Rightarrow> \<exists>cost \<le> max_cost_microunits (te_budget toy_envelope).
        run_logged toy_envelope (length (rr_tool_results r)) (outcome_of (rr_tool_results r)) (rr_answer r) cost
          (ag_memory toy_agent) (ag_memory (snd toy_run))
        \<and> rr_success r = list_all rs_success (rr_tool_results r)"
  by (rule every_run_is_recorded [OF toy_calm prod.collapse [symmetric]])

lemmas toy_defs = toy_registry_def toy_envelope_def toy_agent_env_def default_budget_def default_context_def

abbreviation echo_hi :: model_tool_call where
  "echo_hi \<equiv> \<lparr>mc_tool_name = ''echo'', mc_arguments = JObject [(''message'', JString ''hi'')]\<rparr>"

lemma toy_limits: "max_cost_microunits (te_budget toy_envelope) = 1000000"
  "max_tool_calls (te_budget toy_envelope) = 16" "max_steps (te_budget toy_envelope) = 32"
  "ctx_capabilities (te_context toy_envelope) = []" "te_dry_run toy_envelope"
  by (simp_all add: toy_envelope_def default_budget_def default_context_def)

lemma toy_record:
  assumes "unused toy_agent_env u"
  shows "\<exists>s'. record_call toy_agent_env toy_envelope r u = (Inr (sanitize_tool_result toy_agent_env r), s')
    \<and> unused toy_agent_env s' \<and> ag_handed s' = ag_handed u"
proof -
  define safe where "safe = sanitize_tool_result toy_agent_env r"
  note saved = save_audit_logged [OF toy_calm(1) assms refl, of toy_envelope "''tool.execute''"
    "if rs_success safe then ''success'' else ''failure''" "result_metadata safe"]
  then show ?thesis using record_call_quiet(2) [of toy_agent_env toy_envelope r u]
    by (simp add: record_call_def Let_def split_def safe_def)
qed

lemma toy_execute:
  "execute_with_scope toy_agent_env toy_registry toy_envelope None ''echo'' (JObject [(''message'', JString ''hi'')]) s =
     (Ready (Inr \<lparr>rs_tool_name = ''echo'', rs_output = JObject [(''message'', JString ''hi'')], rs_success = True,
        rs_error_code = None\<rparr>),
      (ticked s)\<lparr>ag_handed := ag_handed s @ [\<lparr>cl_task_id = TaskId 9, cl_tool_name = ''echo'',
        cl_input = JObject [(''message'', JString ''hi'')], cl_requested_at = int (ag_tick s)\<rparr>]\<rparr>)"
  by (simp add: execute_with_scope_def admit_call_def denied_capability_def capabilities_allow_def validate_input_def
      toy_defs echo_tool_def Let_def ensure_def)

lemma toy_call:
  assumes "unused toy_agent_env s"
  shows "\<exists>r s' call. run_call toy_agent_env toy_registry toy_envelope None echo_hi s = (Inr r, s')
    \<and> unused toy_agent_env s' \<and> ag_handed s' = ag_handed s @ [call]"
proof -
  define u where "u = snd (execute_with_scope toy_agent_env toy_registry toy_envelope None ''echo''
    (JObject [(''message'', JString ''hi'')]) (ticked (ticked (ticked s))))"
  define r where "r = \<lparr>rs_tool_name = ''echo'', rs_output = JObject [(''message'', JString ''hi'')],
    rs_success = True, rs_error_code = None\<rparr>"
  have x: "execute_with_scope toy_agent_env toy_registry toy_envelope None ''echo''
      (JObject [(''message'', JString ''hi'')]) (ticked (ticked (ticked s))) = (Ready (Inr r), u)"
    by (simp add: u_def r_def toy_execute)
  have "remaining_ms toy_agent_env toy_envelope s \<noteq> 0" "\<not> re_cancelled toy_agent_env t" for t
    by (simp_all add: remaining_ms_def toy_defs)
  then have run: "run_call toy_agent_env toy_registry toy_envelope None echo_hi s =
      record_call toy_agent_env toy_envelope r u"
    by (simp add: run_call_def Let_def x)
  have "unused toy_agent_env u"
    using assms by (simp add: u_def execute_quiet(2))
  from toy_record [OF this, of r] show ?thesis
    by (auto simp: run u_def toy_execute)
qed

lemma toy_loop:
  "\<exists>content l s call. agent_loop toy_agent_env toy_registry toy_envelope None start_loop toy_agent = (Inr (content, l), s)
    \<and> unused toy_agent_env s \<and> ag_handed s = [call] \<and> unat (lp_total_cost l) < 2 ^ 63"
proof -
  define asked where "asked l s = snd (ask_model toy_agent_env (model_request_of toy_agent_env toy_registry toy_envelope None l)
    (ticked (ticked s)))" for l s
  have ask: "ask_model toy_agent_env (model_request_of toy_agent_env toy_registry toy_envelope None l) (ticked (ticked s)) =
      (Ready (toy_complete t (model_request_of toy_agent_env toy_registry toy_envelope None l)), asked l s)"
    if "t = Suc (Suc (ag_tick s))" for l s t
    by (simp add: asked_def ask_model_def Let_def toy_agent_env_def that)
  have quiet: "unused toy_agent_env (asked l s)" "ag_handed (asked l s) = ag_handed s"
    if "unused toy_agent_env s" for l s
    using that by (auto simp: asked_def ask_model_quiet(2)) (simp add: ask_model_def Let_def toy_agent_env_def)
  have turn: "take_turn toy_agent_env toy_registry toy_envelope None l s =
      (case toy_complete (Suc (Suc (ag_tick s))) (model_request_of toy_agent_env toy_registry toy_envelope None l) of
         Inl e \<Rightarrow> fail_run toy_agent_env toy_envelope e (asked l s)
       | Inr response \<Rightarrow> take_response toy_agent_env toy_registry toy_envelope None response l (asked l s))"
    if "unat (lp_step_count l) < 32" for l s
  proof -
    have "\<not> max_steps (te_budget toy_envelope) \<le> lp_step_count l"
      using that by (simp add: word_le_nat_alt toy_defs not_le)
    moreover have "\<not> re_cancelled toy_agent_env t" "remaining_ms toy_agent_env toy_envelope u = 29997" for t u
      by (simp_all add: toy_defs remaining_ms_def)
    ultimately show ?thesis by (simp add: take_turn_def Let_def ask)
  qed
  obtain r s1 call where one: "run_call toy_agent_env toy_registry toy_envelope None echo_hi (asked start_loop toy_agent) = (Inr r, s1)"
    and s1: "unused toy_agent_env s1" "ag_handed s1 = ag_handed (asked start_loop toy_agent) @ [call]"
    using toy_call [OF quiet(1) [OF toy_calm(2), of start_loop]] by blast
  define l1 where "l1 = \<lparr>lp_step_count = 1, lp_tool_call_count = 1, lp_total_cost = 5, lp_all_results = [r],
    lp_prior_results = [r]\<rparr>"
  have "take_turn toy_agent_env toy_registry toy_envelope None start_loop toy_agent = (Inr (Again l1), s1)"
    by (subst turn) (simp_all add: start_loop_def toy_complete_def model_request_of_def take_response_def Let_def
      one [unfolded start_loop_def] l1_def saturating_add_def call_count_def toy_limits)
  moreover define l2 where "l2 = l1\<lparr>lp_step_count := 2, lp_total_cost := 12\<rparr>"
  have "take_turn toy_agent_env toy_registry toy_envelope None l1 s1 = (Inr (Answer ''bye'' l2), asked l1 s1)"
    by (subst turn) (simp_all add: l1_def l2_def toy_complete_def model_request_of_def take_response_def Let_def
      saturating_add_def toy_limits)
  ultimately have "agent_loop toy_agent_env toy_registry toy_envelope None start_loop toy_agent = (Inr (''bye'', l2), asked l1 s1)"
    by (simp add: agent_loop.simps [of _ _ _ _ start_loop] agent_loop.simps [of _ _ _ _ l1])
  then show ?thesis using quiet [OF s1(1), of l1] s1(2) quiet(2) [OF toy_calm(2), of start_loop]
    by (auto simp: l2_def toy_agent_def)
qed

lemma toy_answer:
  "\<exists>r. fst toy_run = Inr r" "\<exists>call. ag_handed (snd toy_run) = [call]"
proof -
  obtain content l s call where loop: "agent_loop toy_agent_env toy_registry toy_envelope None start_loop toy_agent = (Inr (content, l), s)"
    and s: "unused toy_agent_env s" "ag_handed s = [call]" "unat (lp_total_cost l) < 2 ^ 63"
    using toy_loop by blast
  obtain r s' where fin: "finish_run toy_agent_env toy_envelope content l s = (Inr r, s')"
    using finish_run_logged [OF toy_calm(1) s(1,3), of toy_envelope content] by blast
  have "validate_budget (te_budget toy_envelope) = Inr ()" "max_elapsed_ms (te_budget toy_envelope) \<noteq> 0"
    by (simp_all add: toy_envelope_def default_budget_valid) (simp add: default_budget_def)
  then have run: "toy_run = (Inr r, s')"
    by (simp add: run_with_cancellation_and_scope_def loop fin)
  then show "\<exists>r. fst toy_run = Inr r" by simp
  show "\<exists>call. ag_handed (snd toy_run) = [call]"
    using finish_run_quiet(2) [of toy_agent_env toy_envelope content l s] s(2) by (simp add: run fin)
qed

theorem run_within_budget_witness:
  "length (ag_requests (snd toy_run)) \<le> 32 \<and> length (ag_handed (snd toy_run)) \<le> 16"
  using run_within_budget [OF prod.collapse [symmetric], of toy_agent_env toy_registry toy_envelope None toy_agent]
  by (simp add: toy_agent_def toy_envelope_def default_budget_def)

theorem only_admitted_calls_run_witness:
  "\<exists>c tool. c \<in> set (ag_handed (snd toy_run)) \<and> map_of (rg_tools toy_registry) (cl_tool_name c) = Some tool
     \<and> td_required_capabilities (tl_definition tool) = [] \<and> td_side_effect (tl_definition tool) = SideReadOnly"
proof -
  obtain c where c: "ag_handed (snd toy_run) = [c]" using toy_answer(2) by blast
  then have "c \<in> set (drop (length (ag_handed toy_agent)) (ag_handed (snd toy_run)))" by (simp add: toy_agent_def)
  from only_admitted_calls_run [OF prod.collapse [symmetric] this] show ?thesis
    using c toy_limits(4,5) by (metis list.set_intros(1) set_empty subset_empty)
qed

theorem run_result_sanitized_witness:
  "\<exists>r. fst toy_run = Inr r \<and> char_count (rr_answer r) \<le> 8192 \<and> list_all sanitized (rr_tool_results r)"
proof -
  obtain r where r: "fst toy_run = Inr r" using toy_answer(1) by blast
  then have "toy_run = (Inr r, snd toy_run)" by (metis prod.collapse)
  from run_result_sanitized [OF this] r show ?thesis by blast
qed

theorem run_keeps_audit_valid_witness:
  "vf_valid (verify_audit_chain (re_memory toy_agent_env) (TenantId ''a'') (ag_memory (snd toy_run)))"
proof -
  have "memory_reachable (re_memory toy_agent_env) (ag_memory toy_agent)" by (simp add: toy_agent_def M_empty)
  from run_keeps_audit_valid [OF this prod.collapse [symmetric]] show ?thesis by blast
qed

text \<open>A tool that does not exist.\<close>

abbreviation no_tool :: model_tool_call where
  "no_tool \<equiv> \<lparr>mc_tool_name = ''none'', mc_arguments = JNull\<rparr>"


end
