(* ===== verification/Skill_Registry.thy ===== *)
theory Skill_Registry
  imports Agent_Tools "HOL-Library.AList"
begin

text \<open>
  \<^verbatim>\<open>crates/shaka-skills/src/lib.rs\<close>: skills are WASM artifacts with a manifest; a registry holds their
  life cycle and approvals, a trust store the public keys that may sign an approval. A \<open>HashMap\<close> is an
  association list with one entry for a key. The two readings of the clock in an operation are one
  moment. Byte strings are texts, paths are texts.
\<close>

subsection \<open>Data\<close>

datatype skill_status = Specified | Generated | Tested | Candidate | Active | Deprecated | Revoked

fun skill_status_debug :: "skill_status \<Rightarrow> string" where
  "skill_status_debug Specified = ''Specified''"
| "skill_status_debug Generated = ''Generated''"
| "skill_status_debug Tested = ''Tested''"
| "skill_status_debug Candidate = ''Candidate''"
| "skill_status_debug Active = ''Active''"
| "skill_status_debug Deprecated = ''Deprecated''"
| "skill_status_debug Revoked = ''Revoked''"

record skill_manifest =
  mf_name :: string
  mf_version :: string
  mf_description :: string
  mf_permissions :: "capability list"
  mf_input_schema :: json
  mf_output_schema :: json
  mf_status :: skill_status
  mf_artifact_sha256 :: "string option"

datatype skill_error =
  SkillExists string | SkillNotFound string | SkillTransition skill_status skill_status
| SkillApprovalInvalid string | UnsignedApproval | InvalidSignature | UnsupportedApprovalProtocol
| ManifestAuthorityMismatch | InvalidKey string | UntrustedKey string | RevokedKey string
| ArtifactHashMismatch | MissingArtifactPath | InsecureKeyFile string | ExcessivePermission capability
| KeyFileExists string | KeyExists string | KeyNotFound string | SkillIo string | SkillSerialization string

fun skill_error_text :: "skill_error \<Rightarrow> string" where
  "skill_error_text (SkillExists s) = ''skill ja existe: '' @ s"
| "skill_error_text (SkillNotFound s) = ''skill nao encontrada: '' @ s"
| "skill_error_text (SkillTransition a b) =
     ''transicao nao permitida: '' @ skill_status_debug a @ '' -> '' @ skill_status_debug b"
| "skill_error_text (SkillApprovalInvalid s) = ''aprovacao invalida: '' @ s"
| "skill_error_text UnsignedApproval = ''aprovacao assinada e obrigatoria para execucao da skill''"
| "skill_error_text InvalidSignature = ''assinatura da aprovacao e invalida''"
| "skill_error_text UnsupportedApprovalProtocol = ''protocolo de aprovacao legado ou nao suportado''"
| "skill_error_text ManifestAuthorityMismatch = ''autoridade declarativa da skill nao corresponde a aprovacao''"
| "skill_error_text (InvalidKey s) = ''chave de assinatura invalida: '' @ s"
| "skill_error_text (UntrustedKey s) = ''chave nao confiavel: '' @ s"
| "skill_error_text (RevokedKey s) = ''chave revogada: '' @ s"
| "skill_error_text ArtifactHashMismatch = ''hash do artefato nao corresponde a aprovacao''"
| "skill_error_text MissingArtifactPath = ''artefato aprovado nao possui caminho verificavel''"
| "skill_error_text (InsecureKeyFile p) = ''permissoes inseguras no arquivo de chave: '' @ p"
| "skill_error_text (ExcessivePermission c) = ''permissao excessiva para skill: '' @ capability_debug c"
| "skill_error_text (KeyFileExists p) = ''arquivo de chave ja existe: '' @ p"
| "skill_error_text (KeyExists s) = ''chave confiavel ja existe: '' @ s"
| "skill_error_text (KeyNotFound s) = ''chave confiavel nao encontrada: '' @ s"
| "skill_error_text (SkillIo s) = ''erro de arquivo: '' @ s"
| "skill_error_text (SkillSerialization s) = ''erro de serializacao: '' @ s"

definition APPROVAL_PROTOCOL_V1 :: string where "APPROVAL_PROTOCOL_V1 = ''shaka-skill-approval-v1''"
definition APPROVAL_PROTOCOL_V2 :: string where "APPROVAL_PROTOCOL_V2 = ''shaka-skill-approval-v2''"

record approval_attestation =
  aa_protocol :: string
  aa_key_id :: string
  aa_public_key_hex :: string
  aa_signature_hex :: string

record approval_binding =
  bi_name :: string
  bi_version :: string
  bi_operator :: operator_id
  bi_artifact_sha256 :: string
  bi_reason :: string
  bi_manifest_authority_sha256 :: string

record skill_approval =
  sa_operator :: operator_id
  sa_approved_at :: instant
  sa_artifact_sha256 :: string
  sa_manifest_authority_sha256 :: "string option"
  sa_artifact_path :: "string option"
  sa_reason :: string
  sa_attestation :: "approval_attestation option"

record skill_record =
  sk_manifest :: skill_manifest
  sk_approval :: "skill_approval option"
  sk_created_at :: instant
  sk_updated_at :: instant

record trusted_key =
  ky_key_id :: string
  ky_public_key_hex :: string
  ky_description :: string
  ky_added_by :: operator_id
  ky_added_at :: instant
  ky_revoked_at :: "instant option"

type_synonym trust_store = "(string \<times> trusted_key) list"
type_synonym skill_registry = "(string \<times> skill_record) list"

text \<open>The libraries: SHA-256 as hexadecimal text, \<open>hex\<close>, \<open>ed25519_dalek\<close> (is a text of 32 bytes a public
  key, the public key of a seed, signing and verifying), the JSON of the authority of a manifest, and the
  file system: resolving a path, the content of a file.\<close>

record skill_env =
  ke_sha :: "string \<Rightarrow> string"
  ke_hex :: "string \<Rightarrow> string"
  ke_unhex :: "string \<Rightarrow> string option"
  ke_key_ok :: "string \<Rightarrow> bool"
  ke_public :: "string \<Rightarrow> string"
  ke_sign :: "string \<Rightarrow> string \<Rightarrow> string"
  ke_verify :: "string \<Rightarrow> string \<Rightarrow> string \<Rightarrow> bool"
  ke_authority_json :: "string list \<Rightarrow> json \<Rightarrow> json \<Rightarrow> string"
  ke_canonicalize :: "string \<Rightarrow> string + string"
  ke_file :: "string \<Rightarrow> string + string"

subsection \<open>Validation\<close>

definition validate_hash :: "string \<Rightarrow> skill_error + string" where
  "validate_hash value =
     (if length value \<noteq> 64 \<or> \<not> list_all ascii_hexdigit value then
        Inl (SkillApprovalInvalid ''artifact_sha256 deve conter 64 caracteres hexadecimais'')
      else Inr (map ascii_lower value))"

definition validate_reason :: "string \<Rightarrow> skill_error + string" where
  "validate_reason value =
     (if trim_is_empty value then Inl (SkillApprovalInvalid ''a aprovacao precisa registrar uma justificativa'')
      else if length value > 4096 then Inl (SkillApprovalInvalid ''a justificativa nao pode exceder 4096 bytes'')
      else Inr value)"

text \<open>\<open>chars().any(char::is_whitespace)\<close>, on bytes.\<close>

fun any_white :: "string \<Rightarrow> bool" where
  "any_white [] = False"
| "any_white (a # s) =
     (ascii_white a
      \<or> (case s of [] \<Rightarrow> False | b # s' \<Rightarrow>
           (a = CHR 0xC2 \<and> (b = CHR 0x85 \<or> b = CHR 0xA0))
           \<or> (case s' of [] \<Rightarrow> False | c # _ \<Rightarrow> wide_white a b c))
      \<or> any_white s)"

definition validate_key_id :: "string \<Rightarrow> skill_error + string" where
  "validate_key_id value =
     (if trim_is_empty value \<or> length value > 128 \<or> any_white value then
        Inl (InvalidKey ''key_id deve ser nao vazio, ter ate 128 caracteres e nao conter espacos'')
      else Inr value)"

definition verifying_key_from_hex :: "skill_env \<Rightarrow> string \<Rightarrow> skill_error + string" where
  "verifying_key_from_hex K value =
     and_then (ok_or (InvalidKey ''chave publica hex invalida'') (ke_unhex K value)) (\<lambda>bytes.
     and_then (ensure (length bytes = 32) (InvalidKey ''chave publica Ed25519 deve conter 32 bytes'')) (\<lambda>_.
     and_then (ensure (ke_key_ok K bytes) (InvalidKey ''chave publica Ed25519 invalida'')) (\<lambda>_.
     Inr bytes)))"

definition normalize_public_key :: "skill_env \<Rightarrow> string \<Rightarrow> skill_error + string" where
  "normalize_public_key K value = and_then (verifying_key_from_hex K value) (\<lambda>key. Inr (ke_hex K key))"

definition sha256_file :: "skill_env \<Rightarrow> string \<Rightarrow> skill_error + string" where
  "sha256_file K path = and_then (map_err SkillIo (ke_file K path)) (\<lambda>content. Inr (ke_sha K content))"

subsection \<open>The authority of a manifest\<close>

fun capability_label :: "capability \<Rightarrow> string" where
  "capability_label Network = ''network''"
| "capability_label FilesystemRead = ''filesystem_read''"
| "capability_label FilesystemWrite = ''filesystem_write''"
| "capability_label CodeExecution = ''code_execution''"
| "capability_label ExternalMessaging = ''external_messaging''"
| "capability_label MemoryWrite = ''memory_write''"

lemma member_smaller: "(key, value) \<in> set object \<Longrightarrow> size value < Suc (size_list (size_prod (\<lambda>x. 0) size) object)"
  by (induction object) auto

function (sequential) canonicalize_json :: "json \<Rightarrow> json" where
  "canonicalize_json (JObject object) =
     JObject (map (\<lambda>(key, value). (key, canonicalize_json value)) (sort_key fst object))"
| "canonicalize_json (JArray items) = JArray (map canonicalize_json items)"
| "canonicalize_json scalar = scalar"
  by pat_completeness auto

termination
  by (relation "measure size") (auto simp: member_smaller less_Suc_eq_le size_list_estimation')

definition authority_labels :: "capability list \<Rightarrow> string list" where
  "authority_labels permissions = remdups_adj (sort (map capability_label permissions))"

definition manifest_authority_sha256 :: "skill_env \<Rightarrow> capability list \<Rightarrow> json \<Rightarrow> json \<Rightarrow> string" where
  "manifest_authority_sha256 K permissions input_schema output_schema =
     ke_sha K (''shaka-skill-manifest-authority-v1'' @ [CHR 0x00]
       @ ke_authority_json K (authority_labels permissions) (canonicalize_json input_schema)
           (canonicalize_json output_schema))"

definition manifest_authority :: "skill_env \<Rightarrow> skill_manifest \<Rightarrow> string" where
  "manifest_authority K m = manifest_authority_sha256 K (mf_permissions m) (mf_input_schema m) (mf_output_schema m)"

subsection \<open>The signed text\<close>

definition payload_field :: "string \<times> string \<Rightarrow> string" where
  "payload_field f = (case f of (label, value) \<Rightarrow>
     label @ ''='' @ show_nat (length value) @ '':'' @ value @ [CHR 0x00])"

definition approval_payload :: "string \<Rightarrow> (string \<times> string) list \<Rightarrow> string" where
  "approval_payload protocol fs = protocol @ [CHR 0x00] @ concat (map payload_field fs)"

definition approval_payload_v1 :: "string \<Rightarrow> string \<Rightarrow> operator_id \<Rightarrow> string \<Rightarrow> string \<Rightarrow> string" where
  "approval_payload_v1 name version operator artifact_sha256 reason =
     approval_payload APPROVAL_PROTOCOL_V1 [(''name'', name), (''version'', version),
       (''operator_id'', operator_str operator), (''artifact_sha256'', artifact_sha256), (''reason'', reason)]"

definition approval_payload_v2 :: "approval_binding \<Rightarrow> string" where
  "approval_payload_v2 b =
     approval_payload APPROVAL_PROTOCOL_V2 [(''name'', bi_name b), (''version'', bi_version b),
       (''operator_id'', operator_str (bi_operator b)), (''artifact_sha256'', bi_artifact_sha256 b),
       (''reason'', bi_reason b), (''manifest_authority_sha256'', bi_manifest_authority_sha256 b)]"

definition attest :: "skill_env \<Rightarrow> string \<Rightarrow> string \<Rightarrow> string \<Rightarrow> string \<Rightarrow> approval_attestation" where
  "attest K protocol payload key_id seed =
     \<lparr>aa_protocol = protocol, aa_key_id = key_id, aa_public_key_hex = ke_hex K (ke_public K seed),
      aa_signature_hex = ke_hex K (ke_sign K seed payload)\<rparr>"

definition sign_approval ::
    "skill_env \<Rightarrow> string \<Rightarrow> string \<Rightarrow> operator_id \<Rightarrow> string \<Rightarrow> string \<Rightarrow> string \<Rightarrow> string \<Rightarrow> approval_attestation" where
  "sign_approval K name version operator artifact_sha256 reason key_id seed =
     attest K APPROVAL_PROTOCOL_V1 (approval_payload_v1 name version operator artifact_sha256 reason) key_id seed"

definition sign_approval_v2 :: "skill_env \<Rightarrow> approval_binding \<Rightarrow> string \<Rightarrow> string \<Rightarrow> approval_attestation" where
  "sign_approval_v2 K b key_id seed = attest K APPROVAL_PROTOCOL_V2 (approval_payload_v2 b) key_id seed"

subsection \<open>The trust store\<close>

definition add_key ::
    "skill_env \<Rightarrow> instant \<Rightarrow> string \<Rightarrow> string \<Rightarrow> string \<Rightarrow> operator_id \<Rightarrow> trust_store \<Rightarrow>
     skill_error + (trusted_key \<times> trust_store)" where
  "add_key K now key_id public_key_hex description added_by T =
     and_then (validate_key_id key_id) (\<lambda>key_id.
     and_then (normalize_public_key K public_key_hex) (\<lambda>public_key_hex.
     and_then (ensure (\<not> trim_is_empty description) (InvalidKey ''description nao pode ser vazia'')) (\<lambda>_.
     and_then (ensure (map_of T key_id = None) (KeyExists key_id)) (\<lambda>_.
     let record = \<lparr>ky_key_id = key_id, ky_public_key_hex = public_key_hex, ky_description = description,
       ky_added_by = added_by, ky_added_at = now, ky_revoked_at = None\<rparr>
     in Inr (record, AList.update key_id record T)))))"

definition revoke_key :: "instant \<Rightarrow> string \<Rightarrow> trust_store \<Rightarrow> skill_error + (trusted_key \<times> trust_store)" where
  "revoke_key now key_id T =
     and_then (ok_or (KeyNotFound key_id) (map_of T key_id)) (\<lambda>record.
     let record = record\<lparr>ky_revoked_at := Some now\<rparr> in Inr (record, AList.update key_id record T))"

definition list_keys :: "trust_store \<Rightarrow> trusted_key list" where
  "list_keys T = sort_key ky_key_id (map snd T)"

definition verify_attestation ::
    "skill_env \<Rightarrow> trust_store \<Rightarrow> approval_binding \<Rightarrow> approval_attestation \<Rightarrow> skill_error + unit" where
  "verify_attestation K T b a =
     and_then (ensure (aa_protocol a = APPROVAL_PROTOCOL_V2) UnsupportedApprovalProtocol) (\<lambda>_.
     and_then (ok_or (UntrustedKey (aa_key_id a)) (map_of T (aa_key_id a))) (\<lambda>trusted.
     and_then (ensure (ky_revoked_at trusted = None) (RevokedKey (aa_key_id a))) (\<lambda>_.
     and_then (ensure (ky_public_key_hex trusted = aa_public_key_hex a) (UntrustedKey (aa_key_id a))) (\<lambda>_.
     and_then (verifying_key_from_hex K (aa_public_key_hex a)) (\<lambda>verifying_key.
     and_then (ok_or InvalidSignature (ke_unhex K (aa_signature_hex a))) (\<lambda>signature.
     and_then (ensure (length signature = 64) InvalidSignature) (\<lambda>_.
     ensure (ke_verify K verifying_key (approval_payload_v2 b) signature) InvalidSignature)))))))"

subsection \<open>The registry\<close>

definition ensure_candidate :: "skill_record \<Rightarrow> skill_error + unit" where
  "ensure_candidate r =
     ensure (mf_status (sk_manifest r) = Candidate) (SkillTransition (mf_status (sk_manifest r)) Active)"

definition register_candidate :: "instant \<Rightarrow> skill_manifest \<Rightarrow> skill_registry \<Rightarrow> skill_error + skill_registry" where
  "register_candidate now m R =
     (if map_of R (mf_name m) \<noteq> None then Inl (SkillExists (mf_name m))
      else if mf_status m \<noteq> Candidate then Inl (SkillTransition (mf_status m) Candidate)
      else if Network \<in> set (mf_permissions m) \<and> ExternalMessaging \<in> set (mf_permissions m) then
        Inl (ExcessivePermission ExternalMessaging)
      else Inr (AList.update (mf_name m)
        \<lparr>sk_manifest = m, sk_approval = None, sk_created_at = now, sk_updated_at = now\<rparr> R))"

text \<open>The end of every approval: the skill is active, with the artifact and the approval.\<close>

definition activate :: "instant \<Rightarrow> string \<Rightarrow> skill_approval \<Rightarrow> skill_record \<Rightarrow> skill_record" where
  "activate now artifact_sha256 a r =
     r\<lparr>sk_manifest := (sk_manifest r)\<lparr>mf_status := Active, mf_artifact_sha256 := Some artifact_sha256\<rparr>,
       sk_approval := Some a, sk_updated_at := now\<rparr>"

definition approve ::
    "instant \<Rightarrow> string \<Rightarrow> operator_id \<Rightarrow> string \<Rightarrow> string \<Rightarrow> skill_registry \<Rightarrow> skill_error + (skill_record \<times> skill_registry)"
  where
  "approve now name operator artifact_sha256 reason R =
     and_then (ok_or (SkillNotFound name) (map_of R name)) (\<lambda>r.
     and_then (ensure_candidate r) (\<lambda>_.
     and_then (validate_hash artifact_sha256) (\<lambda>artifact_sha256.
     and_then (validate_reason reason) (\<lambda>reason.
     let r = activate now artifact_sha256 \<lparr>sa_operator = operator, sa_approved_at = now,
       sa_artifact_sha256 = artifact_sha256, sa_manifest_authority_sha256 = None, sa_artifact_path = None,
       sa_reason = reason, sa_attestation = None\<rparr> r
     in Inr (r, AList.update name r R)))))"

definition approve_with_artifact ::
    "instant \<Rightarrow> string \<Rightarrow> operator_id \<Rightarrow> string \<Rightarrow> string \<Rightarrow> string \<Rightarrow> skill_registry \<Rightarrow>
     skill_error + (skill_record \<times> skill_registry)" where
  "approve_with_artifact now name operator artifact_sha256 artifact_path reason R =
     and_then (ok_or (SkillNotFound name) (map_of R name)) (\<lambda>r.
     and_then (ensure_candidate r) (\<lambda>_.
     and_then (validate_hash artifact_sha256) (\<lambda>artifact_sha256.
     and_then (validate_reason reason) (\<lambda>reason.
     let r = activate now artifact_sha256 \<lparr>sa_operator = operator, sa_approved_at = now,
       sa_artifact_sha256 = artifact_sha256, sa_manifest_authority_sha256 = None,
       sa_artifact_path = Some artifact_path, sa_reason = reason, sa_attestation = None\<rparr> r
     in Inr (r, AList.update name r R)))))"

definition approve_artifact ::
    "skill_env \<Rightarrow> instant \<Rightarrow> string \<Rightarrow> operator_id \<Rightarrow> string \<Rightarrow> string \<Rightarrow> skill_registry \<Rightarrow>
     skill_error + (skill_record \<times> skill_registry)" where
  "approve_artifact K now name operator artifact_path reason R =
     and_then (map_err SkillIo (ke_canonicalize K artifact_path)) (\<lambda>path.
     and_then (sha256_file K path) (\<lambda>actual_sha256.
     approve_with_artifact now name operator actual_sha256 path reason R))"

record attested_approval =
  ta'_operator :: operator_id
  ta'_artifact_sha256 :: string
  ta'_artifact_path :: string
  ta'_reason :: string
  ta'_manifest_authority_sha256 :: string
  ta'_attestation :: approval_attestation

definition approve_with_attestation ::
    "instant \<Rightarrow> string \<Rightarrow> attested_approval \<Rightarrow> skill_registry \<Rightarrow> skill_error + (skill_record \<times> skill_registry)" where
  "approve_with_attestation now name a R =
     and_then (ok_or (SkillNotFound name) (map_of R name)) (\<lambda>r.
     and_then (ensure_candidate r) (\<lambda>_.
     and_then (validate_hash (ta'_artifact_sha256 a)) (\<lambda>artifact_sha256.
     let r = activate now artifact_sha256 \<lparr>sa_operator = ta'_operator a, sa_approved_at = now,
       sa_artifact_sha256 = artifact_sha256,
       sa_manifest_authority_sha256 = Some (ta'_manifest_authority_sha256 a),
       sa_artifact_path = Some (ta'_artifact_path a), sa_reason = ta'_reason a,
       sa_attestation = Some (ta'_attestation a)\<rparr> r
     in Inr (r, AList.update name r R))))"

definition approve_signed_artifact ::
    "skill_env \<Rightarrow> instant \<Rightarrow> string \<Rightarrow> operator_id \<Rightarrow> string \<Rightarrow> string \<Rightarrow> string \<Rightarrow> string \<Rightarrow> skill_registry \<Rightarrow>
     skill_error + (skill_record \<times> skill_registry)" where
  "approve_signed_artifact K now name operator artifact_path key_id seed reason R =
     and_then (map_err SkillIo (ke_canonicalize K artifact_path)) (\<lambda>path.
     and_then (sha256_file K path) (\<lambda>artifact_sha256.
     and_then (ok_or (SkillNotFound name) (map_of R name)) (\<lambda>r.
     and_then (validate_key_id key_id) (\<lambda>key_id.
     and_then (validate_reason reason) (\<lambda>reason.
     let authority = manifest_authority K (sk_manifest r);
         b = \<lparr>bi_name = name, bi_version = mf_version (sk_manifest r), bi_operator = operator,
           bi_artifact_sha256 = artifact_sha256, bi_reason = reason, bi_manifest_authority_sha256 = authority\<rparr>
     in approve_with_attestation now name \<lparr>ta'_operator = operator, ta'_artifact_sha256 = artifact_sha256,
          ta'_artifact_path = path, ta'_reason = reason, ta'_manifest_authority_sha256 = authority,
          ta'_attestation = sign_approval_v2 K b key_id seed\<rparr> R)))))"

definition revoke :: "instant \<Rightarrow> string \<Rightarrow> skill_registry \<Rightarrow> skill_error + (skill_record \<times> skill_registry)" where
  "revoke now name R =
     and_then (ok_or (SkillNotFound name) (map_of R name)) (\<lambda>r.
     and_then (ensure (mf_status (sk_manifest r) = Active) (SkillTransition (mf_status (sk_manifest r)) Revoked)) (\<lambda>_.
     let r = r\<lparr>sk_manifest := (sk_manifest r)\<lparr>mf_status := Revoked\<rparr>, sk_updated_at := now\<rparr>
     in Inr (r, AList.update name r R)))"

definition active_skills :: "skill_registry \<Rightarrow> skill_record list" where
  "active_skills R = filter (\<lambda>r. mf_status (sk_manifest r) = Active) (map snd R)"

subsection \<open>What may be executed\<close>

record active_skill_artifact =
  ar_name :: string
  ar_version :: string
  ar_description :: string
  ar_permissions :: "capability list"
  ar_input_schema :: json
  ar_output_schema :: json
  ar_artifact_path :: string
  ar_artifact_sha256 :: string
  ar_manifest_authority_sha256 :: string
  ar_attestation :: approval_attestation
  ar_approval_operator :: operator_id
  ar_approval_reason :: string

definition artifact_of ::
    "skill_manifest \<Rightarrow> skill_approval \<Rightarrow> string \<Rightarrow> string \<Rightarrow> string \<Rightarrow> approval_attestation \<Rightarrow> active_skill_artifact"
  where
  "artifact_of m a path sha authority att =
     \<lparr>ar_name = mf_name m, ar_version = mf_version m, ar_description = mf_description m,
      ar_permissions = mf_permissions m, ar_input_schema = mf_input_schema m,
      ar_output_schema = mf_output_schema m, ar_artifact_path = path, ar_artifact_sha256 = sha,
      ar_manifest_authority_sha256 = authority, ar_attestation = att,
      ar_approval_operator = sa_operator a, ar_approval_reason = sa_reason a\<rparr>"

definition verified_artifact :: "skill_env \<Rightarrow> trust_store \<Rightarrow> skill_record \<Rightarrow> skill_error + active_skill_artifact" where
  "verified_artifact K T r =
     (let m = sk_manifest r in
      and_then (ok_or UnsignedApproval (sk_approval r)) (\<lambda>a.
      and_then (ok_or UnsignedApproval (sa_attestation a)) (\<lambda>att.
      and_then (ok_or MissingArtifactPath (sa_artifact_path a)) (\<lambda>path.
      and_then (sha256_file K path) (\<lambda>actual.
      and_then (ensure (actual = sa_artifact_sha256 a \<and> Some actual = mf_artifact_sha256 m) ArtifactHashMismatch) (\<lambda>_.
      and_then (ok_or UnsupportedApprovalProtocol (sa_manifest_authority_sha256 a)) (\<lambda>authority.
      and_then (ensure (manifest_authority K m = authority) ManifestAuthorityMismatch) (\<lambda>_.
      and_then (verify_attestation K T \<lparr>bi_name = mf_name m, bi_version = mf_version m, bi_operator = sa_operator a,
          bi_artifact_sha256 = sa_artifact_sha256 a, bi_reason = sa_reason a,
          bi_manifest_authority_sha256 = authority\<rparr> att) (\<lambda>_.
      Inr (artifact_of m a path (sa_artifact_sha256 a) authority att))))))))))"

definition active_verified_artifacts ::
    "skill_env \<Rightarrow> trust_store \<Rightarrow> skill_registry \<Rightarrow> skill_error + active_skill_artifact list" where
  "active_verified_artifacts K T R =
     and_then (collect_results (verified_artifact K T) (active_skills R)) (\<lambda>artifacts.
     Inr (sort_key ar_name artifacts))"

definition active_artifacts :: "skill_registry \<Rightarrow> active_skill_artifact list" where
  "active_artifacts R =
     List.map_filter (\<lambda>r.
       Option.bind (sk_approval r) (\<lambda>a.
       Option.bind (sa_artifact_path a) (\<lambda>path.
       Option.bind (mf_artifact_sha256 (sk_manifest r)) (\<lambda>sha.
       Option.bind (sa_attestation a) (\<lambda>att.
       Option.bind (sa_manifest_authority_sha256 a) (\<lambda>authority.
       Some (artifact_of (sk_manifest r) a path sha authority att)))))))
     (active_skills R)"

end
