(* ===== verification/Skill_Facts.thy ===== *)
theory Skill_Facts
  imports Skill_Registry
begin

text \<open>
  What the governance of skills guarantees, through any sequence of operations on the registry and the
  trust store, while the file system changes in between: what may be executed was signed as it is, and
  revocation of a skill or of a key is final.
\<close>

subsection \<open>The signed text determines the decision\<close>

lemma split_at_first:
  "a @ c # x = b @ c # y \<Longrightarrow> c \<notin> set a \<Longrightarrow> c \<notin> set b \<Longrightarrow> a = b \<and> x = y"
proof (induction a arbitrary: b)
  case Nil
  then show ?case by (cases b) auto
next
  case (Cons u a)
  then obtain v b' where b: "b = v # b'" by (cases b) auto
  with Cons.prems have "a @ c # x = b' @ c # y" "c \<notin> set a" "c \<notin> set b'" "u = v" by auto
  with Cons.IH [of b'] b show ?case by blast
qed

lemma payload_field_inject:
  assumes "payload_field (label, v) @ xs = payload_field (label, w) @ ys"
  shows "v = w \<and> xs = ys"
proof -
  have "show_nat (length v) @ CHR '':'' # v @ CHR 0x00 # xs = show_nat (length w) @ CHR '':'' # w @ CHR 0x00 # ys"
    using assms by (simp add: payload_field_def)
  then have "show_nat (length v) = show_nat (length w)" "v @ CHR 0x00 # xs = w @ CHR 0x00 # ys"
    using split_at_first [OF _ show_nat_no_colon show_nat_no_colon] by blast+
  then show ?thesis by (simp add: show_nat_inject)
qed

lemma approval_payload_inject:
  "map fst fs = map fst gs \<Longrightarrow> approval_payload protocol fs = approval_payload protocol gs \<Longrightarrow> fs = gs"
proof -
  have "map fst fs = map fst gs \<Longrightarrow> concat (map payload_field fs) = concat (map payload_field gs) \<Longrightarrow> fs = gs"
  proof (induction fs arbitrary: gs)
    case (Cons f fs)
    then obtain g gs' where gs: "gs = g # gs'" by (cases gs) auto
    obtain l v w where fg: "f = (l, v)" "g = (l, w)"
      using Cons.prems(1) gs by (cases f; cases g) auto
    have "v = w \<and> concat (map payload_field fs) = concat (map payload_field gs')"
      using payload_field_inject [of l v _ w] Cons.prems(2) by (simp add: gs fg)
    then show ?case using Cons.IH [of gs'] Cons.prems(1) by (simp add: gs fg)
  qed simp
  then show "map fst fs = map fst gs \<Longrightarrow> approval_payload protocol fs = approval_payload protocol gs \<Longrightarrow> fs = gs"
    by (simp add: approval_payload_def)
qed

lemma payload_v2_inject:
  assumes "approval_payload_v2 b = approval_payload_v2 c"
  shows "b = (c :: approval_binding)"
proof -
  note same = approval_payload_inject [OF _ assms [unfolded approval_payload_v2_def]]
  have "operator_str (bi_operator b) = operator_str (bi_operator c)" using same by simp
  then have "bi_operator b = bi_operator c" by (rule operator_id.expand)
  with same show ?thesis by simp
qed

subsection \<open>Operations in any order\<close>

text \<open>A state is the registry, the trust store and, as a ghost, the decisions that were signed, with the
  key that signed them. Every operation sees the files as they are at that moment.\<close>

type_synonym skill_state = "(string \<times> approval_binding) list \<times> skill_registry \<times> trust_store"

definition at_files :: "skill_env \<Rightarrow> (string \<Rightarrow> string + string) \<Rightarrow> (string \<Rightarrow> string + string) \<Rightarrow> skill_env" where
  "at_files K resolve disk = K\<lparr>ke_canonicalize := resolve, ke_file := disk\<rparr>"

definition decision :: "skill_env \<Rightarrow> string \<Rightarrow> operator_id \<Rightarrow> string \<Rightarrow> string \<Rightarrow> skill_manifest \<Rightarrow> approval_binding" where
  "decision K name operator sha reason m =
     \<lparr>bi_name = name, bi_version = mf_version m, bi_operator = operator, bi_artifact_sha256 = sha,
      bi_reason = reason, bi_manifest_authority_sha256 = manifest_authority K m\<rparr>"

inductive skill_step :: "skill_env \<Rightarrow> skill_state \<Rightarrow> skill_state \<Rightarrow> bool" for K :: skill_env where
  K_add: "add_key K now key_id public_key description by T = Inr (k, T') \<Longrightarrow> skill_step K (evs, R, T) (evs, R, T')"
| K_revoke: "revoke_key now key_id T = Inr (k, T') \<Longrightarrow> skill_step K (evs, R, T) (evs, R, T')"
| K_register: "register_candidate now m R = Inr R' \<Longrightarrow> skill_step K (evs, R, T) (evs, R', T)"
| K_approve: "approve now name operator sha reason R = Inr (r, R') \<Longrightarrow> skill_step K (evs, R, T) (evs, R', T)"
| K_artifact: "approve_artifact (at_files K resolve disk) now name operator path reason R = Inr (r, R') \<Longrightarrow>
    skill_step K (evs, R, T) (evs, R', T)"
| K_signed: "approve_signed_artifact (at_files K resolve disk) now name operator path key_id seed reason R = Inr (r, R')
    \<Longrightarrow> map_of R name = Some q \<Longrightarrow> resolve path = Inr real \<Longrightarrow> disk real = Inr content \<Longrightarrow>
    skill_step K (evs, R, T)
      ((ke_public K seed, decision K name operator (ke_sha K content) reason (sk_manifest q)) # evs, R', T)"
| K_revoke_skill: "revoke now name R = Inr (r, R') \<Longrightarrow> skill_step K (evs, R, T) (evs, R', T)"

inductive skill_reachable :: "skill_env \<Rightarrow> skill_state \<Rightarrow> bool" for K :: skill_env where
  K_empty: "skill_reachable K ([], [], [])"
| K_step: "skill_reachable K s \<Longrightarrow> skill_step K s s' \<Longrightarrow> skill_reachable K s'"

subsection \<open>Every operation changes one skill, in one way\<close>

text \<open>What an operation may make of a record: a candidate becomes active, an active skill revoked; the
  manifest otherwise stays.\<close>

definition same_manifest :: "skill_record \<Rightarrow> skill_record \<Rightarrow> bool" where
  "same_manifest r q \<longleftrightarrow> mf_name (sk_manifest q) = mf_name (sk_manifest r)
     \<and> mf_version (sk_manifest q) = mf_version (sk_manifest r)
     \<and> mf_permissions (sk_manifest q) = mf_permissions (sk_manifest r)
     \<and> mf_input_schema (sk_manifest q) = mf_input_schema (sk_manifest r)
     \<and> mf_output_schema (sk_manifest q) = mf_output_schema (sk_manifest r)"

definition skill_moves :: "skill_record \<Rightarrow> skill_record \<Rightarrow> bool" where
  "skill_moves r q \<longleftrightarrow> q = r \<or> same_manifest r q \<and>
     (mf_status (sk_manifest r) = Candidate \<and> mf_status (sk_manifest q) = Active \<and> sk_approval q \<noteq> None
      \<or> mf_status (sk_manifest r) = Active \<and> mf_status (sk_manifest q) = Revoked \<and> sk_approval q = sk_approval r)"

definition registry_moves :: "skill_registry \<Rightarrow> skill_registry \<Rightarrow> bool" where
  "registry_moves R R' \<longleftrightarrow> (\<forall>name r. map_of R name = Some r \<longrightarrow>
     (\<exists>q. map_of R' name = Some q \<and> skill_moves r q))"

definition key_moves :: "trusted_key \<Rightarrow> trusted_key \<Rightarrow> bool" where
  "key_moves k j \<longleftrightarrow> ky_public_key_hex j = ky_public_key_hex k \<and> (ky_revoked_at k \<noteq> None \<longrightarrow> ky_revoked_at j \<noteq> None)"

definition trust_moves :: "trust_store \<Rightarrow> trust_store \<Rightarrow> bool" where
  "trust_moves T T' \<longleftrightarrow> (\<forall>kid k. map_of T kid = Some k \<longrightarrow> (\<exists>j. map_of T' kid = Some j \<and> key_moves k j))"

lemma update_registry_moves:
  "map_of R name = Some r \<Longrightarrow> skill_moves r q \<Longrightarrow> registry_moves R (AList.update name q R)"
  by (auto simp: registry_moves_def update_conv' skill_moves_def)

lemma update_new_moves: "map_of R name = None \<Longrightarrow> registry_moves R (AList.update name q R)"
  by (auto simp: registry_moves_def update_conv' skill_moves_def)

lemma activate_moves:
  "mf_status (sk_manifest r) = Candidate \<Longrightarrow> skill_moves r (activate now sha a r)"
  by (simp add: skill_moves_def same_manifest_def activate_def)

lemma approve_moves:
  "approve now name operator sha reason R = Inr (r, R') \<Longrightarrow> registry_moves R R'"
  "approve_with_artifact now name operator sha path reason R = Inr (r, R') \<Longrightarrow> registry_moves R R'"
  "approve_with_attestation now name a R = Inr (r, R') \<Longrightarrow> registry_moves R R'"
  by (auto simp: approve_def approve_with_artifact_def approve_with_attestation_def result_simps Let_def
      ensure_candidate_def intro: update_registry_moves activate_moves)

lemma skill_revoke_moves: "revoke now name R = Inr (r, R') \<Longrightarrow> registry_moves R R'"
  by (auto simp: revoke_def result_simps Let_def skill_moves_def same_manifest_def intro!: update_registry_moves)

lemma register_moves: "register_candidate now m R = Inr R' \<Longrightarrow> registry_moves R R'"
  by (auto simp: register_candidate_def intro: update_new_moves split: if_splits)

lemma same_registry_moves: "registry_moves R R"
  by (auto simp: registry_moves_def skill_moves_def)

lemma same_trust_moves: "trust_moves T T"
  by (auto simp: trust_moves_def key_moves_def)

lemma key_operation_moves:
  "add_key K now key_id public_key description by T = Inr (k, T') \<Longrightarrow> trust_moves T T'"
  "revoke_key now key_id T = Inr (k, T') \<Longrightarrow> trust_moves T T'"
  by (auto simp: add_key_def revoke_key_def result_simps Let_def trust_moves_def key_moves_def update_conv'
      validate_key_id_def split: if_splits)

lemma skill_step_moves:
  "skill_step K s s' \<Longrightarrow> registry_moves (fst (snd s)) (fst (snd s')) \<and> trust_moves (snd (snd s)) (snd (snd s'))"
  by (induction rule: skill_step.induct)
    (auto intro: approve_moves skill_revoke_moves register_moves same_registry_moves same_trust_moves key_operation_moves
      simp: approve_artifact_def approve_signed_artifact_def result_simps Let_def)

subsection \<open>The registry is well formed\<close>

definition entry_ok :: "string \<Rightarrow> skill_record \<Rightarrow> bool" where
  "entry_ok name r \<longleftrightarrow> mf_name (sk_manifest r) = name
     \<and> \<not> (Network \<in> set (mf_permissions (sk_manifest r)) \<and> ExternalMessaging \<in> set (mf_permissions (sk_manifest r)))"

definition registry_ok :: "skill_registry \<Rightarrow> bool" where
  "registry_ok R \<longleftrightarrow> distinct (map fst R) \<and> (\<forall>(name, r) \<in> set R. entry_ok name r)"

lemma registry_ok_lookup: "registry_ok R \<Longrightarrow> map_of R name = Some r \<Longrightarrow> entry_ok name r"
  by (auto simp: registry_ok_def dest: map_of_SomeD)

lemma registry_ok_update: "registry_ok R \<Longrightarrow> entry_ok name q \<Longrightarrow> registry_ok (AList.update name q R)"
proof -
  assume ok: "registry_ok R" "entry_ok name q"
  have "distinct (map fst (AList.update name q R))" using ok by (simp add: registry_ok_def distinct_update)
  moreover have "entry_ok n r" if "(n, r) \<in> set (AList.update name q R)" for n r
  proof -
    have "map_of (AList.update name q R) n = Some r" using calculation that by simp
    then show ?thesis using ok registry_ok_lookup by (auto simp: update_conv' split: if_splits)
  qed
  ultimately show ?thesis by (auto simp: registry_ok_def)
qed

lemma same_manifest_ok: "entry_ok name r \<Longrightarrow> same_manifest r q \<Longrightarrow> entry_ok name q"
  by (simp add: entry_ok_def same_manifest_def)

lemma activate_ok: "entry_ok name r \<Longrightarrow> entry_ok name (activate now sha a r)"
  by (simp add: entry_ok_def activate_def)

lemma approve_ok:
  "approve now name operator sha reason R = Inr (r, R') \<Longrightarrow> registry_ok R \<Longrightarrow> registry_ok R'"
  "approve_with_artifact now name operator sha path reason R = Inr (r, R') \<Longrightarrow> registry_ok R \<Longrightarrow> registry_ok R'"
  "approve_with_attestation now name a R = Inr (r, R') \<Longrightarrow> registry_ok R \<Longrightarrow> registry_ok R'"
  by (auto simp: approve_def approve_with_artifact_def approve_with_attestation_def result_simps Let_def
      intro!: registry_ok_update activate_ok dest: registry_ok_lookup)

lemma revoke_ok: "revoke now name R = Inr (r, R') \<Longrightarrow> registry_ok R \<Longrightarrow> registry_ok R'"
proof -
  assume run: "revoke now name R = Inr (r, R')" and ok: "registry_ok R"
  then obtain q where q: "map_of R name = Some q"
    and R': "R' = AList.update name (q\<lparr>sk_manifest := (sk_manifest q)\<lparr>mf_status := Revoked\<rparr>, sk_updated_at := now\<rparr>) R"
    by (auto simp: revoke_def result_simps Let_def)
  have "entry_ok name (q\<lparr>sk_manifest := (sk_manifest q)\<lparr>mf_status := Revoked\<rparr>, sk_updated_at := now\<rparr>)"
    using registry_ok_lookup [OF ok q] by (simp add: entry_ok_def)
  with ok show ?thesis unfolding R' by (rule registry_ok_update)
qed

lemma register_ok: "register_candidate now m R = Inr R' \<Longrightarrow> registry_ok R \<Longrightarrow> registry_ok R'"
  by (auto simp: register_candidate_def entry_ok_def intro!: registry_ok_update split: if_splits)

lemma skill_step_ok: "skill_step K s s' \<Longrightarrow> registry_ok (fst (snd s)) \<Longrightarrow> registry_ok (fst (snd s'))"
  by (induction rule: skill_step.induct)
    (auto intro: approve_ok revoke_ok register_ok simp: approve_artifact_def approve_signed_artifact_def result_simps Let_def)

lemma skill_reachable_ok: "skill_reachable K s \<Longrightarrow> registry_ok (fst (snd s))"
proof (induction rule: skill_reachable.induct)
  case K_empty
  then show ?case by (simp add: registry_ok_def)
next
  case (K_step s s')
  then show ?case by (blast intro: skill_step_ok)
qed

subsection \<open>Revocation\<close>

lemma steps_move:
  "(skill_step K)\<^sup>*\<^sup>* s s' \<Longrightarrow> map_of (fst (snd s)) name = Some r \<Longrightarrow> mf_status (sk_manifest r) = Revoked \<Longrightarrow>
    map_of (fst (snd s')) name = Some r"
proof (induction rule: rtranclp_induct)
  case (step t u)
  then have t: "map_of (fst (snd t)) name = Some r" by blast
  have "registry_moves (fst (snd t)) (fst (snd u))" using step.hyps(2) skill_step_moves by blast
  then obtain q where "map_of (fst (snd u)) name = Some q" "skill_moves r q"
    using t unfolding registry_moves_def by blast
  with step.prems(2) show ?case by (auto simp: skill_moves_def)
qed

lemma steps_key:
  "(skill_step K)\<^sup>*\<^sup>* s s' \<Longrightarrow> map_of (snd (snd s)) kid = Some k \<Longrightarrow> ky_revoked_at k \<noteq> None \<Longrightarrow>
    \<exists>j. map_of (snd (snd s')) kid = Some j \<and> ky_revoked_at j \<noteq> None"
proof (induction rule: rtranclp_induct)
  case (step t u)
  then obtain j where j: "map_of (snd (snd t)) kid = Some j" "ky_revoked_at j \<noteq> None" by blast
  have "trust_moves (snd (snd t)) (snd (snd u))" using step.hyps(2) skill_step_moves by blast
  with j show ?case unfolding trust_moves_def key_moves_def by blast
qed blast

lemma revoked_key_rejects:
  "map_of T (aa_key_id a) = Some j \<Longrightarrow> ky_revoked_at j \<noteq> None \<Longrightarrow> verify_attestation K T b a \<noteq> Inr ()"
  by (auto simp: verify_attestation_def result_simps)

lemma verified_artifact_Inr:
  assumes "verified_artifact K T r = Inr a"
  shows "\<exists>p content. sk_approval r = Some p \<and> ar_name a = mf_name (sk_manifest r)
    \<and> ar_version a = mf_version (sk_manifest r) \<and> ar_permissions a = mf_permissions (sk_manifest r)
    \<and> ar_approval_operator a = sa_operator p \<and> ar_approval_reason a = sa_reason p
    \<and> ke_file K (ar_artifact_path a) = Inr content \<and> ke_sha K content = ar_artifact_sha256 a
    \<and> manifest_authority_sha256 K (ar_permissions a) (ar_input_schema a) (ar_output_schema a)
        = ar_manifest_authority_sha256 a
    \<and> verify_attestation K T \<lparr>bi_name = ar_name a, bi_version = ar_version a, bi_operator = ar_approval_operator a,
        bi_artifact_sha256 = ar_artifact_sha256 a, bi_reason = ar_approval_reason a,
        bi_manifest_authority_sha256 = ar_manifest_authority_sha256 a\<rparr> (ar_attestation a) = Inr ()"
  using assms
  by (auto simp: verified_artifact_def artifact_of_def sha256_file_def manifest_authority_def result_simps Let_def)

lemma active_verified_member:
  assumes "active_verified_artifacts K T R = Inr as" "a \<in> set as"
  shows "\<exists>r. r \<in> set (active_skills R) \<and> verified_artifact K T r = Inr a"
proof -
  from assms(1) obtain bs where bs: "collect_results (verified_artifact K T) (active_skills R) = Inr bs"
    and "as = sort_key ar_name bs"
    by (auto simp: active_verified_artifacts_def result_simps)
  with assms(2) have "a \<in> set bs" by simp
  then obtain i where i: "i < length bs" "bs ! i = a" by (auto simp: in_set_conv_nth)
  have "list_all2 (\<lambda>r b. verified_artifact K T r = Inr b) (active_skills R) bs"
    using bs by (simp add: collect_results_list_all2)
  with i have "i < length (active_skills R)" "verified_artifact K T (active_skills R ! i) = Inr a"
    by (auto simp: list_all2_conv_all_nth)
  then show ?thesis using nth_mem by blast
qed

lemma active_lookup:
  "registry_ok R \<Longrightarrow> r \<in> set (active_skills R) \<Longrightarrow>
    map_of R (mf_name (sk_manifest r)) = Some r \<and> mf_status (sk_manifest r) = Active"
  by (auto simp: active_skills_def registry_ok_def entry_ok_def)


subsection \<open>What may be executed was signed\<close>

text \<open>Signatures are unforgeable: one verifies under a key only if that key signed that text, and the
  operations sign nothing but decisions.\<close>

definition unforgeable :: "skill_env \<Rightarrow> (string \<times> approval_binding) list \<Rightarrow> bool" where
  "unforgeable K evs \<longleftrightarrow> (\<forall>key text signature. ke_verify K key text signature \<longrightarrow>
     (\<exists>b. (key, b) \<in> set evs \<and> text = approval_payload_v2 b))"


subsection \<open>An approval that was signed is accepted\<close>

text \<open>What the libraries do: hexadecimal digits are decoded to what was encoded, a signature verifies under the
  public key of the seed that made it, keys and signatures have their lengths, and a hash is 64 lower-case
  hexadecimal digits.\<close>

definition crypto_works :: "skill_env \<Rightarrow> bool" where
  "crypto_works K \<longleftrightarrow> (\<forall>x. ke_unhex K (ke_hex K x) = Some x)
     \<and> (\<forall>seed. length (ke_public K seed) = 32 \<and> ke_key_ok K (ke_public K seed))
     \<and> (\<forall>seed t. length (ke_sign K seed t) = 64 \<and> ke_verify K (ke_public K seed) t (ke_sign K seed t))
     \<and> (\<forall>x. length (ke_sha K x) = 64 \<and> list_all ascii_hexdigit (ke_sha K x)
         \<and> map ascii_lower (ke_sha K x) = ke_sha K x)"

lemma signed_attestation_verifies:
  assumes "crypto_works K" and "map_of T key_id = Some k" "ky_revoked_at k = None"
    and "ky_public_key_hex k = ke_hex K (ke_public K seed)"
  shows "verify_attestation K T b (sign_approval_v2 K b key_id seed) = Inr ()"
  using assms
  by (simp add: verify_attestation_def sign_approval_v2_def attest_def verifying_key_from_hex_def crypto_works_def)

lemma approve_signed_result:
  assumes works: "crypto_works K"
    and run: "approve_signed_artifact (at_files K resolve disk) now name operator path key_id seed reason R = Inr (r, R')"
  shows "\<exists>q real content. map_of R name = Some q \<and> mf_status (sk_manifest q) = Candidate
    \<and> resolve path = Inr real \<and> disk real = Inr content
    \<and> r = activate now (ke_sha K content) \<lparr>sa_operator = operator, sa_approved_at = now,
        sa_artifact_sha256 = ke_sha K content,
        sa_manifest_authority_sha256 = Some (manifest_authority K (sk_manifest q)),
        sa_artifact_path = Some real, sa_reason = reason,
        sa_attestation = Some (sign_approval_v2 K (decision K name operator (ke_sha K content) reason (sk_manifest q)) key_id seed)\<rparr> q
    \<and> R' = AList.update name r R"
proof -
  have hash: "validate_hash (ke_sha K x) = Inr (ke_sha K x)" for x
    using works by (simp add: validate_hash_def crypto_works_def)
  have env: "ke_sha (at_files K resolve disk) = ke_sha K" "manifest_authority (at_files K resolve disk) = manifest_authority K"
    "sign_approval_v2 (at_files K resolve disk) = sign_approval_v2 K" "ke_canonicalize (at_files K resolve disk) = resolve"
    "ke_file (at_files K resolve disk) = disk"
    by (auto simp: at_files_def manifest_authority_def manifest_authority_sha256_def sign_approval_v2_def attest_def fun_eq_iff)
  have same: "validate_key_id i = Inr j \<Longrightarrow> j = i" "validate_reason i = Inr j \<Longrightarrow> j = i" for i j
    by (auto simp: validate_key_id_def validate_reason_def split: if_splits)
  from run show ?thesis
    by (auto simp: approve_signed_artifact_def approve_with_attestation_def sha256_file_def env result_simps Let_def
        hash ensure_candidate_def decision_def dest!: same)
qed

text \<open>A skill approved with a signature under a live trusted key may be executed: as long as its file is
  what it was, the registry offers exactly the approved artifact for it.\<close>

theorem signed_skill_is_executable:
  assumes "crypto_works K" and "skill_reachable K (evs, R, T)"
    and "approve_signed_artifact (at_files K resolve disk) now name operator path key_id seed reason R = Inr (r, R')"
    and "map_of T key_id = Some k" "ky_revoked_at k = None" "ky_public_key_hex k = ke_hex K (ke_public K seed)"
    and "\<And>real. resolve path = Inr real \<Longrightarrow> disk' real = disk real"
  shows "map_of R' name = Some r \<and> mf_status (sk_manifest r) = Active
    \<and> (\<exists>a. verified_artifact (at_files K resolve' disk') T r = Inr a \<and> ar_name a = name
        \<and> ar_permissions a = mf_permissions (sk_manifest r) \<and> ar_approval_operator a = operator
        \<and> ar_approval_reason a = reason \<and> aa_key_id (ar_attestation a) = key_id)"
proof -
  from approve_signed_result [OF assms(1,3)] obtain q real content where
    q: "map_of R name = Some q" and files: "resolve path = Inr real" "disk real = Inr content"
    and r: "r = activate now (ke_sha K content) \<lparr>sa_operator = operator, sa_approved_at = now,
        sa_artifact_sha256 = ke_sha K content,
        sa_manifest_authority_sha256 = Some (manifest_authority K (sk_manifest q)),
        sa_artifact_path = Some real, sa_reason = reason,
        sa_attestation = Some (sign_approval_v2 K (decision K name operator (ke_sha K content) reason (sk_manifest q)) key_id seed)\<rparr> q"
    and R': "R' = AList.update name r R" by blast
  have name: "mf_name (sk_manifest q) = name"
    using registry_ok_lookup [OF _ q] skill_reachable_ok [OF assms(2)] by (simp add: entry_ok_def)
  have authority: "manifest_authority (at_files K resolve' disk') (sk_manifest r) = manifest_authority K (sk_manifest q)"
    by (simp add: r activate_def manifest_authority_def manifest_authority_sha256_def at_files_def)
  have verify: "verify_attestation (at_files K resolve' disk') T b a = verify_attestation K T b a" for b a
    by (simp add: verify_attestation_def verifying_key_from_hex_def at_files_def)
  have "verify_attestation K T (decision K name operator (ke_sha K content) reason (sk_manifest q))
      (sign_approval_v2 K (decision K name operator (ke_sha K content) reason (sk_manifest q)) key_id seed) = Inr ()"
    by (rule signed_attestation_verifies [OF assms(1,4,5,6)])
  then have "verified_artifact (at_files K resolve' disk') T r = Inr (artifact_of (sk_manifest r) (the (sk_approval r)) real
      (ke_sha K content) (manifest_authority K (sk_manifest q))
      (sign_approval_v2 K (decision K name operator (ke_sha K content) reason (sk_manifest q)) key_id seed))"
    unfolding verified_artifact_def Let_def authority verify
    using files assms(7) [OF files(1)]
    by (simp add: r activate_def sha256_file_def at_files_def decision_def name)
  then show ?thesis
    by (simp add: R' update_conv' r activate_def artifact_of_def name sign_approval_v2_def attest_def)
qed

subsection \<open>The digest of the authority\<close>

definition authority_text :: "skill_env \<Rightarrow> skill_manifest \<Rightarrow> string" where
  "authority_text K m = ''shaka-skill-manifest-authority-v1'' @ [CHR 0x00]
     @ ke_authority_json K (authority_labels (mf_permissions m)) (canonicalize_json (mf_input_schema m))
         (canonicalize_json (mf_output_schema m))"

definition authority_of :: "skill_manifest \<Rightarrow> string list \<times> json \<times> json" where
  "authority_of m = (authority_labels (mf_permissions m), canonicalize_json (mf_input_schema m),
     canonicalize_json (mf_output_schema m))"

lemma label_inject: "capability_label c = capability_label d \<longleftrightarrow> c = d"
  by (cases c; cases d) simp_all

lemma distinct_remdups_adj_sorted: "sorted xs \<Longrightarrow> distinct (remdups_adj xs)" for xs :: "string list"
proof (induction xs rule: remdups_adj.induct)
  case (3 a b xs)
  then show ?case by (cases "a = b") auto
qed simp_all

lemma authority_labels_iff: "authority_labels p = authority_labels q \<longleftrightarrow> set p = set q"
proof -
  have "set (authority_labels p) = capability_label ` set p" for p
    by (simp add: authority_labels_def)
  moreover have "sorted (authority_labels p)" "distinct (authority_labels p)" for p
    by (auto simp: authority_labels_def sorted_remdups_adj distinct_remdups_adj_sorted)
  ultimately have "authority_labels p = authority_labels q \<longleftrightarrow> capability_label ` set p = capability_label ` set q"
    by (metis sorted_distinct_set_unique)
  also have "\<dots> \<longleftrightarrow> set p = set q"
    by (rule inj_image_eq_iff) (simp add: inj_on_def label_inject)
  finally show ?thesis .
qed

text \<open>The digest that an approval signs determines what the manifest grants, and nothing else: it is the same
  exactly when the same permissions are asked for, in any order and number, and the schemas are the same
  up to the order of members, provided that SHA-256 does not collide on the two texts and that the JSON of
  the two authorities tells them apart.\<close>

theorem authority_digest_iff:
  assumes "inj_on (\<lambda>(l, i, out). ke_authority_json K l i out) {authority_of m, authority_of n}"
    and "inj_on (ke_sha K) {authority_text K m, authority_text K n}"
  shows "manifest_authority K m = manifest_authority K n \<longleftrightarrow>
    set (mf_permissions m) = set (mf_permissions n)
    \<and> canonicalize_json (mf_input_schema m) = canonicalize_json (mf_input_schema n)
    \<and> canonicalize_json (mf_output_schema m) = canonicalize_json (mf_output_schema n)"
proof -
  have digest: "manifest_authority K m = ke_sha K (authority_text K m)" for m
    by (simp add: manifest_authority_def manifest_authority_sha256_def authority_text_def)
  have "manifest_authority K m = manifest_authority K n \<longleftrightarrow> authority_text K m = authority_text K n"
    unfolding digest using assms(2) by (auto dest: inj_onD)
  also have "\<dots> \<longleftrightarrow> authority_of m = authority_of n"
  proof
    assume "authority_text K m = authority_text K n"
    then have "(\<lambda>(l, i, out). ke_authority_json K l i out) (authority_of m)
        = (\<lambda>(l, i, out). ke_authority_json K l i out) (authority_of n)"
      by (simp add: authority_text_def authority_of_def)
    then show "authority_of m = authority_of n" by (rule inj_onD [OF assms(1)]) simp_all
  qed (simp add: authority_text_def authority_of_def)
  finally show ?thesis by (auto simp: authority_labels_iff authority_of_def)
qed

end
