(* ===== verification/Skill_Tool.thy ===== *)
theory Skill_Tool
  imports Skill_Facts
begin

text \<open>
  \<^verbatim>\<open>crates/shaka-sandbox/src/lib.rs\<close>, the policy and the order of the checks around a WASM module, and
  \<open>WasmSkillTool\<close> of \<^verbatim>\<open>crates/shaka-orchestrator/src/lib.rs\<close>, which runs an approved skill as a tool and
  asks the files for the approval before every execution. What the engine (\<open>wasmtime\<close>) makes of a module
  is an argument.
\<close>

subsection \<open>The sandbox\<close>

definition MAX_SANDBOX_MEMORY_BYTES :: u64 where "MAX_SANDBOX_MEMORY_BYTES = 64 * 1024 * 1024"

record sandbox_policy =
  sp_max_fuel :: u64
  sp_max_elapsed_ms :: u64
  sp_max_memory_bytes :: u64
  sp_allow_network :: bool
  sp_allow_filesystem :: bool

definition default_policy :: sandbox_policy where
  "default_policy = \<lparr>sp_max_fuel = 100000, sp_max_elapsed_ms = 1000, sp_max_memory_bytes = 16 * 1024 * 1024,
     sp_allow_network = False, sp_allow_filesystem = False\<rparr>"

datatype sandbox_error =
  InvalidPolicy string | SandboxDenied capability | InvalidModule string | HostImportsDenied
| MissingEntryPoint string | SandboxExecution string

fun sandbox_error_text :: "sandbox_error \<Rightarrow> string" where
  "sandbox_error_text (InvalidPolicy s) = ''configuracao invalida do sandbox: '' @ s"
| "sandbox_error_text (SandboxDenied c) = ''capacidade negada pelo sandbox: '' @ capability_debug c"
| "sandbox_error_text (InvalidModule s) = ''modulo WASM invalido: '' @ s"
| "sandbox_error_text HostImportsDenied = ''o modulo solicita imports do host, proibidos no MVP''"
| "sandbox_error_text (MissingEntryPoint s) = ''o modulo nao exporta run() -> i32: '' @ s"
| "sandbox_error_text (SandboxExecution s) = ''execucao WASM falhou: '' @ s"

definition validate_policy :: "capability list \<Rightarrow> sandbox_policy \<Rightarrow> sandbox_error + unit" where
  "validate_policy required p =
     (if Network \<in> set required \<and> \<not> sp_allow_network p then Inl (SandboxDenied Network)
      else if FilesystemRead \<in> set required \<and> \<not> sp_allow_filesystem p then Inl (SandboxDenied FilesystemRead)
      else if FilesystemWrite \<in> set required \<and> \<not> sp_allow_filesystem p then Inl (SandboxDenied FilesystemWrite)
      else if sp_max_memory_bytes p = 0 \<or> sp_max_memory_bytes p > MAX_SANDBOX_MEMORY_BYTES then
        Inl (InvalidPolicy (''max_memory_bytes deve estar entre 1 e '' @ show_nat (unat MAX_SANDBOX_MEMORY_BYTES)))
      else Inr ())"

record sandbox_result =
  so_exit_code :: "32 word"
  so_fuel_consumed :: u64

text \<open>The engine: whether a module compiles and imports anything, whether an instance within a memory limit and
  with some fuel exists and has the entry point, and how the call of it ends: did the timer fire, the trap
  or the exit code, and the fuel that is left. With fuel enabled, setting and reading it do not fail.\<close>

record wasm_engine =
  we_compile :: "string \<Rightarrow> string option"
  we_imports :: "string \<Rightarrow> bool"
  we_instantiate :: "string \<Rightarrow> u64 \<Rightarrow> u64 \<Rightarrow> string option"
  we_entry :: "string \<Rightarrow> string option"
  we_call :: "string \<Rightarrow> u64 \<Rightarrow> u64 \<Rightarrow> u64 \<Rightarrow> bool \<times> (string + 32 word) \<times> u64"

definition saturating_sub :: "u64 \<Rightarrow> u64 \<Rightarrow> u64" where
  "saturating_sub a b = (if b \<le> a then a - b else 0)"

definition none_or :: "('x \<Rightarrow> 'e) \<Rightarrow> 'x option \<Rightarrow> 'e + unit" where
  "none_or f x = (case x of None \<Rightarrow> Inr () | Some e \<Rightarrow> Inl (f e))"

definition sandbox_execute ::
    "wasm_engine \<Rightarrow> string \<Rightarrow> capability list \<Rightarrow> sandbox_policy \<Rightarrow> sandbox_error + sandbox_result" where
  "sandbox_execute W wasm required p =
     and_then (validate_policy required p) (\<lambda>_.
     and_then (ensure (sp_max_fuel p \<noteq> 0 \<and> sp_max_elapsed_ms p \<noteq> 0)
       (InvalidPolicy ''max_fuel e max_elapsed_ms precisam ser maiores que zero'')) (\<lambda>_.
     and_then (none_or InvalidModule (we_compile W wasm)) (\<lambda>_.
     and_then (ensure (\<not> we_imports W wasm) HostImportsDenied) (\<lambda>_.
     and_then (none_or SandboxExecution (we_instantiate W wasm (sp_max_memory_bytes p) (sp_max_fuel p))) (\<lambda>_.
     and_then (none_or MissingEntryPoint (we_entry W wasm)) (\<lambda>_.
     case we_call W wasm (sp_max_memory_bytes p) (sp_max_fuel p) (sp_max_elapsed_ms p) of
       (timed_out, execution, fuel_remaining) \<Rightarrow>
         and_then (ensure (\<not> timed_out) (SandboxExecution ''limite de tempo excedido'')) (\<lambda>_.
         and_then (map_err SandboxExecution execution) (\<lambda>exit_code.
         Inr \<lparr>so_exit_code = exit_code,
           so_fuel_consumed = saturating_sub (sp_max_fuel p) fuel_remaining\<rparr>))))))))"

subsection \<open>Skills as tools\<close>

text \<open>A persisted file: absent, unreadable, or holding a value. An absent one stands for the empty value.\<close>

datatype 'a persisted = Absent | Unreadable skill_error | Holds 'a

fun load_or_default :: "'a list persisted \<Rightarrow> skill_error + 'a list" where
  "load_or_default Absent = Inr []"
| "load_or_default (Unreadable e) = Inl e"
| "load_or_default (Holds x) = Inr x"

record skill_files =
  fs_registry :: "(string \<times> skill_record) list persisted"
  fs_trust :: "(string \<times> trusted_key) list persisted"

text \<open>\<open>load\<close> of the two stores.\<close>

definition load_registry :: "skill_files \<Rightarrow> skill_error + skill_registry" where
  "load_registry F = load_or_default (fs_registry F)"

definition load_trust :: "skill_files \<Rightarrow> skill_error + trust_store" where
  "load_trust F = load_or_default (fs_trust F)"

definition tool_error :: "skill_error \<Rightarrow> orchestrator_error" where
  "tool_error e = ToolExecution (skill_error_text e)"

definition verify_current :: "skill_env \<Rightarrow> skill_files \<Rightarrow> active_skill_artifact \<Rightarrow> orchestrator_error + unit" where
  "verify_current K F expected =
     and_then (map_err tool_error (load_registry F)) (\<lambda>registry.
     and_then (map_err tool_error (load_trust F)) (\<lambda>trust.
     and_then (map_err tool_error (active_verified_artifacts K trust registry)) (\<lambda>artifacts.
     and_then (ok_or (ToolExecution ''skill revogada ou nao ativa no registry persistido'')
       (find (\<lambda>a. ar_name a = ar_name expected) artifacts)) (\<lambda>current.
     ensure (current = expected) (ToolExecution ''aprovacao persistida da skill mudou apos o carregamento'')))))"

record wasm_skill_tool =
  wt_artifact :: active_skill_artifact
  wt_wasm :: string
  wt_policy :: sandbox_policy
  wt_revalidation :: bool

text \<open>The file is read twice: for its hash, and then for the module; \<open>reread\<close> is the file system at the second
  time.\<close>

definition from_approved_artifact ::
    "skill_env \<Rightarrow> (string \<Rightarrow> string + string) \<Rightarrow> active_skill_artifact \<Rightarrow> trust_store \<Rightarrow> orchestrator_error + wasm_skill_tool" where
  "from_approved_artifact K reread a T =
     and_then (map_err tool_error (sha256_file K (ar_artifact_path a))) (\<lambda>actual.
     and_then (ensure (actual = ar_artifact_sha256 a)
       (ToolExecution (''hash do artefato da skill '' @ ar_name a @ '' nao corresponde a aprovacao''))) (\<lambda>_.
     and_then (ensure (manifest_authority_sha256 K (ar_permissions a) (ar_input_schema a) (ar_output_schema a)
         = ar_manifest_authority_sha256 a)
       (ToolExecution ''autoridade declarativa da skill nao corresponde a aprovacao'')) (\<lambda>_.
     and_then (map_err tool_error (verify_attestation K T \<lparr>bi_name = ar_name a, bi_version = ar_version a,
         bi_operator = ar_approval_operator a, bi_artifact_sha256 = ar_artifact_sha256 a,
         bi_reason = ar_approval_reason a, bi_manifest_authority_sha256 = ar_manifest_authority_sha256 a\<rparr>
         (ar_attestation a))) (\<lambda>_.
     and_then (map_err ToolExecution (reread (ar_artifact_path a))) (\<lambda>wasm.
     Inr \<lparr>wt_artifact = a, wt_wasm = wasm, wt_policy = default_policy, wt_revalidation = False\<rparr>)))))"

definition from_approved_artifact_with_revalidation ::
    "skill_env \<Rightarrow> (string \<Rightarrow> string + string) \<Rightarrow> active_skill_artifact \<Rightarrow> trust_store \<Rightarrow> orchestrator_error + wasm_skill_tool" where
  "from_approved_artifact_with_revalidation K reread a T =
     and_then (from_approved_artifact K reread a T) (\<lambda>tool. Inr (tool\<lparr>wt_revalidation := True\<rparr>))"

definition skill_definition :: "wasm_skill_tool \<Rightarrow> tool_definition" where
  "skill_definition t =
     (let a = wt_artifact t in
      \<lparr>td_name = ''skill.'' @ ar_name a, td_description = ar_description a,
       td_input_schema = ar_input_schema a, td_required_capabilities = ar_permissions a,
       td_side_effect =
         (if list_ex (\<lambda>c. c = ExternalMessaging \<or> c = FilesystemWrite) (ar_permissions a)
          then SideExternalEffect else SideMutation)\<rparr>)"

text \<open>Decimal text of a signed 32-bit integer.\<close>

definition show_i32 :: "32 word \<Rightarrow> string" where
  "show_i32 w = (if sint w < 0 then ''-'' @ show_nat (nat (- sint w)) else show_nat (nat (sint w)))"

definition skill_output :: "active_skill_artifact \<Rightarrow> sandbox_result \<Rightarrow> json" where
  "skill_output a r = JObject [
     (''exit_code'', JNumber (show_i32 (so_exit_code r))),
     (''fuel_consumed'', JNumber (show_nat (unat (so_fuel_consumed r)))),
     (''input_validated'', JBool True),
     (''skill'', JString (ar_name a)),
     (''version'', JString (ar_version a))]"

definition skill_execute ::
    "skill_env \<Rightarrow> wasm_engine \<Rightarrow> (json \<Rightarrow> string + (json \<Rightarrow> string + unit)) \<Rightarrow> skill_files \<Rightarrow> wasm_skill_tool \<Rightarrow>
     tool_call \<Rightarrow> orchestrator_error + json" where
  "skill_execute K W validator_for F t call =
     (let a = wt_artifact t in
      and_then (if wt_revalidation t then verify_current K F a else Inr ()) (\<lambda>_.
      and_then (map_err (\<lambda>e. ToolExecution (sandbox_error_text e))
        (sandbox_execute W (wt_wasm t) (ar_permissions a) (wt_policy t))) (\<lambda>result.
      let output = skill_output a result in
      and_then (map_err ToolExecution (validator_for (ar_output_schema a))) (\<lambda>validate.
      and_then (map_err (\<lambda>e. ToolExecution (''saida da skill '' @ ar_name a @ '' viola o schema: '' @ e))
        (validate output)) (\<lambda>_.
      Inr output)))))"

text \<open>The tool at a moment: the files are read when it is called.\<close>

definition skill_tool ::
    "skill_env \<Rightarrow> wasm_engine \<Rightarrow> (json \<Rightarrow> string + (json \<Rightarrow> string + unit)) \<Rightarrow> skill_files \<Rightarrow> wasm_skill_tool \<Rightarrow> tool"
  where
  "skill_tool K W validator_for F t =
     \<lparr>tl_definition = skill_definition t, tl_execute = skill_execute K W validator_for F t\<rparr>"

subsection \<open>What a skill may do\<close>

lemma validate_policy_Inr_iff:
  "validate_policy required p = Inr () \<longleftrightarrow>
     (Network \<in> set required \<longrightarrow> sp_allow_network p)
     \<and> (FilesystemRead \<in> set required \<or> FilesystemWrite \<in> set required \<longrightarrow> sp_allow_filesystem p)
     \<and> 1 \<le> unat (sp_max_memory_bytes p) \<and> unat (sp_max_memory_bytes p) \<le> 67108864"
proof -
  have "sp_max_memory_bytes p \<noteq> 0 \<longleftrightarrow> 1 \<le> unat (sp_max_memory_bytes p)"
    by (simp add: unat_eq_zero Suc_le_eq unat_gt_0)
  then show ?thesis
    by (auto simp: validate_policy_def MAX_SANDBOX_MEMORY_BYTES_def word_le_nat_alt word_less_nat_alt not_less)
qed

lemma sandbox_execute_Inr:
  assumes "sandbox_execute W wasm required p = Inr r"
  shows "validate_policy required p = Inr ()" and "\<not> we_imports W wasm"
    and "unat (so_fuel_consumed r) \<le> unat (sp_max_fuel p)"
  using assms
  by (auto simp: sandbox_execute_def saturating_sub_def result_simps none_or_def unat_sub word_le_nat_alt
      split: prod.splits)

lemma verify_current_Inr:
  assumes "verify_current K F a = Inr ()"
  shows "\<exists>R T as. load_registry F = Inr R \<and> load_trust F = Inr T \<and> active_verified_artifacts K T R = Inr as \<and> a \<in> set as"
proof -
  from assms obtain R T as where as: "load_registry F = Inr R" "load_trust F = Inr T"
    "active_verified_artifacts K T R = Inr as" "find (\<lambda>b. ar_name b = ar_name a) as = Some a"
    by (auto simp: verify_current_def result_simps)
  then have "a \<in> set as" by (auto simp: find_Some_iff in_set_conv_nth)
  with as show ?thesis by blast
qed

text \<open>C15: a skill that ran did so with its approval in force at that moment: the persisted registry offers
  exactly the artifact that was loaded, under a live key and with the file unchanged; its module imports
  nothing of the host, asked for neither network nor file system, and used no more than the fuel it was
  given. The module itself is the approved one if the file did not change between the two reads of it at
  loading, which nothing ensures.\<close>

theorem skill_runs_only_while_approved:
  assumes "from_approved_artifact_with_revalidation K0 reread a T0 = Inr t"
    and "skill_execute K W validator_for F t call = Inr output"
  shows "(\<exists>R T as. load_registry F = Inr R \<and> load_trust F = Inr T
      \<and> active_verified_artifacts K T R = Inr as \<and> a \<in> set as)
    \<and> (\<exists>result. sandbox_execute W (wt_wasm t) (ar_permissions a) default_policy = Inr result
      \<and> output = skill_output a result \<and> unat (so_fuel_consumed result) \<le> 100000)
    \<and> \<not> we_imports W (wt_wasm t)
    \<and> set (ar_permissions a) \<inter> {Network, FilesystemRead, FilesystemWrite} = {}
    \<and> (reread (ar_artifact_path a) = ke_file K0 (ar_artifact_path a) \<longrightarrow> ke_sha K0 (wt_wasm t) = ar_artifact_sha256 a)"
proof -
  from assms(1) have t: "wt_artifact t = a" "wt_policy t = default_policy" "wt_revalidation t"
    and loaded: "reread (ar_artifact_path a) = ke_file K0 (ar_artifact_path a) \<longrightarrow> ke_sha K0 (wt_wasm t) = ar_artifact_sha256 a"
    by (auto simp: from_approved_artifact_with_revalidation_def from_approved_artifact_def sha256_file_def result_simps)
  from assms(2) t obtain result where current: "verify_current K F a = Inr ()"
    and result: "sandbox_execute W (wt_wasm t) (ar_permissions a) default_policy = Inr result" "output = skill_output a result"
    by (auto simp: skill_execute_def Let_def result_simps)
  note sandbox = sandbox_execute_Inr [OF result(1)]
  have "set (ar_permissions a) \<inter> {Network, FilesystemRead, FilesystemWrite} = {}"
    using sandbox(1) by (auto simp: validate_policy_Inr_iff default_policy_def)
  moreover have "unat (so_fuel_consumed result) \<le> 100000" using sandbox(3) by (simp add: default_policy_def)
  ultimately show ?thesis using verify_current_Inr [OF current] result sandbox(2) loaded by blast
qed

end
