(* ===== verification/Skill_Examples.thy ===== *)
theory Skill_Examples
  imports Skill_Tool Memory_Examples
begin

text \<open>
  One skill through its life: a key is trusted, the skill registered, its artifact approved with a
  signature, loaded as a tool and run, and revoked.
\<close>

definition demo_manifest :: skill_manifest where
  "demo_manifest = \<lparr>mf_name = ''demo'', mf_version = ''1'', mf_description = ''d'', mf_permissions = [MemoryWrite],
     mf_input_schema = JNull, mf_output_schema = JNull, mf_status = Candidate, mf_artifact_sha256 = None\<rparr>"

definition demo_key :: string where "demo_key = replicate 32 (CHR ''p'')"

definition demo_hash :: string where "demo_hash = replicate 64 (CHR ''0'')"

text \<open>The libraries, with the texts whose signatures verify as an argument.\<close>

definition demo_env :: "(string \<Rightarrow> bool) \<Rightarrow> skill_env" where
  "demo_env valid = \<lparr>ke_sha = (\<lambda>_. demo_hash), ke_hex = (\<lambda>x. x), ke_unhex = Some, ke_key_ok = (\<lambda>_. True),
     ke_public = (\<lambda>_. demo_key), ke_sign = (\<lambda>_ _. replicate 64 (CHR ''s'')),
     ke_verify = (\<lambda>key text signature. key = demo_key \<and> valid text),
     ke_authority_json = (\<lambda>l i out. concat l), ke_canonicalize = Inr, ke_file = (\<lambda>_. Inr ''wasm'')\<rparr>"

definition demo_decision :: approval_binding where
  "demo_decision = \<lparr>bi_name = ''demo'', bi_version = ''1'', bi_operator = OperatorId ''rev'',
     bi_artifact_sha256 = demo_hash, bi_reason = ''ok'', bi_manifest_authority_sha256 = demo_hash\<rparr>"

abbreviation free_env :: skill_env where "free_env \<equiv> demo_env (\<lambda>_. True)"
abbreviation strict_env :: skill_env where "strict_env \<equiv> demo_env (\<lambda>t. t = approval_payload_v2 demo_decision)"

definition demo_trust :: trust_store where
  "demo_trust = [(''k1'', \<lparr>ky_key_id = ''k1'', ky_public_key_hex = demo_key, ky_description = ''d'',
     ky_added_by = OperatorId ''adm'', ky_added_at = 1, ky_revoked_at = None\<rparr>)]"

definition demo_candidate :: skill_registry where
  "demo_candidate = [(''demo'', \<lparr>sk_manifest = demo_manifest, sk_approval = None, sk_created_at = 2, sk_updated_at = 2\<rparr>)]"

definition demo_record :: skill_record where
  "demo_record = \<lparr>sk_manifest = demo_manifest\<lparr>mf_status := Active, mf_artifact_sha256 := Some demo_hash\<rparr>,
     sk_approval = Some \<lparr>sa_operator = OperatorId ''rev'', sa_approved_at = 3, sa_artifact_sha256 = demo_hash,
       sa_manifest_authority_sha256 = Some demo_hash, sa_artifact_path = Some ''demo.wasm'', sa_reason = ''ok'',
       sa_attestation = Some \<lparr>aa_protocol = APPROVAL_PROTOCOL_V2, aa_key_id = ''k1'', aa_public_key_hex = demo_key,
         aa_signature_hex = replicate 64 (CHR ''s'')\<rparr>\<rparr>,
     sk_created_at = 2, sk_updated_at = 3\<rparr>"

definition demo_registry :: skill_registry where
  "demo_registry = [(''demo'', demo_record)]"

lemma demo_files: "at_files (demo_env v) Inr (\<lambda>_. Inr ''wasm'') = demo_env v"
  by (simp add: at_files_def demo_env_def)

lemma demo_hash_valid: "validate_hash demo_hash = Inr demo_hash"
  by (simp add: validate_hash_def demo_hash_def list_all_iff ascii_hexdigit_def ascii_lower_def)

lemma demo_signed:
  "approve_signed_artifact (demo_env v) 3 ''demo'' (OperatorId ''rev'') ''demo.wasm'' ''k1'' ''seed'' ''ok'' demo_candidate
     = Inr (demo_record, demo_registry)"
  by (simp add: approve_signed_artifact_def approve_with_attestation_def sha256_file_def demo_candidate_def
      demo_registry_def demo_record_def demo_manifest_def validate_key_id_def ascii_white_def wide_white_def
      validate_reason_def ensure_candidate_def activate_def sign_approval_v2_def attest_def manifest_authority_def
      manifest_authority_sha256_def demo_env_def demo_hash_valid Let_def)

lemma demo_added:
  "add_key (demo_env v) 1 ''k1'' demo_key ''d'' (OperatorId ''adm'') [] = Inr (snd (hd demo_trust), demo_trust)"
  by (simp add: add_key_def validate_key_id_def ascii_white_def wide_white_def normalize_public_key_def
      verifying_key_from_hex_def demo_env_def demo_key_def demo_trust_def Let_def)

lemma demo_registered: "register_candidate 2 demo_manifest [] = Inr demo_candidate"
  by (simp add: register_candidate_def demo_manifest_def demo_candidate_def)

lemma candidate_reachable: "skill_reachable (demo_env v) ([], demo_candidate, demo_trust)"
  by (rule K_step [OF K_step [OF K_empty K_add [OF demo_added]] K_register [OF demo_registered]])

lemma demo_reachable: "skill_reachable (demo_env v) ([(demo_key, demo_decision)], demo_registry, demo_trust)"
proof -
  have lookup: "map_of demo_candidate ''demo'' =
      Some \<lparr>sk_manifest = demo_manifest, sk_approval = None, sk_created_at = 2, sk_updated_at = 2\<rparr>"
    by (simp add: demo_candidate_def)
  have signed: "approve_signed_artifact (at_files (demo_env v) Inr (\<lambda>_. Inr ''wasm'')) 3 ''demo'' (OperatorId ''rev'')
      ''demo.wasm'' ''k1'' ''seed'' ''ok'' demo_candidate = Inr (demo_record, demo_registry)"
    unfolding demo_files by (rule demo_signed)
  have "skill_step (demo_env v) ([], demo_candidate, demo_trust)
      ([(ke_public (demo_env v) ''seed'', decision (demo_env v) ''demo'' (OperatorId ''rev'') (ke_sha (demo_env v) ''wasm'')
         ''ok'' demo_manifest)], demo_registry, demo_trust)"
    using K_signed [OF signed lookup refl refl] by simp
  moreover have "ke_public (demo_env v) ''seed'' = demo_key"
    "decision (demo_env v) ''demo'' (OperatorId ''rev'') (ke_sha (demo_env v) ''wasm'') ''ok'' demo_manifest = demo_decision"
    by (simp_all add: demo_env_def decision_def demo_decision_def demo_manifest_def manifest_authority_def
        manifest_authority_sha256_def)
  ultimately show ?thesis using K_step [OF candidate_reachable] by simp
qed

subsection \<open>Executable while approved\<close>

definition demo_artifact :: active_skill_artifact where
  "demo_artifact = artifact_of (sk_manifest demo_record) (the (sk_approval demo_record)) ''demo.wasm'' demo_hash demo_hash
     \<lparr>aa_protocol = APPROVAL_PROTOCOL_V2, aa_key_id = ''k1'', aa_public_key_hex = demo_key,
       aa_signature_hex = replicate 64 (CHR ''s'')\<rparr>"

lemma demo_verified:
  "valid (approval_payload_v2 demo_decision) \<Longrightarrow>
    active_verified_artifacts (demo_env valid) demo_trust demo_registry = Inr [demo_artifact]"
  by (simp add: active_verified_artifacts_def active_skills_def demo_registry_def demo_record_def demo_manifest_def
      verified_artifact_def sha256_file_def manifest_authority_def manifest_authority_sha256_def
      verify_attestation_def verifying_key_from_hex_def demo_trust_def demo_artifact_def demo_decision_def
      demo_env_def demo_key_def artifact_of_def)

lemma strict_unforgeable: "unforgeable strict_env [(demo_key, demo_decision)]"
  by (auto simp: unforgeable_def demo_env_def)

lemma strict_verified:
  "active_verified_artifacts (at_files strict_env Inr (\<lambda>_. Inr ''wasm'')) demo_trust demo_registry = Inr [demo_artifact]"
  unfolding demo_files by (rule demo_verified) simp


subsection \<open>Revoked for good\<close>

definition revoked_record :: skill_record where
  "revoked_record = demo_record\<lparr>sk_manifest := (sk_manifest demo_record)\<lparr>mf_status := Revoked\<rparr>, sk_updated_at := 10\<rparr>"

definition revoked_key :: trusted_key where
  "revoked_key = (snd (hd demo_trust))\<lparr>ky_revoked_at := Some 9\<rparr>"

lemma key_revoked: "revoke_key 9 ''k1'' demo_trust = Inr (revoked_key, [(''k1'', revoked_key)])"
  by (simp add: revoke_key_def demo_trust_def revoked_key_def Let_def)

lemma demo_revoked: "revoke 10 ''demo'' demo_registry = Inr (revoked_record, [(''demo'', revoked_record)])"
  by (simp add: revoke_def demo_registry_def revoked_record_def demo_record_def Let_def)

lemma second_registered:
  "\<exists>R. register_candidate 11 (demo_manifest\<lparr>mf_name := ''next''\<rparr>) [(''demo'', revoked_record)] = Inr R
    \<and> map_of R ''demo'' = Some revoked_record"
  by (simp add: register_candidate_def demo_manifest_def)


subsection \<open>Approved, hence executable\<close>

lemma free_works: "crypto_works free_env"
  by (simp add: crypto_works_def demo_env_def demo_key_def demo_hash_def list_all_iff ascii_hexdigit_def ascii_lower_def)

lemma signed_skill_is_executable_witness:
  "map_of demo_registry ''demo'' = Some demo_record \<and> mf_status (sk_manifest demo_record) = Active
    \<and> (\<exists>a. verified_artifact (at_files free_env Inr (\<lambda>_. Inr ''wasm'')) demo_trust demo_record = Inr a
        \<and> ar_name a = ''demo'' \<and> ar_permissions a = mf_permissions (sk_manifest demo_record)
        \<and> ar_approval_operator a = OperatorId ''rev''
        \<and> ar_approval_reason a = ''ok'' \<and> aa_key_id (ar_attestation a) = ''k1'')"
proof -
  have signed: "approve_signed_artifact (at_files free_env Inr (\<lambda>_. Inr ''wasm'')) 3 ''demo'' (OperatorId ''rev'')
      ''demo.wasm'' ''k1'' ''seed'' ''ok'' demo_candidate = Inr (demo_record, demo_registry)"
    unfolding demo_files by (rule demo_signed)
  have key: "map_of demo_trust ''k1'' = Some (snd (hd demo_trust))" "ky_revoked_at (snd (hd demo_trust)) = None"
    "ky_public_key_hex (snd (hd demo_trust)) = ke_hex free_env (ke_public free_env ''seed'')"
    by (simp_all add: demo_trust_def demo_env_def)
  show ?thesis
    by (rule signed_skill_is_executable [OF free_works candidate_reachable signed key]) simp
qed

subsection \<open>The digest\<close>

lemma authority_digest_iff_witness:
  "manifest_authority (free_env\<lparr>ke_sha := (\<lambda>x. x)\<rparr>) (demo_manifest\<lparr>mf_permissions := [MemoryWrite, MemoryWrite]\<rparr>)
      = manifest_authority (free_env\<lparr>ke_sha := (\<lambda>x. x)\<rparr>) demo_manifest"
  by (subst authority_digest_iff) (auto simp: demo_env_def demo_manifest_def authority_of_def authority_labels_def)

subsection \<open>Loaded and run\<close>

definition demo_engine :: wasm_engine where
  "demo_engine = \<lparr>we_compile = (\<lambda>_. None), we_imports = (\<lambda>_. False), we_instantiate = (\<lambda>_ _ _. None),
     we_entry = (\<lambda>_. None), we_call = (\<lambda>_ _ fuel _. (False, Inr 7, fuel - 40))\<rparr>"

definition demo_disk_files :: skill_files where
  "demo_disk_files = \<lparr>fs_registry = Holds demo_registry, fs_trust = Holds demo_trust\<rparr>"

definition demo_tool :: wasm_skill_tool where
  "demo_tool = \<lparr>wt_artifact = demo_artifact, wt_wasm = ''wasm'', wt_policy = default_policy, wt_revalidation = True\<rparr>"

lemma demo_loaded:
  "from_approved_artifact_with_revalidation free_env (\<lambda>_. Inr ''wasm'') demo_artifact demo_trust = Inr demo_tool"
  by (simp add: from_approved_artifact_with_revalidation_def from_approved_artifact_def sha256_file_def demo_artifact_def
      demo_record_def demo_manifest_def artifact_of_def manifest_authority_sha256_def verify_attestation_def
      verifying_key_from_hex_def demo_trust_def demo_env_def demo_key_def demo_tool_def)

lemma demo_current: "verify_current free_env demo_disk_files demo_artifact = Inr ()"
  by (simp add: verify_current_def load_registry_def load_trust_def demo_disk_files_def demo_verified)

lemma demo_sandbox:
  "sandbox_execute demo_engine ''wasm'' (ar_permissions demo_artifact) default_policy = Inr \<lparr>so_exit_code = 7, so_fuel_consumed = 40\<rparr>"
  by (simp add: sandbox_execute_def validate_policy_def default_policy_def demo_artifact_def artifact_of_def demo_record_def
      demo_manifest_def demo_engine_def none_or_def saturating_sub_def MAX_SANDBOX_MEMORY_BYTES_def word_le_nat_alt
      word_less_nat_alt)

lemma demo_ran:
  "skill_execute free_env demo_engine (\<lambda>_. Inr (\<lambda>_. Inr ())) demo_disk_files demo_tool call
     = Inr (skill_output demo_artifact \<lparr>so_exit_code = 7, so_fuel_consumed = 40\<rparr>)"
  by (simp add: skill_execute_def demo_tool_def demo_current demo_sandbox Let_def)

lemma skill_runs_only_while_approved_witness:
  "\<exists>R T as. load_registry demo_disk_files = Inr R \<and> load_trust demo_disk_files = Inr T
      \<and> active_verified_artifacts free_env T R = Inr as \<and> demo_artifact \<in> set as"
  using skill_runs_only_while_approved [OF demo_loaded demo_ran] by simp

end
