(* ===== verification/Telemetry.thy ===== *)
theory Telemetry
  imports Memory_Facts
begin

text \<open>
  \<^verbatim>\<open>crates/shaka-observability/src/lib.rs\<close>: the redaction of metadata and of JSON, the context that
  correlates a request, and the logger of the audit trail. Logs and spans have no effect on the program
  and are left out. The replacement of credentials in a text (\<open>redact_sensitive\<close>) rests on the \<open>regex\<close>
  crate and is an argument, as are the parser and the printer of JSON.
\<close>

subsection \<open>The policy\<close>

datatype telemetry_error = InvalidCorrelationId string | ContentCaptureDisabled | InvalidTelemetryPolicy string

record telemetry_policy =
  tp_capture_content :: bool
  tp_max_text_chars :: nat
  tp_max_json_depth :: nat
  tp_max_json_items :: nat

definition default_telemetry_policy :: telemetry_policy where
  "default_telemetry_policy = \<lparr>tp_capture_content = False, tp_max_text_chars = 4096, tp_max_json_depth = 16,
     tp_max_json_items = 256\<rparr>"

definition validate_telemetry_policy :: "telemetry_policy \<Rightarrow> telemetry_error + telemetry_policy" where
  "validate_telemetry_policy p =
     (if tp_capture_content p then Inl ContentCaptureDisabled
      else if tp_max_text_chars p = 0 \<or> tp_max_text_chars p > 64 * 1024 then
        Inl (InvalidTelemetryPolicy ''max_text_chars deve estar entre 1 e 65536'')
      else if tp_max_json_depth p = 0 \<or> tp_max_json_depth p > 64 then
        Inl (InvalidTelemetryPolicy ''max_json_depth deve estar entre 1 e 64'')
      else if tp_max_json_items p = 0 \<or> tp_max_json_items p > 4096 then
        Inl (InvalidTelemetryPolicy ''max_json_items deve estar entre 1 e 4096'')
      else Inr p)"

subsection \<open>Correlation\<close>

record correlation =
  co_request_id :: string
  co_trace_id :: "string option"
  co_span_id :: "string option"
  co_task_id :: "string option"
  co_session_id :: "string option"
  co_tenant_ref :: "string option"

definition correlation_char :: "char \<Rightarrow> bool" where
  "correlation_char c \<longleftrightarrow> ascii_alphanumeric c \<or> c \<in> {CHR ''-'', CHR ''_'', CHR ''.'', CHR ''~''}"

definition validate_correlation_id :: "string \<Rightarrow> string \<Rightarrow> telemetry_error + string" where
  "validate_correlation_id field value =
     (if value \<noteq> [] \<and> length value \<le> 128 \<and> list_all correlation_char value then Inr value
      else Inl (InvalidCorrelationId field))"

definition validate_optional_id :: "string \<Rightarrow> string option \<Rightarrow> telemetry_error + string option" where
  "validate_optional_id field value =
     (case value of None \<Rightarrow> Inr None
      | Some v \<Rightarrow> and_then (validate_correlation_id field v) (\<lambda>v. Inr (Some v)))"

text \<open>A context with a random request identifier; the text of the fresh UUID is an argument.\<close>

definition new_correlation :: "string \<Rightarrow> correlation" where
  "new_correlation fresh = \<lparr>co_request_id = fresh, co_trace_id = None, co_span_id = None, co_task_id = None,
     co_session_id = None, co_tenant_ref = None\<rparr>"

definition with_request_id :: "string \<Rightarrow> telemetry_error + correlation" where
  "with_request_id request = and_then (validate_correlation_id ''request_id'' request) (\<lambda>r. Inr (new_correlation r))"

definition with_trace_ids :: "string option \<Rightarrow> string option \<Rightarrow> correlation \<Rightarrow> telemetry_error + correlation" where
  "with_trace_ids trace span c =
     and_then (validate_optional_id ''trace_id'' trace) (\<lambda>trace.
     and_then (validate_optional_id ''span_id'' span) (\<lambda>span.
     Inr (c\<lparr>co_trace_id := trace, co_span_id := span\<rparr>)))"

definition with_task_id :: "string option \<Rightarrow> correlation \<Rightarrow> telemetry_error + correlation" where
  "with_task_id task c = and_then (validate_optional_id ''task_id'' task) (\<lambda>t. Inr (c\<lparr>co_task_id := t\<rparr>))"

definition with_session_id :: "string option \<Rightarrow> correlation \<Rightarrow> telemetry_error + correlation" where
  "with_session_id session c = and_then (validate_optional_id ''session_id'' session) (\<lambda>s. Inr (c\<lparr>co_session_id := s\<rparr>))"

text \<open>A tenant is referred to by the first 16 digits of its digest only; \<open>sha\<close> is SHA-256 as hexadecimal digits.\<close>

definition with_tenant_ref :: "(string \<Rightarrow> string) \<Rightarrow> string option \<Rightarrow> correlation \<Rightarrow> telemetry_error + correlation" where
  "with_tenant_ref sha tenant c =
     and_then (case tenant of
         None \<Rightarrow> Inr None
       | Some v \<Rightarrow> and_then (validate_correlation_id ''tenant_ref'' v) (\<lambda>v. Inr (Some (''sha256:'' @ take 16 (sha v))))) (\<lambda>t.
     Inr (c\<lparr>co_tenant_ref := t\<rparr>))"

subsection \<open>Keys\<close>

definition normalized_key :: "string \<Rightarrow> string" where
  "normalized_key key = map (\<lambda>c. if c = CHR ''-'' then CHR ''_'' else c) (map ascii_lower key)"

definition ends_with :: "string \<Rightarrow> string \<Rightarrow> bool" where
  "ends_with s m \<longleftrightarrow> length m \<le> length s \<and> drop (length s - length m) s = m"

fun contains_text :: "string \<Rightarrow> string \<Rightarrow> bool" where
  "contains_text [] m \<longleftrightarrow> m = []"
| "contains_text (c # s) m \<longleftrightarrow> take (length m) (c # s) = m \<or> contains_text s m"

definition sensitive_key :: "string \<Rightarrow> bool" where
  "sensitive_key key \<longleftrightarrow>
     (let n = normalized_key key in
      n \<in> set [''api_key'', ''apikey'', ''access_token'', ''authorization'', ''bearer'', ''cookie'', ''set_cookie'',
        ''secret'', ''password'', ''private_key'', ''token'']
      \<or> ends_with n ''_secret'' \<or> ends_with n ''_password'' \<or> ends_with n ''_api_key'' \<or> ends_with n ''_access_token'')"

definition content_key :: "string \<Rightarrow> bool" where
  "content_key key \<longleftrightarrow>
     (let n = normalized_key key in
      n \<in> set [''argument'', ''arguments'', ''completion'', ''content'', ''input'', ''message'', ''messages'',
        ''objective'', ''output'', ''prompt'', ''response'', ''result'', ''system'', ''system_instructions'',
        ''system_prompt'', ''tool_arguments'', ''tool_result'', ''user_message'']
      \<or> list_ex (contains_text n) [''argument'', ''completion'', ''content'', ''input'', ''message'', ''objective'',
          ''output'', ''prompt'', ''response'', ''result''])"

subsection \<open>The redactor\<close>

text \<open>The ellipsis before the bracket is one character of three bytes.\<close>

definition truncation_suffix :: string where
  "truncation_suffix = [CHR 0xE2, CHR 0x80, CHR 0xA6] @ ''[TRUNCATED]''"

definition truncate_text :: "string \<Rightarrow> nat \<Rightarrow> string" where
  "truncate_text value max_chars =
     (if char_count value \<le> max_chars then value
      else let suffix_len = char_count truncation_suffix in
        if max_chars \<le> suffix_len then take_chars max_chars truncation_suffix
        else take_chars (max_chars - suffix_len) value @ truncation_suffix)"

record redactor =
  rd_text :: nat
  rd_json_depth :: nat
  rd_json_items :: nat

definition redactor_of_policy :: "telemetry_policy \<Rightarrow> redactor" where
  "redactor_of_policy p = \<lparr>rd_text = tp_max_text_chars p, rd_json_depth = tp_max_json_depth p,
     rd_json_items = tp_max_json_items p\<rparr>"

definition redactor_new :: "telemetry_policy \<Rightarrow> telemetry_error + redactor" where
  "redactor_new p = and_then (validate_telemetry_policy p) (\<lambda>p. Inr (redactor_of_policy p))"

definition ensure_content_capture_disabled :: "bool \<Rightarrow> telemetry_error + unit" where
  "ensure_content_capture_disabled requested = (if requested then Inl ContentCaptureDisabled else Inr ())"

definition redact_text :: "(string \<Rightarrow> string) \<Rightarrow> redactor \<Rightarrow> string \<Rightarrow> string" where
  "redact_text redact R value = truncate_text (redact value) (rd_text R)"

text \<open>A member of an object: its value is hidden by its key, or redacted by \<open>f\<close>.\<close>

definition redact_member :: "(json \<Rightarrow> json) \<Rightarrow> string \<times> json \<Rightarrow> string \<times> json" where
  "redact_member f m = (case m of (key, value) \<Rightarrow>
     (key, if sensitive_key key then JString ''[REDACTED]''
           else if content_key key then JString ''[REDACTED_CONTENT]'' else f value))"

lemma redact_member_cong [fundef_cong]:
  "m = n \<Longrightarrow> (\<And>key value. n = (key, value) \<Longrightarrow> f value = g value) \<Longrightarrow> redact_member f m = redact_member g n"
  by (auto simp: redact_member_def split: prod.splits)

lemma member_size: "(key, value) \<in> set object \<Longrightarrow> size value < size_list (size_prod (\<lambda>x. 0) size) object"
  by (induction object) auto

lemma item_size: "(item :: json) \<in> set items \<Longrightarrow> size item < Suc (size_list size items)"
  by (induction items) auto

function (sequential) redact_json_at :: "(string \<Rightarrow> string) \<Rightarrow> redactor \<Rightarrow> nat \<Rightarrow> json \<Rightarrow> json" where
  "redact_json_at redact R depth (JString t) =
     (if depth \<ge> rd_json_depth R then JString ''[REDACTED_DEPTH_LIMIT]'' else JString (redact_text redact R t))"
| "redact_json_at redact R depth (JArray items) =
     (if depth \<ge> rd_json_depth R then JString ''[REDACTED_DEPTH_LIMIT]''
      else JArray (map (redact_json_at redact R (Suc depth)) (take (rd_json_items R) items)
        @ (if length items > rd_json_items R then [JString ''[TRUNCATED_ITEMS]''] else [])))"
| "redact_json_at redact R depth (JObject object) =
     (if depth \<ge> rd_json_depth R then JString ''[REDACTED_DEPTH_LIMIT]''
      else let members = bt_collect (map (redact_member (redact_json_at redact R (Suc depth))) (take (rd_json_items R) object))
        in JObject (if length object > rd_json_items R
          then bt_insert ''_truncated'' (JString ''[TRUNCATED_ITEMS]'') members else members))"
| "redact_json_at redact R depth scalar =
     (if depth \<ge> rd_json_depth R then JString ''[REDACTED_DEPTH_LIMIT]'' else scalar)"
  by pat_completeness auto
termination
  by (relation "measure (\<lambda>(redact, R, depth, value). size value)")
    (auto dest!: in_set_takeD dest: member_size item_size)

definition redact_json :: "(string \<Rightarrow> string) \<Rightarrow> redactor \<Rightarrow> json \<Rightarrow> json" where
  "redact_json redact R value = redact_json_at redact R 0 value"

text \<open>The libraries of the logger: the replacement of credentials, the parser and the printer of JSON.\<close>

record log_env =
  lg_memory :: memory_env
  lg_redact :: "string \<Rightarrow> string"
  lg_parse :: "string \<Rightarrow> json option"
  lg_print :: "json \<Rightarrow> string"

definition redact_field :: "log_env \<Rightarrow> redactor \<Rightarrow> string \<times> string \<Rightarrow> string \<times> string" where
  "redact_field L R f = (case f of (key, value) \<Rightarrow>
     (key,
      if sensitive_key key then ''[REDACTED]''
      else if content_key key then ''[REDACTED_CONTENT]''
      else if ends_with (normalized_key key) ''_json'' then
        (case lg_parse L value of
           None \<Rightarrow> redact_text (lg_redact L) R value
         | Some j \<Rightarrow> lg_print L (redact_json (lg_redact L) R j))
      else redact_text (lg_redact L) R value))"

definition redact_fields :: "log_env \<Rightarrow> redactor \<Rightarrow> (string \<times> string) list \<Rightarrow> (string \<times> string) list" where
  "redact_fields L R metadata = map (redact_field L R) metadata"

subsection \<open>The audit trail\<close>

text \<open>\<open>AuditLogger::record\<close>; the identifier of the event and the moment are arguments.\<close>

definition record_audit ::
    "log_env \<Rightarrow> redactor \<Rightarrow> uuid \<Rightarrow> instant \<Rightarrow> task_id option \<Rightarrow> tenant_id \<Rightarrow> string \<Rightarrow> string \<Rightarrow> string \<Rightarrow>
     (string \<times> string) list \<Rightarrow> memory \<Rightarrow> memory_error + (audit_event \<times> memory)" where
  "record_audit L R event_id now task tenant actor action outcome metadata m =
     append_audit_event (lg_memory L)
       (audit_event_new (lg_memory L) event_id now task tenant actor action outcome (redact_fields L R metadata) None) m"

definition record_audit_json ::
    "log_env \<Rightarrow> redactor \<Rightarrow> uuid \<Rightarrow> instant \<Rightarrow> task_id option \<Rightarrow> tenant_id \<Rightarrow> string \<Rightarrow> string \<Rightarrow> string \<Rightarrow>
     json \<Rightarrow> memory \<Rightarrow> memory_error + (audit_event \<times> memory)" where
  "record_audit_json L R event_id now task tenant actor action outcome metadata m =
     record_audit L R event_id now task tenant actor action outcome
       [(''metadata_json'', lg_print L (redact_json (lg_redact L) R metadata))] m"

subsection \<open>What redaction hides, and how much it leaves\<close>

definition hidden_key :: "string \<Rightarrow> bool" where
  "hidden_key key \<longleftrightarrow> sensitive_key key \<or> content_key key"

definition erase_member :: "(json \<Rightarrow> json) \<Rightarrow> string \<times> json \<Rightarrow> string \<times> json" where
  "erase_member f m = (case m of (key, value) \<Rightarrow> (key, if hidden_key key then JNull else f value))"

lemma erase_member_cong [fundef_cong]:
  "m = n \<Longrightarrow> (\<And>key value. n = (key, value) \<Longrightarrow> f value = g value) \<Longrightarrow> erase_member f m = erase_member g n"
  by (auto simp: erase_member_def split: prod.splits)

text \<open>A value without what its keys hide.\<close>

function (sequential) erase_hidden :: "json \<Rightarrow> json" where
  "erase_hidden (JObject object) = JObject (map (erase_member erase_hidden) object)"
| "erase_hidden (JArray items) = JArray (map erase_hidden items)"
| "erase_hidden scalar = scalar"
  by pat_completeness auto
termination
  by (relation "measure size") (auto dest: member_size item_size)

lemma redact_erased: "redact_json_at redact R depth (erase_hidden j) = redact_json_at redact R depth j"
proof (induction redact R depth j rule: redact_json_at.induct)
  case (2 redact R depth items)
  then show ?case by (auto simp: take_map intro!: map_cong)
next
  case (3 redact R depth object)
  show ?case
  proof (cases "depth \<ge> rd_json_depth R")
    case False
    have "redact_member (redact_json_at redact R (Suc depth)) (erase_member erase_hidden m)
        = redact_member (redact_json_at redact R (Suc depth)) m" if mem: "m \<in> set (take (rd_json_items R) object)" for m
      using "3.IH" [OF False mem]
      by (cases m) (auto simp: redact_member_def erase_member_def hidden_key_def)
    then have "map (redact_member (redact_json_at redact R (Suc depth)) \<circ> erase_member erase_hidden)
          (take (rd_json_items R) object)
        = map (redact_member (redact_json_at redact R (Suc depth))) (take (rd_json_items R) object)" by simp
    with False show ?thesis by (simp add: take_map Let_def del: take_all take_all_iff map_eq_conv)
  qed simp
qed simp_all

definition leaf_ok :: "redactor \<Rightarrow> json \<Rightarrow> bool" where
  "leaf_ok R j = (case j of JString t \<Rightarrow> char_count t \<le> max (rd_text R) 22 | JArray _ \<Rightarrow> False | JObject _ \<Rightarrow> False | _ \<Rightarrow> True)"

definition member_ok :: "(json \<Rightarrow> bool) \<Rightarrow> string \<times> json \<Rightarrow> bool" where
  "member_ok P m = (case m of (key, value) \<Rightarrow>
     if sensitive_key key then value = JString ''[REDACTED]''
     else if content_key key then value = JString ''[REDACTED_CONTENT]'' else P value)"

text \<open>At most \<open>d\<close> containers within each other, each with at most one item more than the policy says.\<close>

primrec redacted_ok :: "redactor \<Rightarrow> nat \<Rightarrow> json \<Rightarrow> bool" where
  "redacted_ok R 0 j = leaf_ok R j"
| "redacted_ok R (Suc d) j =
     (case j of
        JArray items \<Rightarrow> length items \<le> Suc (rd_json_items R) \<and> list_all (redacted_ok R d) items
      | JObject object \<Rightarrow> length object \<le> Suc (rd_json_items R) \<and> list_all (member_ok (redacted_ok R d)) object
      | _ \<Rightarrow> leaf_ok R j)"

lemma set_bt_insert: "set (bt_insert k v m) \<subseteq> insert (k, v) (set m)"
  by (induction k v m rule: bt_insert.induct) auto

lemma length_bt_insert: "length (bt_insert k v m) \<le> Suc (length m)"
  by (induction k v m rule: bt_insert.induct) auto

lemma fold_bt_insert:
  "set (fold (\<lambda>(k, v) m. bt_insert k v m) ps m) \<subseteq> set ps \<union> set m
    \<and> length (fold (\<lambda>(k, v) m. bt_insert k v m) ps m) \<le> length ps + length m"
proof (induction ps arbitrary: m)
  case (Cons p ps)
  obtain k v where p: "p = (k, v)" by (cases p)
  from Cons [of "bt_insert k v m"] set_bt_insert [of k v m] length_bt_insert [of k v m]
  show ?case by (auto simp: p)
qed simp

lemma bt_collect_members: "set (bt_collect ps) \<subseteq> set ps" "length (bt_collect ps) \<le> length ps"
  using fold_bt_insert [of ps "[]"] by (auto simp: bt_collect_def)

lemma char_count_append: "char_count (s @ t) = char_count s + char_count t"
  by (simp add: char_count_def)

lemma truncate_text_bound: "char_count (truncate_text value n) \<le> n"
  using char_count_take [of "n - char_count truncation_suffix" "value"] char_count_take [of n truncation_suffix]
  by (auto simp: truncate_text_def Let_def char_count_append)

lemma limit_ok: "leaf_ok R (JString ''[REDACTED_DEPTH_LIMIT]'')" "leaf_ok R (JString ''[TRUNCATED_ITEMS]'')"
  by (simp_all add: leaf_ok_def char_count_def continuation_byte_def)

lemma leaf_scalar: "leaf_ok R JNull" "leaf_ok R (JBool b)" "leaf_ok R (JNumber n)"
  by (simp_all add: leaf_ok_def)

lemma leaf_redacted: "leaf_ok R j \<Longrightarrow> redacted_ok R d j"
  by (cases d; cases j) (auto simp: leaf_ok_def)

lemma truncated_not_hidden: "\<not> sensitive_key ''_truncated''" "\<not> content_key ''_truncated''"
  by (simp_all add: sensitive_key_def content_key_def normalized_key_def ascii_lower_def ends_with_def Let_def)

lemma redacted_within:
  "depth \<le> rd_json_depth R \<Longrightarrow> redacted_ok R (rd_json_depth R - depth) (redact_json_at redact R depth j)"
proof (induction redact R depth j rule: redact_json_at.induct)
  case (1 redact R depth t)
  have "leaf_ok R (JString (redact_text redact R t))"
    using truncate_text_bound [of "redact t" "rd_text R"] by (simp add: leaf_ok_def redact_text_def)
  with limit_ok show ?case by (cases "rd_json_depth R - depth") auto
next
  case (2 redact R depth items)
  show ?case
  proof (cases "depth \<ge> rd_json_depth R")
    case False
    then have d: "rd_json_depth R - depth = Suc (rd_json_depth R - Suc depth)" by simp
    have "leaf_ok R (JString ''[TRUNCATED_ITEMS]'')" by (rule limit_ok)
    then have "redacted_ok R e (JString ''[TRUNCATED_ITEMS]'')" for e by (cases e) simp_all
    moreover have "list_all (redacted_ok R (rd_json_depth R - Suc depth))
        (map (redact_json_at redact R (Suc depth)) (take (rd_json_items R) items))"
      using 2 False by (auto simp: list_all_iff)
    ultimately show ?thesis using False by (simp add: d)
  qed (use limit_ok in simp)
next
  case (3 redact R depth object)
  show ?case
  proof (cases "depth \<ge> rd_json_depth R")
    case False
    then have d: "rd_json_depth R - depth = Suc (rd_json_depth R - Suc depth)" by simp
    define ok where "ok = member_ok (redacted_ok R (rd_json_depth R - Suc depth))"
    define members where "members = bt_collect (map (redact_member (redact_json_at redact R (Suc depth))) (take (rd_json_items R) object))"
    have "leaf_ok R (JString ''[TRUNCATED_ITEMS]'')" by (rule limit_ok)
    then have "redacted_ok R e (JString ''[TRUNCATED_ITEMS]'')" for e by (cases e) simp_all
    then have last: "ok (''_truncated'', JString ''[TRUNCATED_ITEMS]'')"
      by (simp add: ok_def member_ok_def truncated_not_hidden)
    have "ok (redact_member (redact_json_at redact R (Suc depth)) m)" if mem: "m \<in> set (take (rd_json_items R) object)" for m
      using "3.IH" [OF False mem] False by (cases m) (simp add: redact_member_def ok_def member_ok_def)
    then have all: "\<forall>m \<in> set members. ok m" using bt_collect_members(1) unfolding members_def by fastforce
    have "length members \<le> length (take (rd_json_items R) object)"
      using bt_collect_members(2) unfolding members_def by (metis length_map)
    then have few: "length members \<le> rd_json_items R" by simp
    have "length (bt_insert ''_truncated'' (JString ''[TRUNCATED_ITEMS]'') members) \<le> Suc (rd_json_items R)"
      using length_bt_insert [of "''_truncated''" "JString ''[TRUNCATED_ITEMS]''" members] few by simp
    moreover have "\<forall>m \<in> set (bt_insert ''_truncated'' (JString ''[TRUNCATED_ITEMS]'') members). ok m"
      using set_bt_insert [of "''_truncated''" "JString ''[TRUNCATED_ITEMS]''" members] all last by blast
    ultimately show ?thesis using False all few
      by (simp add: d list_all_iff ok_def [symmetric] members_def [symmetric] Let_def)
  qed (use limit_ok in simp)
qed (auto intro!: leaf_redacted simp: limit_ok leaf_scalar)

text \<open>C29: redacted JSON says nothing of what its keys hide: two values that differ at most in the values of
  sensitive keys and of keys of content are redacted to the same value. That value is bounded: no more
  containers within each other than the policy allows, none with more than one item above the limit, no
  text longer than the limit (or than the longest marker), and only a marker under a hidden key.\<close>

theorem redaction_hides:
  assumes "erase_hidden j = erase_hidden k"
  shows "redact_json redact R j = redact_json redact R k \<and> redacted_ok R (rd_json_depth R) (redact_json redact R j)"
proof
  show "redact_json redact R j = redact_json redact R k"
    unfolding redact_json_def using redact_erased assms by metis
  show "redacted_ok R (rd_json_depth R) (redact_json redact R j)"
    unfolding redact_json_def using redacted_within [of 0 R redact j] by simp
qed

lemma hidden_samples: "hidden_key ''API-Key''" "hidden_key ''user_prompt''"
  by code_simp+

lemma redaction_hides_witness:
  "redact_json (\<lambda>t. t) (redactor_of_policy default_telemetry_policy)
      (JObject [(''API-Key'', JString ''x''), (''user_prompt'', JArray []), (''n'', JNumber ''1'')])
    = redact_json (\<lambda>t. t) (redactor_of_policy default_telemetry_policy)
        (JObject [(''API-Key'', JString ''y''), (''user_prompt'', JNull), (''n'', JNumber ''1'')])"
  by (rule conjunct1 [OF redaction_hides]) (simp add: erase_member_def hidden_samples)

end
