(* ===== verification/App_Config.thy ===== *)
theory App_Config
  imports Core_Identity
begin

text \<open>
  \<^verbatim>\<open>crates/shaka-config/src/lib.rs\<close>: the configuration of a process, parsed from the texts of flags and
  environment variables and validated before anything is opened. Paths are texts; the parser of URLs is
  an argument.
\<close>

datatype environment = Development | Staging | Production

datatype model_provider = LocalProvider | OpenAiCompatible

datatype config_error =
  InvalidEnvironment string | InvalidProvider string | InvalidRole string | InvalidEndpoint string
| InvalidValue string | ProductionRequiresExternalModel | ProductionRequiresApiKey | ProductionRequiresHttps
| LiveModeRequiresExplicitDeployment | ConfigUnauthorized action | ConfigCore core_error

text \<open>What is read of a URL.\<close>

record url =
  url_text :: string
  url_scheme :: string

definition MIN_DATABASE_MAX_BYTES :: u64 where "MIN_DATABASE_MAX_BYTES = 1024 * 1024"

record app_config =
  cf_environment :: environment
  cf_database :: string
  cf_database_max_bytes :: u64
  cf_skills_file :: string
  cf_tenant :: tenant_id
  cf_principal :: principal
  cf_provider :: model_provider
  cf_endpoint :: url
  cf_model_name :: string
  cf_api_key :: "string option"
  cf_live_requested :: bool
  cf_live_confirmation :: bool
  cf_audit_required :: bool

definition parse_environment :: "string \<Rightarrow> config_error + environment" where
  "parse_environment s =
     (let v = map ascii_lower s in
      if v = ''development'' \<or> v = ''dev'' then Inr Development
      else if v = ''staging'' \<or> v = ''stage'' then Inr Staging
      else if v = ''production'' \<or> v = ''prod'' then Inr Production
      else Inl (InvalidEnvironment v))"

definition parse_provider :: "string \<Rightarrow> config_error + model_provider" where
  "parse_provider s =
     (let v = map ascii_lower s in
      if v = ''local'' then Inr LocalProvider
      else if v = ''openai-compatible'' \<or> v = ''openai'' then Inr OpenAiCompatible
      else Inl (InvalidProvider v))"

definition parse_config_role :: "string \<Rightarrow> config_error + role" where
  "parse_config_role s =
     (let v = map ascii_lower s in
      if v = ''operator'' then Inr Operator
      else if v = ''reviewer'' then Inr Reviewer
      else if v = ''administrator'' \<or> v = ''admin'' then Inr Administrator
      else Inl (InvalidRole v))"

definition validate_production :: "app_config \<Rightarrow> config_error + unit" where
  "validate_production c =
     (if cf_provider c = LocalProvider then Inl ProductionRequiresExternalModel
      else if trim_is_empty (unwrap_or (cf_api_key c) []) then Inl ProductionRequiresApiKey
      else if url_scheme (cf_endpoint c) \<noteq> ''https'' then Inl ProductionRequiresHttps
      else Inr ())"

definition validate_config :: "app_config \<Rightarrow> config_error + unit" where
  "validate_config c =
     (if cf_database_max_bytes c < MIN_DATABASE_MAX_BYTES then
        Inl (InvalidValue (''database_max_bytes deve ser pelo menos '' @ show_nat (unat MIN_DATABASE_MAX_BYTES) @ '' bytes''))
      else if trim_is_empty (cf_model_name c) \<or> length (cf_model_name c) > 256 then Inl (InvalidValue ''model_name'')
      else if \<not> cf_audit_required c then Inl (InvalidValue ''audit_required deve permanecer habilitado'')
      else if cf_live_requested c \<and> \<not> cf_live_confirmation c then Inl LiveModeRequiresExplicitDeployment
      else
        and_then (case cf_environment c of
            Production \<Rightarrow> validate_production c
          | Staging \<Rightarrow> if cf_live_requested c \<and> \<not> allows (cf_principal c) RunExternal
              then Inl (ConfigUnauthorized RunExternal) else Inr ()
          | Development \<Rightarrow> Inr ()) (\<lambda>_.
        if cf_live_requested c \<and> \<not> allows (cf_principal c) RunExternal
        then Inl (ConfigUnauthorized RunExternal) else Inr ()))"

text \<open>The texts a process is started with.\<close>

record config_values =
  cv_environment :: string
  cv_database :: string
  cv_database_max_bytes :: u64
  cv_skills_file :: string
  cv_tenant :: string
  cv_operator :: string
  cv_role :: string
  cv_provider :: string
  cv_endpoint :: string
  cv_model_name :: string
  cv_api_key :: "string option"

definition from_values ::
    "(string \<Rightarrow> string + url) \<Rightarrow> config_values \<Rightarrow> bool \<Rightarrow> bool \<Rightarrow> bool \<Rightarrow> config_error + app_config" where
  "from_values parse_url v live confirmation audit_required =
     and_then (parse_environment (cv_environment v)) (\<lambda>environment.
     and_then (parse_provider (cv_provider v)) (\<lambda>provider.
     and_then (map_err ConfigCore (tenant_id_new (cv_tenant v))) (\<lambda>tenant.
     and_then (map_err ConfigCore (operator_id_new (cv_operator v))) (\<lambda>operator.
     and_then (parse_config_role (cv_role v)) (\<lambda>role.
     and_then (map_err InvalidEndpoint (parse_url (cv_endpoint v))) (\<lambda>endpoint.
     let c = \<lparr>cf_environment = environment, cf_database = cv_database v,
       cf_database_max_bytes = cv_database_max_bytes v, cf_skills_file = cv_skills_file v, cf_tenant = tenant,
       cf_principal = \<lparr>pr_operator = operator, pr_tenant = tenant, pr_role = role\<rparr>, cf_provider = provider,
       cf_endpoint = endpoint, cf_model_name = cv_model_name v, cf_api_key = cv_api_key v,
       cf_live_requested = live, cf_live_confirmation = confirmation, cf_audit_required = audit_required\<rparr>
     in and_then (validate_config c) (\<lambda>_. Inr c)))))))"

record config_summary =
  cs_environment :: environment
  cs_tenant :: tenant_id
  cs_operator :: operator_id
  cs_role :: role
  cs_provider :: model_provider
  cs_endpoint :: url
  cs_model_name :: string
  cs_database_max_bytes :: u64
  cs_api_key_configured :: bool
  cs_live_requested :: bool
  cs_live_confirmation :: bool
  cs_audit_required :: bool

definition public_summary :: "app_config \<Rightarrow> config_summary" where
  "public_summary c =
     \<lparr>cs_environment = cf_environment c, cs_tenant = cf_tenant c, cs_operator = pr_operator (cf_principal c),
      cs_role = pr_role (cf_principal c), cs_provider = cf_provider c, cs_endpoint = cf_endpoint c,
      cs_model_name = cf_model_name c, cs_database_max_bytes = cf_database_max_bytes c,
      cs_api_key_configured = (cf_api_key c \<noteq> None), cs_live_requested = cf_live_requested c,
      cs_live_confirmation = cf_live_confirmation c, cs_audit_required = cf_audit_required c\<rparr>"

subsection \<open>What a validated configuration guarantees\<close>

lemma validate_config_iff:
  "validate_config c = Inr () \<longleftrightarrow>
     1048576 \<le> unat (cf_database_max_bytes c) \<and> \<not> trim_is_empty (cf_model_name c) \<and> length (cf_model_name c) \<le> 256
     \<and> cf_audit_required c
     \<and> (cf_live_requested c \<longrightarrow> cf_live_confirmation c \<and> pr_role (cf_principal c) = Administrator)
     \<and> (cf_environment c = Production \<longrightarrow> cf_provider c = OpenAiCompatible \<and> url_scheme (cf_endpoint c) = ''https''
         \<and> (\<exists>key. cf_api_key c = Some key \<and> \<not> trim_is_empty key))"
proof -
  have external: "allows p RunExternal \<longleftrightarrow> pr_role p = Administrator" for p
    by (simp add: allows_def split: role.split)
  have provider: "cf_provider c = LocalProvider \<longleftrightarrow> cf_provider c \<noteq> OpenAiCompatible"
    by (cases "cf_provider c") simp_all
  have key: "\<not> trim_is_empty (unwrap_or (cf_api_key c) []) \<longleftrightarrow> (\<exists>key. cf_api_key c = Some key \<and> \<not> trim_is_empty key)"
    by (cases "cf_api_key c") simp_all
  show ?thesis
    by (cases "cf_environment c")
      (auto simp: validate_config_def validate_production_def MIN_DATABASE_MAX_BYTES_def word_less_nat_alt external
        provider key [symmetric] result_simps split: if_splits)
qed

lemma from_values_validated:
  assumes "from_values parse_url v live confirmation audit_required = Inr c"
  shows "validate_config c = Inr ()" and "cf_live_requested c = live" "cf_live_confirmation c = confirmation"
    and "pr_tenant (cf_principal c) = cf_tenant c" "cf_database c = cv_database v" "cf_skills_file c = cv_skills_file v"
  using assms by (auto simp: from_values_def result_simps Let_def)

text \<open>C30: a process starts only with a configuration that is safe: its audit is on and its database has room; a live
  run is confirmed and asked for by an administrator, in every environment; in production the model is
  external, behind HTTPS and a key that is not blank. The summary that is shown to users is the same
  whatever the key is.\<close>

theorem accepted_configuration_is_safe:
  assumes "from_values parse_url v live confirmation audit_required = Inr c"
  shows "cf_audit_required c \<and> 1048576 \<le> unat (cf_database_max_bytes c) \<and> pr_tenant (cf_principal c) = cf_tenant c
    \<and> (live \<longrightarrow> confirmation \<and> pr_role (cf_principal c) = Administrator)
    \<and> (cf_environment c = Production \<longrightarrow> cf_provider c = OpenAiCompatible \<and> url_scheme (cf_endpoint c) = ''https''
         \<and> (\<exists>key. cf_api_key c = Some key \<and> \<not> trim_is_empty key))
    \<and> (cf_api_key c \<noteq> None \<longrightarrow> public_summary (c\<lparr>cf_api_key := Some other\<rparr>) = public_summary c)"
  using from_values_validated [OF assms] by (auto simp: validate_config_iff public_summary_def)

definition sample_values :: config_values where
  "sample_values = \<lparr>cv_environment = ''Prod'', cv_database = ''db'', cv_database_max_bytes = 2000000, cv_skills_file = ''skills'',
     cv_tenant = ''acme'', cv_operator = ''ana'', cv_role = ''ADMIN'', cv_provider = ''openai'', cv_endpoint = ''https://model'',
     cv_model_name = ''m'', cv_api_key = Some ''key''\<rparr>"

definition sample_url :: "string \<Rightarrow> string + url" where
  "sample_url s = Inr \<lparr>url_text = s, url_scheme = ''https''\<rparr>"

lemma sample_accepted: "is_ok (from_values sample_url sample_values True True True)"
  by code_simp

theorem accepted_configuration_is_safe_witness:
  "\<exists>c. from_values sample_url sample_values True True True = Inr c \<and> pr_role (cf_principal c) = Administrator"
proof -
  obtain c where "from_values sample_url sample_values True True True = Inr c"
    using sample_accepted by (cases "from_values sample_url sample_values True True True") (simp_all add: is_ok_def)
  with accepted_configuration_is_safe [OF this] show ?thesis by blast
qed

end
