(* ===== verification/Effects.thy ===== *)
theory Effects
  imports Shaka_Prelude
begin

text \<open>
  What changes a world and may fail: the handlers of the server and the commands of the command line. \<open>and_do\<close>
  is \<open>?\<close> followed by the rest: an error ends the action, and leaves the world as it has become.
\<close>

type_synonym ('w, 'e, 'a) act = "'w \<Rightarrow> ('e + 'a) \<times> 'w"

definition respond :: "'a \<Rightarrow> ('w, 'e, 'a) act" where
  "respond x w = (Inr x, w)"

definition refuse :: "'e \<Rightarrow> ('w, 'e, 'a) act" where
  "refuse e w = (Inl e, w)"

definition and_do :: "('w, 'e, 'a) act \<Rightarrow> ('a \<Rightarrow> ('w, 'e, 'b) act) \<Rightarrow> ('w, 'e, 'b) act" where
  "and_do m f w = (case m w of (Inl e, w') \<Rightarrow> (Inl e, w') | (Inr x, w') \<Rightarrow> f x w')"

definition require :: "bool \<Rightarrow> 'e \<Rightarrow> ('w, 'e, unit) act" where
  "require b e = (if b then respond () else refuse e)"

definition from_result :: "'e + 'a \<Rightarrow> ('w, 'e, 'a) act" where
  "from_result r = (case r of Inl e \<Rightarrow> refuse e | Inr x \<Rightarrow> respond x)"

lemma and_do_assoc: "and_do (and_do m f) g = and_do m (\<lambda>x. and_do (f x) g)"
  by (rule ext) (simp add: and_do_def split: prod.split sum.split)

lemma and_do_simps [simp]:
  "and_do (respond x) f = f x" "and_do (refuse e) f = refuse e"
  by (simp_all add: fun_eq_iff and_do_def respond_def refuse_def)

lemma and_do_Inr:
  "and_do m f w = (Inr y, w') \<longleftrightarrow> (\<exists>x w1. m w = (Inr x, w1) \<and> f x w1 = (Inr y, w'))"
  by (auto simp: and_do_def split: prod.splits sum.splits)

lemma pure_Inr:
  "respond x w = (Inr y, w') \<longleftrightarrow> y = x \<and> w' = w" "refuse e w \<noteq> (Inr y, w')"
  "require b e w = (Inr u, w') \<longleftrightarrow> b \<and> w' = w" "from_result r w = (Inr y, w') \<longleftrightarrow> r = Inr y \<and> w' = w"
  by (auto simp: respond_def refuse_def require_def from_result_def split: sum.split)

end
