(* ===== verification/Api_Requests.thy ===== *)
theory Api_Requests
  imports Agent_Tools Telemetry Effects
begin

text \<open>
  \<^verbatim>\<open>crates/shaka-api/src/lib.rs\<close>: the configuration of the server, the errors it answers with, the
  correlation of a request, and the authentication of its bearer. A handler is a function of the world of
  a request: it uses the store one operation at a time, and between any two of them other requests and
  the workers may have changed it in any way.
\<close>

subsection \<open>Configuration\<close>

datatype ip_addr = V4 "8 word" "8 word" "8 word" "8 word" | V6 "128 word"

fun is_loopback :: "ip_addr \<Rightarrow> bool" where
  "is_loopback (V4 a b c d) \<longleftrightarrow> a = 127"
| "is_loopback (V6 a) \<longleftrightarrow> a = 1"

record api_config =
  ac_bind_ip :: ip_addr
  ac_bind_port :: "16 word"
  ac_worker_count :: nat
  ac_api_key :: "string option"
  ac_live_enabled :: bool
  ac_live_confirmation :: bool
  ac_lease_for :: int
  ac_retry_base_delay :: int
  ac_retry_max_delay :: int
  ac_circuit :: circuit_config

definition default_api_config :: api_config where
  "default_api_config = \<lparr>ac_bind_ip = V4 127 0 0 1, ac_bind_port = 8080, ac_worker_count = 2, ac_api_key = None,
     ac_live_enabled = False, ac_live_confirmation = False, ac_lease_for = seconds 60,
     ac_retry_base_delay = 250000000, ac_retry_max_delay = seconds 30, ac_circuit = default_circuit_config\<rparr>"

subsection \<open>Errors\<close>

datatype api_error =
  ApiUnauthorized | ApiForbidden | ApiNotFound | BadRequest string | Conflict string
| ApiRateLimited nat | ApiQuotaExceeded string | Internal

definition validate_api_config :: "api_config \<Rightarrow> api_error + unit" where
  "validate_api_config c =
     (if ac_worker_count c = 0 \<or> ac_worker_count c > 32 then
        Inl (BadRequest ''worker_count deve estar entre 1 e 32'')
      else if ac_lease_for c \<le> 0 \<or> ac_retry_base_delay c < 0 \<or> ac_retry_max_delay c < ac_retry_base_delay c then
        Inl (BadRequest ''politica de tempo da API e invalida'')
      else if (case ac_api_key c of None \<Rightarrow> False | Some key \<Rightarrow> trim_is_empty key) then
        Inl (BadRequest ''SHAKA_API_KEY nao pode ser vazia'')
      else Inr ())"

text \<open>\<open>Display\<close> of an error of the store; \<open>driver\<close> is what the driver or the JSON library says.\<close>

fun queue_error_text :: "string \<Rightarrow> queue_error \<Rightarrow> string" where
  "queue_error_text driver (Sqlite _) = ''erro SQLite: '' @ driver"
| "queue_error_text driver DatabaseFull = ''banco SQLite atingiu o limite de armazenamento''"
| "queue_error_text driver Serialization = ''erro de serializacao: '' @ driver"
| "queue_error_text driver (Core e) = ''erro de nucleo: '' @ core_error_text e"
| "queue_error_text driver (QInvalidIdentifier s) = ''identificador invalido: '' @ s"
| "queue_error_text driver (QInvalidInput s) = ''entrada invalida: '' @ s"
| "queue_error_text driver (NotFound s) = ''registro nao encontrado: '' @ s"
| "queue_error_text driver IdempotencyConflict = ''chave de idempotencia ja usada com outro payload''"
| "queue_error_text driver QUnauthorized = ''nao autorizado''"
| "queue_error_text driver Forbidden = ''operacao proibida''"
| "queue_error_text driver (QuotaExceeded s) = ''quota excedida: '' @ s"
| "queue_error_text driver (InvalidDatabaseQuota requested minimum) =
     ''quota SQLite invalida: requested_bytes='' @ show_nat (unat requested) @ '', minimum_bytes=''
     @ show_nat (unat minimum)"
| "queue_error_text driver (RateLimited s) = ''rate limit excedido; tente novamente em '' @ show_nat s @ ''s''"
| "queue_error_text driver LeaseLost = ''lease da tarefa perdida; finalizacao rejeitada''"

text \<open>What an error of the store becomes; what the driver says is not passed on.\<close>

definition api_error_of :: "queue_error \<Rightarrow> api_error" where
  "api_error_of e =
     (case e of
        NotFound _ \<Rightarrow> ApiNotFound
      | QUnauthorized \<Rightarrow> ApiUnauthorized
      | Forbidden \<Rightarrow> ApiForbidden
      | RateLimited retry_after_seconds \<Rightarrow> ApiRateLimited retry_after_seconds
      | QuotaExceeded name \<Rightarrow> ApiQuotaExceeded name
      | IdempotencyConflict \<Rightarrow> Conflict ''Idempotency-Key ja foi usada com outro payload''
      | LeaseLost \<Rightarrow> Conflict ''lease da tarefa perdida''
      | DatabaseFull \<Rightarrow> Internal
      | Sqlite _ \<Rightarrow> Internal
      | Serialization \<Rightarrow> Internal
      | _ \<Rightarrow> BadRequest (queue_error_text [] e))"

record error_response =
  er_status :: nat
  er_message :: string
  er_request_id :: string
  er_retry_after :: "string option"

fun error_status :: "api_error \<Rightarrow> nat" where
  "error_status ApiUnauthorized = 401"
| "error_status ApiForbidden = 403"
| "error_status ApiNotFound = 404"
| "error_status (BadRequest _) = 400"
| "error_status (Conflict _) = 409"
| "error_status (ApiRateLimited _) = 429"
| "error_status (ApiQuotaExceeded _) = 429"
| "error_status Internal = 500"

fun error_message :: "api_error \<Rightarrow> string" where
  "error_message ApiUnauthorized = ''nao autorizado''"
| "error_message ApiForbidden = ''operacao proibida''"
| "error_message ApiNotFound = ''recurso nao encontrado''"
| "error_message (BadRequest s) = s"
| "error_message (Conflict s) = s"
| "error_message (ApiRateLimited _) = ''rate limit excedido''"
| "error_message (ApiQuotaExceeded name) = ''quota excedida: '' @ name"
| "error_message Internal = ''falha interna persistente''"

definition into_response :: "string \<Rightarrow> api_error \<Rightarrow> error_response" where
  "into_response request e =
     \<lparr>er_status = error_status e, er_message = error_message e, er_request_id = request,
      er_retry_after = (case e of ApiRateLimited s \<Rightarrow> Some (show_nat s) | _ \<Rightarrow> None)\<rparr>"

subsection \<open>Correlation of a request\<close>

text \<open>\<open>split\<close> at a character, pieces in between may be empty.\<close>

fun split_on :: "char \<Rightarrow> string \<Rightarrow> string list" where
  "split_on c [] = [[]]"
| "split_on c (a # s) =
     (if a = c then [] # split_on c s
      else (case split_on c s of [] \<Rightarrow> [[a]] | p # ps \<Rightarrow> (a # p) # ps))"

definition parse_traceparent :: "string \<Rightarrow> (string \<times> string) option" where
  "parse_traceparent value =
     (case split_on (CHR ''-'') value of
        [version, trace_id, span_id, flags] \<Rightarrow>
          if length version \<noteq> 2 \<or> map ascii_lower version = ''ff'' \<or> length trace_id \<noteq> 32 \<or> length span_id \<noteq> 16
             \<or> length flags \<noteq> 2 \<or> \<not> list_all ascii_hexdigit version \<or> \<not> list_all ascii_hexdigit trace_id
             \<or> \<not> list_all ascii_hexdigit span_id \<or> \<not> list_all ascii_hexdigit flags
             \<or> list_all (\<lambda>c. c = CHR ''0'') trace_id \<or> list_all (\<lambda>c. c = CHR ''0'') span_id
          then None
          else Some (map ascii_lower trace_id, map ascii_lower span_id)
      | _ \<Rightarrow> None)"

text \<open>The headers that are read: the first of each name, if its value is text of visible characters.\<close>

record http_headers =
  hd_authorization :: "string option"
  hd_idempotency_key :: "string option"
  hd_request_id :: "string option"
  hd_traceparent :: "string option"

text \<open>\<open>fresh\<close> and \<open>again\<close> are the texts of two random UUIDs.\<close>

definition correlation_from_request :: "string \<Rightarrow> string \<Rightarrow> http_headers \<Rightarrow> correlation" where
  "correlation_from_request fresh again hs =
     (let correlation = (case Option.bind (hd_request_id hs) (\<lambda>r. case with_request_id r of Inl _ \<Rightarrow> None | Inr c \<Rightarrow> Some c) of
            None \<Rightarrow> new_correlation fresh | Some c \<Rightarrow> c)
      in case Option.bind (hd_traceparent hs) parse_traceparent of
           None \<Rightarrow> correlation
         | Some (trace_id, span_id) \<Rightarrow>
             (case with_trace_ids (Some trace_id) (Some span_id) correlation of
                Inl _ \<Rightarrow> new_correlation again | Inr c \<Rightarrow> c))"

subsection \<open>The world of a request\<close>

text \<open>The state of the server and its libraries, and what the world does at each use: the clock, fresh UUIDs,
  what others do to the store and to the audit trail in between, faults of the disk under the trail, the
  breaker, and what the driver says of the integrity of the files.\<close>

record api_env =
  ax_store :: env
  ax_iam :: iam_env
  ax_log :: log_env
  ax_redactor :: redactor
  ax_config :: api_config
  ax_principal :: principal
  ax_now :: "nat \<Rightarrow> instant"
  ax_fresh :: "nat \<Rightarrow> uuid"
  ax_between :: "nat \<Rightarrow> host \<Rightarrow> host"
  ax_trail_between :: "nat \<Rightarrow> memory \<Rightarrow> memory"
  ax_trail_fault :: "nat \<Rightarrow> memory_error option"
  ax_breaker :: "nat \<Rightarrow> circuit_snapshot"
  ax_store_integrity :: "nat \<Rightarrow> queue_error + bool"
  ax_trail_integrity :: "nat \<Rightarrow> memory_error + bool"

text \<open>\<open>aw_signalled\<close> lists the tasks whose cancellation token was fired, if they run.\<close>

record api_world =
  aw_tick :: nat
  aw_host :: host
  aw_memory :: memory
  aw_signalled :: "task_id list"

type_synonym 'a handler = "(api_world, api_error, 'a) act"

text \<open>A use of the store.\<close>

definition on_store :: "api_env \<Rightarrow> (instant \<Rightarrow> host \<Rightarrow> (queue_error + 'a) \<times> host) \<Rightarrow> 'a handler" where
  "on_store A f w =
     (let t = aw_tick w in
      case f (ax_now A t) (ax_between A t (aw_host w)) of
        (r, h) \<Rightarrow> (map_err api_error_of r, w\<lparr>aw_tick := Suc t, aw_host := h\<rparr>))"

text \<open>A transaction: an error leaves the store as it was.\<close>

definition changes :: "(instant \<Rightarrow> host \<Rightarrow> queue_error + ('a \<times> host)) \<Rightarrow> instant \<Rightarrow> host \<Rightarrow> (queue_error + 'a) \<times> host"
  where
  "changes f now h = (case f now h of Inl e \<Rightarrow> (Inl e, h) | Inr (x, h') \<Rightarrow> (Inr x, h'))"

definition reads :: "(instant \<Rightarrow> host \<Rightarrow> queue_error + 'a) \<Rightarrow> instant \<Rightarrow> host \<Rightarrow> (queue_error + 'a) \<times> host" where
  "reads f now h = (f now h, h)"

definition on_plans :: "(instant \<Rightarrow> db \<Rightarrow> queue_error + ('a \<times> db)) \<Rightarrow> instant \<Rightarrow> host \<Rightarrow> queue_error + ('a \<times> host)" where
  "on_plans f now h = and_then (f now (hs_db h)) (\<lambda>(x, db). Inr (x, h\<lparr>hs_db := db\<rparr>))"

text \<open>A moment and a fresh UUID.\<close>

definition with_clock :: "api_env \<Rightarrow> (instant \<Rightarrow> uuid \<Rightarrow> 'a handler) \<Rightarrow> 'a handler" where
  "with_clock A f w = f (ax_now A (aw_tick w)) (ax_fresh A (aw_tick w)) (w\<lparr>aw_tick := Suc (aw_tick w)\<rparr>)"

text \<open>\<open>audit_principal\<close>: the identifiers of the request are added; a failure is only logged.\<close>

definition correlated :: "correlation \<Rightarrow> (string \<times> string) list \<Rightarrow> (string \<times> string) list" where
  "correlated ctx metadata =
     (let metadata = bt_insert ''correlation_request_id'' (co_request_id ctx) metadata
      in case co_trace_id ctx of None \<Rightarrow> metadata | Some trace_id \<Rightarrow> bt_insert ''correlation_trace_id'' trace_id metadata)"

definition audit_principal ::
    "api_env \<Rightarrow> correlation \<Rightarrow> principal \<Rightarrow> task_id option \<Rightarrow> string \<Rightarrow> string \<Rightarrow> (string \<times> string) list \<Rightarrow> unit handler"
  where
  "audit_principal A ctx who task action outcome metadata w =
     (let t = aw_tick w; m = ax_trail_between A t (aw_memory w);
          m' = (if ax_trail_fault A t \<noteq> None then m
                else case record_audit (ax_log A) (ax_redactor A) (ax_fresh A t) (ax_now A t) task (pr_tenant who)
                       (operator_str (pr_operator who)) action outcome (correlated ctx metadata) m of
                       Inl _ \<Rightarrow> m | Inr (_, m') \<Rightarrow> m')
      in (Inr (), w\<lparr>aw_tick := Suc t, aw_memory := m'\<rparr>))"

definition signal_cancel :: "task_id \<Rightarrow> unit handler" where
  "signal_cancel task w = (Inr (), w\<lparr>aw_signalled := task # aw_signalled w\<rparr>)"

subsection \<open>Authentication\<close>

definition strip_prefix :: "string \<Rightarrow> string \<Rightarrow> string option" where
  "strip_prefix p s = (if take (length p) s = p then Some (drop (length p) s) else None)"

definition local_principal :: "api_env \<Rightarrow> string \<Rightarrow> string \<Rightarrow> authenticated_principal" where
  "local_principal A token_id prefix =
     \<lparr>au_principal = ax_principal A, au_token_id = token_id, au_token_prefix = prefix, au_source = FromStaticApiKey\<rparr>"

definition authenticate :: "api_env \<Rightarrow> http_headers \<Rightarrow> authenticated_principal handler" where
  "authenticate A hs =
     (case Option.bind (hd_authorization hs) (strip_prefix ''Bearer '') of
        Some token \<Rightarrow>
          if ac_api_key (ax_config A) = Some token then respond (local_principal A ''static-api-key'' ''static'')
          else on_store A (\<lambda>now. authenticate_token (ax_iam A) now token)
      | None \<Rightarrow>
          if is_loopback (ac_bind_ip (ax_config A)) \<and> ac_api_key (ax_config A) = None then
            respond (local_principal A ''local-loopback'' ''local'')
          else refuse ApiUnauthorized)"

end
