(* ===== verification/Api_Handlers.thy ===== *)
theory Api_Handlers
  imports Api_Requests
begin

text \<open>
  \<^verbatim>\<open>crates/shaka-api/src/lib.rs\<close>, the handlers of the routes: each authenticates its bearer, checks the
  request and composes operations of the store under the principal it found. Bodies are parsed by the
  framework: a handler is given the typed request. The name of a handler that is also one of an operation
  has \<open>http_\<close> before it.
\<close>

subsection \<open>Bodies\<close>

record session_response =
  sn_session_id :: uuid
  sn_tenant :: tenant_id
  sn_operator :: operator_id
  sn_created_at :: instant
  sn_last_seen_at :: instant
  sn_metadata :: json

definition session_response_of :: "session_row \<Rightarrow> session_response" where
  "session_response_of s = \<lparr>sn_session_id = ss_session_id s, sn_tenant = ss_tenant s, sn_operator = ss_operator s,
     sn_created_at = ss_created_at s, sn_last_seen_at = ss_last_seen_at s, sn_metadata = ss_metadata s\<rparr>"

record submit_request =
  sr_objective :: string
  sr_priority :: int
  sr_max_attempts :: "u32 option"
  sr_dry_run :: "bool option"
  sr_budget :: "execution_budget option"
  sr_task_id :: "task_id option"
  sr_plan_id :: "plan_id option"
  sr_plan_revision :: "u32 option"
  sr_plan_digest :: "string option"

record task_response =
  tp_task_id :: task_id
  tp_session_id :: uuid
  tp_status :: task_status
  tp_priority :: int
  tp_attempts :: u32
  tp_max_attempts :: u32
  tp_next_attempt_at :: instant
  tp_cancel_requested :: bool
  tp_lease_until :: "instant option"
  tp_result :: "json option"
  tp_last_error :: "string option"
  tp_created_at :: instant
  tp_updated_at :: instant
  tp_completed_at :: "instant option"
  tp_plan_id :: "plan_id option"
  tp_plan_revision :: "u32 option"
  tp_plan_digest :: "string option"
  tp_plan_step_id :: "plan_step_id option"

definition task_response_of :: "task_record \<Rightarrow> task_response" where
  "task_response_of t =
     \<lparr>tp_task_id = ta_task_id t, tp_session_id = ta_session_id t, tp_status = ta_status t, tp_priority = ta_priority t,
      tp_attempts = ta_attempts t, tp_max_attempts = ta_max_attempts t, tp_next_attempt_at = ta_next_attempt_at t,
      tp_cancel_requested = ta_cancel_requested t, tp_lease_until = ta_lease_until t, tp_result = ta_result t,
      tp_last_error = ta_last_error t, tp_created_at = ta_created_at t, tp_updated_at = ta_updated_at t,
      tp_completed_at = ta_completed_at t, tp_plan_id = ta_plan_id t, tp_plan_revision = ta_plan_revision t,
      tp_plan_digest = ta_plan_digest t, tp_plan_step_id = ta_plan_step_id t\<rparr>"

record approval_request =
  aq_step_id :: "plan_step_id option"
  aq_decision :: plan_approval_decision
  aq_expires_in_seconds :: "int option"

record plan_detail_response =
  pd_plan :: plan_spec
  pd_step_states :: step_states
  pd_integrity :: inspection_status
  pd_integrity_issue :: "inspection_issue option"
  pd_checkpoints_checked :: nat
  pd_transitions_checked :: nat
  pd_task :: "task_response option"

record checkpoint_response =
  kp_sequence :: nat
  kp_step_id :: "plan_step_id option"
  kp_phase :: checkpoint_phase
  kp_status :: checkpoint_status
  kp_created_at :: instant

definition checkpoint_response_of :: "plan_checkpoint \<Rightarrow> checkpoint_response" where
  "checkpoint_response_of c = \<lparr>kp_sequence = ck_sequence c, kp_step_id = ck_step_id c, kp_phase = ck_phase c,
     kp_status = ck_status c, kp_created_at = ck_created_at c\<rparr>"

subsection \<open>Helpers\<close>

definition plan_metadata :: "api_env \<Rightarrow> plan_id \<Rightarrow> (string \<times> string) list" where
  "plan_metadata A pid = (case pid of PlanId u \<Rightarrow> [(''plan_id'', uuid_str (ax_iam A) u)])"

definition idempotency_key :: "http_headers \<Rightarrow> string handler" where
  "idempotency_key hs =
     from_result (ok_or (BadRequest ''header Idempotency-Key e obrigatorio'')
       (case hd_idempotency_key hs of None \<Rightarrow> None | Some key \<Rightarrow> if trim_is_empty key then None else Some key))"

definition plan_detail :: "api_env \<Rightarrow> inspection_report \<Rightarrow> plan_detail_response handler" where
  "plan_detail A i w =
     (let t = aw_tick w; h = ax_between A t (aw_host w); w = w\<lparr>aw_tick := Suc t, aw_host := h\<rparr>;
          detail = (\<lambda>task. \<lparr>pd_plan = is_plan i, pd_step_states = is_step_states i, pd_integrity = is_status i,
            pd_integrity_issue = is_issue i, pd_checkpoints_checked = is_checkpoints_checked i,
            pd_transitions_checked = is_transitions_checked i, pd_task = task\<rparr>)
      in case get_task (ax_store A) (ps_task_id (is_plan i)) (ps_tenant (is_plan i)) h of
           Inr task \<Rightarrow> (Inr (detail (Some (task_response_of task))), w)
         | Inl (NotFound _) \<Rightarrow> (Inr (detail None), w)
         | Inl e \<Rightarrow> (Inl (api_error_of e), w))"

definition inspect_handler :: "api_env \<Rightarrow> tenant_id \<Rightarrow> plan_id \<Rightarrow> inspection_report handler" where
  "inspect_handler A tenant pid = on_store A (reads (\<lambda>now h. inspect_plan (ax_store A) tenant pid (hs_db h)))"

definition load_plan_handler :: "api_env \<Rightarrow> tenant_id \<Rightarrow> plan_id \<Rightarrow> plan_spec handler" where
  "load_plan_handler A tenant pid =
     on_store A (reads (\<lambda>now h. and_then (load_plan (ax_store A) pid tenant (hs_db h)) (\<lambda>p. Inr (pp_plan p))))"

text \<open>The members of a JSON object in the order of their keys.\<close>

definition json_number :: "int \<Rightarrow> json" where
  "json_number i = JNumber (if i < 0 then ''-'' @ show_nat (nat (- i)) else show_nat (nat i))"

definition json_option :: "('a \<Rightarrow> json) \<Rightarrow> 'a option \<Rightarrow> json" where
  "json_option f x = (case x of None \<Rightarrow> JNull | Some y \<Rightarrow> f y)"

definition json_budget :: "execution_budget \<Rightarrow> json" where
  "json_budget b = JObject [(''max_cost_microunits'', json_number (uint (max_cost_microunits b))),
     (''max_elapsed_ms'', json_number (uint (max_elapsed_ms b))), (''max_steps'', json_number (uint (max_steps b))),
     (''max_tool_calls'', json_number (uint (max_tool_calls b)))]"

definition submit_json :: "api_env \<Rightarrow> submit_request \<Rightarrow> json" where
  "submit_json A r = JObject [
     (''budget'', json_option json_budget (sr_budget r)),
     (''dry_run'', JBool (unwrap_or (sr_dry_run r) True)),
     (''max_attempts'', json_number (uint (unwrap_or (sr_max_attempts r) 3))),
     (''objective'', JString (sr_objective r)),
     (''plan_digest'', json_option JString (sr_plan_digest r)),
     (''plan_id'', json_option (\<lambda>p. case p of PlanId u \<Rightarrow> JString (uuid_str (ax_iam A) u)) (sr_plan_id r)),
     (''plan_revision'', json_option (\<lambda>n. json_number (uint n)) (sr_plan_revision r)),
     (''priority'', json_number (sr_priority r)),
     (''task_id'', json_option (\<lambda>t. case t of TaskId u \<Rightarrow> JString (uuid_str (ax_iam A) u)) (sr_task_id r))]"

definition fingerprint :: "api_env \<Rightarrow> submit_request \<Rightarrow> string \<Rightarrow> string" where
  "fingerprint A r key = sha_text (ax_iam A) (key @ [CHR 0x00] @ lg_print (ax_log A) (submit_json A r))"

definition bounded_json :: "api_env \<Rightarrow> json \<Rightarrow> nat \<Rightarrow> json handler" where
  "bounded_json A v max_bytes =
     (if length (lg_print (ax_log A) v) > max_bytes then refuse (BadRequest ''metadata excede o limite'') else respond v)"

text \<open>The number that hexadecimal digits stand for: \<open>Uuid::from_bytes\<close> of the first half of a digest.\<close>

definition hex_value :: "char \<Rightarrow> nat" where
  "hex_value c = (let x = of_char c in if x < 58 then x - 48 else x - 87)"

definition hex_number :: "string \<Rightarrow> nat" where
  "hex_number s = foldl (\<lambda>n c. 16 * n + hex_value c) 0 s"

definition approval_id_for_idempotency :: "iam_env \<Rightarrow> plan_id \<Rightarrow> u32 \<Rightarrow> string \<Rightarrow> uuid" where
  "approval_id_for_idempotency I pid revision key =
     (case pid of PlanId u \<Rightarrow>
        hex_number (take 32 (sha_text I (''shaka:plan:approval:'' @ uuid_str I u @ '':'' @ show_nat (unat revision)
          @ '':'' @ key))))"

text \<open>The level an approval must have for its scope, if the scope is in the plan.\<close>

definition required_for_scope :: "plan_spec \<Rightarrow> plan_step_id option \<Rightarrow> plan_approval_requirement option" where
  "required_for_scope p step =
     (case step of None \<Rightarrow> Some (required_approval p) | Some i \<Rightarrow> map_option step_required_approval (find_step p i))"

definition approval_of_principal ::
    "iam_env \<Rightarrow> principal \<Rightarrow> plan_spec \<Rightarrow> string \<Rightarrow> plan_step_id option \<Rightarrow> plan_approval_requirement \<Rightarrow>
     plan_approval_decision \<Rightarrow> instant \<Rightarrow> plan_id \<Rightarrow> plan_approval" where
  "approval_of_principal I who plan key step required decision expires pid =
     \<lparr>ap_id = approval_id_for_idempotency I pid (ps_revision plan) key, ap_plan_id = pid,
      ap_plan_digest = ps_digest plan, ap_revision = ps_revision plan, ap_tenant = pr_tenant who,
      ap_approver = pr_operator who, ap_approver_role = pr_role who, ap_step_id = step, ap_required = required,
      ap_decision = decision, ap_expires_at = expires, ap_revoked = False\<rparr>"

fun decision_debug :: "plan_approval_decision \<Rightarrow> string" where
  "decision_debug DecisionApproved = ''Approved''"
| "decision_debug DecisionRejected = ''Rejected''"

subsection \<open>Sessions and tasks\<close>

definition http_create_session ::
    "api_env \<Rightarrow> correlation \<Rightarrow> http_headers \<Rightarrow> json \<Rightarrow> (nat \<times> session_response) handler" where
  "http_create_session A ctx hs metadata =
     and_do (authenticate A hs) (\<lambda>auth.
     let who = au_principal auth in
     and_do (bounded_json A metadata 4096) (\<lambda>metadata.
     and_do (on_store A (changes (\<lambda>now. create_session now who metadata))) (\<lambda>session.
     and_do (audit_principal A ctx who None ''api.session.create'' ''success'' []) (\<lambda>_.
     respond (201, session_response_of session)))))"

definition http_get_session :: "api_env \<Rightarrow> http_headers \<Rightarrow> uuid \<Rightarrow> session_response handler" where
  "http_get_session A hs session_id =
     and_do (authenticate A hs) (\<lambda>auth.
     let tenant = pr_tenant (au_principal auth) in
     and_do (on_store A (changes (\<lambda>now h. and_then (touch_session (uuid_text (ax_store A)) now session_id tenant h)
       (\<lambda>h. Inr ((), h))))) (\<lambda>_.
     and_do (on_store A (reads (\<lambda>now. get_session (uuid_text (ax_store A)) session_id tenant))) (\<lambda>session.
     respond (session_response_of session))))"

text \<open>The checks of a submission in the order of the code: the objective, the priority, live execution, the
  reference to a plan.\<close>

definition live_allowed :: "api_env \<Rightarrow> principal \<Rightarrow> bool" where
  "live_allowed A who \<longleftrightarrow> ac_live_enabled (ax_config A) \<and> ac_live_confirmation (ax_config A) \<and> allows who RunExternal"

definition plan_reference_of :: "bool \<Rightarrow> submit_request \<Rightarrow> api_error + plan_task_reference option" where
  "plan_reference_of dry_run r =
     (if sr_plan_id r \<noteq> None \<or> sr_plan_revision r \<noteq> None \<or> sr_plan_digest r \<noteq> None \<or> sr_task_id r \<noteq> None then
        and_then (ok_or (BadRequest ''plan_id e obrigatorio no modo planejado'') (sr_plan_id r)) (\<lambda>plan_id.
        and_then (ok_or (BadRequest ''plan_revision e obrigatorio no modo planejado'') (sr_plan_revision r)) (\<lambda>revision.
        and_then (ok_or (BadRequest ''plan_digest e obrigatorio no modo planejado'') (sr_plan_digest r)) (\<lambda>digest.
        and_then (ensure (sr_task_id r \<noteq> None) (BadRequest ''task_id e obrigatorio no modo planejado'')) (\<lambda>_.
        and_then (ensure dry_run (BadRequest ''tasks planejadas exigem dry-run na v0.8.2'')) (\<lambda>_.
        and_then (map_err (\<lambda>e. BadRequest (queue_error_text [] e)) (plan_task_reference_new plan_id revision digest))
          (\<lambda>reference. Inr (Some reference)))))))
      else Inr None)"

definition request_envelope ::
    "api_env \<Rightarrow> principal \<Rightarrow> bool \<Rightarrow> submit_request \<Rightarrow> plan_task_reference option \<Rightarrow> instant \<Rightarrow> uuid \<Rightarrow> api_error + task_envelope"
  where
  "request_envelope A who dry_run r reference now fresh =
     and_then (map_err (\<lambda>e. BadRequest (core_error_text e))
       (task_envelope_new fresh now (pr_tenant who) (pr_operator who) (sr_objective r))) (\<lambda>envelope.
     let envelope = envelope\<lparr>te_context := from_principal who, te_dry_run := dry_run\<rparr> in
     and_then (case sr_task_id r of
         None \<Rightarrow> Inr envelope
       | Some task_id \<Rightarrow>
           if reference = None then Inl (BadRequest ''task_id somente pode ser usado no modo planejado'')
           else Inr (envelope\<lparr>te_task_id := task_id\<rparr>)) (\<lambda>envelope.
     Inr (case sr_budget r of None \<Rightarrow> envelope | Some budget \<Rightarrow> envelope\<lparr>te_budget := budget\<rparr>)))"

definition http_submit_task ::
    "api_env \<Rightarrow> correlation \<Rightarrow> http_headers \<Rightarrow> uuid \<Rightarrow> submit_request \<Rightarrow> (nat \<times> task_response) handler" where
  "http_submit_task A ctx hs session_id r =
     and_do (authenticate A hs) (\<lambda>auth.
     let who = au_principal auth; dry_run = unwrap_or (sr_dry_run r) True in
     and_do (from_result (ok_or (BadRequest ''header Idempotency-Key e obrigatorio'') (hd_idempotency_key hs))) (\<lambda>key.
     and_do (on_store A (changes (\<lambda>now h. and_then (touch_session (uuid_text (ax_store A)) now session_id (pr_tenant who) h)
       (\<lambda>h. Inr ((), h))))) (\<lambda>_.
     and_do (require (\<not> trim_is_empty (sr_objective r) \<and> length (sr_objective r) \<le> 32000)
       (BadRequest ''objective vazio ou maior que 32000 caracteres'')) (\<lambda>_.
     and_do (require (- 1073741824 \<le> sr_priority r \<and> sr_priority r \<le> 1073741823) (BadRequest ''priority fora do limite'')) (\<lambda>_.
     and_do (require (dry_run \<or> live_allowed A who)
       (BadRequest ''execucao live exige configuracao explicita e principal administrador'')) (\<lambda>_.
     and_do (from_result (plan_reference_of dry_run r)) (\<lambda>reference.
     with_clock A (\<lambda>now fresh.
     and_do (from_result (request_envelope A who dry_run r reference now fresh)) (\<lambda>envelope.
     and_do (on_store A (changes (\<lambda>now h. and_then (submit_task_governed (ax_store A) now
         \<lparr>sm_session_id = session_id, sm_who = who, sm_key = key, sm_fingerprint = fingerprint A r key,
          sm_envelope = envelope, sm_priority = sr_priority r, sm_max_attempts = unwrap_or (sr_max_attempts r) 3,
          sm_reference = reference, sm_request_id = Some (co_request_id ctx)\<rparr> h)
         (\<lambda>(outcome, task, h). Inr ((outcome, task), h))))) (\<lambda>(outcome, task).
     and_do (if outcome = Created
       then audit_principal A ctx who (Some (ta_task_id task)) ''api.task.submit'' ''success''
         [(''priority'', if ta_priority task < 0 then ''-'' @ show_nat (nat (- ta_priority task))
                         else show_nat (nat (ta_priority task)))]
       else respond ()) (\<lambda>_.
     respond (if outcome = Created then 202 else 200, task_response_of task))))))))))))"

definition http_get_task :: "api_env \<Rightarrow> http_headers \<Rightarrow> task_id \<Rightarrow> task_response handler" where
  "http_get_task A hs tid =
     and_do (authenticate A hs) (\<lambda>auth.
     and_do (on_store A (reads (\<lambda>now. get_task (ax_store A) tid (pr_tenant (au_principal auth))))) (\<lambda>task.
     respond (task_response_of task)))"

definition http_cancel_task ::
    "api_env \<Rightarrow> correlation \<Rightarrow> http_headers \<Rightarrow> task_id \<Rightarrow> (nat \<times> task_response) handler" where
  "http_cancel_task A ctx hs tid =
     and_do (authenticate A hs) (\<lambda>auth.
     let who = au_principal auth in
     and_do (on_store A (changes (\<lambda>now. request_cancel (ax_store A) now tid (pr_tenant who)))) (\<lambda>task.
     and_do (signal_cancel tid) (\<lambda>_.
     and_do (audit_principal A ctx who (Some tid) ''api.task.cancel'' ''success'' []) (\<lambda>_.
     respond (if ta_status task = TaskCancelRequested then 202 else 200, task_response_of task)))))"

subsection \<open>Plans\<close>

definition http_create_plan ::
    "api_env \<Rightarrow> correlation \<Rightarrow> http_headers \<Rightarrow> plan_spec_input \<Rightarrow> (nat \<times> plan_spec) handler" where
  "http_create_plan A ctx hs input =
     and_do (authenticate A hs) (\<lambda>auth.
     let who = au_principal auth in
     and_do (require (in_tenant input = pr_tenant who \<and> in_operator input = pr_operator who) ApiForbidden) (\<lambda>_.
     and_do (require (in_mode input = DryRun) (BadRequest ''planos live permanecem bloqueados na v0.8.2'')) (\<lambda>_.
     with_clock A (\<lambda>now _.
     and_do (from_result (map_err (\<lambda>e. BadRequest (core_error_text e)) (plan_spec_new (sha_plan (ax_store A)) now input)))
       (\<lambda>plan.
     and_do (on_store A (changes (on_plans (\<lambda>now. save_plan (ax_store A) now plan)))) (\<lambda>persisted.
     and_do (audit_principal A ctx who None ''plan.create'' ''success'' (plan_metadata A (ps_plan_id plan))) (\<lambda>_.
     respond (201, pp_plan persisted))))))))"

definition http_get_plan :: "api_env \<Rightarrow> correlation \<Rightarrow> http_headers \<Rightarrow> plan_id \<Rightarrow> plan_detail_response handler" where
  "http_get_plan A ctx hs pid =
     and_do (authenticate A hs) (\<lambda>auth.
     let who = au_principal auth in
     and_do (inspect_handler A (pr_tenant who) pid) (\<lambda>inspection.
     and_do (audit_principal A ctx who None ''plan.show'' ''success'' (plan_metadata A pid)) (\<lambda>_.
     plan_detail A inspection)))"

definition http_validate_plan :: "api_env \<Rightarrow> correlation \<Rightarrow> http_headers \<Rightarrow> plan_id \<Rightarrow> verification_report handler" where
  "http_validate_plan A ctx hs pid =
     and_do (authenticate A hs) (\<lambda>auth.
     let who = au_principal auth in
     and_do (on_store A (reads (\<lambda>now h. validate_plan (ax_store A) now (pr_tenant who) pid (hs_db h)))) (\<lambda>report.
     and_do (audit_principal A ctx who None ''plan.validate''
       (if is_executable report then ''success'' else ''blocked'') (plan_metadata A pid)) (\<lambda>_.
     respond report)))"

definition http_approve_plan ::
    "api_env \<Rightarrow> correlation \<Rightarrow> http_headers \<Rightarrow> plan_id \<Rightarrow> approval_request \<Rightarrow>
     (approval_outcome \<times> plan_detail_response) handler" where
  "http_approve_plan A ctx hs pid r =
     and_do (authenticate A hs) (\<lambda>auth.
     let who = au_principal auth in
     and_do (idempotency_key hs) (\<lambda>key.
     and_do (load_plan_handler A (pr_tenant who) pid) (\<lambda>plan.
     let expires_in = unwrap_or (aq_expires_in_seconds r) 3600 in
     and_do (require (1 \<le> expires_in \<and> expires_in \<le> 604800) (BadRequest ''expires_in_seconds deve estar entre 1 e 604800''))
       (\<lambda>_.
     and_do (from_result (ok_or ApiNotFound (required_for_scope plan (aq_step_id r)))) (\<lambda>required.
     with_clock A (\<lambda>now _.
     let approval = approval_of_principal (ax_iam A) who plan key (aq_step_id r) required (aq_decision r)
       (now + seconds expires_in) pid in
     and_do (on_store A (changes (on_plans (\<lambda>now. approve_plan (ax_store A) now who approval key)))) (\<lambda>outcome.
     and_do (inspect_handler A (pr_tenant who) pid) (\<lambda>inspection.
     and_do (audit_principal A ctx who None ''plan.approve'' ''success''
       ((''decision'', decision_debug (ap_decision approval)) # plan_metadata A pid)) (\<lambda>_.
     and_do (plan_detail A inspection) (\<lambda>detail.
     respond (outcome, detail)))))))))))"

definition http_resume_plan ::
    "api_env \<Rightarrow> correlation \<Rightarrow> http_headers \<Rightarrow> plan_id \<Rightarrow> string \<Rightarrow> (resolution_outcome \<times> plan_detail_response) handler"
  where
  "http_resume_plan A ctx hs pid evidence_digest =
     and_do (authenticate A hs) (\<lambda>auth.
     let who = au_principal auth in
     and_do (idempotency_key hs) (\<lambda>key.
     and_do (on_store A (changes (on_plans (\<lambda>now. resolve_plan_unknown (ax_store A) now who pid Resume key
       (Some evidence_digest))))) (\<lambda>outcome.
     and_do (inspect_handler A (pr_tenant who) pid) (\<lambda>inspection.
     and_do (audit_principal A ctx who None ''plan.resume'' ''success'' (plan_metadata A pid)) (\<lambda>_.
     and_do (plan_detail A inspection) (\<lambda>detail.
     respond (outcome, detail)))))))"

definition http_cancel_plan ::
    "api_env \<Rightarrow> correlation \<Rightarrow> http_headers \<Rightarrow> plan_id \<Rightarrow> (task_response \<times> plan_detail_response) handler" where
  "http_cancel_plan A ctx hs pid =
     and_do (authenticate A hs) (\<lambda>auth.
     let who = au_principal auth in
     and_do (idempotency_key hs) (\<lambda>key.
     and_do (load_plan_handler A (pr_tenant who) pid) (\<lambda>plan.
     and_do (if ps_state plan = Unknown then
         and_do (on_store A (changes (on_plans (\<lambda>now. resolve_plan_unknown (ax_store A) now who pid Cancel key None)))) (\<lambda>_.
         on_store A (reads (\<lambda>now. get_task (ax_store A) (ps_task_id plan) (pr_tenant who))))
       else on_store A (changes (\<lambda>now. request_cancel (ax_store A) now (ps_task_id plan) (pr_tenant who)))) (\<lambda>task.
     and_do (inspect_handler A (pr_tenant who) pid) (\<lambda>inspection.
     and_do (signal_cancel (ta_task_id task)) (\<lambda>_.
     and_do (audit_principal A ctx who (Some (ta_task_id task)) ''plan.cancel'' ''success'' (plan_metadata A pid)) (\<lambda>_.
     and_do (plan_detail A inspection) (\<lambda>detail.
     respond (task_response_of task, detail)))))))))"

definition http_plan_checkpoints ::
    "api_env \<Rightarrow> correlation \<Rightarrow> http_headers \<Rightarrow> plan_id \<Rightarrow> checkpoint_response list handler" where
  "http_plan_checkpoints A ctx hs pid =
     and_do (authenticate A hs) (\<lambda>auth.
     let who = au_principal auth in
     and_do (on_store A (reads (\<lambda>now h. list_plan_checkpoints (ax_store A) (pr_tenant who) pid (hs_db h)))) (\<lambda>checkpoints.
     and_do (audit_principal A ctx who None ''plan.checkpoints'' ''success'' (plan_metadata A pid)) (\<lambda>_.
     respond (map checkpoint_response_of checkpoints))))"

subsection \<open>Health\<close>

record health_response =
  hl_queued_tasks :: nat
  hl_circuit :: circuit_snapshot

definition healthz :: "api_env \<Rightarrow> health_response handler" where
  "healthz A =
     and_do (on_store A (reads (\<lambda>now h. Inr (queued_count h)))) (\<lambda>queued w.
     (Inr \<lparr>hl_queued_tasks = queued, hl_circuit = ax_breaker A (aw_tick w)\<rparr>, w))"

record readiness_response =
  rs_ready :: bool
  rs_database_integrity :: bool
  rs_audit_chain :: audit_verification
  rs_queued_tasks :: nat
  rs_circuit :: circuit_snapshot

definition readyz :: "api_env \<Rightarrow> http_headers \<Rightarrow> (nat \<times> readiness_response) handler" where
  "readyz A hs =
     and_do (authenticate A hs) (\<lambda>auth.
     and_do (\<lambda>w. from_result (map_err api_error_of (ax_store_integrity A (aw_tick w))) w) (\<lambda>store_ok.
     and_do (\<lambda>w. from_result (map_err (\<lambda>_. Internal) (ax_trail_integrity A (aw_tick w))) w) (\<lambda>trail_ok.
     and_do (\<lambda>w. let m = ax_trail_between A (aw_tick w) (aw_memory w) in
         (Inr (verify_audit_chain (lg_memory (ax_log A)) (pr_tenant (au_principal auth)) m),
          w\<lparr>aw_tick := Suc (aw_tick w), aw_memory := m\<rparr>)) (\<lambda>chain.
     and_do (on_store A (reads (\<lambda>now h. Inr (queued_count h)))) (\<lambda>queued w.
     let circuit = ax_breaker A (aw_tick w);
         ready = (store_ok \<and> trail_ok \<and> vf_valid chain \<and> cb_state circuit = Closed)
     in (Inr (if ready then 200 else 503,
           \<lparr>rs_ready = ready, rs_database_integrity = (store_ok \<and> trail_ok), rs_audit_chain = chain,
            rs_queued_tasks = queued, rs_circuit = circuit\<rparr>), w))))))"

subsection \<open>The state of the server\<close>

text \<open>\<open>ApiState::new\<close>: nothing is written before the configuration is accepted.\<close>

definition api_state_new ::
    "instant \<Rightarrow> instant \<Rightarrow> principal \<Rightarrow> api_config \<Rightarrow> circuit_row list \<Rightarrow> host \<Rightarrow> (api_error + circuit_breaker) \<times> host" where
  "api_state_new now later who c rows h =
     (case validate_api_config c of
        Inl e \<Rightarrow> (Inl e, h)
      | Inr _ \<Rightarrow>
          if \<not> is_loopback (ac_bind_ip c) \<and> ac_api_key c = None \<and> \<not> has_active_tokens now h then
            (Inl (BadRequest ''bind nao local exige SHAKA_API_KEY ou token IAM ativo''), h)
          else
            (case bootstrap_principal later who h of
               Inl e \<Rightarrow> (Inl (api_error_of e), h)
             | Inr h \<Rightarrow> (map_err api_error_of (circuit_breaker_new ''agent-runtime'' (ac_circuit c) rows), h)))"

end
