(* ===== verification/Api_Routes.thy ===== *)
theory Api_Routes
  imports Api_Handlers
begin

text \<open>
  \<^verbatim>\<open>crates/shaka-api/src/lib.rs\<close>: the routes of the server and what goes around each request: its
  correlation is read from the headers, the handler of its route runs, and the identifier of the
  request is put into the response, whatever it is. The framework has matched the path and parsed the
  body: a request is the route with its typed arguments.
\<close>

datatype http_request =
  GetHealthz
| GetReadyz
| PostSessions json
| GetSession uuid
| PostSessionTasks uuid submit_request
| GetTask task_id
| DeleteTask task_id
| PostPlans plan_spec_input
| GetPlan plan_id
| PostPlanValidate plan_id
| PostPlanApprove plan_id approval_request
| PostPlanResume plan_id string
| PostPlanCancel plan_id
| GetPlanCheckpoints plan_id

datatype http_body =
  HealthBody health_response
| ReadinessBody readiness_response
| SessionBody session_response
| TaskBody task_response
| PlanBody plan_spec
| PlanDetailBody plan_detail_response
| ReportBody verification_report
| PlanApprovalBody approval_outcome plan_detail_response
| PlanResolutionBody resolution_outcome plan_detail_response
| PlanCancelBody task_response plan_detail_response
| CheckpointsBody "checkpoint_response list"
| ErrorBody error_response

definition reply :: "('a \<Rightarrow> nat \<times> http_body) \<Rightarrow> 'a handler \<Rightarrow> (nat \<times> http_body) handler" where
  "reply f m = and_do m (\<lambda>x. respond (f x))"

text \<open>A handler that returns a body alone answers with 200.\<close>

definition ok_body :: "('a \<Rightarrow> http_body) \<Rightarrow> 'a \<Rightarrow> nat \<times> http_body" where
  "ok_body f x = (200, f x)"

definition route :: "api_env \<Rightarrow> correlation \<Rightarrow> http_headers \<Rightarrow> http_request \<Rightarrow> (nat \<times> http_body) handler" where
  "route A ctx hs r =
     (case r of
        GetHealthz \<Rightarrow> reply (ok_body HealthBody) (healthz A)
      | GetReadyz \<Rightarrow> reply (apsnd ReadinessBody) (readyz A hs)
      | PostSessions metadata \<Rightarrow> reply (apsnd SessionBody) (http_create_session A ctx hs metadata)
      | GetSession session_id \<Rightarrow> reply (ok_body SessionBody) (http_get_session A hs session_id)
      | PostSessionTasks session_id request \<Rightarrow> reply (apsnd TaskBody) (http_submit_task A ctx hs session_id request)
      | GetTask tid \<Rightarrow> reply (ok_body TaskBody) (http_get_task A hs tid)
      | DeleteTask tid \<Rightarrow> reply (apsnd TaskBody) (http_cancel_task A ctx hs tid)
      | PostPlans input \<Rightarrow> reply (apsnd PlanBody) (http_create_plan A ctx hs input)
      | GetPlan pid \<Rightarrow> reply (ok_body PlanDetailBody) (http_get_plan A ctx hs pid)
      | PostPlanValidate pid \<Rightarrow> reply (ok_body ReportBody) (http_validate_plan A ctx hs pid)
      | PostPlanApprove pid request \<Rightarrow>
          reply (ok_body (\<lambda>(outcome, plan). PlanApprovalBody outcome plan)) (http_approve_plan A ctx hs pid request)
      | PostPlanResume pid evidence \<Rightarrow>
          reply (ok_body (\<lambda>(outcome, plan). PlanResolutionBody outcome plan)) (http_resume_plan A ctx hs pid evidence)
      | PostPlanCancel pid \<Rightarrow> reply (ok_body (\<lambda>(task, plan). PlanCancelBody task plan)) (http_cancel_plan A ctx hs pid)
      | GetPlanCheckpoints pid \<Rightarrow> reply (ok_body CheckpointsBody) (http_plan_checkpoints A ctx hs pid))"

record http_response =
  rp_status :: nat
  rp_body :: http_body
  rp_request_id :: string

text \<open>\<open>request_context_middleware\<close>; an identifier of a request is always a legal header value.\<close>

definition handle_request ::
    "api_env \<Rightarrow> string \<Rightarrow> string \<Rightarrow> http_headers \<Rightarrow> http_request \<Rightarrow> api_world \<Rightarrow> http_response \<times> api_world" where
  "handle_request A fresh again hs r w =
     (let ctx = correlation_from_request fresh again hs in
      case route A ctx hs r w of
        (Inl e, w') \<Rightarrow>
          (let body = into_response (co_request_id ctx) e
           in (\<lparr>rp_status = er_status body, rp_body = ErrorBody body, rp_request_id = co_request_id ctx\<rparr>, w'))
      | (Inr (status, body), w') \<Rightarrow>
          (\<lparr>rp_status = status, rp_body = body, rp_request_id = co_request_id ctx\<rparr>, w'))"

definition status_class :: "nat \<Rightarrow> string" where
  "status_class status =
     (if 100 \<le> status \<and> status \<le> 199 then ''1xx''
      else if 200 \<le> status \<and> status \<le> 299 then ''2xx''
      else if 300 \<le> status \<and> status \<le> 399 then ''3xx''
      else if 400 \<le> status \<and> status \<le> 499 then ''4xx''
      else ''5xx'')"

lemma handle_request_world: "snd (handle_request A fresh again hs r w) = snd (route A (correlation_from_request fresh again hs) hs r w)"
  by (simp add: handle_request_def Let_def split: prod.split sum.split)

end
