(* ===== verification/Api_Contract.thy ===== *)
theory Api_Contract
  imports Api_Routes Queue_Facts
begin

text \<open>
  What holds of every request because it holds of the operations it is made of: a locale takes what each
  operation of the store and each entry of the audit trail keeps, and shows that every handler keeps it.
\<close>

definition request_keeps :: "(host \<Rightarrow> host \<Rightarrow> bool) \<Rightarrow> (memory \<Rightarrow> memory \<Rightarrow> bool) \<Rightarrow> 'a handler \<Rightarrow> bool" where
  "request_keeps R T m \<longleftrightarrow> (\<forall>w. R (aw_host w) (aw_host (snd (m w))) \<and> T (aw_memory w) (aw_memory (snd (m w))))"

text \<open>What other requests and the workers do in between.\<close>

definition others_keep :: "(host \<Rightarrow> host \<Rightarrow> bool) \<Rightarrow> (memory \<Rightarrow> memory \<Rightarrow> bool) \<Rightarrow> api_env \<Rightarrow> bool" where
  "others_keep R T A \<longleftrightarrow> (\<forall>t h. R h (ax_between A t h)) \<and> (\<forall>t m. T m (ax_trail_between A t m))"

lemma snd_changes: "(\<And>x h'. f now h = Inr (x, h') \<Longrightarrow> P h') \<Longrightarrow> P h \<Longrightarrow> P (snd (changes f now h))"
  by (auto simp: changes_def split: sum.splits)

locale store_contract =
  fixes E :: env and I :: iam_env and R :: "host \<Rightarrow> host \<Rightarrow> bool"
    and ME :: memory_env and T :: "memory \<Rightarrow> memory \<Rightarrow> bool"
  assumes host_same: "R h h" and host_trans: "R h h' \<Longrightarrow> R h' h'' \<Longrightarrow> R h h''"
    and trail_same: "T m m" and trail_trans: "T m m' \<Longrightarrow> T m' m'' \<Longrightarrow> T m m''"
    and bearer: "authenticate_token I now token h = (r, h') \<Longrightarrow> R h h'"
    and new_session: "create_session now who metadata h = Inr (session, h') \<Longrightarrow> R h h'"
    and touch: "touch_session ut now session_id tenant h = Inr h' \<Longrightarrow> R h h'"
    and submit: "submit_task_governed E now s h = Inr (outcome, task, h') \<Longrightarrow> R h h'"
    and cancel: "request_cancel E now tid tenant h = Inr (task, h') \<Longrightarrow> R h h'"
    and save: "save_plan E now plan (hs_db h) = Inr (p, db) \<Longrightarrow> R h (h\<lparr>hs_db := db\<rparr>)"
    and approve: "approve_plan E now who a key (hs_db h) = Inr (approved, db) \<Longrightarrow> R h (h\<lparr>hs_db := db\<rparr>)"
    and resolve: "resolve_plan_unknown E now who pid decision key evidence (hs_db h) = Inr (resolved, db) \<Longrightarrow>
      R h (h\<lparr>hs_db := db\<rparr>)"
    and trail_entry: "append_audit_event ME event m = Inr (chained, m') \<Longrightarrow> T m m'"
begin

lemma keeps_respond: "request_keeps R T (respond x)" "request_keeps R T (refuse e)"
  by (simp_all add: request_keeps_def respond_def refuse_def host_same trail_same)

lemma keeps_require: "request_keeps R T (require b e)" "request_keeps R T (from_result r)"
  by (simp_all add: require_def from_result_def keeps_respond split: sum.split)

lemma keeps_and_do: "request_keeps R T m \<Longrightarrow> (\<And>x. request_keeps R T (f x)) \<Longrightarrow> request_keeps R T (and_do m f)"
  unfolding request_keeps_def and_do_def
  by (auto split: prod.splits sum.splits intro: host_trans trail_trans) (metis host_trans trail_trans snd_conv)+

lemma keeps_clock: "(\<And>now fresh. request_keeps R T (f now fresh)) \<Longrightarrow> request_keeps R T (with_clock A f)"
  unfolding request_keeps_def with_clock_def by (metis api_world.select_convs(2,3) api_world.update_convs(1) api_world.surjective)

lemma keeps_store:
  "others_keep R T A \<Longrightarrow> (\<And>now h. R h (snd (f now h))) \<Longrightarrow> request_keeps R T (on_store A f)"
  unfolding request_keeps_def on_store_def others_keep_def Let_def split_def
  by (simp add: trail_same) (metis host_trans)

lemma keeps_reads: "others_keep R T A \<Longrightarrow> request_keeps R T (on_store A (reads f))"
  by (rule keeps_store) (simp_all add: reads_def host_same)

lemma keeps_changes:
  "others_keep R T A \<Longrightarrow> (\<And>now h x h'. f now h = Inr (x, h') \<Longrightarrow> R h h') \<Longrightarrow> request_keeps R T (on_store A (changes f))"
  by (rule keeps_store) (auto simp: changes_def host_same split: sum.splits)

lemma keeps_audit:
  "others_keep R T A \<Longrightarrow> lg_memory (ax_log A) = ME \<Longrightarrow> request_keeps R T (audit_principal A ctx who task action outcome metadata)"
  unfolding request_keeps_def audit_principal_def record_audit_def Let_def others_keep_def
  by (simp add: host_same split: sum.split) (metis trail_trans trail_entry)

lemma keeps_signal: "request_keeps R T (signal_cancel task)"
  by (simp add: request_keeps_def signal_cancel_def host_same trail_same)

lemma keeps_bearer: "R h (snd (authenticate_token I now token h))"
  by (rule bearer) (rule prod.collapse [symmetric])

lemma keeps_authenticate:
  assumes "others_keep R T A" "ax_iam A = I"
  shows "request_keeps R T (authenticate A hs)"
proof -
  have "R h (snd (authenticate_token (ax_iam A) now token h))" for h now token
    by (simp add: assms(2) keeps_bearer)
  then show ?thesis
    unfolding authenticate_def using assms(1)
    by (auto intro!: keeps_respond keeps_store split: option.split)
qed

lemma keeps_detail: "others_keep R T A \<Longrightarrow> request_keeps R T (plan_detail A i)"
  by (auto simp: request_keeps_def plan_detail_def Let_def others_keep_def trail_same split: sum.splits queue_error.splits)

lemma keeps_bounded: "request_keeps R T (bounded_json A v n)" "request_keeps R T (idempotency_key hs)"
  by (simp_all add: bounded_json_def idempotency_key_def keeps_respond keeps_require)

lemmas keeps = keeps_respond keeps_require keeps_and_do keeps_clock keeps_reads keeps_changes keeps_audit keeps_signal
  keeps_authenticate keeps_detail keeps_bounded

lemma keeps_inspect:
  "others_keep R T A \<Longrightarrow> request_keeps R T (inspect_handler A tenant pid)"
  "others_keep R T A \<Longrightarrow> request_keeps R T (load_plan_handler A tenant pid)"
  by (simp_all add: inspect_handler_def load_plan_handler_def keeps_reads)

lemma keeps_plans:
  "others_keep R T A \<Longrightarrow> (\<And>now h x db. f now (hs_db h) = Inr (x, db) \<Longrightarrow> R h (h\<lparr>hs_db := db\<rparr>)) \<Longrightarrow>
    request_keeps R T (on_store A (changes (on_plans f)))"
  by (rule keeps_changes) (auto simp: on_plans_def result_simps)

lemma keeps_touch:
  "others_keep R T A \<Longrightarrow> request_keeps R T (on_store A (changes (\<lambda>now h. and_then (touch_session ut now session_id tenant h)
    (\<lambda>h. Inr ((), h)))))"
  by (rule keeps_changes) (auto simp: result_simps intro: touch)

lemma requests_keep:
  assumes "others_keep R T A" "ax_store A = E" "ax_iam A = I" "lg_memory (ax_log A) = ME"
  shows "request_keeps R T (http_create_session A ctx hs metadata)"
    and "request_keeps R T (http_get_session A hs session_id)"
    and "request_keeps R T (http_submit_task A ctx hs session_id r)"
    and "request_keeps R T (http_get_task A hs tid)"
    and "request_keeps R T (http_cancel_task A ctx hs tid)"
    and "request_keeps R T (http_create_plan A ctx hs input)"
    and "request_keeps R T (http_get_plan A ctx hs pid)"
    and "request_keeps R T (http_validate_plan A ctx hs pid)"
    and "request_keeps R T (http_approve_plan A ctx hs pid q)"
    and "request_keeps R T (http_resume_plan A ctx hs pid evidence_digest)"
    and "request_keeps R T (http_cancel_plan A ctx hs pid)"
    and "request_keeps R T (http_plan_checkpoints A ctx hs pid)"
proof -
  note keep = assms(1) and env = assms(2-4)
  show "request_keeps R T (http_create_session A ctx hs metadata)"
    unfolding http_create_session_def Let_def
    by (intro keeps keeps_changes [OF keep] keep env) (rule new_session)
  show "request_keeps R T (http_get_session A hs session_id)"
    unfolding http_get_session_def Let_def by (intro keeps_touch keeps keep env)
  show "request_keeps R T (http_submit_task A ctx hs session_id r)"
    unfolding http_submit_task_def Let_def
    by (intro keeps_touch keeps_and_do keeps_clock keeps_require keeps_authenticate keeps_changes [OF keep] keep env)
      (auto simp: env result_simps intro!: keeps keep intro: submit split: prod.splits)
  show "request_keeps R T (http_get_task A hs tid)"
    unfolding http_get_task_def by (intro keeps keep env)
  show "request_keeps R T (http_cancel_task A ctx hs tid)"
    unfolding http_cancel_task_def Let_def
    by (intro keeps keeps_changes [OF keep] keep env) (simp add: env cancel)
  show "request_keeps R T (http_create_plan A ctx hs input)"
    unfolding http_create_plan_def Let_def
    by (intro keeps keeps_plans [OF keep] keep env) (simp add: env save)
  show "request_keeps R T (http_get_plan A ctx hs pid)"
    unfolding http_get_plan_def Let_def by (intro keeps keeps_inspect keep env)
  show "request_keeps R T (http_validate_plan A ctx hs pid)"
    unfolding http_validate_plan_def Let_def by (intro keeps keep env)
  show "request_keeps R T (http_approve_plan A ctx hs pid q)"
    unfolding http_approve_plan_def Let_def
    by (intro keeps keeps_inspect keeps_plans [OF keep] keep env) (simp add: env approve)
  show "request_keeps R T (http_resume_plan A ctx hs pid evidence_digest)"
    unfolding http_resume_plan_def Let_def
    by (intro keeps keeps_inspect keeps_plans [OF keep] keep env) (simp add: env resolve)
  have "request_keeps R T (on_store A (changes (\<lambda>now. request_cancel (ax_store A) now task tenant)))" for task tenant
    by (rule keeps_changes [OF keep]) (simp add: env cancel)
  moreover have "request_keeps R T (on_store A (changes (on_plans (\<lambda>now. resolve_plan_unknown (ax_store A) now who pid Cancel key None))))"
    for who key
    by (rule keeps_plans [OF keep]) (simp add: env resolve)
  ultimately show "request_keeps R T (http_cancel_plan A ctx hs pid)"
    unfolding http_cancel_plan_def Let_def
    by (auto intro!: keeps_and_do keeps_authenticate keeps_bounded keeps_inspect keeps_reads keeps_signal keeps_audit
      keeps_detail keeps_respond keep env)
  show "request_keeps R T (http_plan_checkpoints A ctx hs pid)"
    unfolding http_plan_checkpoints_def Let_def by (intro keeps keep env)
qed

lemma keeps_health: "others_keep R T A \<Longrightarrow> request_keeps R T (healthz A)"
  using keeps_reads [of A "\<lambda>now h. Inr (queued_count h)"]
  by (auto simp: healthz_def request_keeps_def and_do_def split: prod.split sum.split) (metis prod.sel(2))+

lemma keeps_readiness:
  assumes "others_keep R T A" "ax_iam A = I"
  shows "request_keeps R T (readyz A hs)"
proof -
  have plain: "request_keeps R T (\<lambda>w. from_result (f w) w)" for f :: "api_world \<Rightarrow> api_error + bool"
    using keeps_require(2) by (auto simp: request_keeps_def)
  have trail: "request_keeps R T (\<lambda>w. let m = ax_trail_between A (aw_tick w) (aw_memory w) in
      (Inr (f m), w\<lparr>aw_tick := Suc (aw_tick w), aw_memory := m\<rparr>))" for f :: "memory \<Rightarrow> audit_verification"
    using assms(1) by (simp add: request_keeps_def others_keep_def host_same Let_def)
  show ?thesis
    unfolding readyz_def
    by (rule keeps_and_do keeps_authenticate keeps_reads assms plain trail)+
      (simp add: Let_def request_keeps_def host_same trail_same)
qed

lemma keeps_reply: "request_keeps R T m \<Longrightarrow> request_keeps R T (reply f m)"
  unfolding reply_def by (intro keeps_and_do keeps_respond)

lemma route_keeps:
  assumes "others_keep R T A" "ax_store A = E" "ax_iam A = I" "lg_memory (ax_log A) = ME"
  shows "request_keeps R T (route A ctx hs r)"
  unfolding route_def
  by (cases r) (simp_all add: keeps_reply keeps_health keeps_readiness requests_keep assms)

end

end
