(* ===== verification/Api_Facts.thy ===== *)
theory Api_Facts
  imports Api_Contract
begin

text \<open>
  What holds of every request, whatever its route: it is a run of the operations of the store and of the
  audit trail, it leaves users, tenants, limits and tokens as they are, it is served only to a bearer that
  is known, and it is answered under a well-formed identifier. The contract of the routes is interpreted
  twice on the operations of the model.
\<close>

subsection \<open>Requests are operations of the store\<close>

interpretation steps: store_contract E I "(host_step E I)\<^sup>*\<^sup>*" ME "(memory_step ME)\<^sup>*\<^sup>*"
  for E :: env and I :: iam_env and ME :: memory_env
  by unfold_locales
    (rule rtranclp.rtrancl_refl | erule (1) rtranclp_trans | rule r_into_rtranclp, (erule host_step.intros | erule memory_step.intros))+


subsection \<open>Requests and identities\<close>

definition forget_use :: "token_row \<Rightarrow> token_row" where
  "forget_use t = t\<lparr>to_last_used_at := None\<rparr>"

definition identities :: "host \<Rightarrow> user_row list \<times> tenant_row list \<times> tenant_limits list \<times> token_row list" where
  "identities h = (hs_users h, hs_tenants h, hs_limits h, map forget_use (hs_tokens h))"

lemma identities_same [intro]:
  "hs_users h' = hs_users h \<Longrightarrow> hs_tenants h' = hs_tenants h \<Longrightarrow> hs_limits h' = hs_limits h \<Longrightarrow> hs_tokens h' = hs_tokens h \<Longrightarrow>
    identities h' = identities h"
  by (simp add: identities_def)

lemma authenticate_identities: "authenticate_token I now token h = (r, h') \<Longrightarrow> identities h' = identities h"
  by (auto simp: authenticate_token_def identities_def update_where_def forget_use_def split: if_splits option.splits)

lemma session_identities:
  "create_session now who metadata h = Inr (session, h') \<Longrightarrow> identities h' = identities h"
  "touch_session ut now session_id tenant h = Inr h' \<Longrightarrow> identities h' = identities h"
  by (rule identities_same; auto simp: create_session_def touch_session_def Let_def host_uuid_def fresh_uuid_def result_simps split: if_splits)+

lemma task_identities:
  "submit_task_governed E now s h = Inr (outcome, task, h') \<Longrightarrow> identities h' = identities h"
  "request_cancel E now tid tenant h = Inr (record, h') \<Longrightarrow> identities h' = identities h"
  by (rule identities_same; auto simp: submit_task_governed_def submit_new_def request_cancel_def Let_def result_simps
    case_prod_unfold split: if_splits option.splits)+

interpretation identity: store_contract E I "\<lambda>h h'. identities h' = identities h" ME "\<lambda>_ _. True"
  for E :: env and I :: iam_env and ME :: memory_env
  by unfold_locales (auto dest: authenticate_identities session_identities task_identities)

text \<open>No request makes, changes or removes a user, a tenant, a limit or a token, apart from the note of the last
  use of a token: identities and their limits are changed at the command line only.\<close>

theorem requests_never_touch_identities:
  assumes "\<And>t h. identities (ax_between A t h) = identities h"
  shows "identities (aw_host (snd (handle_request A fresh again hs r w))) = identities (aw_host w)"
  using identity.route_keeps [of A, OF _ refl refl refl] assms
  by (simp add: request_keeps_def others_keep_def handle_request_world)

subsection \<open>Who is served\<close>

lemma reply_and_do: "reply g (and_do m f) = and_do m (\<lambda>x. reply g (f x))"
  by (simp add: reply_def and_do_assoc)

lemma route_authenticates:
  assumes "r \<noteq> GetHealthz"
  obtains k where "route A ctx hs r = and_do (authenticate A hs) k"
  using assms
  by (cases r) (simp_all add: route_def readyz_def http_create_session_def http_get_session_def http_submit_task_def
    http_get_task_def http_cancel_task_def http_create_plan_def http_get_plan_def http_validate_plan_def
    http_approve_plan_def http_resume_plan_def http_cancel_plan_def http_plan_checkpoints_def reply_and_do)

text \<open>A bearer that is known at a moment: the key of the server, or a token that is neither revoked nor expired, of
  an active user of an active tenant.\<close>

definition known_bearer :: "api_env \<Rightarrow> instant \<Rightarrow> host \<Rightarrow> string \<Rightarrow> bool" where
  "known_bearer A now h token \<longleftrightarrow> ac_api_key (ax_config A) = Some token
     \<or> (\<exists>t \<in> set (hs_tokens h). to_hash t = sha_text (ax_iam A) token \<and> live_token now t
          \<and> (\<exists>u \<in> set (hs_users h). us_operator u = to_operator t \<and> us_active u \<and> tenant_is_active (us_tenant u) h))"

lemma strip_prefix_Some: "strip_prefix p s = Some t \<longleftrightarrow> s = p @ t"
  by (auto simp: strip_prefix_def) (metis append_take_drop_id)

lemma bearer_unknown:
  assumes "\<not> known_bearer A now h token"
  shows "authenticate_token (ax_iam A) now token h = (Inl QUnauthorized, h)"
proof -
  have "find (\<lambda>t. to_hash t = sha_text (ax_iam A) token \<and> live_token now t \<and> token_user t h \<noteq> None) (hs_tokens h) = None"
    using assms by (fastforce simp: known_bearer_def find_None_iff token_user_def dest: find_SomeD)
  then show ?thesis by (simp add: authenticate_token_def find_bearer_def)
qed

text \<open>C18: when the server is not one of the local host without a key, a request other than that of the liveness
  probe is served only to a known bearer: any other is answered with 401 and leaves the store, the audit
  trail and the running tasks alone.\<close>

theorem only_bearers_are_served:
  assumes "r \<noteq> GetHealthz" "\<not> is_loopback (ac_bind_ip (ax_config A)) \<or> ac_api_key (ax_config A) \<noteq> None"
    and "\<nexists>token. hd_authorization hs = Some (''Bearer '' @ token)
      \<and> known_bearer A (ax_now A (aw_tick w)) (ax_between A (aw_tick w) (aw_host w)) token"
  shows "case handle_request A fresh again hs r w of (response, w') \<Rightarrow>
    rp_status response = 401 \<and> aw_host w' \<in> {aw_host w, ax_between A (aw_tick w) (aw_host w)}
    \<and> aw_memory w' = aw_memory w \<and> aw_signalled w' = aw_signalled w"
proof -
  obtain w1 where refused: "authenticate A hs w = (Inl ApiUnauthorized, w1)"
    and same: "aw_host w1 \<in> {aw_host w, ax_between A (aw_tick w) (aw_host w)}" "aw_memory w1 = aw_memory w"
      "aw_signalled w1 = aw_signalled w"
  proof (cases "Option.bind (hd_authorization hs) (strip_prefix ''Bearer '')")
    case None
    with assms(2) that show ?thesis by (auto simp: authenticate_def refuse_def)
  next
    case (Some token)
    then have "hd_authorization hs = Some (''Bearer '' @ token)" by (auto simp: bind_eq_Some_conv strip_prefix_Some)
    then have unknown: "\<not> known_bearer A (ax_now A (aw_tick w)) (ax_between A (aw_tick w) (aw_host w)) token"
      using assms(3) by blast
    then have "ac_api_key (ax_config A) \<noteq> Some token" by (simp add: known_bearer_def)
    with Some that bearer_unknown [OF unknown] show ?thesis
      by (simp add: authenticate_def on_store_def Let_def api_error_of_def map_err_def)
  qed
  obtain k where "route A (correlation_from_request fresh again hs) hs r = and_do (authenticate A hs) k"
    using route_authenticates [OF assms(1)] by blast
  with refused same show ?thesis
    by (simp add: handle_request_def Let_def and_do_def into_response_def)
qed

subsection \<open>The identifier of a request\<close>

definition id_ok :: "string \<Rightarrow> bool" where
  "id_ok s \<longleftrightarrow> s \<noteq> [] \<and> length s \<le> 128 \<and> list_all correlation_char s"

definition trace_ok :: "nat \<Rightarrow> string \<Rightarrow> bool" where
  "trace_ok n s \<longleftrightarrow> length s = n \<and> list_all ascii_hexdigit s \<and> map ascii_lower s = s \<and> list_ex (\<lambda>c. c \<noteq> CHR ''0'') s"

definition correlation_ok :: "correlation \<Rightarrow> bool" where
  "correlation_ok c \<longleftrightarrow> (case co_trace_id c of None \<Rightarrow> co_span_id c = None
     | Some t \<Rightarrow> trace_ok 32 t \<and> (case co_span_id c of None \<Rightarrow> False | Some s \<Rightarrow> trace_ok 16 s))"

lemma of_char_lower:
  "(of_char (ascii_lower c) :: nat) =
     (if 0x41 \<le> (of_char c :: nat) \<and> (of_char c :: nat) \<le> 0x5A then of_char c + 32 else of_char c)"
  by (simp add: ascii_lower_def Let_def)

lemma char_eq_code: "c = d \<longleftrightarrow> (of_char c :: nat) = of_char d"
  by (metis char_of_char)

lemma lower_hexdigit:
  "ascii_lower (ascii_lower c) = ascii_lower c" "ascii_hexdigit c \<Longrightarrow> ascii_hexdigit (ascii_lower c)"
  "ascii_lower c = CHR ''0'' \<longleftrightarrow> c = CHR ''0''"
  by (auto simp: char_eq_code of_char_lower ascii_hexdigit_def Let_def split: if_splits)

lemma lower_trace:
  assumes "length s = n" "list_all ascii_hexdigit s" "\<not> list_all (\<lambda>c. c = CHR ''0'') s"
  shows "trace_ok n (map ascii_lower s)"
  using assms by (auto simp: trace_ok_def list_all_iff list_ex_iff lower_hexdigit)

lemma parse_traceparent_ok:
  assumes "parse_traceparent v = Some (trace, span)"
  shows "trace_ok 32 trace" "trace_ok 16 span"
  using assms by (auto simp: parse_traceparent_def lower_trace split: list.splits if_splits)

lemma trace_is_id: "trace_ok n s \<Longrightarrow> 0 < n \<Longrightarrow> n \<le> 128 \<Longrightarrow> validate_correlation_id field s = Inr s"
  by (auto simp: trace_ok_def validate_correlation_id_def correlation_char_def list_all_iff hexdigit_alphanumeric)

lemma correlation_of_request:
  "co_request_id (correlation_from_request fresh again hs) =
     (case hd_request_id hs of None \<Rightarrow> fresh | Some s \<Rightarrow> if id_ok s then s else fresh)
   \<and> correlation_ok (correlation_from_request fresh again hs)"
proof -
  have c: "(case Option.bind (hd_request_id hs) (\<lambda>r. case with_request_id r of Inl _ \<Rightarrow> None | Inr c \<Rightarrow> Some c) of
      None \<Rightarrow> new_correlation fresh | Some c \<Rightarrow> c)
    = new_correlation (case hd_request_id hs of None \<Rightarrow> fresh | Some s \<Rightarrow> if id_ok s then s else fresh)"
    by (auto simp: with_request_id_def validate_correlation_id_def id_ok_def split: option.split)
  show ?thesis
  proof (cases "Option.bind (hd_traceparent hs) parse_traceparent")
    case None
    then show ?thesis
      unfolding correlation_from_request_def Let_def c by (simp add: new_correlation_def correlation_ok_def)
  next
    case (Some p)
    obtain trace span where p: "p = (trace, span)" by (cases p)
    with Some have ok: "trace_ok 32 trace" "trace_ok 16 span"
      using parse_traceparent_ok by (auto simp: bind_eq_Some_conv)
    from Some show ?thesis
      unfolding correlation_from_request_def Let_def c
      by (simp add: p with_trace_ids_def validate_optional_id_def trace_is_id [OF ok(1)] trace_is_id [OF ok(2)]
        new_correlation_def correlation_ok_def ok)
  qed
qed

lemma reply_Inr: "fst (reply f m w) = Inr p \<Longrightarrow> \<exists>x. p = f x"
  by (auto simp: reply_def and_do_def respond_def split: prod.splits sum.splits)

lemma routes_make_no_error: "fst (route A ctx hs r w) \<noteq> Inr (status, ErrorBody e)"
  by (cases r) (auto simp: route_def ok_body_def dest!: reply_Inr split: prod.splits)

text \<open>C22: every response carries the identifier of its request, in its header and in the body of an error: the one
  the client chose if it is well formed (1 to 128 letters, digits or marks that cannot break a header or a
  log), a fresh one otherwise. The identifiers of a trace are taken over whole, in lower case, or not at all.\<close>

theorem responses_identify_their_request:
  "case fst (handle_request A fresh again hs r w) of response \<Rightarrow>
     rp_request_id response = (case hd_request_id hs of None \<Rightarrow> fresh | Some s \<Rightarrow> if id_ok s then s else fresh)
     \<and> (case rp_body response of ErrorBody e \<Rightarrow> er_request_id e = rp_request_id response \<and> er_status e = rp_status response
          | _ \<Rightarrow> True)
     \<and> correlation_ok (correlation_from_request fresh again hs)"
  using correlation_of_request [of fresh again hs]
  by (auto simp: handle_request_def Let_def split_def into_response_def routes_make_no_error split: sum.split http_body.split)

end
