(* ===== verification/Api_Tenancy.thy ===== *)
theory Api_Tenancy
  imports Api_Facts Queue_Submission_Facts
begin

text \<open>
  What a response shows of the store: a small logic of handlers, of the facts a handler establishes about
  its answer and the store as the request leaves it, and with it that every answer is about the tenant of
  the bearer that asked.
\<close>

subsection \<open>What a handler returns\<close>

abbreviation host_steps :: "api_env \<Rightarrow> host \<Rightarrow> host \<Rightarrow> bool" where
  "host_steps A \<equiv> (host_step (ax_store A) (ax_iam A))\<^sup>*\<^sup>*"

abbreviation others_step :: "api_env \<Rightarrow> bool" where
  "others_step A \<equiv> others_keep (host_steps A) (memory_step (lg_memory (ax_log A)))\<^sup>*\<^sup>* A"

abbreviation steps_only :: "api_env \<Rightarrow> 'a handler \<Rightarrow> bool" where
  "steps_only A \<equiv> request_keeps (host_steps A) (memory_step (lg_memory (ax_log A)))\<^sup>*\<^sup>*"

definition lasting :: "api_env \<Rightarrow> (host \<Rightarrow> bool) \<Rightarrow> bool" where
  "lasting A P \<longleftrightarrow> (\<forall>h h'. host_steps A h h' \<longrightarrow> P h \<longrightarrow> P h')"

definition returns :: "(host \<Rightarrow> bool) \<Rightarrow> 'a handler \<Rightarrow> ('a \<Rightarrow> host \<Rightarrow> bool) \<Rightarrow> bool" where
  "returns P m Q \<longleftrightarrow> (\<forall>w x w'. P (aw_host w) \<longrightarrow> m w = (Inr x, w') \<longrightarrow> Q x (aw_host w'))"

lemma returns_respond: "(\<And>h. P h \<Longrightarrow> Q x h) \<Longrightarrow> returns P (respond x) Q"
  by (simp add: returns_def respond_def)

lemma returns_refuse: "returns P (refuse e) Q"
  by (simp add: returns_def refuse_def)

lemma returns_and_do: "returns P m G \<Longrightarrow> (\<And>x. returns (G x) (f x) Q) \<Longrightarrow> returns P (and_do m f) Q"
  unfolding returns_def and_do_def by (fastforce split: prod.splits sum.splits)

lemma returns_keep: "steps_only A m \<Longrightarrow> lasting A P \<Longrightarrow> returns P m (\<lambda>_. P)"
  unfolding returns_def request_keeps_def lasting_def by (metis snd_conv)

text \<open>An operation that says nothing about the answer.\<close>

lemma returns_skip:
  "steps_only A m \<Longrightarrow> lasting A P \<Longrightarrow> (\<And>x. returns P (f x) Q) \<Longrightarrow> returns P (and_do m f) Q"
  by (rule returns_and_do [OF returns_keep])

lemma returns_check: "(b \<Longrightarrow> returns P (f ()) Q) \<Longrightarrow> returns P (and_do (require b e) f) Q"
  by (simp add: returns_def and_do_def require_def respond_def refuse_def)

lemma returns_from_result: "(\<And>x. r = Inr x \<Longrightarrow> returns P (f x) Q) \<Longrightarrow> returns P (and_do (from_result r) f) Q"
  by (cases r) (simp_all add: returns_def and_do_def from_result_def respond_def refuse_def)

lemma returns_clock: "(\<And>now fresh. returns P (f now fresh) Q) \<Longrightarrow> returns P (with_clock A f) Q"
  unfolding returns_def with_clock_def
  by (metis api_world.select_convs(2) api_world.surjective api_world.update_convs(1))

lemma returns_store:
  assumes "others_step A" "lasting A P"
    and "\<And>now h x h'. P h \<Longrightarrow> f now h = (Inr x, h') \<Longrightarrow> Q x h'"
  shows "returns P (on_store A f) Q"
  unfolding returns_def
proof (intro allI impI)
  fix w x w'
  assume pre: "P (aw_host w)" and run: "on_store A f w = (Inr x, w')"
  let ?h = "ax_between A (aw_tick w) (aw_host w)"
  have "P ?h" using assms(1,2) pre unfolding lasting_def others_keep_def by blast
  moreover obtain r h' where op: "f (ax_now A (aw_tick w)) ?h = (r, h')" by fastforce
  ultimately show "Q x (aw_host w')"
    using run assms(3) [of ?h "ax_now A (aw_tick w)" x h'] by (cases r) (auto simp: on_store_def Let_def map_err_def)
qed

lemma returns_reads:
  assumes "others_step A" "lasting A P" and "\<And>now h x. P h \<Longrightarrow> f now h = Inr x \<Longrightarrow> Q x h"
  shows "returns P (on_store A (reads f)) Q"
  by (rule returns_store [OF assms(1,2)]) (auto simp: reads_def assms(3))

lemma returns_changes:
  assumes "others_step A" "lasting A P" and "\<And>now h x h'. P h \<Longrightarrow> f now h = Inr (x, h') \<Longrightarrow> Q x h'"
  shows "returns P (on_store A (changes f)) Q"
  by (rule returns_store [OF assms(1,2)]) (auto simp: changes_def assms(3) split: sum.splits)

lemma lasting_conj [intro]: "lasting A P \<Longrightarrow> lasting A Q \<Longrightarrow> lasting A (\<lambda>h. P h \<and> Q h)"
  by (auto simp: lasting_def)

lemma lasting_const [intro, simp]: "lasting A (\<lambda>_. b)"
  by (simp add: lasting_def)

subsection \<open>What belongs to a tenant\<close>

definition tasks_well :: "host \<Rightarrow> bool" where
  "tasks_well h \<longleftrightarrow> tasks_ok (hs_db h)"

definition task_of_tenant :: "tenant_id \<Rightarrow> task_id \<Rightarrow> host \<Rightarrow> bool" where
  "task_of_tenant tenant tid h \<longleftrightarrow> tasks_ok (hs_db h) \<and> (\<exists>r \<in> set (db_tasks (hs_db h)). tk_task_id r = tid \<and> tk_tenant r = tenant)"

text \<open>The tenant had the plan at some moment from which the store has come to where it is.\<close>

definition plan_of_tenant :: "api_env \<Rightarrow> tenant_id \<Rightarrow> plan_id \<Rightarrow> host \<Rightarrow> bool" where
  "plan_of_tenant A tenant pid h \<longleftrightarrow>
     (\<exists>h0. host_steps A h0 h \<and> (\<exists>r \<in> set (db_plans (hs_db h0)). pl_plan_id r = pid \<and> pl_tenant r = tenant))"

lemma lasting_tasks [intro, simp]: "lasting A tasks_well"
  unfolding lasting_def tasks_well_def using host_steps_move by blast

lemma lasting_task [intro, simp]: "lasting A (task_of_tenant tenant tid)"
  unfolding lasting_def task_of_tenant_def
proof (intro allI impI)
  fix h h'
  assume steps: "host_steps A h h'"
    and task: "tasks_ok (hs_db h) \<and> (\<exists>r \<in> set (db_tasks (hs_db h)). tk_task_id r = tid \<and> tk_tenant r = tenant)"
  then obtain r where r: "r \<in> set (db_tasks (hs_db h))" "tk_task_id r = tid" "tk_tenant r = tenant" by blast
  have moved: "leases (hs_db h) (hs_db h')" "tasks_ok (hs_db h')"
    using host_steps_move [OF steps] task by blast+
  with leases_row [OF moved(1) r(1)] r(2,3)
  show "tasks_ok (hs_db h') \<and> (\<exists>r \<in> set (db_tasks (hs_db h')). tk_task_id r = tid \<and> tk_tenant r = tenant)"
    by (auto simp: row_moves_def same_identity_def)
qed

lemma lasting_plan [intro, simp]: "lasting A (plan_of_tenant A tenant pid)"
  unfolding lasting_def plan_of_tenant_def by (meson rtranclp_trans)

definition detail_of_tenant :: "tenant_id \<Rightarrow> plan_id \<Rightarrow> plan_detail_response \<Rightarrow> host \<Rightarrow> bool" where
  "detail_of_tenant tenant pid d h \<longleftrightarrow> ps_tenant (pd_plan d) = tenant \<and> ps_plan_id (pd_plan d) = pid
     \<and> (case pd_task d of None \<Rightarrow> True | Some t \<Rightarrow> task_of_tenant tenant (tp_task_id t) h)"

text \<open>The answer to a request is about what belongs to the tenant.\<close>

definition answer_of_tenant :: "api_env \<Rightarrow> tenant_id \<Rightarrow> http_request \<Rightarrow> http_body \<Rightarrow> host \<Rightarrow> bool" where
  "answer_of_tenant A tenant r body h \<longleftrightarrow>
     (case body of
        SessionBody s \<Rightarrow> sn_tenant s = tenant
      | TaskBody t \<Rightarrow> task_of_tenant tenant (tp_task_id t) h
      | PlanBody p \<Rightarrow> ps_tenant p = tenant
      | PlanDetailBody d \<Rightarrow> (case r of GetPlan pid \<Rightarrow> detail_of_tenant tenant pid d h | _ \<Rightarrow> False)
      | PlanApprovalBody _ d \<Rightarrow> (case r of PostPlanApprove pid _ \<Rightarrow> detail_of_tenant tenant pid d h | _ \<Rightarrow> False)
      | PlanResolutionBody _ d \<Rightarrow> (case r of PostPlanResume pid _ \<Rightarrow> detail_of_tenant tenant pid d h | _ \<Rightarrow> False)
      | PlanCancelBody t d \<Rightarrow> task_of_tenant tenant (tp_task_id t) h
          \<and> (case r of PostPlanCancel pid \<Rightarrow> detail_of_tenant tenant pid d h | _ \<Rightarrow> False)
      | ReportBody _ \<Rightarrow> (case r of PostPlanValidate pid \<Rightarrow> plan_of_tenant A tenant pid h | _ \<Rightarrow> False)
      | CheckpointsBody _ \<Rightarrow> (case r of GetPlanCheckpoints pid \<Rightarrow> plan_of_tenant A tenant pid h | _ \<Rightarrow> False)
      | _ \<Rightarrow> False)"

subsection \<open>What the operations of the store return\<close>

lemma load_task_tenant: "load_task E tid tenant (hs_db h) = Inr t \<Longrightarrow> tasks_well h \<Longrightarrow> task_of_tenant tenant (ta_task_id t) h"
  using load_task_row task_of_row_facts(1) by (fastforce simp: task_of_tenant_def tasks_well_def same_task_def)

lemma load_plan_tenant:
  assumes "load_plan E pid tenant (hs_db h) = Inr p"
  shows "ps_tenant (pp_plan p) = tenant" "ps_plan_id (pp_plan p) = pid" "plan_of_tenant A tenant pid h"
proof -
  obtain row where row: "latest_plan_row (hs_db h) pid tenant = Some row"
      "ps_tenant (pp_plan p) = tenant" "ps_plan_id (pp_plan p) = pid"
    using assms by (auto simp: load_plan_def result_simps Let_def split: if_splits)
  let ?rows = "sort_key pl_revision (filter (\<lambda>r. pl_plan_id r = pid \<and> pl_tenant r = tenant) (db_plans (hs_db h)))"
  from row(1) have "?rows \<noteq> []" "row = last ?rows" by (simp_all add: latest_plan_row_def Let_def split: if_splits)
  then have "row \<in> set ?rows" using last_in_set by blast
  then have "\<exists>r \<in> set (db_plans (hs_db h)). pl_plan_id r = pid \<and> pl_tenant r = tenant" by auto
  then show "ps_tenant (pp_plan p) = tenant" "ps_plan_id (pp_plan p) = pid" "plan_of_tenant A tenant pid h"
    using row unfolding plan_of_tenant_def by blast+
qed

lemma returns_session:
  assumes "others_step A" "lasting A P"
  shows "returns P (on_store A (changes (\<lambda>now. create_session now who metadata)))
      (\<lambda>s h. ss_tenant s = pr_tenant who)"
    "returns P (on_store A (reads (\<lambda>now. get_session ut session_id tenant))) (\<lambda>s h. ss_tenant s = tenant)"
  by (rule returns_changes [OF assms]; auto simp: create_session_def host_uuid_def fresh_uuid_def Let_def result_simps)
    (rule returns_reads [OF assms]; auto simp: get_session_def result_simps dest: find_SomeD)

lemma returns_task:
  assumes "others_step A"
  shows "returns tasks_well (on_store A (reads (\<lambda>now. get_task (ax_store A) tid tenant)))
      (\<lambda>t. task_of_tenant tenant (ta_task_id t))"
    "returns tasks_well (on_store A (changes (\<lambda>now. request_cancel (ax_store A) now tid tenant)))
      (\<lambda>t. task_of_tenant tenant (ta_task_id t))"
proof -
  show "returns tasks_well (on_store A (reads (\<lambda>now. get_task (ax_store A) tid tenant)))
      (\<lambda>t. task_of_tenant tenant (ta_task_id t))"
    by (rule returns_reads [OF assms]) (auto simp: get_task_def dest: load_task_tenant)
  show "returns tasks_well (on_store A (changes (\<lambda>now. request_cancel (ax_store A) now tid tenant)))
      (\<lambda>t. task_of_tenant tenant (ta_task_id t))"
  proof (rule returns_changes [OF assms lasting_tasks])
    fix now h t h'
    assume "tasks_well h" and cancel: "request_cancel (ax_store A) now tid tenant h = Inr (t, h')"
    then have "tasks_well h'"
      using cancel_leases [OF cancel] leases_frame(1) by (auto simp: tasks_well_def)
    moreover have "load_task (ax_store A) tid tenant (hs_db h') = Inr t"
      using cancel by (auto simp: request_cancel_def Let_def result_simps split_def split: if_splits)
    ultimately show "task_of_tenant tenant (ta_task_id t) h'" using load_task_tenant by blast
  qed
qed

lemma returns_submission:
  assumes "others_step A"
  shows "returns tasks_well (on_store A (changes (\<lambda>now h. and_then (submit_task_governed (ax_store A) now (s now) h)
      (\<lambda>(outcome, task, h). Inr ((outcome, task), h)))))
    (\<lambda>(outcome, t) h. \<exists>now. task_of_tenant (pr_tenant (sm_who (s now))) (ta_task_id t) h)"
proof (rule returns_changes [OF assms lasting_tasks], clarify)
  fix now h outcome t h'
  assume ok: "tasks_well h" and "and_then (submit_task_governed (ax_store A) now (s now) h)
      (\<lambda>(outcome, task, h). Inr ((outcome, task), h)) = Inr ((outcome, t), h')"
  then have submit: "submit_task_governed (ax_store A) now (s now) h = Inr (outcome, t, h')"
    by (auto simp: result_simps)
  then obtain r where "r \<in> set (db_tasks (hs_db h'))" "holds_submission (s now) (ta_task_id t) r"
    using submission_row ok by (metis tasks_well_def)
  moreover have "tasks_ok (hs_db h')"
    using submit_leases [OF submit] ok leases_frame(1) by (auto simp: tasks_well_def)
  ultimately show "\<exists>now. task_of_tenant (pr_tenant (sm_who (s now))) (ta_task_id t) h'"
    by (auto simp: task_of_tenant_def holds_submission_def task_key_def)
qed

lemma returns_inspection:
  assumes "others_step A" "lasting A P"
  shows "returns P (inspect_handler A tenant pid) (\<lambda>i h. P h \<and> ps_tenant (is_plan i) = tenant \<and> ps_plan_id (is_plan i) = pid)"
  unfolding inspect_handler_def
  by (rule returns_reads [OF assms]) (auto simp: inspect_plan_def result_simps Let_def load_plan_tenant)

lemma returns_plan_facts:
  assumes "others_step A" "lasting A P"
  shows "returns P (on_store A (reads (\<lambda>now h. validate_plan (ax_store A) now tenant pid (hs_db h))))
      (\<lambda>_ . plan_of_tenant A tenant pid)"
    "returns P (on_store A (reads (\<lambda>now h. list_plan_checkpoints (ax_store A) tenant pid (hs_db h))))
      (\<lambda>_. plan_of_tenant A tenant pid)"
  by (rule returns_reads [OF assms]; auto simp: validate_plan_def list_plan_checkpoints_def result_simps Let_def
    load_plan_tenant(3))+

lemma returns_saved:
  assumes "others_step A" "lasting A P"
  shows "returns P (on_store A (changes (on_plans (\<lambda>now. save_plan (ax_store A) now plan))))
      (\<lambda>p h. ps_tenant (pp_plan p) = ps_tenant plan)"
  by (rule returns_changes [OF assms]) (auto simp: on_plans_def save_plan_def result_simps Let_def split: option.splits if_splits)

lemma new_plan_tenant: "plan_spec_new S now input = Inr p \<Longrightarrow> ps_tenant p = in_tenant input"
  by (auto simp: plan_spec_new_def result_simps Let_def)

text \<open>The task of a plan is looked up among those of the tenant of the plan.\<close>

lemma returns_detail:
  assumes "others_step A" "lasting A P" "ps_tenant (is_plan i) = tenant" "ps_plan_id (is_plan i) = pid"
  shows "returns (\<lambda>h. P h \<and> tasks_well h) (plan_detail A i) (\<lambda>d h. P h \<and> detail_of_tenant tenant pid d h)"
  unfolding returns_def plan_detail_def Let_def
proof (intro allI impI)
  fix w d w'
  assume pre: "P (aw_host w) \<and> tasks_well (aw_host w)"
    and run: "(case get_task (ax_store A) (ps_task_id (is_plan i)) (ps_tenant (is_plan i)) (ax_between A (aw_tick w) (aw_host w)) of
        Inl (NotFound _) \<Rightarrow> (Inr \<lparr>pd_plan = is_plan i, pd_step_states = is_step_states i, pd_integrity = is_status i,
            pd_integrity_issue = is_issue i, pd_checkpoints_checked = is_checkpoints_checked i,
            pd_transitions_checked = is_transitions_checked i, pd_task = None\<rparr>,
          w\<lparr>aw_tick := Suc (aw_tick w), aw_host := ax_between A (aw_tick w) (aw_host w)\<rparr>)
      | Inl e \<Rightarrow> (Inl (api_error_of e), w\<lparr>aw_tick := Suc (aw_tick w), aw_host := ax_between A (aw_tick w) (aw_host w)\<rparr>)
      | Inr task \<Rightarrow> (Inr \<lparr>pd_plan = is_plan i, pd_step_states = is_step_states i, pd_integrity = is_status i,
            pd_integrity_issue = is_issue i, pd_checkpoints_checked = is_checkpoints_checked i,
            pd_transitions_checked = is_transitions_checked i, pd_task = Some (task_response_of task)\<rparr>,
          w\<lparr>aw_tick := Suc (aw_tick w), aw_host := ax_between A (aw_tick w) (aw_host w)\<rparr>)) = (Inr d, w')"
  let ?h = "ax_between A (aw_tick w) (aw_host w)"
  have "host_steps A (aw_host w) ?h" using assms(1) by (simp add: others_keep_def)
  then have "P ?h" "tasks_well ?h" using pre assms(2) lasting_tasks unfolding lasting_def by blast+
  with run show "P (aw_host w') \<and> detail_of_tenant tenant pid d (aw_host w')"
    by (auto simp: detail_of_tenant_def assms(3,4) get_task_def task_response_of_def
      split: sum.splits queue_error.splits dest: load_task_tenant)
qed

subsection \<open>The answers of the routes\<close>

lemma reply_simps:
  "reply g (respond x) = respond (g x)" "reply g (with_clock A f) = with_clock A (\<lambda>now fresh. reply g (f now fresh))"
  by (simp_all add: reply_def and_do_def respond_def with_clock_def fun_eq_iff)

lemma returns_const: "(c \<Longrightarrow> returns P m Q) \<Longrightarrow> returns (\<lambda>h. P h \<and> c) m Q"
  by (auto simp: returns_def)

lemma returns_pre: "returns P' m Q \<Longrightarrow> (\<And>h. P h \<Longrightarrow> P' h) \<Longrightarrow> returns P m Q"
  by (auto simp: returns_def)

lemma returns_if: "returns P m Q \<Longrightarrow> returns P n Q \<Longrightarrow> returns P (if b then m else n) Q"
  by simp

definition answered :: "api_env \<Rightarrow> http_headers \<Rightarrow> http_request \<Rightarrow> (nat \<times> http_body) handler \<Rightarrow> bool" where
  "answered A hs r m \<longleftrightarrow> (\<exists>k. m = and_do (authenticate A hs) k
     \<and> (\<forall>auth. returns tasks_well (k auth) (\<lambda>p. answer_of_tenant A (pr_tenant (au_principal auth)) r (snd p))))"

lemma answersI:
  "(\<And>auth. returns tasks_well (k auth) (\<lambda>p. answer_of_tenant A (pr_tenant (au_principal auth)) r (snd p))) \<Longrightarrow>
    answered A hs r (and_do (authenticate A hs) k)"
  by (auto simp: answered_def)

lemmas answer_simps = answer_of_tenant_def session_response_of_def task_response_of_def ok_body_def

text \<open>What a request does around its one operation on the store.\<close>

lemma around:
  assumes "others_step A"
  shows "steps_only A (audit_principal A ctx who task action outcome metadata)" "steps_only A (signal_cancel tid)"
    "steps_only A (bounded_json A v n)" "steps_only A (idempotency_key hs)"
    "steps_only A (load_plan_handler A tenant pid)"
    "steps_only A (on_store A (changes (\<lambda>now h. and_then (touch_session ut now session_id tenant h) (\<lambda>h. Inr ((), h)))))"
    "steps_only A (on_store A (changes (on_plans (\<lambda>now. approve_plan (ax_store A) now who approval key))))"
    "steps_only A (on_store A (changes (on_plans (\<lambda>now. resolve_plan_unknown (ax_store A) now who pid decision key evidence))))"
  by (auto intro!: steps.keeps_respond steps.keeps_audit steps.keeps_signal steps.keeps_bounded steps.keeps_inspect
      steps.keeps_touch assms)
    (rule steps.keeps_plans [OF assms], blast intro: H_approve H_resolve)+

lemma answers_sessions:
  assumes "others_step A"
  shows "answered A hs (PostSessions metadata) (reply (apsnd SessionBody) (http_create_session A ctx hs metadata))"
    "answered A hs (GetSession session_id) (reply (ok_body SessionBody) (http_get_session A hs session_id))"
  unfolding http_create_session_def http_get_session_def reply_and_do reply_simps Let_def
  by (rule answersI, rule returns_skip [OF around(3) [OF assms] lasting_tasks],
      rule returns_and_do [OF returns_session(1) [OF assms lasting_tasks]],
      rule returns_skip [OF around(1) [OF assms] lasting_const], rule returns_respond, simp add: answer_simps)
    (rule answersI, rule returns_skip [OF around(6) [OF assms] lasting_tasks],
      rule returns_and_do [OF returns_session(2) [OF assms lasting_tasks]], rule returns_respond, simp add: answer_simps)

lemma answers_tasks:
  assumes "others_step A"
  shows "answered A hs (GetTask tid) (reply (ok_body TaskBody) (http_get_task A hs tid))"
    "answered A hs (DeleteTask tid) (reply (apsnd TaskBody) (http_cancel_task A ctx hs tid))"
  unfolding http_get_task_def http_cancel_task_def reply_and_do reply_simps Let_def
  by (rule answersI, rule returns_and_do [OF returns_task(1) [OF assms]], rule returns_respond, simp add: answer_simps)
    (rule answersI, rule returns_and_do [OF returns_task(2) [OF assms]],
      rule returns_skip [OF around(2) [OF assms] lasting_task], rule returns_skip [OF around(1) [OF assms] lasting_task],
      rule returns_respond, simp add: answer_simps)

lemma answers_submission:
  assumes "others_step A"
  shows "answered A hs (PostSessionTasks session_id r) (reply (apsnd TaskBody) (http_submit_task A ctx hs session_id r))"
  unfolding http_submit_task_def reply_and_do reply_simps Let_def
  by (rule answersI, rule returns_from_result, rule returns_skip [OF around(6) [OF assms] lasting_tasks],
      (rule returns_check)+, rule returns_from_result, rule returns_clock, rule returns_from_result,
      rule returns_and_do [OF returns_submission [OF assms]],
      simp only: submission.simps simp_thms reply_and_do reply_simps split: prod.split, intro allI impI, clarify,
      rule returns_skip [OF _ lasting_task [of A]], simp add: around(1) [OF assms] steps.keeps_respond,
      rule returns_respond, simp add: answer_simps)

lemma detail_answer:
  assumes "others_step A" "ps_tenant (is_plan i) = tenant \<and> ps_plan_id (is_plan i) = pid" "lasting A P"
    and "\<And>h. P h \<Longrightarrow> tasks_well h" "\<And>d h. P h \<Longrightarrow> detail_of_tenant tenant pid d h \<Longrightarrow> Q (f d) h"
  shows "returns P (reply f (plan_detail A i)) Q"
  unfolding reply_def
  by (rule returns_pre [OF returns_and_do [OF returns_detail [OF assms(1,3)]]])
    (use assms in \<open>auto intro!: returns_respond\<close>)

lemma answers_plans:
  assumes "others_step A"
  shows "answered A hs (PostPlans input) (reply (apsnd PlanBody) (http_create_plan A ctx hs input))"
    "answered A hs (GetPlan pid) (reply (ok_body PlanDetailBody) (http_get_plan A ctx hs pid))"
    "answered A hs (PostPlanValidate pid) (reply (ok_body ReportBody) (http_validate_plan A ctx hs pid))"
    "answered A hs (GetPlanCheckpoints pid) (reply (ok_body CheckpointsBody) (http_plan_checkpoints A ctx hs pid))"
proof -
  show "answered A hs (PostPlanValidate pid) (reply (ok_body ReportBody) (http_validate_plan A ctx hs pid))"
    unfolding http_validate_plan_def reply_and_do reply_simps Let_def
    by (rule answersI, rule returns_and_do [OF returns_plan_facts(1) [OF assms lasting_tasks]],
      rule returns_skip [OF around(1) [OF assms] lasting_plan], rule returns_respond, simp add: answer_simps)
  show "answered A hs (GetPlanCheckpoints pid) (reply (ok_body CheckpointsBody) (http_plan_checkpoints A ctx hs pid))"
    unfolding http_plan_checkpoints_def reply_and_do reply_simps Let_def
    by (rule answersI, rule returns_and_do [OF returns_plan_facts(2) [OF assms lasting_tasks]],
      rule returns_skip [OF around(1) [OF assms] lasting_plan], rule returns_respond, simp add: answer_simps)
  show "answered A hs (PostPlans input) (reply (apsnd PlanBody) (http_create_plan A ctx hs input))"
    unfolding http_create_plan_def reply_and_do reply_simps Let_def
    by (rule answersI, (rule returns_check)+, rule returns_clock, rule returns_from_result,
      rule returns_and_do [OF returns_saved [OF assms lasting_tasks]],
      rule returns_skip [OF around(1) [OF assms] lasting_const], rule returns_respond)
      (auto simp: answer_simps map_err_Inr_iff dest: new_plan_tenant)
  show "answered A hs (GetPlan pid) (reply (ok_body PlanDetailBody) (http_get_plan A ctx hs pid))"
    unfolding http_get_plan_def reply_and_do reply_simps Let_def
    by (rule answersI, rule returns_and_do [OF returns_inspection [OF assms lasting_tasks]], rule returns_const,
      rule returns_skip [OF around(1) [OF assms] lasting_tasks], rule detail_answer [OF assms _ lasting_tasks])
      (auto simp: answer_simps)
qed

lemma answers_decisions:
  assumes "others_step A"
  shows "answered A hs (PostPlanApprove pid q)
      (reply (ok_body (\<lambda>(outcome, plan). PlanApprovalBody outcome plan)) (http_approve_plan A ctx hs pid q))"
    "answered A hs (PostPlanResume pid evidence)
      (reply (ok_body (\<lambda>(outcome, plan). PlanResolutionBody outcome plan)) (http_resume_plan A ctx hs pid evidence))"
    "answered A hs (PostPlanCancel pid) (reply (ok_body (\<lambda>(task, plan). PlanCancelBody task plan)) (http_cancel_plan A ctx hs pid))"
proof -
  note skip = returns_skip [OF around(4) [OF assms] lasting_tasks] returns_skip [OF around(5) [OF assms] lasting_tasks]
    returns_skip [OF around(7) [OF assms] lasting_tasks] returns_skip [OF around(8) [OF assms] lasting_tasks]
  show "answered A hs (PostPlanApprove pid q)
      (reply (ok_body (\<lambda>(outcome, plan). PlanApprovalBody outcome plan)) (http_approve_plan A ctx hs pid q))"
    unfolding http_approve_plan_def reply_and_do reply_simps Let_def
    by (rule answersI, rule skip, rule skip, rule returns_check, rule returns_from_result, rule returns_clock, rule skip,
      rule returns_and_do [OF returns_inspection [OF assms lasting_tasks]], rule returns_const,
      rule returns_skip [OF around(1) [OF assms] lasting_tasks],
      rule detail_answer [OF assms _ lasting_tasks, unfolded reply_def]) (auto simp: answer_simps)
  show "answered A hs (PostPlanResume pid evidence)
      (reply (ok_body (\<lambda>(outcome, plan). PlanResolutionBody outcome plan)) (http_resume_plan A ctx hs pid evidence))"
    unfolding http_resume_plan_def reply_and_do reply_simps Let_def
    by (rule answersI, rule skip, rule skip,
      rule returns_and_do [OF returns_inspection [OF assms lasting_tasks]], rule returns_const,
      rule returns_skip [OF around(1) [OF assms] lasting_tasks],
      rule detail_answer [OF assms _ lasting_tasks, unfolded reply_def]) (auto simp: answer_simps)
  let ?task = "\<lambda>who t. task_of_tenant (pr_tenant who) (ta_task_id t)"
  have "returns tasks_well (if b then
        and_do (on_store A (changes (on_plans (\<lambda>now. resolve_plan_unknown (ax_store A) now who pid Cancel key None)))) (\<lambda>_.
        on_store A (reads (\<lambda>now. get_task (ax_store A) tid (pr_tenant who))))
      else on_store A (changes (\<lambda>now. request_cancel (ax_store A) now tid (pr_tenant who)))) (?task who)" for b who key tid
    by (rule returns_if [OF skip(4) [OF returns_task(1) [OF assms]] returns_task(2) [OF assms]])
  note cancelled = returns_and_do [OF this]
  show "answered A hs (PostPlanCancel pid) (reply (ok_body (\<lambda>(task, plan). PlanCancelBody task plan)) (http_cancel_plan A ctx hs pid))"
    unfolding http_cancel_plan_def reply_and_do reply_simps Let_def
    by (rule answersI, rule skip, rule skip, rule cancelled,
      rule returns_and_do [OF returns_inspection [OF assms lasting_task]], rule returns_const,
      rule returns_skip [OF around(2) [OF assms] lasting_task], rule returns_skip [OF around(1) [OF assms] lasting_task],
      rule detail_answer [OF assms _ lasting_task, unfolded reply_def])
      (auto simp: answer_simps task_of_tenant_def tasks_well_def)
qed

lemma route_answers:
  assumes "others_step A" "r \<notin> {GetHealthz, GetReadyz}"
  shows "answered A hs r (route A ctx hs r)"
  using assms
  by (cases r) (simp_all add: route_def answers_sessions answers_tasks answers_submission answers_plans answers_decisions)

lemma error_status_400: "400 \<le> error_status e"
  by (cases e) simp_all

lemma handle_request_Inr:
  "handle_request A fresh again hs r w = (response, w') \<Longrightarrow> rp_status response < 400 \<Longrightarrow>
    route A (correlation_from_request fresh again hs) hs r w = (Inr (rp_status response, rp_body response), w')"
  using error_status_400
  by (fastforce simp: handle_request_def Let_def into_response_def not_less [symmetric] split: prod.splits sum.splits)

text \<open>What holds of the rest of a handler holds of what it answers to an authenticated bearer.\<close>

lemma authenticated_returns:
  assumes "others_step A" "host_reachable (ax_store A) (ax_iam A) (aw_host w)"
    and "m = and_do (authenticate A hs) k" "\<And>auth. returns tasks_well (k auth) (Q auth)"
    and "m w = (Inr p, w')"
  obtains auth w1 where "authenticate A hs w = (Inr auth, w1)" "Q auth p (aw_host w')"
proof -
  obtain auth w1 where auth: "authenticate A hs w = (Inr auth, w1)" "k auth w1 = (Inr p, w')"
    using assms(5) by (auto simp: assms(3) and_do_def split: prod.splits sum.splits)
  have "host_steps A (aw_host w) (aw_host w1)"
    using steps.keeps_authenticate [OF assms(1) refl, of hs] auth(1) by (metis request_keeps_def snd_conv)
  then have "tasks_well (aw_host w1)"
    using host_steps_move host_reachable_ok(1) [OF assms(2)] by (auto simp: tasks_well_def)
  with assms(4) [of auth] auth(2) have "Q auth p (aw_host w')" unfolding returns_def by blast
  with auth(1) show ?thesis by (rule that)
qed


end
