(* ===== verification/Api_Governance.thy ===== *)
theory Api_Governance
  imports Api_Tenancy Plan_Operation_Facts
begin

text \<open>
  What the server lets a bearer do: a task it accepts is stored under the bearer's principal with the
  rights of its role, and runs live only where the server and the role allow it; an approval it records
  is the bearer's own, of the level the plan demands, and never one of the bearer's own plan.
\<close>

subsection \<open>Submissions\<close>

lemma returns_same: "(\<And>w. aw_host (snd (m w)) = aw_host w) \<Longrightarrow> returns P m (\<lambda>_. P)"
  unfolding returns_def by (metis snd_conv)

lemma audit_host: "aw_host (snd (audit_principal A ctx who task action outcome metadata w)) = aw_host w"
  by (simp add: audit_principal_def Let_def)

lemma signal_host: "aw_host (snd (signal_cancel tid w)) = aw_host w"
  by (simp add: signal_cancel_def)

text \<open>The row of a submission that was accepted just now, and the task read from it.\<close>

definition stored_submission :: "submission \<Rightarrow> task_record \<Rightarrow> host \<Rightarrow> bool" where
  "stored_submission s t h \<longleftrightarrow> (\<exists>now approval. submitted_row now s approval \<in> set (db_tasks (hs_db h))
     \<and> task_of_row (submitted_row now s approval) = Inr t \<and> ta_envelope t = governed_envelope s approval)"

lemma returns_created:
  assumes "others_step A"
  shows "returns tasks_well (on_store A (changes (\<lambda>now h. and_then (submit_task_governed (ax_store A) now s h)
      (\<lambda>(outcome, task, h). Inr ((outcome, task), h)))))
    (\<lambda>p h. fst p = Created \<longrightarrow> stored_submission s (snd p) h)"
proof (rule returns_changes [OF assms lasting_tasks], clarsimp simp: result_simps)
  fix now h t h'
  assume "tasks_well h" "submit_task_governed (ax_store A) now s h = Inr (Created, t, h')"
  then show "stored_submission s t h'"
    unfolding stored_submission_def tasks_well_def by (metis created_task)
qed

text \<open>What is asked of the task of an accepted submission.\<close>

definition governed :: "api_env \<Rightarrow> principal \<Rightarrow> http_headers \<Rightarrow> uuid \<Rightarrow> submit_request \<Rightarrow> task_record \<Rightarrow> task_row \<Rightarrow> bool" where
  "governed A who hs session_id r t row \<longleftrightarrow>
     task_of_row row = Inr t \<and> tk_status row = ''queued'' \<and> tk_session_id row = session_id
     \<and> tk_tenant row = pr_tenant who \<and> te_tenant (ta_envelope t) = pr_tenant who
     \<and> te_operator (ta_envelope t) = pr_operator who
     \<and> hd_idempotency_key hs = Some (tk_idempotency_key row)
     \<and> tk_request_fingerprint row = fingerprint A r (tk_idempotency_key row)
     \<and> te_objective (ta_envelope t) = sr_objective r
     \<and> ctx_role (te_context (ta_envelope t)) = pr_role who
     \<and> ctx_capabilities (te_context (ta_envelope t)) = for_role (pr_role who)
     \<and> (te_dry_run (ta_envelope t) \<or> live_allowed A who)
     \<and> (te_dry_run (ta_envelope t) \<or> tk_plan_id row = None)"

lemma plan_reference_dry: "plan_reference_of dry_run r = Inr reference \<Longrightarrow> dry_run \<or> reference = None"
  by (auto simp: plan_reference_of_def result_simps split: if_splits)

lemma request_envelope_fields:
  assumes "request_envelope A who dry_run r reference now fresh = Inr envelope"
  shows "te_dry_run envelope = dry_run" "te_tenant envelope = pr_tenant who" "te_operator envelope = pr_operator who"
    "te_objective envelope = sr_objective r"
  using assms by (auto simp: request_envelope_def task_envelope_new_def result_simps Let_def
    split: if_splits option.splits)

lemma submission_returns:
  assumes "others_step A"
  shows "\<exists>k. reply (apsnd TaskBody) (http_submit_task A ctx hs session_id r) = and_do (authenticate A hs) k
    \<and> (\<forall>auth. returns tasks_well (k auth) (\<lambda>p h. fst p = 202 \<longrightarrow> (\<exists>t. snd p = TaskBody (task_response_of t)
        \<and> (\<exists>row \<in> set (db_tasks (hs_db h)). governed A (au_principal auth) hs session_id r t row))))"
  unfolding http_submit_task_def reply_and_do reply_simps Let_def
proof (rule exI, rule conjI [OF refl], rule allI, rule returns_from_result,
    rule returns_skip [OF around(6) [OF assms] lasting_tasks], (rule returns_check)+, rule returns_from_result,
    rule returns_clock, rule returns_from_result, rule returns_and_do [OF returns_created [OF assms]], goal_cases)
  case (1 auth key _ reference now fresh envelope p)
  obtain outcome t where p: "p = (outcome, t)" by fastforce
  let ?s = "\<lparr>sm_session_id = session_id, sm_who = au_principal auth, sm_key = key, sm_fingerprint = fingerprint A r key,
    sm_envelope = envelope, sm_priority = sr_priority r, sm_max_attempts = unwrap_or (sr_max_attempts r) 3,
    sm_reference = reference, sm_request_id = Some (co_request_id ctx)\<rparr>"
  note envelope = request_envelope_fields [OF 1(6)]
  have live: "te_dry_run envelope \<or> live_allowed A (au_principal auth)" "te_dry_run envelope \<or> reference = None"
    using 1(4) plan_reference_dry [OF 1(5)] envelope(1) by auto
  have "\<exists>row \<in> set (db_tasks (hs_db h)). governed A (au_principal auth) hs session_id r t row"
    if stored: "stored_submission ?s t h" for h
  proof -
    obtain at approval where row: "submitted_row at ?s approval \<in> set (db_tasks (hs_db h))"
        "task_of_row (submitted_row at ?s approval) = Inr t" "ta_envelope t = governed_envelope ?s approval"
      using stored unfolding stored_submission_def by blast
    have "tk_session_id (submitted_row at ?s approval) = session_id"
      by (simp add: submitted_row_def new_task_row_def)
    with row envelope live 1(1) have "governed A (au_principal auth) hs session_id r t (submitted_row at ?s approval)"
      by (auto simp: governed_def governed_envelope_def with_provenance_def from_principal_def result_simps)
    with row(1) show ?thesis by blast
  qed
  then show ?case
    unfolding p prod.case reply_and_do reply_simps
    by (intro returns_and_do [OF returns_same] returns_respond) (auto simp: audit_host respond_def)
qed

text \<open>C19: a task accepted over HTTP (202) is in the store, queued, in the tenant and session of the request and under its
  key and fingerprint; it carries the tenant, the operator and exactly the rights of the role of the bearer,
  whatever the request said. It runs live only if the operator of the server enabled and confirmed that and
  the role may run external effects, and never when it belongs to a plan.\<close>

theorem http_submission_is_governed:
  assumes "others_step A" "host_reachable (ax_store A) (ax_iam A) (aw_host w)"
    and "handle_request A fresh again hs (PostSessionTasks session_id r) w = (response, w')" "rp_status response = 202"
  shows "\<exists>auth w1 t. authenticate A hs w = (Inr auth, w1) \<and> rp_body response = TaskBody (task_response_of t)
    \<and> (\<exists>row \<in> set (db_tasks (hs_db (aw_host w'))). governed A (au_principal auth) hs session_id r t row)"
proof -
  let ?ctx = "correlation_from_request fresh again hs"
  let ?Q = "\<lambda>auth p h. fst p = 202 \<longrightarrow> (\<exists>t. snd p = TaskBody (task_response_of t)
        \<and> (\<exists>row \<in> set (db_tasks (hs_db h)). governed A (au_principal auth) hs session_id r t row))"
  obtain k where k: "route A ?ctx hs (PostSessionTasks session_id r) = and_do (authenticate A hs) k"
    and ok: "\<And>auth. returns tasks_well (k auth) (?Q auth)"
    using submission_returns [OF assms(1), of ?ctx hs session_id r] by (auto simp: route_def)
  have "rp_status response < 400" using assms(4) by simp
  from authenticated_returns [OF assms(1,2) k ok handle_request_Inr [OF assms(3) this]] show ?thesis
    using assms(4) by (metis fst_conv snd_conv)
qed

subsection \<open>Approvals\<close>

text \<open>At some moment from which the store has come to where it is, the approval was stored, for a plan stored there
  that is not the approver's own.\<close>

definition approval_stored :: "api_env \<Rightarrow> principal \<Rightarrow> plan_approval \<Rightarrow> host \<Rightarrow> bool" where
  "approval_stored A who a h \<longleftrightarrow> (\<exists>h0. host_steps A h0 h
     \<and> (\<exists>r \<in> set (db_approvals (hs_db h0)). same_approval_intent (ar_approval_json r) a)
     \<and> (\<exists>p \<in> set (db_plans (hs_db h0)). ps_plan_id (pl_plan_json p) = ap_plan_id a
          \<and> ps_digest (pl_plan_json p) = ap_plan_digest a
          \<and> (ap_decision a = DecisionApproved \<longrightarrow> ps_operator (pl_plan_json p) \<noteq> pr_operator who)))
     \<and> allows who ApprovePlan \<and> allows_role (ap_required a) (pr_role who)"

lemma lasting_approval: "lasting A (approval_stored A who a)"
  unfolding lasting_def approval_stored_def by (meson rtranclp_trans)

lemma approve_plan_stored:
  assumes "approve_plan E now who a key db = Inr (outcome, db')"
  shows "\<exists>r \<in> set (db_approvals db'). same_approval_intent (ar_approval_json r) a"
    "\<exists>p \<in> set (db_plans db'). ps_plan_id (pl_plan_json p) = ap_plan_id a \<and> ps_digest (pl_plan_json p) = ap_plan_digest a
       \<and> (ap_decision a = DecisionApproved \<longrightarrow> ps_operator (pl_plan_json p) \<noteq> pr_operator who)"
    "allows who ApprovePlan" "allows_role (ap_required a) (pr_role who)"
  using assms
proof (atomize (full), rule approve_plan_cases, goal_cases)
  case (1 reference plan)
  note records = approve_plan_records [OF 1(8)]
  obtain row s where row: "row \<in> set (db_plans db)" "plan = (pl_plan_json row)\<lparr>ps_state := s\<rparr>"
    using 1(6) by (auto simp: load_plan_tx_def result_simps Let_def dest!: find_SomeD split: if_splits)
  have "(plan_key row, pl_plan_json row) \<in> set (map (\<lambda>r. (plan_key r, pl_plan_json r)) (db_plans db'))"
    using row(1) records by simp
  then obtain p where p: "p \<in> set (db_plans db')" "pl_plan_json p = pl_plan_json row" by auto
  have shape: "ap_plan_id a = ps_plan_id plan" "ap_plan_digest a = ps_digest plan" "allows_role (ap_required a) (pr_role who)"
    using 1(7) by (auto simp: validate_approval_shape_def result_simps Let_def split: if_split_asm)
  have "ps_operator plan \<noteq> pr_operator who" if approved: "ap_decision a = DecisionApproved"
    using validate_for_live(1) [OF approved_shape(1) [OF 1(7) approved]] 1(2) by metis
  moreover obtain r where "r \<in> set (db_approvals db')" "same_approval_intent (ar_approval_json r) a"
    using records by (auto simp: keyed_approval_def dest: find_SomeD)
  ultimately show ?case using 1(1) p shape row(2) by (auto intro: bexI [OF _ p(1)])
qed

lemma returns_approval:
  assumes "others_step A" "lasting A P"
  shows "returns P (on_store A (changes (on_plans (\<lambda>now. approve_plan (ax_store A) now who a key))))
    (\<lambda>_. approval_stored A who a)"
  by (rule returns_changes [OF assms])
    (fastforce simp: on_plans_def result_simps approval_stored_def dest: approve_plan_stored)

text \<open>What is asked of an approval given over HTTP: it is the bearer's, for the plan, the step and the decision of the
  request.\<close>

definition own_approval :: "principal \<Rightarrow> plan_id \<Rightarrow> approval_request \<Rightarrow> plan_approval \<Rightarrow> bool" where
  "own_approval who pid q a \<longleftrightarrow> ap_plan_id a = pid \<and> ap_tenant a = pr_tenant who \<and> ap_approver a = pr_operator who
     \<and> ap_approver_role a = pr_role who \<and> ap_step_id a = aq_step_id q \<and> ap_decision a = aq_decision q \<and> \<not> ap_revoked a"

lemma approval_returns:
  assumes "others_step A"
  shows "\<exists>k. route A ctx hs (PostPlanApprove pid q) = and_do (authenticate A hs) k
    \<and> (\<forall>auth. returns tasks_well (k auth) (\<lambda>_ h. \<exists>a. own_approval (au_principal auth) pid q a
        \<and> approval_stored A (au_principal auth) a h))"
  unfolding route_def http_request.case http_approve_plan_def reply_and_do reply_simps Let_def
proof (rule exI, rule conjI [OF refl], rule allI, rule returns_skip [OF around(4) [OF assms] lasting_tasks],
    rule returns_skip [OF around(5) [OF assms] lasting_tasks], rule returns_check, rule returns_from_result,
    rule returns_clock, rule returns_and_do [OF returns_approval [OF assms lasting_tasks]], goal_cases)
  case (1 auth key plan required now fresh outcome)
  let ?a = "approval_of_principal (ax_iam A) (au_principal auth) plan key (aq_step_id q) required (aq_decision q)
    (now + seconds (unwrap_or (aq_expires_in_seconds q) 3600)) pid"
  have own: "own_approval (au_principal auth) pid q ?a" by (simp add: own_approval_def approval_of_principal_def)
  show ?case
    by (rule returns_skip [OF steps.keeps_inspect(1) [OF assms] lasting_approval],
      rule returns_skip [OF around(1) [OF assms] lasting_approval],
      rule returns_skip [OF steps.keeps_detail [OF assms] lasting_approval], rule returns_respond)
      (use own in blast)
qed

text \<open>C20: an approval given over HTTP is the bearer's own: it is stored with the operator, the role and the tenant of the
  bearer, for the plan, the step and the decision that were asked for, under the digest of a stored plan; the
  role of the bearer may approve plans and covers the level, and who approves is not the operator of the plan.\<close>

theorem http_approval_is_the_bearers:
  assumes "others_step A" "host_reachable (ax_store A) (ax_iam A) (aw_host w)"
    and "handle_request A fresh again hs (PostPlanApprove pid q) w = (response, w')" "rp_status response = 200"
  shows "\<exists>auth w1 a. authenticate A hs w = (Inr auth, w1) \<and> own_approval (au_principal auth) pid q a
    \<and> approval_stored A (au_principal auth) a (aw_host w')"
proof -
  let ?Q = "\<lambda>auth _ h. \<exists>a. own_approval (au_principal auth) pid q a \<and> approval_stored A (au_principal auth) a h"
  obtain k where k: "route A (correlation_from_request fresh again hs) hs (PostPlanApprove pid q) = and_do (authenticate A hs) k"
    and ok: "\<And>auth. returns tasks_well (k auth) (?Q auth)"
    using approval_returns [OF assms(1)] by blast
  have "rp_status response < 400" using assms(4) by simp
  from authenticated_returns [OF assms(1,2) k ok handle_request_Inr [OF assms(3) this]] show ?thesis by metis
qed

end
