(* ===== verification/Api_Examples.thy ===== *)
theory Api_Examples
  imports Api_Governance Sample_Host Memory_Examples
begin

text \<open>
  The properties of the server at concrete requests to a server with an API key, over the sample host: a
  task is read and submitted, a plan is approved, and a request without a bearer is turned away.
\<close>

definition sample_log_env :: log_env where
  "sample_log_env = \<lparr>lg_memory = toy_memory_env, lg_redact = (\<lambda>s. s), lg_parse = (\<lambda>s. None), lg_print = (\<lambda>j. ''json'')\<rparr>"

text \<open>Nobody else uses the store, and the disk under the audit trail is faulty.\<close>

definition sample_api :: "principal \<Rightarrow> api_env" where
  "sample_api who = \<lparr>ax_store = sample_env, ax_iam = sample_iam, ax_log = sample_log_env,
     ax_redactor = redactor_of_policy default_telemetry_policy,
     ax_config = default_api_config\<lparr>ac_api_key := Some ''key''\<rparr>, ax_principal = who,
     ax_now = (\<lambda>t. 30), ax_fresh = (\<lambda>t. 1), ax_between = (\<lambda>t h. h), ax_trail_between = (\<lambda>t m. m),
     ax_trail_fault = (\<lambda>t. Some MSqlite), ax_breaker = (\<lambda>t. closed_snapshot ''agent-runtime''),
     ax_store_integrity = (\<lambda>t. Inr True), ax_trail_integrity = (\<lambda>t. Inr True)\<rparr>"

definition sample_headers :: http_headers where
  "sample_headers = \<lparr>hd_authorization = Some ''Bearer key'', hd_idempotency_key = Some ''go'',
     hd_request_id = None, hd_traceparent = None\<rparr>"

definition sample_world :: "host \<Rightarrow> api_world" where
  "sample_world h = \<lparr>aw_tick = 0, aw_host = h, aw_memory = empty_memory, aw_signalled = []\<rparr>"

lemmas api_eval = sample_api_def sample_log_env_def sample_headers_def sample_world_def default_api_config_def
  handle_request_def route_def reply_def ok_body_def and_do_def respond_def refuse_def require_def from_result_def
  on_store_def changes_def reads_def on_plans_def with_clock_def audit_principal_def local_principal_def
  authenticate_def strip_prefix_def

lemma alone: "others_step (sample_api who)"
  by (simp add: others_keep_def sample_api_def)

lemma sample_parts: "ax_principal (sample_api who) = who" "ax_store (sample_api who) = sample_env" "ax_iam (sample_api who) = sample_iam"
  by (simp_all add: sample_api_def)

lemma sample_authenticate:
  "authenticate (sample_api who) sample_headers w = (Inr (local_principal (sample_api who) ''static-api-key'' ''static''), w)"
  by (simp add: authenticate_def strip_prefix_def sample_api_def sample_headers_def respond_def)

lemma reach_ready_alone: "host_reachable sample_env I host_ready"
  using H_bootstrap [OF run_bootstrap] H_create_session [OF run_session]
  by (meson rtranclp.rtrancl_into_rtrancl rtranclp.rtrancl_refl)


theorem requests_never_touch_identities_witness:
  "identities (aw_host (snd (handle_request (sample_api sample_owner) ''r'' ''s'' sample_headers (PostSessions JNull)
     (sample_world host_ready)))) = identities host_ready"
  using requests_never_touch_identities [where A = "sample_api sample_owner" and fresh = "''r''" and again = "''s''" and hs = sample_headers
      and r = "PostSessions JNull" and w = "sample_world host_ready"]
  by (simp add: sample_api_def) (simp add: sample_world_def)

theorem only_bearers_are_served_witness:
  "rp_status (fst (handle_request (sample_api sample_owner) ''r'' ''s'' (sample_headers\<lparr>hd_authorization := Some ''Bearer x''\<rparr>)
     (GetTask (TaskId 1)) (sample_world host_queued))) = 401"
proof -
  have "\<nexists>token. hd_authorization (sample_headers\<lparr>hd_authorization := Some ''Bearer x''\<rparr>) = Some (''Bearer '' @ token)
      \<and> known_bearer (sample_api sample_owner) 30 host_queued token"
    by (auto simp: known_bearer_def sample_api_def host_queued_def host_with_def)
  with only_bearers_are_served [where r = "GetTask (TaskId 1)" and A = "sample_api sample_owner" and fresh = "''r''"
      and again = "''s''" and hs = "sample_headers\<lparr>hd_authorization := Some ''Bearer x''\<rparr>" and w = "sample_world host_queued"]
  show ?thesis by (simp add: split_def) (simp add: sample_api_def sample_world_def)
qed

lemma run_get_task:
  "\<exists>t. fst (handle_request (sample_api sample_owner) ''r'' ''s'' sample_headers (GetTask (TaskId 1)) (sample_world host_queued))
      = \<lparr>rp_status = 200, rp_body = TaskBody t, rp_request_id = ''r''\<rparr> \<and> tp_task_id t = TaskId 1"
  by (simp add: api_eval http_get_task_def get_task_def task_response_of_def correlation_from_request_def new_correlation_def
    store_eval host_eval cong: eval_cong)

lemma reach_queued_alone: "host_reachable sample_env sample_iam host_queued"
  using rtranclp.rtrancl_into_rtrancl [OF reach_ready_alone] run_submit H_submit by blast


definition sample_request :: submit_request where
  "sample_request = \<lparr>sr_objective = ''store'', sr_priority = 0, sr_max_attempts = None, sr_dry_run = None, sr_budget = None,
     sr_task_id = None, sr_plan_id = None, sr_plan_revision = None, sr_plan_digest = None\<rparr>"

lemma run_submit_http:
  "rp_status (fst (handle_request (sample_api sample_owner) ''r'' ''s'' sample_headers (PostSessionTasks 1000 sample_request)
     (sample_world host_ready))) = 202"
  by (simp add: api_eval sample_request_def http_submit_task_def touch_session_def plan_reference_of_def request_envelope_def
    fingerprint_def task_response_of_def correlation_from_request_def new_correlation_def
    store_eval host_eval cong: eval_cong)

theorem http_submission_is_governed_witness:
  "\<exists>row \<in> set (db_tasks (hs_db (aw_host (snd (handle_request (sample_api sample_owner) ''r'' ''s'' sample_headers
     (PostSessionTasks 1000 sample_request) (sample_world host_ready)))))). tk_tenant row = sample_tenant"
proof -
  have "host_reachable (ax_store (sample_api sample_owner)) (ax_iam (sample_api sample_owner)) (aw_host (sample_world host_ready))"
    unfolding sample_parts by (simp add: sample_world_def reach_ready_alone)
  from http_submission_is_governed [OF alone this prod.collapse [symmetric] run_submit_http] show ?thesis
    by (auto simp: governed_def sample_authenticate local_principal_def sample_parts sample_owner_def)
qed

subsection \<open>An approval\<close>

definition host_planned :: host where
  "host_planned = host_ready\<lparr>hs_db := db_saved\<lparr>db_tasks := [], db_uuid_seed := 1001\<rparr>\<rparr>"

lemma reach_planned: "host_reachable sample_env I host_planned"
proof -
  have "save_plan sample_env 6 sample_draft (hs_db host_ready)
      = Inr (\<lparr>pp_plan = sample_draft, pp_updated_at = 6\<rparr>, hs_db host_planned)"
    by (simp add: store_eval host_eval host_planned_def cong: eval_cong)
  from rtranclp.rtrancl_into_rtrancl [OF reach_ready_alone H_save_plan [OF this]] show ?thesis
    by (simp add: host_planned_def)
qed

definition sample_decision :: approval_request where
  "sample_decision = \<lparr>aq_step_id = None, aq_decision = DecisionApproved, aq_expires_in_seconds = None\<rparr>"

text \<open>Another digest keeps the number of the approval small.\<close>

definition approving_api :: api_env where
  "approving_api = (sample_api sample_who)\<lparr>ax_iam := \<lparr>sha_text = (\<lambda>s. ''7''), uuid_str = show_nat\<rparr>\<rparr>"

lemma approving_parts: "ax_store approving_api = sample_env" "ax_principal approving_api = sample_who"
  by (simp_all add: approving_api_def sample_api_def)

lemma approving_alone: "others_step approving_api"
  by (simp add: others_keep_def approving_api_def sample_api_def)

lemma approving_authenticate:
  "authenticate approving_api sample_headers w = (Inr (local_principal approving_api ''static-api-key'' ''static''), w)"
  by (simp add: authenticate_def strip_prefix_def approving_api_def sample_api_def sample_headers_def respond_def)

lemma run_approve_http:
  "rp_status (fst (handle_request approving_api ''r'' ''s'' sample_headers
     (PostPlanApprove (PlanId 7) sample_decision) (sample_world host_planned))) = 200"
  by (simp add: approving_api_def api_eval hex_number_def hex_value_def sample_decision_def task_not_found_def http_approve_plan_def load_plan_handler_def inspect_handler_def plan_detail_def
    required_for_scope_def approval_of_principal_def approval_id_for_idempotency_def idempotency_key_def get_task_def
    correlation_from_request_def new_correlation_def host_planned_def
    store_eval host_eval cong: eval_cong)

theorem http_approval_is_the_bearers_witness:
  "\<exists>a. ap_approver a = sample_admin \<and> approval_stored approving_api sample_who a
     (aw_host (snd (handle_request approving_api ''r'' ''s'' sample_headers
       (PostPlanApprove (PlanId 7) sample_decision) (sample_world host_planned))))"
proof -
  have "host_reachable (ax_store approving_api) (ax_iam approving_api) (aw_host (sample_world host_planned))"
    unfolding approving_parts by (simp add: sample_world_def reach_planned)
  from http_approval_is_the_bearers [OF approving_alone this prod.collapse [symmetric] run_approve_http] show ?thesis
    by (auto simp: own_approval_def approving_authenticate local_principal_def approving_parts sample_who_def)
qed

end
