(* ===== verification/Cli_World.thy ===== *)
theory Cli_World
  imports Api_Handlers App_Config Skill_Tool Agent_Models Queue_Host
begin

text \<open>
  \<^verbatim>\<open>crates/shaka-cli/src/main.rs\<close>, what every command is made of: the errors it ends with, the world it works
  on, the checks before it, the files of skills and keys, the audit entry after it. A process is one command;
  between any two of its uses of what processes share (the database, the files) others may change it in any
  way, and every use may fail before it does anything.
\<close>

subsection \<open>Errors\<close>

text \<open>\<open>anyhow\<close> keeps the error of a crate as it is, or a message, with the contexts that were added to it. A panic
  is an error here.\<close>

datatype cli_error =
  CliConfig config_error | CliUnauthorized action | CliQueue queue_error | CliMemory memory_error
| CliSkill skill_error | CliCore core_error | CliAgent orchestrator_error | CliText string
| CliApi api_error | CliContext string cli_error | CliPanic string

subsection \<open>The world of a command\<close>

text \<open>A file: the bits of its mode, and its content or what the system says when it is read.\<close>

record disk_file =
  df_mode :: nat
  df_content :: "string + string"

text \<open>A file with a database: does the integrity check pass, and the tables it holds.\<close>

record snapshot =
  np_intact :: bool
  np_host :: "host option"
  np_memory :: "memory option"

text \<open>What processes share: the two groups of tables of the one database, the files of the registry of skills and of
  the trust store, the snapshots of databases, and the other files.\<close>

record shared =
  sh_host :: host
  sh_memory :: memory
  sh_files :: skill_files
  sh_snapshots :: "string \<Rightarrow> snapshot option"
  sh_disk :: "string \<Rightarrow> disk_file option"

datatype cli_output =
  OutRun agent_run_result | OutEpisodes "episode list" | OutDeleted nat | OutSkills "skill_record list"
| OutSkill skill_record | OutKey trusted_key | OutKeys "trusted_key list" | OutText string
| OutReport verification_report | OutInspection inspection_report | OutApproval approval_outcome inspection_report
| OutResolution resolution_outcome inspection_report | OutCancelled task_record inspection_report
| OutCheckpoints "plan_checkpoint list" | OutTenant tenant_record | OutUser user_row | OutToken token_issue
| OutRevoked | OutLimits tenant_limits | OutTenants "tenant_record list" | OutVerification audit_verification
| OutSummary config_summary | OutSandbox sandbox_result | OutFailed config_error
| OutDoctor bool audit_verification bool

text \<open>The libraries and what the world does: the store, SHA-256 and the texts of UUIDs, the hashes of the memory
  store, Ed25519 and the resolution of paths, the parsers of URLs, UUIDs and socket addresses, the engine of WASM
  modules, JSON schemas, the exchange with a remote model; then, use by use, the clock, fresh UUIDs and seeds,
  what others do, faults, the integrity check of the driver, and the file of the circuit breaker.\<close>

record cli_env =
  ce_store :: env
  ce_iam :: iam_env
  ce_memory :: memory_env
  ce_skills :: skill_env
  ce_resolve :: "shared \<Rightarrow> string \<Rightarrow> string + string"
  ce_url :: "string \<Rightarrow> string + url"
  ce_uuid :: "string \<Rightarrow> string + uuid"
  ce_socket :: "string \<Rightarrow> string + (ip_addr \<times> 16 word)"
  ce_engine :: wasm_engine
  ce_demo :: "string + string"
  ce_validator :: "json \<Rightarrow> string + (json \<Rightarrow> string + unit)"
  ce_post :: "url \<Rightarrow> string \<Rightarrow> nat \<Rightarrow> json \<Rightarrow> string + chat_message list"
  ce_from_str :: "string \<Rightarrow> string + json"
  ce_to_string :: "json \<Rightarrow> string"
  ce_agent :: "nat \<Rightarrow> agent_env"
  ce_during :: "tool_call \<Rightarrow> shared"
  ce_now :: "nat \<Rightarrow> instant"
  ce_fresh :: "nat \<Rightarrow> uuid"
  ce_seed :: "nat \<Rightarrow> string"
  ce_between :: "nat \<Rightarrow> shared \<Rightarrow> shared"
  ce_fault :: "nat \<Rightarrow> cli_error option"
  ce_integrity :: "nat \<Rightarrow> memory_error + bool"
  ce_circuits :: "nat \<Rightarrow> circuit_row list"

record cli_world =
  cw_tick :: nat
  cw_shared :: shared
  cw_printed :: "cli_output list"

type_synonym 'a command = "(cli_world, cli_error, 'a) act"

text \<open>A use of what is shared.\<close>

definition on_shared :: "cli_env \<Rightarrow> (nat \<Rightarrow> instant \<Rightarrow> shared \<Rightarrow> (cli_error + 'a) \<times> shared) \<Rightarrow> 'a command" where
  "on_shared C f w =
     (let t = cw_tick w; s = ce_between C t (cw_shared w);
          (r, s') = (case ce_fault C t of Some e \<Rightarrow> (Inl e, s) | None \<Rightarrow> f t (ce_now C t) s)
      in (r, w\<lparr>cw_tick := Suc t, cw_shared := s'\<rparr>))"

definition on_host :: "cli_env \<Rightarrow> (instant \<Rightarrow> host \<Rightarrow> (queue_error + 'a) \<times> host) \<Rightarrow> 'a command" where
  "on_host C f = on_shared C (\<lambda>t now s. case f now (sh_host s) of (r, h) \<Rightarrow> (map_err CliQueue r, s\<lparr>sh_host := h\<rparr>))"

definition look :: "cli_env \<Rightarrow> (nat \<Rightarrow> instant \<Rightarrow> shared \<Rightarrow> cli_error + 'a) \<Rightarrow> 'a command" where
  "look C f = on_shared C (\<lambda>t now s. (f t now s, s))"

text \<open>A moment, with its fresh UUID: nothing that is shared is used.\<close>

definition at_moment :: "cli_env \<Rightarrow> (nat \<Rightarrow> instant \<Rightarrow> 'a command) \<Rightarrow> 'a command" where
  "at_moment C f w = f (cw_tick w) (ce_now C (cw_tick w)) (w\<lparr>cw_tick := Suc (cw_tick w)\<rparr>)"

definition print_out :: "cli_output \<Rightarrow> unit command" where
  "print_out x w = (Inr (), w\<lparr>cw_printed := cw_printed w @ [x]\<rparr>)"

subsection \<open>Before and after a command\<close>

record cli =
  ci_values :: config_values
  ci_trust_file :: string

definition build_config :: "cli_env \<Rightarrow> cli \<Rightarrow> bool \<Rightarrow> bool \<Rightarrow> app_config command" where
  "build_config C cli live live_confirmation =
     from_result (map_err CliConfig (from_values (ce_url C) (ci_values cli) live live_confirmation True))"

definition authorize :: "app_config \<Rightarrow> action \<Rightarrow> unit command" where
  "authorize cfg a = require (allows (cf_principal cfg) a) (CliUnauthorized a)"

text \<open>The opening of the two stores on the database changes no row.\<close>

definition open_store :: "cli_env \<Rightarrow> unit command" where
  "open_store C = look C (\<lambda>t now s. Inr ())"

definition open_memory :: "cli_env \<Rightarrow> unit command" where
  "open_memory C = look C (\<lambda>t now s. Inr ())"

text \<open>The store is opened, and one entry appended.\<close>

definition append_control_audit ::
    "cli_env \<Rightarrow> app_config \<Rightarrow> string \<Rightarrow> string \<Rightarrow> (string \<times> string) list \<Rightarrow> unit command" where
  "append_control_audit C cfg action outcome metadata =
     and_do (open_memory C) (\<lambda>_.
     on_shared C (\<lambda>t now s.
       case append_audit_event (ce_memory C) (audit_event_new (ce_memory C) (ce_fresh C t) now None
              (pr_tenant (cf_principal cfg)) (operator_str (pr_operator (cf_principal cfg))) action outcome metadata None)
              (sh_memory s) of
         Inl e \<Rightarrow> (Inl (CliMemory e), s)
       | Inr (_, m) \<Rightarrow> (Inr (), s\<lparr>sh_memory := m\<rparr>)))"

definition parse_plan_id :: "cli_env \<Rightarrow> string \<Rightarrow> plan_id command" where
  "parse_plan_id C value =
     from_result (and_then (map_err (\<lambda>e. CliContext (''plan_id invalido: '' @ value) (CliText e)) (ce_uuid C value))
       (\<lambda>u. Inr (PlanId u)))"

definition parse_approval_decision :: "string \<Rightarrow> string + plan_approval_decision" where
  "parse_approval_decision value =
     (if value = ''approve'' then Inr DecisionApproved
      else if value = ''reject'' then Inr DecisionRejected
      else Inl ''decision deve ser approve ou reject'')"

definition parse_role :: "string \<Rightarrow> role option" where
  "parse_role value =
     (if value = ''operator'' then Some Operator
      else if value = ''reviewer'' then Some Reviewer
      else if value = ''administrator'' then Some Administrator
      else None)"

definition parse_capability :: "string \<Rightarrow> capability option" where
  "parse_capability value =
     (if value = ''network'' then Some Network
      else if value = ''filesystem-read'' then Some FilesystemRead
      else if value = ''filesystem-write'' then Some FilesystemWrite
      else if value = ''code-execution'' then Some CodeExecution
      else if value = ''external-messaging'' then Some ExternalMessaging
      else if value = ''memory-write'' then Some MemoryWrite
      else None)"

subsection \<open>The files of skills and keys\<close>

text \<open>A file is replaced as a whole: its new content is written beside it and renamed.\<close>

definition save_registry :: "cli_env \<Rightarrow> skill_registry \<Rightarrow> unit command" where
  "save_registry C R = on_shared C (\<lambda>t now s. (Inr (), s\<lparr>sh_files := (sh_files s)\<lparr>fs_registry := Holds R\<rparr>\<rparr>))"

definition save_trust :: "cli_env \<Rightarrow> trust_store \<Rightarrow> unit command" where
  "save_trust C T = on_shared C (\<lambda>t now s. (Inr (), s\<lparr>sh_files := (sh_files s)\<lparr>fs_trust := Holds T\<rparr>\<rparr>))"

definition read_registry :: "cli_env \<Rightarrow> skill_registry command" where
  "read_registry C = look C (\<lambda>t now s. map_err CliSkill (load_registry (sh_files s)))"

definition read_trust :: "cli_env \<Rightarrow> trust_store command" where
  "read_trust C = look C (\<lambda>t now s. map_err CliSkill (load_trust (sh_files s)))"

definition read_disk :: "shared \<Rightarrow> string \<Rightarrow> string + string" where
  "read_disk s path = and_then (ok_or ''No such file or directory (os error 2)'' (sh_disk s path)) df_content"

text \<open>The libraries of the skills, with the files as they are.\<close>

definition skills_at :: "cli_env \<Rightarrow> shared \<Rightarrow> skill_env" where
  "skills_at C s = at_files (ce_skills C) (ce_resolve C s) (read_disk s)"

text \<open>\<open>trim\<close>, on bytes.\<close>

fun trim_start :: "string \<Rightarrow> string" where
  "trim_start [] = []"
| "trim_start (a # s) =
     (if ascii_white a then trim_start s
      else (case s of
          [] \<Rightarrow> a # s
        | b # s' \<Rightarrow>
            if a = CHR 0xC2 \<and> (b = CHR 0x85 \<or> b = CHR 0xA0) then trim_start s'
            else (case s' of
                [] \<Rightarrow> a # s
              | c # s'' \<Rightarrow> if wide_white a b c then trim_start s'' else a # s)))"

fun trim_end :: "string \<Rightarrow> string" where
  "trim_end [] = []"
| "trim_end (a # s) = (if trim_is_empty (a # s) then [] else a # trim_end s)"

definition trim :: "string \<Rightarrow> string" where
  "trim s = trim_end (trim_start s)"

text \<open>No bit of the mode may be set for the group or for others: \<open>mode & 0o077\<close>.\<close>

definition ensure_restricted :: "shared \<Rightarrow> string \<Rightarrow> skill_error + unit" where
  "ensure_restricted s path =
     and_then (ok_or (SkillIo ''No such file or directory (os error 2)'') (sh_disk s path)) (\<lambda>f.
     ensure (df_mode f mod 64 = 0) (InsecureKeyFile path))"

definition load_signing_key :: "cli_env \<Rightarrow> shared \<Rightarrow> string \<Rightarrow> skill_error + string" where
  "load_signing_key C s path =
     and_then (ensure_restricted s path) (\<lambda>_.
     and_then (map_err SkillIo (read_disk s path)) (\<lambda>content.
     and_then (ok_or (InvalidKey ''o arquivo deve conter 64 caracteres hexadecimais'')
       (ke_unhex (ce_skills C) (trim content))) (\<lambda>bytes.
     and_then (ensure (length bytes = 32) (InvalidKey ''a seed Ed25519 deve conter exatamente 32 bytes'')) (\<lambda>_.
     Inr bytes))))"

text \<open>A mode of \<open>0o600\<close> is 384.\<close>

definition save_signing_key :: "cli_env \<Rightarrow> string \<Rightarrow> string \<Rightarrow> shared \<Rightarrow> (skill_error + unit) \<times> shared" where
  "save_signing_key C path seed s =
     (if sh_disk s path \<noteq> None then (Inl (KeyFileExists path), s)
      else (Inr (), s\<lparr>sh_disk := (sh_disk s)(path \<mapsto>
        \<lparr>df_mode = 384, df_content = Inr (ke_hex (ce_skills C) seed @ [CHR 0x0A])\<rparr>)\<rparr>))"

definition public_key_hex :: "cli_env \<Rightarrow> string \<Rightarrow> string" where
  "public_key_hex C seed = ke_hex (ce_skills C) (ke_public (ce_skills C) seed)"

end
