(* ===== verification/Cli_Commands.thy ===== *)
theory Cli_Commands
  imports Cli_World
begin

text \<open>
  \<^verbatim>\<open>crates/shaka-cli/src/main.rs\<close>: the commands. Arguments are parsed by the framework (\<open>clap\<close>); a command is
  given them typed. A command of skills works on copies of the two files, which it read at its beginning, and
  writes one of them as a whole at its end.
\<close>

subsection \<open>Arguments\<close>

datatype plan_command =
  PlanValidate string | PlanShow string
| PlanApprove string "string option" plan_approval_decision int "string option"
| PlanResume string string "string option" | PlanCancel string | PlanVerify string | PlanCheckpoints string

datatype iam_command =
  TenantCreate string string | UserCreate string string string | TokenIssue string int | TokenRevoke string
| LimitsSet string u32 u32 u64 u32 u32 | TenantList

datatype memory_command = MemoryRecent u32 | MemoryPurge int

datatype skill_command =
  SkillList | SkillCandidate string string "string list"
| SkillApprove string "string option" string "string option" "string option" "string option"
| TrustGenerate string string string | TrustAdd string string string | TrustRevoke string | TrustList
| SkillRevoke string

text \<open>\<open>Run\<close>: the objective, live, confirmed; \<open>Serve\<close>: address, workers, key, live, confirmed.\<close>

datatype cli_command =
  Run string bool bool | Serve string nat "string option" bool bool | MemoryCommand memory_command
| SkillCommand skill_command | SandboxDemo | Doctor | BackupTo string | RestoreFrom string | VerifyAuditChain
| ShowConfig | IamCommand iam_command | PlanCommand plan_command

subsection \<open>Plans\<close>

definition plan_id_metadata :: "cli_env \<Rightarrow> plan_id \<Rightarrow> (string \<times> string) list" where
  "plan_id_metadata C pid = (case pid of PlanId u \<Rightarrow> [(''plan_id'', uuid_str (ce_iam C) u)])"

definition plan_id_str :: "cli_env \<Rightarrow> plan_id \<Rightarrow> string" where
  "plan_id_str C pid = (case pid of PlanId u \<Rightarrow> uuid_str (ce_iam C) u)"

definition inspect_command :: "cli_env \<Rightarrow> app_config \<Rightarrow> plan_id \<Rightarrow> inspection_report command" where
  "inspect_command C cfg pid = on_host C (reads (\<lambda>now h. inspect_plan (ce_store C) (cf_tenant cfg) pid (hs_db h)))"

definition load_plan_command :: "cli_env \<Rightarrow> app_config \<Rightarrow> plan_id \<Rightarrow> plan_spec command" where
  "load_plan_command C cfg pid =
     on_host C (reads (\<lambda>now h. and_then (load_plan (ce_store C) pid (cf_tenant cfg) (hs_db h)) (\<lambda>p. Inr (pp_plan p))))"

definition plan_validate :: "cli_env \<Rightarrow> app_config \<Rightarrow> string \<Rightarrow> unit command" where
  "plan_validate C cfg plan_id =
     and_do (authorize cfg RunReadOnly) (\<lambda>_.
     and_do (parse_plan_id C plan_id) (\<lambda>pid.
     and_do (on_host C (reads (\<lambda>now h. validate_plan (ce_store C) now (cf_tenant cfg) pid (hs_db h)))) (\<lambda>report.
     and_do (append_control_audit C cfg ''plan.validate'' (if is_executable report then ''valid'' else ''blocked'')
       (plan_id_metadata C pid)) (\<lambda>_.
     print_out (OutReport report)))))"

definition plan_show :: "cli_env \<Rightarrow> app_config \<Rightarrow> string \<Rightarrow> unit command" where
  "plan_show C cfg plan_id =
     and_do (authorize cfg RunReadOnly) (\<lambda>_.
     and_do (parse_plan_id C plan_id) (\<lambda>pid.
     and_do (inspect_command C cfg pid) (\<lambda>inspection.
     and_do (append_control_audit C cfg ''plan.show'' ''success'' (plan_id_metadata C pid)) (\<lambda>_.
     print_out (OutInspection inspection)))))"

definition parse_step :: "string option \<Rightarrow> cli_error + plan_step_id option" where
  "parse_step step =
     (case step of None \<Rightarrow> Inr None
      | Some s \<Rightarrow> and_then (map_err CliCore (plan_step_id_new s)) (\<lambda>i. Inr (Some i)))"

definition default_approval_key :: "cli_env \<Rightarrow> plan_id \<Rightarrow> string option \<Rightarrow> plan_approval_decision \<Rightarrow> string" where
  "default_approval_key C pid step verdict =
     ''cli:plan:approve:'' @ plan_id_str C pid @ '':'' @ unwrap_or step ''plan'' @ '':'' @ decision_debug verdict"

definition plan_approve ::
    "cli_env \<Rightarrow> app_config \<Rightarrow> string \<Rightarrow> string option \<Rightarrow> plan_approval_decision \<Rightarrow> int \<Rightarrow> string option \<Rightarrow> unit command"
  where
  "plan_approve C cfg plan_id step verdict expires_in given_key =
     and_do (authorize cfg ApprovePlan) (\<lambda>_.
     and_do (require (1 \<le> expires_in \<and> expires_in \<le> 604800)
       (CliText ''expires_in_seconds deve estar entre 1 e 604800'')) (\<lambda>_.
     and_do (parse_plan_id C plan_id) (\<lambda>pid.
     and_do (load_plan_command C cfg pid) (\<lambda>plan.
     and_do (from_result (parse_step step)) (\<lambda>step_id.
     and_do (from_result (ok_or (CliText ''etapa de aprovacao nao encontrada'') (required_for_scope plan step_id))) (\<lambda>required.
     let key = unwrap_or given_key (default_approval_key C pid step verdict) in
     at_moment C (\<lambda>t now.
     let approval = approval_of_principal (ce_iam C) (cf_principal cfg) plan key step_id required verdict
       (now + seconds expires_in) pid in
     and_do (on_host C (changes (on_plans (\<lambda>now. approve_plan (ce_store C) now (cf_principal cfg) approval key)))) (\<lambda>outcome.
     and_do (inspect_command C cfg pid) (\<lambda>inspection.
     and_do (append_control_audit C cfg ''plan.approve'' ''success''
       ((''decision'', decision_debug verdict) # plan_id_metadata C pid)) (\<lambda>_.
     print_out (OutApproval outcome inspection)))))))))))"

definition plan_resume :: "cli_env \<Rightarrow> app_config \<Rightarrow> string \<Rightarrow> string \<Rightarrow> string option \<Rightarrow> unit command" where
  "plan_resume C cfg plan_id evidence_digest given_key =
     and_do (authorize cfg ResolvePlanUnknown) (\<lambda>_.
     and_do (parse_plan_id C plan_id) (\<lambda>pid.
     let key = unwrap_or given_key (''cli:plan:resume:'' @ plan_id_str C pid @ '':'' @ evidence_digest) in
     and_do (on_host C (changes (on_plans (\<lambda>now. resolve_plan_unknown (ce_store C) now (cf_principal cfg) pid Resume key
       (Some evidence_digest))))) (\<lambda>outcome.
     and_do (inspect_command C cfg pid) (\<lambda>inspection.
     and_do (append_control_audit C cfg ''plan.resume'' ''success'' (plan_id_metadata C pid)) (\<lambda>_.
     print_out (OutResolution outcome inspection))))))"

definition plan_cancel :: "cli_env \<Rightarrow> app_config \<Rightarrow> string \<Rightarrow> unit command" where
  "plan_cancel C cfg plan_id =
     and_do (authorize cfg RunReadOnly) (\<lambda>_.
     and_do (parse_plan_id C plan_id) (\<lambda>pid.
     and_do (load_plan_command C cfg pid) (\<lambda>plan.
     and_do (if ps_state plan = Unknown then
         and_do (authorize cfg ResolvePlanUnknown) (\<lambda>_.
         and_do (on_host C (changes (on_plans (\<lambda>now. resolve_plan_unknown (ce_store C) now (cf_principal cfg) pid Cancel
           (''cli:plan:cancel:'' @ plan_id_str C pid) None)))) (\<lambda>_.
         on_host C (reads (\<lambda>now. get_task (ce_store C) (ps_task_id plan) (cf_tenant cfg)))))
       else on_host C (changes (\<lambda>now. request_cancel (ce_store C) now (ps_task_id plan) (cf_tenant cfg)))) (\<lambda>task.
     and_do (inspect_command C cfg pid) (\<lambda>inspection.
     and_do (append_control_audit C cfg ''plan.cancel'' ''success'' (plan_id_metadata C pid)) (\<lambda>_.
     print_out (OutCancelled task inspection)))))))"

definition plan_verify :: "cli_env \<Rightarrow> app_config \<Rightarrow> string \<Rightarrow> unit command" where
  "plan_verify C cfg plan_id =
     and_do (authorize cfg RunReadOnly) (\<lambda>_.
     and_do (parse_plan_id C plan_id) (\<lambda>pid.
     and_do (inspect_command C cfg pid) (\<lambda>inspection.
     let valid = (is_status inspection = InspectionStable) in
     and_do (append_control_audit C cfg ''plan.verify'' (if valid then ''valid'' else ''invalid'') (plan_id_metadata C pid)) (\<lambda>_.
     and_do (print_out (OutInspection inspection)) (\<lambda>_.
     require valid (CliText ''integridade do plano invalida''))))))"

definition plan_checkpoints :: "cli_env \<Rightarrow> app_config \<Rightarrow> string \<Rightarrow> unit command" where
  "plan_checkpoints C cfg plan_id =
     and_do (authorize cfg RunReadOnly) (\<lambda>_.
     and_do (parse_plan_id C plan_id) (\<lambda>pid.
     and_do (on_host C (reads (\<lambda>now h. list_plan_checkpoints (ce_store C) (cf_tenant cfg) pid (hs_db h)))) (\<lambda>checkpoints.
     and_do (append_control_audit C cfg ''plan.checkpoints'' ''success'' (plan_id_metadata C pid)) (\<lambda>_.
     print_out (OutCheckpoints checkpoints)))))"

text \<open>\<open>bootstrap_principal\<close> as a use of the store.\<close>

definition bootstrap :: "cli_env \<Rightarrow> app_config \<Rightarrow> unit command" where
  "bootstrap C cfg =
     on_host C (changes (\<lambda>now h. and_then (bootstrap_principal now (cf_principal cfg) h) (\<lambda>h. Inr ((), h))))"

text \<open>The principal is registered before the command is authorized.\<close>

definition run_plan_command :: "cli_env \<Rightarrow> cli \<Rightarrow> plan_command \<Rightarrow> unit command" where
  "run_plan_command C cli command =
     and_do (build_config C cli False False) (\<lambda>cfg.
     and_do (open_store C) (\<lambda>_.
     and_do (bootstrap C cfg) (\<lambda>_.
     case command of
       PlanValidate plan_id \<Rightarrow> plan_validate C cfg plan_id
     | PlanShow plan_id \<Rightarrow> plan_show C cfg plan_id
     | PlanApprove plan_id step verdict expires_in key \<Rightarrow> plan_approve C cfg plan_id step verdict expires_in key
     | PlanResume plan_id evidence_digest key \<Rightarrow> plan_resume C cfg plan_id evidence_digest key
     | PlanCancel plan_id \<Rightarrow> plan_cancel C cfg plan_id
     | PlanVerify plan_id \<Rightarrow> plan_verify C cfg plan_id
     | PlanCheckpoints plan_id \<Rightarrow> plan_checkpoints C cfg plan_id)))"

subsection \<open>Tenants, users and tokens\<close>

definition iam_tenant_create :: "cli_env \<Rightarrow> app_config \<Rightarrow> string \<Rightarrow> string \<Rightarrow> unit command" where
  "iam_tenant_create C cfg tenant_id display_name =
     and_do (from_result (map_err CliCore (tenant_id_new tenant_id))) (\<lambda>tenant.
     and_do (on_host C (changes (\<lambda>now. create_tenant now tenant display_name))) (\<lambda>r.
     and_do (append_control_audit C cfg ''iam.tenant.create'' ''success'' [(''tenant_id'', tenant_str tenant)]) (\<lambda>_.
     print_out (OutTenant r))))"

definition iam_user_create :: "cli_env \<Rightarrow> app_config \<Rightarrow> string \<Rightarrow> string \<Rightarrow> string \<Rightarrow> unit command" where
  "iam_user_create C cfg operator_id tenant role =
     and_do (from_result (map_err CliCore (operator_id_new operator_id))) (\<lambda>operator.
     and_do (from_result (map_err CliCore (tenant_id_new tenant))) (\<lambda>tenant.
     and_do (from_result (ok_or (CliText ''role deve ser operator, reviewer ou administrator'') (parse_role role))) (\<lambda>role.
     and_do (on_host C (changes (\<lambda>now. create_user now operator tenant role))) (\<lambda>r.
     and_do (append_control_audit C cfg ''iam.user.create'' ''success'' [(''operator_id'', operator_str operator)]) (\<lambda>_.
     print_out (OutUser r))))))"

definition iam_token_issue :: "cli_env \<Rightarrow> app_config \<Rightarrow> string \<Rightarrow> int \<Rightarrow> unit command" where
  "iam_token_issue C cfg operator_id expires_in =
     and_do (require (1 \<le> expires_in \<and> expires_in \<le> MAX_TOKEN_LIFETIME_SECONDS)
       (CliText (''expires_in_seconds deve estar entre 1 e '' @ show_nat (nat MAX_TOKEN_LIFETIME_SECONDS)))) (\<lambda>_.
     and_do (from_result (map_err CliCore (operator_id_new operator_id))) (\<lambda>operator.
     at_moment C (\<lambda>t now.
     and_do (on_host C (changes (\<lambda>later. issue_token (ce_iam C) later operator (Some (now + seconds expires_in))))) (\<lambda>issue.
     and_do (append_control_audit C cfg ''iam.token.issue'' ''success'' [(''token_id'', ti_token_id issue)]) (\<lambda>_.
     print_out (OutToken issue))))))"

definition iam_token_revoke :: "cli_env \<Rightarrow> app_config \<Rightarrow> string \<Rightarrow> unit command" where
  "iam_token_revoke C cfg token_id =
     and_do (on_host C (changes (\<lambda>now h. and_then (revoke_token now token_id h) (\<lambda>h. Inr ((), h))))) (\<lambda>_.
     and_do (append_control_audit C cfg ''iam.token.revoke'' ''success'' [(''token_id'', token_id)]) (\<lambda>_.
     print_out OutRevoked))"

definition iam_limits_set :: "cli_env \<Rightarrow> app_config \<Rightarrow> string \<Rightarrow> u32 \<Rightarrow> u32 \<Rightarrow> u64 \<Rightarrow> u32 \<Rightarrow> u32 \<Rightarrow> unit command" where
  "iam_limits_set C cfg tenant_id max_active max_daily max_cost requests window =
     and_do (from_result (map_err CliCore (tenant_id_new tenant_id))) (\<lambda>tenant.
     and_do (on_host C (changes (\<lambda>now. set_limits \<lparr>tl_tenant = tenant, tl_max_active_tasks = max_active,
       tl_max_daily_tasks = max_daily, tl_max_daily_cost = max_cost, tl_requests_per_window = requests,
       tl_window_seconds = window\<rparr>))) (\<lambda>limits.
     and_do (append_control_audit C cfg ''iam.limits.set'' ''success'' [(''tenant_id'', tenant_str (tl_tenant limits))]) (\<lambda>_.
     print_out (OutLimits limits))))"

definition iam_list :: "cli_env \<Rightarrow> unit command" where
  "iam_list C = and_do (on_host C (reads (\<lambda>now. list_tenants))) (\<lambda>tenants. print_out (OutTenants tenants))"

definition run_iam_command :: "cli_env \<Rightarrow> cli \<Rightarrow> iam_command \<Rightarrow> unit command" where
  "run_iam_command C cli command =
     and_do (build_config C cli False False) (\<lambda>cfg.
     and_do (authorize cfg ManageIam) (\<lambda>_.
     and_do (open_store C) (\<lambda>_.
     and_do (bootstrap C cfg) (\<lambda>_.
     case command of
       TenantCreate tenant_id display_name \<Rightarrow> iam_tenant_create C cfg tenant_id display_name
     | UserCreate operator_id tenant role \<Rightarrow> iam_user_create C cfg operator_id tenant role
     | TokenIssue operator_id expires_in \<Rightarrow> iam_token_issue C cfg operator_id expires_in
     | TokenRevoke token_id \<Rightarrow> iam_token_revoke C cfg token_id
     | LimitsSet tenant_id max_active max_daily max_cost requests window \<Rightarrow>
         iam_limits_set C cfg tenant_id max_active max_daily max_cost requests window
     | TenantList \<Rightarrow> iam_list C))))"

end
