(* ===== verification/Cli_Skills.thy ===== *)
theory Cli_Skills
  imports Cli_Commands
begin

text \<open>
  \<^verbatim>\<open>crates/shaka-cli/src/main.rs\<close>, \<open>skill_command\<close>: each operation of the registry or of the trust store is done on
  the copy that the command read, the copy is written over the file, and the entry of the audit trail follows.
\<close>

definition candidate_manifest :: "string \<Rightarrow> string \<Rightarrow> string list \<Rightarrow> skill_manifest" where
  "candidate_manifest name description permissions =
     \<lparr>mf_name = name, mf_version = ''0.1.0'', mf_description = description,
      mf_permissions = List.map_filter parse_capability permissions,
      mf_input_schema = JObject [(''type'', JString ''object'')],
      mf_output_schema = JObject [(''type'', JString ''object'')],
      mf_status = Candidate, mf_artifact_sha256 = None\<rparr>"

text \<open>An operation of the crate on the copies: it reads the clock, and the files it needs.\<close>

definition skill_use :: "cli_env \<Rightarrow> (instant \<Rightarrow> skill_env \<Rightarrow> skill_error + 'a) \<Rightarrow> 'a command" where
  "skill_use C f = look C (\<lambda>t now s. map_err CliSkill (f now (skills_at C s)))"

text \<open>One that needs no file.\<close>

definition skill_change :: "cli_env \<Rightarrow> (instant \<Rightarrow> skill_error + 'a) \<Rightarrow> 'a command" where
  "skill_change C f = at_moment C (\<lambda>t now. from_result (map_err CliSkill (f now)))"

definition skill_candidate :: "cli_env \<Rightarrow> app_config \<Rightarrow> skill_registry \<Rightarrow> string \<Rightarrow> string \<Rightarrow> string list \<Rightarrow> unit command" where
  "skill_candidate C cfg R name description permissions =
     and_do (authorize cfg CreateSkill) (\<lambda>_.
     and_do (skill_change C (\<lambda>now. register_candidate now (candidate_manifest name description permissions) R)) (\<lambda>R.
     and_do (save_registry C R) (\<lambda>_.
     and_do (append_control_audit C cfg ''skill.candidate'' ''success'' [(''skill'', name)]) (\<lambda>_.
     print_out (OutText ''skill registrada como candidata; nenhuma execucao foi ativada'')))))"

definition approve_metadata :: "string \<Rightarrow> skill_record \<Rightarrow> (string \<times> string) list" where
  "approve_metadata name r =
     (let metadata = [(''sha256'', case sk_approval r of None \<Rightarrow> [] | Some a \<Rightarrow> sa_artifact_sha256 a), (''skill'', name)]
      in case Option.bind (sk_approval r) sa_attestation of
           None \<Rightarrow> metadata
         | Some a \<Rightarrow> bt_insert ''protocol'' (aa_protocol a) (bt_insert ''key_id'' (aa_key_id a) metadata))"

definition sign_with_file ::
    "cli_env \<Rightarrow> app_config \<Rightarrow> skill_registry \<Rightarrow> string \<Rightarrow> string \<Rightarrow> string \<Rightarrow> string option \<Rightarrow> string option \<Rightarrow>
     (skill_record \<times> skill_registry) command" where
  "sign_with_file C cfg R name reason artifact key_id key_file =
     and_do (from_result (ok_or (CliText ''--key-id e obrigatorio ao aprovar um artifact'') key_id)) (\<lambda>key_id.
     and_do (from_result (ok_or (CliText ''--signing-key-file e obrigatorio ao aprovar um artifact'') key_file)) (\<lambda>key_file.
     and_do (look C (\<lambda>t now s. map_err (\<lambda>e. CliContext (''carregando chave de assinatura '' @ key_file) (CliSkill e))
       (load_signing_key C s key_file))) (\<lambda>seed.
     skill_use C (\<lambda>now K. approve_signed_artifact K now name (pr_operator (cf_principal cfg)) artifact key_id seed reason R))))"

definition skill_approve ::
    "cli_env \<Rightarrow> app_config \<Rightarrow> skill_registry \<Rightarrow> string \<Rightarrow> string option \<Rightarrow> string \<Rightarrow> string option \<Rightarrow> string option \<Rightarrow>
     string option \<Rightarrow> unit command" where
  "skill_approve C cfg R name sha256 reason artifact key_id key_file =
     and_do (authorize cfg ApproveSkill) (\<lambda>_.
     and_do (case artifact of
         Some artifact \<Rightarrow> sign_with_file C cfg R name reason artifact key_id key_file
       | None \<Rightarrow>
           and_do (require (key_id = None \<and> key_file = None)
             (CliText ''--key-id e --signing-key-file exigem --artifact'')) (\<lambda>_.
           and_do (from_result (ok_or (CliText ''sha256 e obrigatorio quando artifact nao e informado'') sha256)) (\<lambda>sha256.
           skill_change C (\<lambda>now. approve now name (pr_operator (cf_principal cfg)) sha256 reason R)))) (\<lambda>(r, R).
     and_do (save_registry C R) (\<lambda>_.
     and_do (append_control_audit C cfg ''skill.approve'' ''success'' (approve_metadata name r)) (\<lambda>_.
     print_out (OutSkill r)))))"

text \<open>The end of every change of the trust store.\<close>

definition finish_trust :: "cli_env \<Rightarrow> app_config \<Rightarrow> string \<Rightarrow> string \<Rightarrow> trusted_key \<Rightarrow> trust_store \<Rightarrow> unit command" where
  "finish_trust C cfg action key_id key T =
     and_do (save_trust C T) (\<lambda>_.
     and_do (append_control_audit C cfg action ''success'' [(''key_id'', key_id)]) (\<lambda>_.
     print_out (OutKey key)))"

definition skill_trust_generate ::
    "cli_env \<Rightarrow> app_config \<Rightarrow> trust_store \<Rightarrow> string \<Rightarrow> string \<Rightarrow> string \<Rightarrow> unit command" where
  "skill_trust_generate C cfg T key_id output description =
     and_do (authorize cfg ApproveSkill) (\<lambda>_.
     at_moment C (\<lambda>t _.
     let seed = ce_seed C t in
     and_do (on_shared C (\<lambda>_ _ s. case save_signing_key C output seed s of (r, s) \<Rightarrow> (map_err CliSkill r, s))) (\<lambda>_.
     and_do (skill_change C (\<lambda>now. add_key (ce_skills C) now key_id (public_key_hex C seed) description
       (pr_operator (cf_principal cfg)) T)) (\<lambda>(key, T).
     finish_trust C cfg ''skill.trust_generate'' (ky_key_id key) key T))))"

definition skill_trust_add ::
    "cli_env \<Rightarrow> app_config \<Rightarrow> trust_store \<Rightarrow> string \<Rightarrow> string \<Rightarrow> string \<Rightarrow> unit command" where
  "skill_trust_add C cfg T key_id public_key description =
     and_do (authorize cfg ApproveSkill) (\<lambda>_.
     and_do (skill_change C (\<lambda>now. add_key (ce_skills C) now key_id public_key description
       (pr_operator (cf_principal cfg)) T)) (\<lambda>(key, T).
     finish_trust C cfg ''skill.trust_add'' (ky_key_id key) key T))"

definition skill_trust_revoke :: "cli_env \<Rightarrow> app_config \<Rightarrow> trust_store \<Rightarrow> string \<Rightarrow> unit command" where
  "skill_trust_revoke C cfg T key_id =
     and_do (authorize cfg ApproveSkill) (\<lambda>_.
     and_do (skill_change C (\<lambda>now. revoke_key now key_id T)) (\<lambda>(key, T).
     finish_trust C cfg ''skill.trust_revoke'' key_id key T))"

definition skill_revoke :: "cli_env \<Rightarrow> app_config \<Rightarrow> skill_registry \<Rightarrow> string \<Rightarrow> unit command" where
  "skill_revoke C cfg R name =
     and_do (authorize cfg RevokeSkill) (\<lambda>_.
     and_do (skill_change C (\<lambda>now. revoke now name R)) (\<lambda>(r, R).
     and_do (save_registry C R) (\<lambda>_.
     and_do (append_control_audit C cfg ''skill.revoke'' ''success'' [(''skill'', name)]) (\<lambda>_.
     print_out (OutSkill r)))))"

definition skill_operation ::
    "cli_env \<Rightarrow> app_config \<Rightarrow> skill_registry \<Rightarrow> trust_store \<Rightarrow> skill_command \<Rightarrow> unit command" where
  "skill_operation C cfg R T command =
     (case command of
        SkillList \<Rightarrow> and_do (authorize cfg RunReadOnly) (\<lambda>_. print_out (OutSkills (active_skills R)))
      | SkillCandidate name description permissions \<Rightarrow> skill_candidate C cfg R name description permissions
      | SkillApprove name sha256 reason artifact key_id key_file \<Rightarrow>
          skill_approve C cfg R name sha256 reason artifact key_id key_file
      | TrustGenerate key_id output description \<Rightarrow> skill_trust_generate C cfg T key_id output description
      | TrustAdd key_id public_key description \<Rightarrow> skill_trust_add C cfg T key_id public_key description
      | TrustRevoke key_id \<Rightarrow> skill_trust_revoke C cfg T key_id
      | TrustList \<Rightarrow> and_do (authorize cfg RunReadOnly) (\<lambda>_. print_out (OutKeys (list_keys T)))
      | SkillRevoke name \<Rightarrow> skill_revoke C cfg R name)"

definition run_skill_command :: "cli_env \<Rightarrow> cli \<Rightarrow> skill_command \<Rightarrow> unit command" where
  "run_skill_command C cli command =
     and_do (build_config C cli False False) (\<lambda>cfg.
     and_do (read_registry C) (\<lambda>R.
     and_do (read_trust C) (\<lambda>T.
     skill_operation C cfg R T command)))"

subsection \<open>The tools of a process\<close>

text \<open>Every active skill that verifies is a tool; one that does not keeps all of them from being loaded. The file of
  a module is read again after its hash; a tool asks the files, as they are when it is called, for its approval.\<close>

definition loaded_tool :: "cli_env \<Rightarrow> wasm_skill_tool \<Rightarrow> tool" where
  "loaded_tool C t = \<lparr>tl_definition = skill_definition t, tl_execute = (\<lambda>call.
     skill_execute (skills_at C (ce_during C call)) (ce_engine C) (ce_validator C) (sh_files (ce_during C call)) t call)\<rparr>"

fun load_tools :: "cli_env \<Rightarrow> trust_store \<Rightarrow> active_skill_artifact list \<Rightarrow> tool_registry \<Rightarrow> tool_registry command" where
  "load_tools C T [] tools = respond tools"
| "load_tools C T (a # as) tools =
     and_do (look C (\<lambda>t now s. Inr (skills_at C s))) (\<lambda>K.
     and_do (look C (\<lambda>t now s. map_err (\<lambda>e. CliContext (''carregando skill ativa '' @ ar_name a) (CliAgent e))
       (from_approved_artifact_with_revalidation K (read_disk s) a T))) (\<lambda>tool.
     and_do (from_result (map_err CliAgent (register_tool (loaded_tool C tool) tools))) (\<lambda>tools.
     load_tools C T as tools)))"

definition host_capabilities :: "app_config \<Rightarrow> capability_set" where
  "host_capabilities cfg = MemoryWrite # (if pr_role (cf_principal cfg) = Administrator then [CodeExecution] else [])"

definition build_tool_registry :: "cli_env \<Rightarrow> app_config \<Rightarrow> tool_registry command" where
  "build_tool_registry C cfg =
     and_do (read_registry C) (\<lambda>R.
     and_do (read_trust C) (\<lambda>T.
     and_do (look C (\<lambda>t now s.
       map_err (\<lambda>e. CliContext ''nenhuma skill ativa legada ou nao confiavel pode ser carregada'' (CliSkill e))
         (active_verified_artifacts (skills_at C s) T R))) (\<lambda>as.
     load_tools C T as (with_capabilities (host_capabilities cfg)))))"

end
