(* ===== verification/Cli_Main.thy ===== *)
theory Cli_Main
  imports Cli_Skills
begin

text \<open>
  \<^verbatim>\<open>crates/shaka-cli/src/main.rs\<close>: the commands that run the agent, start the server and maintain the database, and
  the dispatch. \<open>backup_to\<close> and \<open>restore_from\<close> are those of \<^verbatim>\<open>crates/shaka-memory/src/lib.rs\<close>.
\<close>

subsection \<open>The agent and the server\<close>

definition build_model :: "cli_env \<Rightarrow> app_config \<Rightarrow> cli_error + (nat \<Rightarrow> model_request \<Rightarrow> orchestrator_error + model_response)" where
  "build_model C cfg =
     (case cf_provider cfg of
        LocalProvider \<Rightarrow> Inr (\<lambda>_. local_complete)
      | OpenAiCompatible \<Rightarrow>
          and_then (ok_or (CliText ''SHAKA_MODEL_API_KEY e obrigatorio para openai-compatible'') (cf_api_key cfg)) (\<lambda>key.
          and_then (map_err CliAgent (open_ai_new (ce_post C (cf_endpoint cfg) key 0) (ce_from_str C) (ce_to_string C) key
            (cf_model_name cfg))) (\<lambda>model.
          Inr (\<lambda>t. open_ai_complete (model\<lparr>oa_post := ce_post C (cf_endpoint cfg) key t\<rparr>)))))"

definition cli_envelope :: "cli_env \<Rightarrow> app_config \<Rightarrow> string \<Rightarrow> task_envelope command" where
  "cli_envelope C cfg objective =
     at_moment C (\<lambda>t now.
     and_do (from_result (map_err CliCore (task_envelope_new (ce_fresh C t) now (cf_tenant cfg)
       (pr_operator (cf_principal cfg)) objective))) (\<lambda>envelope.
     at_moment C (\<lambda>t _.
     respond (envelope\<lparr>te_context := with_provenance (from_principal (cf_principal cfg))
         (Some (uuid_str (ce_iam C) (ce_fresh C t))) None,
       te_dry_run := (\<not> cf_live_requested cfg)\<rparr>))))"

text \<open>Nobody cancels a run at the command line.\<close>

definition run_agent :: "cli_env \<Rightarrow> cli \<Rightarrow> string \<Rightarrow> bool \<Rightarrow> bool \<Rightarrow> unit command" where
  "run_agent C cli objective live confirm_live =
     and_do (build_config C cli live confirm_live) (\<lambda>cfg.
     and_do (authorize cfg (if live then RunExternal else RunReadOnly)) (\<lambda>_.
     and_do (open_memory C) (\<lambda>_.
     and_do (cli_envelope C cfg objective) (\<lambda>envelope.
     and_do (from_result (build_model C cfg)) (\<lambda>model.
     and_do (build_tool_registry C cfg) (\<lambda>tools.
     and_do (from_result (map_err CliAgent (register_tool echo_tool tools))) (\<lambda>tools.
     and_do (on_shared C (\<lambda>t now s.
       case run_with_cancellation_and_scope
           ((ce_agent C t)\<lparr>re_memory := ce_memory C, re_validator := ce_validator C, re_complete := model,
             re_cancelled := (\<lambda>_. False)\<rparr>)
           tools envelope None \<lparr>ag_tick = 0, ag_memory = sh_memory s, ag_requests = [], ag_handed = []\<rparr> of
         (r, a) \<Rightarrow> (map_err CliAgent r, s\<lparr>sh_memory := ag_memory a\<rparr>))) (\<lambda>result.
     print_out (OutRun result)))))))))"

text \<open>What the server is started with.\<close>

record serving =
  sg_config :: api_config
  sg_principal :: principal
  sg_breaker :: circuit_breaker
  sg_model :: "nat \<Rightarrow> model_request \<Rightarrow> orchestrator_error + model_response"
  sg_tools :: tool_registry

definition server_config :: "app_config \<Rightarrow> ip_addr \<Rightarrow> 16 word \<Rightarrow> nat \<Rightarrow> string option \<Rightarrow> api_config" where
  "server_config cfg ip port workers api_key =
     default_api_config\<lparr>ac_bind_ip := ip, ac_bind_port := port, ac_worker_count := workers, ac_api_key := api_key,
       ac_live_enabled := cf_live_requested cfg, ac_live_confirmation := cf_live_confirmation cfg\<rparr>"

definition start_server ::
    "cli_env \<Rightarrow> app_config \<Rightarrow> api_config \<Rightarrow> (nat \<Rightarrow> model_request \<Rightarrow> orchestrator_error + model_response) \<Rightarrow>
     tool_registry \<Rightarrow> serving command" where
  "start_server C cfg config model tools =
     at_moment C (\<lambda>_ now.
     and_do (on_shared C (\<lambda>t later s. case api_state_new now later (cf_principal cfg) config (ce_circuits C t) (sh_host s) of
         (r, h) \<Rightarrow> (map_err CliApi r, s\<lparr>sh_host := h\<rparr>))) (\<lambda>breaker.
     respond \<lparr>sg_config = config, sg_principal = cf_principal cfg, sg_breaker = breaker, sg_model = model,
       sg_tools = tools\<rparr>))"

definition serve_agent ::
    "cli_env \<Rightarrow> cli \<Rightarrow> string \<Rightarrow> nat \<Rightarrow> string option \<Rightarrow> bool \<Rightarrow> bool \<Rightarrow> serving command" where
  "serve_agent C cli bind workers api_key live confirm_live =
     and_do (build_config C cli live confirm_live) (\<lambda>cfg.
     and_do (authorize cfg RunReadOnly) (\<lambda>_.
     and_do (open_memory C) (\<lambda>_.
     and_do (from_result (build_model C cfg)) (\<lambda>model.
     and_do (build_tool_registry C cfg) (\<lambda>tools.
     and_do (from_result (map_err CliAgent (register_tool echo_tool tools))) (\<lambda>tools.
     and_do (open_store C) (\<lambda>_.
     and_do (from_result (map_err (\<lambda>e. CliContext (''bind HTTP invalido: '' @ bind) (CliText e)) (ce_socket C bind))) (\<lambda>(ip, port).
     start_server C cfg (server_config cfg ip port workers api_key) model tools))))))))"

definition sandbox_demo :: "cli_env \<Rightarrow> unit command" where
  "sandbox_demo C =
     and_do (from_result (map_err CliText (ce_demo C))) (\<lambda>wasm.
     and_do (from_result (map_err (\<lambda>e. CliText (sandbox_error_text e)) (sandbox_execute (ce_engine C) wasm [] default_policy)))
       (\<lambda>result.
     print_out (OutSandbox result)))"

subsection \<open>Memory and the audit trail\<close>

text \<open>\<open>Duration::days\<close> panics on what does not fit.\<close>

definition duration_days :: "int \<Rightarrow> cli_error + int" where
  "duration_days days =
     (if - 106751991167 \<le> days \<and> days \<le> 106751991167 then Inr (days * seconds 86400)
      else Inl (CliPanic ''TimeDelta::days out of bounds''))"

definition run_memory_command :: "cli_env \<Rightarrow> cli \<Rightarrow> memory_command \<Rightarrow> unit command" where
  "run_memory_command C cli command =
     and_do (build_config C cli False False) (\<lambda>cfg.
     and_do (open_memory C) (\<lambda>_.
     case command of
       MemoryRecent limit \<Rightarrow>
         and_do (authorize cfg RunReadOnly) (\<lambda>_.
         and_do (look C (\<lambda>t now s. Inr (recent_episodes (cf_tenant cfg) limit (sh_memory s)))) (\<lambda>episodes.
         print_out (OutEpisodes episodes)))
     | MemoryPurge days \<Rightarrow>
         and_do (authorize cfg PurgeMemory) (\<lambda>_.
         and_do (from_result (duration_days days)) (\<lambda>retention.
         and_do (on_shared C (\<lambda>t now s. case purge_older_than now (cf_tenant cfg) retention (sh_memory s) of
             Inl e \<Rightarrow> (Inl (CliMemory e), s)
           | Inr (n, m) \<Rightarrow> (Inr n, s\<lparr>sh_memory := m\<rparr>))) (\<lambda>deleted.
         print_out (OutDeleted deleted))))))"

definition verify_trail :: "cli_env \<Rightarrow> app_config \<Rightarrow> audit_verification command" where
  "verify_trail C cfg = look C (\<lambda>t now s. Inr (verify_audit_chain (ce_memory C) (cf_tenant cfg) (sh_memory s)))"

definition run_verify_audit :: "cli_env \<Rightarrow> cli \<Rightarrow> unit command" where
  "run_verify_audit C cli =
     and_do (build_config C cli False False) (\<lambda>cfg.
     and_do (authorize cfg VerifyAudit) (\<lambda>_.
     and_do (open_memory C) (\<lambda>_.
     and_do (verify_trail C cfg) (\<lambda>verification.
     and_do (print_out (OutVerification verification)) (\<lambda>_.
     require (vf_valid verification) (CliText ''cadeia de auditoria invalida''))))))"

definition show_config :: "cli_env \<Rightarrow> cli \<Rightarrow> unit command" where
  "show_config C cli = and_do (build_config C cli False False) (\<lambda>cfg. print_out (OutSummary (public_summary cfg)))"

text \<open>A configuration that is not accepted is reported, and the command succeeds.\<close>

definition doctor :: "cli_env \<Rightarrow> cli \<Rightarrow> unit command" where
  "doctor C cli =
     (case from_values (ce_url C) (ci_values cli) False False True of
        Inl e \<Rightarrow> print_out (OutFailed e)
      | Inr cfg \<Rightarrow>
          and_do (open_memory C) (\<lambda>_.
          and_do (look C (\<lambda>t now s. map_err CliMemory (ce_integrity C t))) (\<lambda>integrity.
          and_do (verify_trail C cfg) (\<lambda>chain.
          and_do (look C (\<lambda>t now s. Inr (fs_registry (sh_files s) \<noteq> Absent))) (\<lambda>exists.
          print_out (OutDoctor integrity chain exists))))))"

subsection \<open>Backup and restore\<close>

text \<open>\<open>backup_to\<close>: the database as a whole, over whatever the destination holds.\<close>

definition backup_to :: "string \<Rightarrow> shared \<Rightarrow> shared" where
  "backup_to path s = s\<lparr>sh_snapshots := (sh_snapshots s)(path \<mapsto>
     \<lparr>np_intact = True, np_host = Some (sh_host s), np_memory = Some (sh_memory s)\<rparr>)\<rparr>"

text \<open>Fresh UUIDs are numbers of counters in the tables: these are not set back.\<close>

definition later_uuids :: "host \<Rightarrow> host \<Rightarrow> host" where
  "later_uuids h now = h\<lparr>hs_db := (hs_db h)\<lparr>db_uuid_seed := max (db_uuid_seed (hs_db h)) (db_uuid_seed (hs_db now))\<rparr>\<rparr>"

definition later_memory_uuids :: "memory \<Rightarrow> memory \<Rightarrow> memory" where
  "later_memory_uuids m now = m\<lparr>mm_uuid_seed := max (mm_uuid_seed m) (mm_uuid_seed now)\<rparr>"

text \<open>\<open>restore_from\<close>: the snapshot must hold the tables of the memory store; those of the queue, if it has none, are
  made anew when the queue is opened.\<close>

definition restore_from :: "string \<Rightarrow> shared \<Rightarrow> memory_error + shared" where
  "restore_from path s =
     and_then (ok_or (MIo ''No such file or directory (os error 2)'') (sh_snapshots s path)) (\<lambda>p.
     and_then (ensure (np_intact p) (MIo ''integridade do backup de origem falhou'')) (\<lambda>_.
     and_then (ok_or (MIo ''schema do backup de origem e incompativel'') (np_memory p)) (\<lambda>m.
     Inr (s\<lparr>sh_host := later_uuids (unwrap_or (np_host p) empty_host) (sh_host s),
       sh_memory := later_memory_uuids m (sh_memory s)\<rparr>))))"

definition check_integrity :: "cli_env \<Rightarrow> string \<Rightarrow> unit command" where
  "check_integrity C message =
     and_do (look C (\<lambda>t now s. map_err CliMemory (ce_integrity C t))) (\<lambda>ok. require ok (CliText message))"

definition run_backup :: "cli_env \<Rightarrow> cli \<Rightarrow> string \<Rightarrow> unit command" where
  "run_backup C cli output =
     and_do (build_config C cli False False) (\<lambda>cfg.
     and_do (authorize cfg Backup) (\<lambda>_.
     and_do (open_memory C) (\<lambda>_.
     and_do (check_integrity C ''a integridade do banco de origem falhou; backup bloqueado'') (\<lambda>_.
     and_do (on_shared C (\<lambda>t now s. (Inr (), backup_to output s))) (\<lambda>_.
     print_out (OutText (''backup criado em '' @ output)))))))"

definition run_restore :: "cli_env \<Rightarrow> cli \<Rightarrow> string \<Rightarrow> unit command" where
  "run_restore C cli input =
     and_do (build_config C cli False False) (\<lambda>cfg.
     and_do (authorize cfg Restore) (\<lambda>_.
     and_do (look C (\<lambda>t now s. ensure (sh_snapshots s input \<noteq> None)
       (CliText (''arquivo de restore nao encontrado: '' @ input)))) (\<lambda>_.
     and_do (open_memory C) (\<lambda>_.
     and_do (on_shared C (\<lambda>t now s. case restore_from input s of
         Inl e \<Rightarrow> (Inl (CliMemory e), s) | Inr s' \<Rightarrow> (Inr (), s'))) (\<lambda>_.
     and_do (check_integrity C ''restore concluido, mas a integridade do banco falhou'') (\<lambda>_.
     print_out (OutText (''restore concluido a partir de '' @ input))))))))"

subsection \<open>The process\<close>

definition run_command :: "cli_env \<Rightarrow> cli \<Rightarrow> cli_command \<Rightarrow> unit command" where
  "run_command C cli command =
     (case command of
        Run objective live confirm_live \<Rightarrow> run_agent C cli objective live confirm_live
      | Serve bind workers api_key live confirm_live \<Rightarrow>
          and_do (serve_agent C cli bind workers api_key live confirm_live) (\<lambda>_. respond ())
      | MemoryCommand c \<Rightarrow> run_memory_command C cli c
      | SkillCommand c \<Rightarrow> run_skill_command C cli c
      | SandboxDemo \<Rightarrow> sandbox_demo C
      | Doctor \<Rightarrow> doctor C cli
      | BackupTo output \<Rightarrow> run_backup C cli output
      | RestoreFrom input \<Rightarrow> run_restore C cli input
      | VerifyAuditChain \<Rightarrow> run_verify_audit C cli
      | ShowConfig \<Rightarrow> show_config C cli
      | IamCommand c \<Rightarrow> run_iam_command C cli c
      | PlanCommand c \<Rightarrow> run_plan_command C cli c)"

end
