(* ===== verification/Cli_Contract.thy ===== *)
theory Cli_Contract
  imports Cli_Main Agent_Record Queue_Facts Memory_Facts
begin

text \<open>
  What holds of every command because it holds of the operations it is made of. \<open>world_contract\<close> asks for what
  others do between its uses; \<open>store_commands\<close> extends it by the operations of the stores, \<open>file_commands\<close> by the
  writing of the files of skills.
\<close>

text \<open>A run of the agent does to the memory store nothing but its operations.\<close>

interpretation run_memory: store_invariant E "(memory_step (re_memory E))\<^sup>*\<^sup>* m" for E :: agent_env and m :: memory
  by unfold_locales (auto intro: rtranclp.rtrancl_into_rtrancl M_episode M_audit)

definition command_keeps :: "(shared \<Rightarrow> shared \<Rightarrow> bool) \<Rightarrow> 'a command \<Rightarrow> bool" where
  "command_keeps R m \<longleftrightarrow> (\<forall>w. R (cw_shared w) (cw_shared (snd (m w))))"

lemma shared_updates [simp]:
  "cw_shared (w\<lparr>cw_tick := t\<rparr>) = cw_shared w" "cw_shared (w\<lparr>cw_printed := p\<rparr>) = cw_shared w"
  by simp_all

locale world_contract =
  fixes C :: cli_env and R :: "shared \<Rightarrow> shared \<Rightarrow> bool"
  assumes same: "R s s" and steps: "R s s' \<Longrightarrow> R s' s'' \<Longrightarrow> R s s''" and others: "R s (ce_between C t s)"
begin

lemma k_pure: "command_keeps R (respond x)" "command_keeps R (refuse e)" "command_keeps R (require b e)"
  "command_keeps R (from_result r)" "command_keeps R (print_out x')"
  by (simp_all add: command_keeps_def respond_def refuse_def require_def from_result_def print_out_def same split: sum.split)

lemma k_and_do: "command_keeps R m \<Longrightarrow> (\<And>x. command_keeps R (f x)) \<Longrightarrow> command_keeps R (and_do m f)"
  unfolding command_keeps_def and_do_def by (auto split: prod.split sum.split) (metis snd_conv steps)+

lemma k_shared: "(\<And>t now s. R s (snd (f t now s))) \<Longrightarrow> command_keeps R (on_shared C f)"
  unfolding command_keeps_def on_shared_def Let_def
  by (auto split: option.split prod.split simp: others) (metis others snd_conv steps)+

lemma k_look: "command_keeps R (look C f)"
  unfolding look_def by (rule k_shared) (simp add: same)

lemma k_moment: "(\<And>t now. command_keeps R (f t now)) \<Longrightarrow> command_keeps R (at_moment C f)"
  unfolding command_keeps_def at_moment_def by (metis shared_updates(1))

lemma k_config: "command_keeps R (build_config C cli live confirmed)" "command_keeps R (authorize cfg a)"
  by (simp_all add: build_config_def authorize_def k_pure)

lemma k_open: "command_keeps R (open_store C)" "command_keeps R (open_memory C)"
  by (simp_all add: open_store_def open_memory_def k_look)

lemma k_reads: "command_keeps R (on_host C (reads f))"
  unfolding on_host_def reads_def by (rule k_shared) (simp add: same)

lemma k_parse: "command_keeps R (parse_plan_id C value)" "command_keeps R (read_registry C)" "command_keeps R (read_trust C)"
  "command_keeps R (skill_use C g)" "command_keeps R (skill_change C g')" "command_keeps R (verify_trail C cfg)"
  by (auto simp: parse_plan_id_def read_registry_def read_trust_def skill_use_def skill_change_def verify_trail_def
    intro!: k_pure k_look k_moment)

lemma k_inspect: "command_keeps R (inspect_command C cfg pid)" "command_keeps R (load_plan_command C cfg pid)"
  by (simp_all add: inspect_command_def load_plan_command_def k_reads)

lemma k_sign: "command_keeps R (sign_with_file C cfg Q name reason artifact key_id key_file)"
  unfolding sign_with_file_def by (intro k_and_do k_pure k_look k_parse)

lemma k_integrity: "command_keeps R (check_integrity C message)"
  unfolding check_integrity_def by (intro k_and_do k_pure k_look)

lemma k_envelope: "command_keeps R (cli_envelope C cfg objective)"
  unfolding cli_envelope_def by (intro k_moment k_and_do k_pure)

lemma k_load_tools: "command_keeps R (load_tools C T as tools)"
  by (induction as arbitrary: tools) (auto intro!: k_and_do k_pure k_look)

lemma k_tools: "command_keeps R (build_tool_registry C cfg)"
  unfolding build_tool_registry_def by (intro k_and_do k_parse k_look k_load_tools)

lemmas k_quiet = k_and_do k_pure k_moment k_look k_config k_open k_reads k_parse k_inspect k_sign k_integrity k_envelope k_tools

text \<open>Commands that only look.\<close>

lemma k_readers: "command_keeps R (sandbox_demo C)" "command_keeps R (show_config C cli)" "command_keeps R (run_verify_audit C cli)"
    "command_keeps R (doctor C cli)" "command_keeps R (iam_list C)"
  unfolding sandbox_demo_def show_config_def run_verify_audit_def doctor_def iam_list_def
  by (auto intro!: k_quiet split: sum.split)

text \<open>A command that is not authorized.\<close>

lemma k_refused: "\<not> allows (cf_principal cfg) a \<Longrightarrow> command_keeps R (and_do (authorize cfg a) f)"
  by (simp add: authorize_def require_def k_pure)

end

locale store_commands = world_contract +
  assumes host: "host_step (ce_store C) (ce_iam C) (sh_host s) h \<Longrightarrow> R s (s\<lparr>sh_host := h\<rparr>)"
    and memory: "memory_step (ce_memory C) (sh_memory s) m \<Longrightarrow> R s (s\<lparr>sh_memory := m\<rparr>)"
    and disk: "R s (s\<lparr>sh_disk := D\<rparr>)" "R s (s\<lparr>sh_snapshots := N\<rparr>)"
begin

lemma k_changes:
  "(\<And>now h x h'. f now h = Inr (x, h') \<Longrightarrow> host_step (ce_store C) (ce_iam C) h h') \<Longrightarrow> command_keeps R (on_host C (changes f))"
  unfolding on_host_def
  by (rule k_shared) (auto simp: changes_def same host split: sum.split prod.split)

lemma k_plans:
  "(\<And>now h x db. f now (hs_db h) = Inr (x, db) \<Longrightarrow> host_step (ce_store C) (ce_iam C) h (h\<lparr>hs_db := db\<rparr>)) \<Longrightarrow>
    command_keeps R (on_host C (changes (on_plans f)))"
  by (rule k_changes) (auto simp: on_plans_def result_simps)

lemma k_audit: "command_keeps R (append_control_audit C cfg action outcome metadata)"
  unfolding append_control_audit_def
  by (intro k_quiet k_shared) (auto split: sum.split intro: same memory M_audit)

lemma k_bootstrap: "command_keeps R (bootstrap C cfg)"
  unfolding bootstrap_def by (rule k_changes) (auto simp: result_simps intro: H_bootstrap)

lemmas k_store = k_quiet k_audit k_bootstrap

lemma k_if: "command_keeps R m \<Longrightarrow> command_keeps R n \<Longrightarrow> command_keeps R (if b then m else n)"
  by simp

lemma k_decisions:
  "command_keeps R (on_host C (changes (on_plans (\<lambda>now. approve_plan (ce_store C) now who approval key))))"
  "command_keeps R (on_host C (changes (on_plans (\<lambda>now. resolve_plan_unknown (ce_store C) now who pid choice key evidence))))"
  "command_keeps R (on_host C (changes (\<lambda>now. request_cancel (ce_store C) now tid tenant)))"
  by (rule k_plans k_changes, blast intro: H_approve H_resolve H_cancel)+

lemma k_plan_operations:
  "command_keeps R (plan_validate C cfg pid)" "command_keeps R (plan_show C cfg pid)"
  "command_keeps R (plan_approve C cfg pid step verdict expires_in key)" "command_keeps R (plan_resume C cfg pid evidence key)"
  "command_keeps R (plan_cancel C cfg pid)" "command_keeps R (plan_verify C cfg pid)" "command_keeps R (plan_checkpoints C cfg pid)"
  unfolding plan_validate_def plan_show_def plan_approve_def plan_resume_def plan_cancel_def plan_verify_def
    plan_checkpoints_def Let_def
  by (intro k_if k_decisions k_store)+

lemma k_plan_command: "command_keeps R (run_plan_command C cli c)"
  unfolding run_plan_command_def
  by (cases c) (simp_all, (intro k_store k_plan_operations)+)

lemma k_iam_operations:
  "command_keeps R (iam_tenant_create C cfg tenant name)" "command_keeps R (iam_user_create C cfg operator tenant role)"
  "command_keeps R (iam_token_issue C cfg operator expires_in)" "command_keeps R (iam_token_revoke C cfg token)"
  "command_keeps R (iam_limits_set C cfg tenant a d m r n)"
  unfolding iam_tenant_create_def iam_user_create_def iam_token_issue_def iam_token_revoke_def iam_limits_set_def
  by (intro k_store k_changes, auto simp: result_simps intro: H_create_tenant H_create_user H_issue H_revoke H_set_limits)+

lemma k_iam_command: "command_keeps R (run_iam_command C cli c)"
  unfolding run_iam_command_def
  by (cases c) (simp_all, (intro k_store k_iam_operations k_readers)+)

lemma k_save_key: "command_keeps R (on_shared C (\<lambda>_ _ s. case save_signing_key C output seed s of (r, s) \<Rightarrow> (map_err CliSkill r, s)))"
  by (rule k_shared) (simp add: save_signing_key_def same disk)

lemma k_memory_command: "command_keeps R (run_memory_command C cli c)"
  unfolding run_memory_command_def
  by (cases c) (simp_all, (intro k_quiet k_shared; (simp split: sum.split prod.split)?; blast intro: same memory M_purge)+)

lemma k_backup: "command_keeps R (run_backup C cli output)"
  unfolding run_backup_def by (intro k_quiet k_shared) (simp add: backup_to_def disk)

lemma memory_steps: "(memory_step (ce_memory C))\<^sup>*\<^sup>* (sh_memory s) m \<Longrightarrow> R s (s\<lparr>sh_memory := m\<rparr>)"
proof (induction rule: rtranclp_induct)
  case base
  then show ?case by (simp add: same)
next
  case (step m m')
  from memory [of "s\<lparr>sh_memory := m\<rparr>" m'] step.hyps(2) have "R (s\<lparr>sh_memory := m\<rparr>) (s\<lparr>sh_memory := m'\<rparr>)" by simp
  with step.IH show ?case by (rule steps)
qed

lemma k_run: "command_keeps R (run_agent C cli objective live confirmed)"
proof -
  have run: "(memory_step (ce_memory C))\<^sup>*\<^sup>* (sh_memory s) (ag_memory (snd (run_with_cancellation_and_scope E tools envelope scope
      \<lparr>ag_tick = 0, ag_memory = sh_memory s, ag_requests = [], ag_handed = []\<rparr>)))"
    if "re_memory E = ce_memory C" for E tools envelope scope s
    using run_memory.run_holds [of E "sh_memory s", unfolded run_memory.holds_def] that by simp
  show ?thesis
    unfolding run_agent_def
    by (intro k_quiet k_shared) (simp add: split_def memory_steps run)
qed

lemma k_serve: "command_keeps R (serve_agent C cli bind workers key live confirmed)"
  unfolding serve_agent_def start_server_def split_def
  by (intro k_quiet k_shared)
    (auto simp: api_state_new_def same intro: host H_bootstrap split: sum.split)

end

locale file_commands = store_commands +
  assumes files: "R s (s\<lparr>sh_files := F\<rparr>)"
begin

lemma k_save: "command_keeps R (save_registry C Q)" "command_keeps R (save_trust C T)"
  unfolding save_registry_def save_trust_def by (rule k_shared; simp add: files)+

lemma k_finish_trust: "command_keeps R (finish_trust C cfg action key_id key T)"
  unfolding finish_trust_def by (intro k_store k_save)

lemma k_skill_operation: "command_keeps R (skill_operation C cfg Q T c)"
  unfolding skill_operation_def skill_candidate_def skill_approve_def skill_trust_generate_def
    skill_trust_add_def skill_trust_revoke_def skill_revoke_def Let_def
  by (auto split: skill_command.split prod.split option.split intro!: k_store k_save k_finish_trust k_save_key)

lemma k_skill_command: "command_keeps R (run_skill_command C cli c)"
  unfolding run_skill_command_def by (intro k_store k_skill_operation)

lemma k_command: "(\<And>input. c \<noteq> RestoreFrom input) \<Longrightarrow> command_keeps R (run_command C cli c)"
  unfolding run_command_def
  by (cases c) (auto intro!: k_and_do k_pure k_run k_serve k_memory_command k_skill_command k_readers k_backup k_iam_command
    k_plan_command)

end

end
