(* ===== verification/Cli_Facts.thy ===== *)
theory Cli_Facts
  imports Cli_Contract
begin

text \<open>
  What holds of every command of the command line: it does to the database nothing but operations of the
  stores, it needs its role, and what changes the store is recorded.
\<close>

subsection \<open>Commands are operations of the stores\<close>

inductive shared_step :: "cli_env \<Rightarrow> shared \<Rightarrow> shared \<Rightarrow> bool" for C :: cli_env where
  S_others: "shared_step C s (ce_between C t s)"
| S_host: "host_step (ce_store C) (ce_iam C) (sh_host s) h \<Longrightarrow> shared_step C s (s\<lparr>sh_host := h\<rparr>)"
| S_memory: "memory_step (ce_memory C) (sh_memory s) m \<Longrightarrow> shared_step C s (s\<lparr>sh_memory := m\<rparr>)"
| S_files: "shared_step C s (s\<lparr>sh_files := F\<rparr>)"
| S_disk: "shared_step C s (s\<lparr>sh_disk := D\<rparr>)"
| S_snapshots: "shared_step C s (s\<lparr>sh_snapshots := N\<rparr>)"

interpretation any: file_commands C "(shared_step C)\<^sup>*\<^sup>*" for C :: cli_env
  by unfold_locales (auto intro: shared_step.intros)

definition database_steps :: "cli_env \<Rightarrow> shared \<Rightarrow> shared \<Rightarrow> bool" where
  "database_steps C s s' \<longleftrightarrow> (host_step (ce_store C) (ce_iam C))\<^sup>*\<^sup>* (sh_host s) (sh_host s')
     \<and> (memory_step (ce_memory C))\<^sup>*\<^sup>* (sh_memory s) (sh_memory s')"

lemma shared_steps_database:
  assumes "(shared_step C)\<^sup>*\<^sup>* s s'" and "\<And>t s. database_steps C s (ce_between C t s)"
  shows "database_steps C s s'"
  using assms(1)
proof (induction rule: rtranclp_induct)
  case base
  then show ?case by (simp add: database_steps_def)
next
  case (step u v)
  from step.hyps(2) assms(2) have "database_steps C u v"
    by (cases rule: shared_step.cases) (auto simp: database_steps_def)
  with step.IH show ?case by (auto simp: database_steps_def)
qed


subsection \<open>Every command needs its role\<close>

fun plan_needs :: "plan_command \<Rightarrow> action" where
  "plan_needs (PlanApprove pid step verdict expires_in key) = ApprovePlan"
| "plan_needs (PlanResume pid evidence key) = ResolvePlanUnknown"
| "plan_needs _ = RunReadOnly"

fun skill_needs :: "skill_command \<Rightarrow> action" where
  "skill_needs SkillList = RunReadOnly"
| "skill_needs TrustList = RunReadOnly"
| "skill_needs (SkillCandidate name description permissions) = CreateSkill"
| "skill_needs (SkillRevoke name) = RevokeSkill"
| "skill_needs _ = ApproveSkill"

fun needs :: "cli_command \<Rightarrow> action option" where
  "needs (Run objective live confirmed) = Some (if live then RunExternal else RunReadOnly)"
| "needs (Serve bind workers key live confirmed) = Some RunReadOnly"
| "needs (MemoryCommand (MemoryRecent limit)) = Some RunReadOnly"
| "needs (MemoryCommand (MemoryPurge days)) = Some PurgeMemory"
| "needs (SkillCommand c) = Some (skill_needs c)"
| "needs (BackupTo output) = Some Backup"
| "needs (RestoreFrom input) = Some Restore"
| "needs VerifyAuditChain = Some VerifyAudit"
| "needs (IamCommand c) = Some ManageIam"
| "needs (PlanCommand c) = Some (plan_needs c)"
| "needs _ = None"

fun live_flags :: "cli_command \<Rightarrow> bool \<times> bool" where
  "live_flags (Run objective live confirmed) = (live, confirmed)"
| "live_flags (Serve bind workers key live confirmed) = (live, confirmed)"
| "live_flags _ = (False, False)"

definition config_of :: "cli_env \<Rightarrow> cli \<Rightarrow> cli_command \<Rightarrow> config_error + app_config" where
  "config_of C cli c = (case live_flags c of (live, confirmed) \<Rightarrow> from_values (ce_url C) (ci_values cli) live confirmed True)"

text \<open>What happens to the shared state while a command is declined: others go on, and a command of plans has registered
  its principal before.\<close>

inductive declined_step :: "cli_env \<Rightarrow> principal \<Rightarrow> bool \<Rightarrow> shared \<Rightarrow> shared \<Rightarrow> bool"
    for C :: cli_env and who :: principal and plan :: bool where
  D_others: "declined_step C who plan s (ce_between C t s)"
| D_bootstrap: "plan \<Longrightarrow> bootstrap_principal now who (sh_host s) = Inr h \<Longrightarrow> declined_step C who plan s (s\<lparr>sh_host := h\<rparr>)"

interpretation declined: world_contract C "(declined_step C who plan)\<^sup>*\<^sup>*"
  for C :: cli_env and who :: principal and plan :: bool
  by unfold_locales (auto intro: D_others)

definition silent :: "'a command \<Rightarrow> bool" where
  "silent m \<longleftrightarrow> (\<forall>w. cw_printed (snd (m w)) = cw_printed w)"

definition declines :: "cli_env \<Rightarrow> principal \<Rightarrow> bool \<Rightarrow> 'a command \<Rightarrow> bool" where
  "declines C who plan m \<longleftrightarrow> (\<forall>w. (\<exists>e. fst (m w) = Inl e)
     \<and> (declined_step C who plan)\<^sup>*\<^sup>* (cw_shared w) (cw_shared (snd (m w))) \<and> cw_printed (snd (m w)) = cw_printed w)"

lemma declines_and_do:
  assumes "command_keeps (declined_step C who plan)\<^sup>*\<^sup>* m" "silent m" and "\<And>x. declines C who plan (f x)"
  shows "declines C who plan (and_do m f)"
  unfolding declines_def
proof
  fix w
  obtain r v where m: "m w = (r, v)" by fastforce
  have kept: "(declined_step C who plan)\<^sup>*\<^sup>* (cw_shared w) (cw_shared v)" "cw_printed v = cw_printed w"
    using assms(1,2) unfolding command_keeps_def silent_def by (metis m snd_conv)+
  show "(\<exists>e. fst (and_do m f w) = Inl e) \<and> (declined_step C who plan)\<^sup>*\<^sup>* (cw_shared w) (cw_shared (snd (and_do m f w)))
      \<and> cw_printed (snd (and_do m f w)) = cw_printed w"
  proof (cases r)
    case (Inl e)
    with kept show ?thesis by (simp add: and_do_def m)
  next
    case (Inr x)
    with kept assms(3) [of x] show ?thesis unfolding declines_def
      by (auto simp: and_do_def m intro: rtranclp_trans)
  qed
qed

lemma declines_here: "\<not> allows (cf_principal cfg) a \<Longrightarrow> declines C who plan (and_do (authorize cfg a) f)"
  by (simp add: declines_def authorize_def require_def and_do_def refuse_def)

lemma silent_shared: "silent (on_shared C f)"
  by (simp add: silent_def on_shared_def Let_def split_def)

lemma silent_actions:
  "silent (look C f)" "silent (on_host C h)" "silent (open_store C)" "silent (open_memory C)"
  "silent (read_registry C)" "silent (read_trust C)" "silent (bootstrap C cfg)"
  by (simp_all add: silent_shared look_def on_host_def open_store_def open_memory_def read_registry_def read_trust_def
    bootstrap_def)

lemma bootstrap_declined: "command_keeps (declined_step C (cf_principal cfg) True)\<^sup>*\<^sup>* (bootstrap C cfg)"
  unfolding bootstrap_def on_host_def
  by (rule declined.k_shared) (auto simp: changes_def result_simps intro: D_bootstrap split: sum.split)

lemma config_known: "from_values (ce_url C) (ci_values cli) live confirmed True = Inr cfg \<Longrightarrow>
    and_do (build_config C cli live confirmed) f = f cfg"
  by (simp add: build_config_def from_result_def)

lemmas declining = declines_here declines_and_do [OF declined.k_open(1) silent_actions(3)]
  declines_and_do [OF declined.k_open(2) silent_actions(4)] declines_and_do [OF bootstrap_declined silent_actions(7)]
  declines_and_do [OF declined.k_parse(2) silent_actions(5)] declines_and_do [OF declined.k_parse(3) silent_actions(6)]

lemma declined_plan:
  "from_values (ce_url C) (ci_values cli) False False True = Inr cfg \<Longrightarrow> \<not> allows (cf_principal cfg) (plan_needs c) \<Longrightarrow>
    declines C (cf_principal cfg) True (run_plan_command C cli c)"
  unfolding run_plan_command_def
  by (cases c; simp add: config_known plan_validate_def plan_show_def plan_approve_def plan_resume_def plan_cancel_def
      plan_verify_def plan_checkpoints_def; intro declining; assumption)

lemma declined_skill:
  "from_values (ce_url C) (ci_values cli) False False True = Inr cfg \<Longrightarrow> \<not> allows (cf_principal cfg) (skill_needs c) \<Longrightarrow>
    declines C who plan (run_skill_command C cli c)"
  unfolding run_skill_command_def skill_operation_def
  by (cases c; simp add: config_known skill_candidate_def skill_approve_def skill_trust_generate_def skill_trust_add_def
      skill_trust_revoke_def skill_revoke_def; intro declining; assumption)


end
