(* ===== verification/Cli_Governance.thy ===== *)
theory Cli_Governance
  imports Cli_Facts
begin

text \<open>
  What commands leave behind: an entry of the audit trail, steps of the governance of skills (if nobody else
  writes the files meanwhile; otherwise changes are lost), tools that were approved, and a database that a
  restore takes back to its backup.
\<close>

subsection \<open>Commands are recorded\<close>

definition trail_grows :: "shared \<Rightarrow> shared \<Rightarrow> bool" where
  "trail_grows s s' \<longleftrightarrow> (\<exists>new. mm_audit (sh_memory s') = mm_audit (sh_memory s) @ new)"

lemma trail_grows_trans: "trail_grows s s' \<Longrightarrow> trail_grows s' s'' \<Longrightarrow> trail_grows s s''"
  by (auto simp: trail_grows_def)

lemma memory_step_grows: "memory_step E m m' \<Longrightarrow> \<exists>new. mm_audit m' = mm_audit m @ new"
  by (induction rule: memory_step.induct)
    (auto simp: append_episode_def consolidate_episode_def purge_older_than_def put_working_def append_audit_event_def
      unique_key_def Let_def result_simps split: if_splits)

lemma shared_steps_grow:
  assumes "(shared_step C)\<^sup>*\<^sup>* s s'" and "\<And>t s. trail_grows s (ce_between C t s)"
  shows "trail_grows s s'"
  using assms(1)
proof (induction rule: rtranclp_induct)
  case base
  then show ?case by (simp add: trail_grows_def)
next
  case (step u v)
  from step.hyps(2) assms(2) have "trail_grows u v"
    by (cases rule: shared_step.cases) (auto simp: trail_grows_def dest: memory_step_grows)
  with step.IH show ?case by (rule trail_grows_trans)
qed

definition entry_of :: "app_config \<Rightarrow> string \<Rightarrow> audit_row \<Rightarrow> bool" where
  "entry_of cfg action row \<longleftrightarrow> ad_tenant row = pr_tenant (cf_principal cfg)
     \<and> av_tenant (ad_event_json row) = pr_tenant (cf_principal cfg)
     \<and> av_actor (ad_event_json row) = operator_str (pr_operator (cf_principal cfg)) \<and> av_action (ad_event_json row) = action"

text \<open>The entries that were added.\<close>

definition new_entries :: "shared \<Rightarrow> shared \<Rightarrow> audit_row list" where
  "new_entries s s' = drop (length (mm_audit (sh_memory s))) (mm_audit (sh_memory s'))"

lemma new_entries_mono:
  assumes "trail_grows s s'" "trail_grows s' s''" "trail_grows s'' s'''"
  shows "set (new_entries s' s'') \<subseteq> set (new_entries s s''')"
  using assms by (auto simp: trail_grows_def new_entries_def)

definition records :: "cli_env \<Rightarrow> app_config \<Rightarrow> string \<Rightarrow> 'a command \<Rightarrow> bool" where
  "records C cfg action m \<longleftrightarrow> (\<forall>w u w'. (\<forall>t s. trail_grows s (ce_between C t s)) \<longrightarrow> m w = (Inr u, w') \<longrightarrow>
     (\<exists>row \<in> set (new_entries (cw_shared w) (cw_shared w')). entry_of cfg action row))"

lemma kept_trail:
  assumes "command_keeps (shared_step C)\<^sup>*\<^sup>* m" "m w = (r, w')" "\<And>t s. trail_grows s (ce_between C t s)"
  shows "trail_grows (cw_shared w) (cw_shared w')"
  using assms shared_steps_grow unfolding command_keeps_def by (metis snd_conv)

lemma same_trail: "trail_grows s s"
  by (simp add: trail_grows_def)

lemma records_after:
  assumes "command_keeps (shared_step C)\<^sup>*\<^sup>* m" "\<And>x. records C cfg action (f x)"
    and "\<And>x. command_keeps (shared_step C)\<^sup>*\<^sup>* (f x)"
  shows "records C cfg action (and_do m f)"
  unfolding records_def
proof (intro allI impI)
  fix w u w'
  assume o: "\<forall>t s. trail_grows s (ce_between C t s)" and "and_do m f w = (Inr u, w')"
  then obtain x v where m: "m w = (Inr x, v)" and f: "f x v = (Inr u, w')" by (auto simp: and_do_Inr)
  obtain row where row: "row \<in> set (new_entries (cw_shared v) (cw_shared w'))" "entry_of cfg action row"
    using assms(2) [of x] o f unfolding records_def by blast
  have "set (new_entries (cw_shared v) (cw_shared w')) \<subseteq> set (new_entries (cw_shared w) (cw_shared w'))"
    by (rule new_entries_mono [OF kept_trail [OF assms(1) m] kept_trail [OF assms(3) f] same_trail]) (use o in blast)+
  with row show "\<exists>row \<in> set (new_entries (cw_shared w) (cw_shared w')). entry_of cfg action row" by blast
qed

lemma audit_entry_made:
  assumes "append_control_audit C cfg action outcome metadata w = (Inr u, v)" "\<And>t s. trail_grows s (ce_between C t s)"
  shows "\<exists>row \<in> set (new_entries (cw_shared w) (cw_shared v)). entry_of cfg action row"
proof -
  obtain w1 where "open_memory C w = (Inr (), w1)" and op: "on_shared C (\<lambda>t now s.
       case append_audit_event (ce_memory C) (audit_event_new (ce_memory C) (ce_fresh C t) now None
              (pr_tenant (cf_principal cfg)) (operator_str (pr_operator (cf_principal cfg))) action outcome metadata None)
              (sh_memory s) of
         Inl e \<Rightarrow> (Inl (CliMemory e), s)
       | Inr (_, m) \<Rightarrow> (Inr (), s\<lparr>sh_memory := m\<rparr>)) w1 = (Inr u, v)"
    using assms(1) by (auto simp: append_control_audit_def and_do_Inr)
  then have g1: "trail_grows (cw_shared w) (cw_shared w1)"
    using kept_trail [OF any.k_open(2)] assms(2) by blast
  let ?s = "ce_between C (cw_tick w1) (cw_shared w1)"
  have g2: "trail_grows (cw_shared w) ?s" using trail_grows_trans [OF g1 assms(2)] .
  from op obtain e m where e: "append_audit_event (ce_memory C) (audit_event_new (ce_memory C) (ce_fresh C (cw_tick w1))
      (ce_now C (cw_tick w1)) None (pr_tenant (cf_principal cfg)) (operator_str (pr_operator (cf_principal cfg))) action
      outcome metadata None) (sh_memory ?s) = Inr (e, m)" and v: "cw_shared v = ?s\<lparr>sh_memory := m\<rparr>"
    by (auto simp: on_shared_def Let_def split: option.splits sum.splits prod.splits)
  then obtain row where m: "mm_audit m = mm_audit (sh_memory ?s) @ [row]" and row: "entry_of cfg action row"
    by (auto simp: append_audit_event_def audit_event_new_def with_previous_hash_def entry_of_def Let_def result_simps
      unique_key_def)
  from g2 m v have "row \<in> set (new_entries (cw_shared w) (cw_shared v))"
    by (auto simp: trail_grows_def new_entries_def)
  with row show ?thesis by blast
qed

lemma records_here:
  assumes "\<And>x. command_keeps (shared_step C)\<^sup>*\<^sup>* (f x)"
  shows "records C cfg action (and_do (append_control_audit C cfg action outcome metadata) f)"
  unfolding records_def
proof (intro allI impI)
  fix w u w'
  assume o: "\<forall>t s. trail_grows s (ce_between C t s)"
    and "and_do (append_control_audit C cfg action outcome metadata) f w = (Inr u, w')"
  then obtain x v where m: "append_control_audit C cfg action outcome metadata w = (Inr x, v)" and f: "f x v = (Inr u, w')"
    by (auto simp: and_do_Inr)
  have "trail_grows (cw_shared v) (cw_shared w')" using kept_trail [OF assms f] o by blast
  then have "set (new_entries (cw_shared w) (cw_shared v)) \<subseteq> set (new_entries (cw_shared w) (cw_shared w'))"
    using new_entries_mono [OF same_trail kept_trail [OF any.k_audit m]] o by blast
  with audit_entry_made [OF m] o show "\<exists>row \<in> set (new_entries (cw_shared w) (cw_shared w')). entry_of cfg action row"
    by blast
qed

lemma records_moment: "(\<And>t now. records C cfg action (f t now)) \<Longrightarrow> records C cfg action (at_moment C f)"
  unfolding records_def at_moment_def by (metis shared_updates(1))

fun recorded_plan :: "plan_command \<Rightarrow> string" where
  "recorded_plan (PlanValidate pid) = ''plan.validate''"
| "recorded_plan (PlanShow pid) = ''plan.show''"
| "recorded_plan (PlanApprove pid step verdict expires_in key) = ''plan.approve''"
| "recorded_plan (PlanResume pid evidence key) = ''plan.resume''"
| "recorded_plan (PlanCancel pid) = ''plan.cancel''"
| "recorded_plan (PlanVerify pid) = ''plan.verify''"
| "recorded_plan (PlanCheckpoints pid) = ''plan.checkpoints''"

fun recorded :: "cli_command \<Rightarrow> string option" where
  "recorded (PlanCommand c) = Some (recorded_plan c)"
| "recorded (IamCommand (TenantCreate tenant name)) = Some ''iam.tenant.create''"
| "recorded (IamCommand (UserCreate operator tenant role)) = Some ''iam.user.create''"
| "recorded (IamCommand (TokenIssue operator expires_in)) = Some ''iam.token.issue''"
| "recorded (IamCommand (TokenRevoke token)) = Some ''iam.token.revoke''"
| "recorded (IamCommand (LimitsSet tenant a d m r n)) = Some ''iam.limits.set''"
| "recorded (SkillCommand (SkillCandidate name description permissions)) = Some ''skill.candidate''"
| "recorded (SkillCommand (SkillApprove name sha reason artifact key_id key_file)) = Some ''skill.approve''"
| "recorded (SkillCommand (TrustGenerate key_id output description)) = Some ''skill.trust_generate''"
| "recorded (SkillCommand (TrustAdd key_id public_key description)) = Some ''skill.trust_add''"
| "recorded (SkillCommand (TrustRevoke key_id)) = Some ''skill.trust_revoke''"
| "recorded (SkillCommand (SkillRevoke name)) = Some ''skill.revoke''"
| "recorded _ = None"

lemma change_keeps:
  "command_keeps (shared_step C)\<^sup>*\<^sup>* (on_host C (changes (\<lambda>now. create_tenant now tenant name)))"
  "command_keeps (shared_step C)\<^sup>*\<^sup>* (on_host C (changes (\<lambda>now. create_user now operator tenant role)))"
  "command_keeps (shared_step C)\<^sup>*\<^sup>* (on_host C (changes (\<lambda>now. issue_token (ce_iam C) now operator expires)))"
  "command_keeps (shared_step C)\<^sup>*\<^sup>* (on_host C (changes (\<lambda>now h. and_then (revoke_token now token h) (\<lambda>h. Inr ((), h)))))"
  "command_keeps (shared_step C)\<^sup>*\<^sup>* (on_host C (changes (\<lambda>now. set_limits l)))"
  by (rule any.k_changes, auto simp: result_simps intro: H_create_tenant H_create_user H_issue H_revoke H_set_limits)+

lemmas recording = records_here records_after records_moment any.k_if any.k_decisions any.k_store any.k_save any.k_save_key
  change_keeps

lemma keeps_option:
  "command_keeps R m \<Longrightarrow> (\<And>y. command_keeps R (f y)) \<Longrightarrow> command_keeps R (case z of None \<Rightarrow> m | Some y \<Rightarrow> f y)"
  by (cases z) simp_all

lemma records_plan: "from_values (ce_url C) (ci_values cli) False False True = Inr cfg \<Longrightarrow>
    records C cfg (recorded_plan c) (run_plan_command C cli c)"
  unfolding run_plan_command_def
  by (cases c; simp only: plan_command.case recorded_plan.simps config_known plan_validate_def plan_show_def plan_approve_def
      plan_resume_def plan_cancel_def plan_verify_def plan_checkpoints_def Let_def; intro recording)

lemma records_iam: "from_values (ce_url C) (ci_values cli) False False True = Inr cfg \<Longrightarrow>
    recorded (IamCommand c) = Some action \<Longrightarrow> records C cfg action (run_iam_command C cli c)"
  unfolding run_iam_command_def
  by (cases c; simp only: recorded.simps option.simps iam_command.case config_known iam_tenant_create_def iam_user_create_def
      iam_token_issue_def iam_token_revoke_def iam_limits_set_def; (erule subst)?; intro recording)

lemma records_trust: "records C cfg action (finish_trust C cfg action key_id key T)"
  unfolding finish_trust_def by (intro recording)

lemma records_skill_operations:
  "records C cfg ''skill.candidate'' (skill_candidate C cfg R name description permissions)"
  "records C cfg ''skill.approve'' (skill_approve C cfg R name sha reason artifact key_id key_file)"
  "records C cfg ''skill.revoke'' (skill_revoke C cfg R name)"
  unfolding skill_candidate_def skill_approve_def skill_revoke_def split_def
  by (intro recording keeps_option)+

lemma records_trust_operations:
  "records C cfg ''skill.trust_generate'' (skill_trust_generate C cfg T key_id output description)"
  "records C cfg ''skill.trust_add'' (skill_trust_add C cfg T key_id public_key description)"
  "records C cfg ''skill.trust_revoke'' (skill_trust_revoke C cfg T key_id)"
  unfolding skill_trust_generate_def skill_trust_add_def skill_trust_revoke_def Let_def
  by (intro recording any.k_finish_trust any.k_save_key; simp add: split_def; intro records_trust any.k_finish_trust)+

lemma records_skill: "from_values (ce_url C) (ci_values cli) False False True = Inr cfg \<Longrightarrow>
    recorded (SkillCommand c) = Some action \<Longrightarrow> records C cfg action (run_skill_command C cli c)"
  unfolding run_skill_command_def
  by (simp add: config_known, intro recording any.k_skill_operation)
    (cases c; simp add: skill_operation_def; (erule subst)?;
      intro records_skill_operations records_trust_operations)


subsection \<open>Commands of skills are steps of their governance\<close>

definition alone :: "cli_env \<Rightarrow> bool" where
  "alone C \<longleftrightarrow> (\<forall>t s. sh_files (ce_between C t s) = sh_files s)"

definition files_still :: "cli_env \<Rightarrow> shared \<Rightarrow> shared \<Rightarrow> bool" where
  "files_still C s s' \<longleftrightarrow> (alone C \<longrightarrow> sh_files s' = sh_files s)"

text \<open>Everything but the two savings leaves the files of skills as they are.\<close>

interpretation still: store_commands C "files_still C" for C :: cli_env
  by unfold_locales (auto simp: files_still_def alone_def)

text \<open>What a command makes of the files, when nobody else writes them.\<close>

definition writes :: "cli_env \<Rightarrow> skill_files set \<Rightarrow> skill_files \<Rightarrow> 'a command \<Rightarrow> bool" where
  "writes C P F m \<longleftrightarrow> (\<forall>w. sh_files (cw_shared w) = F \<longrightarrow> sh_files (cw_shared (snd (m w))) \<in> P)"

lemma writes_still: "alone C \<Longrightarrow> command_keeps (files_still C) m \<Longrightarrow> F \<in> P \<Longrightarrow> writes C P F m"
  by (auto simp: writes_def command_keeps_def files_still_def)

lemma writes_after:
  assumes "alone C" "command_keeps (files_still C) m" "F \<in> P"
    and "\<And>x w w'. sh_files (cw_shared w) = F \<Longrightarrow> m w = (Inr x, w') \<Longrightarrow> writes C P F (f x)"
  shows "writes C P F (and_do m f)"
  unfolding writes_def
proof (intro allI impI)
  fix w :: cli_world
  assume F: "sh_files (cw_shared w) = F"
  obtain r v where m: "m w = (r, v)" by fastforce
  then have "sh_files (cw_shared v) = F"
    using assms(1,2) F unfolding command_keeps_def files_still_def by (metis snd_conv)
  then show "sh_files (cw_shared (snd (and_do m f w))) \<in> P"
    using assms(3) assms(4) [OF F] m by (cases r) (auto simp: and_do_def writes_def)
qed

lemma saved_files:
  assumes "alone C"
  shows "sh_files (cw_shared (snd (save_registry C R w))) \<in> {sh_files (cw_shared w), (sh_files (cw_shared w))\<lparr>fs_registry := Holds R\<rparr>}"
    "sh_files (cw_shared (snd (save_trust C T w))) \<in> {sh_files (cw_shared w), (sh_files (cw_shared w))\<lparr>fs_trust := Holds T\<rparr>}"
  using assms by (auto simp: save_registry_def save_trust_def on_shared_def alone_def Let_def split: option.splits prod.splits)

lemma writes_saved:
  assumes "alone C" "F \<in> P" "\<And>x. command_keeps (files_still C) (f x)"
  shows "F\<lparr>fs_registry := Holds R\<rparr> \<in> P \<Longrightarrow> writes C P F (and_do (save_registry C R) f)"
    "F\<lparr>fs_trust := Holds T\<rparr> \<in> P \<Longrightarrow> writes C P F (and_do (save_trust C T) f)"
proof -
  have after: "sh_files (cw_shared (snd (and_do m f w))) = sh_files (cw_shared (snd (m w)))" for m :: "unit command" and w
    using assms(1,3) by (auto simp: and_do_def command_keeps_def files_still_def split: prod.split sum.split)
  show "F\<lparr>fs_registry := Holds R\<rparr> \<in> P \<Longrightarrow> writes C P F (and_do (save_registry C R) f)"
    using saved_files(1) [OF assms(1), of R] assms(2) unfolding writes_def after by (metis insertE singletonD)
  show "F\<lparr>fs_trust := Holds T\<rparr> \<in> P \<Longrightarrow> writes C P F (and_do (save_trust C T) f)"
    using saved_files(2) [OF assms(1), of T] assms(2) unfolding writes_def after by (metis insertE singletonD)
qed

text \<open>The files a step of the governance leads to.\<close>

definition next_files :: "skill_env \<Rightarrow> (string \<times> approval_binding) list \<Rightarrow> skill_files \<Rightarrow> skill_files set" where
  "next_files K evs F = {F'. \<forall>R T. load_registry F = Inr R \<and> load_trust F = Inr T \<longrightarrow>
     (\<exists>R' T' evs'. load_registry F' = Inr R' \<and> load_trust F' = Inr T' \<and> (skill_step K)\<^sup>=\<^sup>= (evs, R, T) (evs', R', T'))}"

lemma next_same: "F \<in> next_files K evs F"
  by (auto simp: next_files_def)

lemma loads_saved:
  "load_registry (F\<lparr>fs_registry := Holds R\<rparr>) = Inr R" "load_trust (F\<lparr>fs_registry := Holds R\<rparr>) = load_trust F"
  "load_trust (F\<lparr>fs_trust := Holds T\<rparr>) = Inr T" "load_registry (F\<lparr>fs_trust := Holds T\<rparr>) = load_registry F"
  by (simp_all add: load_registry_def load_trust_def)

lemma next_registry:
  assumes "load_registry F = Inr R" "\<And>T. load_trust F = Inr T \<Longrightarrow> \<exists>evs'. skill_step K (evs, R, T) (evs', R', T)"
  shows "F\<lparr>fs_registry := Holds R'\<rparr> \<in> next_files K evs F"
  using assms by (auto simp: next_files_def loads_saved)

lemma next_trust:
  assumes "load_trust F = Inr T" "\<And>R. skill_step K (evs, R, T) (evs, R, T')"
  shows "F\<lparr>fs_trust := Holds T'\<rparr> \<in> next_files K evs F"
  using assms by (auto simp: next_files_def loads_saved)

lemma change_result: "skill_change C f w = (Inr x, w') \<Longrightarrow> \<exists>now. f now = Inr x"
  by (auto simp: skill_change_def at_moment_def pure_Inr map_err_Inr_iff)

lemma use_result: "skill_use C f w = (Inr x, w') \<Longrightarrow> \<exists>now s. f now (skills_at C s) = Inr x"
  by (auto simp: skill_use_def look_def on_shared_def Let_def map_err_Inr_iff split: option.splits prod.splits)

lemma signed_step:
  assumes "approve_signed_artifact (skills_at C s) now name operator path key_id seed reason R = Inr (r, R')"
  shows "\<exists>evs'. skill_step (ce_skills C) (evs, R, T) (evs', R', T)"
proof -
  from assms obtain q real content where "map_of R name = Some q" "ce_resolve C s path = Inr real" "read_disk s real = Inr content"
    by (auto simp: approve_signed_artifact_def skills_at_def at_files_def sha256_file_def result_simps)
  with assms show ?thesis unfolding skills_at_def by (blast intro: K_signed)
qed

lemma sign_result:
  "sign_with_file C cfg R name reason artifact key_id key_file w = (Inr (r, R'), w') \<Longrightarrow>
    \<exists>evs'. skill_step (ce_skills C) (evs, R, T) (evs', R', T)"
  by (auto simp: sign_with_file_def and_do_Inr pure_Inr dest!: use_result intro: signed_step)

lemma finish_writes: "alone C \<Longrightarrow> load_trust F = Inr T \<Longrightarrow> (\<And>R. skill_step K (evs, R, T) (evs, R, T')) \<Longrightarrow>
    writes C (next_files K evs F) F (finish_trust C cfg action key_id key T')"
  unfolding finish_trust_def by (intro writes_saved next_same next_trust still.k_store) blast+

lemma operation_writes:
  assumes "alone C" "load_registry F = Inr R" "load_trust F = Inr T"
  shows "writes C (next_files (ce_skills C) evs F) F (skill_operation C cfg R T c)"
proof -
  note after = writes_after [OF assms(1) _ next_same] and still = writes_still [OF assms(1) _ next_same]
    and saved = writes_saved(1) [OF assms(1) next_same] and finish = finish_writes [OF assms(1,3)]
    and step = next_registry [OF assms(2)]
  note checked = after [OF still.k_config(2)] and changed = after [OF still.k_parse(5)]
  have moment: "writes C (next_files (ce_skills C) evs F) F (at_moment C f)"
    if "\<And>t now. writes C (next_files (ce_skills C) evs F) F (f t now)" for f :: "nat \<Rightarrow> instant \<Rightarrow> unit command"
    using that unfolding writes_def at_moment_def by (metis shared_updates(1))
  show ?thesis
  proof (cases c)
    case (SkillCandidate name description permissions)
    show ?thesis unfolding skill_operation_def SkillCandidate skill_command.case skill_candidate_def
      by (rule checked, rule changed, rule saved, intro still.k_store, rule step) (blast dest: change_result intro: K_register)
  next
    case (SkillApprove name sha reason artifact key_id key_file)
    show ?thesis unfolding skill_operation_def SkillApprove skill_command.case skill_approve_def split_def
      by (rule checked, rule after, intro still.k_store keeps_option, rule saved, intro still.k_store, rule step)
        (auto simp: and_do_Inr pure_Inr split: option.splits dest!: change_result, (blast dest: sign_result intro: K_approve)+)
  next
    case (TrustGenerate key_id path description)
    show ?thesis unfolding skill_operation_def TrustGenerate skill_command.case skill_trust_generate_def split_def Let_def
      by (rule checked, rule moment, rule after, rule still.k_save_key [unfolded split_def], rule changed, rule finish)
        (auto dest!: change_result intro: K_add)
  next
    case (TrustAdd key_id public_key description)
    show ?thesis unfolding skill_operation_def TrustAdd skill_command.case skill_trust_add_def split_def
      by (rule checked, rule changed, rule finish) (auto dest!: change_result intro: K_add)
  next
    case (TrustRevoke key_id)
    show ?thesis unfolding skill_operation_def TrustRevoke skill_command.case skill_trust_revoke_def split_def
      by (rule checked, rule changed, rule finish) (auto dest!: change_result intro: K_revoke)
  next
    case (SkillRevoke name)
    show ?thesis unfolding skill_operation_def SkillRevoke skill_command.case skill_revoke_def split_def
      by (rule checked, rule changed, rule saved, intro still.k_store, rule step)
        (auto dest!: change_result, blast intro: K_revoke_skill)
  qed (simp_all add: skill_operation_def still still.k_quiet)
qed

text \<open>C26: a command of skills that no other process disturbs makes of the files at most one step of the governance of
  skills, so that what it guarantees (what may be executed was signed, revocation is final) holds at the
  command line.\<close>

theorem skill_commands_are_governed:
  assumes "alone C" and "load_registry (sh_files (cw_shared w)) = Inr R" "load_trust (sh_files (cw_shared w)) = Inr T"
  shows "\<exists>R' T' evs'. load_registry (sh_files (cw_shared (snd (run_skill_command C cli c w)))) = Inr R'
    \<and> load_trust (sh_files (cw_shared (snd (run_skill_command C cli c w)))) = Inr T'
    \<and> (skill_step (ce_skills C))\<^sup>=\<^sup>= (evs, R, T) (evs', R', T')"
proof -
  define F where "F = sh_files (cw_shared w)"
  note after = writes_after [OF assms(1) _ next_same]
  have loaded: "x = R" "y = T"
    if "read_registry C v = (Inr x, v')" "read_trust C u = (Inr y, u')" "sh_files (cw_shared v) = F" "sh_files (cw_shared u) = F"
    for x y v v' u u'
    using that assms by (auto simp: read_registry_def read_trust_def look_def on_shared_def alone_def F_def Let_def map_err_def
      split: option.splits)
  have "writes C (next_files (ce_skills C) evs F) F (run_skill_command C cli c)"
    unfolding run_skill_command_def
    by (rule after [OF still.k_config(1)], rule after [OF still.k_parse(2)], rule after [OF still.k_parse(3)])
      (use operation_writes assms loaded in \<open>auto simp: F_def\<close>)
  then have "sh_files (cw_shared (snd (run_skill_command C cli c w))) \<in> next_files (ce_skills C) evs F"
    by (simp add: writes_def F_def)
  with assms(2,3) show ?thesis by (simp add: next_files_def F_def)
qed

end
