(* ===== verification/Cli_Outcomes.thy ===== *)
theory Cli_Outcomes
  imports Cli_Governance
begin

text \<open>
  The tools a process loads, what a restore takes back, what the server is started with, and a change of the files
  of skills that is lost.
\<close>

subsection \<open>Tools\<close>

lemma looked: "look C f w = (Inr x, w') \<longleftrightarrow> ce_fault C (cw_tick w) = None
    \<and> f (cw_tick w) (ce_now C (cw_tick w)) (ce_between C (cw_tick w) (cw_shared w)) = Inr x
    \<and> w' = w\<lparr>cw_tick := Suc (cw_tick w), cw_shared := ce_between C (cw_tick w) (cw_shared w)\<rparr>"
  by (auto simp: look_def on_shared_def Let_def split: option.split)

text \<open>A tool that stands for an artifact: it asks for its approval whenever it is called.\<close>

definition stands_for :: "cli_env \<Rightarrow> app_config \<Rightarrow> active_skill_artifact \<Rightarrow> string \<Rightarrow> tool \<Rightarrow> bool" where
  "stands_for C cfg a name t \<longleftrightarrow> name = ''skill.'' @ ar_name a
     \<and> td_required_capabilities (tl_definition t) = ar_permissions a
     \<and> set (ar_permissions a) \<subseteq> set (host_capabilities cfg)
     \<and> (\<forall>call output. tl_execute t call = Inr output \<longrightarrow>
          (\<exists>R T as. load_registry (sh_files (ce_during C call)) = Inr R \<and> load_trust (sh_files (ce_during C call)) = Inr T
            \<and> active_verified_artifacts (skills_at C (ce_during C call)) T R = Inr as \<and> a \<in> set as))"

lemma loaded_stands_for:
  assumes "from_approved_artifact_with_revalidation K reread a T = Inr t"
    and "set (ar_permissions a) \<subseteq> set (host_capabilities cfg)"
  shows "stands_for C cfg a (td_name (tl_definition (loaded_tool C t))) (loaded_tool C t)"
proof -
  have t: "wt_artifact t = a" "wt_revalidation t"
    using assms(1) by (auto simp: from_approved_artifact_with_revalidation_def from_approved_artifact_def result_simps)
  moreover have "verify_current (skills_at C (ce_during C call)) (sh_files (ce_during C call)) a = Inr ()"
    if "tl_execute (loaded_tool C t) call = Inr v" for call v
    using that t by (auto simp: loaded_tool_def skill_execute_def Let_def result_simps)
  ultimately show ?thesis
    using assms(2) verify_current_Inr by (auto simp: stands_for_def loaded_tool_def skill_definition_def Let_def)
qed

lemma register_tool_Inr:
  assumes "register_tool t R = Inr R'"
  shows "set (td_required_capabilities (tl_definition t)) \<subseteq> set (rg_capabilities R)"
    and "rg_capabilities R' = rg_capabilities R"
    and "rg_tools R' = (td_name (tl_definition t), t) # filter (\<lambda>(n, _). n \<noteq> td_name (tl_definition t)) (rg_tools R)"
  using assms denied_iff [of "rg_capabilities R" "td_required_capabilities (tl_definition t)"]
  by (auto simp: register_tool_def Let_def capabilities_allow_def split: option.splits)

lemma load_tools_Inr:
  "load_tools C T as tools w = (Inr tools', w') \<Longrightarrow> rg_capabilities tools = host_capabilities cfg \<Longrightarrow>
    (\<And>n t. (n, t) \<in> set (rg_tools tools) \<Longrightarrow> \<exists>a \<in> A. stands_for C cfg a n t) \<Longrightarrow> set as \<subseteq> A \<Longrightarrow>
    (\<forall>(n, t) \<in> set (rg_tools tools'). \<exists>a \<in> A. stands_for C cfg a n t)
    \<and> fst ` set (rg_tools tools') = fst ` set (rg_tools tools) \<union> (\<lambda>a. ''skill.'' @ ar_name a) ` set as"
proof (induction as arbitrary: tools w)
  case Nil
  then show ?case by (auto simp: pure_Inr)
next
  case (Cons a as)
  from Cons.prems(1) obtain K s t tools1 w1 where load: "from_approved_artifact_with_revalidation K (read_disk s) a T = Inr t"
    and reg: "register_tool (loaded_tool C t) tools = Inr tools1" and rest: "load_tools C T as tools1 w1 = (Inr tools', w')"
    by (auto simp: and_do_Inr pure_Inr looked map_err_Inr_iff)
  note r = register_tool_Inr [OF reg]
  have t: "wt_artifact t = a"
    using load by (auto simp: from_approved_artifact_with_revalidation_def from_approved_artifact_def result_simps)
  then have name: "td_name (tl_definition (loaded_tool C t)) = ''skill.'' @ ar_name a"
    and caps: "td_required_capabilities (tl_definition (loaded_tool C t)) = ar_permissions a"
    by (simp_all add: loaded_tool_def skill_definition_def Let_def)
  have stands: "stands_for C cfg a (''skill.'' @ ar_name a) (loaded_tool C t)"
    using loaded_stands_for [OF load, of cfg C] r(1) Cons.prems(2) by (simp add: name caps)
  have "\<exists>a \<in> A. stands_for C cfg a n u" if "(n, u) \<in> set (rg_tools tools1)" for n u
    using that stands Cons.prems(3,4) by (auto simp: r(3) name)
  moreover have "fst ` set (rg_tools tools1) = insert (''skill.'' @ ar_name a) (fst ` set (rg_tools tools))"
    by (auto simp: r(3) name image_iff)
  ultimately show ?case
    using Cons.IH [OF rest] r(2) Cons.prems(2,4) by auto
qed

text \<open>C27: the tools of a process stand for the active skills of the registry it read, every one of them verified
  under the trust store it read: none asks for more than to write the memory or, for an administrator only,
  to execute code, and one that runs does so while its approval is in force.\<close>

theorem loaded_tools_are_approved:
  assumes "build_tool_registry C cfg w = (Inr tools, w')"
  shows "\<exists>R T s as. load_registry (sh_files (ce_between C (cw_tick w) (cw_shared w))) = Inr R
    \<and> active_verified_artifacts (skills_at C s) T R = Inr as \<and> length as = length (active_skills R)
    \<and> fst ` set (rg_tools tools) = (\<lambda>a. ''skill.'' @ ar_name a) ` set as
    \<and> (\<forall>(n, t) \<in> set (rg_tools tools). \<exists>a \<in> set as. stands_for C cfg a n t)
    \<and> set (host_capabilities cfg) \<subseteq> {MemoryWrite, CodeExecution}
    \<and> (CodeExecution \<in> set (host_capabilities cfg) \<longrightarrow> pr_role (cf_principal cfg) = Administrator)"
proof -
  from assms obtain R T s as w1 where R: "load_registry (sh_files (ce_between C (cw_tick w) (cw_shared w))) = Inr R"
    and as: "active_verified_artifacts (skills_at C s) T R = Inr as"
    and load: "load_tools C T as (with_capabilities (host_capabilities cfg)) w1 = (Inr tools, w')"
    unfolding build_tool_registry_def read_registry_def read_trust_def
    by (auto simp: and_do_Inr looked map_err_Inr_iff)
  have "length as = length (active_skills R)"
    using as by (auto simp: active_verified_artifacts_def result_simps dest: collect_results_length)
  with load_tools_Inr [OF load, of cfg "set as"] R as show ?thesis
    by (auto simp: with_capabilities_def host_capabilities_def split: if_splits)
qed

subsection \<open>Restore\<close>

definition without_counter :: "host \<Rightarrow> host" where
  "without_counter h = h\<lparr>hs_db := (hs_db h)\<lparr>db_uuid_seed := 0\<rparr>\<rparr>"

definition memory_without_counter :: "memory \<Rightarrow> memory" where
  "memory_without_counter m = m\<lparr>mm_uuid_seed := 0\<rparr>"

lemma later_same: "without_counter (later_uuids h now) = without_counter h"
    "memory_without_counter (later_memory_uuids m now') = memory_without_counter m"
  by (simp_all add: without_counter_def later_uuids_def memory_without_counter_def later_memory_uuids_def)

lemma used: "on_shared C f w = (Inr x, w') \<longleftrightarrow> ce_fault C (cw_tick w) = None
    \<and> (\<exists>s'. f (cw_tick w) (ce_now C (cw_tick w)) (ce_between C (cw_tick w) (cw_shared w)) = (Inr x, s')
        \<and> w' = w\<lparr>cw_tick := Suc (cw_tick w), cw_shared := s'\<rparr>)"
  by (auto simp: on_shared_def Let_def split: option.split prod.split)

lemma allowed_roles: "allows who Backup \<longleftrightarrow> pr_role who \<noteq> Operator" "allows who Restore \<longleftrightarrow> pr_role who = Administrator"
  by (cases "pr_role who"; simp add: allows_def)+

text \<open>C28: a restore brings the database back to what it was when the backup was made, all tables of both stores,
  whatever was done to it in between, and the files of skills stay as they are; both need their role.\<close>

theorem restore_returns_to_backup:
  assumes "run_backup C cli path w = (Inr (), w1)" and "run_restore D cli' path w2 = (Inr (), w3)"
    and "sh_snapshots (cw_shared w2) path = sh_snapshots (cw_shared w1) path"
    and "\<And>t s. ce_between C t s = s" "\<And>t s. ce_between D t s = s"
  shows "without_counter (sh_host (cw_shared w3)) = without_counter (sh_host (cw_shared w))
    \<and> memory_without_counter (sh_memory (cw_shared w3)) = memory_without_counter (sh_memory (cw_shared w))
    \<and> sh_files (cw_shared w3) = sh_files (cw_shared w2)
    \<and> (\<exists>cfg. config_of C cli (BackupTo path) = Inr cfg \<and> pr_role (cf_principal cfg) \<noteq> Operator)
    \<and> (\<exists>cfg. config_of D cli' (RestoreFrom path) = Inr cfg \<and> pr_role (cf_principal cfg) = Administrator)"
proof -
  have backup: "sh_snapshots (cw_shared w1) path
      = Some \<lparr>np_intact = True, np_host = Some (sh_host (cw_shared w)), np_memory = Some (sh_memory (cw_shared w))\<rparr>"
    "\<exists>cfg. config_of C cli (BackupTo path) = Inr cfg \<and> pr_role (cf_principal cfg) \<noteq> Operator"
    using assms(1,4)
    by (auto simp: run_backup_def and_do_Inr pure_Inr open_memory_def check_integrity_def looked used print_out_def backup_to_def
      build_config_def authorize_def config_of_def map_err_Inr_iff allowed_roles)
  have restore: "restore_from path (cw_shared w2) = Inr (cw_shared w3)"
    "\<exists>cfg. config_of D cli' (RestoreFrom path) = Inr cfg \<and> pr_role (cf_principal cfg) = Administrator"
    using assms(2,5)
    by (auto simp: run_restore_def and_do_Inr pure_Inr open_memory_def check_integrity_def looked used print_out_def
      build_config_def authorize_def config_of_def map_err_Inr_iff allowed_roles split: sum.splits)
  from restore(1) have "cw_shared w3 = (cw_shared w2)\<lparr>sh_host := later_uuids (sh_host (cw_shared w)) (sh_host (cw_shared w2)),
      sh_memory := later_memory_uuids (sh_memory (cw_shared w)) (sh_memory (cw_shared w2))\<rparr>"
    by (auto simp: restore_from_def assms(3) backup(1) unwrap_or_def result_simps)
  with backup(2) restore(2) show ?thesis by (simp add: later_same)
qed

subsection \<open>The server\<close>

text \<open>A server that starts runs live only if that was asked for and confirmed by an administrator, has 1 to 32
  workers, is open to other hosts only behind a key that is not blank or with live tokens in the store, and has
  registered its principal.\<close>

theorem server_starts_safely:
  assumes "serve_agent C cli bind workers key live confirmed w = (Inr serving, w')"
  shows "(ac_live_enabled (sg_config serving) \<longrightarrow> live \<and> confirmed \<and> ac_live_confirmation (sg_config serving)
        \<and> pr_role (sg_principal serving) = Administrator)
    \<and> 1 \<le> workers \<and> workers \<le> 32 \<and> ac_worker_count (sg_config serving) = workers
    \<and> (case key of None \<Rightarrow> True | Some k \<Rightarrow> \<not> trim_is_empty k)
    \<and> (\<exists>h now later. bootstrap_principal later (sg_principal serving) h = Inr (sh_host (cw_shared w'))
        \<and> (is_loopback (ac_bind_ip (sg_config serving)) \<or> key \<noteq> None \<or> has_active_tokens now h))"
proof -
  obtain cfg where cfg: "from_values (ce_url C) (ci_values cli) live confirmed True = Inr cfg"
    using assms by (cases "from_values (ce_url C) (ci_values cli) live confirmed True")
      (auto simp: serve_agent_def build_config_def and_do_Inr pure_Inr map_err_def)
  have flags: "cf_live_requested cfg = live" "cf_live_confirmation cfg = confirmed" "validate_config cfg = Inr ()"
    using from_values_validated [OF cfg] by simp_all
  obtain ip port model tools v where start: "start_server C cfg (server_config cfg ip port workers key) model tools v = (Inr serving, w')"
    using assms by (auto simp: serve_agent_def config_known [OF cfg] and_do_Inr pure_Inr)
  define config where "config = server_config cfg ip port workers key"
  define s where "s = ce_between C (Suc (cw_tick v)) (cw_shared v)"
  from start have serving: "sg_config serving = config" "sg_principal serving = cf_principal cfg"
    by (auto simp: start_server_def at_moment_def and_do_Inr pure_Inr config_def)
  obtain now later rows breaker where
      "api_state_new now later (cf_principal cfg) config rows (sh_host s) = (Inr breaker, sh_host (cw_shared w'))"
    using start
    by (auto simp: start_server_def at_moment_def and_do_Inr pure_Inr used map_err_Inr_iff case_prod_beta
      simp flip: config_def s_def) (metis prod.collapse that)
  then have "validate_api_config config = Inr ()"
    "is_loopback (ac_bind_ip config) \<or> ac_api_key config \<noteq> None \<or> has_active_tokens now (sh_host s)"
    "bootstrap_principal later (cf_principal cfg) (sh_host s) = Inr (sh_host (cw_shared w'))"
    by (auto simp: api_state_new_def split: sum.splits if_splits)
  with config_def serving flags show ?thesis
    by (auto simp: validate_api_config_def validate_config_iff default_api_config_def server_config_def Suc_le_eq split: if_splits option.splits)
qed

subsection \<open>A lost change\<close>

lemma audit_files:
  "append_control_audit C cfg action outcome metadata w = (r, w') \<Longrightarrow>
    (\<And>t s. cw_tick w \<le> t \<Longrightarrow> sh_files (ce_between C t s) = sh_files s) \<Longrightarrow> sh_files (cw_shared w') = sh_files (cw_shared w)"
  by (auto simp: append_control_audit_def and_do_def open_memory_def look_def on_shared_def Let_def
    split: option.splits sum.splits prod.splits if_splits)

text \<open>A command of skills writes back the whole of what it read: what another process did to another skill between the
  reading and the writing is lost, for instance its revocation.\<close>

theorem concurrent_change_is_lost:
  assumes "run_skill_command C cli (SkillCandidate name description permissions) w = (Inr (), w')"
    and "load_registry (sh_files (ce_between C (cw_tick w) (cw_shared w))) = Inr R"
    and "map_of R other = Some r" "other \<noteq> name"
    and "\<And>t s. cw_tick w + 3 < t \<Longrightarrow> sh_files (ce_between C t s) = sh_files s"
  shows "\<exists>R'. load_registry (sh_files (cw_shared w')) = Inr R' \<and> map_of R' other = Some r"
proof -
  define w1 where "w1 = w\<lparr>cw_tick := Suc (Suc (cw_tick w)),
    cw_shared := ce_between C (Suc (cw_tick w)) (ce_between C (cw_tick w) (cw_shared w))\<rparr>"
  obtain cfg R' w2 where "skill_change C (\<lambda>now. register_candidate now (candidate_manifest name description permissions) R) w1 = (Inr R', w2)"
    and rest: "and_do (save_registry C R') (\<lambda>_. and_do (append_control_audit C cfg ''skill.candidate'' ''success'' [(''skill'', name)])
      (\<lambda>_. print_out (OutText ''skill registrada como candidata; nenhuma execucao foi ativada''))) w2 = (Inr (), w')"
    using assms(1,2)
    by (auto simp: run_skill_command_def skill_operation_def skill_candidate_def build_config_def authorize_def
      read_registry_def read_trust_def and_do_Inr pure_Inr looked map_err_Inr_iff
      simp flip: w1_def) blast
  then obtain now where new: "register_candidate now (candidate_manifest name description permissions) R = Inr R'"
    and w2: "cw_tick w2 = Suc (Suc (Suc (cw_tick w)))"
    by (auto simp: skill_change_def at_moment_def pure_Inr map_err_Inr_iff w1_def)
  from rest obtain w3 w4 where saved: "save_registry C R' w2 = (Inr (), w3)"
    and audit: "append_control_audit C cfg ''skill.candidate'' ''success'' [(''skill'', name)] w3 = (Inr (), w4)"
    and w': "cw_shared w' = cw_shared w4"
    by (auto simp: and_do_Inr print_out_def)
  have "load_registry (sh_files (cw_shared w3)) = Inr R'" and w3: "cw_tick w3 = Suc (cw_tick w2)"
    using saved by (auto simp: save_registry_def used loads_saved)
  moreover have "sh_files (cw_shared w4) = sh_files (cw_shared w3)"
    by (rule audit_files [OF audit]) (rule assms(5), simp add: w3 w2)
  moreover have "map_of R' other = Some r"
    using new assms(3,4) by (auto simp: register_candidate_def candidate_manifest_def update_conv' split: if_splits)
  ultimately show ?thesis by (simp add: w')
qed

end
