(* ===== verification/Cli_Examples.thy ===== *)
theory Cli_Examples
  imports Cli_Outcomes Skill_Examples Sample_Host Agent_Examples
begin

text \<open>
  Commands on a concrete machine: nobody else works on it, no use fails, and the registry holds one active
  skill, signed under the one key of the trust store.
\<close>

definition quiet_env :: cli_env where
  "quiet_env = \<lparr>ce_store = sample_env, ce_iam = sample_iam, ce_memory = toy_memory_env, ce_skills = free_env,
     ce_resolve = (\<lambda>_. Inr), ce_url = sample_url, ce_uuid = (\<lambda>_. Inr 7), ce_socket = (\<lambda>_. Inr (V4 127 0 0 1, 8080)),
     ce_engine = \<lparr>we_compile = (\<lambda>_. None), we_imports = (\<lambda>_. False), we_instantiate = (\<lambda>_ _ _. None), we_entry = (\<lambda>_. None),
       we_call = (\<lambda>_ _ fuel _. (False, Inr 42, fuel))\<rparr>,
     ce_demo = Inr ''wasm'', ce_validator = (\<lambda>_. Inr (\<lambda>_. Inr ())), ce_post = (\<lambda>_ _ _ _. Inl ''offline''),
     ce_from_str = (\<lambda>_. Inr JNull), ce_to_string = (\<lambda>_. ''{}''), ce_agent = (\<lambda>_. toy_agent_env),
     ce_during = (\<lambda>_. \<lparr>sh_host = empty_host, sh_memory = empty_memory, sh_files = \<lparr>fs_registry = Absent, fs_trust = Absent\<rparr>,
       sh_snapshots = (\<lambda>_. None), sh_disk = (\<lambda>_. None)\<rparr>),
     ce_now = (\<lambda>t. 100 + int t), ce_fresh = (\<lambda>t. 5000 + t), ce_seed = (\<lambda>_. ''seed''), ce_between = (\<lambda>_ s. s),
     ce_fault = (\<lambda>_. None), ce_integrity = (\<lambda>_. Inr True), ce_circuits = (\<lambda>_. [])\<rparr>"

definition values_of :: "string \<Rightarrow> cli" where
  "values_of role = \<lparr>ci_values = \<lparr>cv_environment = ''dev'', cv_database = ''db'', cv_database_max_bytes = 2000000,
     cv_skills_file = ''skills'', cv_tenant = ''acme'', cv_operator = ''ana'', cv_role = role, cv_provider = ''local'',
     cv_endpoint = ''https://model'', cv_model_name = ''m'', cv_api_key = None\<rparr>, ci_trust_file = ''keys''\<rparr>"

definition machine :: shared where
  "machine = \<lparr>sh_host = empty_host, sh_memory = empty_memory,
     sh_files = \<lparr>fs_registry = Holds demo_registry, fs_trust = Holds demo_trust\<rparr>, sh_snapshots = (\<lambda>_. None),
     sh_disk = (\<lambda>_. Some \<lparr>df_mode = 384, df_content = Inr ''wasm''\<rparr>)\<rparr>"

definition started :: "shared \<Rightarrow> cli_world" where
  "started s = \<lparr>cw_tick = 0, cw_shared = s, cw_printed = []\<rparr>"

lemma quiet: "ce_between quiet_env t s = s" "ce_fault quiet_env t = None"
  by (simp_all add: quiet_env_def)

lemma quiet_shared:
  "on_shared quiet_env f w = (case f (cw_tick w) (100 + int (cw_tick w)) (cw_shared w) of
     (r, s) \<Rightarrow> (r, w\<lparr>cw_tick := Suc (cw_tick w), cw_shared := s\<rparr>))"
  by (simp add: on_shared_def quiet_env_def Let_def)

lemma quiet_fields: "ce_fresh quiet_env t = 5000 + t" "ce_now quiet_env t = 100 + int t" "ce_integrity quiet_env t = Inr True"
  "ce_socket quiet_env s = Inr (V4 127 0 0 1, 8080)" "ce_circuits quiet_env t = []"
  by (simp_all add: quiet_env_def)

text \<open>An action evaluated on a world: one use after the other.\<close>

lemmas quiet_eval = quiet_shared quiet_fields and_do_def respond_def refuse_def require_def from_result_def look_def
  at_moment_def print_out_def authorize_def open_store_def open_memory_def append_control_audit_def
  append_audit_event_def audit_event_new_def with_previous_hash_def unique_key_def started_def map_err_def Let_def

lemma quiet_alone: "alone quiet_env"
  by (simp add: alone_def quiet)

definition configured :: "role \<Rightarrow> app_config" where
  "configured role = \<lparr>cf_environment = Development, cf_database = ''db'', cf_database_max_bytes = 2000000, cf_skills_file = ''skills'',
     cf_tenant = TenantId ''acme'', cf_principal = \<lparr>pr_operator = OperatorId ''ana'', pr_tenant = TenantId ''acme'', pr_role = role\<rparr>,
     cf_provider = LocalProvider, cf_endpoint = \<lparr>url_text = ''https://model'', url_scheme = ''https''\<rparr>, cf_model_name = ''m'',
     cf_api_key = None, cf_live_requested = False, cf_live_confirmation = False, cf_audit_required = True\<rparr>"

lemma values_operator: "from_values (ce_url quiet_env) (ci_values (values_of ''operator'')) False False True = Inr (configured Operator)"
  by code_simp

lemma values_administrator:
  "from_values (ce_url quiet_env) (ci_values (values_of ''administrator'')) False False True = Inr (configured Administrator)"
  by code_simp

text \<open>An administrator makes a tenant, and revokes the key.\<close>

abbreviation new_tenant :: cli_command where "new_tenant \<equiv> IamCommand (TenantCreate ''beta'' ''Beta'')"

abbreviation drop_key :: cli_command where "drop_key \<equiv> SkillCommand (TrustRevoke ''k1'')"

definition dropped :: cli_world where
  "dropped = snd (run_command quiet_env (values_of ''administrator'') drop_key (started machine))"

lemma allowed: "allows (cf_principal (configured Administrator)) a"
  by (simp add: configured_def allows_def)

lemma demo_loads: "load_registry (sh_files machine) = Inr demo_registry" "load_trust (sh_files machine) = Inr demo_trust"
  "sh_memory machine = empty_memory" "sh_host machine = empty_host"
  by (simp_all add: machine_def load_registry_def load_trust_def)

lemma key_dropped:
  assumes "load_registry (sh_files (cw_shared w)) = Inr demo_registry" "load_trust (sh_files (cw_shared w)) = Inr demo_trust"
    and "sh_memory (cw_shared w) = empty_memory"
  shows "fst (run_command quiet_env (values_of ''administrator'') drop_key w) = Inr ()"
    "sh_snapshots (cw_shared (snd (run_command quiet_env (values_of ''administrator'') drop_key w))) = sh_snapshots (cw_shared w)"
    "length (mm_audit (sh_memory (cw_shared (snd (run_command quiet_env (values_of ''administrator'') drop_key w))))) = 1"
  using assms
  by (simp_all add: run_command_def run_skill_command_def config_known [OF values_administrator] quiet_eval read_registry_def
    read_trust_def skill_operation_def skill_trust_revoke_def skill_change_def revoke_key_def demo_trust_def finish_trust_def
    save_trust_def allowed empty_memory_def)




theorem skill_commands_are_governed_witness:
  "\<exists>R' T' evs'. load_registry (sh_files (cw_shared (snd (run_skill_command quiet_env (values_of ''administrator'')
      (TrustRevoke ''k1'') (started machine))))) = Inr R'
    \<and> load_trust (sh_files (cw_shared (snd (run_skill_command quiet_env (values_of ''administrator'')
      (TrustRevoke ''k1'') (started machine))))) = Inr T'
    \<and> (skill_step (ce_skills quiet_env))\<^sup>=\<^sup>= ([(demo_key, demo_decision)], demo_registry, demo_trust) (evs', R', T')"
  by (rule skill_commands_are_governed [OF quiet_alone]) (simp_all add: started_def demo_loads)

text \<open>The skill is loaded as a tool.\<close>

lemma machine_skills: "skills_at quiet_env machine = free_env" "read_disk machine = (\<lambda>_. Inr ''wasm'')"
proof -
  show disk: "read_disk machine = (\<lambda>_. Inr ''wasm'')" by (simp add: read_disk_def machine_def fun_eq_iff)
  show "skills_at quiet_env machine = free_env"
    unfolding skills_at_def disk using demo_files [of "\<lambda>_. True"] by (simp add: quiet_env_def)
qed

lemma tool_offered: "td_required_capabilities (tl_definition (loaded_tool C demo_tool)) = [MemoryWrite]"
  by (simp add: loaded_tool_def skill_definition_def demo_tool_def demo_artifact_def artifact_of_def demo_record_def
    demo_manifest_def)

lemma quiet_look: "look quiet_env f w = (f (cw_tick w) (100 + int (cw_tick w)) (cw_shared w), w\<lparr>cw_tick := Suc (cw_tick w)\<rparr>)"
  by (simp add: look_def quiet_shared)

lemma tool_registered: "\<exists>tools. register_tool (loaded_tool quiet_env demo_tool) (with_capabilities (host_capabilities cfg)) = Inr tools"
  by (simp add: register_tool_def with_capabilities_def tool_offered denied_capability_def capabilities_allow_def
    host_capabilities_def Let_def)

lemma tool_loaded:
  assumes "cw_shared w = machine"
  shows "\<exists>tools v. build_tool_registry quiet_env cfg w = (Inr tools, v) \<and> cw_shared v = machine"
proof -
  obtain tools where "register_tool (loaded_tool quiet_env demo_tool) (with_capabilities (host_capabilities cfg)) = Inr tools"
    using tool_registered by blast
  then show ?thesis
    using assms
    by (simp add: build_tool_registry_def read_registry_def read_trust_def and_do_def quiet_look demo_loads machine_skills
      demo_verified demo_loaded map_err_def from_result_def respond_def)
qed

theorem loaded_tools_are_approved_witness:
  "\<exists>tools (as :: active_skill_artifact list).
    fst (build_tool_registry quiet_env (configured Operator) (started machine)) = Inr tools
    \<and> fst ` set (rg_tools tools) = (\<lambda>a. ''skill.'' @ ar_name a) ` set as \<and> length as = 1"
proof -
  let ?run = "build_tool_registry quiet_env (configured Operator) (started machine)"
  obtain tools where tools: "fst ?run = Inr tools" using tool_loaded [of "started machine" "configured Operator"]
    by (auto simp: started_def)
  then have "?run = (Inr tools, snd ?run)" by (simp add: prod_eq_iff)
  from loaded_tools_are_approved [OF this] obtain R and as :: "active_skill_artifact list" where
    R: "load_registry (sh_files (ce_between quiet_env (cw_tick (started machine)) (cw_shared (started machine)))) = Inr R"
    and as: "length as = length (active_skills R)" "fst ` set (rg_tools tools) = (\<lambda>a. ''skill.'' @ ar_name a) ` set as"
    by blast
  have "R = demo_registry" using R by (simp add: quiet started_def demo_loads)
  moreover have "length (active_skills demo_registry) = 1"
    by (simp add: active_skills_def demo_registry_def demo_record_def)
  ultimately have "length as = 1" using as(1) by simp
  with tools as(2) show ?thesis by (intro exI conjI)
qed

text \<open>A backup, a revocation, a restore: the entry of the revocation is gone from the trail.\<close>

definition backed_up :: cli_world where
  "backed_up = snd (run_backup quiet_env (values_of ''administrator'') ''b.db'' (started machine))"

definition changed :: cli_world where
  "changed = snd (run_command quiet_env (values_of ''administrator'') drop_key backed_up)"

definition restored :: cli_world where
  "restored = snd (run_restore quiet_env (values_of ''administrator'') ''b.db'' changed)"

lemma backup_ran:
  "run_backup quiet_env (values_of ''administrator'') ''b.db'' (started machine) = (Inr (), backed_up)"
  "cw_shared backed_up = backup_to ''b.db'' machine"
  by (simp_all add: prod_eq_iff backed_up_def run_backup_def config_known [OF values_administrator] quiet_eval allowed
    check_integrity_def)

lemma backup_files: "load_registry (sh_files (cw_shared backed_up)) = Inr demo_registry"
  "load_trust (sh_files (cw_shared backed_up)) = Inr demo_trust" "sh_memory (cw_shared backed_up) = empty_memory"
  by (simp_all add: backup_ran(2) backup_to_def machine_def load_registry_def load_trust_def)

lemma snapshot_kept: "sh_snapshots (cw_shared changed) ''b.db'' = sh_snapshots (cw_shared backed_up) ''b.db''"
  by (simp add: changed_def key_dropped(2) [OF backup_files])

lemma trail_changed: "length (mm_audit (sh_memory (cw_shared changed))) = 1"
  by (simp add: changed_def key_dropped(3) [OF backup_files])

lemma restore_ran: "run_restore quiet_env (values_of ''administrator'') ''b.db'' changed = (Inr (), restored)"
  using snapshot_kept
  by (simp add: prod_eq_iff restored_def run_restore_def config_known [OF values_administrator] quiet_eval allowed
    check_integrity_def backup_ran(2) backup_to_def restore_from_def)

theorem restore_returns_to_backup_witness:
  "mm_audit (sh_memory (cw_shared restored)) = [] \<and> length (mm_audit (sh_memory (cw_shared changed))) = 1"
proof -
  have "memory_without_counter (sh_memory (cw_shared restored)) = memory_without_counter empty_memory"
    using restore_returns_to_backup [OF backup_ran(1) restore_ran snapshot_kept quiet(1) quiet(1)]
    by (simp add: started_def machine_def)
  then have "mm_audit (memory_without_counter (sh_memory (cw_shared restored))) = mm_audit (memory_without_counter empty_memory)"
    by simp
  then show ?thesis by (simp add: memory_without_counter_def empty_memory_def trail_changed)
qed

text \<open>A server on the local host.\<close>

abbreviation serve_locally :: "serving command" where
  "serve_locally \<equiv> serve_agent quiet_env (values_of ''operator'') ''127.0.0.1:8080'' 2 None False False"

lemma breaker_made: "\<exists>b. circuit_breaker_new ''agent-runtime'' default_circuit_config [] = Inr b"
  by (simp add: circuit_breaker_new_def load_circuit_def validate_key_def ascii_white_def)

lemma registered: "bootstrap_principal now (cf_principal (configured Operator)) empty_host \<noteq> Inl e"
  by (simp add: bootstrap_principal_def configured_def validate_key_def ascii_white_def wide_white_def Let_def)

lemma served: "\<exists>serving. fst (serve_locally (started machine)) = Inr serving"
proof -
  have echo: "\<exists>R. register_tool echo_tool tools = Inr R" for tools
    by (simp add: register_tool_def echo_tool_def denied_capability_def capabilities_allow_def Let_def)
  have model: "\<exists>m. build_model quiet_env (configured Operator) = Inr m" by (simp add: build_model_def configured_def)
  obtain tools v where "build_tool_registry quiet_env (configured Operator) \<lparr>cw_tick = 1, cw_shared = machine, cw_printed = []\<rparr>
      = (Inr tools, v)" "cw_shared v = machine"
    using tool_loaded [of "\<lparr>cw_tick = 1, cw_shared = machine, cw_printed = []\<rparr>" "configured Operator"] by auto
  moreover obtain R where "register_tool echo_tool tools = Inr R" using echo by blast
  moreover obtain m where "build_model quiet_env (configured Operator) = Inr m" using model by blast
  moreover obtain h where "bootstrap_principal (100 + int (Suc (Suc (cw_tick v)))) (cf_principal (configured Operator)) empty_host = Inr h"
    using registered by (metis sum.exhaust)
  moreover obtain b where "circuit_breaker_new ''agent-runtime'' default_circuit_config [] = Inr b" using breaker_made by blast
  moreover have "allows (cf_principal (configured Operator)) RunReadOnly" by (simp add: configured_def allows_def)
  ultimately show ?thesis
    by (simp add: serve_agent_def config_known [OF values_operator] quiet_eval start_server_def server_config_def demo_loads
      api_state_new_def default_api_config_def validate_api_config_def seconds_def)
qed

theorem server_starts_safely_witness:
  "\<exists>serving. fst (serve_locally (started machine)) = Inr serving \<and> ac_worker_count (sg_config serving) = 2
    \<and> \<not> ac_live_enabled (sg_config serving)"
proof -
  obtain serving where s: "fst (serve_locally (started machine)) = Inr serving" using served by blast
  then have "serve_locally (started machine) = (Inr serving, snd (serve_locally (started machine)))" by (simp add: prod_eq_iff)
  from server_starts_safely [OF this] s show ?thesis by auto
qed

end
