(* ===== verification/Worker_Audit.thy ===== *)
theory Worker_Audit
  imports Worker_Loop Api_Requests Memory_Facts
begin

text \<open>
  \<^verbatim>\<open>crates/shaka-api/src/lib.rs\<close>: what a worker writes to the audit trail when it has ended a task,
  \<open>audit_task_finish\<close>, and \<open>finish_success\<close> and \<open>finish_failure\<close> with it. The trail is another database: its
  state at the moment of the entry is an argument.
\<close>

text \<open>A task runs under the correlation of the request that submitted it, or under one made of its own identifier.\<close>

definition task_correlation :: "env \<Rightarrow> string \<Rightarrow> task_record \<Rightarrow> correlation" where
  "task_correlation E fresh task =
     (case Option.bind (request_id (ctx_provenance (te_context (ta_envelope task))))
         (\<lambda>r. case with_request_id r of Inl _ \<Rightarrow> None | Inr c \<Rightarrow> Some c) of
        Some c \<Rightarrow> c
      | None \<Rightarrow>
          (case with_request_id (''task-'' @ (case ta_task_id task of TaskId u \<Rightarrow> uuid_text E u)) of
             Inl _ \<Rightarrow> new_correlation fresh
           | Inr c \<Rightarrow> c))"

fun audited_outcome :: "finish_outcome \<Rightarrow> string" where
  "audited_outcome FinishSucceeded = ''succeeded''"
| "audited_outcome (PlanStepSucceeded next) = ''plan_step_succeeded''"
| "audited_outcome FinishCompensated = ''compensated''"
| "audited_outcome (Requeued next) = ''retry_scheduled''"
| "audited_outcome FinishFailed = ''failed''"
| "audited_outcome FinishCancelled = ''cancelled''"

definition finish_metadata :: "env \<Rightarrow> string \<Rightarrow> task_record \<Rightarrow> (string \<times> string) list" where
  "finish_metadata E fresh task =
     correlated (task_correlation E fresh task)
       (case admission_approval_id (ctx_provenance (te_context (ta_envelope task))) of
          None \<Rightarrow> []
        | Some approval \<Rightarrow> [(''admission_approval_id'', uuid_text E approval)])"

text \<open>The logger of the server with its redactor, what the trail answers if it fails, a fresh identifier and its
  text, and the moment.\<close>

record worker_log =
  wl_log :: log_env
  wl_redactor :: redactor
  wl_fault :: "memory_error option"
  wl_event_id :: uuid
  wl_fresh :: string
  wl_now :: instant

definition audit_task_finish :: "env \<Rightarrow> worker_log \<Rightarrow> task_record \<Rightarrow> finish_outcome \<Rightarrow> memory \<Rightarrow> memory" where
  "audit_task_finish E L task outcome m =
     (if wl_fault L \<noteq> None then m
      else case record_audit (wl_log L) (wl_redactor L) (wl_event_id L) (wl_now L) (Some (ta_task_id task)) (ta_tenant task)
          (operator_str (te_operator (ta_envelope task))) ''api.task.finish'' (audited_outcome outcome)
          (finish_metadata E (wl_fresh L) task) m of
        Inl _ \<Rightarrow> m
      | Inr (_, m') \<Rightarrow> m')"

text \<open>What the worker tells the queue.\<close>

definition end_task ::
    "env \<Rightarrow> worker_config \<Rightarrow> task_record \<Rightarrow> uuid \<Rightarrow> orchestrator_error + json option \<Rightarrow> instant \<Rightarrow> server \<Rightarrow>
     queue_error + (finish_outcome \<times> host)" where
  "end_task E W task token answer now s =
     (let (result, err, retryable) =
        (case answer of
           Inr r \<Rightarrow> (r, None, False)
         | Inl e \<Rightarrow> (None, Some (wc_redact W (orchestrator_text e)), is_retryable e))
      in finish_task E (ta_task_id task) (ta_tenant task) token result err retryable now
           (wc_retry_base_ms W) (wc_retry_max_ms W) (worker_plan_context W (sv_breaker s)) (sv_host s))"

definition finish_and_audit ::
    "env \<Rightarrow> worker_config \<Rightarrow> worker_log \<Rightarrow> task_record \<Rightarrow> uuid \<Rightarrow> orchestrator_error + json option \<Rightarrow> instant \<Rightarrow>
     server \<Rightarrow> memory \<Rightarrow> (worker \<times> server) \<times> memory" where
  "finish_and_audit E W L task token answer now s m =
     (case end_task E W task token answer now s of
        Inl _ \<Rightarrow> ((Asking, s), m)
      | Inr (outcome, h) \<Rightarrow> ((Asking, s\<lparr>sv_host := h\<rparr>), audit_task_finish E L task outcome m))"

subsection \<open>What the trail says of the end of a task\<close>

text \<open>The entry does not change what the step does to the server.\<close>

theorem finish_and_audit_finishes:
  "fst (finish_and_audit E W L task token answer now s m) = finish_work E W task token answer now s"
  by (auto simp: finish_and_audit_def end_task_def finish_work_def Let_def split: sum.splits)

text \<open>The entry of a task's end.\<close>

definition ends_in_trail :: "task_record \<Rightarrow> finish_outcome \<Rightarrow> audit_row \<Rightarrow> bool" where
  "ends_in_trail task outcome row \<longleftrightarrow> ad_tenant row = ta_tenant task
     \<and> av_task_id (ad_event_json row) = Some (ta_task_id task) \<and> av_tenant (ad_event_json row) = ta_tenant task
     \<and> av_actor (ad_event_json row) = operator_str (te_operator (ta_envelope task))
     \<and> av_action (ad_event_json row) = ''api.task.finish'' \<and> av_outcome (ad_event_json row) = audited_outcome outcome"

text \<open>When the queue accepts the end and the trail does not fail, one entry says so, with the outcome the queue gave;
  otherwise the trail is as it was.\<close>

theorem finished_task_is_recorded:
  "case end_task E W task token answer now s of
     Inl _ \<Rightarrow> snd (finish_and_audit E W L task token answer now s m) = m
   | Inr (outcome, h) \<Rightarrow>
       if wl_fault L = None \<and> wl_event_id L \<notin> ad_event_id ` set (mm_audit m) then
         \<exists>row. snd (finish_and_audit E W L task token answer now s m) = m\<lparr>mm_audit := mm_audit m @ [row]\<rparr>
           \<and> ends_in_trail task outcome row
       else snd (finish_and_audit E W L task token answer now s m) = m"
  by (auto simp: finish_and_audit_def audit_task_finish_def record_audit_def append_audit_event_def unique_key_def
      audit_event_new_def with_previous_hash_def ends_in_trail_def list_ex_iff image_iff Let_def ensure_def
      split: sum.splits if_splits)

lemma audit_of_finish_step:
  "snd (finish_and_audit E W L task token answer now s m) = m
    \<or> memory_step (lg_memory (wl_log L)) m (snd (finish_and_audit E W L task token answer now s m))"
  by (auto simp: finish_and_audit_def audit_task_finish_def record_audit_def intro: M_audit split: sum.splits)

text \<open>A task that has ended answers whoever ends it again with its outcome, whatever token is shown and whatever
  the run gave: the trail takes a second entry, of a run whose result was dropped.\<close>

theorem late_finish_is_recorded:
  assumes "load_task E (ta_task_id task) (ta_tenant task) (hs_db (sv_host s)) = Inr stored" "task_is_terminal (ta_status stored)"
    and "wl_fault L = None" "wl_event_id L \<notin> ad_event_id ` set (mm_audit m)"
  shows "\<exists>row. finish_and_audit E W L task token answer now s m = ((Asking, s), m\<lparr>mm_audit := mm_audit m @ [row]\<rparr>)
    \<and> ends_in_trail task (terminal_outcome (ta_status stored)) row"
proof -
  have "end_task E W task token answer now s = Inr (terminal_outcome (ta_status stored), sv_host s)"
    using assms(1,2) by (auto simp: end_task_def finish_task_def Let_def split: sum.splits)
  with finished_task_is_recorded [where E = E and W = W and L = L and task = task and token = token and answer = answer
      and now = now and s = s and m = m] assms(3,4) show ?thesis
    by (auto simp: finish_and_audit_def)
qed

end
