(* ===== verification/Database_Open.thy ===== *)
theory Database_Open
  imports Store_Types Memory_Store App_Config Effects
begin

text \<open>
  The opening of the database: \<open>configure_database_quota\<close>, \<open>migrate\<close> and the \<open>ensure_...\<close> functions of
  \<^verbatim>\<open>crates/shaka-queue/src/lib.rs\<close>, and those of \<^verbatim>\<open>crates/shaka-memory/src/lib.rs\<close>. A schema is the tables with the names
  of their columns, the indexes, and the version in the row of the plan store. Every statement commits: an error
  leaves what was done before it.
\<close>

subsection \<open>Schemas\<close>

record index_definition =
  ix_unique :: bool
  ix_table :: string
  ix_columns :: "string list"

record schema =
  ds_tables :: "(string \<times> string list) list"
  ds_indexes :: "(string \<times> index_definition) list"
  ds_version :: "int option"

definition empty_schema :: schema where
  "empty_schema = \<lparr>ds_tables = [], ds_indexes = [], ds_version = None\<rparr>"

datatype ddl_error = NoSuchTable string | NoSuchColumn string | DuplicateColumn string | RowsNotUnique string | DriverFailed string

text \<open>\<open>'e\<close> is the error type of the store. A division by zero is a panic.\<close>

datatype 'e open_error = OpenStore 'e | OpenDriver ddl_error | OpenPanic

text \<open>What the driver answers: to the opening of the file, for the size of a page, for a limit on the pages that was asked
  for, and whether the rows there are unique as an index of that name wants them.\<close>

record driver =
  dv_open :: "ddl_error + unit"
  dv_page_size :: "ddl_error + int"
  dv_max_pages :: "u64 \<Rightarrow> ddl_error + int"
  dv_unique :: "string \<Rightarrow> bool"

type_synonym 'e ddl = "(schema, 'e open_error, unit) act"

datatype statement =
  CreateTable string "string list" | CreateIndex string bool string "string list" | RecordVersion int

definition columns_of :: "string \<Rightarrow> schema \<Rightarrow> string list option" where
  "columns_of table s = map_of (ds_tables s) table"

text \<open>\<open>CREATE TABLE IF NOT EXISTS\<close>, \<open>CREATE [UNIQUE] INDEX IF NOT EXISTS\<close> and \<open>INSERT OR IGNORE\<close>.\<close>

fun run_statement :: "driver \<Rightarrow> statement \<Rightarrow> 'e ddl" where
  "run_statement D (CreateTable table columns) s =
     (Inr (), if columns_of table s = None then s\<lparr>ds_tables := ds_tables s @ [(table, columns)]\<rparr> else s)"
| "run_statement D (CreateIndex name is_unique table columns) s =
     (if map_of (ds_indexes s) name \<noteq> None then (Inr (), s)
      else case columns_of table s of
          None \<Rightarrow> (Inl (OpenDriver (NoSuchTable table)), s)
        | Some existing \<Rightarrow>
            if \<not> set columns \<subseteq> set existing then (Inl (OpenDriver (NoSuchColumn table)), s)
            else if is_unique \<and> \<not> dv_unique D name then (Inl (OpenDriver (RowsNotUnique name)), s)
            else (Inr (), s\<lparr>ds_indexes := ds_indexes s @
              [(name, \<lparr>ix_unique = is_unique, ix_table = table, ix_columns = columns\<rparr>)]\<rparr>))"
| "run_statement D (RecordVersion v) s =
     (if columns_of ''shaka_schema_versions'' s = None then (Inl (OpenDriver (NoSuchTable ''shaka_schema_versions'')), s)
      else (Inr (), if ds_version s = None then s\<lparr>ds_version := Some v\<rparr> else s))"

fun run_all :: "('st \<Rightarrow> ('w, 'e, unit) act) \<Rightarrow> 'st list \<Rightarrow> ('w, 'e, unit) act" where
  "run_all run [] = respond ()"
| "run_all run (st # sts) = and_do (run st) (\<lambda>_. run_all run sts)"

text \<open>\<open>ALTER TABLE ... ADD COLUMN\<close>.\<close>

definition add_column :: "string \<Rightarrow> string \<Rightarrow> 'e ddl" where
  "add_column table column s =
     (case columns_of table s of
        None \<Rightarrow> (Inl (OpenDriver (NoSuchTable table)), s)
      | Some existing \<Rightarrow>
          if column \<in> set existing then (Inl (OpenDriver (DuplicateColumn column)), s)
          else (Inr (), s\<lparr>ds_tables := map (\<lambda>(t, cs). (t, if t = table then cs @ [column] else cs)) (ds_tables s)\<rparr>))"

text \<open>The columns are read once; those that are missing are added one by one.\<close>

definition ensure_columns :: "string \<Rightarrow> string list \<Rightarrow> 'e ddl" where
  "ensure_columns table wanted s =
     (let existing = (case columns_of table s of None \<Rightarrow> [] | Some cs \<Rightarrow> cs)
      in run_all (add_column table) (filter (\<lambda>c. c \<notin> set existing) wanted) s)"

subsection \<open>The database of the queue\<close>

definition api_statements :: "statement list" where
  "api_statements =
    [CreateTable ''api_sessions'' [''session_id'', ''tenant_id'', ''operator_id'', ''role'', ''created_at'',
       ''last_seen_at'', ''metadata_json''],
     CreateIndex ''idx_api_sessions_tenant_seen'' False ''api_sessions'' [''tenant_id'', ''last_seen_at''],
     CreateTable ''api_tasks'' [''task_id'', ''session_id'', ''tenant_id'', ''idempotency_key'',
       ''request_fingerprint'', ''objective'', ''envelope_json'', ''status'', ''priority'', ''attempts'',
       ''max_attempts'', ''next_attempt_at'', ''cancel_requested'', ''lease_until'', ''lease_token'',
       ''result_json'', ''last_error'', ''created_at'', ''updated_at'', ''completed_at'', ''plan_id'',
       ''plan_revision'', ''plan_digest'', ''plan_step_id''],
     CreateIndex ''idx_api_tasks_ready'' False ''api_tasks'' [''status'', ''cancel_requested'',
       ''next_attempt_at'', ''priority'', ''created_at''],
     CreateIndex ''idx_api_tasks_tenant_updated'' False ''api_tasks'' [''tenant_id'', ''updated_at''],
     CreateTable ''api_circuit_breaker'' [''name'', ''state'', ''failure_count'', ''opened_at'',
       ''next_probe_at''],
     CreateTable ''api_tenants'' [''tenant_id'', ''display_name'', ''active'', ''created_at''],
     CreateTable ''api_users'' [''operator_id'', ''tenant_id'', ''role'', ''active'', ''created_at'',
       ''updated_at''],
     CreateIndex ''idx_api_users_tenant'' False ''api_users'' [''tenant_id'', ''active''],
     CreateTable ''api_tokens'' [''token_id'', ''token_hash'', ''token_prefix'', ''operator_id'',
       ''created_at'', ''expires_at'', ''revoked_at'', ''last_used_at''],
     CreateIndex ''idx_api_tokens_operator'' False ''api_tokens'' [''operator_id'', ''revoked_at''],
     CreateTable ''api_tenant_limits'' [''tenant_id'', ''max_active_tasks'', ''max_daily_tasks'',
       ''max_daily_cost_microunits'', ''requests_per_window'', ''window_seconds''],
     CreateTable ''api_rate_windows'' [''scope_key'', ''window_start'', ''request_count''],
     CreateIndex ''idx_api_rate_windows_start'' False ''api_rate_windows'' [''window_start'']]"

definition plan_statements :: "statement list" where
  "plan_statements =
    [CreateTable ''shaka_schema_versions'' [''component'', ''version''],
     RecordVersion 3,
     CreateTable ''plans'' [''plan_id'', ''tenant_id'', ''task_id'', ''revision'', ''plan_json'', ''state'',
       ''mode'', ''risk'', ''digest'', ''created_at'', ''updated_at''],
     CreateIndex ''idx_plans_tenant_updated'' False ''plans'' [''tenant_id'', ''updated_at''],
     CreateIndex ''idx_plans_tenant_digest'' True ''plans'' [''tenant_id'', ''plan_id'', ''revision'',
       ''digest''],
     CreateTable ''plan_steps'' [''plan_id'', ''revision'', ''step_id'', ''depends_json'', ''action_json'',
       ''preconditions_json'', ''postconditions_json'', ''state'', ''attempts'', ''max_attempts'',
       ''compensation_step_id''],
     CreateTable ''plan_checkpoints'' [''plan_id'', ''revision'', ''sequence'', ''step_id'', ''phase'',
       ''status'', ''state_digest'', ''created_at''],
     CreateTable ''plan_approvals'' [''approval_id'', ''plan_id'', ''revision'', ''tenant_id'', ''step_id'',
       ''approval_json'', ''revoked'', ''expires_at'', ''created_at'', ''idempotency_key''],
     CreateIndex ''idx_plan_approvals_scope'' False ''plan_approvals'' [''plan_id'', ''revision'', ''step_id'',
       ''revoked'', ''expires_at''],
     CreateTable ''plan_transitions'' [''transition_id'', ''plan_id'', ''revision'', ''sequence'', ''entity'',
       ''entity_id'', ''transition_json'', ''idempotency_key'', ''previous_hash'', ''event_hash'',
       ''created_at''],
     CreateIndex ''idx_plan_transitions_scope'' False ''plan_transitions'' [''plan_id'', ''revision'',
       ''sequence''],
     CreateTable ''plan_compensations'' [''plan_id'', ''revision'', ''step_id'', ''compensation_step_id'']]"

definition ensure_api_task_plan_columns :: "driver \<Rightarrow> 'e ddl" where
  "ensure_api_task_plan_columns D =
     and_do (ensure_columns ''api_tasks'' [''plan_id'', ''plan_revision'', ''plan_digest'', ''plan_step_id'', ''lease_token'']) (\<lambda>_.
     run_statement D (CreateIndex ''idx_api_tasks_plan_claim'' False ''api_tasks''
       [''plan_id'', ''plan_revision'', ''plan_step_id'', ''status'']))"

definition ensure_plan_approval_columns :: "driver \<Rightarrow> 'e ddl" where
  "ensure_plan_approval_columns D =
     and_do (ensure_columns ''plan_approvals'' [''idempotency_key'']) (\<lambda>_.
     run_statement D (CreateIndex ''idx_plan_approvals_idempotency'' True ''plan_approvals''
       [''plan_id'', ''revision'', ''idempotency_key'']))"

definition check_schema_version :: "queue_error ddl" where
  "check_schema_version s =
     (case ds_version s of
        None \<Rightarrow> (Inl (OpenStore (Sqlite QueryReturnedNoRows)), s)
      | Some v \<Rightarrow>
          if v > 3 then (Inl (OpenStore (QInvalidInput ''schema plan_store mais novo que o suportado'')), s)
          else (Inr (), if v < 3 then s\<lparr>ds_version := Some 3\<rparr> else s))"

definition migrate :: "driver \<Rightarrow> queue_error ddl" where
  "migrate D =
     and_do (run_all (run_statement D) (api_statements @ plan_statements)) (\<lambda>_.
     and_do (ensure_api_task_plan_columns D) (\<lambda>_.
     and_do (ensure_plan_approval_columns D) (\<lambda>_.
     check_schema_version)))"

text \<open>\<open>quota_error\<close> is the error of the store for a limit that cannot be had.\<close>

definition configure_database_quota :: "(u64 \<Rightarrow> u64 \<Rightarrow> 'e) \<Rightarrow> driver \<Rightarrow> u64 \<Rightarrow> 'e open_error + unit" where
  "configure_database_quota quota_error D max_bytes =
     (let refused = OpenStore (quota_error max_bytes MIN_DATABASE_MAX_BYTES) in
      and_then (ensure (\<not> max_bytes < MIN_DATABASE_MAX_BYTES) refused) (\<lambda>_.
      and_then (map_err OpenDriver (dv_page_size D)) (\<lambda>p.
      and_then (ensure (0 \<le> p) refused) (\<lambda>_.
      let page_size = word_of_int p :: u64 in
      and_then (ensure (page_size \<noteq> 0) OpenPanic) (\<lambda>_.
      let max_pages = max_bytes div page_size in
      and_then (ensure (max_pages \<noteq> 0) refused) (\<lambda>_.
      and_then (map_err OpenDriver (dv_max_pages D max_pages)) (\<lambda>effective_pages.
      ensure (effective_pages = min (uint max_pages) (2 ^ 63 - 1)) refused)))))))"

definition open_queue_store :: "driver \<Rightarrow> u64 \<Rightarrow> queue_error ddl" where
  "open_queue_store D max_bytes =
     and_do (from_result (map_err OpenDriver (dv_open D))) (\<lambda>_.
     and_do (from_result (configure_database_quota InvalidDatabaseQuota D max_bytes)) (\<lambda>_.
     migrate D))"

subsection \<open>The database of the memory\<close>

definition memory_statements :: "statement list" where
  "memory_statements =
    [CreateTable ''episodic_memory'' [''id'', ''tenant_id'', ''task_id'', ''kind'', ''content'', ''outcome'',
       ''cost_microunits'', ''elapsed_ms'', ''created_at''],
     CreateIndex ''idx_episodic_tenant_created'' False ''episodic_memory'' [''tenant_id'', ''created_at''],
     CreateTable ''semantic_memory'' [''id'', ''tenant_id'', ''title'', ''content'', ''source_episode_id'',
       ''version'', ''created_at''],
     CreateIndex ''idx_semantic_tenant_title'' False ''semantic_memory'' [''tenant_id'', ''title''],
     CreateTable ''working_memory'' [''tenant_id'', ''task_id'', ''key'', ''value'', ''expires_at''],
     CreateTable ''audit_events'' [''event_id'', ''tenant_id'', ''task_id'', ''event_json'', ''event_hash'',
       ''occurred_at''],
     CreateIndex ''idx_audit_tenant_occurred'' False ''audit_events'' [''tenant_id'', ''occurred_at'']]"

definition migrate_memory :: "driver \<Rightarrow> memory_error ddl" where
  "migrate_memory D = run_all (run_statement D) memory_statements"

definition configure_memory_quota :: "driver \<Rightarrow> u64 \<Rightarrow> memory_error open_error + unit" where
  "configure_memory_quota = configure_database_quota MInvalidDatabaseQuota"

definition open_memory_store :: "driver \<Rightarrow> u64 \<Rightarrow> memory_error ddl" where
  "open_memory_store D max_bytes =
     and_do (from_result (map_err OpenDriver (dv_open D))) (\<lambda>_.
     and_do (from_result (configure_memory_quota D max_bytes)) (\<lambda>_.
     migrate_memory D))"

definition required_schema_tables :: "string list" where
  "required_schema_tables = [''episodic_memory'', ''semantic_memory'', ''working_memory'', ''audit_events'']"

definition verify_required_schema :: "schema \<Rightarrow> bool" where
  "verify_required_schema s = list_all (\<lambda>t. columns_of t s \<noteq> None) required_schema_tables"

end
