(* ===== verification/Database_Facts.thy ===== *)
theory Database_Facts
  imports Database_Open
begin

text \<open>
  The opening of a database: what is done twice is done once, columns and indexes are only added, every schema of an
  older version is completed, and the limit on the file bounds it.
\<close>

subsection \<open>Steps that settle something\<close>

text \<open>A step that settles something for good, and does nothing where that is settled: what a list of them
  settles stays settled, and running the list again does nothing.\<close>

locale settling =
  fixes run :: "'st \<Rightarrow> ('w, 'e, unit) act"
    and settled :: "'st \<Rightarrow> 'w \<Rightarrow> bool"
    and grows :: "'w \<Rightarrow> 'w \<Rightarrow> bool"
  assumes settles: "run st w = (Inr (), w') \<Longrightarrow> settled st w'"
    and skips: "settled st w \<Longrightarrow> run st w = (Inr (), w)"
    and extends: "run st w = (r, w') \<Longrightarrow> grows w w'"
    and stays: "settled st w \<Longrightarrow> grows w w' \<Longrightarrow> settled st w'"
    and refl: "grows w w"
    and trans: "grows w w' \<Longrightarrow> grows w' w'' \<Longrightarrow> grows w w''"
begin

lemma all_extend: "run_all run sts w = (r, w') \<Longrightarrow> grows w w'"
proof (induction sts arbitrary: w)
  case Nil
  then show ?case by (auto simp: respond_def refl)
next
  case (Cons st sts)
  obtain q w1 where first: "run st w = (q, w1)" by fastforce
  with Cons.prems have "w' = w1 \<or> run_all run sts w1 = (r, w')" by (auto simp: and_do_def split: sum.splits)
  with extends [OF first] Cons.IH show ?case by (metis trans)
qed

lemma all_settle: "run_all run sts w = (Inr (), w') \<Longrightarrow> st \<in> set sts \<Longrightarrow> settled st w'"
proof (induction sts arbitrary: w)
  case (Cons st' sts)
  from Cons.prems(1) obtain w1 where "run st' w = (Inr (), w1)" "run_all run sts w1 = (Inr (), w')"
    by (auto simp: and_do_Inr)
  with Cons.IH Cons.prems(2) settles stays all_extend show ?case by (metis set_ConsD)
qed simp

lemma all_skip: "(\<And>st. st \<in> set sts \<Longrightarrow> settled st w) \<Longrightarrow> run_all run sts w = (Inr (), w)"
  by (induction sts) (auto simp: respond_def and_do_def skips)

end

subsection \<open>Statements\<close>

definition schema_grows :: "schema \<Rightarrow> schema \<Rightarrow> bool" where
  "schema_grows s s' \<longleftrightarrow>
     (\<forall>t cs. columns_of t s = Some cs \<longrightarrow> (\<exists>cs'. columns_of t s' = Some cs' \<and> set cs \<subseteq> set cs'))
     \<and> (\<forall>n i. map_of (ds_indexes s) n = Some i \<longrightarrow> map_of (ds_indexes s') n = Some i)
     \<and> (ds_version s \<noteq> None \<longrightarrow> ds_version s' \<noteq> None)"

fun settled :: "statement \<Rightarrow> schema \<Rightarrow> bool" where
  "settled (CreateTable t cs) s \<longleftrightarrow> columns_of t s \<noteq> None"
| "settled (CreateIndex n u t cs) s \<longleftrightarrow> map_of (ds_indexes s) n \<noteq> None"
| "settled (RecordVersion v) s \<longleftrightarrow> columns_of ''shaka_schema_versions'' s \<noteq> None \<and> ds_version s \<noteq> None"

lemma schema_grows_refl: "schema_grows s s"
  by (auto simp: schema_grows_def)

lemma schema_grows_trans: "schema_grows s s' \<Longrightarrow> schema_grows s' s'' \<Longrightarrow> schema_grows s s''"
  unfolding schema_grows_def by (meson order_trans)

lemma grown_columns:
  "columns_of t s = Some cs \<Longrightarrow> A \<subseteq> set cs \<Longrightarrow> schema_grows s s' \<Longrightarrow> \<exists>cs'. columns_of t s' = Some cs' \<and> A \<subseteq> set cs'"
  unfolding schema_grows_def by (meson order_trans)

lemma grown_index: "map_of (ds_indexes s) n \<noteq> None \<Longrightarrow> schema_grows s s' \<Longrightarrow> map_of (ds_indexes s') n \<noteq> None"
  unfolding schema_grows_def by force

lemma table_stays: "columns_of t s \<noteq> None \<Longrightarrow> schema_grows s s' \<Longrightarrow> columns_of t s' \<noteq> None"
  unfolding schema_grows_def by force

lemma settled_stays: "settled st s \<Longrightarrow> schema_grows s s' \<Longrightarrow> settled st s'"
  using table_stays [of _ s s'] by (cases st) (auto simp: schema_grows_def simp del: not_None_eq)

lemma statement_grows: "run_statement D st s = (r, s') \<Longrightarrow> schema_grows s s'"
  by (cases st) (auto simp: schema_grows_def columns_of_def map_add_def split: if_splits option.splits)

lemma statement_settles: "run_statement D st s = (Inr (), s') \<Longrightarrow> settled st s'"
  by (cases st) (auto simp: columns_of_def map_add_def split: if_splits option.splits)

lemma settled_skips: "settled st s \<Longrightarrow> run_statement D st s = (Inr (), s)"
  by (cases st) auto

interpretation ddl: settling "run_statement D :: statement \<Rightarrow> 'e ddl" settled schema_grows for D :: driver
  by unfold_locales
    (blast intro: statement_settles settled_skips statement_grows settled_stays schema_grows_trans schema_grows_refl)+

subsection \<open>The tables the queue wants\<close>

fun tables_of :: "statement list \<Rightarrow> (string \<times> string list) list" where
  "tables_of [] = []"
| "tables_of (CreateTable t cs # sts) = (t, cs) # tables_of sts"
| "tables_of (_ # sts) = tables_of sts"

definition required_tables :: "(string \<times> string list) list" where
  "required_tables = tables_of (api_statements @ plan_statements)"

definition added_columns :: "string \<Rightarrow> string list" where
  "added_columns t =
     (if t = ''api_tasks'' then [''plan_id'', ''plan_revision'', ''plan_digest'', ''plan_step_id'', ''lease_token'']
      else if t = ''plan_approvals'' then [''idempotency_key''] else [])"

text \<open>A database of an older version may lack tables, and the columns that are added; a complete one lacks nothing.\<close>

definition older_schema :: "schema \<Rightarrow> bool" where
  "older_schema s \<longleftrightarrow> (\<forall>(t, req) \<in> set required_tables.
     case columns_of t s of None \<Rightarrow> True | Some cs \<Rightarrow> set req - set (added_columns t) \<subseteq> set cs)"

definition complete_schema :: "schema \<Rightarrow> bool" where
  "complete_schema s \<longleftrightarrow> (\<forall>(t, req) \<in> set required_tables.
     case columns_of t s of None \<Rightarrow> False | Some cs \<Rightarrow> set req \<subseteq> set cs)"

definition recorded_version :: "schema \<Rightarrow> int option" where
  "recorded_version s = (case ds_version s of None \<Rightarrow> Some 3 | Some v \<Rightarrow> Some v)"

text \<open>Every index is made on a table that is there, over columns that every version of the table has.\<close>

fun in_order :: "string list \<Rightarrow> statement list \<Rightarrow> bool" where
  "in_order known [] \<longleftrightarrow> True"
| "in_order known (CreateTable t cs # sts) \<longleftrightarrow> (t, cs) \<in> set required_tables \<and> in_order (t # known) sts"
| "in_order known (CreateIndex n u t cs # sts) \<longleftrightarrow> t \<in> set known
     \<and> (\<exists>(t', req) \<in> set required_tables. t' = t \<and> set cs \<subseteq> set req - set (added_columns t)) \<and> in_order known sts"
| "in_order known (RecordVersion v # sts) \<longleftrightarrow> ''shaka_schema_versions'' \<in> set known \<and> v = 3 \<and> in_order known sts"

lemma queue_statements_in_order: "in_order [] (api_statements @ plan_statements)"
  by code_simp

lemma required_distinct: "distinct (map fst required_tables)"
  by (simp add: required_tables_def api_statements_def plan_statements_def)

lemma columns_of_new:
  "columns_of t (s\<lparr>ds_tables := ds_tables s @ [(t', cs)]\<rparr>)
    = (if columns_of t s = None \<and> t = t' then Some cs else columns_of t s)"
  by (auto simp: columns_of_def map_add_def split: option.splits)

lemma columns_of_updates [simp]: "columns_of t (s\<lparr>ds_indexes := is\<rparr>) = columns_of t s" "columns_of t (s\<lparr>ds_version := v\<rparr>) = columns_of t s"
  by (simp_all add: columns_of_def)

lemma older_schemaI:
  "(\<And>t req cs. (t, req) \<in> set required_tables \<Longrightarrow> columns_of t s = Some cs \<Longrightarrow> set req - set (added_columns t) \<subseteq> set cs)
    \<Longrightarrow> older_schema s"
  unfolding older_schema_def by (auto split: option.split)

lemma older_schemaD:
  "older_schema s \<Longrightarrow> (t, req) \<in> set required_tables \<Longrightarrow> columns_of t s = Some cs \<Longrightarrow> set req - set (added_columns t) \<subseteq> set cs"
  unfolding older_schema_def by fastforce

lemma older_same: "older_schema s \<Longrightarrow> (\<And>t. columns_of t s' = columns_of t s) \<Longrightarrow> older_schema s'"
  unfolding older_schema_def by simp

lemma older_new:
  assumes "older_schema s" "(t, cs) \<in> set required_tables" "columns_of t s = None"
  shows "older_schema (s\<lparr>ds_tables := ds_tables s @ [(t, cs)]\<rparr>)"
proof (rule older_schemaI)
  fix t' req cs'
  assume t': "(t', req) \<in> set required_tables" "columns_of t' (s\<lparr>ds_tables := ds_tables s @ [(t, cs)]\<rparr>) = Some cs'"
  show "set req - set (added_columns t') \<subseteq> set cs'"
  proof (cases "t' = t")
    case True
    then have "req = cs" using t'(1) assms(2) required_distinct by (metis eq_key_imp_eq_value)
    with True t'(2) assms(3) show ?thesis by (auto simp: columns_of_new)
  qed (use t' assms(1) in \<open>auto simp: columns_of_new dest: older_schemaD\<close>)
qed

lemma batch_runs:
  assumes "in_order known sts" "older_schema s" "\<forall>t \<in> set known. columns_of t s \<noteq> None" "\<forall>n. dv_unique D n"
  shows "\<exists>s'. run_all (run_statement D :: statement \<Rightarrow> 'e ddl) sts s = (Inr (), s') \<and> older_schema s'
    \<and> ds_version s' \<in> {ds_version s, recorded_version s}"
  using assms
proof (induction sts arbitrary: s known)
  case (Cons st sts)
  obtain s1 k where "(run_statement D st :: 'e ddl) s = (Inr (), s1)" "older_schema s1"
      "ds_version s1 \<in> {ds_version s, recorded_version s}" "in_order k sts" "\<forall>t \<in> set k. columns_of t s1 \<noteq> None"
  proof (cases st)
    case (CreateTable t cs)
    show thesis
    proof (rule that)
      show "(run_statement D st :: 'e ddl) s = (Inr (), if columns_of t s = None then s\<lparr>ds_tables := ds_tables s @ [(t, cs)]\<rparr> else s)"
        by (simp add: CreateTable)
      show "in_order (t # known) sts" using Cons.prems(1) CreateTable by simp
    qed (use Cons.prems CreateTable in \<open>simp_all add: older_new columns_of_new recorded_version_def\<close>)
  next
    case (CreateIndex n u t cs)
    obtain req existing where req: "(t, req) \<in> set required_tables" "set cs \<subseteq> set req - set (added_columns t)"
      and there: "columns_of t s = Some existing" using Cons.prems(1,3) CreateIndex by auto
    then have ok: "set cs \<subseteq> set existing" using older_schemaD [OF Cons.prems(2)] by blast
    show thesis
    proof (rule that)
      show "(run_statement D st :: 'e ddl) s = (Inr (), if map_of (ds_indexes s) n \<noteq> None then s
          else s\<lparr>ds_indexes := ds_indexes s @ [(n, \<lparr>ix_unique = u, ix_table = t, ix_columns = cs\<rparr>)]\<rparr>)"
        using ok there Cons.prems(4) CreateIndex by simp
      show "in_order known sts" using Cons.prems(1) CreateIndex by simp
    qed (use Cons.prems in \<open>simp_all add: older_same recorded_version_def\<close>)
  next
    case (RecordVersion v)
    show thesis
    proof (rule that)
      show "(run_statement D st :: 'e ddl) s = (Inr (), if ds_version s = None then s\<lparr>ds_version := Some v\<rparr> else s)"
        using Cons.prems(1,3) RecordVersion by simp
      show "in_order known sts" using Cons.prems(1) RecordVersion by simp
    qed (use Cons.prems RecordVersion in \<open>simp_all add: older_same recorded_version_def\<close>)
  qed
  then show ?case using Cons.IH [of k s1] Cons.prems(4) by (auto simp: and_do_def recorded_version_def split: option.splits)
qed (simp add: respond_def)

subsection \<open>Missing columns\<close>

lemma columns_of_added:
  "columns_of t (s\<lparr>ds_tables := map (\<lambda>(t', cs). (t', if t' = table then cs @ [c] else cs)) (ds_tables s)\<rparr>)
    = map_option (\<lambda>cs. if t = table then cs @ [c] else cs) (columns_of t s)"
proof -
  have "map_of (map (\<lambda>(t', cs). (t', if t' = table then cs @ [c] else cs)) ts) t
      = map_option (\<lambda>cs. if t = table then cs @ [c] else cs) (map_of ts t)" for ts
    by (induction ts) auto
  then show ?thesis by (simp add: columns_of_def)
qed

lemma add_all:
  assumes "columns_of table s = Some cs" "distinct new" "set new \<inter> set cs = {}"
  shows "\<exists>s'. run_all (add_column table :: string \<Rightarrow> 'e ddl) new s = (Inr (), s')
    \<and> (\<forall>t. columns_of t s' = (if t = table then Some (cs @ new) else columns_of t s))
    \<and> ds_indexes s' = ds_indexes s \<and> ds_version s' = ds_version s"
  using assms
proof (induction new arbitrary: s cs)
  case (Cons c new)
  define s1 where "s1 = s\<lparr>ds_tables := map (\<lambda>(t, cs). (t, if t = table then cs @ [c] else cs)) (ds_tables s)\<rparr>"
  have first: "(add_column table c :: 'e ddl) s = (Inr (), s1)" using Cons.prems by (simp add: add_column_def s1_def)
  have cols: "columns_of t s1 = (if t = table then Some (cs @ [c]) else columns_of t s)" for t
    using Cons.prems(1) unfolding s1_def columns_of_added by (cases "columns_of t s") auto
  have same: "ds_indexes s1 = ds_indexes s" "ds_version s1 = ds_version s" by (simp_all add: s1_def)
  have "\<exists>s'. run_all (add_column table :: string \<Rightarrow> 'e ddl) new s1 = (Inr (), s')
      \<and> (\<forall>t. columns_of t s' = (if t = table then Some ((cs @ [c]) @ new) else columns_of t s1))
      \<and> ds_indexes s' = ds_indexes s1 \<and> ds_version s' = ds_version s1"
    using Cons.prems cols by (intro Cons.IH) auto
  then show ?case by (auto simp: and_do_def first cols same)
qed (simp add: respond_def)

lemma ensure_columns_works:
  assumes "columns_of table s = Some cs" "distinct wanted"
  shows "\<exists>s'. (ensure_columns table wanted :: 'e ddl) s = (Inr (), s')
    \<and> (\<forall>t. columns_of t s' = (if t = table then Some (cs @ filter (\<lambda>c. c \<notin> set cs) wanted) else columns_of t s))
    \<and> ds_indexes s' = ds_indexes s \<and> ds_version s' = ds_version s"
  unfolding ensure_columns_def Let_def assms(1) option.case
  by (rule add_all) (use assms in auto)

lemma ensure_columns_skips:
  "columns_of table s = Some cs \<Longrightarrow> set wanted \<subseteq> set cs \<Longrightarrow> ensure_columns table wanted s = (Inr (), s)"
proof -
  assume a: "columns_of table s = Some cs" "set wanted \<subseteq> set cs"
  then have "filter (\<lambda>c. c \<notin> set cs) wanted = []" by (auto simp: filter_empty_conv)
  with a show ?thesis by (simp add: ensure_columns_def respond_def)
qed

text \<open>The two \<open>ensure_...\<close> functions: the columns, then an index over them.\<close>

lemma ensure_works:
  assumes "columns_of table s = Some cs" "distinct wanted" "set ix \<subseteq> set cs \<union> set wanted" "\<forall>n. dv_unique D n"
  shows "\<exists>s' cs'. and_do (ensure_columns table wanted) (\<lambda>_. run_statement D (CreateIndex n u table ix) :: 'e ddl) s = (Inr (), s')
    \<and> schema_grows s s' \<and> ds_version s' = ds_version s \<and> columns_of table s' = Some cs' \<and> set wanted \<subseteq> set cs'
    \<and> map_of (ds_indexes s') n \<noteq> None"
proof -
  obtain s1 where s1: "(ensure_columns table wanted :: 'e ddl) s = (Inr (), s1)" "ds_indexes s1 = ds_indexes s" "ds_version s1 = ds_version s"
    "\<And>t. columns_of t s1 = (if t = table then Some (cs @ filter (\<lambda>c. c \<notin> set cs) wanted) else columns_of t s)"
    using ensure_columns_works [OF assms(1,2)] by blast
  define s2 where "s2 = (if map_of (ds_indexes s1) n \<noteq> None then s1
    else s1\<lparr>ds_indexes := ds_indexes s1 @ [(n, \<lparr>ix_unique = u, ix_table = table, ix_columns = ix\<rparr>)]\<rparr>)"
  have ix: "set ix \<subseteq> set (cs @ filter (\<lambda>c. c \<notin> set cs) wanted)" using assms(3) by auto
  then have index: "(run_statement D (CreateIndex n u table ix) :: 'e ddl) s1 = (Inr (), s2)"
    using assms(4) s1(4) by (simp add: s2_def)
  have "schema_grows s s1" using s1 assms(1) by (simp add: schema_grows_def)
  then have "schema_grows s s2" using statement_grows [OF index] by (rule schema_grows_trans)
  moreover have "map_of (ds_indexes s2) n \<noteq> None" using statement_settles [OF index] by simp
  moreover have "columns_of table s2 = Some (cs @ filter (\<lambda>c. c \<notin> set cs) wanted)" by (simp add: s2_def s1(4))
  moreover have "ds_version s2 = ds_version s" by (simp add: s2_def s1(3))
  ultimately show ?thesis using s1(1) index by (auto simp: and_do_def)
qed

lemma ensure_skips:
  assumes "columns_of table s = Some cs" "set wanted \<subseteq> set cs" "map_of (ds_indexes s) n \<noteq> None"
  shows "and_do (ensure_columns table wanted) (\<lambda>_. run_statement D (CreateIndex n u table ix) :: 'e ddl) s = (Inr (), s)"
  using assms by (simp add: and_do_def ensure_columns_skips)

lemma tables_of_iff: "(t, cs) \<in> set (tables_of sts) \<longleftrightarrow> CreateTable t cs \<in> set sts"
  by (induction sts rule: tables_of.induct) auto

lemma special_tables:
  "\<exists>req. (''api_tasks'', req) \<in> set required_tables \<and> ''status'' \<in> set req"
  "\<exists>req. (''plan_approvals'', req) \<in> set required_tables \<and> {''plan_id'', ''revision''} \<subseteq> set req"
  by (auto simp: required_tables_def api_statements_def plan_statements_def)

lemma ensure_tasks:
  assumes "columns_of ''api_tasks'' s = Some cs" "''status'' \<in> set cs" "\<forall>n. dv_unique D n"
  shows "\<exists>s' cs'. (ensure_api_task_plan_columns D :: 'e ddl) s = (Inr (), s') \<and> schema_grows s s' \<and> ds_version s' = ds_version s
    \<and> columns_of ''api_tasks'' s' = Some cs' \<and> set (added_columns ''api_tasks'') \<subseteq> set cs'
    \<and> map_of (ds_indexes s') ''idx_api_tasks_plan_claim'' \<noteq> None"
  unfolding ensure_api_task_plan_columns_def added_columns_def if_P [OF refl]
  by (rule ensure_works [OF assms(1) _ _ assms(3)]) (use assms(2) in simp_all)

lemma ensure_approvals:
  assumes "columns_of ''plan_approvals'' s = Some cs" "{''plan_id'', ''revision''} \<subseteq> set cs" "\<forall>n. dv_unique D n"
  shows "\<exists>s' cs'. (ensure_plan_approval_columns D :: 'e ddl) s = (Inr (), s') \<and> schema_grows s s' \<and> ds_version s' = ds_version s
    \<and> columns_of ''plan_approvals'' s' = Some cs' \<and> set (added_columns ''plan_approvals'') \<subseteq> set cs'
    \<and> map_of (ds_indexes s') ''idx_plan_approvals_idempotency'' \<noteq> None"
proof -
  have added: "added_columns ''plan_approvals'' = [''idempotency_key'']" by (simp add: added_columns_def)
  show ?thesis
    unfolding ensure_plan_approval_columns_def added
    by (rule ensure_works [OF assms(1) _ _ assms(3)]) (use assms(2) in simp_all)
qed

lemma ensure_again:
  "columns_of ''api_tasks'' s = Some cs \<Longrightarrow> set (added_columns ''api_tasks'') \<subseteq> set cs \<Longrightarrow>
    map_of (ds_indexes s) ''idx_api_tasks_plan_claim'' \<noteq> None \<Longrightarrow> ensure_api_task_plan_columns D s = (Inr (), s)"
  "columns_of ''plan_approvals'' s = Some cs' \<Longrightarrow> set (added_columns ''plan_approvals'') \<subseteq> set cs' \<Longrightarrow>
    map_of (ds_indexes s) ''idx_plan_approvals_idempotency'' \<noteq> None \<Longrightarrow> ensure_plan_approval_columns D s = (Inr (), s)"
  unfolding ensure_api_task_plan_columns_def ensure_plan_approval_columns_def
  by (auto intro!: ensure_skips simp: added_columns_def)

lemma records_version: "RecordVersion 3 \<in> set (api_statements @ plan_statements)"
  by (simp add: plan_statements_def)

text \<open>What every version of the database has, and what the two functions add.\<close>

definition has_base :: "schema \<Rightarrow> bool" where
  "has_base s \<longleftrightarrow> (\<forall>(t, req) \<in> set required_tables. \<exists>cs. columns_of t s = Some cs \<and> set req - set (added_columns t) \<subseteq> set cs)"

lemma has_baseD:
  "has_base s \<Longrightarrow> (t, req) \<in> set required_tables \<Longrightarrow> \<exists>cs. columns_of t s = Some cs \<and> set req - set (added_columns t) \<subseteq> set cs"
  unfolding has_base_def by blast

lemma has_base_grows:
  assumes "has_base s" "schema_grows s s'"
  shows "has_base s'"
proof -
  have "\<exists>cs. columns_of t s' = Some cs \<and> set req - set (added_columns t) \<subseteq> set cs" if "(t, req) \<in> set required_tables" for t req
    using has_baseD [OF assms(1) that] grown_columns [OF _ _ assms(2)] by metis
  then show ?thesis unfolding has_base_def by blast
qed

definition ensured :: "schema \<Rightarrow> bool" where
  "ensured s \<longleftrightarrow> (\<exists>cs. columns_of ''api_tasks'' s = Some cs \<and> set (added_columns ''api_tasks'') \<subseteq> set cs)
     \<and> (\<exists>cs. columns_of ''plan_approvals'' s = Some cs \<and> set (added_columns ''plan_approvals'') \<subseteq> set cs)
     \<and> map_of (ds_indexes s) ''idx_api_tasks_plan_claim'' \<noteq> None
     \<and> map_of (ds_indexes s) ''idx_plan_approvals_idempotency'' \<noteq> None"

lemma ensured_grows:
  assumes "ensured s" "schema_grows s s'"
  shows "ensured s'"
proof -
  obtain cs cs' where cs: "columns_of ''api_tasks'' s = Some cs" "set (added_columns ''api_tasks'') \<subseteq> set cs"
      "columns_of ''plan_approvals'' s = Some cs'" "set (added_columns ''plan_approvals'') \<subseteq> set cs'"
      and indexes: "map_of (ds_indexes s) ''idx_api_tasks_plan_claim'' \<noteq> None"
      "map_of (ds_indexes s) ''idx_plan_approvals_idempotency'' \<noteq> None"
    using assms(1) unfolding ensured_def by blast
  show ?thesis
    unfolding ensured_def
    by (intro conjI; rule grown_columns [OF cs(1,2) assms(2)] grown_columns [OF cs(3,4) assms(2)]
      grown_index [OF indexes(1) assms(2)] grown_index [OF indexes(2) assms(2)])
qed

lemma ensure_both:
  assumes "has_base s" "\<forall>n. dv_unique D n"
  shows "\<exists>s2 s3. (ensure_api_task_plan_columns D :: 'e ddl) s = (Inr (), s2)
    \<and> (ensure_plan_approval_columns D :: 'e ddl) s2 = (Inr (), s3) \<and> schema_grows s s3 \<and> ds_version s3 = ds_version s \<and> ensured s3"
proof -
  obtain req where req: "(''api_tasks'', req) \<in> set required_tables" "''status'' \<in> set req" using special_tables(1) by blast
  obtain cs where cs: "columns_of ''api_tasks'' s = Some cs" "set req - set (added_columns ''api_tasks'') \<subseteq> set cs"
    using has_baseD [OF assms(1) req(1)] by blast
  have status: "''status'' \<in> set cs" using req(2) cs(2) by (auto simp: added_columns_def)
  obtain s2 cs2 where s2: "(ensure_api_task_plan_columns D :: 'e ddl) s = (Inr (), s2)" "schema_grows s s2" "ds_version s2 = ds_version s"
      "columns_of ''api_tasks'' s2 = Some cs2" "set (added_columns ''api_tasks'') \<subseteq> set cs2"
      "map_of (ds_indexes s2) ''idx_api_tasks_plan_claim'' \<noteq> None"
    using ensure_tasks [OF cs(1) status assms(2)] by blast
  obtain req' where req': "(''plan_approvals'', req') \<in> set required_tables" "{''plan_id'', ''revision''} \<subseteq> set req'"
    using special_tables(2) by blast
  obtain cs' where cs': "columns_of ''plan_approvals'' s2 = Some cs'" "set req' - set (added_columns ''plan_approvals'') \<subseteq> set cs'"
    using has_baseD [OF has_base_grows [OF assms(1) s2(2)] req'(1)] by blast
  have scope: "{''plan_id'', ''revision''} \<subseteq> set cs'" using req'(2) cs'(2) by (auto simp: added_columns_def)
  obtain s3 cs3 where s3: "(ensure_plan_approval_columns D :: 'e ddl) s2 = (Inr (), s3)" "schema_grows s2 s3" "ds_version s3 = ds_version s2"
      "columns_of ''plan_approvals'' s3 = Some cs3" "set (added_columns ''plan_approvals'') \<subseteq> set cs3"
      "map_of (ds_indexes s3) ''idx_plan_approvals_idempotency'' \<noteq> None"
    using ensure_approvals [OF cs'(1) scope assms(2)] by blast
  have "ensured s3"
    unfolding ensured_def
    by (intro conjI; rule grown_columns [OF s2(4,5) s3(2)] grown_columns [OF s3(4,5) schema_grows_refl]
      grown_index [OF s2(6) s3(2)] s3(6))
  with s2(1,3) s3(1,3) schema_grows_trans [OF s2(2) s3(2)] show ?thesis by auto
qed

text \<open>A schema that holds all of it is left as it is, and is complete.\<close>

definition migrated :: "schema \<Rightarrow> bool" where
  "migrated s \<longleftrightarrow> (\<forall>st \<in> set (api_statements @ plan_statements). settled st s) \<and> ds_version s = Some 3 \<and> ensured s"

lemma migrated_skips:
  assumes "migrated s"
  shows "migrate D s = (Inr (), s)"
proof -
  have "(run_all (run_statement D) (api_statements @ plan_statements) :: queue_error ddl) s = (Inr (), s)"
    using assms by (intro ddl.all_skip) (auto simp: migrated_def)
  moreover have "(ensure_api_task_plan_columns D :: queue_error ddl) s = (Inr (), s)"
      "(ensure_plan_approval_columns D :: queue_error ddl) s = (Inr (), s)"
    using assms by (auto simp: migrated_def ensured_def intro: ensure_again simp del: not_None_eq)
  ultimately show ?thesis
    using assms by (simp add: migrate_def and_do_def check_schema_version_def migrated_def)
qed

lemma migrated_complete:
  assumes "ensured s" "has_base s"
  shows "complete_schema s"
proof -
  have "\<exists>cs. columns_of t s = Some cs \<and> set req \<subseteq> set cs" if t: "(t, req) \<in> set required_tables" for t req
  proof -
    obtain cs where cs: "columns_of t s = Some cs" "set req - set (added_columns t) \<subseteq> set cs" using has_baseD [OF assms(2) t] by blast
    moreover have "set (added_columns t) \<subseteq> set cs"
      using assms(1) cs(1) by (cases "t = ''api_tasks'' \<or> t = ''plan_approvals''") (auto simp: ensured_def added_columns_def)
    ultimately show ?thesis by blast
  qed
  then show ?thesis by (fastforce simp: complete_schema_def)
qed

text \<open>Whatever older version is opened, the migration gets as far as the check of the version, and has done all the rest.\<close>

lemma migration_reaches_check:
  assumes "older_schema s" "\<forall>n. dv_unique D n"
  shows "\<exists>s'. migrate D s = check_schema_version s' \<and> schema_grows s s' \<and> ds_version s' = recorded_version s
    \<and> (\<forall>st \<in> set (api_statements @ plan_statements). settled st s') \<and> ensured s' \<and> has_base s'"
proof -
  obtain s1 where s1: "(run_all (run_statement D) (api_statements @ plan_statements) :: queue_error ddl) s = (Inr (), s1)"
      "older_schema s1" "ds_version s1 \<in> {ds_version s, recorded_version s}"
    using batch_runs [OF queue_statements_in_order assms(1) _ assms(2)] by auto
  have created: "settled st s1" if "st \<in> set (api_statements @ plan_statements)" for st
    using ddl.all_settle [OF s1(1) that] .
  have "\<exists>cs. columns_of t s1 = Some cs \<and> set req - set (added_columns t) \<subseteq> set cs" if "(t, req) \<in> set required_tables" for t req
    using created [of "CreateTable t req"] that older_schemaD [OF s1(2) that]
    by (simp only: required_tables_def tables_of_iff settled.simps) blast
  then have base: "has_base s1" unfolding has_base_def by blast
  obtain s2 s3 where s3: "(ensure_api_task_plan_columns D :: queue_error ddl) s1 = (Inr (), s2)"
      "(ensure_plan_approval_columns D :: queue_error ddl) s2 = (Inr (), s3)" "schema_grows s1 s3" "ds_version s3 = ds_version s1" "ensured s3"
    using ensure_both [OF base assms(2)] by blast
  have "ds_version s3 = recorded_version s"
    using created [OF records_version] s1(3) s3(4) by (auto simp: recorded_version_def)
  moreover have "migrate D s = check_schema_version s3" using s1(1) s3(1,2) by (simp add: migrate_def and_do_def)
  moreover have "schema_grows s s3" by (rule schema_grows_trans [OF ddl.all_extend [OF s1(1)] s3(3)])
  ultimately show ?thesis using settled_stays [OF created s3(3)] s3(5) has_base_grows [OF base s3(3)] by blast
qed

text \<open>C31: whatever older version of the database is opened, its migration succeeds, gives every table its columns and the
  database the version 3, and takes nothing away; done again it does nothing.\<close>

theorem migration_completes_schema:
  assumes "older_schema s" "\<forall>n. dv_unique D n" and "\<And>v. ds_version s = Some v \<Longrightarrow> v \<le> 3"
  shows "\<exists>s'. migrate D s = (Inr (), s') \<and> complete_schema s' \<and> ds_version s' = Some 3
    \<and> (\<forall>t cs. columns_of t s = Some cs \<longrightarrow> (\<exists>cs'. columns_of t s' = Some cs' \<and> set cs \<subseteq> set cs'))
    \<and> migrate D s' = (Inr (), s')"
proof -
  obtain s3 where s3: "migrate D s = check_schema_version s3" "schema_grows s s3" "ds_version s3 = recorded_version s"
      "\<forall>st \<in> set (api_statements @ plan_statements). settled st s3" "ensured s3" "has_base s3"
    using migration_reaches_check [OF assms(1,2)] by blast
  obtain v where v: "ds_version s3 = Some v" "v \<le> 3" using s3(3) assms(3) by (auto simp: recorded_version_def split: option.splits)
  define s4 where "s4 = s3\<lparr>ds_version := Some 3\<rparr>"
  have check: "check_schema_version s3 = (Inr (), s4)" using v by (auto simp: check_schema_version_def s4_def)
  have grows: "schema_grows s3 s4" by (simp add: schema_grows_def s4_def)
  have "migrated s4"
    unfolding migrated_def using s3(4) settled_stays [OF _ grows] ensured_grows [OF s3(5) grows] by (simp add: s4_def)
  then have "migrate D s4 = (Inr (), s4)" by (rule migrated_skips)
  moreover have "complete_schema s4"
    by (rule migrated_complete [OF ensured_grows [OF s3(5) grows] has_base_grows [OF s3(6) grows]])
  moreover have "ds_version s4 = Some 3" by (simp add: s4_def)
  ultimately show ?thesis
    using s3(1) check grown_columns [OF _ order_refl schema_grows_trans [OF s3(2) grows]] by simp
qed

text \<open>A database of a newer version is refused, but only after its schema has been changed to that of this version.\<close>

theorem newer_schema_is_altered:
  assumes "older_schema s" "\<forall>n. dv_unique D n" and "ds_version s = Some v" "v > 3"
  shows "\<exists>s'. migrate D s = (Inl (OpenStore (QInvalidInput ''schema plan_store mais novo que o suportado'')), s') \<and> complete_schema s'"
  using migration_reaches_check [OF assms(1,2)] assms(3,4) migrated_complete
  by (fastforce simp: check_schema_version_def recorded_version_def)

subsection \<open>The limit on the file, and the tables of a backup\<close>

theorem quota_bounds_file:
  assumes "configure_database_quota quota_error D max_bytes = Inr ()"
  shows "MIN_DATABASE_MAX_BYTES \<le> max_bytes
    \<and> (\<exists>p pages. dv_page_size D = Inr p \<and> dv_max_pages D (max_bytes div word_of_int p) = Inr pages
        \<and> 0 < pages \<and> pages * uint (word_of_int p :: u64) \<le> uint max_bytes)"
proof -
  from assms obtain p pages where p: "dv_page_size D = Inr p" "(word_of_int p :: u64) \<noteq> 0"
    and pages: "max_bytes div word_of_int p \<noteq> 0" "dv_max_pages D (max_bytes div word_of_int p) = Inr pages"
      "pages = min (uint (max_bytes div word_of_int p)) (2 ^ 63 - 1)"
    and least: "\<not> max_bytes < MIN_DATABASE_MAX_BYTES"
    by (auto simp: configure_database_quota_def and_then_Inr_iff ensure_Inr_iff map_err_Inr_iff Let_def)
  let ?p = "word_of_int p :: u64"
  have "0 < uint (max_bytes div ?p)" using pages(1) by (metis uint_0_iff uint_nonnegative order_le_less)
  moreover have "uint (max_bytes div ?p) * uint ?p \<le> uint max_bytes"
    by (simp add: uint_div_distrib minus_mod_eq_div_mult [symmetric]) (metis uint_mod_distrib uint_nonnegative)
  moreover have "pages * uint ?p \<le> uint (max_bytes div ?p) * uint ?p"
    by (rule mult_right_mono) (simp_all add: pages(3))
  ultimately show ?thesis using p pages least by (auto simp: not_less)
qed

text \<open>A database that the memory store has opened can be a backup that the store accepts.\<close>

theorem migrated_memory_is_restorable:
  assumes "migrate_memory D s = (Inr (), s')"
  shows "verify_required_schema s' \<and> migrate_memory D s' = (Inr (), s')"
proof -
  have all: "settled st s'" if "st \<in> set memory_statements" for st
    using ddl.all_settle [OF assms [unfolded migrate_memory_def] that] .
  have "\<exists>cs. CreateTable t cs \<in> set memory_statements" if "t \<in> set required_schema_tables" for t
  proof -
    have "set required_schema_tables \<subseteq> fst ` set (tables_of memory_statements)"
      by (simp add: required_schema_tables_def memory_statements_def)
    with that show ?thesis unfolding tables_of_iff [symmetric] by force
  qed
  then have "verify_required_schema s'"
    using all unfolding verify_required_schema_def list_all_iff by (metis settled.simps(1))
  moreover have "migrate_memory D s' = (Inr (), s')"
    unfolding migrate_memory_def by (rule ddl.all_skip) (rule all)
  ultimately show ?thesis ..
qed

subsection \<open>A database from before plans\<close>

definition willing_driver :: driver where
  "willing_driver = \<lparr>dv_open = Inr (), dv_page_size = Inr 4096, dv_max_pages = (\<lambda>n. Inr (uint n)), dv_unique = (\<lambda>_. True)\<rparr>"

definition schema_before_plans :: schema where
  "schema_before_plans = \<lparr>ds_tables =
     [(''api_tasks'', [''task_id'', ''session_id'', ''tenant_id'', ''idempotency_key'', ''request_fingerprint'', ''objective'',
       ''envelope_json'', ''status'', ''priority'', ''attempts'', ''max_attempts'', ''next_attempt_at'', ''cancel_requested'',
       ''lease_until'', ''result_json'', ''last_error'', ''created_at'', ''updated_at'', ''completed_at'', ''note''])],
     ds_indexes = [], ds_version = None\<rparr>"

lemma schema_before_plans_older: "older_schema schema_before_plans"
  by (simp add: older_schema_def required_tables_def api_statements_def plan_statements_def columns_of_def schema_before_plans_def
      added_columns_def Diff_subset_conv)

theorem migration_completes_schema_witness:
  "\<exists>s'. migrate willing_driver schema_before_plans = (Inr (), s') \<and> ds_version s' = Some 3
    \<and> (\<exists>cs. columns_of ''api_tasks'' s' = Some cs \<and> ''note'' \<in> set cs)
    \<and> migrate willing_driver s' = (Inr (), s')"
proof -
  have "\<exists>cs. columns_of ''api_tasks'' schema_before_plans = Some cs \<and> ''note'' \<in> set cs"
    by (simp add: columns_of_def schema_before_plans_def)
  then show ?thesis
    using migration_completes_schema [OF schema_before_plans_older, of willing_driver]
    by (simp add: willing_driver_def schema_before_plans_def subset_iff) blast
qed

text \<open>The quota of one mebibyte on pages of 4096 bytes.\<close>

theorem quota_bounds_file_witness:
  "configure_database_quota InvalidDatabaseQuota willing_driver 1048576 = Inr () \<and> (1048576 :: u64) div 4096 = 256"
proof -
  have "configure_database_quota InvalidDatabaseQuota willing_driver 1048576 = Inr ()" by code_simp
  with quota_bounds_file [OF this] show ?thesis by simp
qed

end
