(* ===== verification/Spec2Isabelle.thy ===== *)
theory Spec2Isabelle
  imports Plan_Store_Facts Plan_Operation_Facts Plan_Log_Growth Queue_Submission_Facts Queue_Recovery_Facts
    Queue_Iam_Facts Worker_Facts Host_Examples Memory_Facts Memory_Examples Agent_Record Agent_Models
    Agent_Examples Skill_Tool Skill_Examples Telemetry App_Config Api_Governance Api_Examples Cli_Examples Worker_Audit
    Database_Facts
begin

text \<open>
  Shaka: a host that runs an agent under governance. This development models the core of its Rust
  workspace (\<^verbatim>\<open>src/crates\<close>): the contracts of \<^verbatim>\<open>shaka-core\<close>, the persistent plan engine and task queue of
  \<^verbatim>\<open>shaka-queue\<close>, the HTTP server and the workers of \<^verbatim>\<open>shaka-api\<close>, the agent runtime of \<^verbatim>\<open>shaka-orchestrator\<close>, the memory and
  audit trail of \<^verbatim>\<open>shaka-memory\<close>, the governance of skills of \<^verbatim>\<open>shaka-skills\<close> with their sandbox, the
  redaction and correlation of \<^verbatim>\<open>shaka-observability\<close>, the configuration of \<^verbatim>\<open>shaka-config\<close>, and the commands
  of \<^verbatim>\<open>shaka-cli\<close>, the program that starts all of it.

  \<^bold>\<open>The program.\<close> An operator submits a task to the queue, over HTTP, directly or with a reference to a plan;
  the server runs each request under the principal of its bearer. A plan
  is a graph of steps with risk and approval levels; it is validated, approved by somebody else than
  its proposer, and admitted with its task. A worker asks the circuit breaker for leave, claims a task
  under a lease with a fresh token, lets the agent runtime execute the task or the step it was handed,
  tells the breaker how it went and ends the task with the token. The runtime asks a model what to do, checks
  and executes the calls of tools it proposes within the budget of the task, and records the run as an
  episode and in the audit trail of the tenant. A skill is a WASM module that an operator approved with a
  signature; as a tool it runs in the sandbox while its approval stands. Leases that run out are taken back;
  a step whose outcome is not known makes its plan \<open>unknown\<close>, to be resolved by a human.

  \<^bold>\<open>State.\<close> All state that survives is in SQLite. A table is a list of records in the order of insertion,
  \<open>UPDATE\<close> is \<open>update_where\<close>, a query for one row is \<open>find\<close>, a unique key is a check before the insertion.
  A transaction is a function to \<open>queue_error + result\<close>: an error leaves the database as it was, because
  the caller drops the value. Where the code commits before it fails, the function returns the
  database beside the error. Fresh UUIDs are the numbers of a counter in the database; timestamps are
  nanoseconds as integers, and the comparison of their RFC 3339 texts in SQL is that of the numbers (the
  text of a later moment in UTC is the greater). A column that holds JSON is typed by what it encodes.
  Rust's unsigned integers are words of their width, their saturating operations written out.

  \<^bold>\<open>Theories of the code.\<close>
  \<^item> \<open>Core_Identity\<close>, \<open>Core_Plan\<close>, \<open>Core_Plan_Spec\<close>: \<^verbatim>\<open>shaka-core/src/lib.rs\<close>; identifiers, roles and
    capabilities, budgets, task envelopes; the state machines of plans and steps, plan validation with its
    depth-first search for cycles, the digest, approvals.
  \<^item> \<open>Plan_Verifier\<close>: \<^verbatim>\<open>shaka-core/src/plan_verifier.rs\<close>.
  \<^item> \<open>Store_Types\<close>, \<open>Plan_Reducer\<close>, \<open>Plan_Recovery\<close>, \<open>Plan_Approvals\<close>, \<open>Plan_Execution\<close>:
    \<^verbatim>\<open>shaka-queue/src/plan_store.rs\<close>; the tables, the hash chained log and its replay, \<open>resume_plan\<close> and
    the \<open>unknown\<close> boundary, approvals and their resolution, claim and end of planned steps.
  \<^item> \<open>Queue_Circuit\<close>, \<open>Queue_Iam\<close>, \<open>Queue_Tasks\<close>: \<^verbatim>\<open>shaka-queue/src/lib.rs\<close>; the circuit breaker, tenants,
    users, tokens, limits and sessions, the task queue.
  \<^item> \<open>Worker_Loop\<close>: \<open>worker_loop\<close> and \<open>execute_task\<close> of \<^verbatim>\<open>shaka-api/src/lib.rs\<close>, one step for each call of the
    queue or of the breaker, interleaved in any order with the steps of other workers and requests. \<open>Worker_Audit\<close>: the
    entry a worker makes when it has ended a task.
  \<^item> \<open>Database_Open\<close>: how \<^verbatim>\<open>shaka-queue/src/lib.rs\<close> and \<^verbatim>\<open>shaka-memory/src/lib.rs\<close> open the database, the limit on its
    size and its migration, on schemas (tables with the names of their columns, indexes, the version).
  \<^item> \<open>Memory_Store\<close>: \<^verbatim>\<open>shaka-memory/src/lib.rs\<close> and the audit event of \<^verbatim>\<open>shaka-core/src/lib.rs\<close>; episodes,
    knowledge, working memory, the audit trail and its verification.
  \<^item> \<open>Agent_Tools\<close>, \<open>Agent_Runtime\<close>, \<open>Agent_Models\<close>: \<^verbatim>\<open>shaka-orchestrator/src/lib.rs\<close>; the registry of tools
    and the checks of a call (\<open>execute_with_scope\<close>), the loop of \<open>run_with_cancellation_and_scope\<close> with its
    early returns, the local model and the client of a remote one.
  \<^item> \<open>Skill_Registry\<close>: \<^verbatim>\<open>shaka-skills/src/lib.rs\<close>; the registry of skills, the trust store of keys, signed
    approvals and their verification. \<open>Skill_Tool\<close>: \<^verbatim>\<open>shaka-sandbox/src/lib.rs\<close> and \<open>WasmSkillTool\<close> of
    \<^verbatim>\<open>shaka-orchestrator/src/lib.rs\<close>; the policy of the sandbox and the tool that asks the files for the approval
    before every execution.

  \<^item> \<open>Telemetry\<close>: \<^verbatim>\<open>shaka-observability/src/lib.rs\<close>; redaction, correlation, the audit logger. \<open>App_Config\<close>:
    \<^verbatim>\<open>shaka-config/src/lib.rs\<close>.
  \<^item> \<open>Api_Requests\<close>, \<open>Api_Handlers\<close>, \<open>Api_Routes\<close>: \<^verbatim>\<open>shaka-api/src/lib.rs\<close>; the configuration and errors of the
    server, authentication, one function per handler, and the routes with what goes around a request. A handler
    is a function in a monad of state and failure over the store and the trail, and before each of its uses of
    the store an argument of the model says what others did to it.
  \<^item> \<open>Cli_World\<close>, \<open>Cli_Commands\<close>, \<open>Cli_Skills\<close>, \<open>Cli_Main\<close>: \<^verbatim>\<open>shaka-cli/src/main.rs\<close>, with the files of keys and
    registries of \<^verbatim>\<open>shaka-skills/src/lib.rs\<close> and backup and restore of \<^verbatim>\<open>shaka-memory/src/lib.rs\<close>. A command is a
    function in the same monad (\<open>Effects\<close>) over what the processes of a machine share (the tables, the files of
    registry and keys, snapshots, the disk), the count of its uses of it, and what it has printed; before each use
    an argument of the model says what other processes did, and each use may fail.

  \<^bold>\<open>Systems.\<close> \<open>Plan_Store\<close> makes the operations of the plan store a step relation on the database,
  \<open>Queue_Host\<close> the public methods of \<open>QueueStore\<close> one on the whole store, \<open>Worker_Loop\<close> the server one on
  the store, the breaker and the workers; each includes the one before, and properties are of the states
  reachable from an empty store. The memory store is a system of its own (\<open>Memory_Facts\<close>), and so are
  the skills with their keys (\<open>Skill_Facts\<close>), with the file system changing between the steps; the runtime is a
  function over it and over a world that says, use by use, what the clock, the model, the disk and the
  operator do.

  \<^bold>\<open>Interfaces.\<close> \<open>store_contract\<close> of \<open>Api_Contract\<close> (what each operation of the store keeps, every request
  keeps; interpreted in \<open>Api_Facts\<close> with \<open>is a run of operations\<close> and with \<open>identities are untouched\<close>), \<open>world_contract\<close>, \<open>store_commands\<close> and \<open>file_commands\<close> of \<open>Cli_Contract\<close> (each extends
  the one before: what the uses of tables, then the operations of the store, then the writes of files keep,
  every command keeps; interpreted with the steps of the systems, with the registration of the principal alone and with
  \<open>the files are untouched\<close>), \<open>Hash_Chain\<close> (an append-only log with seals: the log of a plan and the
  audit trail of a tenant), \<open>settling\<close> of \<open>Database_Facts\<close> (steps that settle something for good, interpreted with the
  statements of a migration), \<open>store_invariant\<close> of \<open>Agent_Record\<close> (what the two writes of the runtime keep, a run
  keeps), the text codecs of \<open>Store_Types\<close>, and
  \<open>Store_Change\<close>: the locale \<open>plan_change\<close> takes a relation that single updates of a table keep and shows
  that every operation keeps it; it is instantiated with the growth of the log (\<open>Plan_Log_Growth\<close>), with
  \<open>the tasks are untouched\<close> and with the discipline of leases (\<open>Queue_Leases\<close>).

  \<^bold>\<open>What is shown.\<close>
  \<^item> \<open>Core_Plan_Facts\<close>, \<open>Plan_Verifier_Facts\<close>: validation decides acyclicity; the digest is canonical; an
    approval is accepted exactly when it is independent, bound and live; the verifier's verdict is
    characterised, and a risky step is executable only with an independent approval.
  \<^item> \<open>Plan_Reducer_Inv\<close>, \<open>Plan_Recovery_Inv\<close>, \<open>Plan_Execution_Inv\<close>, \<open>Plan_Store_Facts\<close>: log, tables and
    checkpoints agree in every reachable store, and \<open>resume_plan\<close> settles every plan.
  \<^item> \<open>Plan_Operation_Facts\<close>, \<open>Plan_Log_Growth\<close>: each operation refines one move of the state machine; the log
    only grows, and the last hash determines it (without collisions of SHA-256 in it).
  \<^item> \<open>Queue_Leases\<close>, \<open>Queue_Facts\<close>, \<open>Queue_Submission_Facts\<close>, \<open>Queue_Recovery_Facts\<close>: the table of tasks is
    well formed; a token that was lost stays lost; claims follow priority and age; submissions are
    idempotent and within limits; the end of a task branch by branch; expired leases are taken back.
  \<^item> \<open>Queue_Iam_Facts\<close>: who a bearer stands for, and that revocation is final.
  \<^item> \<open>Worker_Facts\<close>: leases are held by one worker each, a due task is served, and a probe of the circuit
    spent on an empty queue is lost for good, which is a defect of the code.
  \<^item> \<open>Memory_Facts\<close>: the audit trail verifies in every reachable store; what its last hash determines, and the
    rewriting the verification does not see, which is a defect of the code; working memory round trips.
  \<^item> \<open>Agent_Facts\<close>, \<open>Agent_Record\<close>: a run ends within the steps and calls of its budget, hands only admitted calls
    to tools, answers refused ones, is recorded exactly once, and returns bounded redacted text.
  \<^item> \<open>Skill_Facts\<close>, \<open>Skill_Tool\<close>: what may be executed was signed as it is, under a live key; what was signed may be
    executed; revocation is final; the signed text and the digest determine what they stand for; a skill runs only
    while approved.
  \<^item> \<open>Api_Facts\<close>, \<open>Api_Tenancy\<close>, \<open>Api_Governance\<close>: a request is a run of operations of the store; it is served to
    known bearers only, answers with what belongs to their tenant, submits with the rights of their role and
    approves in their name. \<open>Api_Tenancy\<close> has the small logic of handlers these rest on.
  \<^item> \<open>Telemetry\<close>, \<open>App_Config\<close>: redacted JSON does not depend on what its keys hide; what an accepted
    configuration guarantees.
  \<^item> \<open>Cli_Facts\<close>, \<open>Cli_Governance\<close>, \<open>Cli_Outcomes\<close>: a command is a run of operations of the stores, needs its role, is
    recorded when it succeeds, changes skills only by a step of their governance; the tools and the server it
    starts are safe; a restore undoes what came after the backup. Two commands of skills at the same time lose a
    change, which is a defect of the code.
  \<^item> \<open>Worker_Audit\<close>: one entry for every end of a task the queue accepts. \<open>Database_Facts\<close>: the migration of any older
    database succeeds, completes it, and done again does nothing; the quota bounds the file.
  \<^item> \<open>Sample_Plan\<close>, \<open>Sample_Store\<close>, \<open>Sample_Host\<close>, \<open>Host_Examples\<close>, \<open>Memory_Examples\<close>, \<open>Agent_Examples\<close>,
    \<open>Skill_Examples\<close>, \<open>Api_Examples\<close>, \<open>Cli_Examples\<close>: concrete runs, by evaluation.

  \<^bold>\<open>Parameters.\<close> SHA-256, the RFC 3339 text of a timestamp and the text of a UUID are arguments (\<open>env\<close>,
  \<open>iam_env\<close>, \<open>memory_env\<close>); so are the redaction of credentials, which rests on the \<open>regex\<close> crate, the validation of
  JSON schemas, the HTTP exchange with a remote model, Ed25519, the engine of WASM modules (\<open>wasmtime\<close>), and, for the worker, what the runtime answers;
  the parser and the printer of JSON and the parser of URLs. No property assumes more of them than its statement names. Messages are transliterated
  to ASCII.

  \<^bold>\<open>Bounds.\<close> Nothing runs on fuel: the loops of the code are recursions over lists, the search for cycles
  and the loop of the agent have termination proofs. Not modelled are the overflow of a timestamp (\<open>chrono\<close> panics some
  260000 years from now), failures of the disk and of the SQLite driver other than constraint
  violations and values that do not fit a column, and rows of equal order in \<open>ORDER BY\<close>, which come in the
  order of insertion.

  \<^bold>\<open>Not modelled.\<close> The pragmas of the databases and the types of their columns (a backup is a snapshot of
  the tables); the framework under the handlers of the server (\<open>axum\<close>: matching of paths, parsing of bodies, the TCP
  listener), logs and spans; the parsing of arguments of the command line (\<open>clap\<close>). The writes of other tasks to the memory store during a run are not interleaved with
  those of the run.
\<close>

end
